(* ===== verification/Prelude.thy ===== *)
theory Prelude
  imports Main "HOL-Library.AList" "HOL-Library.Sublist"
begin

text \<open>
  What every component of the operator shares: the Go string operations the sources call
  (package strings, the decimal verbs of package fmt), instants and durations of package time,
  Go maps as association lists, and the collections of simplification rules used by the
  component theories.
\<close>

named_theorems go_simps \<open>unfolding rules for the Go library operations\<close>
named_theorems wf_intros \<open>introduction rules for well-formedness predicates\<close>

subsection \<open>Strings\<close>

text \<open>
  A Go string is a sequence of bytes, here a \<^typ>\<open>string\<close>. Lengths count bytes, as
  \<^verbatim>\<open>len\<close> does.
\<close>

definition hasPrefix :: "string \<Rightarrow> string \<Rightarrow> bool" where
  "hasPrefix s p = (take (length p) s = p)"

definition hasSuffix :: "string \<Rightarrow> string \<Rightarrow> bool" where
  "hasSuffix s p = (length p \<le> length s \<and> drop (length s - length p) s = p)"

fun containsStr :: "string \<Rightarrow> string \<Rightarrow> bool" where
  "containsStr [] p = (p = [])"
| "containsStr (c # s) p = (hasPrefix (c # s) p \<or> containsStr s p)"

definition containsAny :: "string \<Rightarrow> string \<Rightarrow> bool" where
  "containsAny s cs = list_ex (\<lambda>c. c \<in> set cs) s"

definition trimPrefix :: "string \<Rightarrow> string \<Rightarrow> string" where
  "trimPrefix s p = (if hasPrefix s p then drop (length p) s else s)"

text \<open>ASCII white space, the set \<^verbatim>\<open>strings.TrimSpace\<close> cuts from ASCII input.\<close>

definition isSpace :: "char \<Rightarrow> bool" where
  "isSpace c = (c \<in> {CHR 0x09, CHR 0x0A, CHR 0x0B, CHR 0x0C, CHR 0x0D, CHR '' ''})"

definition trimSpace :: "string \<Rightarrow> string" where
  "trimSpace s = rev (dropWhile isSpace (rev (dropWhile isSpace s)))"

fun joinWith :: "string \<Rightarrow> string list \<Rightarrow> string" where
  "joinWith sep [] = []"
| "joinWith sep [x] = x"
| "joinWith sep (x # y # xs) = x @ sep @ joinWith sep (y # xs)"

text \<open>
  \<^verbatim>\<open>strings.LastIndexByte\<close>: the text before and after the last occurrence of the byte.
\<close>

fun splitLast :: "char \<Rightarrow> string \<Rightarrow> (string \<times> string) option" where
  "splitLast c [] = None"
| "splitLast c (x # xs) =
     (case splitLast c xs of
        Some (a, b) \<Rightarrow> Some (x # a, b)
      | None \<Rightarrow> if x = c then Some ([], xs) else None)"

text \<open>The em dash of a few messages, as its UTF-8 bytes.\<close>

definition em_dash :: string where
  "em_dash = [CHR 0xE2, CHR 0x80, CHR 0x94]"

text \<open>
  The \<^verbatim>\<open>%q\<close> verb on printable ASCII text: quotes and backslashes are escaped. The arguments
  are Kubernetes names and enum values.
\<close>

fun escapeQ :: "string \<Rightarrow> string" where
  "escapeQ [] = []"
| "escapeQ (c # s) =
     (if c = CHR 0x22 \<or> c = CHR 0x5C then CHR 0x5C # c # escapeQ s else c # escapeQ s)"

definition quoteQ :: "string \<Rightarrow> string" where
  "quoteQ s = [CHR 0x22] @ escapeQ s @ [CHR 0x22]"

lemma hasPrefix_append [simp]: "hasPrefix (p @ s) p"
  by (simp add: hasPrefix_def)

lemma hasPrefix_iff: "hasPrefix s p \<longleftrightarrow> (\<exists>t. s = p @ t)"
  unfolding hasPrefix_def by (metis append_eq_conv_conj append_take_drop_id)

lemma hasPrefix_Nil [simp]: "hasPrefix s []"
  by (simp add: hasPrefix_def)

lemma hasPrefix_code:
  "hasPrefix s [] = True"
  "hasPrefix [] (c # p) = False"
  "hasPrefix (d # s) (c # p) = (d = c \<and> hasPrefix s p)"
  by (auto simp: hasPrefix_def)

text \<open>Code equations that stop at the first difference or match, also under the simplifier.\<close>

lemma hasPrefix_lazy [code]:
  "hasPrefix s [] = True"
  "hasPrefix [] (c # p) = False"
  "hasPrefix (d # s) (c # p) = (if d = c then hasPrefix s p else False)"
  by (auto simp: hasPrefix_def)

lemma containsStr_lazy [code]:
  "containsStr [] p = (p = [])"
  "containsStr (c # s) p = (if hasPrefix (c # s) p then True else containsStr s p)"
  by auto

lemma trimPrefix_append [simp]: "trimPrefix (p @ s) p = s"
  by (simp add: trimPrefix_def)

lemma hasSuffix_iff: "hasSuffix s p \<longleftrightarrow> (\<exists>t. s = t @ p)"
proof
  assume "hasSuffix s p"
  then have "s = take (length s - length p) s @ p"
    unfolding hasSuffix_def by (metis append_take_drop_id)
  then show "\<exists>t. s = t @ p" by blast
next
  assume "\<exists>t. s = t @ p"
  then show "hasSuffix s p" by (auto simp: hasSuffix_def)
qed

lemma containsStr_iff: "containsStr s p \<longleftrightarrow> (\<exists>a b. s = a @ p @ b)"
proof (induction s)
  case Nil
  then show ?case by simp
next
  case (Cons c s)
  have "(\<exists>a b. c # s = a @ p @ b) \<longleftrightarrow> hasPrefix (c # s) p \<or> (\<exists>a b. s = a @ p @ b)"
    unfolding hasPrefix_iff by (auto simp: Cons_eq_append_conv)
  with Cons show ?case by simp
qed

lemma containsAny_iff: "containsAny s cs \<longleftrightarrow> set s \<inter> set cs \<noteq> {}"
  by (auto simp: containsAny_def list_ex_iff)

lemma set_trimSpace: "set (trimSpace s) \<subseteq> set s"
proof -
  have sub: "\<And>xs. set (dropWhile isSpace xs) \<subseteq> set xs"
    by (metis set_mono_suffix suffix_dropWhile)
  show ?thesis unfolding trimSpace_def set_rev using sub by (metis set_rev subset_trans)
qed

lemma trimSpace_hd: "trimSpace s \<noteq> [] \<Longrightarrow> \<not> isSpace (last (trimSpace s))"
  unfolding trimSpace_def by (simp add: last_rev hd_dropWhile)

lemma dropWhile_dropWhile [simp]: "dropWhile P (dropWhile P xs) = dropWhile P xs"
  by (induction xs) auto

lemma trimSpace_idem [simp]: "trimSpace (trimSpace s) = trimSpace s"
proof -
  let ?a = "dropWhile isSpace s"
  let ?t = "rev (dropWhile isSpace (rev ?a))"
  have "dropWhile isSpace ?t = ?t"
  proof (cases ?t)
    case Nil
    then show ?thesis by (simp only: dropWhile.simps)
  next
    case (Cons x xs)
    obtain ys where "rev ?a = ys @ dropWhile isSpace (rev ?a)"
      by (metis takeWhile_dropWhile_id)
    then have "?a = ?t @ rev ys" by (metis rev_append rev_rev_ident)
    then have "hd ?a = x" and "?a \<noteq> []" using Cons by auto
    then have "\<not> isSpace x" by (metis hd_dropWhile)
    with Cons show ?thesis by simp
  qed
  then show ?thesis by (simp add: trimSpace_def)
qed

lemma splitLast_Some: "splitLast c s = Some (a, b) \<Longrightarrow> s = a @ c # b \<and> c \<notin> set b"
proof (induction s arbitrary: a)
  case (Cons x xs)
  show ?case
  proof (cases "splitLast c xs")
    case None
    have "c \<notin> set xs" using None
      by (induction xs) (auto split: option.splits if_splits)
    with None Cons.prems show ?thesis by (auto split: if_splits)
  next
    case (Some p)
    with Cons show ?thesis by (cases p) auto
  qed
qed simp

lemma splitLast_None: "splitLast c s = None \<longleftrightarrow> c \<notin> set s"
  by (induction s) (auto split: option.splits)

subsection \<open>Decimal numbers\<close>

definition digitChar :: "nat \<Rightarrow> char" where
  "digitChar n = ''0123456789'' ! n"

definition digitVal :: "char \<Rightarrow> nat option" where
  "digitVal c =
     (let n = of_char c :: nat in if 48 \<le> n \<and> n \<le> 57 then Some (n - 48) else None)"

fun showNat :: "nat \<Rightarrow> string" where
  "showNat n = (if n < 10 then [digitChar n] else showNat (n div 10) @ [digitChar (n mod 10)])"

declare showNat.simps [simp del]

text \<open>The \<^verbatim>\<open>%d\<close> verb.\<close>

definition showInt :: "int \<Rightarrow> string" where
  "showInt i = (if i < 0 then CHR ''-'' # showNat (nat (- i)) else showNat (nat i))"

text \<open>Scanning a maximal run of decimal digits, most significant first.\<close>

fun scanDigits :: "nat \<Rightarrow> string \<Rightarrow> nat \<times> string" where
  "scanDigits acc [] = (acc, [])"
| "scanDigits acc (c # s) =
     (case digitVal c of None \<Rightarrow> (acc, c # s) | Some d \<Rightarrow> scanDigits (10 * acc + d) s)"

text \<open>\<^verbatim>\<open>%d\<close> when scanning: an optional sign, then at least one digit, within \<^verbatim>\<open>int\<close>.\<close>

definition scanInt :: "string \<Rightarrow> (int \<times> string) option" where
  "scanInt s =
     (let neg = hasPrefix s ''-'';
          t = (if neg \<or> hasPrefix s ''+'' then tl s else s)
      in case t of
           [] \<Rightarrow> None
         | c # _ \<Rightarrow>
             (if digitVal c = None then None
              else let (n, rest) = scanDigits 0 t; v = (if neg then - int n else int n)
                   in if - (2 ^ 63) \<le> v \<and> v < 2 ^ 63 then Some (v, rest) else None))"

lemma digitVal_digitChar [simp]: "n < 10 \<Longrightarrow> digitVal (digitChar n) = Some n"
proof -
  assume "n < 10"
  then have "n \<in> {0, 1, 2, 3, 4, 5, 6, 7, 8, 9}" by auto
  then show ?thesis by (auto simp: digitChar_def digitVal_def)
qed

lemma digitVal_slash [simp]: "digitVal (CHR ''/'') = None"
  and digitVal_minus [simp]: "digitVal (CHR ''-'') = None"
  and digitVal_plus [simp]: "digitVal (CHR ''+'') = None"
  by (simp_all add: digitVal_def)

lemma scanDigits_append:
  "list_all (\<lambda>c. digitVal c \<noteq> None) ds \<Longrightarrow>
     scanDigits acc (ds @ s) = scanDigits (fst (scanDigits acc ds)) s"
  by (induction ds arbitrary: acc) (auto split: option.splits)

lemma showNat_digits: "list_all (\<lambda>c. digitVal c \<noteq> None) (showNat n)"
proof (induction n rule: showNat.induct)
  case (1 n)
  show ?case
  proof (cases "n < 10")
    case True
    then show ?thesis by (subst showNat.simps) simp
  next
    case False
    with 1 show ?thesis by (subst showNat.simps) simp
  qed
qed

lemma showNat_not_Nil [simp]: "showNat n \<noteq> []"
  by (subst showNat.simps) simp

lemma scanDigits_showNat: "fst (scanDigits 0 (showNat n)) = n"
proof (induction n rule: showNat.induct)
  case (1 n)
  show ?case
  proof (cases "n < 10")
    case True
    then show ?thesis by (subst showNat.simps) simp
  next
    case False
    with 1 have IH: "fst (scanDigits 0 (showNat (n div 10))) = n div 10" by simp
    from False have "showNat n = showNat (n div 10) @ [digitChar (n mod 10)]"
      by (subst showNat.simps) simp
    with IH show ?thesis by (simp add: scanDigits_append [OF showNat_digits])
  qed
qed

lemma scanDigits_stop:
  "s = [] \<or> digitVal (hd s) = None \<Longrightarrow> scanDigits 0 (showNat n @ s) = (n, s)"
  using scanDigits_append [OF showNat_digits, of 0 n s]
  by (cases s) (simp_all add: scanDigits_showNat)

lemma showNat_hd: "digitVal (hd (showNat n)) \<noteq> None"
  using showNat_digits [of n] showNat_not_Nil [of n] by (cases "showNat n") auto

text \<open>Scanning reads back what \<^const>\<open>showInt\<close> printed, within the range of a Go int.\<close>

lemma scanInt_showInt:
  assumes "- (2 ^ 63) \<le> i" "i < 2 ^ 63" "s = [] \<or> digitVal (hd s) = None"
  shows "scanInt (showInt i @ s) = Some (i, s)"
proof -
  have hd: "\<And>n. \<exists>c r. showNat n = c # r \<and> digitVal c \<noteq> None"
    by (metis showNat_hd showNat_not_Nil list.collapse)
  show ?thesis
  proof (cases "i < 0")
    case True
    obtain c r where c: "showNat (nat (- i)) = c # r" "digitVal c \<noteq> None" using hd by blast
    have s1: "scanDigits 0 (c # r @ s) = (nat (- i), s)"
      using scanDigits_stop [OF assms(3), of "nat (- i)"] c(1) by simp
    have "showInt i @ s = CHR ''-'' # c # r @ s" using True c(1) by (simp add: showInt_def)
    then show ?thesis using True assms(1,2) c(2) s1
      by (simp add: scanInt_def hasPrefix_code Let_def del: scanDigits.simps)
  next
    case False
    obtain c r where c: "showNat (nat i) = c # r" "digitVal c \<noteq> None" using hd by blast
    have s1: "scanDigits 0 (c # r @ s) = (nat i, s)"
      using scanDigits_stop [OF assms(3), of "nat i"] c(1) by simp
    have ne: "c \<noteq> CHR ''-''" "c \<noteq> CHR ''+''" using c(2) by auto
    have "showInt i @ s = c # r @ s" using False c(1) by (simp add: showInt_def)
    then show ?thesis using False assms(1,2) c(2) s1 ne
      by (simp add: scanInt_def hasPrefix_code Let_def del: scanDigits.simps)
  qed
qed

subsection \<open>Time\<close>

text \<open>
  An instant is a number of nanoseconds from the Unix epoch, a duration a number of
  nanoseconds. \<^verbatim>\<open>Time.Sub\<close> saturates at the limits of a signed 64-bit duration.
\<close>

type_synonym time = int
type_synonym duration = int

definition zeroTime :: time where
  "zeroTime = - 62135596800000000000"

abbreviation second :: duration where "second \<equiv> 1000000000"
abbreviation minute :: duration where "minute \<equiv> 60 * second"
abbreviation hour :: duration where "hour \<equiv> 3600 * second"

definition timeSub :: "time \<Rightarrow> time \<Rightarrow> duration" where
  "timeSub a b = max (- (2 ^ 63)) (min (2 ^ 63 - 1) (a - b))"

definition isZero :: "time \<Rightarrow> bool" where
  "isZero t = (t = zeroTime)"

lemma timeSub_less: "- (2 ^ 63) < d \<Longrightarrow> d < 2 ^ 63 \<Longrightarrow> timeSub a b < d \<longleftrightarrow> a - b < d"
  by (auto simp: timeSub_def)

lemma timeSub_mono: "a \<le> a' \<Longrightarrow> timeSub a b \<le> timeSub a' b"
  by (auto simp: timeSub_def)

subsection \<open>Maps\<close>

text \<open>
  A Go map is an association list with distinct keys; \<^const>\<open>map_of\<close> reads it,
  \<^const>\<open>AList.update\<close> and \<^const>\<open>AList.delete\<close> write it. Reading a missing key of a
  string map yields the empty string.
\<close>

definition getStr :: "('k \<times> string) list \<Rightarrow> 'k \<Rightarrow> string" where
  "getStr m k = (case map_of m k of None \<Rightarrow> [] | Some v \<Rightarrow> v)"

lemma map_of_update [simp]:
  "map_of (AList.update k v al) k' = (if k' = k then Some v else map_of al k')"
  by (simp add: AList.update_conv)

lemma map_of_delete [simp]:
  "map_of (AList.delete k al) k' = (if k' = k then None else map_of al k')"
  by (simp add: AList.delete_conv)

lemma getStr_update [simp]:
  "getStr (AList.update k v m) k' = (if k' = k then v else getStr m k')"
  by (simp add: getStr_def)

subsection \<open>First matches\<close>

text \<open>A loop that returns on the first element satisfying a test is \<^const>\<open>List.find\<close>.\<close>

lemma find_None_iff_all: "List.find P xs = None \<longleftrightarrow> (\<forall>x \<in> set xs. \<not> P x)"
  by (auto simp: find_None_iff)

lemma find_Some_in: "List.find P xs = Some x \<Longrightarrow> x \<in> set xs \<and> P x"
  by (auto simp: find_Some_iff)

subsection \<open>The interface between the deny list and its clients\<close>

text \<open>
  What a client of the deny list relies on: a verdict for a namespace in a state of the cluster
  that refuses the empty namespace and, in every state, the namespaces of a fixed set.
\<close>

locale namespace_gate =
  fixes prot :: "'w \<Rightarrow> string \<Rightarrow> bool" and denied :: "string set"
  assumes unknown_refused: "prot w []"
    and denied_refused: "ns \<in> denied \<Longrightarrow> prot w ns"
begin

lemma cleared: "\<not> prot w ns \<Longrightarrow> ns \<noteq> [] \<and> ns \<notin> denied"
  using unknown_refused denied_refused by metis

end

end
