(* ===== verification/Json.thy ===== *)
theory Json
  imports Prelude Complex_Main
begin

text \<open>
  The JSON documents that travel in \<^verbatim>\<open>apiextensionsv1.JSON\<close> fields, and the operations the
  remediation package runs on them: the merge patch of the executor
  (\<^verbatim>\<open>internal/remediation/executor.go\<close>), the pre-patch snapshot of the planner path
  (\<^verbatim>\<open>proposer_ai.go\<close>), and the leaf walks of the safety checker and the proposer.

  A decoded object (\<^verbatim>\<open>map[string]any\<close>) is an association list with distinct keys. A raw
  payload is modelled by what decoding it yields: nothing (a zero-length slice), text that is
  not JSON, or a JSON value.
\<close>

datatype json =
    JNull
  | JBool bool
  | JNum rat
  | JStr string
  | JArr "json list"
  | JObj "(string \<times> json) list"

type_synonym jmap = "(string \<times> json) list"

datatype raw = RawEmpty | RawInvalid string | RawJson json

text \<open>\<^verbatim>\<open>len(raw) > 0\<close>.\<close>

definition rawNonEmpty :: "raw \<Rightarrow> bool" where
  "rawNonEmpty r = (r \<noteq> RawEmpty)"

text \<open>
  \<^verbatim>\<open>json.Unmarshal(raw, &m)\<close> for \<^verbatim>\<open>m map[string]any\<close>: an object is decoded, the literal
  null leaves the nil map, everything else (empty input included) is an error.
\<close>

definition unmarshalMap :: "raw \<Rightarrow> jmap option" where
  "unmarshalMap r =
     (case r of
        RawJson (JObj m) \<Rightarrow> Some m
      | RawJson JNull \<Rightarrow> Some []
      | _ \<Rightarrow> None)"

subsection \<open>Well-formed documents\<close>

fun wf_map :: "jmap \<Rightarrow> bool" where
  "wf_map [] = True"
| "wf_map ((k, v) # rest) =
     (k \<notin> fst ` set rest \<and> (case v of JObj c \<Rightarrow> wf_map c | _ \<Rightarrow> True) \<and> wf_map rest)"

fun no_null :: "jmap \<Rightarrow> bool" where
  "no_null [] = True"
| "no_null ((k, v) # rest) =
     (v \<noteq> JNull \<and> (case v of JObj c \<Rightarrow> no_null c | _ \<Rightarrow> True) \<and> no_null rest)"

text \<open>The value at a path of keys.\<close>

fun jpath :: "jmap \<Rightarrow> string list \<Rightarrow> json option" where
  "jpath m [] = Some (JObj m)"
| "jpath m [k] = map_of m k"
| "jpath m (k # k' # ks) =
     (case map_of m k of Some (JObj c) \<Rightarrow> jpath c (k' # ks) | _ \<Rightarrow> None)"

definition is_obj :: "json \<Rightarrow> bool" where
  "is_obj v = (case v of JObj _ \<Rightarrow> True | _ \<Rightarrow> False)"

subsection \<open>Merge patch (executor.go)\<close>

text \<open>
  One iteration of the loop of \<^verbatim>\<open>mergeMaps\<close> is one equation; the loop variable
  \<^verbatim>\<open>result\<close> is the first argument. Ranging over a Go map visits distinct keys in any order;
  \<open>mergeMaps_lookup\<close> below shows the result does not depend on it.
\<close>

fun mergeMaps :: "jmap \<Rightarrow> jmap \<Rightarrow> jmap" where
  "mergeMaps result [] = result"
| "mergeMaps result ((k, patchVal) # rest) =
     mergeMaps
       (case patchVal of
          JNull \<Rightarrow> AList.delete k result
        | JObj patchMap \<Rightarrow>
            (case map_of result k of
               None \<Rightarrow> AList.update k patchVal result
             | Some (JObj targetMap) \<Rightarrow>
                 AList.update k (JObj (mergeMaps targetMap patchMap)) result
             | Some _ \<Rightarrow> AList.update k patchVal result)
        | _ \<Rightarrow> AList.update k patchVal result) rest"

text \<open>
  \<^verbatim>\<open>jsonMergePatch\<close>: decode both documents, merge, encode. Encoding a decoded map cannot
  fail. The two errors say which document did not decode.
\<close>

datatype merge_error = TargetNotObject | PatchNotObject

definition jsonMergePatch :: "raw \<Rightarrow> raw \<Rightarrow> merge_error + raw" where
  "jsonMergePatch target patch =
     (case unmarshalMap target of
        None \<Rightarrow> Inl TargetNotObject
      | Some targetMap \<Rightarrow>
          (case unmarshalMap patch of
             None \<Rightarrow> Inl PatchNotObject
           | Some patchMap \<Rightarrow> Inr (RawJson (JObj (mergeMaps targetMap patchMap)))))"

subsection \<open>Snapshot of the patched paths (proposer\_ai.go)\<close>

fun mirrorExistingPaths :: "jmap \<Rightarrow> jmap \<Rightarrow> jmap" where
  "mirrorExistingPaths [] current = []"
| "mirrorExistingPaths ((key, patchVal) # rest) current =
     (case map_of current key of
        None \<Rightarrow> mirrorExistingPaths rest current
      | Some curVal \<Rightarrow>
          (case (patchVal, curVal) of
             (JObj patchChild, JObj curChild) \<Rightarrow>
               (let child = mirrorExistingPaths patchChild curChild
                in if child \<noteq> [] then (key, JObj child) # mirrorExistingPaths rest current
                   else mirrorExistingPaths rest current)
           | _ \<Rightarrow> (key, curVal) # mirrorExistingPaths rest current))"

subsection \<open>Leaf walks\<close>

text \<open>
  The closures \<^verbatim>\<open>walk\<close> of \<^verbatim>\<open>patchLeafPaths\<close> and \<^verbatim>\<open>patchLeafValues\<close> and the
  recursion of \<^verbatim>\<open>extractResources\<close> visit the same nodes: every non-object value, under
  its dot-joined path.
\<close>

fun walkLeaves :: "string \<Rightarrow> jmap \<Rightarrow> (string \<times> json) list" where
  "walkLeaves pre [] = []"
| "walkLeaves pre ((key, val) # rest) =
     (let path = (if pre \<noteq> [] then pre @ ''.'' @ key else key)
      in (case val of JObj child \<Rightarrow> walkLeaves path child | _ \<Rightarrow> [(path, val)])
         @ walkLeaves pre rest)"

definition patchLeafPaths :: "raw \<Rightarrow> string list" where
  "patchLeafPaths r =
     (case unmarshalMap r of None \<Rightarrow> [] | Some m \<Rightarrow> map fst (walkLeaves [] m))"

definition patchTouchesPath :: "raw \<Rightarrow> string \<Rightarrow> bool" where
  "patchTouchesPath r target = (target \<in> set (patchLeafPaths r))"

definition patchLeafValues :: "raw \<Rightarrow> (string \<times> string) list" where
  "patchLeafValues r =
     (case unmarshalMap r of
        None \<Rightarrow> []
      | Some m \<Rightarrow>
          fold (\<lambda>(path, v) out. case v of JStr s \<Rightarrow> AList.update path s out | _ \<Rightarrow> out)
            (walkLeaves [] m) [])"

text \<open>
  \<^verbatim>\<open>buildNestedMap(keys..., value)\<close>: the last argument is the leaf; fewer than two
  arguments give the nil map.
\<close>

fun nestMap :: "string list \<Rightarrow> json \<Rightarrow> jmap" where
  "nestMap [] v = []"
| "nestMap [k] v = [(k, v)]"
| "nestMap (k # k' # ks) v = [(k, JObj (nestMap (k' # ks) v))]"

definition buildNestedMap :: "string list \<Rightarrow> jmap" where
  "buildNestedMap keys =
     (if length keys < 2 then [] else nestMap (butlast keys) (JStr (last keys)))"

subsection \<open>Laws of the merge\<close>

lemma wf_map_value: "wf_map m \<Longrightarrow> map_of m k = Some (JObj c) \<Longrightarrow> wf_map c"
  by (induction m) (auto split: if_splits)

lemma no_null_value: "no_null m \<Longrightarrow> map_of m k = Some v \<Longrightarrow> v \<noteq> JNull"
  by (induction m) (auto split: if_splits)

lemma no_null_child: "no_null m \<Longrightarrow> map_of m k = Some (JObj c) \<Longrightarrow> no_null c"
  by (induction m) (auto split: if_splits)

text \<open>Keys the patch does not mention keep their value.\<close>

lemma mergeMaps_other: "k \<notin> fst ` set p \<Longrightarrow> map_of (mergeMaps t p) k = map_of t k"
proof (induction p arbitrary: t)
  case (Cons kv p)
  obtain k' v where kv: "kv = (k', v)" by (cases kv)
  with Cons show ?case by (cases v) (auto split: option.splits json.splits)
qed simp

text \<open>
  The characteristic equation: one key of the result depends on that key of the target and of
  the patch only.
\<close>

definition mergeEntry :: "json option \<Rightarrow> json option \<Rightarrow> json option" where
  "mergeEntry old new =
     (case new of
        None \<Rightarrow> old
      | Some JNull \<Rightarrow> None
      | Some (JObj p) \<Rightarrow>
          (case old of Some (JObj t) \<Rightarrow> Some (JObj (mergeMaps t p)) | _ \<Rightarrow> Some (JObj p))
      | Some v \<Rightarrow> Some v)"

lemma mergeMaps_lookup:
  "wf_map p \<Longrightarrow> map_of (mergeMaps t p) k = mergeEntry (map_of t k) (map_of p k)"
proof (induction p arbitrary: t)
  case Nil
  then show ?case by (simp add: mergeEntry_def)
next
  case (Cons kv p)
  obtain k' v where kv: "kv = (k', v)" by (cases kv)
  show ?case
  proof (cases "k = k'")
    case True
    with Cons.prems kv have "k \<notin> fst ` set p" by simp
    with kv True show ?thesis
      by (cases v) (auto simp: mergeMaps_other mergeEntry_def split: option.splits json.splits)
  next
    case False
    from Cons.prems kv have "wf_map p" by simp
    with Cons.IH kv False show ?thesis
      by (cases v) (auto split: option.splits json.splits)
  qed
qed

lemma wf_map_set:
  "wf_map m \<longleftrightarrow> distinct (map fst m) \<and> (\<forall>k c. (k, JObj c) \<in> set m \<longrightarrow> wf_map c)"
proof (induction m)
  case (Cons kv m)
  obtain k v where kv: "kv = (k, v)" by (cases kv)
  with Cons show ?case by (cases v) auto
qed simp

lemma wf_map_iff:
  "wf_map m \<longleftrightarrow> distinct (map fst m) \<and> (\<forall>k c. map_of m k = Some (JObj c) \<longrightarrow> wf_map c)"
  by (subst wf_map_set) (metis map_of_eq_Some_iff)

lemma wf_map_update [wf_intros]:
  "wf_map m \<Longrightarrow> (\<And>c. v = JObj c \<Longrightarrow> wf_map c) \<Longrightarrow> wf_map (AList.update k v m)"
  unfolding wf_map_iff [of m] wf_map_iff [of "AList.update k v m"]
  by (auto simp: distinct_update)

lemma wf_map_delete [wf_intros]: "wf_map m \<Longrightarrow> wf_map (AList.delete k m)"
  unfolding wf_map_iff [of m] wf_map_iff [of "AList.delete k m"]
  by (auto simp: distinct_delete split: if_splits)

lemma mergeMaps_wf [wf_intros]: "wf_map t \<Longrightarrow> wf_map p \<Longrightarrow> wf_map (mergeMaps t p)"
proof (induction t p rule: mergeMaps.induct)
  case (2 result k patchVal rest)
  let ?r = "case patchVal of
      JNull \<Rightarrow> AList.delete k result
    | JObj patchMap \<Rightarrow>
        (case map_of result k of
           None \<Rightarrow> AList.update k patchVal result
         | Some (JObj targetMap) \<Rightarrow> AList.update k (JObj (mergeMaps targetMap patchMap)) result
         | Some _ \<Rightarrow> AList.update k patchVal result)
    | _ \<Rightarrow> AList.update k patchVal result"
  have "wf_map ?r"
    using 2 wf_map_value [OF "2.prems"(1), of k]
    by (cases patchVal) (auto split: option.splits json.splits intro!: wf_intros)
  with "2.IH"(2) "2.prems"(2) show ?case by simp
qed simp

subsection \<open>Laws of the snapshot\<close>

definition mirrorEntry :: "json option \<Rightarrow> json option \<Rightarrow> json option" where
  "mirrorEntry patch cur =
     (case (patch, cur) of
        (Some (JObj p), Some (JObj c)) \<Rightarrow>
          (if mirrorExistingPaths p c \<noteq> [] then Some (JObj (mirrorExistingPaths p c)) else None)
      | (Some _, Some v) \<Rightarrow> Some v
      | _ \<Rightarrow> None)"

lemma mirror_Cons:
  "mirrorExistingPaths ((k, v) # rest) c =
     (case mirrorEntry (Some v) (map_of c k) of
        None \<Rightarrow> mirrorExistingPaths rest c
      | Some x \<Rightarrow> (k, x) # mirrorExistingPaths rest c)"
  by (auto simp: mirrorEntry_def Let_def split: option.splits json.splits)

lemma mirror_None: "mirrorEntry None c = None" and mirror_None2: "mirrorEntry p None = None"
  by (simp_all add: mirrorEntry_def split: option.splits json.splits)

lemma mirror_other: "k \<notin> fst ` set p \<Longrightarrow> map_of (mirrorExistingPaths p c) k = None"
proof (induction p)
  case (Cons kv p)
  then show ?case by (cases kv) (auto simp: mirror_Cons simp del: mirrorExistingPaths.simps split: option.splits)
qed simp

lemma mirror_lookup:
  "wf_map p \<Longrightarrow> map_of (mirrorExistingPaths p c) k = mirrorEntry (map_of p k) (map_of c k)"
proof (induction p)
  case (Cons kv p)
  obtain k' v where kv: "kv = (k', v)" by (cases kv)
  with Cons show ?case
    by (cases "k = k'")
       (auto simp: mirror_Cons mirror_other simp del: mirrorExistingPaths.simps split: option.splits)
qed (simp add: mirror_None)

lemma mirror_keys: "fst ` set (mirrorExistingPaths p c) \<subseteq> fst ` set p"
proof (induction p)
  case (Cons kv p)
  then show ?case by (cases kv) (auto simp: mirror_Cons simp del: mirrorExistingPaths.simps split: option.splits)
qed simp

lemma distinct_mirror: "distinct (map fst p) \<Longrightarrow> distinct (map fst (mirrorExistingPaths p c))"
proof (induction p)
  case (Cons kv p)
  then show ?case using mirror_keys [of p c]
    by (cases kv) (auto simp: mirror_Cons simp del: mirrorExistingPaths.simps split: option.splits)
qed simp

lemma mirror_wf [wf_intros]: "wf_map p \<Longrightarrow> wf_map c \<Longrightarrow> wf_map (mirrorExistingPaths p c)"
proof (induction p c rule: mirrorExistingPaths.induct)
  case (2 key patchVal rest current)
  then show ?case
    using mirror_keys [of rest current] wf_map_value [OF "2.prems"(2), of key]
    by (auto simp: Let_def split: option.splits json.splits)
qed simp

text \<open>
  Applying a patch and then the snapshot taken before it gives back every leaf the document
  had.
\<close>

lemma merge_mirror_restores:
  assumes "wf_map cur" "wf_map p" "no_null cur" "jpath cur path = Some v" "\<not> is_obj v"
  shows "jpath (mergeMaps (mergeMaps cur p) (mirrorExistingPaths p cur)) path = Some v"
  using assms
proof (induction cur path arbitrary: p rule: jpath.induct)
  case (1 m)
  then show ?case by (auto simp: is_obj_def)
next
  case (2 m k)
  have v: "map_of m k = Some v" using 2 by simp
  have "v \<noteq> JNull" using no_null_value [OF "2.prems"(3) v] .
  then have "mergeEntry e (Some v) = Some v" for e
    using "2.prems"(5) by (cases v) (auto simp: mergeEntry_def is_obj_def)
  then show ?case
    using v "2.prems"
    by (cases "map_of p k"; cases v)
       (auto simp: mergeMaps_lookup mirror_lookup mirror_wf mirrorEntry_def is_obj_def
          mergeEntry_def split: json.splits)
next
  case (3 m k k' ks)
  from "3.prems"(4) obtain c where c: "map_of m k = Some (JObj c)" "jpath c (k' # ks) = Some v"
    by (auto split: option.splits json.splits)
  have wfc: "wf_map c" and nnc: "no_null c"
    using c "3.prems" by (auto intro: wf_map_value no_null_child)
  have look: "map_of (mergeMaps (mergeMaps m p) (mirrorExistingPaths p m)) k =
      mergeEntry (mergeEntry (Some (JObj c)) (map_of p k)) (mirrorEntry (map_of p k) (Some (JObj c)))"
    using "3.prems" c by (simp add: mergeMaps_lookup mirror_lookup mirror_wf)
  show ?case
  proof (cases "map_of p k")
    case None
    then show ?thesis using look c by (simp add: mergeEntry_def mirrorEntry_def)
  next
    case (Some pv)
    show ?thesis
    proof (cases pv)
      case (JObj pc)
      have IH: "jpath (mergeMaps (mergeMaps c pc) (mirrorExistingPaths pc c)) (k' # ks) = Some v"
      proof (rule "3.IH" [OF c(1) refl wfc _ nnc c(2) "3.prems"(5)])
        show "wf_map pc" using wf_map_value "3.prems"(2) Some JObj by blast
      qed
      then show ?thesis using look Some JObj
        by (cases "mirrorExistingPaths pc c = []") (simp_all add: mergeEntry_def mirrorEntry_def)
    qed (use look Some c in \<open>simp_all add: mergeEntry_def mirrorEntry_def\<close>)
  qed
qed

end
