(* ===== verification/Api.thy ===== *)
theory Api
  imports Json
begin

text \<open>
  The custom resources of \<^verbatim>\<open>api/v1\<close> the operator's controllers exchange, and the methods
  the API package defines on a RemediationAction
  (\<^verbatim>\<open>api/v1/remediationaction_steps.go\<close>). Structs are records, pointers are options,
  enumerations are datatypes with a constructor for text outside the enumeration, and the
  remaining Go strings are strings.
\<close>

subsection \<open>Errors\<close>

text \<open>
  \<^verbatim>\<open>fmt.Errorf("...: %w", err)\<close> is \<open>Wrap\<close>; \<^verbatim>\<open>*PreconditionError\<close> is the executor's
  error type, found by \<^verbatim>\<open>errors.As\<close> through any number of wraps; errors of the API
  machinery carry their reason.
\<close>

datatype api_reason = NotFound | Conflict | AlreadyExists | OtherReason

datatype goerr =
    Err string
  | PreconditionErr string
  | ApiErr api_reason string
  | Wrap string goerr

fun err_text :: "goerr \<Rightarrow> string" where
  "err_text (Err s) = s"
| "err_text (PreconditionErr r) = ''precondition failed: '' @ r"
| "err_text (ApiErr _ s) = s"
| "err_text (Wrap s e) = s @ '': '' @ err_text e"

fun is_precondition :: "goerr \<Rightarrow> bool" where
  "is_precondition (PreconditionErr _) = True"
| "is_precondition (Wrap _ e) = is_precondition e"
| "is_precondition _ = False"

fun api_reason_of :: "goerr \<Rightarrow> api_reason option" where
  "api_reason_of (ApiErr r _) = Some r"
| "api_reason_of (Wrap _ e) = api_reason_of e"
| "api_reason_of _ = None"

subsection \<open>References and conditions\<close>

record PersonaReference =
  pr_kind :: string
  pr_name :: string
  pr_namespace :: string

record IncidentReference =
  ir_name :: string
  ir_namespace :: string

record ResourceReference =
  rr_kind :: string
  rr_name :: string
  rr_namespace :: string
  rr_role :: string

record RemediationReference =
  rref_name :: string
  rref_namespace :: string

datatype ConditionStatus = CondTrue | CondFalse | CondUnknown

record Condition =
  c_type :: string
  c_status :: ConditionStatus
  c_reason :: string
  c_message :: string
  c_ltt :: time

text \<open>\<^verbatim>\<open>client.ObjectKey\<close>: namespace and name.\<close>

type_synonym objkey = "string \<times> string"

subsection \<open>RemediationAction\<close>

datatype phase =
    Pending | Approved | Applying | Verifying | Completed | Acknowledged
  | RolledBack | Failed | Rejected | Expired | OtherPhase string

definition phase_str :: "phase \<Rightarrow> string" where
  "phase_str p =
     (case p of
        Pending \<Rightarrow> ''Pending'' | Approved \<Rightarrow> ''Approved'' | Applying \<Rightarrow> ''Applying''
      | Verifying \<Rightarrow> ''Verifying'' | Completed \<Rightarrow> ''Completed''
      | Acknowledged \<Rightarrow> ''Acknowledged'' | RolledBack \<Rightarrow> ''RolledBack''
      | Failed \<Rightarrow> ''Failed'' | Rejected \<Rightarrow> ''Rejected'' | Expired \<Rightarrow> ''Expired''
      | OtherPhase s \<Rightarrow> s)"

record ResourceValues =
  rv_cpu :: string
  rv_memory :: string

record ObservedResources =
  or_requests :: "ResourceValues option"
  or_limits :: "ResourceValues option"

record WorkloadRef =
  wr_kind :: string
  wr_name :: string
  wr_namespace :: string
  wr_container :: string
  wr_managedBy :: string
  wr_managedByDetail :: string
  wr_observedResources :: "ObservedResources option"
  wr_observedImage :: string
  wr_observedAt :: "time option"

record RemediationActionDetail =
  ad_type :: string
  ad_patch :: "raw option"
  ad_prePatchState :: "raw option"

record StepSafety =
  ss_rule :: string
  ss_verdict :: string
  ss_field :: string
  ss_baseline :: string
  ss_requested :: string
  ss_permitted :: string
  ss_ratio :: string
  ss_maxRatio :: string
  ss_message :: string

record RemediationStep =
  st_order :: int
  st_id :: string
  st_type :: string
  st_description :: string
  st_rationale :: string
  st_risk :: string
  st_autoExecutable :: bool
  st_command :: string
  st_patch :: "raw option"
  st_prePatchState :: "raw option"
  st_safety :: "StepSafety list"

record AutoApproveRule =
  aar_enabled :: bool
  aar_afterSuccessfulOccurrences :: int

record ApprovalSpec =
  ap_required :: bool
  ap_deadline :: "time option"
  ap_autoApproveRule :: "AutoApproveRule option"

record RemediationRollbackSpec =
  rb_enabled :: bool
  rb_healthCheckAfter :: "duration option"
  rb_maxRetries :: int

record RemediationActionSpec =
  sp_incidentRef :: IncidentReference
  sp_personaRef :: PersonaReference
  sp_trustLevel :: int
  sp_action :: RemediationActionDetail
  sp_steps :: "RemediationStep list"
  sp_planSource :: string
  sp_planSummary :: string
  sp_explanation :: string
  sp_confidence :: string
  sp_workloadRef :: "WorkloadRef option"
  sp_approval :: "ApprovalSpec option"
  sp_rollback :: "RemediationRollbackSpec option"

record StepStatus =
  sst_order :: int
  sst_phase :: string
  sst_appliedAt :: "time option"
  sst_verificationResult :: string

record RemediationActionStatus =
  rs_phase :: phase
  rs_approvedBy :: string
  rs_approvedAt :: "time option"
  rs_appliedAt :: "time option"
  rs_verificationResult :: string
  rs_conditions :: "Condition list"
  rs_currentStep :: int
  rs_stepStatuses :: "StepStatus list"

record RemediationAction =
  ra_name :: string
  ra_namespace :: string
  ra_creationTimestamp :: time
  ra_labels :: "(string \<times> string) list"
  ra_spec :: RemediationActionSpec
  ra_status :: RemediationActionStatus

abbreviation ra_phase :: "RemediationAction \<Rightarrow> phase" where
  "ra_phase a \<equiv> rs_phase (ra_status a)"

abbreviation ra_conditions :: "RemediationAction \<Rightarrow> Condition list" where
  "ra_conditions a \<equiv> rs_conditions (ra_status a)"

definition ra_key :: "RemediationAction \<Rightarrow> objkey" where
  "ra_key a = (ra_namespace a, ra_name a)"

subsection \<open>IncidentMemory\<close>

record DetectionInfo =
  di_signal :: string
  di_source :: string
  di_firstSeen :: time
  di_lastSeen :: time
  di_affectedResources :: "ResourceReference list"

record RootCauseInfo =
  rc_summary :: string
  rc_confidence :: string
  rc_provider :: string
  rc_contributing :: "(string \<times> string) list"

record ResolutionInfo =
  ri_action :: string
  ri_remediationRef :: "RemediationReference option"
  ri_appliedAt :: "time option"
  ri_outcome :: string
  ri_duration :: "duration option"

record IncidentMemorySpec =
  is_personaRef :: PersonaReference
  is_attribution :: string
  is_category :: string
  is_severity :: string
  is_detection :: DetectionInfo
  is_rootCause :: "RootCauseInfo option"
  is_relatedResources :: "ResourceReference list"
  is_resolution :: "ResolutionInfo option"

record IncidentMemoryStatus =
  ims_phase :: string
  ims_occurrenceCount :: int
  ims_lastOccurrence :: "time option"
  ims_conditions :: "Condition list"

record IncidentMemory =
  im_name :: string
  im_namespace :: string
  im_labels :: "(string \<times> string) list"
  im_spec :: IncidentMemorySpec
  im_status :: IncidentMemoryStatus

subsection \<open>Step types and plan methods (remediationaction\_steps.go)\<close>

abbreviation "StepTypePersonaUpdate \<equiv> ''persona-update''"
abbreviation "StepTypeWorkloadApply \<equiv> ''workload-apply''"
abbreviation "StepTypeRestart \<equiv> ''restart''"
abbreviation "StepTypeScale \<equiv> ''scale''"
abbreviation "StepTypeConfigChange \<equiv> ''config-change''"
abbreviation "StepTypeManual \<equiv> ''manual''"
abbreviation "ActionTypePersonaUpdate \<equiv> StepTypePersonaUpdate"
abbreviation "ReasonAdvisoryOnly \<equiv> ''AdvisoryOnly''"
abbreviation "ReasonPreconditionRejected \<equiv> ''PreconditionRejected''"

definition hasPatch :: "raw option \<Rightarrow> bool" where
  "hasPatch p = (case p of None \<Rightarrow> False | Some r \<Rightarrow> rawNonEmpty r)"

definition HasAutoApplicableChange :: "RemediationAction option \<Rightarrow> bool" where
  "HasAutoApplicableChange r =
     (case r of
        None \<Rightarrow> False
      | Some a \<Rightarrow>
          (if list_ex (\<lambda>s. st_autoExecutable s \<and> st_type s = StepTypePersonaUpdate
                           \<and> hasPatch (st_patch s)) (sp_steps (ra_spec a)) then True
           else if 0 < length (sp_steps (ra_spec a)) then False
           else ad_type (sp_action (ra_spec a)) = ActionTypePersonaUpdate
                \<and> hasPatch (ad_patch (sp_action (ra_spec a)))))"

definition legacyActionStepType :: "string \<Rightarrow> string" where
  "legacyActionStepType t =
     (if t = ActionTypePersonaUpdate then StepTypePersonaUpdate else StepTypeManual)"

definition EffectiveSteps :: "RemediationAction option \<Rightarrow> RemediationStep list" where
  "EffectiveSteps r =
     (case r of
        None \<Rightarrow> []
      | Some a \<Rightarrow>
          (if 0 < length (sp_steps (ra_spec a)) then sp_steps (ra_spec a)
           else let legacy = sp_action (ra_spec a)
                in if ad_type legacy = [] then []
                   else [\<lparr>st_order = 1, st_id = ''legacy-action'',
                          st_type = legacyActionStepType (ad_type legacy),
                          st_description = sp_explanation (ra_spec a),
                          st_rationale = [], st_risk = [],
                          st_autoExecutable = (ad_type legacy = ActionTypePersonaUpdate),
                          st_command = [], st_patch = ad_patch legacy,
                          st_prePatchState = ad_prePatchState legacy, st_safety = []\<rparr>]))"

definition MaxStepCommandLength :: nat where
  "MaxStepCommandLength = 1024"

abbreviation "stepCommandPrefix \<equiv> ''kubectl ''"

definition stepCommandForbidden :: string where
  "stepCommandForbidden = '';&|<>'' @ [CHR 0x60] @ ''$'' @ [CHR 0x0A, CHR 0x0D]"

definition SanitizeStepCommand :: "string \<Rightarrow> string" where
  "SanitizeStepCommand cmd =
     (let trimmed = trimSpace cmd
      in if trimmed = [] then []
         else if MaxStepCommandLength < length trimmed then []
         else if \<not> hasPrefix trimmed stepCommandPrefix then []
         else if containsAny trimmed stepCommandForbidden then []
         else trimmed)"

text \<open>
  One error per offending step, in step order; \<^verbatim>\<open>errors.Join\<close> is nil exactly when the list is
  empty.
\<close>

definition autoExecError :: "RemediationStep \<Rightarrow> string" where
  "autoExecError s =
     ''step '' @ showInt (st_order s) @ '' (id='' @ quoteQ (st_id s) @ '', type='' @
     quoteQ (st_type s) @ '') is autoExecutable but only '' @ quoteQ StepTypePersonaUpdate @
     '' steps may be auto-executed''"

definition ValidateAutoExecutable :: "RemediationAction option \<Rightarrow> string list" where
  "ValidateAutoExecutable r =
     (case r of
        None \<Rightarrow> []
      | Some a \<Rightarrow>
          map autoExecError
            (filter (\<lambda>s. st_autoExecutable s \<and> st_type s \<noteq> StepTypePersonaUpdate)
              (sp_steps (ra_spec a))))"

definition IsOwned :: "WorkloadRef option \<Rightarrow> bool" where
  "IsOwned w = (case w of None \<Rightarrow> True | Some r \<Rightarrow> wr_managedBy r \<noteq> ''unmanaged'')"

subsection \<open>Plan laws\<close>

lemma hasPatch_iff: "hasPatch p \<longleftrightarrow> (\<exists>r. p = Some r \<and> r \<noteq> RawEmpty)"
  by (auto simp: hasPatch_def rawNonEmpty_def split: option.splits)

lemma ValidateAutoExecutable_nil:
  "ValidateAutoExecutable (Some a) = [] \<longleftrightarrow>
     (\<forall>s \<in> set (sp_steps (ra_spec a)). st_autoExecutable s \<longrightarrow> st_type s = StepTypePersonaUpdate)"
  by (auto simp: ValidateAutoExecutable_def filter_empty_conv)

lemma EffectiveSteps_steps:
  "sp_steps (ra_spec a) \<noteq> [] \<Longrightarrow> EffectiveSteps (Some a) = sp_steps (ra_spec a)"
  by (simp add: EffectiveSteps_def)

text \<open>
  The plan view agrees with the validation and with the apply decision: when validation
  finds no error, every effective step that is marked auto-executable is a persona update, and
  the plan has an auto-applicable change exactly when some effective step is auto-executable and
  carries a patch. So nothing but a persona update is ever offered for automatic execution,
  whichever of the two plan shapes was authored.
\<close>

theorem effective_steps_safe:
  assumes "ValidateAutoExecutable (Some a) = []"
  shows "(\<forall>s \<in> set (EffectiveSteps (Some a)).
            st_autoExecutable s \<longrightarrow> st_type s = StepTypePersonaUpdate) \<and>
         (HasAutoApplicableChange (Some a) \<longleftrightarrow>
            (\<exists>s \<in> set (EffectiveSteps (Some a)). st_autoExecutable s \<and> hasPatch (st_patch s)))"
proof (cases "sp_steps (ra_spec a) = []")
  case True
  then show ?thesis
    by (auto simp: EffectiveSteps_def HasAutoApplicableChange_def legacyActionStepType_def Let_def)
next
  case False
  then show ?thesis
    using assms unfolding ValidateAutoExecutable_nil
    by (auto simp: EffectiveSteps_steps HasAutoApplicableChange_def list_ex_iff)
qed

text \<open>
  A step command that survives the display guard is one kubectl invocation without shell
  metacharacters, line breaks or surrounding blanks, within the CRD's length bound, and is the
  trimmed input unchanged; sanitizing is idempotent.
\<close>

theorem sanitize_step_command_safe:
  "(SanitizeStepCommand cmd \<noteq> [] \<longrightarrow>
      SanitizeStepCommand cmd = trimSpace cmd \<and>
      hasPrefix (SanitizeStepCommand cmd) stepCommandPrefix \<and>
      length (SanitizeStepCommand cmd) \<le> 1024 \<and>
      set (SanitizeStepCommand cmd) \<inter> set stepCommandForbidden = {}) \<and>
   SanitizeStepCommand (SanitizeStepCommand cmd) = SanitizeStepCommand cmd"
proof -
  have e: "trimSpace [] = []" by (simp add: trimSpace_def)
  show ?thesis
    by (auto simp: SanitizeStepCommand_def Let_def MaxStepCommandLength_def containsAny_iff e)
qed

end
