(* ===== verification/Personas.thy ===== *)
theory Personas
  imports Api
begin

text \<open>
  The two persona resources of \<^verbatim>\<open>api/v1\<close>: the identity of an application and of a cluster.
  The spec of an ApplicationPersona is kept in its JSON image, the form the executor patches; the
  typed struct the controllers and the planner read is \<open>typedSpec\<close> of it, and \<open>marshalSpec\<close>
  is what \<^verbatim>\<open>encoding/json\<close> makes of the struct. Objects read from the API server have been
  pruned and validated against the CRD, so keys are spelled as the tags spell them and values have
  the types of the schema; an absent field, and a null, is the zero value. The statuses are records, with
  the enumerations of the schema as predicates.
\<close>

subsection \<open>Reading and writing struct fields\<close>

definition strField :: "jmap \<Rightarrow> string \<Rightarrow> string" where
  "strField m k = (case map_of m k of Some (JStr s) \<Rightarrow> s | _ \<Rightarrow> [])"

definition intField :: "jmap \<Rightarrow> string \<Rightarrow> int option" where
  "intField m k = (case map_of m k of Some (JNum q) \<Rightarrow> Some \<lfloor>q\<rfloor> | _ \<Rightarrow> None)"

definition boolField :: "jmap \<Rightarrow> string \<Rightarrow> bool option" where
  "boolField m k = (case map_of m k of Some (JBool b) \<Rightarrow> Some b | _ \<Rightarrow> None)"

definition flagField :: "jmap \<Rightarrow> string \<Rightarrow> bool" where
  "flagField m k = (boolField m k = Some True)"

definition objField :: "jmap \<Rightarrow> string \<Rightarrow> jmap option" where
  "objField m k = (case map_of m k of Some (JObj c) \<Rightarrow> Some c | _ \<Rightarrow> None)"

definition arrField :: "jmap \<Rightarrow> string \<Rightarrow> json list" where
  "arrField m k = (case map_of m k of Some (JArr xs) \<Rightarrow> xs | _ \<Rightarrow> [])"

definition asObj :: "json \<Rightarrow> jmap" where
  "asObj v = (case v of JObj c \<Rightarrow> c | _ \<Rightarrow> [])"

definition asStr :: "json \<Rightarrow> string" where
  "asStr v = (case v of JStr s \<Rightarrow> s | _ \<Rightarrow> [])"

definition omitStr :: "string \<Rightarrow> string \<Rightarrow> jmap" where
  "omitStr k s = (if s = [] then [] else [(k, JStr s)])"

definition optInt :: "string \<Rightarrow> int option \<Rightarrow> jmap" where
  "optInt k v = (case v of None \<Rightarrow> [] | Some i \<Rightarrow> [(k, JNum (of_int i))])"

definition optBool :: "string \<Rightarrow> bool option \<Rightarrow> jmap" where
  "optBool k v = (case v of None \<Rightarrow> [] | Some b \<Rightarrow> [(k, JBool b)])"

definition omitBool :: "string \<Rightarrow> bool \<Rightarrow> jmap" where
  "omitBool k b = (if b then [(k, JBool True)] else [])"

definition optObj :: "string \<Rightarrow> jmap option \<Rightarrow> jmap" where
  "optObj k v = (case v of None \<Rightarrow> [] | Some m \<Rightarrow> [(k, JObj m)])"

definition omitArr :: "string \<Rightarrow> json list \<Rightarrow> jmap" where
  "omitArr k xs = (if xs = [] then [] else [(k, JArr xs)])"

subsection \<open>Spec of an ApplicationPersona\<close>

record TechnicalProfile =
  tp_language :: string
  tp_framework :: string
  tp_description :: string

record ResourceConstraints =
  rcn_requests :: "ResourceValues option"
  rcn_limits :: "ResourceValues option"
  rcn_profile :: string

record ScalingSpec =
  scs_minReplicas :: "int option"
  scs_maxReplicas :: "int option"
  scs_targetCPU :: "int option"
  scs_targetMemory :: "int option"
  scs_behavior :: string

record HealthSpec =
  hsp_livenessPath :: string
  hsp_readinessPath :: string
  hsp_port :: "int option"
  hsp_startupGracePeriod :: string

record DependencySpec =
  dep_name :: string
  dep_type :: string
  dep_required :: "bool option"
  dep_healthCheck :: string

record PortSpec =
  prt_port :: int
  prt_protocol :: string
  prt_purpose :: string

record IngressSpec =
  ing_enabled :: bool
  ing_host :: string
  ing_paths :: "string list"
  ing_tlsEnabled :: bool

record NetworkingSpec =
  net_ports :: "PortSpec list"
  net_ingress :: "IngressSpec option"

record OwnershipSpec =
  own_team :: string
  own_owner :: string
  own_repository :: string
  own_onCall :: string
  own_runbook :: string

record SecurityPolicy =
  sec_runAsNonRoot :: "bool option"
  sec_readOnlyRootFilesystem :: "bool option"
  sec_allowPrivilegeEscalation :: "bool option"
  sec_imageRunsAsRoot :: "bool option"
  sec_runAsUser :: "int option"

record DeploymentPolicy =
  dpl_strategy :: string
  dpl_maxSurge :: string
  dpl_maxUnavailable :: string

record MaintenancePolicy =
  mnt_window :: string
  mnt_autoRestart :: "bool option"

record PoliciesSpec =
  pol_security :: "SecurityPolicy option"
  pol_deployment :: "DeploymentPolicy option"
  pol_maintenance :: "MaintenancePolicy option"

record ApplicationPersonaSpec =
  asp_name :: string
  asp_version :: string
  asp_type :: string
  asp_tier :: string
  asp_technical :: "TechnicalProfile option"
  asp_resources :: "ResourceConstraints option"
  asp_scaling :: "ScalingSpec option"
  asp_health :: "HealthSpec option"
  asp_dependencies :: "DependencySpec list"
  asp_networking :: "NetworkingSpec option"
  asp_ownership :: "OwnershipSpec option"
  asp_policies :: "PoliciesSpec option"

definition readResourceValues :: "jmap \<Rightarrow> ResourceValues" where
  "readResourceValues m = \<lparr>rv_cpu = strField m ''cpu'', rv_memory = strField m ''memory''\<rparr>"

definition readTechnical :: "jmap \<Rightarrow> TechnicalProfile" where
  "readTechnical m = \<lparr>tp_language = strField m ''language'', tp_framework = strField m ''framework'',
     tp_description = strField m ''description''\<rparr>"

definition readResources :: "jmap \<Rightarrow> ResourceConstraints" where
  "readResources m = \<lparr>rcn_requests = map_option readResourceValues (objField m ''requests''),
     rcn_limits = map_option readResourceValues (objField m ''limits''),
     rcn_profile = strField m ''profile''\<rparr>"

definition readScaling :: "jmap \<Rightarrow> ScalingSpec" where
  "readScaling m = \<lparr>scs_minReplicas = intField m ''minReplicas'', scs_maxReplicas = intField m ''maxReplicas'',
     scs_targetCPU = intField m ''targetCPU'', scs_targetMemory = intField m ''targetMemory'',
     scs_behavior = strField m ''behavior''\<rparr>"

definition readHealth :: "jmap \<Rightarrow> HealthSpec" where
  "readHealth m = \<lparr>hsp_livenessPath = strField m ''livenessPath'', hsp_readinessPath = strField m ''readinessPath'',
     hsp_port = intField m ''port'', hsp_startupGracePeriod = strField m ''startupGracePeriod''\<rparr>"

definition readDependency :: "jmap \<Rightarrow> DependencySpec" where
  "readDependency m = \<lparr>dep_name = strField m ''name'', dep_type = strField m ''type'',
     dep_required = boolField m ''required'', dep_healthCheck = strField m ''healthCheck''\<rparr>"

definition readPort :: "jmap \<Rightarrow> PortSpec" where
  "readPort m = \<lparr>prt_port = (case intField m ''port'' of None \<Rightarrow> 0 | Some i \<Rightarrow> i),
     prt_protocol = strField m ''protocol'', prt_purpose = strField m ''purpose''\<rparr>"

definition readIngress :: "jmap \<Rightarrow> IngressSpec" where
  "readIngress m = \<lparr>ing_enabled = flagField m ''enabled'', ing_host = strField m ''host'',
     ing_paths = map asStr (arrField m ''paths''), ing_tlsEnabled = flagField m ''tlsEnabled''\<rparr>"

definition readNetworking :: "jmap \<Rightarrow> NetworkingSpec" where
  "readNetworking m = \<lparr>net_ports = map (readPort \<circ> asObj) (arrField m ''ports''),
     net_ingress = map_option readIngress (objField m ''ingress'')\<rparr>"

definition readOwnership :: "jmap \<Rightarrow> OwnershipSpec" where
  "readOwnership m = \<lparr>own_team = strField m ''team'', own_owner = strField m ''owner'',
     own_repository = strField m ''repository'', own_onCall = strField m ''oncall'',
     own_runbook = strField m ''runbook''\<rparr>"

definition readSecurity :: "jmap \<Rightarrow> SecurityPolicy" where
  "readSecurity m = \<lparr>sec_runAsNonRoot = boolField m ''runAsNonRoot'',
     sec_readOnlyRootFilesystem = boolField m ''readOnlyRootFilesystem'',
     sec_allowPrivilegeEscalation = boolField m ''allowPrivilegeEscalation'',
     sec_imageRunsAsRoot = boolField m ''imageRunsAsRoot'', sec_runAsUser = intField m ''runAsUser''\<rparr>"

definition readDeploymentPolicy :: "jmap \<Rightarrow> DeploymentPolicy" where
  "readDeploymentPolicy m = \<lparr>dpl_strategy = strField m ''strategy'', dpl_maxSurge = strField m ''maxSurge'',
     dpl_maxUnavailable = strField m ''maxUnavailable''\<rparr>"

definition readMaintenance :: "jmap \<Rightarrow> MaintenancePolicy" where
  "readMaintenance m = \<lparr>mnt_window = strField m ''window'', mnt_autoRestart = boolField m ''autoRestart''\<rparr>"

definition readPolicies :: "jmap \<Rightarrow> PoliciesSpec" where
  "readPolicies m = \<lparr>pol_security = map_option readSecurity (objField m ''security''),
     pol_deployment = map_option readDeploymentPolicy (objField m ''deployment''),
     pol_maintenance = map_option readMaintenance (objField m ''maintenance'')\<rparr>"

definition typedSpec :: "jmap \<Rightarrow> ApplicationPersonaSpec" where
  "typedSpec m = \<lparr>asp_name = strField m ''name'', asp_version = strField m ''version'',
     asp_type = strField m ''type'', asp_tier = strField m ''tier'',
     asp_technical = map_option readTechnical (objField m ''technical''),
     asp_resources = map_option readResources (objField m ''resources''),
     asp_scaling = map_option readScaling (objField m ''scaling''),
     asp_health = map_option readHealth (objField m ''health''),
     asp_dependencies = map (readDependency \<circ> asObj) (arrField m ''dependencies''),
     asp_networking = map_option readNetworking (objField m ''networking''),
     asp_ownership = map_option readOwnership (objField m ''ownership''),
     asp_policies = map_option readPolicies (objField m ''policies'')\<rparr>"

text \<open>The image \<^verbatim>\<open>json.Marshal\<close> makes of the struct: empty optional fields are left out.\<close>

definition writeResourceValues :: "ResourceValues \<Rightarrow> jmap" where
  "writeResourceValues v = omitStr ''cpu'' (rv_cpu v) @ omitStr ''memory'' (rv_memory v)"

definition writeTechnical :: "TechnicalProfile \<Rightarrow> jmap" where
  "writeTechnical t = omitStr ''language'' (tp_language t) @ omitStr ''framework'' (tp_framework t) @
     omitStr ''description'' (tp_description t)"

definition writeResources :: "ResourceConstraints \<Rightarrow> jmap" where
  "writeResources r = optObj ''requests'' (map_option writeResourceValues (rcn_requests r)) @
     optObj ''limits'' (map_option writeResourceValues (rcn_limits r)) @ omitStr ''profile'' (rcn_profile r)"

definition writeScaling :: "ScalingSpec \<Rightarrow> jmap" where
  "writeScaling s = optInt ''minReplicas'' (scs_minReplicas s) @ optInt ''maxReplicas'' (scs_maxReplicas s) @
     optInt ''targetCPU'' (scs_targetCPU s) @ optInt ''targetMemory'' (scs_targetMemory s) @
     omitStr ''behavior'' (scs_behavior s)"

definition writeHealth :: "HealthSpec \<Rightarrow> jmap" where
  "writeHealth h = omitStr ''livenessPath'' (hsp_livenessPath h) @ omitStr ''readinessPath'' (hsp_readinessPath h) @
     optInt ''port'' (hsp_port h) @ omitStr ''startupGracePeriod'' (hsp_startupGracePeriod h)"

definition writeDependency :: "DependencySpec \<Rightarrow> jmap" where
  "writeDependency d = [(''name'', JStr (dep_name d))] @ omitStr ''type'' (dep_type d) @
     optBool ''required'' (dep_required d) @ omitStr ''healthCheck'' (dep_healthCheck d)"

definition writePort :: "PortSpec \<Rightarrow> jmap" where
  "writePort p = [(''port'', JNum (of_int (prt_port p)))] @ omitStr ''protocol'' (prt_protocol p) @
     omitStr ''purpose'' (prt_purpose p)"

definition writeIngress :: "IngressSpec \<Rightarrow> jmap" where
  "writeIngress i = omitBool ''enabled'' (ing_enabled i) @ omitStr ''host'' (ing_host i) @
     omitArr ''paths'' (map JStr (ing_paths i)) @ omitBool ''tlsEnabled'' (ing_tlsEnabled i)"

definition writeNetworking :: "NetworkingSpec \<Rightarrow> jmap" where
  "writeNetworking n = omitArr ''ports'' (map (JObj \<circ> writePort) (net_ports n)) @
     optObj ''ingress'' (map_option writeIngress (net_ingress n))"

definition writeOwnership :: "OwnershipSpec \<Rightarrow> jmap" where
  "writeOwnership own = omitStr ''team'' (own_team own) @ omitStr ''owner'' (own_owner own) @
     omitStr ''repository'' (own_repository own) @ omitStr ''oncall'' (own_onCall own) @
     omitStr ''runbook'' (own_runbook own)"

definition writeSecurity :: "SecurityPolicy \<Rightarrow> jmap" where
  "writeSecurity s = optBool ''runAsNonRoot'' (sec_runAsNonRoot s) @
     optBool ''readOnlyRootFilesystem'' (sec_readOnlyRootFilesystem s) @
     optBool ''allowPrivilegeEscalation'' (sec_allowPrivilegeEscalation s) @
     optBool ''imageRunsAsRoot'' (sec_imageRunsAsRoot s) @ optInt ''runAsUser'' (sec_runAsUser s)"

definition writeDeploymentPolicy :: "DeploymentPolicy \<Rightarrow> jmap" where
  "writeDeploymentPolicy d = omitStr ''strategy'' (dpl_strategy d) @ omitStr ''maxSurge'' (dpl_maxSurge d) @
     omitStr ''maxUnavailable'' (dpl_maxUnavailable d)"

definition writeMaintenance :: "MaintenancePolicy \<Rightarrow> jmap" where
  "writeMaintenance m = omitStr ''window'' (mnt_window m) @ optBool ''autoRestart'' (mnt_autoRestart m)"

definition writePolicies :: "PoliciesSpec \<Rightarrow> jmap" where
  "writePolicies p = optObj ''security'' (map_option writeSecurity (pol_security p)) @
     optObj ''deployment'' (map_option writeDeploymentPolicy (pol_deployment p)) @
     optObj ''maintenance'' (map_option writeMaintenance (pol_maintenance p))"

definition marshalSpec :: "ApplicationPersonaSpec \<Rightarrow> jmap" where
  "marshalSpec s = [(''name'', JStr (asp_name s))] @ omitStr ''version'' (asp_version s) @
     [(''type'', JStr (asp_type s))] @ omitStr ''tier'' (asp_tier s) @
     optObj ''technical'' (map_option writeTechnical (asp_technical s)) @
     optObj ''resources'' (map_option writeResources (asp_resources s)) @
     optObj ''scaling'' (map_option writeScaling (asp_scaling s)) @
     optObj ''health'' (map_option writeHealth (asp_health s)) @
     omitArr ''dependencies'' (map (JObj \<circ> writeDependency) (asp_dependencies s)) @
     optObj ''networking'' (map_option writeNetworking (asp_networking s)) @
     optObj ''ownership'' (map_option writeOwnership (asp_ownership s)) @
     optObj ''policies'' (map_option writePolicies (asp_policies s))"

subsection \<open>Status of an ApplicationPersona\<close>

record ArgoCDStatus =
  arg_syncStatus :: string
  arg_healthStatus :: string
  arg_lastSyncTime :: "time option"
  arg_revision :: string
  arg_applicationName :: string
  arg_applicationNamespace :: string

record DeploymentRecord =
  dr_version :: string
  dr_timestamp :: string
  dr_status :: string
  dr_triggeredBy :: string

record DeploymentTracking =
  dt_current :: string
  dt_lastSuccessful :: string
  dt_lastFailed :: string
  dt_history :: "DeploymentRecord list"

record PodFailure =
  pfl_podName :: string
  pfl_container :: string
  pfl_reason :: string
  pfl_message :: string

record HealthStatus =
  hst_status :: string
  hst_lastCheck :: "time option"
  hst_message :: string
  hst_podFailures :: "PodFailure list"

record ValidationIssue =
  vis_severity :: string
  vis_field :: string
  vis_message :: string
  vis_suggestion :: string

record ValidationStatus =
  vst_passed :: bool
  vst_lastChecked :: "time option"
  vst_issues :: "ValidationIssue list"

record ResourceBaseline =
  bl_avgCPU :: string
  bl_avgMemory :: string
  bl_peakCPU :: string
  bl_peakMemory :: string

record Pattern =
  pat_type :: string
  pat_description :: string
  pat_confidence :: string

record LearnedPatterns =
  lrn_resourceBaseline :: "ResourceBaseline option"
  lrn_incidentCount :: int
  lrn_lastIncident :: string
  lrn_patterns :: "Pattern list"

record Recommendation =
  rcm_type :: string
  rcm_priority :: string
  rcm_message :: string
  rcm_action :: string

record ApplicationPersonaStatus =
  ast_phase :: string
  ast_lastUpdated :: "time option"
  ast_deployments :: "DeploymentTracking option"
  ast_health :: "HealthStatus option"
  ast_validation :: "ValidationStatus option"
  ast_learned :: "LearnedPatterns option"
  ast_recommendations :: "Recommendation list"
  ast_argoCD :: "ArgoCDStatus option"
  ast_activeIncidents :: int
  ast_lastIncidentTime :: "time option"
  ast_conditions :: "Condition list"

record ApplicationPersona =
  p_name :: string
  p_namespace :: string
  p_annotations :: "(string \<times> string) list"
  p_deletionTimestamp :: "time option"
  p_spec :: jmap
  p_status :: ApplicationPersonaStatus

abbreviation p_typed :: "ApplicationPersona \<Rightarrow> ApplicationPersonaSpec" where
  "p_typed p \<equiv> typedSpec (p_spec p)"

subsection \<open>ClusterPersona\<close>

record RollbackPolicy =
  rbp_enabled :: bool
  rbp_healthCheckAfter :: "duration option"
  rbp_maxRetries :: int

record SelfHealingPolicy =
  sh_enabled :: bool
  sh_mode :: string
  sh_trustLevel :: int
  sh_maxRemediationsPerHour :: int
  sh_excludeNamespaces :: "string list"
  sh_rollback :: "RollbackPolicy option"

record ClusterSecurityPolicy =
  csp_enforceNonRoot :: "bool option"
  csp_enforceReadOnlyRoot :: "bool option"
  csp_disallowPrivileged :: "bool option"
  csp_allowedRegistries :: "string list"
  csp_podSecurityStandard :: string

record ClusterNetworkPolicy =
  cnp_defaultDenyIngress :: "bool option"
  cnp_defaultDenyEgress :: "bool option"
  cnp_allowedExternalCIDRs :: "string list"

record ClusterPolicies =
  cpl_security :: "ClusterSecurityPolicy option"
  cpl_networking :: "ClusterNetworkPolicy option"
  cpl_compliance :: "string list"
  cpl_selfHealing :: "SelfHealingPolicy option"

record ClusterConventions =
  ccv_namingPattern :: string
  ccv_requiredLabels :: "string list"
  ccv_requiredAnnotations :: "string list"
  ccv_namespacePrefix :: string

record ClusterDefaults =
  cdf_namespace :: string
  cdf_registry :: string
  cdf_resources :: "ResourceConstraints option"
  cdf_scaling :: "ScalingSpec option"

record ClusterResourceQuotas =
  crq_maxPodsPerNamespace :: "int option"
  crq_maxCPUPerNamespace :: string
  crq_maxMemoryPerNamespace :: string
  crq_maxPVCsPerNamespace :: "int option"

record ClusterPersonaSpec =
  cps_name :: string
  cps_description :: string
  cps_environment :: string
  cps_policies :: "ClusterPolicies option"
  cps_conventions :: "ClusterConventions option"
  cps_defaults :: "ClusterDefaults option"
  cps_resourceQuotas :: "ClusterResourceQuotas option"

record NodeResources =
  nrs_cpu :: string
  nrs_memory :: string
  nrs_pods :: string
  nrs_ephemeralStorage :: string

record NodeInfo =
  ni_name :: string
  ni_role :: string
  ni_ready :: bool
  ni_capacity :: "NodeResources option"
  ni_allocatable :: "NodeResources option"
  ni_taints :: "string list"
  ni_labels :: "(string \<times> string) list"
  ni_kubeletVersion :: string
  ni_containerRuntime :: string

record ClusterResourceSummary =
  crs_totalCPU :: string
  crs_totalMemory :: string
  crs_allocatableCPU :: string
  crs_allocatableMemory :: string
  crs_usedCPU :: string
  crs_usedMemory :: string
  crs_cpuUtilization :: string
  crs_memoryUtilization :: string
  crs_totalPods :: int
  crs_runningPods :: int
  crs_nodeCount :: int

record AddonInfo =
  adn_name :: string
  adn_type :: string
  adn_installed :: bool
  adn_version :: string
  adn_namespace :: string
  adn_healthy :: "bool option"

record NamespaceSummary =
  nsm_total :: int
  nsm_active :: int
  nsm_withPersonas :: int

record ClusterPersonaStatus =
  cst_phase :: string
  cst_lastDiscovery :: "time option"
  cst_nodes :: "NodeInfo list"
  cst_resourceSummary :: "ClusterResourceSummary option"
  cst_addons :: "AddonInfo list"
  cst_namespaces :: "NamespaceSummary option"
  cst_kubernetesVersion :: string
  cst_platform :: string
  cst_applicationCount :: int
  cst_conditions :: "Condition list"

record ClusterPersona =
  cp_name :: string
  cp_annotations :: "(string \<times> string) list"
  cp_spec :: ClusterPersonaSpec
  cp_status :: ClusterPersonaStatus

text \<open>\<^verbatim>\<open>Spec.Policies.SelfHealing\<close>, nil when either pointer is.\<close>

definition cp_selfHealing :: "ClusterPersona \<Rightarrow> SelfHealingPolicy option" where
  "cp_selfHealing cp = Option.bind (cps_policies (cp_spec cp)) cpl_selfHealing"

end
