(* ===== verification/Detection.thy ===== *)
theory Detection
  imports Personas "HOL-Library.Multiset" "HOL-Library.List_Lexorder" "HOL-Library.Char_ord"
begin

text \<open>
  The detection package: health signals (\<^verbatim>\<open>signals.go\<close>), the collection engine
  (\<^verbatim>\<open>engine.go\<close>), the attribution of a signal to an ApplicationPersona
  (\<^verbatim>\<open>persona_correlator.go\<close>) and the grouping of signals into findings
  (\<^verbatim>\<open>grouping.go\<close>). Listing personas is a call to the API server and is an argument.
\<close>

subsection \<open>Signals\<close>

record Signal =
  sg_type :: string
  sg_severity :: string
  sg_category :: string
  sg_source :: string
  sg_message :: string
  sg_resource :: ResourceReference
  sg_personaRef :: "PersonaReference option"
  sg_value :: "rat option"
  sg_threshold :: "rat option"
  sg_detectedAt :: time
  sg_metadata :: "(string \<times> string) list"

abbreviation "SeverityInfo \<equiv> ''info''"
abbreviation "SeverityWarning \<equiv> ''warning''"
abbreviation "SeverityCritical \<equiv> ''critical''"

definition SeverityRank :: "string \<Rightarrow> int" where
  "SeverityRank s =
     (if s = SeverityCritical then 2 else if s = SeverityWarning then 1
      else if s = SeverityInfo then 0 else - 1)"

subsection \<open>Attribution\<close>

text \<open>The \<^verbatim>\<open>name\<close> field of the persona's spec.\<close>

definition p_specName :: "ApplicationPersona \<Rightarrow> string" where
  "p_specName p = (case map_of (p_spec p) ''name'' of Some (JStr s) \<Rightarrow> s | _ \<Rightarrow> [])"

definition nameClaims :: "string \<Rightarrow> string \<Rightarrow> bool" where
  "nameClaims resourceName name = (resourceName = name \<or> hasPrefix resourceName (name @ ''-''))"

definition NameClaimedByPersona :: "string \<Rightarrow> string \<Rightarrow> bool" where
  "NameClaimedByPersona resourceName personaName =
     (if resourceName = [] \<or> personaName = [] then False else nameClaims resourceName personaName)"

text \<open>The loop over \<^verbatim>\<open>metadata.name\<close> and \<^verbatim>\<open>spec.name\<close>, with the running best length.\<close>

fun claimLoop :: "string \<Rightarrow> nat \<Rightarrow> string list \<Rightarrow> nat" where
  "claimLoop resourceName best [] = best"
| "claimLoop resourceName best (name # names) =
     claimLoop resourceName
       (if name = [] \<or> length name \<le> best then best
        else if nameClaims resourceName name then length name else best) names"

definition claimLength :: "string \<Rightarrow> ApplicationPersona \<Rightarrow> nat" where
  "claimLength resourceName persona =
     (if resourceName = [] then 0 else claimLoop resourceName 0 [p_name persona, p_specName persona])"

fun claimingLoop ::
  "string \<Rightarrow> nat \<Rightarrow> ApplicationPersona list \<Rightarrow> ApplicationPersona list \<Rightarrow> ApplicationPersona list"
where
  "claimingLoop resourceName best matched [] = matched"
| "claimingLoop resourceName best matched (p # ps) =
     (let len = claimLength resourceName p
      in if len = 0 \<or> len < best then claimingLoop resourceName best matched ps
         else if best < len then claimingLoop resourceName len [p] ps
         else claimingLoop resourceName best (matched @ [p]) ps)"

definition personasClaiming :: "Signal \<Rightarrow> ApplicationPersona list \<Rightarrow> ApplicationPersona list" where
  "personasClaiming sig personas = claimingLoop (rr_name (sg_resource sig)) 0 [] personas"

text \<open>
  The body of the loop of \<^verbatim>\<open>Correlate\<close> for one signal, given the personas of its namespace.
\<close>

definition attribute_to :: "ApplicationPersona list \<Rightarrow> Signal \<Rightarrow> Signal" where
  "attribute_to personas sig =
     (case personasClaiming sig personas of
        [p] \<Rightarrow> sig\<lparr>sg_personaRef := Some \<lparr>pr_kind = ''ApplicationPersona'', pr_name = p_name p,
                                       pr_namespace = p_namespace p\<rparr>\<rparr>
      | _ \<Rightarrow> sig)"

text \<open>
  \<^verbatim>\<open>Correlate\<close> with its per-namespace cache. A failed listing caches the empty list and
  skips the signal.
\<close>

fun correlateLoop ::
  "(string \<Rightarrow> goerr + ApplicationPersona list) \<Rightarrow> (string \<times> ApplicationPersona list) list
     \<Rightarrow> Signal list \<Rightarrow> Signal list"
where
  "correlateLoop listIn cache [] = []"
| "correlateLoop listIn cache (sig # sigs) =
     (if sg_personaRef sig \<noteq> None then sig # correlateLoop listIn cache sigs
      else let ns = rr_namespace (sg_resource sig) in
        if ns = [] then sig # correlateLoop listIn cache sigs
        else (case map_of cache ns of
                Some personas \<Rightarrow> attribute_to personas sig # correlateLoop listIn cache sigs
              | None \<Rightarrow>
                  (case listIn ns of
                     Inl _ \<Rightarrow> sig # correlateLoop listIn (AList.update ns [] cache) sigs
                   | Inr personas \<Rightarrow>
                       attribute_to personas sig
                         # correlateLoop listIn (AList.update ns personas cache) sigs)))"

definition Correlate ::
  "(string \<Rightarrow> goerr + ApplicationPersona list) \<Rightarrow> Signal list \<Rightarrow> Signal list" where
  "Correlate listIn signals = correlateLoop listIn [] signals"

subsection \<open>Grouping\<close>

datatype SignalScope = ScopePersona | ScopeUnattributed | ScopeCluster

record SignalGroup =
  gr_scope :: SignalScope
  gr_key :: string
  gr_namespace :: string
  gr_personaRef :: "PersonaReference option"
  gr_workload :: string
  gr_signals :: "Signal list"

abbreviation "MetadataKeyDeployment \<equiv> ''deployment''"

definition WorkloadName :: "Signal \<Rightarrow> string" where
  "WorkloadName sig =
     (let deployment = getStr (sg_metadata sig) MetadataKeyDeployment
      in if deployment \<noteq> [] then deployment else rr_name (sg_resource sig))"

definition groupFor :: "Signal \<Rightarrow> SignalGroup" where
  "groupFor sig =
     (case sg_personaRef sig of
        Some ref \<Rightarrow>
          \<lparr>gr_scope = ScopePersona,
           gr_key = ''persona/'' @ pr_kind ref @ ''/'' @ pr_namespace ref @ ''/'' @ pr_name ref,
           gr_namespace = pr_namespace ref, gr_personaRef = Some ref, gr_workload = [],
           gr_signals = []\<rparr>
      | None \<Rightarrow>
          (let ns = rr_namespace (sg_resource sig) in
           if ns = [] then
             \<lparr>gr_scope = ScopeCluster, gr_key = ''cluster'', gr_namespace = [],
              gr_personaRef = None, gr_workload = [], gr_signals = []\<rparr>
           else let workload = WorkloadName sig in
             \<lparr>gr_scope = ScopeUnattributed,
              gr_key = ''unattributed/'' @ ns @ ''/'' @ workload,
              gr_namespace = ns, gr_personaRef = None, gr_workload = workload,
              gr_signals = []\<rparr>))"

text \<open>
  One iteration: the signal is appended to the group stored under its key, created on first
  use. The association list keeps the keys in the order the slice \<^verbatim>\<open>keys\<close> does.
\<close>

definition addSignal :: "Signal \<Rightarrow> (string \<times> SignalGroup) list \<Rightarrow> (string \<times> SignalGroup) list" where
  "addSignal sig groups =
     (let g = groupFor sig;
          existing = (case map_of groups (gr_key g) of None \<Rightarrow> g | Some e \<Rightarrow> e)
      in AList.update (gr_key g) (existing\<lparr>gr_signals := gr_signals existing @ [sig]\<rparr>) groups)"

definition GroupSignals :: "Signal list \<Rightarrow> SignalGroup list" where
  "GroupSignals signals =
     (let groups = fold addSignal signals []
      in map (\<lambda>k. the (map_of groups k)) (sort (map fst groups)))"

subsection \<open>The engine\<close>

text \<open>
  An engine is its collectors (each a function of the cluster that may fail) and an optional
  correlator. \<^verbatim>\<open>sort.Slice\<close> is not stable; the model sorts stably, and the laws below only
  use that the result is an ordered permutation.
\<close>

record 'w Engine =
  en_collectors :: "('w \<Rightarrow> goerr + Signal list) list"
  en_correlator :: "('w \<Rightarrow> Signal list \<Rightarrow> Signal list) option"

fun collectLoop :: "'w \<Rightarrow> ('w \<Rightarrow> goerr + Signal list) list \<Rightarrow> Signal list" where
  "collectLoop w [] = []"
| "collectLoop w (c # cs) = (case c w of Inl _ \<Rightarrow> [] | Inr sigs \<Rightarrow> sigs) @ collectLoop w cs"

definition signal_before :: "Signal \<Rightarrow> Signal \<Rightarrow> bool" where
  "signal_before a b =
     (let ri = SeverityRank (sg_severity a); rj = SeverityRank (sg_severity b)
      in if ri \<noteq> rj then rj < ri else sg_detectedAt b < sg_detectedAt a)"

fun insertSignal :: "Signal \<Rightarrow> Signal list \<Rightarrow> Signal list" where
  "insertSignal x [] = [x]"
| "insertSignal x (y # ys) = (if signal_before y x then y # insertSignal x ys else x # y # ys)"

definition sortSignals :: "Signal list \<Rightarrow> Signal list" where
  "sortSignals xs = foldr insertSignal xs []"

definition CollectAll :: "'w Engine \<Rightarrow> 'w \<Rightarrow> goerr + Signal list" where
  "CollectAll e w =
     (let allSignals = collectLoop w (en_collectors e);
          correlated = (case en_correlator e of None \<Rightarrow> allSignals | Some c \<Rightarrow> c w allSignals)
      in Inr (sortSignals correlated))"

subsection \<open>Laws of attribution\<close>

lemma claimLoop_max:
  "claimLoop r best names =
     fold (\<lambda>n b. if n \<noteq> [] \<and> nameClaims r n then max b (length n) else b) names best"
  by (induction names arbitrary: best) (auto simp: max_def)

lemma claimLength_eq:
  "claimLength r p =
     (if r = [] then 0
      else fold (\<lambda>n b. if n \<noteq> [] \<and> nameClaims r n then max b (length n) else b)
             [p_name p, p_specName p] 0)"
  by (simp add: claimLength_def claimLoop_max)

lemma fold_max_ge: "(b :: nat) \<le> fold max xs b"
proof (induction xs arbitrary: b)
  case (Cons a xs)
  from Cons [of "max a b"] show ?case by simp
qed simp

lemma fold_max_upper: "x \<in> set xs \<Longrightarrow> (x :: nat) \<le> fold max xs b"
proof (induction xs arbitrary: b)
  case (Cons a xs)
  with fold_max_ge [of "max a b" xs] show ?case by auto
qed simp

text \<open>The claiming loop keeps exactly the personas of maximal positive claim length.\<close>

lemma claimingLoop_eq:
  assumes "list_all (\<lambda>p. claimLength r p = best \<and> 0 < best) matched" "best = 0 \<longrightarrow> matched = []"
    "0 < best \<longrightarrow> matched \<noteq> []"
  shows "claimingLoop r best matched ps =
    (let m = fold max (map (claimLength r) ps) best
     in if m = 0 then []
        else filter (\<lambda>p. claimLength r p = m) (matched @ ps))"
  using assms
proof (induction r best matched ps rule: claimingLoop.induct)
  case (1 r best matched)
  then show ?case by (auto simp: list_all_iff)
next
  case (2 r best matched p ps)
  let ?len = "claimLength r p"
  note ge = fold_max_ge
  consider "?len = 0 \<or> ?len < best" | "best < ?len" | "0 < ?len" "?len = best" by linarith
  then show ?case
  proof cases
    case 1
    then have m: "max ?len best = best" and "?len < best \<or> best = 0 \<and> ?len = 0" by auto
    then have "?len \<noteq> fold max (map (claimLength r) ps) best \<or> fold max (map (claimLength r) ps) best = 0"
      using ge [of best "map (claimLength r) ps"] by linarith
    with 1 m "2.IH"(1) [OF refl 1 "2.prems"] show ?thesis by (auto simp: Let_def max.commute)
  next
    case 2
    then have m: "max ?len best = ?len" and n: "\<not> (?len = 0 \<or> ?len < best)" by auto
    have old: "filter (\<lambda>p. claimLength r p = fold max (map (claimLength r) ps) ?len) matched = []"
      using "2.prems"(1) 2 ge [of ?len "map (claimLength r) ps"] by (auto simp: list_all_iff filter_empty_conv)
    from 2 n have "claimingLoop r ?len [p] ps =
       (let m = fold max (map (claimLength r) ps) ?len
        in if m = 0 then [] else filter (\<lambda>p. claimLength r p = m) ([p] @ ps))"
      by (intro "2.IH"(2)) auto
    with 2 m n old show ?thesis by (simp add: Let_def max.commute)
  next
    case 3
    then have m: "max ?len best = best" and n: "\<not> (?len = 0 \<or> ?len < best)" "\<not> best < ?len" by auto
    from 3 n "2.prems" have "claimingLoop r best (matched @ [p]) ps =
       (let m = fold max (map (claimLength r) ps) best
        in if m = 0 then [] else filter (\<lambda>p. claimLength r p = m) ((matched @ [p]) @ ps))"
      by (intro "2.IH"(3)) auto
    with 3 m n show ?thesis by (simp add: Let_def max.commute)
  qed
qed

lemma personasClaiming_eq:
  "personasClaiming sig ps =
     (let r = rr_name (sg_resource sig); m = fold max (map (claimLength r) ps) 0
      in if m = 0 then [] else filter (\<lambda>p. claimLength r p = m) ps)"
  unfolding personasClaiming_def by (subst claimingLoop_eq) (auto simp: Let_def)

lemma attribute_to_Nil [simp]: "attribute_to [] sig = sig"
  by (simp add: attribute_to_def personasClaiming_def)

text \<open>What \<^const>\<open>Correlate\<close> does to one signal, without the cache.\<close>

definition correlateOne :: "(string \<Rightarrow> goerr + ApplicationPersona list) \<Rightarrow> Signal \<Rightarrow> Signal" where
  "correlateOne listIn sig =
     (let ns = rr_namespace (sg_resource sig)
      in if sg_personaRef sig \<noteq> None \<or> ns = [] then sig
         else (case listIn ns of Inl _ \<Rightarrow> sig | Inr ps \<Rightarrow> attribute_to ps sig))"

definition cache_ok ::
  "(string \<Rightarrow> goerr + ApplicationPersona list) \<Rightarrow> (string \<times> ApplicationPersona list) list \<Rightarrow> bool"
where
  "cache_ok listIn cache =
     (\<forall>ns ps. map_of cache ns = Some ps \<longrightarrow> ps = (case listIn ns of Inl _ \<Rightarrow> [] | Inr qs \<Rightarrow> qs))"

lemma cache_ok_update:
  "cache_ok listIn cache \<Longrightarrow>
     cache_ok listIn (AList.update ns (case listIn ns of Inl _ \<Rightarrow> [] | Inr qs \<Rightarrow> qs) cache)"
  by (simp add: cache_ok_def)

lemma cache_ok_hit:
  "cache_ok listIn cache \<Longrightarrow> map_of cache ns = Some ps \<Longrightarrow>
     attribute_to ps sig = (case listIn ns of Inl _ \<Rightarrow> sig | Inr qs \<Rightarrow> attribute_to qs sig)"
proof -
  assume "cache_ok listIn cache" "map_of cache ns = Some ps"
  then have "ps = (case listIn ns of Inl _ \<Rightarrow> [] | Inr qs \<Rightarrow> qs)" unfolding cache_ok_def by blast
  then show ?thesis by (cases "listIn ns") simp_all
qed

lemma correlateLoop_eq:
  "cache_ok listIn cache \<Longrightarrow> correlateLoop listIn cache sigs = map (correlateOne listIn) sigs"
proof (induction sigs arbitrary: cache)
  case (Cons sig sigs)
  let ?ns = "rr_namespace (sg_resource sig)"
  note IH = Cons.IH [OF Cons.prems] and upd = Cons.IH [OF cache_ok_update [OF Cons.prems, of ?ns]]
  show ?case
  proof (cases "map_of cache ?ns")
    case None
    then show ?thesis using IH upd
      by (cases "listIn ?ns") (simp_all add: correlateOne_def Let_def)
  next
    case (Some ps)
    then show ?thesis using IH cache_ok_hit [OF Cons.prems Some]
      by (simp add: correlateOne_def Let_def)
  qed
qed simp

lemma Correlate_eq: "Correlate listIn sigs = map (correlateOne listIn) sigs"
  unfolding Correlate_def by (rule correlateLoop_eq) (simp add: cache_ok_def)

lemma attribute_to_Some:
  assumes "sg_personaRef sig = None" "sg_personaRef (attribute_to ps sig) = Some ref"
  shows "\<exists>p. personasClaiming sig ps = [p] \<and>
    ref = \<lparr>pr_kind = ''ApplicationPersona'', pr_name = p_name p, pr_namespace = p_namespace p\<rparr>"
  using assms by (auto simp: attribute_to_def split: list.splits)

text \<open>
  Attribution is exact and stays inside the namespace. Whatever the cache holds along the
  way, a signal that had no owner gets one only if the personas of its own namespace could be
  listed and exactly one of them has the longest claim on the resource name; that persona is
  the owner, and its namespace is the signal's. The number of signals is unchanged.
\<close>

theorem correlate_exactly_one_owner:
  assumes scoped: "\<And>ns ps p. listIn ns = Inr ps \<Longrightarrow> p \<in> set ps \<Longrightarrow> p_namespace p = ns"
    and i: "i < length signals" and "sg_personaRef (signals ! i) = None"
    and "sg_personaRef (Correlate listIn signals ! i) = Some ref"
  shows "length (Correlate listIn signals) = length signals \<and>
    (\<exists>ps p. listIn (rr_namespace (sg_resource (signals ! i))) = Inr ps \<and>
       0 < claimLength (rr_name (sg_resource (signals ! i))) p \<and>
       filter (\<lambda>q. claimLength (rr_name (sg_resource (signals ! i))) p
                    \<le> claimLength (rr_name (sg_resource (signals ! i))) q) ps = [p] \<and>
       ref = \<lparr>pr_kind = ''ApplicationPersona'', pr_name = p_name p,
              pr_namespace = rr_namespace (sg_resource (signals ! i))\<rparr>)"
proof -
  let ?s = "signals ! i"
  let ?ns = "rr_namespace (sg_resource ?s)"
  let ?r = "rr_name (sg_resource ?s)"
  have "Correlate listIn signals ! i = correlateOne listIn ?s" using i by (simp add: Correlate_eq)
  with assms(3,4) obtain ps where ps: "listIn ?ns = Inr ps"
    and a: "sg_personaRef (attribute_to ps ?s) = Some ref"
    by (auto simp: correlateOne_def Let_def split: if_splits sum.splits)
  from attribute_to_Some [OF assms(3) a] obtain p where p: "personasClaiming ?s ps = [p]"
    and ref: "ref = \<lparr>pr_kind = ''ApplicationPersona'', pr_name = p_name p, pr_namespace = p_namespace p\<rparr>"
    by blast
  define m where "m = fold max (map (claimLength ?r) ps) 0"
  from p have m0: "m \<noteq> 0" and f: "filter (\<lambda>q. claimLength ?r q = m) ps = [p]"
    by (auto simp: personasClaiming_eq m_def Let_def split: if_splits)
  from f have "p \<in> set (filter (\<lambda>q. claimLength ?r q = m) ps)" by simp
  then have pm: "claimLength ?r p = m" "p \<in> set ps" by simp_all
  have "claimLength ?r q \<le> m" if "q \<in> set ps" for q
    unfolding m_def by (rule fold_max_upper) (use that in auto)
  then have "filter (\<lambda>q. m \<le> claimLength ?r q) ps = filter (\<lambda>q. claimLength ?r q = m) ps"
    by (intro filter_cong) (auto intro: le_antisym)
  with f pm m0 ps ref scoped [OF ps pm(2)] show ?thesis
    by (auto simp: Correlate_eq intro!: exI [of _ ps] exI [of _ p])
qed

subsection \<open>Laws of grouping\<close>

text \<open>The group table after adding signals, read at one key.\<close>

lemma addSignal_lookup:
  "map_of (addSignal sig groups) k =
     (if k = gr_key (groupFor sig) then
        Some (let e = (case map_of groups k of None \<Rightarrow> groupFor sig | Some e \<Rightarrow> e)
              in e\<lparr>gr_signals := gr_signals e @ [sig]\<rparr>)
      else map_of groups k)"
  by (simp add: addSignal_def Let_def)

abbreviation key_of :: "Signal \<Rightarrow> string" where
  "key_of sig \<equiv> gr_key (groupFor sig)"

lemma groupFor_signals [simp]: "gr_signals (groupFor sig) = []"
  by (simp add: groupFor_def Let_def split: option.splits)

text \<open>A group is the header made by its first signal, filled with all signals of its key.\<close>

lemma fold_addSignal_lookup:
  "map_of (fold addSignal sigs []) k =
     (case filter (\<lambda>s. key_of s = k) sigs of
        [] \<Rightarrow> None
      | s # ss \<Rightarrow> Some ((groupFor s)\<lparr>gr_signals := s # ss\<rparr>))"
proof (induction sigs rule: rev_induct)
  case (snoc x xs)
  then show ?case
    by (auto simp: addSignal_lookup Let_def split: list.splits)
qed simp

lemma distinct_fold_addSignal: "distinct (map fst gs) \<Longrightarrow> distinct (map fst (fold addSignal sigs gs))"
  by (induction sigs arbitrary: gs) (auto simp: addSignal_def Let_def distinct_update)

lemma keys_fold_addSignal: "fst ` set (fold addSignal sigs []) = key_of ` set sigs"
proof -
  have "k \<in> fst ` set (fold addSignal sigs []) \<longleftrightarrow> map_of (fold addSignal sigs []) k \<noteq> None" for k
    by (simp add: map_of_eq_None_iff)
  also have "\<dots> k \<longleftrightarrow> k \<in> key_of ` set sigs" for k
    unfolding fold_addSignal_lookup
    by (cases "filter (\<lambda>s. key_of s = k) sigs")
       (auto simp: filter_empty_conv dest: filter_eq_ConsD)
  finally show ?thesis by blast
qed

definition group_keys :: "Signal list \<Rightarrow> string list" where
  "group_keys sigs = sort (map fst (fold addSignal sigs []))"

lemma group_keys_props:
  "distinct (group_keys sigs)" "sorted (group_keys sigs)" "set (group_keys sigs) = key_of ` set sigs"
  using distinct_fold_addSignal [of "[]" sigs] keys_fold_addSignal [of sigs]
  by (auto simp: group_keys_def)

lemma GroupSignals_eq:
  "GroupSignals sigs =
     map (\<lambda>k. (groupFor (hd (filter (\<lambda>s. key_of s = k) sigs)))
               \<lparr>gr_signals := filter (\<lambda>s. key_of s = k) sigs\<rparr>) (group_keys sigs)"
proof -
  have "the (map_of (fold addSignal sigs []) k) =
      (groupFor (hd (filter (\<lambda>s. key_of s = k) sigs)))\<lparr>gr_signals := filter (\<lambda>s. key_of s = k) sigs\<rparr>"
    if "k \<in> key_of ` set sigs" for k
    using that unfolding fold_addSignal_lookup
    by (auto simp: filter_empty_conv split: list.splits)
  with group_keys_props(3) [of sigs] show ?thesis
    by (auto simp: GroupSignals_def Let_def group_keys_def)
qed

lemma mset_concat_filter:
  "distinct ks \<Longrightarrow> f ` set xs \<subseteq> set ks \<Longrightarrow>
     mset (concat (map (\<lambda>k. filter (\<lambda>x. f x = k) xs) ks)) = mset xs"
proof (induction xs)
  case (Cons x xs)
  have "mset (concat (map (\<lambda>k. filter (\<lambda>y. f y = k) (x # xs)) ks)) =
     (if f x \<in> set ks then {#x#} else {#}) + mset (concat (map (\<lambda>k. filter (\<lambda>y. f y = k) xs) ks))"
    using Cons.prems(1) by (induction ks) (auto simp: ac_simps)
  with Cons show ?case by simp
qed simp

text \<open>Splitting a joined key at its first separator.\<close>

lemma split_sep: "a @ c # b = a' @ c # b' \<Longrightarrow> c \<notin> set a \<Longrightarrow> c \<notin> set a' \<Longrightarrow> a = a' \<and> b = b'"
  by (induction a arbitrary: a') (auto simp: Cons_eq_append_conv append_eq_Cons_conv)

definition slash_free :: "Signal \<Rightarrow> bool" where
  "slash_free sig =
     (case sg_personaRef sig of
        Some ref \<Rightarrow> CHR ''/'' \<notin> set (pr_kind ref) \<and> CHR ''/'' \<notin> set (pr_namespace ref)
      | None \<Rightarrow> CHR ''/'' \<notin> set (rr_namespace (sg_resource sig)))"

lemma groupFor_inj:
  assumes "slash_free a" "slash_free b" "key_of a = key_of b"
  shows "groupFor a = groupFor b"
proof (cases "sg_personaRef a")
  case None
  then show ?thesis using assms
    by (auto simp: groupFor_def slash_free_def Let_def dest!: split_sep
        split: option.splits if_splits)
next
  case (Some ra)
  with assms obtain rb where rb: "sg_personaRef b = Some rb"
    by (auto simp: groupFor_def Let_def split: option.splits if_splits)
  from Some rb assms have
    "pr_kind ra @ CHR ''/'' # (pr_namespace ra @ CHR ''/'' # pr_name ra) =
     pr_kind rb @ CHR ''/'' # (pr_namespace rb @ CHR ''/'' # pr_name rb)"
    by (simp add: groupFor_def)
  with Some rb assms(1,2) have "pr_kind ra = pr_kind rb" "pr_namespace ra = pr_namespace rb"
    "pr_name ra = pr_name rb"
    by (auto simp: slash_free_def dest!: split_sep)
  then have "ra = rb" by simp
  with Some rb show ?thesis by (simp add: groupFor_def)
qed

text \<open>
  C38. Grouping is a partition that never mixes applications. For signals whose owner and
  namespace are Kubernetes names (no slash), the groups hold every signal exactly once, come in
  strictly ascending key order, and every signal of a group on its own determines the group's
  scope, namespace, owner and workload. So no group spans two namespaces or two personas.
\<close>

theorem group_signals_partition:
  assumes "list_all slash_free signals"
  shows "mset (concat (map gr_signals (GroupSignals signals))) = mset signals \<and>
    sorted (map gr_key (GroupSignals signals)) \<and> distinct (map gr_key (GroupSignals signals)) \<and>
    (\<forall>g \<in> set (GroupSignals signals). gr_signals g \<noteq> [] \<and>
       (\<forall>s \<in> set (gr_signals g). g = (groupFor s)\<lparr>gr_signals := gr_signals g\<rparr>))"
proof -
  let ?f = "\<lambda>k. filter (\<lambda>s. key_of s = k) signals"
  have in_grp: "?f k \<noteq> [] \<and> key_of (hd (?f k)) = k \<and> hd (?f k) \<in> set signals"
    if "k \<in> set (group_keys signals)" for k
  proof -
    have ne: "?f k \<noteq> []" using that group_keys_props(3) [of signals] by (auto simp: filter_empty_conv)
    then have "hd (?f k) \<in> set (?f k)" by (rule hd_in_set)
    with ne show ?thesis by simp
  qed
  have keys: "map gr_key (GroupSignals signals) = group_keys signals"
    unfolding GroupSignals_eq by (simp add: map_idI in_grp)
  have sigs: "map gr_signals (GroupSignals signals) = map ?f (group_keys signals)"
    unfolding GroupSignals_eq by simp
  have "g = (groupFor s)\<lparr>gr_signals := gr_signals g\<rparr> \<and> gr_signals g \<noteq> []"
    if "g \<in> set (GroupSignals signals)" "s \<in> set (gr_signals g)" for g s
  proof -
    from that(1) obtain k where k: "k \<in> set (group_keys signals)"
      and g: "g = (groupFor (hd (?f k)))\<lparr>gr_signals := ?f k\<rparr>" unfolding GroupSignals_eq by auto
    from that(2) g have s: "s \<in> set signals" "key_of s = k" by auto
    have "groupFor (hd (?f k)) = groupFor s"
      using assms s in_grp [OF k] by (intro groupFor_inj) (auto simp: list_all_iff)
    with g in_grp [OF k] show ?thesis by simp
  qed
  moreover have "gr_signals g \<noteq> []" if "g \<in> set (GroupSignals signals)" for g
    using that in_grp unfolding GroupSignals_eq by auto
  ultimately show ?thesis
    using mset_concat_filter [of "group_keys signals" key_of signals]
    by (simp add: keys sigs group_keys_props)
qed

subsection \<open>Laws of collection\<close>

lemma mset_insertSignal [simp]: "mset (insertSignal x ys) = add_mset x (mset ys)"
  by (induction ys) auto

lemma mset_sortSignals [simp]: "mset (sortSignals xs) = mset xs"
  by (induction xs) (auto simp: sortSignals_def)

lemma set_insertSignal [simp]: "set (insertSignal x ys) = insert x (set ys)"
  by (induction ys) auto

lemma set_sortSignals [simp]: "set (sortSignals xs) = set xs"
  by (metis mset_sortSignals set_mset_mset)

lemma signal_before_trans: "\<not> signal_before b a \<Longrightarrow> \<not> signal_before c b \<Longrightarrow> \<not> signal_before c a"
  by (auto simp: signal_before_def Let_def split: if_splits)

lemma signal_before_asym: "signal_before a b \<Longrightarrow> \<not> signal_before b a"
  by (auto simp: signal_before_def Let_def split: if_splits)

lemma sorted_insertSignal:
  "sorted_wrt (\<lambda>a b. \<not> signal_before b a) ys \<Longrightarrow>
     sorted_wrt (\<lambda>a b. \<not> signal_before b a) (insertSignal x ys)"
proof (induction ys)
  case (Cons y ys)
  show ?case
  proof (cases "signal_before y x")
    case True
    with Cons show ?thesis by (auto dest: signal_before_asym)
  next
    case False
    with Cons.prems show ?thesis using signal_before_trans [of y x] by auto
  qed
qed simp

lemma sorted_sortSignals: "sorted_wrt (\<lambda>a b. \<not> signal_before b a) (sortSignals xs)"
  by (induction xs) (auto simp: sortSignals_def sorted_insertSignal)

end
