(* ===== verification/Execution.thy ===== *)
theory Execution
  imports Detection
begin

text \<open>
  The three workers of the remediation lifecycle: the executor that applies a merge patch to an
  ApplicationPersona (\<^verbatim>\<open>internal/remediation/executor.go\<close>), the rollback that applies the
  pre-patch snapshot (\<^verbatim>\<open>rollback.go\<close>), and the verifier that re-runs detection
  (\<^verbatim>\<open>verifier.go\<close>).

  The Kubernetes API server behind \<^verbatim>\<open>client.Client\<close> is not code of the repository: it is the
  record \<open>api\<close> of functions on an unspecified world \<open>'w\<close>. Reads return an object or an error;
  writes return the next world and possibly an error. The JSON codec of the
  ApplicationPersonaSpec struct (decoding drops unknown fields and may reject a type) is its
  field \<open>decode_spec\<close>, and \<^verbatim>\<open>retry.RetryOnConflict\<close> of client-go, which runs a write until it
  stops failing with a conflict, is its field \<open>retry_conflict\<close>.
\<close>

subsection \<open>The API server\<close>

text \<open>
  A \<^verbatim>\<open>resource.Quantity\<close> is known through its accessors: \<^verbatim>\<open>String\<close>, \<^verbatim>\<open>IsZero\<close>,
  \<^verbatim>\<open>AsApproximateFloat64\<close>, \<^verbatim>\<open>Value\<close> and \<^verbatim>\<open>MilliValue\<close>.
\<close>

record Quantity =
  q_string :: string
  q_isZero :: bool
  q_approx :: rat
  q_value :: int
  q_milliValue :: int

text \<open>
  Of a probe the controllers read the path of its HTTP check; of a container's and a pod's security
  context the settings the personas constrain; of a Deployment's status the replica counts and the
  type and status of its conditions.
\<close>

record Probe =
  prb_httpGet :: "string option"

record SecurityContext =
  sx_readOnlyRootFilesystem :: "bool option"
  sx_allowPrivilegeEscalation :: "bool option"

record PodSecurityContext =
  psx_runAsNonRoot :: "bool option"

record DeploymentStatus =
  dst_replicas :: int
  dst_readyReplicas :: int
  dst_conditions :: "(string \<times> string) list"

record Container =
  ct_name :: string
  ct_image :: string
  ct_limits :: "(string \<times> Quantity) list"
  ct_requests :: "(string \<times> Quantity) list"
  ct_livenessProbe :: "Probe option"
  ct_readinessProbe :: "Probe option"
  ct_securityContext :: "SecurityContext option"

record ManagedFieldsEntry =
  mf_manager :: string
  mf_operation :: string
  mf_fieldsV1 :: "raw option"

record Deployment =
  d_name :: string
  d_namespace :: string
  d_labels :: "(string \<times> string) list"
  d_annotations :: "(string \<times> string) list"
  d_managedFields :: "ManagedFieldsEntry list"
  d_selector :: "(string \<times> string) list option"
  d_replicas :: "int option"
  d_containers :: "Container list"
  d_podSecurity :: "PodSecurityContext option"
  d_status :: DeploymentStatus

record 'w api =
  get_action :: "'w \<Rightarrow> objkey \<Rightarrow> goerr + RemediationAction"
  status_update_action :: "'w \<Rightarrow> RemediationAction \<Rightarrow> 'w \<times> goerr option"
  get_persona :: "'w \<Rightarrow> objkey \<Rightarrow> goerr + ApplicationPersona"
  update_persona :: "'w \<Rightarrow> ApplicationPersona \<Rightarrow> 'w \<times> goerr option"
  decode_spec :: "jmap \<Rightarrow> goerr + jmap"
  get_incident :: "'w \<Rightarrow> objkey \<Rightarrow> goerr + IncidentMemory"
  update_incident :: "'w \<Rightarrow> IncidentMemory \<Rightarrow> 'w \<times> goerr option"
  status_update_incident :: "'w \<Rightarrow> IncidentMemory \<Rightarrow> 'w \<times> goerr option"
  get_deployment :: "'w \<Rightarrow> objkey \<Rightarrow> goerr + Deployment"
  retry_conflict :: "('w \<Rightarrow> 'w \<times> goerr option) \<Rightarrow> 'w \<Rightarrow> 'w \<times> goerr option"

abbreviation "kindApplicationPersona \<equiv> ''ApplicationPersona''"

subsection \<open>JSON decoding errors\<close>

definition json_kind :: "json \<Rightarrow> string" where
  "json_kind v =
     (case v of JNull \<Rightarrow> ''null'' | JBool _ \<Rightarrow> ''bool'' | JNum _ \<Rightarrow> ''number''
      | JStr _ \<Rightarrow> ''string'' | JArr _ \<Rightarrow> ''array'' | JObj _ \<Rightarrow> ''object'')"

text \<open>The message of a failed \<^verbatim>\<open>json.Unmarshal\<close> into a map.\<close>

definition unmarshalErr :: "raw \<Rightarrow> goerr" where
  "unmarshalErr r =
     (case r of
        RawEmpty \<Rightarrow> Err ''unexpected end of JSON input''
      | RawInvalid s \<Rightarrow> Err s
      | RawJson v \<Rightarrow> Err (''json: cannot unmarshal '' @ json_kind v @
                          '' into Go value of type map[string]interface {}''))"

subsection \<open>Executor\<close>

definition validatePreconditions :: "RemediationAction \<Rightarrow> goerr option" where
  "validatePreconditions action =
     (let detail = sp_action (ra_spec action) in
      if ra_phase action \<noteq> Approved then
        Some (Err (''action must be in Approved phase, got '' @ quoteQ (phase_str (ra_phase action))))
      else if ad_type detail \<noteq> ''persona-update'' then
        Some (Err (''unsupported action type '' @ quoteQ (ad_type detail) @
                   '', only persona-update is supported''))
      else if \<not> hasPatch (ad_patch detail) then
        Some (Err ''patch must not be nil or empty'')
      else if \<not> hasPatch (ad_prePatchState detail) then
        Some (Err ''prePatchState must not be nil or empty (required for rollback)'')
      else (case unmarshalMap (the (ad_patch detail)) of
              None \<Rightarrow> Some (Wrap ''patch is not valid JSON'' (unmarshalErr (the (ad_patch detail))))
            | Some _ \<Rightarrow> None))"

text \<open>
  \<^verbatim>\<open>getTargetPersona\<close> of the executor and of the rollback differ in one message; the message
  is the first argument.
\<close>

definition personaKey :: "RemediationAction \<Rightarrow> objkey" where
  "personaKey action =
     (let ref = sp_personaRef (ra_spec action);
          ns = (if pr_namespace ref = [] then ra_namespace action else pr_namespace ref)
      in (ns, pr_name ref))"

definition getTargetPersona ::
  "string \<Rightarrow> 'w api \<Rightarrow> 'w \<Rightarrow> RemediationAction \<Rightarrow> goerr + ApplicationPersona" where
  "getTargetPersona ending api w action =
     (let ref = sp_personaRef (ra_spec action); key = personaKey action in
      if pr_kind ref \<noteq> kindApplicationPersona then
        Inl (Err (''unsupported persona kind '' @ quoteQ (pr_kind ref) @ ending))
      else (case get_persona api w key of
              Inl e \<Rightarrow> Inl (Wrap (''getting ApplicationPersona '' @ fst key @ ''/'' @ snd key) e)
            | Inr p \<Rightarrow> Inr p))"

definition merge_err :: "raw \<Rightarrow> raw \<Rightarrow> merge_error \<Rightarrow> goerr" where
  "merge_err target patch m =
     (case m of
        TargetNotObject \<Rightarrow> Wrap ''unmarshalling target'' (unmarshalErr target)
      | PatchNotObject \<Rightarrow> Wrap ''unmarshalling patch'' (unmarshalErr patch))"

definition applyPatch ::
  "'w api \<Rightarrow> 'w \<Rightarrow> ApplicationPersona \<Rightarrow> raw \<Rightarrow> 'w \<times> goerr option" where
  "applyPatch api w persona patchRaw =
     (let currentJSON = RawJson (JObj (p_spec persona)) in
      case unmarshalMap patchRaw of
        None \<Rightarrow> (w, Some (Wrap ''unmarshalling patch'' (unmarshalErr patchRaw)))
      | Some patchWrapper \<Rightarrow>
          (case map_of patchWrapper ''spec'' of
             None \<Rightarrow> (w, Some (Err (''patch must contain a '' @ [CHR 0x27] @ ''spec'' @ [CHR 0x27] @ '' key'')))
           | Some specPatch \<Rightarrow>
               (case jsonMergePatch currentJSON (RawJson specPatch) of
                  Inl m \<Rightarrow> (w, Some (Wrap ''merging patch'' (merge_err currentJSON (RawJson specPatch) m)))
                | Inr mergedJSON \<Rightarrow>
                    (case unmarshalMap mergedJSON of
                       None \<Rightarrow> (w, Some (Wrap ''unmarshalling merged spec'' (unmarshalErr mergedJSON)))
                     | Some merged \<Rightarrow>
                         (case decode_spec api merged of
                            Inl e \<Rightarrow> (w, Some (Wrap ''unmarshalling merged spec'' e))
                          | Inr mergedSpec \<Rightarrow>
                              (case update_persona api w (persona\<lparr>p_spec := mergedSpec\<rparr>) of
                                 (w', None) \<Rightarrow> (w', None)
                               | (w', Some e) \<Rightarrow>
                                   (w', Some (Wrap ''updating ApplicationPersona'' e))))))))"

definition Apply :: "'w api \<Rightarrow> 'w \<Rightarrow> RemediationAction \<Rightarrow> 'w \<times> goerr option" where
  "Apply api w action =
     (case validatePreconditions action of
        Some e \<Rightarrow> (w, Some (PreconditionErr (err_text e)))
      | None \<Rightarrow>
          (case getTargetPersona '', only ApplicationPersona is supported'' api w action of
             Inl e \<Rightarrow> (w, Some (Wrap ''getting target persona'' e))
           | Inr persona \<Rightarrow>
               (if p_deletionTimestamp persona \<noteq> None then
                  (w, Some (Err (''target persona '' @ p_namespace persona @ ''/'' @ p_name persona @
                                 '' is being deleted'')))
                else (case applyPatch api w persona (the (ad_patch (sp_action (ra_spec action)))) of
                        (w', None) \<Rightarrow> (w', None)
                      | (w', Some e) \<Rightarrow> (w', Some (Wrap ''applying patch'' e))))))"

subsection \<open>Rollback\<close>

definition Rollback_Execute :: "'w api \<Rightarrow> 'w \<Rightarrow> RemediationAction \<Rightarrow> 'w \<times> goerr option" where
  "Rollback_Execute api w action =
     (let enabled = (case sp_rollback (ra_spec action) of None \<Rightarrow> False | Some rb \<Rightarrow> rb_enabled rb) in
      if \<not> enabled then
        (w, Some (Err (''rollback is not enabled for action '' @ ra_name action)))
      else if \<not> hasPatch (ad_prePatchState (sp_action (ra_spec action))) then
        (w, Some (Err (''prePatchState is nil or empty for action '' @ ra_name action @
                       '', cannot rollback'')))
      else (case getTargetPersona [] api w action of
              Inl e \<Rightarrow> (w, Some (Wrap ''getting target persona for rollback'' e))
            | Inr persona \<Rightarrow>
                (case applyPatch api w persona
                        (the (ad_prePatchState (sp_action (ra_spec action)))) of
                   (w', None) \<Rightarrow> (w', None)
                 | (w', Some e) \<Rightarrow> (w', Some (Wrap ''applying rollback patch'' e)))))"

text \<open>
  \<^verbatim>\<open>snapshotPrePatch\<close> (\<^verbatim>\<open>proposer_ai.go\<close>) takes the rollback document when a plan is
  made. Marshalling the spec and unmarshalling it again is the identity on its JSON image.
\<close>

definition snapshotPrePatch :: "ApplicationPersona option \<Rightarrow> raw \<Rightarrow> raw option" where
  "snapshotPrePatch persona patch =
     (case persona of
        None \<Rightarrow> None
      | Some p \<Rightarrow>
          (case unmarshalMap patch of
             None \<Rightarrow> None
           | Some patchMap \<Rightarrow>
               (let currentMap = [(''spec'', JObj (p_spec p))];
                    snap = mirrorExistingPaths patchMap currentMap
                in if length snap = 0 then None else Some (RawJson (JObj snap)))))"

subsection \<open>Verifier\<close>

datatype VerificationResult = VerificationHealthy | VerificationDegraded | VerificationUnknown

definition verification_str :: "VerificationResult \<Rightarrow> string" where
  "verification_str r =
     (case r of VerificationHealthy \<Rightarrow> ''Healthy'' | VerificationDegraded \<Rightarrow> ''Degraded''
      | VerificationUnknown \<Rightarrow> ''Unknown'')"

definition hasSignalForPersona :: "Signal list \<Rightarrow> string \<Rightarrow> string \<Rightarrow> string \<Rightarrow> bool" where
  "hasSignalForPersona signals signalType personaName personaNamespace =
     list_ex (\<lambda>s. case sg_personaRef s of
                    None \<Rightarrow> False
                  | Some ref \<Rightarrow> sg_type s = signalType \<and> pr_name ref = personaName
                                \<and> pr_namespace ref = personaNamespace) signals"

definition hasNewCriticalSignals :: "Signal list \<Rightarrow> string \<Rightarrow> string \<Rightarrow> bool" where
  "hasNewCriticalSignals signals personaName personaNamespace =
     list_ex (\<lambda>s. case sg_personaRef s of
                    None \<Rightarrow> False
                  | Some ref \<Rightarrow> sg_severity s = SeverityCritical \<and> pr_name ref = personaName
                                \<and> pr_namespace ref = personaNamespace) signals"

definition incidentKey :: "RemediationAction \<Rightarrow> objkey" where
  "incidentKey action =
     (let ref = sp_incidentRef (ra_spec action);
          ns = (if ir_namespace ref = [] then ra_namespace action else ir_namespace ref)
      in (ns, ir_name ref))"

definition getIncident :: "'w api \<Rightarrow> 'w \<Rightarrow> RemediationAction \<Rightarrow> goerr + IncidentMemory" where
  "getIncident api w action =
     (let key = incidentKey action in
      case get_incident api w key of
        Inl e \<Rightarrow> Inl (Wrap (''getting IncidentMemory '' @ fst key @ ''/'' @ snd key) e)
      | Inr im \<Rightarrow> Inr im)"

definition Verify ::
  "'w api \<Rightarrow> 'w Engine \<Rightarrow> 'w \<Rightarrow> RemediationAction \<Rightarrow> VerificationResult \<times> goerr option" where
  "Verify api eng w action =
     (case CollectAll eng w of
        Inl e \<Rightarrow> (VerificationUnknown, Some (Wrap ''collecting signals'' e))
      | Inr signals \<Rightarrow>
          (case getIncident api w action of
             Inl e \<Rightarrow> (VerificationUnknown, Some (Wrap ''getting incident'' e))
           | Inr incident \<Rightarrow>
               (let originalSignal = di_signal (is_detection (im_spec incident));
                    name = pr_name (sp_personaRef (ra_spec action));
                    ns = pr_namespace (sp_personaRef (ra_spec action))
                in if hasSignalForPersona signals originalSignal name ns
                   then (VerificationDegraded, None)
                   else if hasNewCriticalSignals signals name ns
                   then (VerificationDegraded, None)
                   else (VerificationHealthy, None))))"

subsection \<open>Laws of the executor\<close>

lemma validatePreconditions_None:
  "validatePreconditions a = None \<longleftrightarrow>
     ra_phase a = Approved \<and> ad_type (sp_action (ra_spec a)) = ''persona-update'' \<and>
     hasPatch (ad_prePatchState (sp_action (ra_spec a))) \<and>
     (\<exists>r m. ad_patch (sp_action (ra_spec a)) = Some r \<and> unmarshalMap r = Some m)"
  by (auto simp: validatePreconditions_def Let_def hasPatch_def rawNonEmpty_def unmarshalMap_def
      split: option.splits raw.splits json.splits)

text \<open>Every error of the executor that is a precondition error left the world alone.\<close>

lemma getTargetPersona_not_precond:
  assumes "\<And>w k e. get_persona api w k = Inl e \<Longrightarrow> \<not> is_precondition e"
    and "getTargetPersona s api w a = Inl e"
  shows "\<not> is_precondition e"
  using assms(2) assms(1) [of w "personaKey a"]
  by (auto simp: getTargetPersona_def Let_def split: if_splits sum.splits)

lemma Apply_precondition_iff:
  "validatePreconditions a = Some e \<Longrightarrow> Apply api w a = (w, Some (PreconditionErr (err_text e)))"
  by (simp add: Apply_def)

text \<open>The successful path of \<^const>\<open>applyPatch\<close>.\<close>

lemma applyPatch_ok:
  assumes "unmarshalMap patchRaw = Some pw" "map_of pw ''spec'' = Some (JObj sp)"
    and "decode_spec api (mergeMaps (p_spec persona) sp) = Inr spec'"
  shows "applyPatch api w persona patchRaw =
    (case update_persona api w (persona\<lparr>p_spec := spec'\<rparr>) of
       (w', None) \<Rightarrow> (w', None)
     | (w', Some e) \<Rightarrow> (w', Some (Wrap ''updating ApplicationPersona'' e)))"
  using assms by (simp add: applyPatch_def jsonMergePatch_def unmarshalMap_def Let_def split: prod.splits)

text \<open>
  The precondition contract of the executor. Applying an action returns a precondition
  error exactly when the action is not Approved, is not a persona update, lacks a patch or a
  pre-patch snapshot, or its patch is not a JSON object; and then nothing was written: the world
  is the one the executor was called in. The API server is only assumed not to return the
  executor's own error type.
\<close>

theorem apply_precondition_contract:
  assumes get: "\<And>w k e. get_persona api w k = Inl e \<Longrightarrow> \<not> is_precondition e"
    and upd: "\<And>w p w' e. update_persona api w p = (w', Some e) \<Longrightarrow> \<not> is_precondition e"
    and dec: "\<And>m e. decode_spec api m = Inl e \<Longrightarrow> \<not> is_precondition e"
  shows "((\<exists>e. snd (Apply api w a) = Some e \<and> is_precondition e) \<longleftrightarrow>
           \<not> (ra_phase a = Approved \<and> ad_type (sp_action (ra_spec a)) = ''persona-update'' \<and>
              hasPatch (ad_prePatchState (sp_action (ra_spec a))) \<and>
              (\<exists>r m. ad_patch (sp_action (ra_spec a)) = Some r \<and> unmarshalMap r = Some m))) \<and>
         (\<forall>e. snd (Apply api w a) = Some e \<and> is_precondition e \<longrightarrow> fst (Apply api w a) = w)"
proof -
  have um: "\<not> is_precondition (unmarshalErr r)" for r
    by (simp add: unmarshalErr_def split: raw.splits)
  have ap: "\<not> is_precondition e" if "applyPatch api w p r = (w', Some e)" for p r w' e
    using that um upd dec
    by (auto simp: applyPatch_def Let_def merge_err_def
        split: option.splits sum.splits prod.splits merge_error.splits)
  have gt: "\<not> is_precondition e" if "getTargetPersona s api w a = Inl e" for s e
    using getTargetPersona_not_precond [OF get that] .
  have ok: "\<not> (\<exists>e. snd (Apply api w a) = Some e \<and> is_precondition e)" if "validatePreconditions a = None"
    using that ap gt
    by (fastforce simp: Apply_def split: sum.splits prod.splits option.splits if_splits)
  show ?thesis
    unfolding validatePreconditions_None [symmetric]
    using ok by (cases "validatePreconditions a") (auto simp: Apply_def)
qed

end
