(* ===== verification/Divergence.thy ===== *)
theory Divergence
  imports Execution
begin

text \<open>
  What a rollback could not reach. The operator restores the ApplicationPersona and cannot write
  a Deployment, so after a rollback it compares the live container with the values recorded
  before the remediation (\<^verbatim>\<open>internal/remediation/rollback_divergence.go\<close>) and words the
  finding in the form the workload's owner permits
  (\<^verbatim>\<open>ownerInstruction\<close> and its helpers of \<^verbatim>\<open>proposer_ownership.go\<close>).
\<close>

abbreviation "pathPrefixLimits \<equiv> ''spec.resources.limits.''"
abbreviation "pathPrefixRequests \<equiv> ''spec.resources.requests.''"
abbreviation "resourceKeyCPU \<equiv> ''cpu''"
abbreviation "resourceKeyMemory \<equiv> ''memory''"

abbreviation "ReasonWorkloadDiverged \<equiv> ''WorkloadDiverged''"
abbreviation "ReasonWorkloadRestored \<equiv> ''WorkloadRestored''"
abbreviation "ReasonWorkloadUnreadable \<equiv> ''WorkloadUnreadable''"

subsection \<open>Paths\<close>

definition resolved :: "WorkloadRef option \<Rightarrow> bool" where
  "resolved ref = (case ref of None \<Rightarrow> False | Some r \<Rightarrow> wr_name r \<noteq> [])"

text \<open>\<^verbatim>\<open>s[strings.LastIndex(s, ".")+1:]\<close>: the text after the last dot, or all of it.\<close>

definition afterLastDot :: "string \<Rightarrow> string" where
  "afterLastDot s = (case splitLast (CHR ''.'') s of None \<Rightarrow> s | Some (_, b) \<Rightarrow> b)"

definition isResourcePath :: "string \<Rightarrow> bool" where
  "isResourcePath path =
     (if \<not> hasPrefix path pathPrefixLimits \<and> \<not> hasPrefix path pathPrefixRequests then False
      else let leaf = afterLastDot path in leaf = resourceKeyCPU \<or> leaf = resourceKeyMemory)"

subsection \<open>Outcome\<close>

record WorkloadDivergence =
  wd_field :: string
  wd_live :: string
  wd_intended :: string

record RollbackOutcome =
  ro_ref :: "WorkloadRef option"
  ro_divergences :: "WorkloadDivergence list"
  ro_unreadable :: string

definition Diverged :: "RollbackOutcome \<Rightarrow> bool" where
  "Diverged outcome = (0 < length (ro_divergences outcome))"

definition Reason :: "RollbackOutcome \<Rightarrow> string" where
  "Reason outcome =
     (if ro_unreadable outcome \<noteq> [] then ReasonWorkloadUnreadable
      else if Diverged outcome then ReasonWorkloadDiverged
      else ReasonWorkloadRestored)"

definition containerNamed :: "Deployment \<Rightarrow> string \<Rightarrow> Container option" where
  "containerNamed deploy name =
     (case List.find (\<lambda>c. ct_name c = name) (d_containers deploy) of
        Some c \<Rightarrow> Some c
      | None \<Rightarrow> (case d_containers deploy of [c] \<Rightarrow> Some c | _ \<Rightarrow> None))"

definition observedResourceValue :: "WorkloadRef \<Rightarrow> string \<Rightarrow> string" where
  "observedResourceValue ref field =
     (case wr_observedResources ref of
        None \<Rightarrow> []
      | Some obs \<Rightarrow>
          (let values = (if containsStr field ''.requests.'' then or_requests obs else or_limits obs)
           in case values of
                None \<Rightarrow> []
              | Some v \<Rightarrow>
                  (if hasSuffix field ''.cpu'' then rv_cpu v
                   else if hasSuffix field ''.memory'' then rv_memory v else [])))"

definition liveResourceValue :: "Container \<Rightarrow> string \<Rightarrow> string" where
  "liveResourceValue container field =
     (let lst = (if containsStr field ''.requests.'' then ct_requests container else ct_limits container);
          name = (if hasSuffix field ''.cpu'' then ''cpu'' else ''memory'')
      in case map_of lst name of None \<Rightarrow> [] | Some qty \<Rightarrow> q_string qty)"

text \<open>The body of the loop over the patched resource paths: no entry, or one divergence.\<close>

definition divergenceAt :: "WorkloadRef \<Rightarrow> Container \<Rightarrow> string \<Rightarrow> WorkloadDivergence list" where
  "divergenceAt ref container personaPath =
     (let field = trimPrefix personaPath ''spec.'';
          intended = observedResourceValue ref field;
          live = liveResourceValue container field
      in if intended = [] \<or> live = intended then []
         else [\<lparr>wd_field = field, wd_live = live, wd_intended = intended\<rparr>])"

definition compareToPreRemediation ::
  "RemediationAction \<Rightarrow> WorkloadRef \<Rightarrow> Container \<Rightarrow> WorkloadDivergence list" where
  "compareToPreRemediation action ref container =
     (case ad_patch (sp_action (ra_spec action)) of
        None \<Rightarrow> []
      | Some patch \<Rightarrow>
          (if \<not> rawNonEmpty patch then []
           else let paths = sort (filter isResourcePath (map fst (patchLeafValues patch)))
                in concat (map (divergenceAt ref container) paths)))"

definition InspectRollback :: "'w api \<Rightarrow> 'w \<Rightarrow> RemediationAction \<Rightarrow> RollbackOutcome" where
  "InspectRollback api w action =
     (case sp_workloadRef (ra_spec action) of
        None \<Rightarrow>
          \<lparr>ro_ref = None, ro_divergences = [], ro_unreadable =
             ''Dorgu never resolved a live Deployment for this application, so it cannot say whether the workload still carries the change.''\<rparr>
      | Some ref \<Rightarrow>
          (if wr_name ref = [] \<or> wr_namespace ref = [] then
             \<lparr>ro_ref = Some ref, ro_divergences = [], ro_unreadable =
                ''Dorgu never resolved a live Deployment for this application, so it cannot say whether the workload still carries the change.''\<rparr>
           else (case get_deployment api w (wr_namespace ref, wr_name ref) of
                   Inl e \<Rightarrow>
                     \<lparr>ro_ref = Some ref, ro_divergences = [], ro_unreadable =
                        ''Dorgu could not read Deployment '' @ wr_namespace ref @ ''/'' @ wr_name ref @
                        '' to check whether it still carries the change: '' @ err_text e\<rparr>
                 | Inr deploy \<Rightarrow>
                     (case containerNamed deploy (wr_container ref) of
                        None \<Rightarrow>
                          \<lparr>ro_ref = Some ref, ro_divergences = [], ro_unreadable =
                             ''Dorgu could not find container '' @ quoteQ (wr_container ref) @
                             '' on Deployment '' @ wr_namespace ref @ ''/'' @ wr_name ref @
                             '', so it cannot say whether the workload still carries the change.''\<rparr>
                      | Some container \<Rightarrow>
                          \<lparr>ro_ref = Some ref,
                           ro_divergences = compareToPreRemediation action ref container,
                           ro_unreadable = []\<rparr>))))"

subsection \<open>Wording\<close>

definition humanFieldList :: "string list \<Rightarrow> string" where
  "humanFieldList fs =
     (case fs of
        [] \<Rightarrow> ''the proposed value''
      | [f] \<Rightarrow> f
      | _ \<Rightarrow> joinWith '', '' (butlast fs) @ '' and '' @ last fs)"

record resourceChange =
  rch_key :: string
  rch_value :: string

definition describeChanges :: "resourceChange list \<Rightarrow> string" where
  "describeChanges changes =
     (if changes = [] then []
      else ''Set '' @ humanFieldList (map (\<lambda>c. rch_key c @ '': '' @ rch_value c) changes))"

definition ownerSourceOfTruth :: "WorkloadRef \<Rightarrow> string \<times> string" where
  "ownerSourceOfTruth ref =
     (let owner = wr_managedByDetail ref; mb = wr_managedBy ref in
      if mb = ''helm'' then
        (''the values for '' @
           (if owner = [] then ''the Helm release that owns this Deployment'' else owner) @
           '' (the key is chart-specific, commonly under `resources`)'',
         ''run your usual `helm upgrade` for that release'')
      else if mb = ''argocd'' then
        (''the Git manifests for '' @
           (if owner = [] then ''the ArgoCD application that owns this Deployment'' else owner),
         ''commit and let ArgoCD sync'')
      else if mb = ''flux'' then
        (''the Git source reconciled by '' @
           (if owner = [] then ''the Flux resource that owns this Deployment'' else owner),
         ''commit and let Flux reconcile it'')
      else if mb = ''kustomize'' then
        (''your kustomize overlay for this Deployment'', ''re-apply the overlay'')
      else if \<not> resolved (Some ref) then
        (''whatever manages this application (Dorgu could not resolve its Deployment)'', [])
      else let detail = trimSpace (wr_managedByDetail ref) in
        if detail \<noteq> [] then
          (''whatever manages Deployment '' @ wr_name ref @ '' ('' @ detail @ '')'', [])
        else
          (''whatever manages Deployment '' @ wr_name ref @ '' (Dorgu could not identify it)'', []))"

definition trimRightDots :: "string \<Rightarrow> string" where
  "trimRightDots s = rev (dropWhile (\<lambda>c. c = CHR ''.'') (rev s))"

definition ownerInstruction :: "WorkloadRef \<Rightarrow> resourceChange list \<Rightarrow> string \<Rightarrow> string" where
  "ownerInstruction ref changes fallback =
     (let described = describeChanges changes;
          trimmed = trimRightDots (trimSpace fallback);
          what = (if described \<noteq> [] then described
                  else if trimmed \<noteq> [] then trimmed else ''Apply this change'');
          (where', how) = ownerSourceOfTruth ref
      in if how = [] then what @ '' in '' @ where' @ ''.''
         else what @ '' in '' @ where' @ '', then '' @ how @ ''.'')"

definition whyDorguWillNotPatch :: "WorkloadRef \<Rightarrow> string" where
  "whyDorguWillNotPatch ref =
     (let owner = wr_managedByDetail ref; mb = wr_managedBy ref in
      if mb = ''helm'' then
        ''Dorgu will not patch this Deployment because '' @
        (if owner = [] then ''a Helm release'' else owner) @
        '' owns it: a direct patch claims the fields it sets, and the next `helm upgrade` then fails with a field-manager conflict.''
      else if mb = ''argocd'' then
        ''Dorgu will not patch this Deployment because '' @
        (if owner = [] then ''an ArgoCD application'' else owner) @
        '' owns it: a direct patch is reverted on the next sync, or fails outright under server-side apply.''
      else if mb = ''flux'' then
        ''Dorgu will not patch this Deployment because '' @
        (if owner = [] then ''a Flux controller'' else owner) @
        '' reconciles it: a direct patch is reverted on the next reconciliation.''
      else if mb = ''kustomize'' then
        ''Dorgu will not patch this Deployment because a kustomize overlay owns it: a direct patch is overwritten the next time the overlay is applied.''
      else if \<not> resolved (Some ref) then
        ''Dorgu could not resolve the Deployment for this application, so it cannot tell what owns it and will not suggest a command that writes to it. Unresolved is treated as owned.''
      else let detail = trimSpace (wr_managedByDetail ref) in
        if detail \<noteq> [] then
          ''Dorgu will not patch this Deployment. What it can see: '' @ detail @
          ''. It cannot tell what that manager belongs to, and unknown is treated as owned, because a patch that collides with an unseen owner breaks their next deploy.''
        else
          ''Dorgu could not identify what manages this Deployment, so it will not patch it. Unknown is treated as owned, because a patch that collides with an unseen owner breaks their next deploy.'')"

definition revertCommand :: "WorkloadRef \<Rightarrow> WorkloadDivergence list \<Rightarrow> string" where
  "revertCommand ref divergences =
     (let keyOf = (\<lambda>d. afterLastDot (wd_field d) @ ''='' @ wd_intended d);
          isReq = (\<lambda>d. containsStr (wd_field d) ''.requests.'');
          requests = map keyOf (filter isReq divergences);
          limits = map keyOf (filter (\<lambda>d. \<not> isReq d) divergences)
      in ''kubectl set resources deployment/'' @ wr_name ref @ '' -n '' @ wr_namespace ref @
         '' --containers='' @ wr_container ref @
         (if 0 < length limits then '' --limits='' @ joinWith '','' limits else []) @
         (if 0 < length requests then '' --requests='' @ joinWith '','' requests else []))"

definition revertInstruction :: "WorkloadRef \<Rightarrow> RollbackOutcome \<Rightarrow> string" where
  "revertInstruction ref outcome =
     (if wr_managedBy ref = ''unmanaged'' then
        ''To finish the rollback: '' @ revertCommand ref (ro_divergences outcome)
      else
        ''To finish the rollback: '' @
        ownerInstruction ref
          (map (\<lambda>d. \<lparr>rch_key = wd_field d, rch_value = wd_intended d\<rparr>) (ro_divergences outcome)) [] @
        '' '' @ whyDorguWillNotPatch ref)"

text \<open>
  \<^verbatim>\<open>Message\<close> dereferences the workload ref in its last two branches; there the outcome was
  built with one, and \<open>None\<close> stands for the nil dereference.
\<close>

definition Message :: "RollbackOutcome \<Rightarrow> string option" where
  "Message outcome =
     (if ro_unreadable outcome \<noteq> [] then
        Some (''Rollback restored the ApplicationPersona. '' @ ro_unreadable outcome)
      else (case ro_ref outcome of
              None \<Rightarrow> None
            | Some ref \<Rightarrow>
                (if \<not> Diverged outcome then
                   Some (''Rollback restored the ApplicationPersona, and Deployment '' @
                         wr_namespace ref @ ''/'' @ wr_name ref @
                         '' matches what it held before the remediation. Nothing is left to undo.'')
                 else
                   Some (''Rollback restored the ApplicationPersona but NOT the workload. '' @
                         ''Dorgu has no write access to Deployments, so it cannot un-patch one. '' @
                         ''Container '' @ quoteQ (wr_container ref) @ '' on Deployment '' @
                         wr_namespace ref @ ''/'' @ wr_name ref @
                         '' still carries the remediation: '' @
                         humanFieldList (map (\<lambda>d. wd_field d @ '' is '' @ wd_live d @ '', and was '' @
                                                  wd_intended d) (ro_divergences outcome)) @
                         ''. '' @ revertInstruction ref outcome))))"

subsection \<open>Laws\<close>

lemma InspectRollback_cases:
  obtains (unreadable) "ro_unreadable (InspectRollback api w a) \<noteq> []"
      "ro_divergences (InspectRollback api w a) = []"
  | (compared) ref deploy c where "sp_workloadRef (ra_spec a) = Some ref"
      "get_deployment api w (wr_namespace ref, wr_name ref) = Inr deploy"
      "containerNamed deploy (wr_container ref) = Some c"
      "InspectRollback api w a =
         \<lparr>ro_ref = Some ref, ro_divergences = compareToPreRemediation a ref c, ro_unreadable = []\<rparr>"
proof (cases "ro_unreadable (InspectRollback api w a) = []")
  case True
  then obtain ref deploy c where "sp_workloadRef (ra_spec a) = Some ref"
      "get_deployment api w (wr_namespace ref, wr_name ref) = Inr deploy"
      "containerNamed deploy (wr_container ref) = Some c"
      "InspectRollback api w a =
         \<lparr>ro_ref = Some ref, ro_divergences = compareToPreRemediation a ref c, ro_unreadable = []\<rparr>"
    by (auto simp: InspectRollback_def split: option.splits if_splits sum.splits)
  then show ?thesis by (rule compared)
next
  case False
  then have "ro_divergences (InspectRollback api w a) = []"
    by (auto simp: InspectRollback_def split: option.splits if_splits sum.splits)
  with False show ?thesis by (rule unreadable)
qed

text \<open>Every recorded resource field the patch names holds its recorded value.\<close>

definition field_matches :: "WorkloadRef \<Rightarrow> Container \<Rightarrow> string \<Rightarrow> bool" where
  "field_matches ref c path =
     (let field = trimPrefix path ''spec.''
      in observedResourceValue ref field = [] \<or>
         liveResourceValue c field = observedResourceValue ref field)"

definition workload_matches :: "raw \<Rightarrow> WorkloadRef \<Rightarrow> Container \<Rightarrow> bool" where
  "workload_matches patch ref c =
     list_all (field_matches ref c) (filter isResourcePath (map fst (patchLeafValues patch)))"

lemma divergenceAt_Nil: "divergenceAt ref c path = [] \<longleftrightarrow> field_matches ref c path"
  by (simp add: divergenceAt_def field_matches_def Let_def)

lemma compare_empty_iff:
  assumes "ad_patch (sp_action (ra_spec a)) = Some patch" "rawNonEmpty patch"
  shows "compareToPreRemediation a ref c = [] \<longleftrightarrow> workload_matches patch ref c"
proof -
  let ?paths = "filter isResourcePath (map fst (patchLeafValues patch))"
  have "compareToPreRemediation a ref c = concat (map (divergenceAt ref c) (sort ?paths))"
    unfolding compareToPreRemediation_def assms(1) option.case Let_def if_not_P [OF not_not [THEN iffD2, OF assms(2)]] ..
  moreover have "concat (map (divergenceAt ref c) xs) = [] \<longleftrightarrow> list_all (field_matches ref c) xs" for xs
    by (induction xs) (simp_all add: divergenceAt_Nil)
  moreover have "list_all (field_matches ref c) (sort ?paths) = list_all (field_matches ref c) ?paths"
    unfolding list_all_iff set_sort ..
  ultimately show ?thesis unfolding workload_matches_def by presburger
qed


end
