(* ===== verification/Workload.thy ===== *)
theory Workload
  imports Divergence
begin

text \<open>
  \<^verbatim>\<open>internal/workload\<close>: which Deployment a persona describes (\<^verbatim>\<open>match.go\<close>), who owns its
  desired state (\<^verbatim>\<open>ownership.go\<close>, \<^verbatim>\<open>ownership_fields.go\<close>), and the observation a
  remediation is grounded in (\<^verbatim>\<open>observe.go\<close>). A label or annotation that is absent reads as
  the empty string, as a Go map does. Label values and manager names are ASCII, so lower-casing
  is by character.
\<close>

subsection \<open>Matching (match.go)\<close>

abbreviation "LabelAppName \<equiv> ''app.kubernetes.io/name''"
abbreviation "LabelApp \<equiv> ''app''"
abbreviation "RungLabelAppName \<equiv> ''label app.kubernetes.io/name''"
abbreviation "RungLabelApp \<equiv> ''label app''"
abbreviation "RungName \<equiv> ''metadata.name''"
abbreviation "RungSelector \<equiv> ''spec.selector.matchLabels''"

record matcher =
  mt_rung :: string
  mt_match :: "Deployment \<Rightarrow> string \<Rightarrow> bool"

definition chain :: "matcher list" where
  "chain =
     [\<lparr>mt_rung = RungLabelAppName, mt_match = (\<lambda>d name. getStr (d_labels d) LabelAppName = name)\<rparr>,
      \<lparr>mt_rung = RungLabelApp, mt_match = (\<lambda>d name. getStr (d_labels d) LabelApp = name)\<rparr>,
      \<lparr>mt_rung = RungName, mt_match = (\<lambda>d name. d_name d = name)\<rparr>,
      \<lparr>mt_rung = RungSelector, mt_match = (\<lambda>d name.
         case d_selector d of
           None \<Rightarrow> False
         | Some ml \<Rightarrow> getStr ml LabelAppName = name \<or> getStr ml LabelApp = name)\<rparr>]"

record AmbiguousError =
  ae_personaName :: string
  ae_rung :: string
  ae_candidates :: "string list"

definition ambiguousText :: "AmbiguousError \<Rightarrow> string" where
  "ambiguousText e =
     showInt (int (length (ae_candidates e))) @ '' Deployments match persona '' @
     quoteQ (ae_personaName e) @ '' by '' @ ae_rung e @ '' ('' @
     joinWith '', '' (ae_candidates e) @ ''); set '' @ LabelAppName @ ''='' @
     ae_personaName e @ '' on exactly one''"

definition ChainDescription :: string where
  "ChainDescription = joinWith '', '' (map mt_rung chain)"

definition Matches :: "Deployment option \<Rightarrow> string \<Rightarrow> bool" where
  "Matches deploy personaName =
     (case deploy of
        None \<Rightarrow> False
      | Some d \<Rightarrow> if personaName = [] then False else list_ex (\<lambda>m. mt_match m d personaName) chain)"

text \<open>The loop of \<^verbatim>\<open>Resolve\<close> over the chain.\<close>

fun resolveLoop ::
  "Deployment list \<Rightarrow> string \<Rightarrow> matcher list \<Rightarrow> AmbiguousError + (Deployment option \<times> string)" where
  "resolveLoop deployments personaName [] = Inr (None, [])"
| "resolveLoop deployments personaName (m # ms) =
     (case filter (\<lambda>d. mt_match m d personaName) deployments of
        [] \<Rightarrow> resolveLoop deployments personaName ms
      | [d] \<Rightarrow> Inr (Some d, mt_rung m)
      | ds \<Rightarrow> Inl \<lparr>ae_personaName = personaName, ae_rung = mt_rung m,
                   ae_candidates = sort (map d_name ds)\<rparr>)"

definition Resolve ::
  "Deployment list \<Rightarrow> string \<Rightarrow> AmbiguousError + (Deployment option \<times> string)" where
  "Resolve deployments personaName =
     (if personaName = [] then Inr (None, []) else resolveLoop deployments personaName chain)"

subsection \<open>Field ownership (ownership\_fields.go)\<close>

fun descendFields :: "jmap \<Rightarrow> string list \<Rightarrow> jmap option" where
  "descendFields node [] = Some node"
| "descendFields node (key # keys) =
     (case map_of node key of
        None \<Rightarrow> None
      | Some v \<Rightarrow> (case unmarshalMap (RawJson v) of None \<Rightarrow> None | Some next \<Rightarrow> descendFields next keys))"

definition ownsContainerResources :: "ManagedFieldsEntry \<Rightarrow> bool" where
  "ownsContainerResources entry =
     (case mf_fieldsV1 entry of
        None \<Rightarrow> False
      | Some r \<Rightarrow>
          (if \<not> rawNonEmpty r then False
           else (case unmarshalMap r of
                   None \<Rightarrow> True
                 | Some doc \<Rightarrow>
                     (case descendFields doc [''f:spec'', ''f:template'', ''f:spec'', ''f:containers''] of
                        None \<Rightarrow> False
                      | Some containers \<Rightarrow>
                          list_ex (\<lambda>(key, v).
                            hasPrefix key ''k:'' \<and>
                            (case unmarshalMap (RawJson v) of
                               None \<Rightarrow> True
                             | Some container \<Rightarrow> map_of container ''f:resources'' \<noteq> None)) containers))))"

subsection \<open>Owners (ownership.go)\<close>

abbreviation "ManagedByUnmanaged \<equiv> ''unmanaged''"
abbreviation "ManagedByUnknown \<equiv> ''unknown''"
abbreviation "ManagedByArgoCD \<equiv> ''argocd''"
abbreviation "ManagedByFlux \<equiv> ''flux''"
abbreviation "ManagedByHelm \<equiv> ''helm''"
abbreviation "ManagedByKustomize \<equiv> ''kustomize''"

record Ownership =
  ow_managedBy :: string
  ow_detail :: string

definition lowerChar :: "char \<Rightarrow> char" where
  "lowerChar c = (if 65 \<le> (of_char c :: nat) \<and> (of_char c :: nat) \<le> 90 then char_of ((of_char c :: nat) + 32) else c)"

definition toLower :: "string \<Rightarrow> string" where
  "toLower s = map lowerChar s"

definition Ownership_IsOwned :: "Ownership \<Rightarrow> bool" where
  "Ownership_IsOwned o' = (ow_managedBy o' \<noteq> ManagedByUnmanaged)"

definition fieldManagers :: "ManagedFieldsEntry list \<Rightarrow> string list" where
  "fieldManagers entries = map (toLower \<circ> mf_manager) (filter (\<lambda>e. mf_manager e \<noteq> []) entries)"

definition hasManager :: "string list \<Rightarrow> string list \<Rightarrow> bool" where
  "hasManager managers names = list_ex (\<lambda>n. n \<in> set managers) names"

definition argoCDAppFromTrackingID :: "string \<Rightarrow> string" where
  "argoCDAppFromTrackingID id' =
     (let app = takeWhile (\<lambda>c. c \<noteq> CHR '':'') id'
      in if CHR '':'' \<in> set id' \<and> app \<noteq> [] then app else id')"

type_synonym labels = "(string \<times> string) list"

definition detectArgoCD :: "labels \<Rightarrow> labels \<Rightarrow> string list \<Rightarrow> Ownership option" where
  "detectArgoCD lbls annots managers =
     (let t = getStr annots ''argocd.argoproj.io/tracking-id'';
          i = getStr lbls ''argocd.argoproj.io/instance''
      in if t \<noteq> [] then
           Some \<lparr>ow_managedBy = ManagedByArgoCD,
                 ow_detail = ''ArgoCD application '' @ quoteQ (argoCDAppFromTrackingID t)\<rparr>
         else if i \<noteq> [] then
           Some \<lparr>ow_managedBy = ManagedByArgoCD, ow_detail = ''ArgoCD application '' @ quoteQ i\<rparr>
         else if hasManager managers [''argocd-controller'', ''argocd-application-controller''] then
           Some \<lparr>ow_managedBy = ManagedByArgoCD, ow_detail = ''an ArgoCD application''\<rparr>
         else None)"

definition detectFlux :: "labels \<Rightarrow> string list \<Rightarrow> Ownership option" where
  "detectFlux lbls managers =
     (let k = getStr lbls ''kustomize.toolkit.fluxcd.io/name'';
          h = getStr lbls ''helm.toolkit.fluxcd.io/name''
      in if k \<noteq> [] then
           Some \<lparr>ow_managedBy = ManagedByFlux, ow_detail = ''Flux Kustomization '' @ quoteQ k\<rparr>
         else if h \<noteq> [] then
           Some \<lparr>ow_managedBy = ManagedByFlux, ow_detail = ''Flux HelmRelease '' @ quoteQ h\<rparr>
         else if hasManager managers [''kustomize-controller'', ''helm-controller''] then
           Some \<lparr>ow_managedBy = ManagedByFlux, ow_detail = ''a Flux controller''\<rparr>
         else None)"

abbreviation "LabelManagedBy \<equiv> ''app.kubernetes.io/managed-by''"

definition detectHelm :: "labels \<Rightarrow> labels \<Rightarrow> string list \<Rightarrow> Ownership option" where
  "detectHelm lbls annots managers =
     (let release = getStr annots ''meta.helm.sh/release-name'';
          releaseNS = getStr annots ''meta.helm.sh/release-namespace''
      in if release \<noteq> [] then
           Some \<lparr>ow_managedBy = ManagedByHelm,
                 ow_detail = (if releaseNS \<noteq> []
                   then ''Helm release '' @ quoteQ release @ '' in namespace '' @ releaseNS
                   else ''Helm release '' @ quoteQ release)\<rparr>
         else if toLower (getStr lbls LabelManagedBy) = ''helm'' then
           Some \<lparr>ow_managedBy = ManagedByHelm, ow_detail = ''a Helm release''\<rparr>
         else if hasManager managers [''helm''] then
           Some \<lparr>ow_managedBy = ManagedByHelm, ow_detail = ''a Helm release''\<rparr>
         else None)"

definition isKustomizeManagedBy :: "string \<Rightarrow> bool" where
  "isKustomizeManagedBy value' =
     (let lower = toLower (trimSpace value')
      in lower = ''kustomize'' \<or> hasPrefix lower ''kustomize-'')"

definition detectKustomize :: "labels \<Rightarrow> labels \<Rightarrow> Ownership option" where
  "detectKustomize lbls annots =
     (if isKustomizeManagedBy (getStr lbls LabelManagedBy) then
        Some \<lparr>ow_managedBy = ManagedByKustomize, ow_detail = ''a kustomize overlay''\<rparr>
      else if list_ex (\<lambda>an. getStr annots an \<noteq> [])
                [''config.kubernetes.io/origin'', ''alpha.config.kubernetes.io/transformations''] then
        Some \<lparr>ow_managedBy = ManagedByKustomize, ow_detail = ''a kustomize overlay''\<rparr>
      else None)"

definition isKnownBenignManager :: "string \<Rightarrow> bool" where
  "isKnownBenignManager manager =
     (let lower = toLower manager
      in hasPrefix lower ''kubectl'' \<or> hasPrefix lower ''dorgu'' \<or> lower = ''kube-controller-manager'')"

fun foreignFieldOwner :: "ManagedFieldsEntry list \<Rightarrow> Ownership option" where
  "foreignFieldOwner [] = None"
| "foreignFieldOwner (e # es) =
     (if mf_manager e = [] \<or> isKnownBenignManager (mf_manager e) then foreignFieldOwner es
      else if mf_operation e = ''Apply'' then
        Some \<lparr>ow_managedBy = ManagedByUnknown,
              ow_detail = ''server-side applied by field manager '' @ quoteQ (mf_manager e)\<rparr>
      else if mf_operation e = ''Update'' \<and> ownsContainerResources e then
        Some \<lparr>ow_managedBy = ManagedByUnknown,
              ow_detail = ''field manager '' @ quoteQ (mf_manager e) @
                          '' already owns this container'' @ [CHR 0x27] @ ''s resources''\<rparr>
      else foreignFieldOwner es)"

definition orElse :: "'a option \<Rightarrow> 'a option \<Rightarrow> 'a option" where
  "orElse a b = (case a of None \<Rightarrow> b | Some x \<Rightarrow> Some x)"

definition DetectOwner :: "Deployment option \<Rightarrow> Ownership" where
  "DetectOwner deploy =
     (case deploy of
        None \<Rightarrow> \<lparr>ow_managedBy = ManagedByUnknown, ow_detail = []\<rparr>
      | Some d \<Rightarrow>
          (let lbls = d_labels d; annots = d_annotations d; managers = fieldManagers (d_managedFields d)
           in case orElse (detectArgoCD lbls annots managers)
                    (orElse (detectFlux lbls managers)
                      (orElse (detectHelm lbls annots managers)
                        (orElse (detectKustomize lbls annots)
                          (foreignFieldOwner (d_managedFields d))))) of
                Some o' \<Rightarrow> o'
              | None \<Rightarrow> \<lparr>ow_managedBy = ManagedByUnmanaged, ow_detail = []\<rparr>))"

subsection \<open>Observation (observe.go)\<close>

record Observation =
  ob_deployment :: "Deployment option"
  ob_container :: "Container option"
  ob_matchedBy :: string
  ob_ownership :: Ownership

definition PickContainer :: "Deployment \<Rightarrow> string \<Rightarrow> Container option" where
  "PickContainer deploy personaName =
     (case d_containers deploy of
        [] \<Rightarrow> None
      | c # cs \<Rightarrow>
          (case find (\<lambda>c. ct_name c = personaName) (c # cs) of Some x \<Rightarrow> Some x | None \<Rightarrow> Some c))"

definition Observe ::
  "('w \<Rightarrow> string \<Rightarrow> goerr + Deployment list) \<Rightarrow> 'w \<Rightarrow> string \<Rightarrow> string \<Rightarrow> goerr + Observation option" where
  "Observe listDeployments w namespace personaName =
     (if personaName = [] \<or> namespace = [] then Inr None
      else (case listDeployments w namespace of
              Inl e \<Rightarrow> Inl (Wrap (''listing Deployments in namespace '' @ namespace) e)
            | Inr items \<Rightarrow>
                (case Resolve items personaName of
                   Inl amb \<Rightarrow> Inl (Err (ambiguousText amb))
                 | Inr (None, _) \<Rightarrow> Inr None
                 | Inr (Some match', rung) \<Rightarrow>
                     Inr (Some \<lparr>ob_deployment = Some match',
                                ob_container = PickContainer match' personaName,
                                ob_matchedBy = rung, ob_ownership = DetectOwner (Some match')\<rparr>))))"

definition resourceValues :: "(string \<times> Quantity) list \<Rightarrow> ResourceValues option" where
  "resourceValues lst =
     (let cpu = (case map_of lst ''cpu'' of Some q \<Rightarrow> q_string q | None \<Rightarrow> []);
          memory = (case map_of lst ''memory'' of Some q \<Rightarrow> q_string q | None \<Rightarrow> [])
      in if cpu = [] \<and> memory = [] then None else Some \<lparr>rv_cpu = cpu, rv_memory = memory\<rparr>)"

definition observedResources :: "Container \<Rightarrow> ObservedResources option" where
  "observedResources container =
     (let lims = resourceValues (ct_limits container); reqs = resourceValues (ct_requests container)
      in if lims = None \<and> reqs = None then None
         else Some \<lparr>or_requests = reqs, or_limits = lims\<rparr>)"

definition UnresolvedRef :: "time \<Rightarrow> WorkloadRef" where
  "UnresolvedRef now =
     \<lparr>wr_kind = ''Deployment'', wr_name = [], wr_namespace = [], wr_container = [],
      wr_managedBy = ManagedByUnknown, wr_managedByDetail = [], wr_observedResources = None,
      wr_observedImage = [], wr_observedAt = Some now\<rparr>"

definition Ref :: "Observation option \<Rightarrow> time \<Rightarrow> WorkloadRef" where
  "Ref obs now =
     (case obs of
        None \<Rightarrow> UnresolvedRef now
      | Some o' \<Rightarrow>
          (case ob_deployment o' of
             None \<Rightarrow> UnresolvedRef now
           | Some d \<Rightarrow>
               (let ref = \<lparr>wr_kind = ''Deployment'', wr_name = d_name d, wr_namespace = d_namespace d,
                           wr_container = [], wr_managedBy = ow_managedBy (ob_ownership o'),
                           wr_managedByDetail = ow_detail (ob_ownership o'),
                           wr_observedResources = None, wr_observedImage = [],
                           wr_observedAt = Some now\<rparr>
                in case ob_container o' of
                     None \<Rightarrow> ref
                   | Some c \<Rightarrow> ref\<lparr>wr_container := ct_name c, wr_observedImage := ct_image c,
                                  wr_observedResources := observedResources c\<rparr>)))"

subsection \<open>Laws of matching\<close>

text \<open>The first rung of a chain that matches some Deployment.\<close>

definition first_rung :: "Deployment list \<Rightarrow> string \<Rightarrow> matcher list \<Rightarrow> matcher \<Rightarrow> bool" where
  "first_rung ds n ms m =
     (\<exists>pre post. ms = pre @ m # post \<and> (\<forall>k \<in> set pre. \<forall>d \<in> set ds. \<not> mt_match k d n))"

lemma first_rung_hd [simp]: "first_rung ds n (m # ms) m"
  unfolding first_rung_def by (metis append_Nil empty_iff list.set(1))

lemma first_rung_Cons:
  assumes "\<forall>d \<in> set ds. \<not> mt_match k d n" "first_rung ds n ms m"
  shows "first_rung ds n (k # ms) m"
proof -
  from assms(2) obtain pre post where "ms = pre @ m # post"
    "\<forall>k \<in> set pre. \<forall>d \<in> set ds. \<not> mt_match k d n" unfolding first_rung_def by blast
  with assms(1) have "k # ms = (k # pre) @ m # post"
    "\<forall>j \<in> set (k # pre). \<forall>d \<in> set ds. \<not> mt_match j d n" by simp_all
  then show ?thesis unfolding first_rung_def by blast
qed

definition resolve_ok ::
  "Deployment list \<Rightarrow> string \<Rightarrow> matcher list \<Rightarrow> AmbiguousError + (Deployment option \<times> string) \<Rightarrow> bool" where
  "resolve_ok ds n ms out =
     (case out of
        Inr (Some d, rung) \<Rightarrow>
          (\<exists>m. first_rung ds n ms m \<and> rung = mt_rung m \<and> filter (\<lambda>e. mt_match m e n) ds = [d])
      | Inr (None, rung) \<Rightarrow> (\<forall>m \<in> set ms. \<forall>e \<in> set ds. \<not> mt_match m e n)
      | Inl amb \<Rightarrow>
          (\<exists>m. first_rung ds n ms m \<and> ae_rung amb = mt_rung m \<and> ae_personaName amb = n \<and>
             ae_candidates amb = sort (map d_name (filter (\<lambda>e. mt_match m e n) ds)) \<and>
             2 \<le> length (ae_candidates amb)))"

lemma resolve_ok_Cons:
  assumes "\<forall>d \<in> set ds. \<not> mt_match k d n" "resolve_ok ds n ms out"
  shows "resolve_ok ds n (k # ms) out"
  using assms first_rung_Cons [OF assms(1)]
  by (auto simp: resolve_ok_def split: sum.splits option.splits prod.splits) blast+

lemma resolveLoop_ok: "resolve_ok ds n ms (resolveLoop ds n ms)"
proof (induction ms)
  case Nil
  show ?case by (simp add: resolve_ok_def)
next
  case (Cons m ms)
  show ?case
  proof (cases "filter (\<lambda>e. mt_match m e n) ds")
    case Nil
    then have "\<forall>e \<in> set ds. \<not> mt_match m e n" by (simp add: filter_empty_conv)
    from resolve_ok_Cons [OF this Cons.IH] Nil show ?thesis by simp
  next
    case (Cons d ds')
    then show ?thesis
      by (cases ds') (auto simp: resolve_ok_def intro!: exI [where x = m])
  qed
qed

text \<open>
  Resolution never guesses. For a named persona, the resolved Deployment is the only one that
  matches at its rung of the fallback chain, and no Deployment matches at any earlier rung;
  nothing is resolved only if no Deployment matches at any rung; and a tie is reported, with the
  sorted names of the two or more Deployments that match at the first rung anything matches at.
\<close>

theorem resolve_never_guesses:
  assumes "personaName \<noteq> []"
  shows "resolve_ok ds personaName chain (Resolve ds personaName) \<and>
    ((\<exists>rung. Resolve ds personaName = Inr (None, rung)) \<longleftrightarrow> (\<forall>d \<in> set ds. \<not> Matches (Some d) personaName))"
proof -
  have ok: "resolve_ok ds personaName chain (Resolve ds personaName)"
    using assms resolveLoop_ok by (simp add: Resolve_def)
  have some: "\<exists>d \<in> set ds. Matches (Some d) personaName"
    if "first_rung ds personaName chain m" "filter (\<lambda>e. mt_match m e personaName) ds \<noteq> []" for m
  proof -
    from that(2) obtain d where "d \<in> set ds" "mt_match m d personaName" by (auto simp: filter_empty_conv)
    moreover have "m \<in> set chain" using that(1) by (metis first_rung_def in_set_conv_decomp)
    ultimately show ?thesis using assms by (auto simp: Matches_def list_ex_iff)
  qed
  have "(\<exists>rung. Resolve ds personaName = Inr (None, rung)) \<longleftrightarrow> (\<forall>d \<in> set ds. \<not> Matches (Some d) personaName)"
  proof (cases "Resolve ds personaName")
    case (Inl amb)
    then obtain m where m: "first_rung ds personaName chain m"
      "length (ae_candidates amb) = length (filter (\<lambda>e. mt_match m e personaName) ds)" "2 \<le> length (ae_candidates amb)"
      using ok by (auto simp: resolve_ok_def)
    then have "filter (\<lambda>e. mt_match m e personaName) ds \<noteq> []" by auto
    with some [OF m(1)] Inl show ?thesis by auto
  next
    case (Inr p)
    obtain md rung where p: "p = (md, rung)" by fastforce
    show ?thesis
    proof (cases md)
      case None
      then show ?thesis using ok Inr p by (auto simp: resolve_ok_def Matches_def list_ex_iff)
    next
      case (Some d)
      then obtain m where "first_rung ds personaName chain m" "filter (\<lambda>e. mt_match m e personaName) ds = [d]"
        using ok Inr p by (auto simp: resolve_ok_def)
      with some show ?thesis using Inr p Some by auto
    qed
  qed
  with ok show ?thesis by blast
qed

subsection \<open>Laws of ownership\<close>

lemma foreignFieldOwner_None:
  "foreignFieldOwner es = None \<longleftrightarrow>
     (\<forall>e \<in> set es. mf_manager e = [] \<or> isKnownBenignManager (mf_manager e) \<or>
        (mf_operation e \<noteq> ''Apply'' \<and> \<not> (mf_operation e = ''Update'' \<and> ownsContainerResources e)))"
  by (induction es) auto

lemma foreign_unknown: "foreignFieldOwner es = Some o' \<Longrightarrow> ow_managedBy o' = ManagedByUnknown"
  by (induction es) (auto split: if_splits)

lemma orElse_iff:
  "orElse a b = None \<longleftrightarrow> a = None \<and> b = None"
  "orElse a b = Some x \<longleftrightarrow> a = Some x \<or> (a = None \<and> b = Some x)"
  by (auto simp: orElse_def split: option.splits)

lemma detectors_named:
  "detectArgoCD l a m = Some o' \<Longrightarrow> ow_managedBy o' = ManagedByArgoCD"
  "detectFlux l m = Some o' \<Longrightarrow> ow_managedBy o' = ManagedByFlux"
  "detectHelm l a m = Some o' \<Longrightarrow> ow_managedBy o' = ManagedByHelm"
  "detectKustomize l a = Some o' \<Longrightarrow> ow_managedBy o' = ManagedByKustomize"
  by (auto simp: detectArgoCD_def detectFlux_def detectHelm_def detectKustomize_def Let_def split: if_splits)

definition no_owner_evidence :: "Deployment \<Rightarrow> bool" where
  "no_owner_evidence d =
     (let lbls = d_labels d; annots = d_annotations d; managers = fieldManagers (d_managedFields d) in
      getStr annots ''argocd.argoproj.io/tracking-id'' = [] \<and> getStr lbls ''argocd.argoproj.io/instance'' = [] \<and>
      getStr lbls ''kustomize.toolkit.fluxcd.io/name'' = [] \<and> getStr lbls ''helm.toolkit.fluxcd.io/name'' = [] \<and>
      getStr annots ''meta.helm.sh/release-name'' = [] \<and> toLower (getStr lbls LabelManagedBy) \<noteq> ''helm'' \<and>
      \<not> isKustomizeManagedBy (getStr lbls LabelManagedBy) \<and> getStr annots ''config.kubernetes.io/origin'' = [] \<and>
      getStr annots ''alpha.config.kubernetes.io/transformations'' = [] \<and>
      set managers \<inter> {''argocd-controller'', ''argocd-application-controller'', ''kustomize-controller'',
                       ''helm-controller'', ''helm''} = {})"

lemma detectors_None:
  "(detectArgoCD (d_labels d) (d_annotations d) m = None \<and> detectFlux (d_labels d) m = None \<and>
    detectHelm (d_labels d) (d_annotations d) m = None \<and> detectKustomize (d_labels d) (d_annotations d) = None)
   \<longleftrightarrow> (m = fieldManagers (d_managedFields d) \<longrightarrow> no_owner_evidence d)"
  if "m = fieldManagers (d_managedFields d)"
  using that
  by (auto simp: detectArgoCD_def detectFlux_def detectHelm_def detectKustomize_def no_owner_evidence_def
      hasManager_def Let_def split: if_splits)

text \<open>
  A workload is called unmanaged only without any evidence of an owner. A live Deployment is
  unmanaged exactly if it carries none of the markers of ArgoCD, Flux, Helm or kustomize and no
  field manager other than kubectl, Dorgu and the Deployment controller either applied it or owns
  a container's resources, field sets that do not parse counting as owned. Every other Deployment,
  and one that was not found, counts as owned.
\<close>

theorem unmanaged_iff_no_evidence:
  "(\<not> Ownership_IsOwned (DetectOwner (Some d)) \<longleftrightarrow>
      no_owner_evidence d \<and>
      (\<forall>e \<in> set (d_managedFields d). mf_manager e = [] \<or> isKnownBenignManager (mf_manager e) \<or>
         (mf_operation e \<noteq> ''Apply'' \<and> \<not> (mf_operation e = ''Update'' \<and> ownsContainerResources e)))) \<and>
   Ownership_IsOwned (DetectOwner None) \<and> IsOwned (Some (Ref None now))"
proof -
  let ?m = "fieldManagers (d_managedFields d)"
  let ?chain = "orElse (detectArgoCD (d_labels d) (d_annotations d) ?m)
    (orElse (detectFlux (d_labels d) ?m) (orElse (detectHelm (d_labels d) (d_annotations d) ?m)
      (orElse (detectKustomize (d_labels d) (d_annotations d)) (foreignFieldOwner (d_managedFields d)))))"
  have "ow_managedBy o' \<noteq> ManagedByUnmanaged" if "?chain = Some o'" for o'
    using that by (auto simp: orElse_iff dest!: detectors_named foreign_unknown)
  then have "\<not> Ownership_IsOwned (DetectOwner (Some d)) \<longleftrightarrow> ?chain = None"
    by (cases ?chain) (simp_all add: DetectOwner_def Ownership_IsOwned_def)
  also have "\<dots> \<longleftrightarrow> no_owner_evidence d \<and> foreignFieldOwner (d_managedFields d) = None"
    using detectors_None [of ?m d] unfolding orElse_iff by auto
  finally show ?thesis
    unfolding foreignFieldOwner_None
    by (simp add: Ownership_IsOwned_def DetectOwner_def IsOwned_def Ref_def UnresolvedRef_def)
qed

subsection \<open>Observing and inspecting\<close>

lemma recorded_value:
  "wr_observedResources ref = observedResources c \<Longrightarrow>
     observedResourceValue ref f = [] \<or> observedResourceValue ref f = liveResourceValue c f"
  by (auto simp: observedResourceValue_def observedResources_def resourceValues_def liveResourceValue_def
      hasSuffix_iff Let_def split: option.splits if_splits)

lemma find_distinct:
  assumes "distinct (map g xs)" "x \<in> set xs"
  shows "List.find (\<lambda>y. g y = g x) xs = Some x"
  using assms by (induction xs) (auto intro: rev_image_eqI)

lemma PickContainer_in: "PickContainer d n = Some c \<Longrightarrow> c \<in> set (d_containers d)"
  unfolding PickContainer_def by (auto split: list.splits option.splits if_splits dest: find_Some_in)

text \<open>
  The record of an observation agrees with a later look at the same workload. If a plan's
  workload reference was made by observing the live Deployment, and the Deployment reads the same
  when a rollback is inspected, the report says the workload is restored, whatever fields the plan
  patched; it never reports a divergence that is not there.
\<close>

theorem unchanged_workload_reads_restored:
  assumes "Observe listDeployments w ns persona = Inr (Some obs)" "ob_deployment obs = Some d"
    and "d_containers d \<noteq> []" "distinct (map ct_name (d_containers d))"
    and "d_name d \<noteq> []" "d_namespace d \<noteq> []"
    and "sp_workloadRef (ra_spec a) = Some (Ref (Some obs) now)"
    and "get_deployment api w' (d_namespace d, d_name d) = Inr d"
  shows "Reason (InspectRollback api w' a) = ReasonWorkloadRestored"
proof -
  let ?ref = "Ref (Some obs) now"
  obtain c where c: "ob_container obs = Some c" "PickContainer d persona = Some c"
    using assms(1-3) by (auto simp: Observe_def PickContainer_def split: if_splits sum.splits option.splits list.splits)
  have ref: "wr_name ?ref = d_name d" "wr_namespace ?ref = d_namespace d" "wr_container ?ref = ct_name c"
    "wr_observedResources ?ref = observedResources c"
    using assms(2) c(1) by (simp_all add: Ref_def Let_def)
  have cn: "containerNamed d (ct_name c) = Some c"
    using find_distinct [OF assms(4) PickContainer_in [OF c(2)]] by (simp add: containerNamed_def)
  have dv: "divergenceAt ?ref c path = []" for path
    using recorded_value [OF ref(4), of "trimPrefix path ''spec.''"]
    unfolding divergenceAt_Nil field_matches_def Let_def by metis
  have "compareToPreRemediation a ?ref c = []"
    unfolding compareToPreRemediation_def Let_def by (simp add: dv split: option.splits)
  then show ?thesis
    using assms(5-8) ref cn by (simp add: InspectRollback_def Reason_def Diverged_def)
qed

end
