(* ===== verification/Prose.thy ===== *)
theory Prose
  imports Workload
begin

text \<open>
  Sentences and tokens of the prose a plan shows its reader: joining notes
  (\<^verbatim>\<open>blast_radius_notice.go\<close>), splitting into sentences and searching for bounded tokens
  (\<^verbatim>\<open>refused_values.go\<close>), claims about guardrails (\<^verbatim>\<open>fabricated_clamp.go\<close>), and the parsing of a
  suggested kubectl command (\<^verbatim>\<open>kubectl_verb.go\<close>). The classes of package unicode are those of ASCII
  text; \<open>alnumByte\<close> alone reads bytes as Latin-1, as the source does.
\<close>

subsection \<open>Bytes\<close>

definition isLetter :: "char \<Rightarrow> bool" where
  "isLetter c = (let n = of_char c :: nat in (97 \<le> n \<and> n \<le> 122) \<or> (65 \<le> n \<and> n \<le> 90))"

definition isDigit :: "char \<Rightarrow> bool" where
  "isDigit c = (digitVal c \<noteq> None)"

definition alnumByte :: "char \<Rightarrow> bool" where
  "alnumByte c =
     (let n = of_char c :: nat in isLetter c \<or> isDigit c \<or> n \<in> {170, 181, 186} \<or>
        (192 \<le> n \<and> n \<noteq> 215 \<and> n \<noteq> 247))"

text \<open>\<^verbatim>\<open>strings.FieldsFunc\<close> and \<^verbatim>\<open>strings.Split\<close> at a byte.\<close>

fun fieldsBy :: "(char \<Rightarrow> bool) \<Rightarrow> string \<Rightarrow> string \<Rightarrow> string list" where
  "fieldsBy p cur [] = (if cur \<noteq> [] then [rev cur] else [])"
| "fieldsBy p cur (c # s) =
     (if p c then (if cur \<noteq> [] then [rev cur] else []) @ fieldsBy p [] s else fieldsBy p (c # cur) s)"

definition stringFields :: "string \<Rightarrow> string list" where
  "stringFields s = fieldsBy isSpace [] s"

fun splitAt :: "char \<Rightarrow> string \<Rightarrow> string \<Rightarrow> string list" where
  "splitAt sep cur [] = [rev cur]"
| "splitAt sep cur (c # s) = (if c = sep then rev cur # splitAt sep [] s else splitAt sep (c # cur) s)"

definition splitDots :: "string \<Rightarrow> string list" where
  "splitDots s = splitAt (CHR ''.'') [] s"

text \<open>
  \<^verbatim>\<open>strings.ReplaceAll\<close>, and \<^verbatim>\<open>strings.Replacer\<close> which tries its pairs in order at every
  position; the counter skips the bytes of a match.
\<close>

fun replaceLoop :: "nat \<Rightarrow> (string \<times> string) list \<Rightarrow> string \<Rightarrow> string" where
  "replaceLoop n pairs [] = []"
| "replaceLoop n pairs (c # s) =
     (if 0 < n then replaceLoop (n - 1) pairs s
      else case List.find (\<lambda>p. fst p \<noteq> [] \<and> hasPrefix (c # s) (fst p)) pairs of
             Some (old, new) \<Rightarrow> new @ replaceLoop (length old - 1) pairs s
           | None \<Rightarrow> c # replaceLoop 0 pairs s)"

definition replaceAll :: "string \<Rightarrow> string \<Rightarrow> string \<Rightarrow> string" where
  "replaceAll s old new = replaceLoop 0 [(old, new)] s"

subsection \<open>Sentences\<close>

definition endSentence :: "string \<Rightarrow> string" where
  "endSentence t =
     (let trimmed = rev (dropWhile (\<lambda>c. c = CHR '' '') (rev t)) in
      if trimmed = [] then trimmed
      else if isLetter (last trimmed) \<or> isDigit (last trimmed) then trimmed @ ''.'' else trimmed)"

definition appendNote :: "string \<Rightarrow> string \<Rightarrow> string" where
  "appendNote existing note =
     (if existing = [] then note
      else if containsStr existing note then existing
      else endSentence existing @ '' '' @ note)"

definition nonBlank :: "string \<Rightarrow> string list" where
  "nonBlank s = (if trimSpace s \<noteq> [] then [trimSpace s] else [])"

fun sentenceLoop :: "string \<Rightarrow> string \<Rightarrow> string list" where
  "sentenceLoop cur [] = nonBlank (rev cur)"
| "sentenceLoop cur (c # rest) =
     (if c \<notin> {CHR ''.'', CHR ''!'', CHR ''?''} \<or> (rest \<noteq> [] \<and> \<not> isSpace (hd rest))
      then sentenceLoop (c # cur) rest
      else nonBlank (rev (c # cur)) @ sentenceLoop [] rest)"

lemma sentenceLoop_lazy [code]:
  "sentenceLoop cur [] = nonBlank (rev cur)"
  "sentenceLoop cur (c # rest) =
     (if c \<notin> {CHR ''.'', CHR ''!'', CHR ''?''} then sentenceLoop (c # cur) rest
      else if (case rest of d # _ \<Rightarrow> \<not> isSpace d | [] \<Rightarrow> False) then sentenceLoop (c # cur) rest
      else nonBlank (rev (c # cur)) @ sentenceLoop [] rest)"
  by (auto split: list.splits)

definition splitSentences :: "string \<Rightarrow> string list" where
  "splitSentences t = sentenceLoop [] t"

text \<open>
  The search of \<^verbatim>\<open>containsWord\<close> and \<^verbatim>\<open>containsToken\<close>: an occurrence with no byte of the class
  before or after it. The second argument is the byte before.
\<close>

fun containsBounded :: "(char \<Rightarrow> bool) \<Rightarrow> char option \<Rightarrow> string \<Rightarrow> string \<Rightarrow> bool" where
  "containsBounded cls prev [] w = (w = [] \<and> (case prev of Some c \<Rightarrow> \<not> cls c | None \<Rightarrow> True))"
| "containsBounded cls prev (c # s) w =
     ((hasPrefix (c # s) w \<and> (case prev of Some b \<Rightarrow> \<not> cls b | None \<Rightarrow> True) \<and>
       (case drop (length w) (c # s) of a # _ \<Rightarrow> \<not> cls a | [] \<Rightarrow> True)) \<or>
      containsBounded cls (Some c) s w)"

lemma containsBounded_lazy [code]:
  "containsBounded cls prev [] w = (if w = [] then (case prev of Some c \<Rightarrow> \<not> cls c | None \<Rightarrow> True) else False)"
  "containsBounded cls prev (c # s) w =
     (if \<not> hasPrefix (c # s) w then containsBounded cls (Some c) s w
      else if (case prev of Some b \<Rightarrow> cls b | None \<Rightarrow> False) then containsBounded cls (Some c) s w
      else if (case drop (length w) (c # s) of a # _ \<Rightarrow> cls a | [] \<Rightarrow> False) then containsBounded cls (Some c) s w
      else True)"
  by (auto split: option.splits list.splits)

definition containsWord :: "string \<Rightarrow> string \<Rightarrow> bool" where
  "containsWord t w = containsBounded isLetter None t w"

definition containsToken :: "string \<Rightarrow> string \<Rightarrow> bool" where
  "containsToken t v = containsBounded alnumByte None t v"

subsection \<open>Claims about guardrails (fabricated\_clamp.go)\<close>

definition guardrailTerms :: "string list" where
  "guardrailTerms = [''clamp'', ''guardrail'', ''blast radius'', ''blast-radius'', ''ceiling'']"

definition guardrailWords :: "string list" where
  "guardrailWords = [''cap'', ''caps'', ''capped'', ''capping'']"

definition assertsGuardrailVerdict :: "string \<Rightarrow> bool" where
  "assertsGuardrailVerdict t =
     (let lower = toLower t in
      list_ex (containsStr lower) guardrailTerms \<or> list_ex (containsWord lower) guardrailWords)"

definition dropGuardrailClaims :: "string \<Rightarrow> string \<times> bool" where
  "dropGuardrailClaims t =
     (if trimSpace t = [] then (t, False)
      else let sentences = splitSentences t;
               kept = filter (\<lambda>s. \<not> assertsGuardrailVerdict s) sentences
        in if \<not> list_ex assertsGuardrailVerdict sentences then (t, False)
           else (trimSpace (joinWith '' '' kept), True))"

subsection \<open>Suggested commands (kubectl\_verb.go)\<close>

definition mutatingKubectlVerbs :: "string list" where
  "mutatingKubectlVerbs = [''annotate'', ''apply'', ''autoscale'', ''cordon'', ''create'', ''delete'', ''drain'',
     ''edit'', ''expose'', ''label'', ''patch'', ''replace'', ''run'', ''scale'', ''set'', ''taint'', ''uncordon'']"

definition readOnlyKubectlVerbs :: "string list" where
  "readOnlyKubectlVerbs = [''api-resources'', ''api-versions'', ''cluster-info'', ''describe'', ''diff'',
     ''events'', ''explain'', ''get'', ''logs'', ''top'', ''version'']"

definition verbsWithSubcommands :: "(string \<times> string list) list" where
  "verbsWithSubcommands = [(''auth'', [''can-i'', ''whoami'']), (''rollout'', [''history'', ''status''])]"

definition valueTakingGlobalFlags :: "string list" where
  "valueTakingGlobalFlags = [''-n'', ''--namespace'', ''-o'', ''--output'', ''-s'', ''--server'', ''--context'',
     ''--cluster'', ''--user'', ''--kubeconfig'', ''--token'', ''--as'', ''--as-group'', ''--as-uid'',
     ''--cache-dir'', ''--certificate-authority'', ''--client-certificate'', ''--client-key'',
     ''--request-timeout'', ''--tls-server-name'', ''--username'', ''--password'', ''--profile'',
     ''--profile-output'', ''--log-flush-frequency'', ''-v'', ''--v'', ''--vmodule'']"

definition booleanGlobalFlags :: "string list" where
  "booleanGlobalFlags = [''--insecure-skip-tls-verify'', ''--match-server-version'', ''--warnings-as-errors'',
     ''--disable-compression'']"

definition isKubectlInvocation :: "string \<Rightarrow> bool" where
  "isKubectlInvocation command =
     (let fs = stringFields command in 2 \<le> length fs \<and> hd fs = ''kubectl'')"

text \<open>The loop over the tokens after \<^verbatim>\<open>kubectl\<close>: the verb and the tokens after it.\<close>

fun verbLoop :: "string list \<Rightarrow> (string \<times> string list) option" where
  "verbLoop [] = None"
| "verbLoop (token # rest) =
     (if \<not> hasPrefix token ''-'' then Some (token, rest)
      else if CHR ''='' \<in> set token then
        (let name = takeWhile (\<lambda>c. c \<noteq> CHR ''='') token in
         if name \<notin> set valueTakingGlobalFlags \<and> name \<notin> set booleanGlobalFlags then None else verbLoop rest)
      else if token \<in> set booleanGlobalFlags then verbLoop rest
      else if token \<in> set valueTakingGlobalFlags then
        (case rest of [] \<Rightarrow> None | _ # rest' \<Rightarrow> verbLoop rest')
      else None)"

definition kubectlVerb :: "string \<Rightarrow> (string \<times> string list) option" where
  "kubectlVerb command =
     (let fs = stringFields command in
      if length fs < 2 \<or> hd fs \<noteq> ''kubectl'' then None else verbLoop (tl fs))"

definition subcommandReadsOnly :: "string list \<Rightarrow> string list \<Rightarrow> bool" where
  "subcommandReadsOnly arguments readOnlySubcommands =
     (case arguments of
        [] \<Rightarrow> False
      | a # _ \<Rightarrow> \<not> hasPrefix a ''-'' \<and> a \<in> set readOnlySubcommands)"

definition readsOnly :: "string \<Rightarrow> bool" where
  "readsOnly command =
     (case kubectlVerb command of
        None \<Rightarrow> False
      | Some (verb, arguments) \<Rightarrow>
          (case map_of verbsWithSubcommands verb of
             Some subs \<Rightarrow> subcommandReadsOnly arguments subs
           | None \<Rightarrow> verb \<notin> set mutatingKubectlVerbs \<and> verb \<in> set readOnlyKubectlVerbs))"

definition writesWorkload :: "string \<Rightarrow> bool" where
  "writesWorkload command = (isKubectlInvocation command \<and> \<not> readsOnly command)"

end
