(* ===== verification/Lifecycle.thy ===== *)
theory Lifecycle
  imports Divergence
begin

text \<open>
  The RemediationAction lifecycle: \<^verbatim>\<open>internal/controller/remediation_controller.go\<close> and
  \<^verbatim>\<open>setCondition\<close> of \<^verbatim>\<open>controller_helpers.go\<close>. One reconcile is one function of the
  controller's configuration, the clock reading and the world; it returns the next world, the
  action as the handler left it, the broadcasts, and the result or error. The clock is read
  once per reconcile.
\<close>

abbreviation "ConditionApplied \<equiv> ''Applied''"
abbreviation "ConditionVerified \<equiv> ''Verified''"
abbreviation "ConditionRolledBack \<equiv> ''RolledBack''"
abbreviation "ConditionWorkloadDiverged \<equiv> ''WorkloadDiverged''"
abbreviation "ConditionRejected \<equiv> ''Rejected''"
abbreviation "ReasonUserRejected \<equiv> ''UserRejected''"
abbreviation "PhaseResolved \<equiv> ''Resolved''"
abbreviation "LabelPhase \<equiv> ''dorgu.io/phase''"

definition defaultVerificationWait :: duration where
  "defaultVerificationWait = 10 * minute"

definition maxUnknownRetries :: int where
  "maxUnknownRetries = 2"

definition RejectionCooldown :: duration where
  "RejectionCooldown = 1 * hour"

subsection \<open>Conditions\<close>

fun setCondition ::
  "time \<Rightarrow> string \<Rightarrow> ConditionStatus \<Rightarrow> string \<Rightarrow> string \<Rightarrow> Condition list \<Rightarrow> Condition list" where
  "setCondition now condType status reason message [] =
     [\<lparr>c_type = condType, c_status = status, c_reason = reason, c_message = message, c_ltt = now\<rparr>]"
| "setCondition now condType status reason message (c # cs) =
     (if c_type c = condType then
        (if c_status c \<noteq> status \<or> c_reason c \<noteq> reason then
           c\<lparr>c_status := status, c_reason := reason, c_message := message, c_ltt := now\<rparr> # cs
         else c # cs)
      else c # setCondition now condType status reason message cs)"

definition hasCondition :: "Condition list \<Rightarrow> string \<Rightarrow> bool" where
  "hasCondition conds condType = list_ex (\<lambda>c. c_type c = condType) conds"

definition set_ra_condition ::
  "time \<Rightarrow> string \<Rightarrow> ConditionStatus \<Rightarrow> string \<Rightarrow> string \<Rightarrow> RemediationAction \<Rightarrow> RemediationAction" where
  "set_ra_condition now condType status reason message a =
     a\<lparr>ra_status := (ra_status a)\<lparr>rs_conditions :=
         setCondition now condType status reason message (ra_conditions a)\<rparr>\<rparr>"

definition set_phase :: "phase \<Rightarrow> RemediationAction \<Rightarrow> RemediationAction" where
  "set_phase p a = a\<lparr>ra_status := (ra_status a)\<lparr>rs_phase := p\<rparr>\<rparr>"

definition set_appliedAt :: "time \<Rightarrow> RemediationAction \<Rightarrow> RemediationAction" where
  "set_appliedAt t a = a\<lparr>ra_status := (ra_status a)\<lparr>rs_appliedAt := Some t\<rparr>\<rparr>"

definition set_verificationResult :: "string \<Rightarrow> RemediationAction \<Rightarrow> RemediationAction" where
  "set_verificationResult r a = a\<lparr>ra_status := (ra_status a)\<lparr>rs_verificationResult := r\<rparr>\<rparr>"

subsection \<open>Controller, results and broadcasts\<close>

record Result =
  rq_requeue :: bool
  rq_requeueAfter :: duration

definition noRequeue :: Result where
  "noRequeue = \<lparr>rq_requeue = False, rq_requeueAfter = 0\<rparr>"

definition requeueAfter :: "duration \<Rightarrow> Result" where
  "requeueAfter d = \<lparr>rq_requeue = False, rq_requeueAfter = d\<rparr>"

record RemediationEvent =
  re_eventType :: string
  re_name :: string
  re_namespace :: string
  re_phase :: phase
  re_actionType :: string
  re_confidence :: string
  re_personaName :: string
  re_personaKind :: string

record 'w RemediationController =
  rc_api :: "'w api"
  rc_engine :: "'w Engine"
  rc_webSocket :: bool

type_synonym 'w handled = "'w \<times> RemediationAction \<times> RemediationEvent list \<times> (goerr + Result)"

definition broadcastRemediation ::
  "'w RemediationController \<Rightarrow> RemediationAction \<Rightarrow> string \<Rightarrow> RemediationEvent list" where
  "broadcastRemediation r action eventType =
     (if \<not> rc_webSocket r then []
      else [\<lparr>re_eventType = eventType, re_name = ra_name action, re_namespace = ra_namespace action,
             re_phase = ra_phase action, re_actionType = ad_type (sp_action (ra_spec action)),
             re_confidence = sp_confidence (ra_spec action),
             re_personaName = pr_name (sp_personaRef (ra_spec action)),
             re_personaKind = pr_kind (sp_personaRef (ra_spec action))\<rparr>])"

subsection \<open>Incident resolution\<close>

definition resolutionFor :: "time \<Rightarrow> RemediationAction \<Rightarrow> string \<Rightarrow> IncidentMemory \<Rightarrow> IncidentMemory" where
  "resolutionFor now action outcome incident =
     (let detectionTime = di_firstSeen (is_detection (im_spec incident));
          duration = (if isZero detectionTime then None else Some (timeSub now detectionTime));
          resolution = \<lparr>ri_action = sp_explanation (ra_spec action),
                        ri_remediationRef = Some \<lparr>rref_name = ra_name action,
                                                  rref_namespace = ra_namespace action\<rparr>,
                        ri_appliedAt = rs_appliedAt (ra_status action),
                        ri_outcome = outcome, ri_duration = duration\<rparr>;
          incident1 = incident\<lparr>im_spec := (im_spec incident)\<lparr>is_resolution := Some resolution\<rparr>\<rparr>
      in if outcome = ''resolved''
         then incident1\<lparr>im_labels := AList.update LabelPhase PhaseResolved (im_labels incident1)\<rparr>
         else incident1)"

definition updateIncidentResolution ::
  "'w RemediationController \<Rightarrow> time \<Rightarrow> 'w \<Rightarrow> RemediationAction \<Rightarrow> string \<Rightarrow> 'w \<times> goerr option" where
  "updateIncidentResolution r now w action outcome =
     (let api = rc_api r; key = incidentKey action in
      case get_incident api w key of
        Inl e \<Rightarrow> (w, Some (Wrap (''getting IncidentMemory '' @ fst key @ ''/'' @ snd key) e))
      | Inr incident \<Rightarrow>
          (case update_incident api w (resolutionFor now action outcome incident) of
             (w1, Some e) \<Rightarrow> (w1, Some (Wrap ''updating IncidentMemory spec'' e))
           | (w1, None) \<Rightarrow>
               (if outcome = ''resolved'' then
                  (case retry_conflict api (\<lambda>v.
                          case get_incident api v key of
                            Inl e \<Rightarrow> (v, Some e)
                          | Inr fresh \<Rightarrow>
                              status_update_incident api v
                                (fresh\<lparr>im_status := (im_status fresh)\<lparr>ims_phase := PhaseResolved\<rparr>\<rparr>)) w1 of
                     (w2, Some e) \<Rightarrow> (w2, Some (Wrap ''updating IncidentMemory status'' e))
                   | (w2, None) \<Rightarrow> (w2, None))
                else (w1, None))))"

subsection \<open>Transitions\<close>

text \<open>
  The common tail of the transitions: write the status; on success broadcast and record the
  outcome on the incident, whose errors are logged only.
\<close>

definition settle ::
  "'w RemediationController \<Rightarrow> time \<Rightarrow> 'w \<Rightarrow> RemediationAction \<Rightarrow> string \<Rightarrow> string \<Rightarrow> string \<Rightarrow> 'w handled" where
  "settle r now w action errText event outcome =
     (case status_update_action (rc_api r) w action of
        (w1, Some e) \<Rightarrow> (w1, action, [], Inl (Wrap errText e))
      | (w1, None) \<Rightarrow>
          (fst (updateIncidentResolution r now w1 action outcome), action,
           broadcastRemediation r action event, Inr noRequeue))"

definition transitionToAcknowledged ::
  "'w RemediationController \<Rightarrow> time \<Rightarrow> 'w \<Rightarrow> RemediationAction \<Rightarrow> 'w handled" where
  "transitionToAcknowledged r now w action =
     settle r now w
       (set_ra_condition now ConditionApplied CondFalse ReasonAdvisoryOnly
          ''Approval recorded. This plan has no auto-applicable step, so the operator changed nothing; the steps are for a human to apply.''
          (set_phase Acknowledged action))
       ''updating status to Acknowledged'' ''acknowledged'' ''acknowledged''"

definition transitionToFailedWithReason ::
  "'w RemediationController \<Rightarrow> time \<Rightarrow> 'w \<Rightarrow> RemediationAction \<Rightarrow> string \<Rightarrow> string \<Rightarrow> 'w handled" where
  "transitionToFailedWithReason r now w action conditionReason reason =
     settle r now w
       (set_ra_condition now ConditionApplied CondFalse conditionReason reason
          (set_phase Failed action))
       ''updating status to Failed'' ''failed'' ''failed''"

definition transitionToFailed ::
  "'w RemediationController \<Rightarrow> time \<Rightarrow> 'w \<Rightarrow> RemediationAction \<Rightarrow> string \<Rightarrow> 'w handled" where
  "transitionToFailed r now w action reason =
     transitionToFailedWithReason r now w action ''Failed'' reason"

definition getVerificationDelay :: "RemediationAction \<Rightarrow> duration" where
  "getVerificationDelay action =
     (case sp_rollback (ra_spec action) of
        Some rb \<Rightarrow> (case rb_healthCheckAfter rb of Some d \<Rightarrow> d | None \<Rightarrow> defaultVerificationWait)
      | None \<Rightarrow> defaultVerificationWait)"

subsection \<open>Retry count\<close>

abbreviation "retryPrefix \<equiv> ''Verification returned Unknown, retry ''"

definition retryMessage :: "int \<Rightarrow> string" where
  "retryMessage n = retryPrefix @ showInt n @ ''/'' @ showInt maxUnknownRetries"

text \<open>
  \<^verbatim>\<open>fmt.Sscanf\<close> with the format of the message: the attempt when both numbers scan.
\<close>

definition scanRetry :: "string \<Rightarrow> int option" where
  "scanRetry msg =
     (if \<not> hasPrefix msg retryPrefix then None
      else (case scanInt (drop (length retryPrefix) msg) of
              None \<Rightarrow> None
            | Some (attempt, rest) \<Rightarrow>
                (if \<not> hasPrefix rest ''/'' then None
                 else (case scanInt (tl rest) of None \<Rightarrow> None | Some _ \<Rightarrow> Some attempt))))"

fun retryLoop :: "Condition list \<Rightarrow> int" where
  "retryLoop [] = 0"
| "retryLoop (c # cs) =
     (if c_type c = ConditionVerified \<and> c_reason c = ''VerificationUnknown'' then
        (case scanRetry (c_message c) of Some attempt \<Rightarrow> attempt | None \<Rightarrow> retryLoop cs)
      else retryLoop cs)"

definition getRetryCount :: "RemediationAction \<Rightarrow> int" where
  "getRetryCount action = retryLoop (ra_conditions action)"

subsection \<open>Handlers\<close>

definition handleApproved ::
  "'w RemediationController \<Rightarrow> time \<Rightarrow> 'w \<Rightarrow> RemediationAction \<Rightarrow> 'w handled" where
  "handleApproved r now w action =
     (if \<not> HasAutoApplicableChange (Some action) then transitionToAcknowledged r now w action
      else (case Apply (rc_api r) w action of
              (w1, Some e) \<Rightarrow>
                (if is_precondition e then
                   transitionToFailedWithReason r now w1 action ReasonPreconditionRejected
                     (err_text e @ ''; nothing was applied'')
                 else transitionToFailed r now w1 action (''apply failed: '' @ err_text e))
            | (w1, None) \<Rightarrow>
                (let action' = set_ra_condition now ConditionApplied CondTrue ''PatchApplied''
                       ''Remediation patch applied to ApplicationPersona''
                       (set_appliedAt now (set_phase Applying action))
                 in case status_update_action (rc_api r) w1 action' of
                      (w2, Some e) \<Rightarrow> (w2, action', [], Inl (Wrap ''updating status to Applying'' e))
                    | (w2, None) \<Rightarrow>
                        (w2, action', broadcastRemediation r action' ''approved'',
                         Inr (requeueAfter (getVerificationDelay action'))))))"

definition handleApplying ::
  "'w RemediationController \<Rightarrow> time \<Rightarrow> 'w \<Rightarrow> RemediationAction \<Rightarrow> 'w handled" where
  "handleApplying r now w action =
     (case rs_appliedAt (ra_status action) of
        None \<Rightarrow> transitionToFailed r now w action ''AppliedAt is nil in Applying phase''
      | Some appliedAt \<Rightarrow>
          (let verificationDelay = getVerificationDelay action;
               elapsed = timeSub now appliedAt
           in if elapsed < verificationDelay then
                (w, action, [], Inr (requeueAfter (verificationDelay - elapsed)))
              else let action' = set_phase Verifying action in
                (case status_update_action (rc_api r) w action' of
                   (w1, Some e) \<Rightarrow> (w1, action', [], Inl (Wrap ''updating status to Verifying'' e))
                 | (w1, None) \<Rightarrow> (w1, action', [], Inr \<lparr>rq_requeue = True, rq_requeueAfter = 0\<rparr>))))"

definition handleVerificationHealthy ::
  "'w RemediationController \<Rightarrow> time \<Rightarrow> 'w \<Rightarrow> RemediationAction \<Rightarrow> 'w handled" where
  "handleVerificationHealthy r now w action =
     settle r now w
       (set_ra_condition now ConditionVerified CondTrue ''HealthRestored''
          ''Verification confirmed health restored'' (set_phase Completed action))
       ''updating status to Completed'' ''completed'' ''resolved''"

definition recordRollbackScope ::
  "'w RemediationController \<Rightarrow> time \<Rightarrow> 'w \<Rightarrow> RemediationAction \<Rightarrow> RemediationAction" where
  "recordRollbackScope r now w action =
     (let outcome = InspectRollback (rc_api r) w action;
          status = (if Reason outcome = ReasonWorkloadDiverged then CondTrue
                    else if Reason outcome = ReasonWorkloadUnreadable then CondUnknown
                    else CondFalse)
      in set_ra_condition now ConditionWorkloadDiverged status (Reason outcome)
           (case Message outcome of Some m \<Rightarrow> m | None \<Rightarrow> []) action)"

definition handleVerificationDegraded ::
  "'w RemediationController \<Rightarrow> time \<Rightarrow> 'w \<Rightarrow> RemediationAction \<Rightarrow> 'w handled" where
  "handleVerificationDegraded r now w action =
     (case Rollback_Execute (rc_api r) w action of
        (w1, Some e) \<Rightarrow> transitionToFailed r now w1 action (''rollback failed: '' @ err_text e)
      | (w1, None) \<Rightarrow>
          settle r now w1
            (recordRollbackScope r now w1
               (set_ra_condition now ConditionRolledBack CondTrue ''HealthDegraded''
                  ''Remediation rolled back due to degraded health'' (set_phase RolledBack action)))
            ''updating status to RolledBack'' ''rolledback'' ''rollback'')"

definition handleVerificationUnknown ::
  "'w RemediationController \<Rightarrow> time \<Rightarrow> 'w \<Rightarrow> RemediationAction \<Rightarrow> 'w handled" where
  "handleVerificationUnknown r now w action =
     (let retryCount = getRetryCount action in
      if maxUnknownRetries \<le> retryCount then
        transitionToFailed r now w action ''verification returned Unknown after max retries''
      else let action' = set_ra_condition now ConditionVerified CondFalse ''VerificationUnknown''
                           (retryMessage (retryCount + 1)) action
        in case status_update_action (rc_api r) w action' of
             (w1, Some e) \<Rightarrow> (w1, action', [], Inl (Wrap ''updating retry count'' e))
           | (w1, None) \<Rightarrow> (w1, action', [], Inr (requeueAfter (1 * minute))))"

definition handleVerifying ::
  "'w RemediationController \<Rightarrow> time \<Rightarrow> 'w \<Rightarrow> RemediationAction \<Rightarrow> 'w handled" where
  "handleVerifying r now w action =
     (let (result0, err) = Verify (rc_api r) (rc_engine r) w action;
          result = (if err \<noteq> None then VerificationUnknown else result0);
          action' = set_verificationResult (verification_str result) action
      in case result of
           VerificationHealthy \<Rightarrow> handleVerificationHealthy r now w action'
         | VerificationDegraded \<Rightarrow> handleVerificationDegraded r now w action'
         | VerificationUnknown \<Rightarrow> handleVerificationUnknown r now w action')"

text \<open>
  \<^verbatim>\<open>recordRejection\<close> stamps the Rejected condition once. The text of the cooldown is Go's
  rendering of one hour.
\<close>

definition recordRejection ::
  "'w RemediationController \<Rightarrow> time \<Rightarrow> 'w \<Rightarrow> RemediationAction \<Rightarrow> 'w \<times> goerr option" where
  "recordRejection r now w action =
     (if hasCondition (ra_conditions action) ConditionRejected then (w, None)
      else (case retry_conflict (rc_api r) (\<lambda>v.
                  case get_action (rc_api r) v (ra_key action) of
                    Inl e \<Rightarrow> (v, Some e)
                  | Inr fresh \<Rightarrow>
                      (if ra_phase fresh \<noteq> Rejected \<or> hasCondition (ra_conditions fresh) ConditionRejected
                       then (v, None)
                       else status_update_action (rc_api r) v
                              (set_ra_condition now ConditionRejected CondTrue ReasonUserRejected
                                 ''declined by a human; dorgu will not re-propose this fix for 1h0m0s''
                                 fresh))) w of
              (w1, Some e) \<Rightarrow>
                (w1, Some (Wrap (''recording the rejection timestamp on '' @ ra_name action) e))
            | (w1, None) \<Rightarrow> (w1, None)))"

definition dispatch ::
  "'w RemediationController \<Rightarrow> time \<Rightarrow> 'w \<Rightarrow> RemediationAction \<Rightarrow> 'w handled" where
  "dispatch r now w action =
     (case ra_phase action of
        Pending \<Rightarrow> (w, action, [], Inr noRequeue)
      | Approved \<Rightarrow> handleApproved r now w action
      | Applying \<Rightarrow> handleApplying r now w action
      | Verifying \<Rightarrow> handleVerifying r now w action
      | Rejected \<Rightarrow>
          (case recordRejection r now w action of
             (w1, Some e) \<Rightarrow> (w1, action, [], Inl e)
           | (w1, None) \<Rightarrow> (w1, action, [], Inr noRequeue))
      | Completed \<Rightarrow> (w, action, [], Inr noRequeue)
      | Acknowledged \<Rightarrow> (w, action, [], Inr noRequeue)
      | RolledBack \<Rightarrow> (w, action, [], Inr noRequeue)
      | Failed \<Rightarrow> (w, action, [], Inr noRequeue)
      | Expired \<Rightarrow> (w, action, [], Inr noRequeue)
      | OtherPhase _ \<Rightarrow> (w, action, [], Inr noRequeue))"

text \<open>\<^verbatim>\<open>metrics.RecordTransition\<close>: a counted transition, or none when the phase is unchanged.\<close>

definition RecordTransition :: "phase \<Rightarrow> phase \<Rightarrow> (string \<times> string) option" where
  "RecordTransition from' to' =
     (if phase_str from' = phase_str to' then None
      else Some (if phase_str from' = [] then ''none'' else phase_str from', phase_str to'))"

record 'w reconciled =
  rd_world :: 'w
  rd_events :: "RemediationEvent list"
  rd_metric :: "(string \<times> string) option"
  rd_result :: "goerr + Result"

definition Reconcile :: "'w RemediationController \<Rightarrow> time \<Rightarrow> 'w \<Rightarrow> objkey \<Rightarrow> 'w reconciled" where
  "Reconcile r now w key =
     (case get_action (rc_api r) w key of
        Inl e \<Rightarrow>
          \<lparr>rd_world = w, rd_events = [], rd_metric = None,
           rd_result = (if api_reason_of e = Some NotFound then Inr noRequeue else Inl e)\<rparr>
      | Inr action \<Rightarrow>
          (case dispatch r now w action of
             (w1, action', events, res) \<Rightarrow>
               \<lparr>rd_world = w1, rd_events = events,
                rd_metric = (case res of Inl _ \<Rightarrow> None
                             | Inr _ \<Rightarrow> RecordTransition (ra_phase action) (ra_phase action')),
                rd_result = res\<rparr>))"

subsection \<open>What the handlers leave alone\<close>

text \<open>Two versions of an object that differ in their status only.\<close>

definition same_meta :: "RemediationAction \<Rightarrow> RemediationAction \<Rightarrow> bool" where
  "same_meta a b = (a\<lparr>ra_status := ra_status b\<rparr> = b)"

lemma same_meta_iff:
  "same_meta a b \<longleftrightarrow> ra_name a = ra_name b \<and> ra_namespace a = ra_namespace b \<and>
     ra_creationTimestamp a = ra_creationTimestamp b \<and> ra_labels a = ra_labels b \<and>
     ra_spec a = ra_spec b"
  unfolding same_meta_def by (cases a; cases b) simp

lemma ra_setters [simp]:
  "ra_phase (set_phase p a) = p"
  "ra_phase (set_appliedAt t a) = ra_phase a"
  "ra_phase (set_ra_condition n ct s r m a) = ra_phase a"
  "ra_phase (set_verificationResult v a) = ra_phase a"
  "rs_appliedAt (ra_status (set_phase p a)) = rs_appliedAt (ra_status a)"
  "rs_appliedAt (ra_status (set_appliedAt t a)) = Some t"
  "rs_appliedAt (ra_status (set_ra_condition n ct s r m a)) = rs_appliedAt (ra_status a)"
  "rs_appliedAt (ra_status (set_verificationResult v a)) = rs_appliedAt (ra_status a)"
  "ra_spec (set_phase p a) = ra_spec a"
  "ra_spec (set_appliedAt t a) = ra_spec a"
  "ra_spec (set_ra_condition n ct s r m a) = ra_spec a"
  "ra_spec (set_verificationResult v a) = ra_spec a"
  "ra_conditions (set_phase p a) = ra_conditions a"
  "ra_conditions (set_appliedAt t a) = ra_conditions a"
  "ra_conditions (set_verificationResult v a) = ra_conditions a"
  "ra_conditions (set_ra_condition n ct s r m a) = setCondition n ct s r m (ra_conditions a)"
  "ra_creationTimestamp (set_phase p a) = ra_creationTimestamp a"
  "ra_creationTimestamp (set_ra_condition n ct s r m a) = ra_creationTimestamp a"
  by (simp_all add: set_phase_def set_appliedAt_def set_ra_condition_def set_verificationResult_def)

lemma same_meta_setters [simp]:
  "same_meta a (set_phase p b) = same_meta a b"
  "same_meta a (set_appliedAt t b) = same_meta a b"
  "same_meta a (set_ra_condition n ct s r m b) = same_meta a b"
  "same_meta a (set_verificationResult v b) = same_meta a b"
  by (simp_all add: same_meta_iff set_phase_def set_appliedAt_def set_ra_condition_def
      set_verificationResult_def)

lemma same_meta_refl [simp]: "same_meta a a"
  by (simp add: same_meta_iff)

lemma same_meta_trans: "same_meta a b \<Longrightarrow> same_meta b c \<Longrightarrow> same_meta a c"
  by (simp add: same_meta_iff)

lemma same_meta_key: "same_meta a b \<Longrightarrow> ra_key b = ra_key a"
  by (simp add: same_meta_iff ra_key_def)

lemma recordRollbackScope_simps [simp]:
  "ra_phase (recordRollbackScope r now w a) = ra_phase a"
  "rs_appliedAt (ra_status (recordRollbackScope r now w a)) = rs_appliedAt (ra_status a)"
  "same_meta b (recordRollbackScope r now w a) = same_meta b a"
  by (simp_all add: recordRollbackScope_def Let_def)

subsection \<open>The abstract lifecycle\<close>

text \<open>
  The life cycle the README and the CRD describe, on the phase and on whether a patch was
  applied. \<open>approve\<close>, \<open>reject\<close> and \<open>expire\<close> are the decisions taken outside the operator; all
  other rules are the operator's.
\<close>

type_synonym lstate = "phase \<times> bool"

inductive operator_step :: "lstate \<Rightarrow> lstate \<Rightarrow> bool" where
  acknowledge: "operator_step (Approved, b) (Acknowledged, b)"
| refuse: "operator_step (Approved, b) (Failed, b)"
| apply_patch: "operator_step (Approved, b) (Applying, True)"
| lost: "operator_step (Applying, False) (Failed, False)"
| verify: "operator_step (Applying, True) (Verifying, True)"
| complete: "operator_step (Verifying, b) (Completed, b)"
| roll_back: "operator_step (Verifying, b) (RolledBack, b)"
| give_up: "operator_step (Verifying, b) (Failed, b)"

inductive decision_step :: "lstate \<Rightarrow> lstate \<Rightarrow> bool" where
  approve: "decision_step (Pending, b) (Approved, b)"
| reject: "decision_step (Pending, b) (Rejected, b)"
| expire: "decision_step (Pending, b) (Expired, b)"

inductive lifecycle_reach :: "lstate \<Rightarrow> bool" where
  start: "lifecycle_reach (Pending, False)"
| operator: "lifecycle_reach s \<Longrightarrow> operator_step s t \<Longrightarrow> lifecycle_reach t"
| decision: "lifecycle_reach s \<Longrightarrow> decision_step s t \<Longrightarrow> lifecycle_reach t"

inductive_simps operator_step_simps [simp]:
  "operator_step (Pending, b) t" "operator_step (Approved, b) t" "operator_step (Applying, b) t"
  "operator_step (Verifying, b) t" "operator_step (Completed, b) t"
  "operator_step (Acknowledged, b) t" "operator_step (RolledBack, b) t"
  "operator_step (Failed, b) t" "operator_step (Rejected, b) t" "operator_step (Expired, b) t"
  "operator_step (OtherPhase s, b) t"

inductive_cases operator_stepE: "operator_step s t"
inductive_cases decision_stepE: "decision_step s t"

definition abs_state :: "RemediationAction \<Rightarrow> lstate" where
  "abs_state a = (ra_phase a, rs_appliedAt (ra_status a) \<noteq> None)"

lemma lifecycle_invariant:
  "lifecycle_reach s \<Longrightarrow>
     (fst s \<in> {Applying, Verifying, Completed, RolledBack} \<longrightarrow> snd s) \<and>
     (fst s \<in> {Pending, Approved, Acknowledged, Rejected, Expired} \<longrightarrow> \<not> snd s)"
proof (induction rule: lifecycle_reach.induct)
  case start
  show ?case by simp
next
  case (operator s t)
  from operator.hyps(2) operator.IH show ?case by cases auto
next
  case (decision s t)
  from decision.hyps(2) decision.IH show ?case by cases auto
qed

subsection \<open>Refinement\<close>

lemma settle_action: "settle r now w a t ev oc = (w', a', evs, res) \<Longrightarrow> a' = a"
  by (auto simp: settle_def split: prod.splits option.splits)

lemma transitions_action:
  "transitionToAcknowledged r now w a = (w', a', evs, res) \<Longrightarrow>
     same_meta a a' \<and> abs_state a' = (Acknowledged, snd (abs_state a))"
  "transitionToFailedWithReason r now w a cr rs = (w', a', evs, res) \<Longrightarrow>
     same_meta a a' \<and> abs_state a' = (Failed, snd (abs_state a))"
  "transitionToFailed r now w a rs = (w', a', evs, res) \<Longrightarrow>
     same_meta a a' \<and> abs_state a' = (Failed, snd (abs_state a))"
  unfolding transitionToFailed_def transitionToAcknowledged_def transitionToFailedWithReason_def
  by (drule settle_action, simp add: abs_state_def)+

lemma handleApproved_abs:
  assumes "ra_phase a = Approved" "handleApproved r now w a = (w', a', evs, res)"
  shows "same_meta a a' \<and> operator_step (abs_state a) (abs_state a')"
proof (cases "HasAutoApplicableChange (Some a)")
  case False
  with assms show ?thesis
    by (auto simp: handleApproved_def abs_state_def dest!: transitions_action)
next
  case True
  obtain w1 e where ap: "Apply (rc_api r) w a = (w1, e)" by fastforce
  show ?thesis
  proof (cases e)
    case None
    with ap True assms show ?thesis
      by (auto simp: handleApproved_def abs_state_def Let_def split: prod.splits option.splits)
  next
    case (Some x)
    with ap True assms show ?thesis
      by (cases "is_precondition x")
         (auto simp: handleApproved_def abs_state_def dest!: transitions_action)
  qed
qed

lemma handleApplying_abs:
  assumes "ra_phase a = Applying" "handleApplying r now w a = (w', a', evs, res)"
  shows "same_meta a a' \<and> (a' = a \<or> operator_step (abs_state a) (abs_state a'))"
proof (cases "rs_appliedAt (ra_status a)")
  case None
  with assms show ?thesis
    by (auto simp: handleApplying_def abs_state_def dest!: transitions_action)
next
  case (Some t)
  with assms show ?thesis
    by (auto simp: handleApplying_def abs_state_def Let_def split: prod.splits option.splits if_splits)
qed

lemma verification_abs:
  "handleVerificationHealthy r now w a = (w', a', evs, res) \<Longrightarrow>
     same_meta a a' \<and> abs_state a' = (Completed, snd (abs_state a))"
  "handleVerificationDegraded r now w a = (w', a', evs, res) \<Longrightarrow>
     same_meta a a' \<and> abs_state a' \<in> {(RolledBack, snd (abs_state a)), (Failed, snd (abs_state a))}"
  "handleVerificationUnknown r now w a = (w', a', evs, res) \<Longrightarrow>
     same_meta a a' \<and> abs_state a' \<in> {abs_state a, (Failed, snd (abs_state a))}"
proof -
  show "same_meta a a' \<and> abs_state a' = (Completed, snd (abs_state a))"
    if "handleVerificationHealthy r now w a = (w', a', evs, res)"
    using that unfolding handleVerificationHealthy_def
    by (drule_tac settle_action) (simp add: abs_state_def)
  show "same_meta a a' \<and> abs_state a' \<in> {(RolledBack, snd (abs_state a)), (Failed, snd (abs_state a))}"
    if "handleVerificationDegraded r now w a = (w', a', evs, res)"
  proof -
    obtain w1 e where rb: "Rollback_Execute (rc_api r) w a = (w1, e)" by fastforce
    show ?thesis
    proof (cases e)
      case None
      with rb that show ?thesis unfolding handleVerificationDegraded_def
        by (auto simp: abs_state_def dest!: settle_action)
    next
      case (Some x)
      with rb that show ?thesis unfolding handleVerificationDegraded_def
        by (auto dest!: transitions_action)
    qed
  qed
  show "same_meta a a' \<and> abs_state a' \<in> {abs_state a, (Failed, snd (abs_state a))}"
    if "handleVerificationUnknown r now w a = (w', a', evs, res)"
  proof (cases "maxUnknownRetries \<le> getRetryCount a")
    case True
    with that show ?thesis unfolding handleVerificationUnknown_def
      by (auto simp: Let_def dest!: transitions_action)
  next
    case False
    with that show ?thesis unfolding handleVerificationUnknown_def
      by (auto simp: abs_state_def Let_def split: prod.splits option.splits)
  qed
qed

lemma handleVerifying_abs:
  assumes "ra_phase a = Verifying" "handleVerifying r now w a = (w', a', evs, res)"
  shows "same_meta a a' \<and> (abs_state a' = abs_state a \<or> operator_step (abs_state a) (abs_state a'))"
proof -
  obtain v where v: "same_meta a (set_verificationResult v a)"
      "abs_state (set_verificationResult v a) = abs_state a"
    and cs: "handleVerificationHealthy r now w (set_verificationResult v a) = (w', a', evs, res) \<or>
      handleVerificationDegraded r now w (set_verificationResult v a) = (w', a', evs, res) \<or>
      handleVerificationUnknown r now w (set_verificationResult v a) = (w', a', evs, res)"
    using assms(2) unfolding handleVerifying_def
    by (auto simp: Let_def abs_state_def split: prod.splits VerificationResult.splits if_splits)
  obtain b where ab: "abs_state a = (Verifying, b)" using assms(1) by (simp add: abs_state_def)
  let ?a = "set_verificationResult v a"
  have "same_meta ?a a' \<and> abs_state a' \<in> {(Verifying, b), (Completed, b), (RolledBack, b), (Failed, b)}"
    using cs v(2) ab verification_abs [of r now w ?a w' a' evs res] by auto
  moreover from this v(1) have "same_meta a a'" using same_meta_trans by blast
  ultimately show ?thesis unfolding ab by auto
qed

text \<open>
  Whatever the API server, the detection engine and the clock do, and whether or not the
  reconcile ends in an error, a handler makes at most one operator step and leaves everything
  but the status alone.
\<close>

lemma dispatch_abs:
  assumes "dispatch r now w a = (w', a', evs, res)"
  shows "same_meta a a' \<and>
    (abs_state a' = abs_state a \<or> operator_step (abs_state a) (abs_state a'))"
proof (cases "ra_phase a")
  case Approved
  with assms show ?thesis using handleApproved_abs [OF Approved] by (fastforce simp: dispatch_def)
next
  case Applying
  with assms show ?thesis using handleApplying_abs [OF Applying] by (fastforce simp: dispatch_def)
next
  case Verifying
  with assms show ?thesis using handleVerifying_abs [OF Verifying] by (fastforce simp: dispatch_def)
qed (use assms in \<open>auto simp: dispatch_def split: prod.splits option.splits\<close>)

end
