(* ===== verification/Server.thy ===== *)
theory Server
  imports Lifecycle
begin

text \<open>
  The contract the controllers have with the Kubernetes API server, as the locale
  \<open>api_server\<close>, and what the remediation controller guarantees on top of it. The three views
  \<open>stored\<close>, \<open>personas\<close> and \<open>incidents\<close> give the objects held in a world. A read returns a held
  object or fails; a status write replaces the status of the held object and nothing else; a
  write may be refused, or may be performed and its reply lost; and
  \<^verbatim>\<open>retry.RetryOnConflict\<close> runs its argument some number of times.
\<close>

definition p_key :: "ApplicationPersona \<Rightarrow> objkey" where
  "p_key p = (p_namespace p, p_name p)"

definition im_key :: "IncidentMemory \<Rightarrow> objkey" where
  "im_key i = (im_namespace i, im_name i)"

text \<open>At most the status of one held object was replaced.\<close>

definition status_written ::
  "(objkey \<rightharpoonup> RemediationAction) \<Rightarrow> RemediationAction \<Rightarrow> (objkey \<rightharpoonup> RemediationAction) \<Rightarrow> bool" where
  "status_written held a held' =
     (\<exists>b. held (ra_key a) = Some b \<and> held' = held(ra_key a \<mapsto> b\<lparr>ra_status := ra_status a\<rparr>))"

definition spec_written ::
  "(objkey \<rightharpoonup> ApplicationPersona) \<Rightarrow> ApplicationPersona \<Rightarrow> (objkey \<rightharpoonup> ApplicationPersona) \<Rightarrow> bool" where
  "spec_written held p held' =
     (\<exists>q. held (p_key p) = Some q \<and> held' = held(p_key p \<mapsto> q\<lparr>p_spec := p_spec p\<rparr>))"

definition patched ::
  "'w api \<Rightarrow> (objkey \<rightharpoonup> ApplicationPersona) \<Rightarrow> objkey \<Rightarrow> raw \<Rightarrow> (objkey \<rightharpoonup> ApplicationPersona) \<Rightarrow> bool" where
  "patched api held k raw held' =
     (\<exists>p pw sp spec'. held k = Some p \<and> unmarshalMap raw = Some pw \<and> map_of pw ''spec'' = Some sp \<and>
        decode_spec api (mergeMaps (p_spec p) (the (unmarshalMap (RawJson sp)))) = Inr spec' \<and>
        held' = held(k \<mapsto> p\<lparr>p_spec := spec'\<rparr>))"

text \<open>The action under one key kept everything but its status and made at most one operator step.\<close>

definition lifecycle_move ::
  "objkey \<Rightarrow> (objkey \<rightharpoonup> RemediationAction) \<Rightarrow> (objkey \<rightharpoonup> RemediationAction) \<Rightarrow> bool" where
  "lifecycle_move k held held' =
     (held' = held \<or>
      (\<exists>a a'. held k = Some a \<and> held' = held(k \<mapsto> a') \<and> same_meta a a' \<and>
         (abs_state a' = abs_state a \<or> operator_step (abs_state a) (abs_state a'))))"

text \<open>
  The only two ways a reconcile writes a persona: the patch of an Approved plan whose
  preconditions hold, or the snapshot of a Verifying plan whose rollback is enabled.
\<close>

definition persona_move ::
  "'w api \<Rightarrow> RemediationAction \<Rightarrow> (objkey \<rightharpoonup> ApplicationPersona) \<Rightarrow> (objkey \<rightharpoonup> ApplicationPersona) \<Rightarrow> bool" where
  "persona_move api a held held' =
     (held' = held \<or>
      (HasAutoApplicableChange (Some a) \<and> validatePreconditions a = None \<and>
       patched api held (personaKey a) (the (ad_patch (sp_action (ra_spec a)))) held') \<or>
      (ra_phase a = Verifying \<and> (\<exists>rb. sp_rollback (ra_spec a) = Some rb \<and> rb_enabled rb) \<and>
       patched api held (personaKey a) (the (ad_prePatchState (sp_action (ra_spec a)))) held'))"

lemma abs_state_status: "ra_status a = ra_status b \<Longrightarrow> abs_state a = abs_state b"
  by (simp add: abs_state_def)

lemma status_written_meta:
  assumes "status_written held a' held'" "held k = Some a" "ra_key a = k" "same_meta a a'"
  shows "held' = held(k \<mapsto> a')"
  using assms same_meta_key [OF assms(4)] by (auto simp: status_written_def same_meta_def)

lemma status_written_move:
  assumes "status_written held a' held'" "held k = Some a" "ra_key a = k" "same_meta a a'"
    and "abs_state a' = abs_state a \<or> operator_step (abs_state a) (abs_state a')"
  shows "lifecycle_move k held held'"
  using status_written_meta [OF assms(1-4)] assms by (auto simp: lifecycle_move_def)

locale api_server =
  fixes api :: "'w api"
    and stored :: "'w \<Rightarrow> objkey \<rightharpoonup> RemediationAction"
    and personas :: "'w \<Rightarrow> objkey \<rightharpoonup> ApplicationPersona"
    and incidents :: "'w \<Rightarrow> objkey \<rightharpoonup> IncidentMemory"
  assumes stored_key: "stored w k = Some a \<Longrightarrow> ra_key a = k"
    and personas_key: "personas w k = Some p \<Longrightarrow> p_key p = k"
    and get_stored: "get_action api w k = Inr a \<Longrightarrow> stored w k = Some a"
    and get_personas: "get_persona api w k = Inr p \<Longrightarrow> personas w k = Some p"
    and get_incidents: "get_incident api w k = Inr i \<Longrightarrow> incidents w k = Some i"
    and status_write: "status_update_action api w a = (w', e) \<Longrightarrow>
          (stored w' = stored w \<and> e \<noteq> None) \<or> status_written (stored w) a (stored w')"
    and status_frame: "status_update_action api w a = (w', e) \<Longrightarrow>
          personas w' = personas w \<and> incidents w' = incidents w"
    and persona_write: "update_persona api w p = (w', e) \<Longrightarrow>
          (personas w' = personas w \<and> e \<noteq> None) \<or> spec_written (personas w) p (personas w')"
    and persona_frame: "update_persona api w p = (w', e) \<Longrightarrow>
          stored w' = stored w \<and> incidents w' = incidents w"
    and incident_frame: "update_incident api w i = (w', e) \<Longrightarrow>
          stored w' = stored w \<and> personas w' = personas w"
    and incident_status_frame: "status_update_incident api w i = (w', e) \<Longrightarrow>
          stored w' = stored w \<and> personas w' = personas w"
    and retry_runs: "\<lbrakk>retry_conflict api f w = (w', e); Q w w;
          \<And>u v v' x. Q u v \<Longrightarrow> f v = (v', x) \<Longrightarrow> Q u v'\<rbrakk> \<Longrightarrow> Q w w'"
begin

lemma resolution_frame:
  assumes "rc_api r = api" "updateIncidentResolution r now w a oc = (w', e)"
  shows "stored w' = stored w \<and> personas w' = personas w"
proof (cases "get_incident api w (incidentKey a)")
  case (Inl x)
  with assms show ?thesis by (simp add: updateIncidentResolution_def Let_def)
next
  case (Inr i)
  obtain w1 x where up: "update_incident api w (resolutionFor now a oc i) = (w1, x)" by fastforce
  note f1 = incident_frame [OF up]
  show ?thesis
  proof (cases "x = None \<and> oc = ''resolved''")
    case False
    then show ?thesis using assms Inr up f1
      by (auto simp: updateIncidentResolution_def Let_def split: option.splits)
  next
    case True
    let ?f = "\<lambda>v. case get_incident api v (incidentKey a) of Inl e \<Rightarrow> (v, Some e)
                | Inr fresh \<Rightarrow> status_update_incident api v
                    (fresh\<lparr>im_status := (im_status fresh)\<lparr>ims_phase := PhaseResolved\<rparr>\<rparr>)"
    obtain w2 y where rt: "retry_conflict api ?f w1 = (w2, y)" by fastforce
    have "stored w2 = stored w1 \<and> personas w2 = personas w1"
      by (rule retry_runs [OF rt, where Q = "\<lambda>u v. stored v = stored u \<and> personas v = personas u"])
         (auto split: sum.splits dest!: incident_status_frame)
    moreover have "w' = w2" using assms Inr up True rt
      by (auto simp: updateIncidentResolution_def Let_def split: option.splits)
    ultimately show ?thesis using f1 by simp
  qed
qed

lemma settle_effect:
  assumes "rc_api r = api" "settle r now w a t ev oc = (w', a', evs, res)"
  shows "personas w' = personas w \<and>
    ((stored w' = stored w \<and> (\<exists>e. res = Inl e)) \<or> status_written (stored w) a (stored w'))"
proof -
  obtain w1 x where up: "status_update_action api w a = (w1, x)" by fastforce
  obtain w2 y where ui: "updateIncidentResolution r now w1 a oc = (w2, y)" by fastforce
  show ?thesis
    using assms up ui status_write [OF up] status_frame [OF up] resolution_frame [OF assms(1) ui]
    by (cases x) (auto simp: settle_def)
qed

lemma settle_held:
  assumes "rc_api r = api" "settle r now w a t ev oc = (w', a', evs, res)"
  shows "personas w' = personas w \<and> (stored w' = stored w \<or> status_written (stored w) a' (stored w'))"
  using settle_effect [OF assms] settle_action [OF assms(2)] by auto

lemma failed_effect:
  assumes "rc_api r = api" "transitionToFailedWithReason r now w a cr rs = (w', a', evs, res)"
  shows "personas w' = personas w \<and> (stored w' = stored w \<or> status_written (stored w) a' (stored w'))"
  using assms(2) unfolding transitionToFailedWithReason_def by (rule settle_held [OF assms(1)])

lemma applyPatch_frame:
  assumes "applyPatch api w p raw = (w', e)"
  shows "stored w' = stored w"
  using assms by (auto simp: applyPatch_def Let_def
      split: option.splits sum.splits prod.splits dest!: persona_frame)

text \<open>What \<^const>\<open>applyPatch\<close> can do to the personas.\<close>

lemma applyPatch_effect:
  assumes "applyPatch api w p raw = (w', e)"
  shows "(personas w' = personas w \<and> e \<noteq> None) \<or>
    (\<exists>pw sp spec'. unmarshalMap raw = Some pw \<and> map_of pw ''spec'' = Some sp \<and>
       decode_spec api (mergeMaps (p_spec p) (the (unmarshalMap (RawJson sp)))) = Inr spec' \<and>
       spec_written (personas w) (p\<lparr>p_spec := spec'\<rparr>) (personas w'))"
  using assms
  by (auto simp: applyPatch_def jsonMergePatch_def unmarshalMap_def Let_def
      split: option.splits sum.splits prod.splits raw.splits json.splits if_splits
      dest!: persona_write)

text \<open>One persona got the merge of its spec with the \<^verbatim>\<open>spec\<close> part of a patch.\<close>

lemma Apply_effect:
  assumes "Apply api w a = (w', e)"
  shows "stored w' = stored w \<and>
    ((personas w' = personas w \<and> e \<noteq> None) \<or>
     (validatePreconditions a = None \<and>
      patched api (personas w) (personaKey a) (the (ad_patch (sp_action (ra_spec a)))) (personas w')))"
proof (cases "validatePreconditions a")
  case (Some x)
  with assms show ?thesis by (auto simp: Apply_def)
next
  case None
  show ?thesis
  proof (cases "getTargetPersona '', only ApplicationPersona is supported'' api w a")
    case (Inl x)
    with assms None show ?thesis by (auto simp: Apply_def)
  next
    case (Inr p)
    then have held: "personas w (personaKey a) = Some p"
      by (auto simp: getTargetPersona_def Let_def split: if_splits sum.splits dest: get_personas)
    obtain w1 x where ap: "applyPatch api w p (the (ad_patch (sp_action (ra_spec a)))) = (w1, x)"
      by fastforce
    have "w' = w \<and> e \<noteq> None \<or> w' = w1 \<and> (e = None \<longleftrightarrow> x = None)"
      using assms None Inr ap by (auto simp: Apply_def split: if_splits option.splits)
    then show ?thesis
      using applyPatch_frame [OF ap] applyPatch_effect [OF ap] held personas_key [OF held] None
      by (auto simp: patched_def spec_written_def p_key_def)
  qed
qed

lemma Rollback_effect:
  assumes "Rollback_Execute api w a = (w', e)"
  shows "stored w' = stored w \<and>
    ((personas w' = personas w \<and> e \<noteq> None) \<or>
     ((\<exists>rb. sp_rollback (ra_spec a) = Some rb \<and> rb_enabled rb) \<and>
      patched api (personas w) (personaKey a) (the (ad_prePatchState (sp_action (ra_spec a))))
        (personas w')))"
proof (cases "getTargetPersona [] api w a")
  case (Inl x)
  with assms show ?thesis
    by (auto simp: Rollback_Execute_def Let_def split: if_splits option.splits)
next
  case (Inr p)
  then have held: "personas w (personaKey a) = Some p"
    by (auto simp: getTargetPersona_def Let_def split: if_splits sum.splits dest: get_personas)
  obtain w1 x where ap: "applyPatch api w p (the (ad_prePatchState (sp_action (ra_spec a)))) = (w1, x)"
    by fastforce
  have "w' = w \<and> e \<noteq> None \<or> w' = w1 \<and> (e = None \<longleftrightarrow> x = None) \<and>
      (\<exists>rb. sp_rollback (ra_spec a) = Some rb \<and> rb_enabled rb)"
    using assms Inr ap by (auto simp: Rollback_Execute_def Let_def split: if_splits option.splits)
  then show ?thesis
    using applyPatch_frame [OF ap] applyPatch_effect [OF ap] held personas_key [OF held]
    by (auto simp: patched_def spec_written_def p_key_def)
qed

text \<open>
  The effect of a handler on the held actions: nothing, or the status of the handled action as
  the handler left it.
\<close>

lemma handleApproved_effect:
  assumes api: "rc_api r = api" and h: "handleApproved r now w a = (w', a', evs, res)"
  shows "(stored w' = stored w \<or> status_written (stored w) a' (stored w')) \<and>
    (personas w' = personas w \<or>
     (HasAutoApplicableChange (Some a) \<and> validatePreconditions a = None \<and>
      patched api (personas w) (personaKey a) (the (ad_patch (sp_action (ra_spec a)))) (personas w')))"
proof (cases "HasAutoApplicableChange (Some a)")
  case False
  then have "transitionToAcknowledged r now w a = (w', a', evs, res)"
    using h unfolding handleApproved_def by simp
  then show ?thesis
    unfolding transitionToAcknowledged_def by (auto dest!: settle_held [OF api])
next
  case True
  obtain w1 e where ap: "Apply api w a = (w1, e)" by fastforce
  note eff = Apply_effect [OF ap]
  show ?thesis
  proof (cases e)
    case None
    obtain a2 where a2: "a2 = set_ra_condition now ConditionApplied CondTrue ''PatchApplied''
        ''Remediation patch applied to ApplicationPersona'' (set_appliedAt now (set_phase Applying a))"
      by blast
    obtain w2 x where up: "status_update_action api w1 a2 = (w2, x)" by fastforce
    have "w' = w2 \<and> a' = a2"
      using h True ap None api up unfolding handleApproved_def a2 Let_def by (auto split: option.splits)
    then show ?thesis
      using eff None True status_write [OF up] status_frame [OF up] by auto
  next
    case (Some x)
    obtain cr m where "transitionToFailedWithReason r now w1 a cr m = (w', a', evs, res)"
      using h True ap api Some unfolding handleApproved_def transitionToFailed_def
      by (auto split: if_splits)
    from failed_effect [OF api this] show ?thesis using eff True by auto
  qed
qed

lemma handleApplying_effect:
  assumes api: "rc_api r = api" and h: "handleApplying r now w a = (w', a', evs, res)"
  shows "(stored w' = stored w \<or> status_written (stored w) a' (stored w')) \<and> personas w' = personas w"
proof (cases "rs_appliedAt (ra_status a)")
  case None
  with h failed_effect [OF api] show ?thesis
    unfolding handleApplying_def transitionToFailed_def by fastforce
next
  case (Some t)
  obtain w1 x where up: "status_update_action api w (set_phase Verifying a) = (w1, x)" by fastforce
  show ?thesis
    using h Some up api status_write [OF up] status_frame [OF up]
    unfolding handleApplying_def by (auto simp: Let_def split: if_splits option.splits)
qed

lemma degraded_effect:
  assumes api: "rc_api r = api" and h: "handleVerificationDegraded r now w a = (w', a', evs, res)"
  shows "(stored w' = stored w \<or> status_written (stored w) a' (stored w')) \<and>
    (personas w' = personas w \<or>
     ((\<exists>rb. sp_rollback (ra_spec a) = Some rb \<and> rb_enabled rb) \<and>
      patched api (personas w) (personaKey a) (the (ad_prePatchState (sp_action (ra_spec a))))
        (personas w')))"
proof -
  obtain w1 e where rb: "Rollback_Execute api w a = (w1, e)" by fastforce
  note eff = Rollback_effect [OF rb]
  show ?thesis
  proof (cases e)
    case None
    then have "\<exists>a2 t ev oc. settle r now w1 a2 t ev oc = (w', a', evs, res)"
      using h rb api unfolding handleVerificationDegraded_def by auto
    then show ?thesis using eff by (auto dest!: settle_held [OF api])
  next
    case (Some x)
    then have "\<exists>cr m. transitionToFailedWithReason r now w1 a cr m = (w', a', evs, res)"
      using h rb api unfolding handleVerificationDegraded_def transitionToFailed_def by auto
    then show ?thesis using eff by (auto dest!: failed_effect [OF api])
  qed
qed

lemma unknown_effect:
  assumes api: "rc_api r = api" and h: "handleVerificationUnknown r now w a = (w', a', evs, res)"
  shows "(stored w' = stored w \<or> status_written (stored w) a' (stored w')) \<and> personas w' = personas w"
proof (cases "maxUnknownRetries \<le> getRetryCount a")
  case True
  with h failed_effect [OF api] show ?thesis
    unfolding handleVerificationUnknown_def transitionToFailed_def Let_def by fastforce
next
  case False
  obtain a2 where a2: "a2 = set_ra_condition now ConditionVerified CondFalse ''VerificationUnknown''
      (retryMessage (getRetryCount a + 1)) a" by blast
  obtain w1 x where up: "status_update_action api w a2 = (w1, x)" by fastforce
  show ?thesis
    using h False up api status_write [OF up] status_frame [OF up]
    unfolding handleVerificationUnknown_def a2 by (auto simp: Let_def split: option.splits)
qed

lemma healthy_effect:
  assumes api: "rc_api r = api" and h: "handleVerificationHealthy r now w a = (w', a', evs, res)"
  shows "(stored w' = stored w \<or> status_written (stored w) a' (stored w')) \<and> personas w' = personas w"
  using settle_held [OF api] h unfolding handleVerificationHealthy_def by blast

lemma handleVerifying_effect:
  assumes api: "rc_api r = api" and h: "handleVerifying r now w a = (w', a', evs, res)"
  shows "(stored w' = stored w \<or> status_written (stored w) a' (stored w')) \<and>
    (personas w' = personas w \<or>
     (Verify api (rc_engine r) w a = (VerificationDegraded, None) \<and>
      (\<exists>rb. sp_rollback (ra_spec a) = Some rb \<and> rb_enabled rb) \<and>
      patched api (personas w) (personaKey a) (the (ad_prePatchState (sp_action (ra_spec a))))
        (personas w')))"
proof -
  obtain res0 err where v: "Verify api (rc_engine r) w a = (res0, err)" by fastforce
  let ?res = "if err \<noteq> None then VerificationUnknown else res0"
  let ?a = "set_verificationResult (verification_str ?res) a"
  have sp: "ra_spec ?a = ra_spec a" "personaKey ?a = personaKey a"
    by (simp_all add: personaKey_def set_verificationResult_def Let_def)
  show ?thesis
  proof (cases ?res)
    case VerificationHealthy
    then show ?thesis using h v api healthy_effect [OF api, of now w ?a w' a' evs res]
      unfolding handleVerifying_def by (simp add: Let_def)
  next
    case VerificationDegraded
    then have "res0 = VerificationDegraded" "err = None" by (simp_all split: if_splits)
    then show ?thesis using h v api degraded_effect [OF api, of now w ?a w' a' evs res] sp
      unfolding handleVerifying_def by (simp add: Let_def)
  next
    case VerificationUnknown
    then show ?thesis using h v api unknown_effect [OF api, of now w ?a w' a' evs res]
      unfolding handleVerifying_def by (simp add: Let_def)
  qed
qed

lemma rejection_effect:
  assumes api: "rc_api r = api" and h: "recordRejection r now w a = (w', e)"
  shows "personas w' = personas w \<and>
    (stored w' = stored w \<or>
     (\<exists>b b'. stored w (ra_key a) = Some b \<and> stored w' = (stored w)(ra_key a \<mapsto> b') \<and>
        same_meta b b' \<and> abs_state b' = abs_state b))"
proof (cases "hasCondition (ra_conditions a) ConditionRejected")
  case True
  with h show ?thesis by (simp add: recordRejection_def)
next
  case False
  let ?msg = "''declined by a human; dorgu will not re-propose this fix for 1h0m0s''"
  let ?f = "\<lambda>v. case get_action api v (ra_key a) of Inl e \<Rightarrow> (v, Some e)
     | Inr fresh \<Rightarrow> (if ra_phase fresh \<noteq> Rejected \<or> hasCondition (ra_conditions fresh) ConditionRejected
         then (v, None) else status_update_action api v
           (set_ra_condition now ConditionRejected CondTrue ReasonUserRejected ?msg fresh))"
  let ?Q = "\<lambda>u v. personas v = personas u \<and> (stored v = stored u \<or>
     (\<exists>b b'. stored u (ra_key a) = Some b \<and> stored v = (stored u)(ra_key a \<mapsto> b') \<and>
        same_meta b b' \<and> abs_state b' = abs_state b))"
  obtain w1 x where rt: "retry_conflict api ?f w = (w1, x)" by fastforce
  have "?Q w w1"
  proof (rule retry_runs [OF rt])
    show "?Q w w" by simp
  next
    fix u v v' y assume q: "?Q u v" and f: "?f v = (v', y)"
    show "?Q u v'"
    proof (cases "v' = v")
      case False
      with f obtain fresh where g: "get_action api v (ra_key a) = Inr fresh"
        and up: "status_update_action api v
           (set_ra_condition now ConditionRejected CondTrue ReasonUserRejected ?msg fresh) = (v', y)"
        by (auto split: sum.splits if_splits)
      let ?new = "set_ra_condition now ConditionRejected CondTrue ReasonUserRejected ?msg fresh"
      have held: "stored v (ra_key a) = Some fresh" and k: "ra_key fresh = ra_key a"
        using get_stored [OF g] stored_key by blast+
      have m: "same_meta fresh ?new" "abs_state ?new = abs_state fresh" by (simp_all add: abs_state_def)
      have "stored v' = stored v \<or> stored v' = (stored v)(ra_key a \<mapsto> ?new)"
        using status_write [OF up] status_written_meta [of "stored v" ?new "stored v'" "ra_key a" fresh]
          held k m(1) by blast
      with q held m show ?thesis using status_frame [OF up] by (auto intro: same_meta_trans)
    qed (use q in simp)
  qed
  moreover have "w' = w1"
    using h False rt api by (auto simp: recordRejection_def split: option.splits)
  ultimately show ?thesis by simp
qed

lemma dispatch_effect:
  assumes api: "rc_api r = api" and held: "stored w k = Some a"
    and h: "dispatch r now w a = (w', a', evs, res)"
  shows "lifecycle_move k (stored w) (stored w') \<and> persona_move api a (personas w) (personas w')"
proof -
  note key = stored_key [OF held]
  have mv: "lifecycle_move k (stored w) (stored w')"
    if "stored w' = stored w \<or> status_written (stored w) a' (stored w')"
    using that status_written_move [of "stored w" a' "stored w'" k a] held key dispatch_abs [OF h]
    by (auto simp: lifecycle_move_def)
  show ?thesis
  proof (cases "ra_phase a")
    case Approved
    with h handleApproved_effect [OF api] mv show ?thesis
      unfolding persona_move_def by (fastforce simp: dispatch_def)
  next
    case Applying
    with h handleApplying_effect [OF api] mv show ?thesis
      unfolding persona_move_def by (fastforce simp: dispatch_def)
  next
    case Verifying
    with h handleVerifying_effect [OF api] mv show ?thesis
      unfolding persona_move_def by (fastforce simp: dispatch_def)
  next
    case Rejected
    obtain w1 x where rj: "recordRejection r now w a = (w1, x)" by fastforce
    have "w' = w1" using h Rejected rj by (auto simp: dispatch_def split: option.splits)
    with rejection_effect [OF api rj] key held show ?thesis
      by (auto simp: lifecycle_move_def persona_move_def)
  qed (use h in \<open>auto simp: dispatch_def lifecycle_move_def persona_move_def\<close>)
qed

lemma Reconcile_effect:
  assumes "rc_api r = api" "rd_world (Reconcile r now w k) = w'"
  shows "lifecycle_move k (stored w) (stored w') \<and>
    (personas w' = personas w \<or>
     (\<exists>a. stored w k = Some a \<and> persona_move api a (personas w) (personas w')))"
proof (cases "get_action api w k")
  case (Inl e)
  with assms(1,2) show ?thesis by (auto simp: Reconcile_def lifecycle_move_def)
next
  case (Inr a)
  obtain w1 a1 evs res where d: "dispatch r now w a = (w1, a1, evs, res)" by (metis prod_cases4)
  have "w' = w1" using assms(1,2) Inr d by (simp add: Reconcile_def)
  with dispatch_effect [OF assms(1) get_stored [OF Inr] d] get_stored [OF Inr]
  show ?thesis by blast
qed

end

end
