(* ===== verification/Store.thy ===== *)
theory Store
  imports Server
begin

text \<open>
  An object store that satisfies the contract of \<^verbatim>\<open>Server\<close>: association lists of objects by
  key, writes that meet the faults of a script, and client-go's
  \<^verbatim>\<open>retry.RetryOnConflict\<close> with its default of five attempts. A fault is either a refused
  write, or a write that is performed and whose reply is lost. The
  locale \<open>api_server\<close> is interpreted on it, and the concrete instances of the properties run
  on it.
\<close>

datatype fault = NoFault | Refused goerr | LostReply goerr

record store =
  so_actions :: "(objkey \<times> RemediationAction) list"
  so_personas :: "(objkey \<times> ApplicationPersona) list"
  so_incidents :: "(objkey \<times> IncidentMemory) list"
  so_deployments :: "(objkey \<times> Deployment) list"
  so_writes :: nat

definition notFound :: "string \<Rightarrow> objkey \<Rightarrow> goerr" where
  "notFound kind k = ApiErr NotFound (kind @ '' '' @ quoteQ (snd k) @ '' not found'')"

definition lookup_obj :: "string \<Rightarrow> (objkey \<times> 'o) list \<Rightarrow> ('o \<Rightarrow> objkey) \<Rightarrow> objkey \<Rightarrow> goerr + 'o" where
  "lookup_obj kind objs keyOf k =
     (case map_of objs k of
        None \<Rightarrow> Inl (notFound kind k)
      | Some x \<Rightarrow> if keyOf x = k then Inr x else Inl (notFound kind k))"

text \<open>The fault script names the fate of the n-th write.\<close>

type_synonym script = "nat \<Rightarrow> fault"

text \<open>A write under its scripted fault: \<open>upd\<close> makes the store after the write.\<close>

definition write_obj :: "script \<Rightarrow> bool \<Rightarrow> goerr \<Rightarrow> (store \<Rightarrow> store) \<Rightarrow> store \<Rightarrow> store \<times> goerr option" where
  "write_obj script exists missing upd s =
     (let s' = s\<lparr>so_writes := Suc (so_writes s)\<rparr> in
      case script (so_writes s) of
        Refused e \<Rightarrow> (s', Some e)
      | LostReply e \<Rightarrow> (if exists then (upd s', Some e) else (s', Some missing))
      | NoFault \<Rightarrow> (if exists then (upd s', None) else (s', Some missing)))"

definition held_actions :: "store \<Rightarrow> objkey \<rightharpoonup> RemediationAction" where
  "held_actions s k = (case lookup_obj [] (so_actions s) ra_key k of Inl _ \<Rightarrow> None | Inr a \<Rightarrow> Some a)"

definition held_personas :: "store \<Rightarrow> objkey \<rightharpoonup> ApplicationPersona" where
  "held_personas s k = (case lookup_obj [] (so_personas s) p_key k of Inl _ \<Rightarrow> None | Inr p \<Rightarrow> Some p)"

definition held_incidents :: "store \<Rightarrow> objkey \<rightharpoonup> IncidentMemory" where
  "held_incidents s k = (case lookup_obj [] (so_incidents s) im_key k of Inl _ \<Rightarrow> None | Inr i \<Rightarrow> Some i)"

definition store_status_update :: "script \<Rightarrow> store \<Rightarrow> RemediationAction \<Rightarrow> store \<times> goerr option" where
  "store_status_update script s a =
     (case held_actions s (ra_key a) of
        None \<Rightarrow> write_obj script False (notFound ''remediationactions'' (ra_key a)) id s
      | Some b \<Rightarrow> write_obj script True (Err []) (\<lambda>v. v\<lparr>so_actions :=
          AList.update (ra_key a) (b\<lparr>ra_status := ra_status a\<rparr>) (so_actions v)\<rparr>) s)"

definition store_update_persona :: "script \<Rightarrow> store \<Rightarrow> ApplicationPersona \<Rightarrow> store \<times> goerr option" where
  "store_update_persona script s p =
     (case held_personas s (p_key p) of
        None \<Rightarrow> write_obj script False (notFound ''applicationpersonas'' (p_key p)) id s
      | Some q \<Rightarrow> write_obj script True (Err []) (\<lambda>v. v\<lparr>so_personas :=
          AList.update (p_key p) (q\<lparr>p_spec := p_spec p\<rparr>) (so_personas v)\<rparr>) s)"

definition store_update_incident :: "script \<Rightarrow> store \<Rightarrow> IncidentMemory \<Rightarrow> store \<times> goerr option" where
  "store_update_incident script s i =
     (case held_incidents s (im_key i) of
        None \<Rightarrow> write_obj script False (notFound ''incidentmemories'' (im_key i)) id s
      | Some j \<Rightarrow> write_obj script True (Err []) (\<lambda>v. v\<lparr>so_incidents :=
          AList.update (im_key i) (i\<lparr>im_status := im_status j\<rparr>) (so_incidents v)\<rparr>) s)"

definition store_status_update_incident :: "script \<Rightarrow> store \<Rightarrow> IncidentMemory \<Rightarrow> store \<times> goerr option" where
  "store_status_update_incident script s i =
     (case held_incidents s (im_key i) of
        None \<Rightarrow> write_obj script False (notFound ''incidentmemories'' (im_key i)) id s
      | Some j \<Rightarrow> write_obj script True (Err []) (\<lambda>v. v\<lparr>so_incidents :=
          AList.update (im_key i) (j\<lparr>im_status := im_status i\<rparr>) (so_incidents v)\<rparr>) s)"

text \<open>\<^verbatim>\<open>RetryOnConflict\<close>: run again while the error is a conflict and attempts are left.\<close>

fun retry_attempts :: "nat \<Rightarrow> ('w \<Rightarrow> 'w \<times> goerr option) \<Rightarrow> 'w \<Rightarrow> 'w \<times> goerr option" where
  "retry_attempts 0 f w = f w"
| "retry_attempts (Suc n) f w =
     (case f w of
        (w', Some e) \<Rightarrow> (if api_reason_of e = Some Conflict then retry_attempts n f w' else (w', Some e))
      | (w', None) \<Rightarrow> (w', None))"

definition store_api :: "script \<Rightarrow> store api" where
  "store_api script = \<lparr>
     get_action = (\<lambda>s. lookup_obj ''remediationactions'' (so_actions s) ra_key),
     status_update_action = store_status_update script,
     get_persona = (\<lambda>s. lookup_obj ''applicationpersonas'' (so_personas s) p_key),
     update_persona = store_update_persona script,
     decode_spec = Inr,
     get_incident = (\<lambda>s. lookup_obj ''incidentmemories'' (so_incidents s) im_key),
     update_incident = store_update_incident script,
     status_update_incident = store_status_update_incident script,
     get_deployment = (\<lambda>s k. case map_of (so_deployments s) k of
        None \<Rightarrow> Inl (notFound ''deployments.apps'' k) | Some d \<Rightarrow> Inr d),
     retry_conflict = retry_attempts 4\<rparr>"

subsection \<open>The contract\<close>

lemma lookup_obj_Inr: "lookup_obj kind objs keyOf k = Inr x \<longleftrightarrow> map_of objs k = Some x \<and> keyOf x = k"
  by (auto simp: lookup_obj_def split: option.splits)

lemma held_iff:
  "held_actions s k = Some a \<longleftrightarrow> map_of (so_actions s) k = Some a \<and> ra_key a = k"
  "held_personas s k = Some p \<longleftrightarrow> map_of (so_personas s) k = Some p \<and> p_key p = k"
  "held_incidents s k = Some i \<longleftrightarrow> map_of (so_incidents s) k = Some i \<and> im_key i = k"
  by (auto simp: held_actions_def held_personas_def held_incidents_def lookup_obj_def
      split: option.splits)

lemma held_frame [simp]:
  "held_actions (s\<lparr>so_writes := fs\<rparr>) = held_actions s"
  "held_personas (s\<lparr>so_writes := fs\<rparr>) = held_personas s"
  "held_incidents (s\<lparr>so_writes := fs\<rparr>) = held_incidents s"
  "held_actions (s\<lparr>so_personas := ps\<rparr>) = held_actions s"
  "held_actions (s\<lparr>so_incidents := is\<rparr>) = held_actions s"
  "held_personas (s\<lparr>so_actions := as\<rparr>) = held_personas s"
  "held_personas (s\<lparr>so_incidents := is\<rparr>) = held_personas s"
  "held_incidents (s\<lparr>so_actions := as\<rparr>) = held_incidents s"
  "held_incidents (s\<lparr>so_personas := ps\<rparr>) = held_incidents s"
  by (simp_all add: fun_eq_iff held_actions_def held_personas_def held_incidents_def)

lemma held_update:
  "ra_key a = k \<Longrightarrow> held_actions (s\<lparr>so_actions := AList.update k a (so_actions s)\<rparr>) = (held_actions s)(k \<mapsto> a)"
  "p_key p = k \<Longrightarrow> held_personas (s\<lparr>so_personas := AList.update k p (so_personas s)\<rparr>) = (held_personas s)(k \<mapsto> p)"
  by (auto simp: fun_eq_iff held_actions_def held_personas_def lookup_obj_def update_conv')

lemma write_obj_cases:
  assumes "write_obj script ex m upd s = (s', e)"
  obtains fs where "s' = s\<lparr>so_writes := fs\<rparr>" "e \<noteq> None" | fs where "ex" "s' = upd (s\<lparr>so_writes := fs\<rparr>)"
proof -
  show thesis
    using assms that(1) [of "Suc (so_writes s)"] that(2) [of "Suc (so_writes s)"]
    by (cases "script (so_writes s)") (auto simp: write_obj_def Let_def split: if_splits)
qed

lemma store_status_update_effect:
  assumes "store_status_update script s a = (s', e)"
  shows "((held_actions s' = held_actions s \<and> e \<noteq> None) \<or>
          status_written (held_actions s) a (held_actions s')) \<and>
         held_personas s' = held_personas s \<and> held_incidents s' = held_incidents s"
proof (cases "held_actions s (ra_key a)")
  case None
  with assms have "write_obj script False (notFound ''remediationactions'' (ra_key a)) id s = (s', e)"
    by (simp add: store_status_update_def)
  then show ?thesis by (cases rule: write_obj_cases) auto
next
  case (Some b)
  let ?new = "b\<lparr>ra_status := ra_status a\<rparr>"
  from Some have k: "ra_key ?new = ra_key a" by (simp add: held_iff ra_key_def)
  from assms Some have "write_obj script True (Err []) (\<lambda>v. v\<lparr>so_actions :=
      AList.update (ra_key a) ?new (so_actions v)\<rparr>) s = (s', e)" by (simp add: store_status_update_def)
  then show ?thesis
  proof (cases rule: write_obj_cases)
    case (2 fs)
    have "held_actions s' = (held_actions s)(ra_key a \<mapsto> ?new)"
      using 2(2) held_update(1) [OF k, of "s\<lparr>so_writes := fs\<rparr>"] by simp
    with 2 Some show ?thesis by (auto simp: status_written_def)
  qed auto
qed

lemma store_update_persona_effect:
  assumes "store_update_persona script s p = (s', e)"
  shows "((held_personas s' = held_personas s \<and> e \<noteq> None) \<or>
          spec_written (held_personas s) p (held_personas s')) \<and>
         held_actions s' = held_actions s \<and> held_incidents s' = held_incidents s"
proof (cases "held_personas s (p_key p)")
  case None
  with assms have "write_obj script False (notFound ''applicationpersonas'' (p_key p)) id s = (s', e)"
    by (simp add: store_update_persona_def)
  then show ?thesis by (cases rule: write_obj_cases) auto
next
  case (Some q)
  let ?new = "q\<lparr>p_spec := p_spec p\<rparr>"
  from Some have k: "p_key ?new = p_key p" by (simp add: held_iff p_key_def)
  from assms Some have "write_obj script True (Err []) (\<lambda>v. v\<lparr>so_personas :=
      AList.update (p_key p) ?new (so_personas v)\<rparr>) s = (s', e)" by (simp add: store_update_persona_def)
  then show ?thesis
  proof (cases rule: write_obj_cases)
    case (2 fs)
    have "held_personas s' = (held_personas s)(p_key p \<mapsto> ?new)"
      using 2(2) held_update(2) [OF k, of "s\<lparr>so_writes := fs\<rparr>"] by simp
    with 2 Some show ?thesis by (auto simp: spec_written_def)
  qed auto
qed

lemma store_incident_frames:
  "store_update_incident script s i = (s', e) \<Longrightarrow>
     held_actions s' = held_actions s \<and> held_personas s' = held_personas s"
  "store_status_update_incident script s i = (s', e) \<Longrightarrow>
     held_actions s' = held_actions s \<and> held_personas s' = held_personas s"
  by (auto simp: store_update_incident_def store_status_update_incident_def
      split: option.splits elim!: write_obj_cases)

lemma retry_attempts_runs:
  "retry_attempts n f v = (w', e) \<Longrightarrow> Q w v \<Longrightarrow>
   (\<And>u v v' x. Q u v \<Longrightarrow> f v = (v', x) \<Longrightarrow> Q u v') \<Longrightarrow> Q w w'"
proof (induction n arbitrary: v)
  case 0
  then show ?case by simp
next
  case (Suc n)
  obtain v1 x where f: "f v = (v1, x)" by fastforce
  have "Q w v1" using Suc.prems(3) [OF Suc.prems(2) f] .
  with Suc f show ?case by (auto split: option.splits if_splits)
qed

interpretation so: api_server "store_api script" held_actions held_personas held_incidents
  for script
proof unfold_locales
  show "Q w w'" if "retry_conflict (store_api script) f w = (w', e)" "Q w w"
    "\<And>u v v' x. Q u v \<Longrightarrow> f v = (v', x) \<Longrightarrow> Q u v'" for f w w' e and Q :: "store \<Rightarrow> store \<Rightarrow> bool"
    by (rule retry_attempts_runs [of 4 f w w' e Q]) (use that in \<open>auto simp: store_api_def\<close>)
qed (auto simp: store_api_def held_iff lookup_obj_Inr
       dest: store_status_update_effect store_update_persona_effect store_incident_frames)

end
