(* ===== verification/System.thy ===== *)
theory System
  imports Store
begin

text \<open>
  The remediation controller running against the API server: reconciles of any actions at any
  times, interleaved with the decisions of humans and the writes of other clients.
\<close>

subsection \<open>One reconcile\<close>

text \<open>
  C1. The controller refines the documented life cycle. Against any API server that keeps the
  contract, with writes that may be refused or whose reply may be lost, a reconcile leaves all
  stored actions as they were, or changes the one it was called for: that one keeps its name,
  labels, creation time and plan, and its phase and applied flag stay or make exactly one step
  of the life cycle's operator relation.
\<close>

theorem reconcile_refines_lifecycle:
  assumes "api_server api stored personas incidents" "rc_api r = api"
  shows "lifecycle_move key (stored w) (stored (rd_world (Reconcile r now w key)))"
  using api_server.Reconcile_effect [OF assms refl] by blast

text \<open>
  C2. The only writes to personas. A reconcile changes no ApplicationPersona, unless the action
  it was called for is Approved with an auto-applicable change and passes every precondition, or
  is Verifying with rollback enabled. Then it changes the spec of the one persona the action
  names, to the merge of that spec with the \<^verbatim>\<open>spec\<close> part of the action's patch or snapshot as
  the persona type decodes it.
\<close>

theorem reconcile_persona_writes:
  assumes "api_server api stored personas incidents" "rc_api r = api"
    and "personas (rd_world (Reconcile r now w key)) \<noteq> personas w"
  shows "\<exists>a. stored w key = Some a \<and>
    ((ra_phase a = Approved \<and> HasAutoApplicableChange (Some a) \<and> validatePreconditions a = None \<and>
      patched api (personas w) (personaKey a) (the (ad_patch (sp_action (ra_spec a))))
        (personas (rd_world (Reconcile r now w key)))) \<or>
     (ra_phase a = Verifying \<and> (\<exists>rb. sp_rollback (ra_spec a) = Some rb \<and> rb_enabled rb) \<and>
      patched api (personas w) (personaKey a) (the (ad_prePatchState (sp_action (ra_spec a))))
        (personas (rd_world (Reconcile r now w key)))))"
proof -
  obtain a where "stored w key = Some a"
    and "persona_move api a (personas w) (personas (rd_world (Reconcile r now w key)))"
    using api_server.Reconcile_effect [OF assms(1,2) refl, where now = now and w = w and k = key] assms(3) by blast
  with assms(3) show ?thesis
    unfolding persona_move_def validatePreconditions_None by auto
qed

subsection \<open>Interleavings\<close>

text \<open>
  A step of the whole system, as seen on the stored actions: a reconcile of any key at any time,
  a decision of a human on one action, the creation of a Pending action, a deletion, or anything
  that leaves the stored actions alone.
\<close>

inductive system_step ::
  "'w RemediationController \<Rightarrow> ('w \<Rightarrow> objkey \<rightharpoonup> RemediationAction) \<Rightarrow> 'w \<Rightarrow> 'w \<Rightarrow> bool" for r stored where
  reconcile: "system_step r stored w (rd_world (Reconcile r now w k))"
| decide: "stored w k = Some a \<Longrightarrow> stored w' = (stored w)(k \<mapsto> a') \<Longrightarrow>
    decision_step (abs_state a) (abs_state a') \<Longrightarrow> system_step r stored w w'"
| create: "stored w k = None \<Longrightarrow> stored w' = (stored w)(k \<mapsto> a) \<Longrightarrow>
    abs_state a = (Pending, False) \<Longrightarrow> system_step r stored w w'"
| delete: "stored w' = (stored w)(k := None) \<Longrightarrow> system_step r stored w w'"
| elsewhere: "stored w' = stored w \<Longrightarrow> system_step r stored w w'"

inductive system_run ::
  "'w RemediationController \<Rightarrow> ('w \<Rightarrow> objkey \<rightharpoonup> RemediationAction) \<Rightarrow> 'w \<Rightarrow> bool" for r stored where
  empty: "stored w = Map.empty \<Longrightarrow> system_run r stored w"
| step: "system_run r stored w \<Longrightarrow> system_step r stored w w' \<Longrightarrow> system_run r stored w'"

lemma lifecycle_move_reach:
  assumes "lifecycle_move k held held'" "held' j = Some a'"
    and "\<And>j a. held j = Some a \<Longrightarrow> lifecycle_reach (abs_state a)"
  shows "lifecycle_reach (abs_state a')"
proof (cases "held' = held")
  case False
  then obtain a b where ab: "held k = Some a" "held' = held(k \<mapsto> b)"
    "abs_state b = abs_state a \<or> operator_step (abs_state a) (abs_state b)"
    using assms(1) by (auto simp: lifecycle_move_def)
  show ?thesis
  proof (cases "j = k")
    case True
    with ab assms(2) assms(3) [of k] show ?thesis by (auto intro: lifecycle_reach.operator)
  next
    case False
    with ab assms(2,3) show ?thesis by auto
  qed
qed (use assms in auto)

lemma system_run_reach:
  assumes lawful: "api_server api stored personas incidents" "rc_api r = api"
    and run: "system_run r stored w"
  shows "stored w k = Some a \<Longrightarrow> lifecycle_reach (abs_state a)"
  using run
proof (induction arbitrary: k a rule: system_run.induct)
  case (empty w)
  then show ?case by simp
next
  case (step w w')
  from step.hyps(2) show ?case
  proof cases
    case (reconcile now j)
    have "lifecycle_move j (stored w) (stored w')"
      using api_server.Reconcile_effect [OF lawful refl, where now = now and w = w and k = j] reconcile by simp
    from lifecycle_move_reach [OF this step.prems] step.IH show ?thesis by blast
  next
    case (decide j b b')
    from lifecycle_reach.decision [OF step.IH [OF decide(1)] decide(3)] decide(2) step.IH step.prems
    show ?thesis by (cases "j = k") auto
  next
    case (create j b)
    with step.IH step.prems show ?thesis
      by (cases "j = k") (auto intro: lifecycle_reach.start)
  next
    case (delete j)
    with step.IH step.prems show ?thesis by (cases "j = k") auto
  next
    case elsewhere
    with step.IH step.prems show ?thesis by auto
  qed
qed


subsection \<open>A verification that stays unknown\<close>

text \<open>
  The conditions a verification leaves while it stays unknown: every Verified condition is the
  one written by the first retry.
\<close>

definition first_retry_only :: "Condition list \<Rightarrow> bool" where
  "first_retry_only cs = list_all (\<lambda>c. c_type c = ConditionVerified \<longrightarrow>
     c_status c = CondFalse \<and> c_reason c = ''VerificationUnknown'' \<and> c_message c = retryMessage 1) cs"

lemma scanRetry_1: "scanRetry (retryMessage 1) = Some 1"
  by code_simp

lemma first_retry_count:
  "first_retry_only cs \<Longrightarrow>
     retryLoop cs = (if list_ex (\<lambda>c. c_type c = ConditionVerified) cs then 1 else 0)"
proof (induction cs)
  case (Cons c cs)
  then have IH: "retryLoop cs = (if list_ex (\<lambda>c. c_type c = ConditionVerified) cs then 1 else 0)"
    by (simp add: first_retry_only_def)
  show ?case
  proof (cases "c_type c = ConditionVerified")
    case True
    with Cons.prems have "c_reason c = ''VerificationUnknown''" "c_message c = retryMessage 1"
      by (simp_all add: first_retry_only_def)
    with True show ?thesis by (simp add: scanRetry_1)
  next
    case False
    with IH show ?thesis by simp
  qed
qed simp

lemma first_retry_again:
  assumes "first_retry_only cs" "list_ex (\<lambda>c. c_type c = ConditionVerified) cs"
  shows "setCondition now ConditionVerified CondFalse ''VerificationUnknown'' m cs = cs"
  using assms by (induction cs) (auto simp: first_retry_only_def)

lemma first_retry_append:
  assumes "\<not> list_ex (\<lambda>c. c_type c = ConditionVerified) cs"
  shows "setCondition now ConditionVerified CondFalse ''VerificationUnknown'' m cs =
    cs @ [\<lparr>c_type = ConditionVerified, c_status = CondFalse, c_reason = ''VerificationUnknown'',
           c_message = m, c_ltt = now\<rparr>]"
  using assms by (induction cs) auto

lemma first_retry_step:
  assumes "first_retry_only (ra_conditions a)"
  shows "getRetryCount a < maxUnknownRetries \<and>
    first_retry_only (setCondition now ConditionVerified CondFalse ''VerificationUnknown''
      (retryMessage (getRetryCount a + 1)) (ra_conditions a))"
proof (cases "list_ex (\<lambda>c. c_type c = ConditionVerified) (ra_conditions a)")
  case True
  then show ?thesis
    using first_retry_again [OF assms True] first_retry_count [OF assms] assms
    by (simp add: getRetryCount_def maxUnknownRetries_def)
next
  case False
  then show ?thesis
    using first_retry_append [OF False] first_retry_count [OF assms] assms
    by (simp add: getRetryCount_def maxUnknownRetries_def first_retry_only_def)
qed

lemma Verify_unknown:
  assumes "\<exists>e. get_incident api w (incidentKey a) = Inl e"
  shows "\<exists>e. Verify api eng w a = (VerificationUnknown, Some e)"
  using assms by (auto simp: Verify_def getIncident_def Let_def split: sum.splits)

definition stuck_verifying :: "RemediationAction \<Rightarrow> RemediationAction \<Rightarrow> bool" where
  "stuck_verifying a b =
     (same_meta a b \<and> ra_phase b = Verifying \<and> first_retry_only (ra_conditions b))"

lemma same_meta_incidentKey: "same_meta a b \<Longrightarrow> incidentKey b = incidentKey a"
  by (simp add: same_meta_iff incidentKey_def Let_def)

lemma stuck_dispatch:
  assumes "stuck_verifying a b" "\<And>v. \<exists>e. get_incident (rc_api r) v (incidentKey a) = Inl e"
    and "dispatch r now w b = (w', b', evs, res)"
  shows "stuck_verifying a b'"
proof -
  let ?b = "set_verificationResult (verification_str VerificationUnknown) b"
  let ?c = "set_ra_condition now ConditionVerified CondFalse ''VerificationUnknown''
      (retryMessage (getRetryCount ?b + 1)) ?b"
  have b: "same_meta a b" "ra_phase b = Verifying" "first_retry_only (ra_conditions b)"
    using assms(1) by (auto simp: stuck_verifying_def)
  obtain e where "Verify (rc_api r) (rc_engine r) w b = (VerificationUnknown, Some e)"
    using Verify_unknown [of "rc_api r" w b] assms(2) same_meta_incidentKey [OF b(1)] by auto
  then have h: "handleVerificationUnknown r now w ?b = (w', b', evs, res)"
    using assms(3) b(2) by (simp add: dispatch_def handleVerifying_def Let_def)
  have f: "first_retry_only (ra_conditions ?b)" using b(3) by simp
  have "b' = ?c"
    using h first_retry_step [OF f, of now] unfolding handleVerificationUnknown_def Let_def
    by (auto split: prod.splits option.splits)
  then show ?thesis
    using first_retry_step [OF f, of now] b by (simp add: stuck_verifying_def)
qed

lemma stuck_reconcile:
  assumes lawful: "api_server api stored personas incidents" "rc_api r = api"
    and "\<And>v. \<exists>e. get_incident api v (incidentKey a) = Inl e"
    and held: "stored w k = Some b" "stuck_verifying a b"
  shows "\<exists>b'. stored (rd_world (Reconcile r now w k)) k = Some b' \<and> stuck_verifying a b'"
proof (cases "get_action api w k")
  case (Inl e)
  with held lawful(2) show ?thesis by (auto simp: Reconcile_def)
next
  case (Inr c)
  have c: "c = b" using api_server.get_stored [OF lawful(1) Inr] held by simp
  obtain w1 b1 evs res where d: "dispatch r now w b = (w1, b1, evs, res)" by (metis prod_cases4)
  have st: "stuck_verifying a b1"
    using stuck_dispatch [OF held(2) _ d] assms(3) lawful(2) by simp
  have w1: "rd_world (Reconcile r now w k) = w1" using Inr c d lawful(2) by (simp add: Reconcile_def)
  have "ra_phase b = Verifying" using held(2) by (simp add: stuck_verifying_def)
  with d have "handleVerifying r now w b = (w1, b1, evs, res)" by (simp add: dispatch_def)
  from api_server.handleVerifying_effect [OF lawful this]
  have "stored w1 = stored w \<or> status_written (stored w) b1 (stored w1)" by blast
  moreover have "stored w1 = (stored w)(k \<mapsto> b1)" if "status_written (stored w) b1 (stored w1)"
    using status_written_meta [OF that held(1) api_server.stored_key [OF lawful(1) held(1)]]
      dispatch_abs [OF d] by blast
  ultimately show ?thesis using held st w1 by auto
qed

text \<open>
  C36. A verification that stays unknown is never given up. When the incident of a Verifying
  action cannot be read any more (it was deleted, say), every verification is Unknown; the
  controller means to fail the action after two retries, but the retry count lives in the
  message of a condition that is only rewritten when its status or reason changes. So however
  many reconciles follow, the action stays Verifying.
\<close>

theorem unknown_verification_never_given_up:
  assumes "api_server api stored personas incidents" "rc_api r = api"
    and "\<And>v. \<exists>e. get_incident api v (incidentKey a) = Inl e"
    and "stored w k = Some a" "ra_phase a = Verifying"
    and "\<not> hasCondition (ra_conditions a) ConditionVerified"
  shows "\<exists>b. stored (foldl (\<lambda>v now. rd_world (Reconcile r now v k)) w clocks) k = Some b \<and>
    same_meta a b \<and> ra_phase b = Verifying"
proof -
  have "\<exists>b'. stored (foldl (\<lambda>v now. rd_world (Reconcile r now v k)) v clocks) k = Some b' \<and>
      stuck_verifying a b'" if "stored v k = Some b" "stuck_verifying a b" for v b
    using that
  proof (induction clocks arbitrary: v b)
    case (Cons now clocks)
    from stuck_reconcile [OF assms(1,2,3) Cons.prems, of now] Cons.IH show ?case by auto
  qed auto
  moreover have "stuck_verifying a a"
    using assms(5,6) by (auto simp: stuck_verifying_def first_retry_only_def hasCondition_def
        list_all_iff list_ex_iff)
  ultimately show ?thesis using assms(4) unfolding stuck_verifying_def by metis
qed

subsection \<open>A remediation that works\<close>

text \<open>
  When the status write of a dispatched action is accepted, the action is stored as the handler
  left it.
\<close>

lemma reconcile_stores:
  assumes lawful: "api_server api stored personas incidents" "rc_api r = api"
    and held: "stored w k = Some a" "get_action api w k = Inr a"
    and d: "dispatch r now w a = (w', a', evs, res)" and wr: "status_written (stored w) a' (stored w')"
  shows "rd_world (Reconcile r now w k) = w' \<and> stored w' k = Some a'"
proof -
  have "stored w' = (stored w)(k \<mapsto> a')"
    using status_written_meta [OF wr held(1) api_server.stored_key [OF lawful(1) held(1)]]
      dispatch_abs [OF d] by blast
  then show ?thesis using held(2) d lawful(2) by (simp add: Reconcile_def)
qed

lemma reliable_written:
  assumes "api_server api stored personas incidents" "status_update_action api w a = (w', None)"
  shows "status_written (stored w) a (stored w')"
  using api_server.status_write [OF assms] by blast

lemma approved_to_applying:
  assumes lawful: "api_server api stored personas incidents" "rc_api r = api"
    and held: "stored w k = Some a" "get_action api w k = Inr a" "ra_phase a = Approved"
    and auto: "HasAutoApplicableChange (Some a)" and ap: "Apply api w a = (w1, None)"
    and rel: "\<And>v b. stored v (ra_key b) \<noteq> None \<Longrightarrow> snd (status_update_action api v b) = None"
  shows "\<exists>b. stored (rd_world (Reconcile r now w k)) k = Some b \<and> same_meta a b \<and>
    ra_phase b = Applying \<and> rs_appliedAt (ra_status b) = Some now"
proof -
  define b where "b = set_ra_condition now ConditionApplied CondTrue ''PatchApplied''
    ''Remediation patch applied to ApplicationPersona'' (set_appliedAt now (set_phase Applying a))"
  have meta: "same_meta a b" and ph: "ra_phase b = Applying" and ta: "rs_appliedAt (ra_status b) = Some now"
    by (simp_all add: b_def)
  have st: "stored w1 = stored w" using api_server.Apply_effect [OF lawful(1) ap] by blast
  have key: "ra_key b = k"
    using same_meta_key [OF meta] api_server.stored_key [OF lawful(1) held(1)] by simp
  obtain w2 where up: "status_update_action api w1 b = (w2, None)"
    using rel [of w1 b] held(1) st key by (metis option.distinct(1) prod.collapse)
  have d: "dispatch r now w a = (w2, b, broadcastRemediation r b ''approved'',
      Inr (requeueAfter (getVerificationDelay b)))"
    using held(3) auto ap up lawful(2) unfolding dispatch_def handleApproved_def Let_def b_def by simp
  have "status_written (stored w) b (stored w2)" using reliable_written [OF lawful(1) up] st by simp
  from reconcile_stores [OF lawful held(1,2) d this]
  have "stored (rd_world (Reconcile r now w k)) k = Some b" by simp
  with meta ph ta show ?thesis by blast
qed

lemma applying_to_verifying:
  assumes lawful: "api_server api stored personas incidents" "rc_api r = api"
    and held: "stored w k = Some a" "get_action api w k = Inr a" "ra_phase a = Applying"
    and t: "rs_appliedAt (ra_status a) = Some t" "getVerificationDelay a \<le> timeSub now t"
    and rel: "\<And>v b. stored v (ra_key b) \<noteq> None \<Longrightarrow> snd (status_update_action api v b) = None"
  shows "\<exists>b. stored (rd_world (Reconcile r now w k)) k = Some b \<and> same_meta a b \<and>
    ra_phase b = Verifying \<and> rs_appliedAt (ra_status b) = Some t"
proof -
  let ?b = "set_phase Verifying a"
  have key: "ra_key ?b = k"
    using same_meta_key [of a ?b] api_server.stored_key [OF lawful(1) held(1)] by simp
  obtain w2 where up: "status_update_action api w ?b = (w2, None)"
    using rel [of w ?b] held(1) key by (metis option.distinct(1) prod.collapse)
  have d: "dispatch r now w a = (w2, ?b, [], Inr \<lparr>rq_requeue = True, rq_requeueAfter = 0\<rparr>)"
    using held(3) t up lawful(2) by (simp add: dispatch_def handleApplying_def Let_def)
  from reconcile_stores [OF lawful held(1,2) d reliable_written [OF lawful(1) up]]
  have "stored (rd_world (Reconcile r now w k)) k = Some ?b" by simp
  moreover have "same_meta a ?b" "ra_phase ?b = Verifying" "rs_appliedAt (ra_status ?b) = Some t"
    using t by simp_all
  ultimately show ?thesis by blast
qed

lemma verifying_to_completed:
  assumes lawful: "api_server api stored personas incidents" "rc_api r = api"
    and held: "stored w k = Some a" "get_action api w k = Inr a" "ra_phase a = Verifying"
    and v: "Verify api (rc_engine r) w a = (VerificationHealthy, None)"
    and rel: "\<And>v b. stored v (ra_key b) \<noteq> None \<Longrightarrow> snd (status_update_action api v b) = None"
  shows "\<exists>b. stored (rd_world (Reconcile r now w k)) k = Some b \<and> same_meta a b \<and>
    ra_phase b = Completed \<and> rs_appliedAt (ra_status b) = rs_appliedAt (ra_status a)"
proof -
  define b where "b = set_ra_condition now ConditionVerified CondTrue ''HealthRestored''
    ''Verification confirmed health restored''
    (set_phase Completed (set_verificationResult (verification_str VerificationHealthy) a))"
  have meta: "same_meta a b" and ph: "ra_phase b = Completed"
    and ta: "rs_appliedAt (ra_status b) = rs_appliedAt (ra_status a)" by (simp_all add: b_def)
  have key: "ra_key b = k"
    using same_meta_key [OF meta] api_server.stored_key [OF lawful(1) held(1)] by simp
  obtain w1 where up: "status_update_action api w b = (w1, None)"
    using rel [of w b] held(1) key by (metis option.distinct(1) prod.collapse)
  define w2 where "w2 = fst (updateIncidentResolution r now w1 b ''resolved'')"
  have d: "dispatch r now w a = (w2, b, broadcastRemediation r b ''completed'', Inr noRequeue)"
    using held(3) v up lawful(2)
    unfolding dispatch_def handleVerifying_def handleVerificationHealthy_def settle_def Let_def b_def w2_def by simp
  have "stored w2 = stored w1"
    using api_server.resolution_frame [OF lawful] unfolding w2_def by (metis prod.collapse)
  then have "status_written (stored w) b (stored w2)" using reliable_written [OF lawful(1) up] by simp
  from reconcile_stores [OF lawful held(1,2) d this]
  have "stored (rd_world (Reconcile r now w k)) k = Some b" by simp
  with meta ph ta show ?thesis by blast
qed

text \<open>
  C19. An approved remediation that works completes. When the API server accepts the operator's
  writes and serves what it stores, the executor applies the patch, and verification finds the
  workload healthy, three reconciles bring an Approved action with an auto-applicable change to
  Completed, the second of them at least the verification delay after the first; the stored
  action carries the time of the first reconcile as the time its patch was applied.
\<close>

theorem approved_remediation_completes:
  assumes "api_server api stored personas incidents" "rc_api r = api"
    and "stored w k = Some a" "ra_phase a = Approved"
    and "HasAutoApplicableChange (Some a)" "Apply api w a = (w', None)"
    and "\<And>v b. stored v (ra_key b) \<noteq> None \<Longrightarrow> snd (status_update_action api v b) = None"
    and "\<And>v b. stored v k = Some b \<Longrightarrow> get_action api v k = Inr b"
    and "\<And>v b. same_meta a b \<Longrightarrow> Verify api (rc_engine r) v b = (VerificationHealthy, None)"
    and "getVerificationDelay a \<le> timeSub t2 t1"
  shows "\<exists>b. stored (foldl (\<lambda>v now. rd_world (Reconcile r now v k)) w [t1, t2, t3]) k = Some b \<and>
    same_meta a b \<and> ra_phase b = Completed \<and> rs_appliedAt (ra_status b) = Some t1"
proof -
  let ?w1 = "rd_world (Reconcile r t1 w k)"
  let ?w2 = "rd_world (Reconcile r t2 ?w1 k)"
  obtain b where b: "stored ?w1 k = Some b" "same_meta a b" "ra_phase b = Applying"
    "rs_appliedAt (ra_status b) = Some t1"
    using approved_to_applying [OF assms(1-3) assms(8) [OF assms(3)] assms(4-7)] by blast
  have "getVerificationDelay b = getVerificationDelay a"
    using b(2) by (simp add: getVerificationDelay_def same_meta_iff)
  with assms(10) obtain c where c: "stored ?w2 k = Some c" "same_meta b c" "ra_phase c = Verifying"
    "rs_appliedAt (ra_status c) = Some t1"
    using applying_to_verifying [OF assms(1,2) b(1) assms(8) [OF b(1)] b(3,4) _ assms(7)] by metis
  have ac: "same_meta a c" using b(2) c(2) same_meta_trans by blast
  obtain d where "stored (rd_world (Reconcile r t3 ?w2 k)) k = Some d" "same_meta c d"
    "ra_phase d = Completed" "rs_appliedAt (ra_status d) = rs_appliedAt (ra_status c)"
    using verifying_to_completed [OF assms(1,2) c(1) assms(8) [OF c(1)] c(3) assms(9) [OF ac] assms(7)]
    by blast
  with c(4) ac same_meta_trans show ?thesis by auto
qed

subsection \<open>Apply and roll back\<close>

text \<open>
  The spec of the target after a successful apply and a successful rollback of a plan whose
  snapshot was taken from the spec it patched, when decoding keeps the two merged documents.
\<close>

lemma snapshot_spec:
  assumes "wf_map pw" "map_of pw ''spec'' = Some (JObj sp)" "unmarshalMap P = Some pw"
    and "snapshotPrePatch (Some p) P = Some S"
  shows "\<exists>sw. unmarshalMap S = Some sw \<and>
    map_of sw ''spec'' = (if mirrorExistingPaths sp (p_spec p) = [] then None
                          else Some (JObj (mirrorExistingPaths sp (p_spec p))))"
proof -
  let ?snap = "mirrorExistingPaths pw [(''spec'', JObj (p_spec p))]"
  have "S = RawJson (JObj ?snap)"
    using assms(3,4) by (auto simp: snapshotPrePatch_def Let_def split: if_splits)
  moreover have "map_of ?snap ''spec'' = mirrorEntry (Some (JObj sp)) (Some (JObj (p_spec p)))"
    using mirror_lookup [OF assms(1), of "[(''spec'', JObj (p_spec p))]" "''spec''"] assms(2) by simp
  ultimately show ?thesis by (simp add: unmarshalMap_def mirrorEntry_def)
qed

lemma apply_rollback_spec:
  assumes lawful: "api_server api stored personas incidents"
    and held: "personas w (personaKey a) = Some p"
    and patch: "ad_patch (sp_action (ra_spec a)) = Some P" "unmarshalMap P = Some pw" "wf_map pw"
      "map_of pw ''spec'' = Some (JObj sp)"
    and snap: "ad_prePatchState (sp_action (ra_spec a)) = snapshotPrePatch (Some p) P"
    and run: "Apply api w a = (w1, None)" "same_meta a b" "Rollback_Execute api w1 b = (w2, None)"
    and dec: "\<And>m. decode_spec api m = Inr m"
  shows "personas w2 = (personas w)(personaKey a \<mapsto> p\<lparr>p_spec :=
    mergeMaps (mergeMaps (p_spec p) sp) (mirrorExistingPaths sp (p_spec p))\<rparr>)"
proof -
  have b: "ra_spec b = ra_spec a" "personaKey b = personaKey a"
    using run(2) by (simp_all add: same_meta_iff personaKey_def Let_def)
  let ?p1 = "p\<lparr>p_spec := mergeMaps (p_spec p) sp\<rparr>"
  have p1: "personas w1 = (personas w)(personaKey a \<mapsto> ?p1)"
    using api_server.Apply_effect [OF lawful run(1)] patch held dec
    by (auto simp: patched_def unmarshalMap_def)
  have rb: "patched api (personas w1) (personaKey a)
      (the (snapshotPrePatch (Some p) P)) (personas w2)"
    using api_server.Rollback_effect [OF lawful run(3)] b snap by auto
  have "hasPatch (snapshotPrePatch (Some p) P)"
    using run(3) b snap by (auto simp: Rollback_Execute_def Let_def split: if_splits option.splits)
  then obtain S where S: "snapshotPrePatch (Some p) P = Some S" by (auto simp: hasPatch_iff)
  from snapshot_spec [OF patch(3,4,2) S] rb S p1 dec show ?thesis
    by (auto simp: patched_def unmarshalMap_def split: if_splits)
qed


text \<open>
  What the remediation added stays. A top-level field of the spec that the patch introduced
  is not in the snapshot, so it survives the rollback with the value the patch gave it.
\<close>

theorem rollback_keeps_added_fields:
  assumes "api_server api stored personas incidents"
    and "personas w (personaKey a) = Some p" "wf_map (p_spec p)"
    and "ad_patch (sp_action (ra_spec a)) = Some P" "unmarshalMap P = Some pw" "wf_map pw"
      "map_of pw ''spec'' = Some (JObj sp)"
    and "ad_prePatchState (sp_action (ra_spec a)) = snapshotPrePatch (Some p) P"
    and "Apply api w a = (w1, None)" "same_meta a b" "Rollback_Execute api w1 b = (w2, None)"
    and "\<And>m. decode_spec api m = Inr m"
    and "map_of (p_spec p) key = None" "map_of sp key = Some v" "v \<noteq> JNull"
  shows "\<exists>q. personas w2 (personaKey a) = Some q \<and> map_of (p_spec q) key = Some v"
proof -
  have "wf_map sp" using wf_map_value [OF assms(6,7)] by simp
  then have "map_of (mergeMaps (mergeMaps (p_spec p) sp) (mirrorExistingPaths sp (p_spec p))) key = Some v"
    using assms(3,13-15)
    by (cases v) (simp_all add: mergeMaps_lookup mirror_lookup mirror_wf mirrorEntry_def mergeEntry_def)
  then show ?thesis using apply_rollback_spec [OF assms(1,2,4-12)] by simp
qed

end
