(* ===== verification/Float64.thy ===== *)
theory Float64
  imports Prelude Complex_Main
begin

text \<open>
  The \<^verbatim>\<open>float64\<close> arithmetic of the guardrails and the confidence scores. A finite float is
  the rational it denotes; every arithmetic operation is the exact operation followed by
  rounding to 53 significant bits, ties to even. The quantities concerned are byte counts,
  milli-CPUs, ratios and percentages, so overflow to infinity, subnormal results and NaN stay
  outside the model.
\<close>

definition roundHalfEven :: "rat \<Rightarrow> int" where
  "roundHalfEven x =
     (let f = \<lfloor>x\<rfloor>; d = x - of_int f
      in if d < 1 / 2 then f else if 1 / 2 < d then f + 1 else if even f then f else f + 1)"

text \<open>Halving or doubling moves a positive rational towards the interval from 1 to 2.\<close>

definition expo2_measure :: "rat \<Rightarrow> nat" where
  "expo2_measure x =
     (if 2 \<le> x then nat \<lfloor>x\<rfloor> else if 0 < x \<and> x < 1 then nat \<lceil>1 / x\<rceil> else 0)"

lemma ceiling_half_less:
  fixes y :: rat
  assumes "1 < y"
  shows "\<lceil>y / 2\<rceil> < \<lceil>y\<rceil>"
proof -
  have "2 \<le> \<lceil>y\<rceil>" using assms by linarith
  moreover have "y / 2 \<le> of_int \<lceil>y\<rceil> / 2" by simp
  moreover have "(2 :: rat) \<le> of_int \<lceil>y\<rceil>" using \<open>2 \<le> \<lceil>y\<rceil>\<close>
    by (metis of_int_le_iff of_int_numeral)
  then have "of_int \<lceil>y\<rceil> / 2 \<le> (of_int (\<lceil>y\<rceil> - 1) :: rat)" by simp
  ultimately have "y / 2 \<le> of_int (\<lceil>y\<rceil> - 1)" by linarith
  then show ?thesis by linarith
qed

lemma expo2_measure_up: "2 \<le> x \<Longrightarrow> expo2_measure (x / 2) < expo2_measure x"
proof -
  assume x: "2 \<le> x"
  have "\<lfloor>x / 2\<rfloor> < \<lfloor>x\<rfloor>" using x by linarith
  moreover have "2 \<le> \<lfloor>x\<rfloor>" using x by (simp add: le_floor_iff)
  ultimately show ?thesis using x by (simp add: expo2_measure_def)
qed

lemma expo2_measure_down: "0 < x \<Longrightarrow> x < 1 \<Longrightarrow> expo2_measure (2 * x) < expo2_measure x"
proof -
  assume x: "0 < x" "x < 1"
  then have y: "1 < 1 / x" by simp
  have eq: "1 / (2 * x) = 1 / x / 2" by simp
  have "\<lceil>1 / x / 2\<rceil> < \<lceil>1 / x\<rceil>" using ceiling_half_less [OF y] .
  moreover have "2 \<le> \<lceil>1 / x\<rceil>" using y by linarith
  ultimately show ?thesis using x unfolding expo2_measure_def eq by auto
qed

text \<open>The binary exponent of a positive rational: \<open>2\<^sup>e \<le> x < 2\<^sup>e\<^sup>+\<^sup>1\<close>.\<close>

function expo2 :: "rat \<Rightarrow> int" where
  "expo2 x =
     (if 2 \<le> x then expo2 (x / 2) + 1
      else if 0 < x \<and> x < 1 then expo2 (2 * x) - 1 else 0)"
  by pat_completeness auto

termination
  by (relation "measure expo2_measure") (auto simp: expo2_measure_up expo2_measure_down)

declare expo2.simps [simp del]

text \<open>Rounding to nearest, for positive arguments by scaling to a 53-bit integer.\<close>

definition ulp :: "rat \<Rightarrow> rat" where
  "ulp x = 2 powi (expo2 x - 52)"

definition fl64 :: "rat \<Rightarrow> rat" where
  "fl64 x =
     (if x = 0 then 0
      else if 0 < x then of_int (roundHalfEven (x / ulp x)) * ulp x
      else - (of_int (roundHalfEven (- x / ulp (- x))) * ulp (- x)))"

definition fmul :: "rat \<Rightarrow> rat \<Rightarrow> rat" where "fmul a b = fl64 (a * b)"
definition fdiv :: "rat \<Rightarrow> rat \<Rightarrow> rat" where "fdiv a b = fl64 (a / b)"
definition fadd :: "rat \<Rightarrow> rat \<Rightarrow> rat" where "fadd a b = fl64 (a + b)"
definition fsub :: "rat \<Rightarrow> rat \<Rightarrow> rat" where "fsub a b = fl64 (a - b)"

text \<open>
  \<^verbatim>\<open>fmt.Sprintf("%.nf")\<close>: the decimal nearest to the value, ties to even, with \<open>n\<close> decimals.
\<close>

definition padLeft :: "nat \<Rightarrow> string \<Rightarrow> string" where
  "padLeft n s = replicate (n - length s) (CHR ''0'') @ s"

definition fmtFixedPos :: "nat \<Rightarrow> rat \<Rightarrow> string" where
  "fmtFixedPos n x =
     (let k = nat (roundHalfEven (x * 10 ^ n)) in
      showNat (k div 10 ^ n) @ (if n = 0 then [] else ''.'' @ padLeft n (showNat (k mod 10 ^ n))))"

definition fmtFixed :: "nat \<Rightarrow> rat \<Rightarrow> string" where
  "fmtFixed n x = (if x < 0 then ''-'' @ fmtFixedPos n (- x) else fmtFixedPos n x)"

subsection \<open>Bounds on rounding\<close>

lemma roundHalfEven_ge: "of_int n \<le> x \<Longrightarrow> n \<le> roundHalfEven x"
proof -
  assume "of_int n \<le> x"
  then have "n \<le> \<lfloor>x\<rfloor>" by (simp add: le_floor_iff)
  then show ?thesis by (auto simp: roundHalfEven_def Let_def)
qed

lemma roundHalfEven_le: "x \<le> of_int n \<Longrightarrow> roundHalfEven x \<le> n"
proof -
  assume x: "x \<le> of_int n"
  show ?thesis
  proof (cases "\<lfloor>x\<rfloor> = n")
    case True
    with x have "x - of_int \<lfloor>x\<rfloor> \<le> 0" by simp
    with True show ?thesis by (simp add: roundHalfEven_def Let_def)
  next
    case False
    moreover have "\<lfloor>x\<rfloor> \<le> n" using floor_mono [OF x] by simp
    ultimately have "\<lfloor>x\<rfloor> + 1 \<le> n" by simp
    then show ?thesis by (auto simp: roundHalfEven_def Let_def)
  qed
qed

lemma roundHalfEven_error: "\<bar>of_int (roundHalfEven x) - x\<bar> \<le> 1 / 2"
proof -
  have "of_int \<lfloor>x\<rfloor> \<le> x" "x < of_int \<lfloor>x\<rfloor> + 1" using floor_correct [of x] by simp_all
  then show ?thesis unfolding roundHalfEven_def Let_def
    by (cases "x - of_int \<lfloor>x\<rfloor> < 1 / 2"; cases "1 / 2 < x - of_int \<lfloor>x\<rfloor>")
       (auto simp only: if_True if_False of_int_add of_int_1 abs_le_iff split: if_split)
qed

lemma expo2_bounds: "0 < x \<Longrightarrow> 2 powi expo2 x \<le> x \<and> x < 2 powi (expo2 x + 1)"
proof (induction x rule: expo2.induct)
  case (1 x)
  consider "2 \<le> x" | "0 < x" "x < 1" | "1 \<le> x" "x < 2" using "1.prems" by linarith
  then show ?case
  proof cases
    case 1
    with "1.IH"(1) have "2 powi expo2 (x / 2) \<le> x / 2 \<and> x / 2 < 2 powi (expo2 (x / 2) + 1)"
      by simp
    with 1 show ?thesis
      by (subst (1 2) expo2.simps) (simp add: power_int_add_1 power_int_add)
  next
    case 2
    have "2 powi expo2 (2 * x) \<le> 2 * x \<and> 2 * x < 2 powi (expo2 (2 * x) + 1)"
      by (rule "1.IH"(2)) (use 2 in simp_all)
    with 2 show ?thesis
      by (subst (1 2) expo2.simps) (simp add: power_int_add power_int_diff)
  next
    case 3
    then show ?thesis by (subst (1 2) expo2.simps) simp
  qed
qed

lemma ulp_pos: "0 < ulp x"
  by (simp add: ulp_def)

lemma ulp_scale: "2 powi expo2 x = 2 ^ 52 * ulp x"
  by (simp add: ulp_def power_int_diff)

lemma fl64_pos_bounds:
  assumes "0 < x"
  shows "2 powi expo2 x \<le> fl64 x" and "fl64 x \<le> 2 powi (expo2 x + 1)"
proof -
  have b: "2 ^ 52 * ulp x \<le> x" "x < 2 ^ 53 * ulp x"
    using expo2_bounds [OF assms] ulp_scale [of x] by (simp_all add: power_int_add)
  have "of_int (2 ^ 52) \<le> x / ulp x" using b ulp_pos [of x] by (simp add: field_simps)
  then have lo: "2 ^ 52 \<le> roundHalfEven (x / ulp x)" by (rule roundHalfEven_ge)
  have "x / ulp x \<le> of_int (2 ^ 53)" using b ulp_pos [of x] by (simp add: field_simps)
  then have hi: "roundHalfEven (x / ulp x) \<le> 2 ^ 53" by (rule roundHalfEven_le)
  have fl: "fl64 x = of_int (roundHalfEven (x / ulp x)) * ulp x" using assms by (simp add: fl64_def)
  have lo': "(2 ^ 52 :: rat) \<le> of_int (roundHalfEven (x / ulp x))" using lo
    by (metis of_int_le_iff of_int_numeral of_int_power)
  have hi': "of_int (roundHalfEven (x / ulp x)) \<le> (2 ^ 53 :: rat)" using hi
    by (metis of_int_le_iff of_int_numeral of_int_power)
  show "2 powi expo2 x \<le> fl64 x"
    unfolding ulp_scale fl using lo' ulp_pos [of x] by (simp add: mult_right_mono)
  have "2 powi (expo2 x + 1) = 2 ^ 53 * ulp x" using ulp_scale [of x] by (simp add: power_int_add)
  then show "fl64 x \<le> 2 powi (expo2 x + 1)"
    unfolding fl using hi' ulp_pos [of x] by (simp add: mult_right_mono)
qed

lemma powi2_mono: "(a :: int) \<le> b \<Longrightarrow> (2 :: rat) powi a \<le> 2 powi b"
  by (simp add: power_int_increasing)

lemma powi2_less_exp: "(2 :: rat) powi a < 2 powi b \<Longrightarrow> a < b"
  by (meson leD not_le_imp_less powi2_mono)

text \<open>Rounding does not cross a power of two.\<close>

lemma fl64_le_powi: "0 < x \<Longrightarrow> x \<le> 2 powi k \<Longrightarrow> fl64 x \<le> 2 powi k"
proof -
  assume x: "0 < x" "x \<le> 2 powi k"
  show ?thesis
  proof (cases "x = 2 powi k")
    case True
    then have "\<not> expo2 x < k"
      using expo2_bounds [OF x(1)] powi2_mono [of "expo2 x + 1" k] by force
    moreover have "\<not> k < expo2 x"
      using True expo2_bounds [OF x(1)] powi2_mono [of "k + 1" "expo2 x"]
      by (auto simp: power_int_add)
    ultimately have e: "expo2 x = k" by simp
    have xu: "x = 2 ^ 52 * ulp x" using True ulp_scale [of x] unfolding e by simp
    have "x / ulp x = 2 ^ 52"
      by (subst (1) xu) (use ulp_pos [of x] in simp)
    then have "x / ulp x = of_int (2 ^ 52)" by simp
    then have "roundHalfEven (x / ulp x) = 2 ^ 52"
      using roundHalfEven_ge [of "2 ^ 52"] roundHalfEven_le [of _ "2 ^ 52"] by (metis order_antisym order_refl)
    then have "fl64 x = x" using x(1) by (subst (2) xu) (simp add: fl64_def)
    then show ?thesis using x(2) by simp
  next
    case False
    with x have "2 powi expo2 x < (2 :: rat) powi k" using expo2_bounds [OF x(1)] by linarith
    then have "expo2 x + 1 \<le> k" using powi2_less_exp by fastforce
    then show ?thesis using fl64_pos_bounds(2) [OF x(1)] powi2_mono by (meson order_trans)
  qed
qed

lemma fl64_ge_powi: "0 < x \<Longrightarrow> 2 powi k \<le> x \<Longrightarrow> 2 powi k \<le> fl64 x"
proof -
  assume x: "0 < x" "2 powi k \<le> x"
  then have "(2 :: rat) powi k < 2 powi (expo2 x + 1)" using expo2_bounds [OF x(1)] by linarith
  then have "k \<le> expo2 x" using powi2_less_exp by fastforce
  then show ?thesis using fl64_pos_bounds(1) [OF x(1)] powi2_mono by (meson order_trans)
qed

text \<open>The relative error of one rounding is at most \<open>2\<^sup>-\<^sup>5\<^sup>3\<close>.\<close>

lemma fl64_error: "0 < x \<Longrightarrow> \<bar>fl64 x - x\<bar> \<le> x / 2 ^ 53"
proof -
  assume x: "0 < x"
  let ?n = "of_int (roundHalfEven (x / ulp x)) :: rat"
  have "fl64 x - x = (?n - x / ulp x) * ulp x"
    using x ulp_pos [of x] by (simp add: fl64_def left_diff_distrib)
  then have "\<bar>fl64 x - x\<bar> = \<bar>?n - x / ulp x\<bar> * ulp x"
    using ulp_pos [of x] by (simp add: abs_mult)
  also have "\<dots> \<le> 1 / 2 * ulp x"
    using roundHalfEven_error [of "x / ulp x"] ulp_pos [of x] by (intro mult_right_mono) auto
  also have "\<dots> \<le> x / 2 ^ 53"
    using expo2_bounds [OF x] ulp_scale [of x] by (simp add: field_simps)
  finally show ?thesis .
qed

lemma fl64_nonneg: "0 \<le> x \<Longrightarrow> 0 \<le> fl64 x"
proof (cases "x = 0")
  case True
  then show ?thesis by (simp add: fl64_def)
next
  case False
  assume "0 \<le> x"
  with False have "2 powi expo2 x \<le> fl64 x" by (intro fl64_pos_bounds(1)) simp
  moreover have "(0 :: rat) < 2 powi expo2 x" by simp
  ultimately show ?thesis by linarith
qed

lemma fl64_neg: "x < 0 \<Longrightarrow> fl64 x = - fl64 (- x)"
  by (simp add: fl64_def)

lemma fl64_nonpos: "x \<le> 0 \<Longrightarrow> fl64 x \<le> 0"
  using fl64_nonneg [of "- x"] fl64_neg [of x] by (cases "x = 0") (auto simp: fl64_def)

lemma roundHalfEven_mono: "x \<le> y \<Longrightarrow> roundHalfEven x \<le> roundHalfEven y"
proof -
  assume xy: "x \<le> y"
  have lo: "\<lfloor>z\<rfloor> \<le> roundHalfEven z" and hi: "roundHalfEven z \<le> \<lfloor>z\<rfloor> + 1" for z :: rat
    by (auto simp: roundHalfEven_def Let_def)
  show ?thesis
  proof (cases "\<lfloor>x\<rfloor> = \<lfloor>y\<rfloor>")
    case True
    then show ?thesis using xy by (auto simp: roundHalfEven_def Let_def)
  next
    case False
    then have "\<lfloor>x\<rfloor> + 1 \<le> \<lfloor>y\<rfloor>" using floor_mono [OF xy] by linarith
    then show ?thesis using lo [of y] hi [of x] by linarith
  qed
qed

lemma fl64_mono:
  assumes "0 < x" "x \<le> y"
  shows "fl64 x \<le> fl64 y"
proof -
  have y: "0 < y" using assms by simp
  have "2 powi expo2 x < (2 :: rat) powi (expo2 y + 1)"
    using expo2_bounds [OF assms(1)] expo2_bounds [OF y] assms(2) by linarith
  then have le: "expo2 x \<le> expo2 y" using powi2_less_exp by fastforce
  show ?thesis
  proof (cases "expo2 x = expo2 y")
    case True
    then have u: "ulp x = ulp y" by (simp add: ulp_def)
    have "x / ulp y \<le> y / ulp y" using assms(2) ulp_pos [of y] by (simp add: divide_right_mono)
    then have "roundHalfEven (x / ulp x) \<le> roundHalfEven (y / ulp y)" unfolding u by (rule roundHalfEven_mono)
    then show ?thesis using assms(1) y ulp_pos [of y] by (simp add: fl64_def u mult_right_mono)
  next
    case False
    then have "(2 :: rat) powi (expo2 x + 1) \<le> 2 powi expo2 y" using le by (intro powi2_mono) simp
    then show ?thesis using fl64_pos_bounds(2) [OF assms(1)] fl64_pos_bounds(1) [OF y] by linarith
  qed
qed

lemma fl64_le_of_le:
  assumes "0 \<le> x" "x \<le> y"
  shows "fl64 x \<le> fl64 y"
  using assms fl64_mono [of x y] fl64_nonneg [of y] by (cases "x = 0") (auto simp: fl64_def)

text \<open>Whole numbers up to \<open>2\<^sup>5\<^sup>3\<close> are represented exactly.\<close>

lemma roundHalfEven_int [simp]: "roundHalfEven (of_int n) = n"
  by (simp add: roundHalfEven_def)

lemma fl64_of_int:
  assumes "0 \<le> n" "n \<le> 2 ^ 53"
  shows "fl64 (of_int n) = of_int n"
proof (cases "n = 0 \<or> n = 2 ^ 53")
  case True
  have "fl64 (2 powi 53) = 2 powi 53"
    using fl64_le_powi [of "2 powi 53" 53] fl64_ge_powi [of "2 powi 53" 53] by (intro antisym) simp_all
  moreover have "(of_int (2 ^ 53) :: rat) = 2 powi 53" by (simp only: of_int_power of_int_numeral power_int_numeral)
  ultimately show ?thesis using True by (auto simp: fl64_def)
next
  case False
  let ?x = "of_int n :: rat"
  have x: "0 < ?x" using False assms by simp
  have "?x < of_int (2 ^ 53)" using False assms by (simp only: of_int_less_iff) simp
  moreover have "(of_int (2 ^ 53) :: rat) = 2 powi 53" by (simp only: of_int_power of_int_numeral power_int_numeral)
  ultimately have "2 powi expo2 ?x < (2 :: rat) powi 53" using expo2_bounds [OF x] by linarith
  then have e: "expo2 ?x < 53" by (rule powi2_less_exp)
  define m where "m = nat (52 - expo2 ?x)"
  have "expo2 ?x - 52 = - int m" using e by (simp add: m_def)
  then have "ulp ?x = 2 powi (- int m)" unfolding ulp_def by (rule arg_cong)
  then have u: "?x / ulp ?x = of_int (n * 2 ^ m)" by (simp add: power_int_minus divide_inverse)
  have "of_int (roundHalfEven (?x / ulp ?x)) = ?x / ulp ?x" unfolding u by (simp only: roundHalfEven_int)
  then show ?thesis using x ulp_pos [of ?x] by (simp add: fl64_def)
qed

subsection \<open>Parsing\<close>

text \<open>
  \<^verbatim>\<open>strconv.ParseFloat\<close> on decimal notation: a sign, digits and a fraction, rounded to double
  precision. Exponents, hexadecimal digits and the names of infinities are not among the texts
  the operator writes; the model rejects them.
\<close>

definition parseFloat :: "string \<Rightarrow> rat option" where
  "parseFloat s =
     (let neg = hasPrefix s ''-'';
          t = (if neg \<or> hasPrefix s ''+'' then tl s else s);
          (ip, r) = scanDigits 0 t;
          u = (if hasPrefix r ''.'' then tl r else []);
          (fp, r2) = (if hasPrefix r ''.'' then scanDigits 0 u else (0, r));
          n1 = length t - length r; n2 = (if hasPrefix r ''.'' then length u - length r2 else 0);
          v = (of_nat ip * 10 ^ n2 + of_nat fp) / 10 ^ n2 :: rat
      in if n1 + n2 = 0 \<or> r2 \<noteq> [] then None else Some (fl64 (if neg then - v else v)))"

lemma digitVal_zero [simp]: "digitVal (CHR ''0'') = Some 0" and digitVal_dot [simp]: "digitVal (CHR ''.'') = None"
  by (simp_all add: digitVal_def)

lemma scanDigits_zeros: "scanDigits 0 (replicate m (CHR ''0'') @ s) = scanDigits 0 s"
  by (induction m) simp_all

lemma showNat_two: "k < 100 \<Longrightarrow> length (showNat k) \<le> 2"
  by (subst showNat.simps, subst showNat.simps) auto

lemma padLeft_two: "k < 100 \<Longrightarrow> length (padLeft 2 (showNat k)) = 2"
  using showNat_two by (simp add: padLeft_def)

lemma hasPrefix_digit:
  "digitVal c = None \<Longrightarrow> \<not> hasPrefix (showNat n @ s) [c]"
  using showNat_hd [of n] by (cases "showNat n") (auto simp: hasPrefix_def)

text \<open>A confidence survives being written with two decimals up to the rounding of that text.\<close>

lemma parseFloat_fmtFixed:
  assumes "0 \<le> q"
  shows "parseFloat (fmtFixed 2 q) = Some (fl64 (of_int (roundHalfEven (q * 100)) / 100))"
proof -
  define k where "k = nat (roundHalfEven (q * 100))"
  have k: "of_int (roundHalfEven (q * 100)) = (of_nat k :: rat)"
    using roundHalfEven_ge [of 0 "q * 100"] assms by (simp add: k_def)
  let ?u = "padLeft 2 (showNat (k mod 100))"
  let ?s = "showNat (k div 100) @ ''.'' @ ?u"
  have s: "fmtFixed 2 q = ?s"
    using assms by (simp add: fmtFixed_def fmtFixedPos_def k_def Let_def)
  have u: "scanDigits 0 ?u = (k mod 100, [])" "length ?u = 2"
    using scanDigits_stop [of "[]" "k mod 100"] padLeft_two [of "k mod 100"]
    by (simp_all add: padLeft_def scanDigits_zeros)
  have ip: "scanDigits 0 ?s = (k div 100, ''.'' @ ?u)" by (rule scanDigits_stop) simp
  have dot: "hasPrefix (''.'' @ ?u) ''.''" by (simp add: hasPrefix_def)
  have "of_nat k = (of_nat (k div 100) * 100 + of_nat (k mod 100) :: rat)"
    by (metis div_mult_mod_eq of_nat_add of_nat_mult of_nat_numeral)
  moreover have "\<not> hasPrefix ?s ''-''" "\<not> hasPrefix ?s ''+''" by (rule hasPrefix_digit, simp)+
  ultimately show ?thesis
    unfolding s parseFloat_def Let_def using ip dot u by (simp add: k)
qed

end
