(* ===== verification/Safety.thy ===== *)
theory Safety
  imports System Float64
begin

text \<open>
  The guardrails every proposal passes (\<^verbatim>\<open>internal/remediation/safety.go\<close>): rate limit,
  concurrency, failure cooldown, blast radius and namespace deny list. The cluster reads
  (\<^verbatim>\<open>client.List\<close>) and \<^verbatim>\<open>resource.ParseQuantity\<close> are fields of the checker.
\<close>

definition DefaultMaxRemediationsPerHour :: int where
  "DefaultMaxRemediationsPerHour = 5"

definition FailedCooldown :: duration where
  "FailedCooldown = 30 * minute"

definition MaxBlastRadiusMultiplier :: rat where
  "MaxBlastRadiusMultiplier = 2"

definition MaxResourceDecrease :: rat where
  "MaxResourceDecrease = 1 / 2"

abbreviation "RuleDenyList \<equiv> ''deny-list''"
abbreviation "defaultDenyKubeSystem \<equiv> ''kube-system''"
abbreviation "conditionApplied \<equiv> ''Applied''"

record BlastRadiusViolation =
  bv_field :: string
  bv_baseline :: string
  bv_requested :: string
  bv_ratio :: rat
  bv_maxRatio :: rat

record SafetyViolation =
  sv_rule :: string
  sv_message :: string
  sv_blastRadius :: "BlastRadiusViolation option"

record SafetyResult =
  sr_allowed :: bool
  sr_violations :: "SafetyViolation list"

record 'w SafetyCheckerImpl =
  sc_listClusterPersonas :: "'w \<Rightarrow> goerr + ClusterPersona list"
  sc_listActions :: "'w \<Rightarrow> (string \<times> string) list \<Rightarrow> string option \<Rightarrow> goerr + RemediationAction list"
  sc_parseQuantity :: "string \<Rightarrow> Quantity option"
  sc_protected :: "string list"

definition violation :: "string \<Rightarrow> string \<Rightarrow> SafetyViolation" where
  "violation rule message = \<lparr>sv_rule = rule, sv_message = message, sv_blastRadius = None\<rparr>"

subsection \<open>Construction\<close>

definition WithProtectedNamespaces :: "string list \<Rightarrow> 'w SafetyCheckerImpl \<Rightarrow> 'w SafetyCheckerImpl" where
  "WithProtectedNamespaces namespaces s =
     s\<lparr>sc_protected := fold (\<lambda>ns prot. if ns \<noteq> [] \<and> ns \<notin> set prot then prot @ [ns] else prot)
        namespaces (sc_protected s)\<rparr>"

definition NewSafetyChecker ::
  "('w \<Rightarrow> goerr + ClusterPersona list) \<Rightarrow>
   ('w \<Rightarrow> (string \<times> string) list \<Rightarrow> string option \<Rightarrow> goerr + RemediationAction list) \<Rightarrow>
   (string \<Rightarrow> Quantity option) \<Rightarrow> ('w SafetyCheckerImpl \<Rightarrow> 'w SafetyCheckerImpl) list \<Rightarrow> 'w SafetyCheckerImpl" where
  "NewSafetyChecker listCP listRA parseQ opts =
     fold (\<lambda>opt s. opt s) opts
       \<lparr>sc_listClusterPersonas = listCP, sc_listActions = listRA, sc_parseQuantity = parseQ,
        sc_protected = [defaultDenyKubeSystem]\<rparr>"

subsection \<open>Reads\<close>

fun maxLoop :: "ClusterPersona list \<Rightarrow> int" where
  "maxLoop [] = DefaultMaxRemediationsPerHour"
| "maxLoop (cp # cps) =
     (case cp_selfHealing cp of
        Some sh \<Rightarrow> if 0 < sh_maxRemediationsPerHour sh then sh_maxRemediationsPerHour sh else maxLoop cps
      | None \<Rightarrow> maxLoop cps)"

definition getMaxRemediationsPerHour :: "'w SafetyCheckerImpl \<Rightarrow> 'w \<Rightarrow> int" where
  "getMaxRemediationsPerHour s w =
     (case sc_listClusterPersonas s w of
        Inl _ \<Rightarrow> DefaultMaxRemediationsPerHour
      | Inr cps \<Rightarrow> maxLoop cps)"

definition getExcludedNamespaces :: "'w SafetyCheckerImpl \<Rightarrow> 'w \<Rightarrow> goerr + string list" where
  "getExcludedNamespaces s w =
     (case sc_listClusterPersonas s w of
        Inl e \<Rightarrow> Inl (Wrap ''listing ClusterPersonas'' e)
      | Inr cps \<Rightarrow> Inr (concat (map (\<lambda>cp. case cp_selfHealing cp of
                                        Some sh \<Rightarrow> sh_excludeNamespaces sh | None \<Rightarrow> []) cps)))"

definition listPersonaActions ::
  "'w SafetyCheckerImpl \<Rightarrow> 'w \<Rightarrow> RemediationAction \<Rightarrow> goerr + RemediationAction list" where
  "listPersonaActions s w action =
     (let ref = sp_personaRef (ra_spec action);
          selector = [(''dorgu.io/persona-kind'', pr_kind ref), (''dorgu.io/persona-name'', pr_name ref)];
          inNamespace = (if pr_namespace ref \<noteq> [] then Some (pr_namespace ref) else None)
      in case sc_listActions s w selector inNamespace of
           Inl e \<Rightarrow> Inl (Wrap ''listing RemediationActions'' e)
         | Inr items \<Rightarrow> Inr items)"

definition listRecentActions ::
  "'w SafetyCheckerImpl \<Rightarrow> time \<Rightarrow> 'w \<Rightarrow> RemediationAction \<Rightarrow> duration \<Rightarrow> goerr + RemediationAction list" where
  "listRecentActions s now w action window =
     (case listPersonaActions s w action of
        Inl e \<Rightarrow> Inl e
      | Inr allActions \<Rightarrow> Inr (filter (\<lambda>a. now - window < ra_creationTimestamp a) allActions))"

subsection \<open>Rate limit, concurrency, cooldown\<close>

definition personaText :: "RemediationAction \<Rightarrow> string" where
  "personaText action =
     pr_namespace (sp_personaRef (ra_spec action)) @ ''/'' @ pr_name (sp_personaRef (ra_spec action))"

definition checkRateLimit ::
  "'w SafetyCheckerImpl \<Rightarrow> time \<Rightarrow> 'w \<Rightarrow> RemediationAction \<Rightarrow> goerr + SafetyViolation option" where
  "checkRateLimit s now w action =
     (let maxPerHour = getMaxRemediationsPerHour s w in
      case listRecentActions s now w action (1 * hour) of
        Inl e \<Rightarrow> Inl e
      | Inr existing \<Rightarrow>
          Inr (if maxPerHour \<le> int (length existing) then
                 Some (violation ''rate-limit''
                   (''rate limit exceeded: '' @ showInt (int (length existing)) @
                    '' remediations for persona '' @ personaText action @
                    '' in last hour (max '' @ showInt maxPerHour @ '')''))
               else None))"

fun concurrentLoop :: "RemediationAction \<Rightarrow> RemediationAction list \<Rightarrow> SafetyViolation option" where
  "concurrentLoop action [] = None"
| "concurrentLoop action (a # as) =
     (if ra_phase a = Approved \<or> ra_phase a = Applying \<or> ra_phase a = Verifying then
        Some (violation ''concurrent''
          (''concurrent remediation '' @ ra_name a @ '' is in phase '' @ phase_str (ra_phase a) @
           '' for persona '' @ personaText action))
      else concurrentLoop action as)"

definition checkConcurrent ::
  "'w SafetyCheckerImpl \<Rightarrow> 'w \<Rightarrow> RemediationAction \<Rightarrow> goerr + SafetyViolation option" where
  "checkConcurrent s w action =
     (case listPersonaActions s w action of
        Inl e \<Rightarrow> Inl e
      | Inr actionList \<Rightarrow> Inr (concurrentLoop action actionList))"

definition rejectedBeforeApply :: "RemediationAction \<Rightarrow> bool" where
  "rejectedBeforeApply action =
     (if rs_appliedAt (ra_status action) \<noteq> None then False
      else list_ex (\<lambda>c. c_type c = conditionApplied \<and> c_reason c = ReasonPreconditionRejected)
             (ra_conditions action))"

fun cooldownLoop :: "time \<Rightarrow> RemediationAction \<Rightarrow> RemediationAction list \<Rightarrow> SafetyViolation option" where
  "cooldownLoop now action [] = None"
| "cooldownLoop now action (a # as) =
     (if ra_phase a \<noteq> Failed then cooldownLoop now action as
      else if rejectedBeforeApply a then cooldownLoop now action as
      else let failedAt = (case rs_appliedAt (ra_status a) of
                             Some t \<Rightarrow> t | None \<Rightarrow> ra_creationTimestamp a)
        in if timeSub now failedAt < FailedCooldown then
             Some (violation ''rate-limit''
               (''failed remediation '' @ ra_name a @ '' within 30m0s cooldown period for persona '' @
                personaText action))
           else cooldownLoop now action as)"

definition checkFailedCooldown ::
  "'w SafetyCheckerImpl \<Rightarrow> time \<Rightarrow> 'w \<Rightarrow> RemediationAction \<Rightarrow> goerr + SafetyViolation option" where
  "checkFailedCooldown s now w action =
     (case listPersonaActions s w action of
        Inl e \<Rightarrow> Inl e
      | Inr actionList \<Rightarrow> Inr (cooldownLoop now action actionList))"

subsection \<open>Blast radius\<close>

text \<open>
  \<^verbatim>\<open>extractResources\<close> visits the string leaves of the patch; a leaf that parses as a quantity
  is recorded under its dotted path.
\<close>

definition recordQuantity ::
  "(string \<Rightarrow> Quantity option) \<Rightarrow> string \<times> json \<Rightarrow> (string \<times> Quantity) list \<Rightarrow> (string \<times> Quantity) list" where
  "recordQuantity parseQ leaf result =
     (case snd leaf of
        JStr v \<Rightarrow> (case parseQ v of Some q \<Rightarrow> AList.update (fst leaf) q result | None \<Rightarrow> result)
      | _ \<Rightarrow> result)"

definition extractResources ::
  "(string \<Rightarrow> Quantity option) \<Rightarrow> jmap \<Rightarrow> string \<Rightarrow> (string \<times> Quantity) list \<Rightarrow> (string \<times> Quantity) list" where
  "extractResources parseQ obj pre result = fold (recordQuantity parseQ) (walkLeaves pre obj) result"

definition parseResourcePatch ::
  "(string \<Rightarrow> Quantity option) \<Rightarrow> raw \<Rightarrow> goerr + (string \<times> Quantity) list" where
  "parseResourcePatch parseQ r =
     (case unmarshalMap r of
        None \<Rightarrow> Inl (Wrap ''unmarshalling patch'' (unmarshalErr r))
      | Some patch \<Rightarrow> Inr (extractResources parseQ patch [] []))"

definition fieldViolation :: "string \<Rightarrow> Quantity \<Rightarrow> Quantity \<Rightarrow> SafetyViolation option" where
  "fieldViolation field newVal oldVal =
     (let newQty = q_approx newVal; oldQty = q_approx oldVal;
          ratio = fdiv newQty oldQty;
          detail = \<lparr>bv_field = field, bv_baseline = q_string oldVal, bv_requested = q_string newVal,
                    bv_ratio = ratio, bv_maxRatio = MaxBlastRadiusMultiplier\<rparr>;
          report = (\<lambda>msg. Some \<lparr>sv_rule = ''blast-radius'', sv_message = msg, sv_blastRadius = Some detail\<rparr>)
      in if MaxBlastRadiusMultiplier < ratio then
           report (''resource change for '' @ field @ '' exceeds maximum: '' @ fmtFixed 1 ratio @
                   ''x increase (max '' @ fmtFixed 1 MaxBlastRadiusMultiplier @ ''x)'')
         else if ratio < MaxResourceDecrease then
           report (''resource change for '' @ field @ '' exceeds maximum: '' @
                   fmtFixed 0 (fmul (fsub 1 ratio) 100) @ ''% decrease (max '' @
                   fmtFixed 0 (MaxResourceDecrease * 100) @ ''%)'')
         else if newQty \<le> 0 then
           report (''resource value for '' @ field @ '' must be positive, got '' @ q_string newVal)
         else None)"

fun blastLoop ::
  "(string \<times> Quantity) list \<Rightarrow> (string \<times> Quantity) list \<Rightarrow> string list \<Rightarrow> SafetyViolation list" where
  "blastLoop patchValues prePatchValues [] = []"
| "blastLoop patchValues prePatchValues (field # fs) =
     (case (map_of patchValues field, map_of prePatchValues field) of
        (Some newVal, Some oldVal) \<Rightarrow>
          (if q_isZero oldVal \<or> q_approx oldVal \<le> 0 then []
           else (case fieldViolation field newVal oldVal of Some v \<Rightarrow> [v] | None \<Rightarrow> []))
      | _ \<Rightarrow> []) @ blastLoop patchValues prePatchValues fs"

definition checkBlastRadius :: "'w SafetyCheckerImpl \<Rightarrow> RemediationAction \<Rightarrow> SafetyViolation list" where
  "checkBlastRadius s action =
     (let detail = sp_action (ra_spec action) in
      if ad_type detail \<noteq> ''persona-update'' then []
      else (case (ad_patch detail, ad_prePatchState detail) of
              (Some patch, Some pre) \<Rightarrow>
                (case parseResourcePatch (sc_parseQuantity s) patch of
                   Inl _ \<Rightarrow> []
                 | Inr patchValues \<Rightarrow>
                     (case parseResourcePatch (sc_parseQuantity s) pre of
                        Inl _ \<Rightarrow> []
                      | Inr prePatchValues \<Rightarrow>
                          blastLoop patchValues prePatchValues (sort (map fst patchValues))))
            | _ \<Rightarrow> []))"

subsection \<open>Deny list\<close>

definition NamespaceDenied ::
  "'w SafetyCheckerImpl option \<Rightarrow> 'w \<Rightarrow> string \<Rightarrow> SafetyViolation option" where
  "NamespaceDenied checker w ns =
     (case checker of
        None \<Rightarrow> Some (violation RuleDenyList
                  ''no deny list is configured, so the namespace cannot be cleared'')
      | Some s \<Rightarrow>
          (if ns = [] then
             Some (violation RuleDenyList
               ''namespace could not be determined, so the deny list cannot clear it'')
           else if ns \<in> set (sc_protected s) then
             Some (violation RuleDenyList (''namespace '' @ ns @ '' is in the protected deny list''))
           else (case getExcludedNamespaces s w of
                   Inl _ \<Rightarrow>
                     Some (violation RuleDenyList
                       (''namespace '' @ ns @
                        '': deny-list could not be read, treating namespace as protected''))
                 | Inr excludedNamespaces \<Rightarrow>
                     (if ns \<in> set excludedNamespaces then
                        Some (violation RuleDenyList
                          (''namespace '' @ ns @ '' is excluded by ClusterPersona policy''))
                      else None))))"

definition NamespaceProtected :: "'w SafetyCheckerImpl option \<Rightarrow> 'w \<Rightarrow> string \<Rightarrow> bool" where
  "NamespaceProtected checker w ns = (NamespaceDenied checker w ns \<noteq> None)"

definition checkDenyList :: "'w SafetyCheckerImpl \<Rightarrow> 'w \<Rightarrow> RemediationAction \<Rightarrow> SafetyViolation option" where
  "checkDenyList s w action =
     (let refNs = pr_namespace (sp_personaRef (ra_spec action));
          targetNamespace = (if refNs = [] then ra_namespace action else refNs)
      in NamespaceDenied (Some s) w targetNamespace)"

subsection \<open>All guardrails\<close>

definition Check ::
  "'w SafetyCheckerImpl \<Rightarrow> time \<Rightarrow> 'w \<Rightarrow> RemediationAction \<Rightarrow> goerr + SafetyResult" where
  "Check s now w action =
     (case checkRateLimit s now w action of
        Inl e \<Rightarrow> Inl (Wrap ''checking rate limit'' e)
      | Inr v1 \<Rightarrow>
          (case checkConcurrent s w action of
             Inl e \<Rightarrow> Inl (Wrap ''checking concurrent'' e)
           | Inr v2 \<Rightarrow>
               (case checkFailedCooldown s now w action of
                  Inl e \<Rightarrow> Inl (Wrap ''checking failed cooldown'' e)
                | Inr v3 \<Rightarrow>
                    (let opt = (\<lambda>v. case v of Some x \<Rightarrow> [x] | None \<Rightarrow> []);
                         violations = opt v1 @ opt v2 @ opt v3 @ checkBlastRadius s action @
                                      opt (checkDenyList s w action)
                     in Inr \<lparr>sr_allowed = (violations = []), sr_violations = violations\<rparr>))))"

subsection \<open>Laws of the guardrails\<close>

abbreviation active_phases :: "phase set" where
  "active_phases \<equiv> {Approved, Applying, Verifying}"

definition failureTime :: "RemediationAction \<Rightarrow> time" where
  "failureTime a = (case rs_appliedAt (ra_status a) of Some t \<Rightarrow> t | None \<Rightarrow> ra_creationTimestamp a)"

definition counts_as_failure :: "time \<Rightarrow> RemediationAction \<Rightarrow> bool" where
  "counts_as_failure now a =
     (ra_phase a = Failed \<and> \<not> rejectedBeforeApply a \<and> timeSub now (failureTime a) < FailedCooldown)"

lemma concurrentLoop_None: "concurrentLoop a as = None \<longleftrightarrow> (\<forall>b \<in> set as. ra_phase b \<notin> active_phases)"
  by (induction as) auto

lemma cooldownLoop_Cons:
  "cooldownLoop now a (b # bs) =
     (if counts_as_failure now b then
        Some (violation ''rate-limit''
          (''failed remediation '' @ ra_name b @ '' within 30m0s cooldown period for persona '' @ personaText a))
      else cooldownLoop now a bs)"
  by (simp add: counts_as_failure_def failureTime_def Let_def)

lemma cooldownLoop_None: "cooldownLoop now a as = None \<longleftrightarrow> (\<forall>b \<in> set as. \<not> counts_as_failure now b)"
  by (induction as) (simp_all add: cooldownLoop_Cons del: cooldownLoop.simps(2))

lemma NamespaceDenied_None:
  "NamespaceDenied (Some s) w ns = None \<longleftrightarrow>
     ns \<noteq> [] \<and> ns \<notin> set (sc_protected s) \<and>
     (\<exists>cps. sc_listClusterPersonas s w = Inr cps \<and>
        (\<forall>cp \<in> set cps. \<forall>sh. cp_selfHealing cp = Some sh \<longrightarrow> ns \<notin> set (sh_excludeNamespaces sh)))"
  by (auto simp: NamespaceDenied_def getExcludedNamespaces_def split: sum.splits option.splits) metis

text \<open>
  C5. All guardrails, none skipped. When the check completes, the proposal is allowed exactly if
  the persona's actions could be listed and fewer than the hourly maximum of them are younger
  than an hour, none of them is Approved, Applying or Verifying, none of them failed within the
  cooldown (plans refused before anything was applied aside), the change stays within the blast
  radius, and the target namespace is cleared by the deny list.
\<close>

theorem check_allows_iff_all_guards:
  assumes "Check s now w a = Inr res"
  shows "(sr_allowed res \<longleftrightarrow> sr_violations res = []) \<and>
    (sr_allowed res \<longleftrightarrow>
      (\<exists>acts. listPersonaActions s w a = Inr acts \<and>
        int (length (filter (\<lambda>b. now - hour < ra_creationTimestamp b) acts)) < getMaxRemediationsPerHour s w \<and>
        (\<forall>b \<in> set acts. ra_phase b \<notin> active_phases) \<and>
        (\<forall>b \<in> set acts. \<not> counts_as_failure now b)) \<and>
      checkBlastRadius s a = [] \<and> checkDenyList s w a = None)"
proof (cases "listPersonaActions s w a")
  case (Inl e)
  with assms show ?thesis by (simp add: Check_def checkRateLimit_def listRecentActions_def Let_def)
next
  case (Inr acts)
  define v1 where "v1 = checkRateLimit s now w a"
  have v1: "\<exists>x. v1 = Inr x \<and> (x = None \<longleftrightarrow>
      int (length (filter (\<lambda>b. now - hour < ra_creationTimestamp b) acts)) < getMaxRemediationsPerHour s w)"
    unfolding v1_def checkRateLimit_def listRecentActions_def Inr Let_def by auto
  have v2: "checkConcurrent s w a = Inr (concurrentLoop a acts)"
    and v3: "checkFailedCooldown s now w a = Inr (cooldownLoop now a acts)"
    by (simp_all add: checkConcurrent_def checkFailedCooldown_def Inr)
  from v1 obtain x where x: "checkRateLimit s now w a = Inr x"
    "x = None \<longleftrightarrow> int (length (filter (\<lambda>b. now - hour < ra_creationTimestamp b) acts)) < getMaxRemediationsPerHour s w"
    unfolding v1_def by blast
  have res: "(sr_allowed res \<longleftrightarrow> sr_violations res = []) \<and> (sr_violations res = [] \<longleftrightarrow> x = None \<and>
      concurrentLoop a acts = None \<and> cooldownLoop now a acts = None \<and> checkBlastRadius s a = [] \<and>
      checkDenyList s w a = None)"
    using assms unfolding Check_def x(1) v2 v3 Let_def by (auto split: option.splits)
  show ?thesis unfolding Inr using res x(2) concurrentLoop_None cooldownLoop_None by auto
qed

subsection \<open>Blast radius bounds\<close>

lemma fieldViolation_None:
  assumes "0 < q_approx old"
  shows "fieldViolation f new old = None \<longleftrightarrow>
    1 / 2 \<le> fdiv (q_approx new) (q_approx old) \<and> fdiv (q_approx new) (q_approx old) \<le> 2 \<and> 0 < q_approx new"
  unfolding fieldViolation_def Let_def MaxBlastRadiusMultiplier_def MaxResourceDecrease_def by auto

lemma fdiv_in_range:
  assumes "0 < o'" "1 / 2 \<le> n / o'" "n / o' \<le> 2"
  shows "1 / 2 \<le> fdiv n o' \<and> fdiv n o' \<le> 2 \<and> 0 < n"
proof -
  have x: "0 < n / o'" using assms(2) by linarith
  have "n / o' \<le> 2 powi 1" "2 powi (-1) \<le> n / o'" using assms(2,3) by (simp_all add: power_int_minus)
  then have "fl64 (n / o') \<le> 2 powi 1" "2 powi (-1) \<le> fl64 (n / o')"
    using fl64_le_powi [OF x] fl64_ge_powi [OF x] by blast+
  then show ?thesis using x assms(1) by (simp add: fdiv_def power_int_minus zero_less_divide_iff)
qed

lemma fdiv_range_sound:
  assumes "0 < o'" "1 / 2 \<le> fdiv n o'" "fdiv n o' \<le> 2"
  shows "0 < n \<and> 1 / 2 / (1 + 1 / 2 ^ 53) \<le> n / o' \<and> n / o' \<le> 2 / (1 - 1 / 2 ^ 53)"
proof -
  have pos: "0 < n / o'"
    using assms(2) fl64_nonpos [of "n / o'"] unfolding fdiv_def by linarith
  note err = fl64_error [OF pos]
  have "n / o' * (1 - 1 / 2 ^ 53) \<le> 2" "1 / 2 \<le> n / o' * (1 + 1 / 2 ^ 53)"
    using err assms(2,3) unfolding fdiv_def by (simp_all add: algebra_simps abs_le_iff)
  moreover have "(0 :: rat) < 1 - 1 / 2 ^ 53" "(0 :: rat) < 1 + 1 / 2 ^ 53" by simp_all
  ultimately have "n / o' \<le> 2 / (1 - 1 / 2 ^ 53)" "1 / 2 / (1 + 1 / 2 ^ 53) \<le> n / o'"
    using pos_le_divide_eq [of "1 - 1 / 2 ^ 53 :: rat" "n / o'" 2]
      pos_divide_le_eq [of "1 + 1 / 2 ^ 53 :: rat" "1 / 2" "n / o'"] by blast+
  with pos assms(1) show ?thesis by (simp add: zero_less_divide_iff)
qed

definition measured :: "(string \<times> Quantity) list \<Rightarrow> (string \<times> Quantity) list \<Rightarrow> string \<Rightarrow> Quantity \<Rightarrow> Quantity \<Rightarrow> bool" where
  "measured new old f n b =
     (map_of new f = Some n \<and> map_of old f = Some b \<and> \<not> q_isZero b \<and> 0 < q_approx b)"

lemma blastLoop_Nil:
  "blastLoop new old fs = [] \<longleftrightarrow>
     (\<forall>f \<in> set fs. \<forall>n b. measured new old f n b \<longrightarrow> fieldViolation f n b = None)"
proof (induction fs)
  case (Cons f fs)
  have "(case (map_of new f, map_of old f) of
        (Some newVal, Some oldVal) \<Rightarrow>
          (if q_isZero oldVal \<or> q_approx oldVal \<le> 0 then []
           else (case fieldViolation f newVal oldVal of Some v \<Rightarrow> [v] | None \<Rightarrow> []))
      | _ \<Rightarrow> []) = [] \<longleftrightarrow> (\<forall>n b. measured new old f n b \<longrightarrow> fieldViolation f n b = None)"
    by (auto simp: measured_def not_le split: option.splits)
  with Cons show ?case by simp
qed simp

lemma checkBlastRadius_Nil:
  assumes "ad_type (sp_action (ra_spec a)) = ''persona-update''"
    and "ad_patch (sp_action (ra_spec a)) = Some P" "ad_prePatchState (sp_action (ra_spec a)) = Some S"
    and "parseResourcePatch (sc_parseQuantity s) P = Inr new" "parseResourcePatch (sc_parseQuantity s) S = Inr old"
  shows "checkBlastRadius s a = [] \<longleftrightarrow>
    (\<forall>f n b. measured new old f n b \<longrightarrow> fieldViolation f n b = None)"
proof -
  have "checkBlastRadius s a = blastLoop new old (sort (map fst new))"
    using assms by (simp add: checkBlastRadius_def)
  moreover have "f \<in> set (sort (map fst new))" if "measured new old f n b" for f n b
    using that by (auto simp: measured_def dom_map_of_conv_image_fst [symmetric])
  ultimately show ?thesis by (metis blastLoop_Nil)
qed

text \<open>
  C17. The blast radius, in floating point. For a persona update whose patch and snapshot parse,
  a passed check means that every resource with a positive baseline gets a positive value that
  is at least half and at most twice the baseline, up to one part in 2 to the 53; and every
  change that lies exactly within these bounds passes. In particular a value of zero or less is
  always caught by the decrease cap.
\<close>

theorem blast_radius_bounds:
  assumes "ad_type (sp_action (ra_spec a)) = ''persona-update''"
    and "ad_patch (sp_action (ra_spec a)) = Some P" "ad_prePatchState (sp_action (ra_spec a)) = Some S"
    and "parseResourcePatch (sc_parseQuantity s) P = Inr new" "parseResourcePatch (sc_parseQuantity s) S = Inr old"
  shows "(checkBlastRadius s a = [] \<longrightarrow>
      (\<forall>f n b. measured new old f n b \<longrightarrow> 0 < q_approx n \<and>
         1 / 2 / (1 + 1 / 2 ^ 53) \<le> q_approx n / q_approx b \<and> q_approx n / q_approx b \<le> 2 / (1 - 1 / 2 ^ 53))) \<and>
    ((\<forall>f n b. measured new old f n b \<longrightarrow>
         1 / 2 \<le> q_approx n / q_approx b \<and> q_approx n / q_approx b \<le> 2) \<longrightarrow> checkBlastRadius s a = [])"
proof -
  have pos: "0 < q_approx b" if "measured new old f n b" for f n b
    using that by (simp add: measured_def)
  show ?thesis
    unfolding checkBlastRadius_Nil [OF assms]
    using fieldViolation_None [OF pos] fdiv_range_sound [OF pos] fdiv_in_range [OF pos] by blast
qed

subsection \<open>Deny list\<close>

lemma protected_fold:
  "set (fold (\<lambda>ns prot. if ns \<noteq> [] \<and> ns \<notin> set prot then prot @ [ns] else prot) nss prot) =
     set prot \<union> (set nss - {[]})"
  by (induction nss arbitrary: prot) auto

lemma WithProtected_protected:
  "set (sc_protected (WithProtectedNamespaces nss s)) = set (sc_protected s) \<union> (set nss - {[]})"
  by (simp add: WithProtectedNamespaces_def protected_fold)

lemma options_protected:
  "set (sc_protected (fold (\<lambda>opt s. opt s) (map WithProtectedNamespaces nsss) s)) =
     set (sc_protected s) \<union> (\<Union> (set ` set nsss) - {[]})"
  by (induction nsss arbitrary: s) (auto simp: WithProtected_protected)

lemma options_refuse:
  assumes "ns = ''kube-system'' \<or> (\<exists>nss \<in> set nsss. ns \<in> set nss)"
  shows "NamespaceProtected (Some (NewSafetyChecker lcp lra pq (map WithProtectedNamespaces nsss))) w ns"
  using assms unfolding NamespaceProtected_def NamespaceDenied_None NewSafetyChecker_def options_protected
  by auto

lemma NamespaceDenied_rule: "NamespaceDenied c w ns = Some v \<Longrightarrow> sv_rule v = RuleDenyList"
  unfolding NamespaceDenied_def by (auto simp: violation_def split: option.splits sum.splits if_splits)

lemma Check_denied:
  assumes "Check s now w a = Inr res" "checkDenyList s w a = Some v"
  shows "\<not> sr_allowed res \<and> v \<in> set (sr_violations res)"
  using assms unfolding Check_def Let_def by (auto split: sum.splits)

interpretation dl: namespace_gate
  "NamespaceProtected (Some (NewSafetyChecker lcp lra pq (map WithProtectedNamespaces nsss)))"
  "insert ''kube-system'' (\<Union> (set ` set nsss))"
  for lcp lra pq nsss
proof
  show "NamespaceProtected (Some (NewSafetyChecker lcp lra pq (map WithProtectedNamespaces nsss))) w []" for w
    by (simp add: NamespaceProtected_def NamespaceDenied_def)
qed (rule options_refuse, blast)

text \<open>
  The deny list fails closed. A namespace is cleared exactly if it is known, not protected,
  the cluster policies could be read and none of them excludes it; with no checker nothing is
  cleared. A checker built with any options refuses kube-system and every protected namespace in
  every state of the cluster.
\<close>

theorem deny_list_fails_closed:
  "NamespaceProtected None w ns \<and>
   (\<not> NamespaceProtected (Some s) w ns \<longleftrightarrow>
      ns \<noteq> [] \<and> ns \<notin> set (sc_protected s) \<and>
      (\<exists>cps. sc_listClusterPersonas s w = Inr cps \<and>
         (\<forall>cp \<in> set cps. \<forall>sh. cp_selfHealing cp = Some sh \<longrightarrow> ns \<notin> set (sh_excludeNamespaces sh)))) \<and>
   (ns = ''kube-system'' \<or> (\<exists>nss \<in> set nsss. ns \<in> set nss) \<longrightarrow>
      NamespaceProtected (Some (NewSafetyChecker lcp lra pq (map WithProtectedNamespaces nsss))) w ns)"
proof -
  note options_refuse [of ns nsss lcp lra pq w]
  moreover have "NamespaceProtected None w ns" by (simp add: NamespaceProtected_def NamespaceDenied_def)
  ultimately show ?thesis unfolding NamespaceProtected_def NamespaceDenied_None by blast
qed

subsection \<open>Failures and the cooldown\<close>

lemma setCondition_reason:
  "\<exists>c \<in> set (setCondition now ct st rs m cs). c_type c = ct \<and> c_reason c = rs"
  by (induction cs) auto

lemma cooldownLoop_skip:
  "\<not> counts_as_failure now b \<Longrightarrow> cooldownLoop now a (xs @ b # ys) = cooldownLoop now a (xs @ ys)"
  by (induction xs) (simp_all add: cooldownLoop_Cons del: cooldownLoop.simps(2))

lemma failed_action:
  "transitionToFailedWithReason r now w a cr m = (w', a', evs, res) \<Longrightarrow>
     a' = set_ra_condition now ConditionApplied CondFalse cr m (set_phase Failed a)"
  unfolding transitionToFailedWithReason_def by (rule settle_action)

text \<open>
  A plan the executor refused costs nothing. When an Approved action fails one of the
  executor's preconditions, the controller leaves it Failed in a way the safety checker
  recognises: at any later time, and whatever other actions the persona has, the cooldown verdict
  is the one without that action.
\<close>

theorem precondition_refusal_spares_cooldown:
  assumes "ra_phase a = Approved" "HasAutoApplicableChange (Some a)"
    and "rs_appliedAt (ra_status a) = None" "validatePreconditions a \<noteq> None"
    and "dispatch r now w a = (w', a', evs, res)"
  shows "ra_phase a' = Failed \<and> rejectedBeforeApply a' \<and>
    cooldownLoop later action (others @ a' # rest) = cooldownLoop later action (others @ rest)"
proof -
  obtain e where e: "validatePreconditions a = Some e" using assms(4) by blast
  from assms(5) have h: "transitionToFailedWithReason r now w a ReasonPreconditionRejected
      (err_text (PreconditionErr (err_text e)) @ ''; nothing was applied'') = (w', a', evs, res)"
    unfolding dispatch_def handleApproved_def Apply_precondition_iff [OF e] using assms(1,2) by simp
  note a' = failed_action [OF h]
  have ap: "rs_appliedAt (ra_status a') = None" "ra_phase a' = Failed"
    using assms(3) unfolding a' by simp_all
  have "\<exists>c \<in> set (ra_conditions a'). c_type c = ConditionApplied \<and> c_reason c = ReasonPreconditionRejected"
    unfolding a' by (simp only: ra_setters) (rule setCondition_reason)
  then have "rejectedBeforeApply a'" unfolding rejectedBeforeApply_def list_ex_iff using ap(1) by simp
  with ap show ?thesis by (simp add: cooldownLoop_skip counts_as_failure_def)
qed

text \<open>
  A late failure has no cooldown. The cooldown of an apply that failed before the patch was
  recorded as applied is measured from the action's creation. So when an action is approved half
  an hour or more after it was created and its apply then fails, the cooldown is over at the very
  moment of the failure and at any later one.
\<close>

theorem late_failure_has_no_cooldown:
  assumes "ra_phase a = Approved" "HasAutoApplicableChange (Some a)"
    and "rs_appliedAt (ra_status a) = None"
    and "Apply (rc_api r) w a = (v, Some e)"
    and "FailedCooldown \<le> timeSub now (ra_creationTimestamp a)"
    and "dispatch r now w a = (w', a', evs, res)" and "now \<le> later"
  shows "ra_phase a' = Failed \<and>
    cooldownLoop later action (others @ a' # rest) = cooldownLoop later action (others @ rest)"
proof -
  obtain cr m where h: "transitionToFailedWithReason r now v a cr m = (w', a', evs, res)"
    using assms(1,2,4,6) unfolding dispatch_def handleApproved_def transitionToFailed_def
    by (auto split: if_splits)
  note a' = failed_action [OF h]
  have "failureTime a' = ra_creationTimestamp a" "ra_phase a' = Failed"
    using assms(3) unfolding a' failureTime_def by simp_all
  moreover have "timeSub now (ra_creationTimestamp a) \<le> timeSub later (ra_creationTimestamp a)"
    using assms(7) by (rule timeSub_mono)
  ultimately show ?thesis using assms(5) by (simp add: cooldownLoop_skip counts_as_failure_def)
qed

end
