(* ===== verification/Grounding.thy ===== *)
theory Grounding
  imports Prose Safety
begin

text \<open>
  Grounding a plan in the live workload (\<^verbatim>\<open>internal/remediation/proposer_grounding.go\<close>): the
  observation a proposal starts from, the live value at a patched path, the pre-patch snapshot the
  guardrails measure against, and the removal of fields the workload does not set. The disclosure of
  a plan that sits at the blast-radius cap is \<^verbatim>\<open>blast_radius_notice.go\<close>, the scrub of guardrail
  claims that no verdict backs is \<^verbatim>\<open>fabricated_clamp.go\<close>.

  The cluster calls of the proposer are the record \<open>ProposerClient\<close>, which pairs a listed
  incident with the creation timestamp of its metadata; \<^verbatim>\<open>resource.Quantity\<close> is known
  through its parser, its comparisons, its sum and the rendering of byte and milli counts. A changed object
  is a returned object; a JSON object built in memory is encoded as it is.
\<close>

record 'w ProposerClient =
  pc_listClusterPersonas :: "'w \<Rightarrow> goerr + ClusterPersona list"
  pc_listActions :: "'w \<Rightarrow> string option \<Rightarrow> (string \<times> string) list \<Rightarrow> goerr + RemediationAction list"
  pc_listDeployments :: "'w \<Rightarrow> string \<Rightarrow> goerr + Deployment list"
  pc_getPersona :: "'w \<Rightarrow> objkey \<Rightarrow> goerr + ApplicationPersona"
  pc_getAction :: "'w \<Rightarrow> objkey \<Rightarrow> goerr + RemediationAction"
  pc_listIncidents :: "'w \<Rightarrow> string option \<Rightarrow> (string \<times> string) list \<Rightarrow> goerr + (time \<times> IncidentMemory) list"
  pc_create :: "'w \<Rightarrow> RemediationAction \<Rightarrow> 'w \<times> goerr option"
  pc_statusUpdate :: "'w \<Rightarrow> RemediationAction \<Rightarrow> 'w \<times> goerr option"

record QuantityOps =
  qo_parse :: "string \<Rightarrow> Quantity option"
  qo_equal :: "Quantity \<Rightarrow> Quantity \<Rightarrow> bool"
  qo_bytes :: "int \<Rightarrow> string"
  qo_milli :: "int \<Rightarrow> string"
  qo_cmp :: "Quantity \<Rightarrow> Quantity \<Rightarrow> int"
  qo_add :: "Quantity \<Rightarrow> Quantity \<Rightarrow> Quantity"

abbreviation "defaultNamespace \<equiv> ''default''"

subsection \<open>Observation\<close>

definition observeWorkload ::
  "'w ProposerClient \<Rightarrow> time \<Rightarrow> 'w \<Rightarrow> PersonaReference option \<Rightarrow> Observation option \<times> WorkloadRef" where
  "observeWorkload c now w ref =
     (case ref of
        None \<Rightarrow> (None, UnresolvedRef now)
      | Some r \<Rightarrow>
          (let namespace = (if pr_namespace r = [] then defaultNamespace else pr_namespace r)
           in case Observe (pc_listDeployments c) w namespace (pr_name r) of
                Inl _ \<Rightarrow> (None, UnresolvedRef now)
              | Inr None \<Rightarrow> (None, UnresolvedRef now)
              | Inr (Some obs) \<Rightarrow> (Some obs, Ref (Some obs) now)))"

definition observedValue :: "WorkloadRef option \<Rightarrow> string \<Rightarrow> string option" where
  "observedValue ref path =
     (if \<not> resolved ref then None
      else case wr_observedResources (the ref) of
             None \<Rightarrow> None
           | Some obs \<Rightarrow>
               (let (section', key) =
                      (if hasPrefix path pathPrefixLimits then (or_limits obs, trimPrefix path pathPrefixLimits)
                       else if hasPrefix path pathPrefixRequests then (or_requests obs, trimPrefix path pathPrefixRequests)
                       else (None, []));
                    present = (\<lambda>v. if v \<noteq> [] then Some v else None)
                in case section' of
                     None \<Rightarrow> None
                   | Some vals \<Rightarrow>
                       (if key = resourceKeyCPU then present (rv_cpu vals)
                        else if key = resourceKeyMemory then present (rv_memory vals) else None)))"

subsection \<open>Patches\<close>

fun mergeNestedPath :: "jmap \<Rightarrow> string list \<Rightarrow> string \<Rightarrow> jmap" where
  "mergeNestedPath node [] value = node"
| "mergeNestedPath node [seg] value = AList.update seg (JStr value) node"
| "mergeNestedPath node (seg # s # segs) value =
     (let child = (case map_of node seg of Some (JObj c) \<Rightarrow> c | _ \<Rightarrow> [])
      in AList.update seg (JObj (mergeNestedPath child (s # segs) value)) node)"

fun deleteNestedPath :: "jmap \<Rightarrow> string list \<Rightarrow> jmap" where
  "deleteNestedPath node [] = node"
| "deleteNestedPath node [seg] = AList.delete seg node"
| "deleteNestedPath node (seg # s # segs) =
     (case map_of node seg of
        Some (JObj child) \<Rightarrow>
          (let child' = deleteNestedPath child (s # segs)
           in if child' = [] then AList.delete seg node else AList.update seg (JObj child') node)
      | _ \<Rightarrow> node)"

definition prunePatchPaths :: "raw option \<Rightarrow> string list \<Rightarrow> raw option" where
  "prunePatchPaths patch paths =
     (case patch of
        None \<Rightarrow> None
      | Some r \<Rightarrow>
          (if \<not> rawNonEmpty r \<or> paths = [] then patch
           else case unmarshalMap r of
                  None \<Rightarrow> patch
                | Some m \<Rightarrow>
                    (let m' = fold (\<lambda>path node. deleteNestedPath node (splitDots path)) paths m
                     in if m' = [] then None else Some (RawJson (JObj m')))))"

definition groundedPrePatch :: "raw option \<Rightarrow> WorkloadRef option \<Rightarrow> raw option" where
  "groundedPrePatch patch ref =
     (case patch of
        None \<Rightarrow> None
      | Some r \<Rightarrow>
          (if \<not> rawNonEmpty r \<or> \<not> resolved ref then None
           else let paths = sort (remdups (filter (\<lambda>path. observedValue ref path \<noteq> None) (patchLeafPaths r)))
             in if paths = [] then None
                else Some (RawJson (JObj (fold (\<lambda>path snapshot.
                       mergeNestedPath snapshot (splitDots path) (the (observedValue ref path))) paths [])))))"

definition dropAbsentResourceKeys :: "raw option \<Rightarrow> WorkloadRef option \<Rightarrow> raw option \<times> string list" where
  "dropAbsentResourceKeys patch ref =
     (case patch of
        None \<Rightarrow> (None, [])
      | Some r \<Rightarrow>
          (if \<not> rawNonEmpty r \<or> \<not> resolved ref then (patch, [])
           else let dropped = sort (filter (\<lambda>path. isResourcePath path \<and> observedValue ref path = None)
                                (patchLeafPaths r))
             in if dropped = [] then (patch, []) else (prunePatchPaths patch dropped, dropped)))"

definition sectionOf :: "string \<Rightarrow> string" where
  "sectionOf path = (if hasPrefix path pathPrefixRequests then ''requests'' else ''limits'')"

definition pluralField :: "nat \<Rightarrow> string" where
  "pluralField n = (if n = 1 then ''it'' else ''them'')"

definition absentKeyNote :: "WorkloadRef \<Rightarrow> string list \<Rightarrow> string" where
  "absentKeyNote ref dropped =
     (let names = sort (map (\<lambda>path. afterLastDot path @ '' ('' @ sectionOf path @ '')'') dropped)
      in ''Left out '' @ humanFieldList names @ '': container '' @ quoteQ (wr_container ref) @ '' on '' @
         wr_name ref @ '' does not set '' @ pluralField (length names) @
         '' today, and introducing a resource field as a side effect of another fix changes how the workload is scheduled and throttled. Ask for it as its own change if you want it.'')"

text \<open>The copy of an action that the guardrails see, and the copy of one step's change.\<close>

definition groundedOr :: "raw option \<Rightarrow> WorkloadRef option \<Rightarrow> raw option \<Rightarrow> raw option" where
  "groundedOr patch ref pre = (case groundedPrePatch patch ref of Some g \<Rightarrow> Some g | None \<Rightarrow> pre)"

definition groundedSafetyProbe :: "RemediationAction \<Rightarrow> WorkloadRef option \<Rightarrow> RemediationAction" where
  "groundedSafetyProbe action ref =
     (if \<not> resolved ref then action
      else let sp = ra_spec action; detail = sp_action sp
        in action\<lparr>ra_spec := sp\<lparr>
             sp_action := detail\<lparr>ad_prePatchState := groundedOr (ad_patch detail) ref (ad_prePatchState detail)\<rparr>,
             sp_steps := map (\<lambda>s. s\<lparr>st_prePatchState := groundedOr (st_patch s) ref (st_prePatchState s)\<rparr>)
               (sp_steps sp)\<rparr>\<rparr>)"

subsection \<open>Disclosing the cap (blast\_radius\_notice.go)\<close>

definition ClampedConfidenceDamping :: rat where "ClampedConfidenceDamping = fl64 (85 / 100)"

text \<open>\<^verbatim>\<open>MaxBlastRadiusMultiplier-clampEpsilon\<close>, a constant expression.\<close>

definition clampThreshold :: rat where "clampThreshold = fl64 (2 - 1 / 10 ^ 9)"

definition fieldsAtBlastRadiusCap ::
  "(string \<Rightarrow> Quantity option) \<Rightarrow> raw option \<Rightarrow> raw option \<Rightarrow> string list" where
  "fieldsAtBlastRadiusCap parseQ patch prePatch =
     (case (patch, prePatch) of
        (Some p, Some pre) \<Rightarrow>
          (if \<not> rawNonEmpty p \<or> \<not> rawNonEmpty pre then []
           else case (parseResourcePatch parseQ p, parseResourcePatch parseQ pre) of
                  (Inr patchValues, Inr prePatchValues) \<Rightarrow>
                    sort (map fst (filter (\<lambda>(field, newVal).
                      case map_of prePatchValues field of
                        None \<Rightarrow> False
                      | Some oldVal \<Rightarrow> 0 < q_approx oldVal \<and>
                          clampThreshold \<le> fdiv (q_approx newVal) (q_approx oldVal)) patchValues))
                | _ \<Rightarrow> [])
      | _ \<Rightarrow> [])"

definition blastRadiusCaveat :: "string list \<Rightarrow> string" where
  "blastRadiusCaveat fs =
     ''Clamped by the '' @ fmtFixed 0 MaxBlastRadiusMultiplier @ ''x blast-radius guardrail: '' @ humanFieldList fs @
     '' could not be raised further in one step, so this may be insufficient and a second increase may be required.''"

definition dampConfidence :: "string \<Rightarrow> string" where
  "dampConfidence confidence =
     (case parseFloat confidence of
        None \<Rightarrow> confidence
      | Some parsed \<Rightarrow> fmtFixed 2 (fmul parsed ClampedConfidenceDamping))"

definition stepCapFields :: "(string \<Rightarrow> Quantity option) \<Rightarrow> RemediationStep \<Rightarrow> string list" where
  "stepCapFields parseQ s =
     (if \<not> st_autoExecutable s \<or> st_type s \<noteq> StepTypePersonaUpdate then []
      else fieldsAtBlastRadiusCap parseQ (st_patch s) (st_prePatchState s))"

definition discloseBlastRadiusClamp ::
  "(string \<Rightarrow> Quantity option) \<Rightarrow> RemediationAction \<Rightarrow> RemediationAction \<times> bool" where
  "discloseBlastRadiusClamp parseQ action =
     (let sp = ra_spec action;
          steps = map (\<lambda>s. case stepCapFields parseQ s of [] \<Rightarrow> s
                     | fs \<Rightarrow> s\<lparr>st_rationale := appendNote (st_rationale s) (blastRadiusCaveat fs)\<rparr>) (sp_steps sp);
          clamped = concat (map (stepCapFields parseQ) (sp_steps sp)) @
            fieldsAtBlastRadiusCap parseQ (ad_patch (sp_action sp)) (ad_prePatchState (sp_action sp));
          caveat = blastRadiusCaveat (sort (remdups clamped))
      in if clamped = [] then (action, False)
         else (action\<lparr>ra_spec := sp\<lparr>sp_steps := steps,
                 sp_explanation := appendNote (sp_explanation sp) caveat,
                 sp_planSummary := (if sp_planSummary sp \<noteq> [] then appendNote (sp_planSummary sp) caveat
                                    else sp_planSummary sp),
                 sp_confidence := dampConfidence (sp_confidence sp)\<rparr>\<rparr>, True))"

text \<open>The disclosure against the live values; the pre-patch states are put back afterwards.\<close>

definition discloseGroundedBlastRadiusClamp ::
  "(string \<Rightarrow> Quantity option) \<Rightarrow> RemediationAction \<Rightarrow> WorkloadRef option \<Rightarrow> RemediationAction \<times> bool" where
  "discloseGroundedBlastRadiusClamp parseQ action ref =
     (if \<not> resolved ref then discloseBlastRadiusClamp parseQ action
      else case discloseBlastRadiusClamp parseQ (groundedSafetyProbe action ref) of
             (a', disclosed) \<Rightarrow>
               (let sp = ra_spec a'; old = ra_spec action in
                (a'\<lparr>ra_spec := sp\<lparr>
                   sp_action := (sp_action sp)\<lparr>ad_prePatchState := ad_prePatchState (sp_action old)\<rparr>,
                   sp_steps := map2 (\<lambda>s o'. s\<lparr>st_prePatchState := st_prePatchState o'\<rparr>)
                     (sp_steps sp) (sp_steps old)\<rparr>\<rparr>, disclosed)))"

subsection \<open>Unsupported claims (fabricated\_clamp.go)\<close>

definition scrubFabricatedGuardrailClaims :: "RemediationAction \<Rightarrow> RemediationAction" where
  "scrubFabricatedGuardrailClaims action =
     (let sp = ra_spec action; scrub = fst \<circ> dropGuardrailClaims in
      if list_ex (\<lambda>s. st_safety s \<noteq> []) (sp_steps sp) then action
      else action\<lparr>ra_spec := sp\<lparr>
             sp_steps := map (\<lambda>s. s\<lparr>st_description := scrub (st_description s),
                                    st_rationale := scrub (st_rationale s)\<rparr>) (sp_steps sp),
             sp_planSummary := scrub (sp_planSummary sp),
             sp_explanation := scrub (sp_explanation sp)\<rparr>\<rparr>)"

end
