(* ===== verification/Refused.thy ===== *)
theory Refused
  imports Grounding
begin

text \<open>
  The last gates a plan passes before it is written: the values a guardrail refused are removed
  from every surface (\<^verbatim>\<open>refused_values.go\<close>), and a plan for a workload that somebody owns loses
  every command that writes it (\<^verbatim>\<open>proposer_ownership.go\<close>). The counts the Go functions return feed
  log lines only and are left out.
\<close>

abbreviation "ActionTypeNotification \<equiv> ''notification''"
abbreviation "PlanSourceAIAnthropic \<equiv> ''ai-anthropic''"
abbreviation "SafetyRuleBlastRadius \<equiv> ''blast-radius''"
abbreviation "SafetyRulePlanValidation \<equiv> ''plan-validation''"
abbreviation "SafetyRuleAbsentField \<equiv> ''absent-field''"
abbreviation "SafetyVerdictClamped \<equiv> ''clamped''"
abbreviation "SafetyVerdictRejected \<equiv> ''rejected''"
abbreviation "SafetyVerdictDerived \<equiv> ''derived''"

subsection \<open>Explaining a plan (proposer\_ai.go)\<close>

definition pluralSteps :: "nat \<Rightarrow> string" where
  "pluralSteps n = (if n = 1 then ''1 step'' else showInt (int n) @ '' steps'')"

definition planExplanation :: "RemediationStep list \<Rightarrow> string" where
  "planExplanation steps =
     (let auto = length (filter st_autoExecutable steps); advisory = length steps - auto in
      if length steps = 0 then ''AI remediation plan with no steps''
      else if auto = 0 then
        ''AI remediation plan: '' @ pluralSteps (length steps) @ '', all advisory (nothing is applied for you)''
      else if advisory = 0 then ''AI remediation plan: '' @ pluralSteps (length steps) @ '', applied on approval''
      else ''AI remediation plan: '' @ pluralSteps (length steps) @ '', '' @ showInt (int auto) @
        '' applied on approval and '' @ showInt (int advisory) @ '' advisory'')"

definition notificationDetail :: RemediationActionDetail where
  "notificationDetail = \<lparr>ad_type = ActionTypeNotification, ad_patch = None, ad_prePatchState = None\<rparr>"

subsection \<open>Refused values\<close>

record refusedValue =
  rf_field :: string
  rf_value :: string
  rf_quantity :: "Quantity option"

definition refusal :: "StepSafety \<Rightarrow> bool" where
  "refusal s =
     (ss_requested s \<noteq> [] \<and> ss_requested s \<noteq> ss_permitted s \<and>
      ss_verdict s \<in> {SafetyVerdictRejected, SafetyVerdictClamped})"

definition refusedValues :: "QuantityOps \<Rightarrow> RemediationAction \<Rightarrow> refusedValue list" where
  "refusedValues q action =
     (let entries = filter refusal (concat (map st_safety (sp_steps (ra_spec action))));
          keyOf = (\<lambda>s. ss_field s @ ''='' @ ss_requested s);
          kept = fold (\<lambda>s acc. if keyOf s \<in> set (map keyOf acc) then acc else acc @ [s]) entries []
      in map (\<lambda>s. \<lparr>rf_field = ss_field s, rf_value = ss_requested s, rf_quantity = qo_parse q (ss_requested s)\<rparr>) kept)"

text \<open>\<^verbatim>\<open>quantityTokens\<close>: the runs of letters, digits and dots that hold a digit and parse.\<close>

definition quantityTokens :: "QuantityOps \<Rightarrow> string \<Rightarrow> Quantity list" where
  "quantityTokens q t =
     map the (filter (\<lambda>x. x \<noteq> None) (map (qo_parse q)
       (filter (list_ex isDigit) (fieldsBy (\<lambda>c. \<not> isLetter c \<and> \<not> isDigit c \<and> c \<noteq> CHR ''.'') [] t))))"

definition mentionsRefusedValue :: "QuantityOps \<Rightarrow> string \<Rightarrow> refusedValue \<Rightarrow> bool" where
  "mentionsRefusedValue q t refused =
     (if rf_value refused = [] \<or> t = [] then False
      else if containsToken t (rf_value refused) then True
      else case rf_quantity refused of
             None \<Rightarrow> False
           | Some r \<Rightarrow> list_ex (\<lambda>x. qo_equal q x r) (quantityTokens q t))"

definition offersRefusedValue :: "QuantityOps \<Rightarrow> string \<Rightarrow> refusedValue list \<Rightarrow> bool" where
  "offersRefusedValue q command refused = list_ex (mentionsRefusedValue q command) refused"

definition sameResourceValue :: "QuantityOps \<Rightarrow> string \<Rightarrow> refusedValue \<Rightarrow> bool" where
  "sameResourceValue q actual refused =
     (if actual = rf_value refused then True
      else case rf_quantity refused of
             None \<Rightarrow> False
           | Some r \<Rightarrow> (case qo_parse q actual of None \<Rightarrow> False | Some x \<Rightarrow> qo_equal q x r))"

definition pruneRefusedLeaves :: "QuantityOps \<Rightarrow> raw option \<Rightarrow> refusedValue list \<Rightarrow> raw option \<times> bool" where
  "pruneRefusedLeaves q patch refused =
     (case patch of
        None \<Rightarrow> (None, False)
      | Some p \<Rightarrow>
          (if \<not> rawNonEmpty p then (patch, False)
           else let vals = patchLeafValues p;
                    paths = map rf_field (filter (\<lambda>r. case map_of vals (rf_field r) of
                        None \<Rightarrow> False | Some actual \<Rightarrow> sameResourceValue q actual r) refused)
             in if paths = [] then (patch, False) else (prunePatchPaths patch paths, True)))"

text \<open>
  \<^verbatim>\<open>maskProtected\<close>: the verdict messages found in the text, in order, each replaced by its token;
  the pairs put them back.
\<close>

definition maskToken :: "nat \<Rightarrow> string" where
  "maskToken i = [CHR 0x00] @ ''protected-'' @ [char_of (97 + i mod 26)] @ [CHR 0x00]"

fun maskLoop :: "nat \<Rightarrow> string list \<Rightarrow> string \<Rightarrow> string \<times> (string \<times> string) list" where
  "maskLoop i [] masked = (masked, [])"
| "maskLoop i (txt # txts) masked =
     (if txt = [] \<or> \<not> containsStr masked txt then maskLoop (Suc i) txts masked
      else case maskLoop (Suc i) txts (replaceAll masked txt (maskToken i)) of
             (m, reps) \<Rightarrow> (m, (maskToken i, txt) # reps))"

definition redactRefusedProse ::
  "QuantityOps \<Rightarrow> string \<Rightarrow> string list \<Rightarrow> refusedValue list \<Rightarrow> string" where
  "redactRefusedProse q t protected refused =
     (if trimSpace t = [] then t
      else case maskLoop 0 protected t of
             (masked, reps) \<Rightarrow>
               (let sentences = splitSentences masked;
                    mentions = (\<lambda>s. list_ex (mentionsRefusedValue q s) refused)
                in if \<not> list_ex mentions sentences then t
                   else trimSpace (replaceLoop 0 reps (joinWith '' '' (filter (\<lambda>s. \<not> mentions s) sentences)))))"

definition stepSafetyMessages :: "RemediationStep \<Rightarrow> string list" where
  "stepSafetyMessages s = filter (\<lambda>m. m \<noteq> []) (map ss_message (st_safety s))"

definition allSafetyMessages :: "RemediationAction \<Rightarrow> string list" where
  "allSafetyMessages action = concat (map stepSafetyMessages (sp_steps (ra_spec action)))"

definition droppedCommandNote :: string where
  "droppedCommandNote =
     ''Dorgu removed the command this step suggested: it carried a value a guardrail refused, '' @
     ''and pasting it would have applied exactly the change Dorgu declined to make. '' @
     ''The persona-update step above applies what the guardrails permit.''"

definition scrubStep :: "QuantityOps \<Rightarrow> refusedValue list \<Rightarrow> RemediationStep \<Rightarrow> RemediationStep" where
  "scrubStep q refused s =
     (let s1 = (case pruneRefusedLeaves q (st_patch s) refused of
                  (pruned, False) \<Rightarrow> s
                | (pruned, True) \<Rightarrow> s\<lparr>st_patch := pruned,
                    st_autoExecutable := (if pruned = None then False else st_autoExecutable s)\<rparr>);
          s2 = (if st_command s1 \<noteq> [] \<and> offersRefusedValue q (st_command s1) refused
                then s1\<lparr>st_command := [], st_description := appendNote (st_description s1) droppedCommandNote\<rparr>
                else s1);
          messages = stepSafetyMessages s2
      in s2\<lparr>st_description := redactRefusedProse q (st_description s2) messages refused,
            st_rationale := redactRefusedProse q (st_rationale s2) messages refused\<rparr>)"

definition scrubRefusedValues :: "QuantityOps \<Rightarrow> RemediationAction \<Rightarrow> RemediationAction" where
  "scrubRefusedValues q action =
     (let refused = refusedValues q action in
      if refused = [] then action
      else let sp = ra_spec action;
               was = planExplanation (sp_steps sp);
               steps = map (scrubStep q refused) (sp_steps sp);
               detail = (case pruneRefusedLeaves q (ad_patch (sp_action sp)) refused of
                           (pruned, False) \<Rightarrow> sp_action sp
                         | (None, True) \<Rightarrow> notificationDetail
                         | (Some p, True) \<Rightarrow> (sp_action sp)\<lparr>ad_patch := Some p\<rparr>);
               messages = concat (map stepSafetyMessages steps);
               summary = redactRefusedProse q (sp_planSummary sp) messages refused;
               explanation = redactRefusedProse q (sp_explanation sp) messages refused;
               after = planExplanation steps
        in action\<lparr>ra_spec := sp\<lparr>sp_steps := steps, sp_action := detail, sp_planSummary := summary,
             sp_explanation := (if after \<noteq> was \<and> hasPrefix explanation was
                                then after @ trimPrefix explanation was else explanation)\<rparr>\<rparr>)"

subsection \<open>Ownership shaping (proposer\_ownership.go)\<close>

definition proposedResourceChanges :: "RemediationAction \<Rightarrow> resourceChange list" where
  "proposedResourceChanges action =
     (let collect = (\<lambda>patch seen. case patch of
            None \<Rightarrow> seen
          | Some r \<Rightarrow>
              (if \<not> rawNonEmpty r then seen
               else fold (\<lambda>(path, value) m. if isResourcePath path
                      then AList.update (trimPrefix path ''spec.'') value m else m) (patchLeafValues r) seen));
          fromSteps = fold (\<lambda>s seen. if st_type s = StepTypePersonaUpdate then collect (st_patch s) seen else seen)
                        (sp_steps (ra_spec action)) [];
          seen = collect (ad_patch (sp_action (ra_spec action))) fromSteps
      in map (\<lambda>k. \<lparr>rch_key = k, rch_value = the (map_of seen k)\<rparr>) (sort (map fst seen)))"

definition shapesStep :: "RemediationStep \<Rightarrow> bool" where
  "shapesStep s = (st_type s \<noteq> StepTypePersonaUpdate \<and> writesWorkload (st_command s))"

text \<open>The receiver of the wording helpers: the zero reference stands for a nil one.\<close>

definition derefWorkload :: "WorkloadRef option \<Rightarrow> WorkloadRef" where
  "derefWorkload ref = (case ref of Some r \<Rightarrow> r | None \<Rightarrow>
     \<lparr>wr_kind = [], wr_name = [], wr_namespace = [], wr_container = [], wr_managedBy = [],
      wr_managedByDetail = [], wr_observedResources = None, wr_observedImage = [], wr_observedAt = None\<rparr>)"

definition applyOwnershipShaping :: "RemediationAction \<Rightarrow> WorkloadRef option \<Rightarrow> RemediationAction" where
  "applyOwnershipShaping action ref =
     (if \<not> IsOwned ref then action
      else let sp = ra_spec action; r = derefWorkload ref;
               changes = proposedResourceChanges action;
               reason = whyDorguWillNotPatch r;
               steps = map (\<lambda>s. if shapesStep s
                        then s\<lparr>st_command := [],
                               st_description := ownerInstruction r changes (st_description s),
                               st_rationale := appendNote (st_rationale s) reason\<rparr>
                        else s) (sp_steps sp)
        in action\<lparr>ra_spec := sp\<lparr>sp_steps := steps,
             sp_planSummary := (if list_ex shapesStep (sp_steps sp)
                                then appendNote (sp_planSummary sp) reason else sp_planSummary sp)\<rparr>\<rparr>)"

definition stripWorkloadWriteCommands :: "RemediationAction \<Rightarrow> WorkloadRef option \<Rightarrow> RemediationAction" where
  "stripWorkloadWriteCommands action ref =
     (if \<not> IsOwned ref then action
      else action\<lparr>ra_spec := (ra_spec action)\<lparr>sp_steps :=
             map (\<lambda>s. if writesWorkload (st_command s) then s\<lparr>st_command := []\<rparr> else s)
               (sp_steps (ra_spec action))\<rparr>\<rparr>)"

end
