(* ===== verification/Collectors.thy ===== *)
theory Collectors
  imports Divergence Float64
begin

text \<open>
  The collectors that read the cluster: pod failures (\<^verbatim>\<open>internal/detection/pod.go\<close>), node
  conditions (\<^verbatim>\<open>node.go\<close>) and request saturation (\<^verbatim>\<open>resource.go\<close>). A cluster read
  (\<^verbatim>\<open>client.List\<close>) is a parameter that returns objects or an error. Go maps are association
  lists in the order they are built.
\<close>

subsection \<open>Pods and nodes\<close>

record ContainerStateTerminated =
  tm_exitCode :: int
  tm_reason :: string
  tm_message :: string
  tm_finishedAt :: time

record ContainerStatus =
  cs_name :: string
  cs_image :: string
  cs_ready :: bool
  cs_restartCount :: int
  cs_waiting :: "(string \<times> string) option"
  cs_running :: bool
  cs_terminated :: "ContainerStateTerminated option"
  cs_lastTerminated :: "ContainerStateTerminated option"

record PodCondition =
  pc_type :: string
  pc_status :: string
  pc_ltt :: time

record Pod =
  po_name :: string
  po_namespace :: string
  po_labels :: "(string \<times> string) list"
  po_creationTimestamp :: time
  po_deletionTimestamp :: "time option"
  po_owners :: "(string \<times> string) list"
  po_nodeName :: string
  po_hostname :: string
  po_phase :: string
  po_reason :: string
  po_message :: string
  po_conditions :: "PodCondition list"
  po_containerStatuses :: "ContainerStatus list"
  po_initContainerStatuses :: "ContainerStatus list"
  po_containers :: "Container list"
  po_initContainers :: "Container list"

record Node =
  no_name :: string
  no_labels :: "(string \<times> string) list"
  no_conditions :: "PodCondition list"
  no_capacity :: "(string \<times> Quantity) list"
  no_allocatable :: "(string \<times> Quantity) list"
  no_kubeletVersion :: string
  no_containerRuntimeVersion :: string
  no_taints :: "(string \<times> string \<times> string) list"
  no_providerID :: string

text \<open>
  \<^verbatim>\<open>ResourceList\<close>: a missing entry reads as the zero quantity, through the map index and through the
  accessors \<^verbatim>\<open>Cpu()\<close>, \<^verbatim>\<open>Memory()\<close>, \<^verbatim>\<open>Pods()\<close> and \<^verbatim>\<open>StorageEphemeral()\<close>.
\<close>

definition zeroQuantity :: Quantity where
  "zeroQuantity = \<lparr>q_string = ''0'', q_isZero = True, q_approx = 0, q_value = 0, q_milliValue = 0\<rparr>"

definition resourceOf :: "(string \<times> Quantity) list \<Rightarrow> string \<Rightarrow> Quantity" where
  "resourceOf rl k = (case map_of rl k of None \<Rightarrow> zeroQuantity | Some q \<Rightarrow> q)"

definition no_allocatableCpu :: "Node \<Rightarrow> Quantity" where
  "no_allocatableCpu node = resourceOf (no_allocatable node) ''cpu''"

definition no_allocatableMemory :: "Node \<Rightarrow> Quantity" where
  "no_allocatableMemory node = resourceOf (no_allocatable node) ''memory''"

abbreviation "CategoryResource \<equiv> ''resource''"
abbreviation "CategoryHealth \<equiv> ''health''"
abbreviation "CategoryNode \<equiv> ''node''"
abbreviation "SignalOOMKilled \<equiv> ''OOMKilled''"
abbreviation "SignalCrashLoopBackOff \<equiv> ''CrashLoopBackOff''"
abbreviation "SignalImagePullBackOff \<equiv> ''ImagePullBackOff''"
abbreviation "SignalPodEvicted \<equiv> ''PodEvicted''"
abbreviation "SignalPodPendingLong \<equiv> ''PodPendingLong''"
abbreviation "SignalProbeFailure \<equiv> ''ProbeFailure''"
abbreviation "SignalContainerRestart \<equiv> ''ContainerHighRestarts''"
abbreviation "podCollectorName \<equiv> ''pod-failure-detector''"
abbreviation "nodeCollectorName \<equiv> ''node-health-checker''"
abbreviation "resourceCollectorName \<equiv> ''resource-saturation-checker''"

subsection \<open>Pod collector (pod.go)\<close>

record PodCollector =
  pcl_pendingTimeout :: duration
  pcl_restartThreshold :: int
  pcl_excludeNS :: "string list"

definition NewPodCollector :: PodCollector where
  "NewPodCollector = \<lparr>pcl_pendingTimeout = 5 * minute, pcl_restartThreshold = 5,
                      pcl_excludeNS = [''kube-system'']\<rparr>"

fun ownerLoop :: "(string \<times> string) list \<Rightarrow> string" where
  "ownerLoop [] = []"
| "ownerLoop ((kind, name) # refs) =
     (if kind = ''ReplicaSet'' then
        (case splitLast (CHR ''-'') name of
           Some (before, _) \<Rightarrow> if before \<noteq> [] then before else name
         | None \<Rightarrow> name)
      else ownerLoop refs)"

definition ownerDeployment :: "Pod \<Rightarrow> string" where
  "ownerDeployment pod = ownerLoop (po_owners pod)"

definition podResource :: "Pod \<Rightarrow> ResourceReference" where
  "podResource pod = \<lparr>rr_kind = ''Pod'', rr_name = po_name pod, rr_namespace = po_namespace pod, rr_role = []\<rparr>"

definition podMetadata :: "Pod \<Rightarrow> (string \<times> string) list" where
  "podMetadata pod =
     (let meta = [(''namespace'', po_namespace pod), (''nodeName'', po_nodeName pod)];
          deploy = ownerDeployment pod
      in if deploy \<noteq> [] then AList.update MetadataKeyDeployment deploy meta else meta)"

definition containerMetadata :: "Pod \<Rightarrow> ContainerStatus \<Rightarrow> (string \<times> string) list" where
  "containerMetadata pod cs =
     AList.update ''restartCount'' (showInt (cs_restartCount cs))
       (AList.update ''image'' (cs_image cs) (AList.update ''container'' (cs_name cs) (podMetadata pod)))"

definition podText :: "Pod \<Rightarrow> string" where
  "podText pod = po_namespace pod @ ''/'' @ po_name pod"

text \<open>The fields every pod signal shares; the fields a check leaves out are nil.\<close>

definition podSignal ::
  "Pod \<Rightarrow> string \<Rightarrow> string \<Rightarrow> string \<Rightarrow> time \<Rightarrow> (string \<times> string) list \<Rightarrow> Signal" where
  "podSignal pod type' severity message detectedAt meta =
     \<lparr>sg_type = type', sg_severity = severity, sg_category = CategoryHealth, sg_source = podCollectorName,
      sg_message = message, sg_resource = podResource pod, sg_personaRef = None, sg_value = None,
      sg_threshold = None, sg_detectedAt = detectedAt, sg_metadata = meta\<rparr>"

definition checkEviction :: "Pod \<Rightarrow> time \<Rightarrow> Signal option" where
  "checkEviction pod now =
     (if po_phase pod \<noteq> ''Failed'' \<or> po_reason pod \<noteq> ''Evicted'' then None
      else Some (podSignal pod SignalPodEvicted SeverityCritical
             (''Pod '' @ podText pod @ '' was evicted: '' @ po_message pod) now (podMetadata pod)))"

text \<open>\<^verbatim>\<open>Duration.Minutes\<close>: whole minutes plus the rest as a fraction, in floats.\<close>

definition durMinutes :: "duration \<Rightarrow> rat" where
  "durMinutes d = fadd (fl64 (of_int (d div minute))) (fdiv (of_int (d mod minute)) 60000000000)"

definition checkPendingLong :: "PodCollector \<Rightarrow> Pod \<Rightarrow> time \<Rightarrow> Signal option" where
  "checkPendingLong p pod now =
     (if po_phase pod \<noteq> ''Pending'' then None
      else if isZero (po_creationTimestamp pod) then None
      else let age = timeSub now (po_creationTimestamp pod) in
        if age < pcl_pendingTimeout p then None
        else Some ((podSignal pod SignalPodPendingLong SeverityWarning
               (''Pod '' @ podText pod @ '' has been pending for '' @ fmtFixed 0 (durMinutes age) @ '' minutes'')
               (po_creationTimestamp pod) (podMetadata pod))
               \<lparr>sg_value := Some (durMinutes age), sg_threshold := Some (durMinutes (pcl_pendingTimeout p))\<rparr>))"

definition checkWaiting :: "Pod \<Rightarrow> ContainerStatus \<Rightarrow> string \<times> string \<Rightarrow> time \<Rightarrow> Signal option" where
  "checkWaiting pod cs waiting now =
     (let reason = fst waiting in
      if reason = ''CrashLoopBackOff'' then
        Some (podSignal pod SignalCrashLoopBackOff SeverityCritical
          (''Container '' @ cs_name cs @ '' in pod '' @ podText pod @ '' is in CrashLoopBackOff'') now
          (containerMetadata pod cs))
      else if reason = ''ImagePullBackOff'' \<or> reason = ''ErrImagePull'' then
        Some (podSignal pod SignalImagePullBackOff SeverityWarning
          (''Container '' @ cs_name cs @ '' in pod '' @ podText pod @ '' cannot pull image: '' @ snd waiting) now
          (containerMetadata pod cs))
      else None)"

definition oomTermination :: "ContainerStatus \<Rightarrow> ContainerStateTerminated option" where
  "oomTermination cs =
     (case cs_terminated cs of
        Some t \<Rightarrow>
          (if tm_reason t = SignalOOMKilled then Some t
           else (case cs_lastTerminated cs of
                   Some l \<Rightarrow> if tm_reason l = SignalOOMKilled then Some l else None | None \<Rightarrow> None))
      | None \<Rightarrow>
          (case cs_lastTerminated cs of
             Some l \<Rightarrow> if tm_reason l = SignalOOMKilled then Some l else None | None \<Rightarrow> None))"

definition checkOOMKilled :: "Pod \<Rightarrow> ContainerStatus \<Rightarrow> time \<Rightarrow> Signal option" where
  "checkOOMKilled pod cs now =
     (case oomTermination cs of
        None \<Rightarrow> None
      | Some t \<Rightarrow>
          (let detectedAt = (if isZero (tm_finishedAt t) then now else tm_finishedAt t);
               meta = AList.update ''lastTerminationReason'' SignalOOMKilled (containerMetadata pod cs);
               meta' = (case List.find (\<lambda>c. ct_name c = cs_name cs) (po_containers pod) of
                          None \<Rightarrow> meta
                        | Some c \<Rightarrow> (case map_of (ct_limits c) ''memory'' of
                                      Some q \<Rightarrow> AList.update ''memoryLimit'' (q_string q) meta
                                    | None \<Rightarrow> meta))
           in Some (podSignal pod SignalOOMKilled SeverityCritical
                (''Container '' @ cs_name cs @ '' in pod '' @ podText pod @ '' was OOMKilled'') detectedAt meta')))"

definition checkProbeFailure :: "Pod \<Rightarrow> ContainerStatus \<Rightarrow> time \<Rightarrow> Signal option" where
  "checkProbeFailure pod cs now =
     (if \<not> cs_running cs \<or> cs_ready cs \<or> cs_restartCount cs = 0 then None
      else if (case cs_lastTerminated cs of Some l \<Rightarrow> tm_reason l = SignalOOMKilled | None \<Rightarrow> False) then None
      else Some (podSignal pod SignalProbeFailure SeverityWarning
             (''Container '' @ cs_name cs @ '' in pod '' @ podText pod @ '' is failing probes (restarts: '' @
              showInt (cs_restartCount cs) @ '')'') now (containerMetadata pod cs)))"

definition checkHighRestarts :: "PodCollector \<Rightarrow> Pod \<Rightarrow> ContainerStatus \<Rightarrow> time \<Rightarrow> Signal option" where
  "checkHighRestarts p pod cs now =
     (if cs_restartCount cs \<le> pcl_restartThreshold p then None
      else Some ((podSignal pod SignalContainerRestart SeverityWarning
             (''Container '' @ cs_name cs @ '' in pod '' @ podText pod @ '' has restarted '' @
              showInt (cs_restartCount cs) @ '' times'') now (containerMetadata pod cs))
             \<lparr>sg_value := Some (fl64 (of_int (cs_restartCount cs))),
              sg_threshold := Some (fl64 (of_int (pcl_restartThreshold p)))\<rparr>))"

definition optList :: "'a option \<Rightarrow> 'a list" where
  "optList x = (case x of Some v \<Rightarrow> [v] | None \<Rightarrow> [])"

definition checkContainer :: "PodCollector \<Rightarrow> Pod \<Rightarrow> ContainerStatus \<Rightarrow> time \<Rightarrow> Signal list" where
  "checkContainer p pod cs now =
     (case cs_waiting cs of Some wt \<Rightarrow> optList (checkWaiting pod cs wt now) | None \<Rightarrow> []) @
     optList (checkOOMKilled pod cs now) @ optList (checkProbeFailure pod cs now) @
     optList (checkHighRestarts p pod cs now)"

definition checkPod :: "PodCollector \<Rightarrow> Pod \<Rightarrow> time \<Rightarrow> Signal list" where
  "checkPod p pod now =
     optList (checkEviction pod now) @ optList (checkPendingLong p pod now) @
     concat (map (\<lambda>cs. checkContainer p pod cs now) (po_containerStatuses pod)) @
     concat (map (\<lambda>cs. checkContainer p pod cs now) (po_initContainerStatuses pod))"

definition PodCollector_Collect ::
  "PodCollector \<Rightarrow> ('w \<Rightarrow> goerr + Pod list) \<Rightarrow> time \<Rightarrow> 'w \<Rightarrow> goerr + Signal list" where
  "PodCollector_Collect p listPods now w =
     (case listPods w of
        Inl e \<Rightarrow> Inl (Wrap ''failed to list pods'' e)
      | Inr pods \<Rightarrow>
          Inr (concat (map (\<lambda>pod. if po_namespace pod \<in> set (pcl_excludeNS p) then []
                                  else checkPod p pod now) pods)))"

subsection \<open>Node collector (node.go)\<close>

record nodeConditionMapping =
  nm_conditionType :: string
  nm_unhealthyStatus :: string
  nm_signalType :: string
  nm_severity :: string
  nm_before :: string
  nm_after :: string

text \<open>The message templates are split at their \<^verbatim>\<open>%s\<close>.\<close>

definition nodeMapping :: "string \<Rightarrow> string \<Rightarrow> string \<Rightarrow> string \<Rightarrow> string \<Rightarrow> nodeConditionMapping" where
  "nodeMapping ct st sig sev after =
     \<lparr>nm_conditionType = ct, nm_unhealthyStatus = st, nm_signalType = sig, nm_severity = sev,
      nm_before = ''Node '', nm_after = after\<rparr>"

definition nodeConditionMappings :: "nodeConditionMapping list" where
  "nodeConditionMappings =
     [nodeMapping ''Ready'' ''False'' ''NodeNotReady'' SeverityCritical '' is not ready'',
      nodeMapping ''Ready'' ''Unknown'' ''NodeNotReady'' SeverityWarning '' ready status is unknown'',
      nodeMapping ''MemoryPressure'' ''True'' ''NodeMemoryPressure'' SeverityWarning '' has memory pressure'',
      nodeMapping ''DiskPressure'' ''True'' ''NodeDiskPressure'' SeverityWarning '' has disk pressure'',
      nodeMapping ''PIDPressure'' ''True'' ''NodePIDPressure'' SeverityWarning '' has PID pressure'',
      nodeMapping ''NetworkUnavailable'' ''True'' ''NodeNetworkUnavailable'' SeverityCritical
        '' network is unavailable'']"

definition nodeRole :: "Node \<Rightarrow> string" where
  "nodeRole node =
     (case List.find (\<lambda>kv. hasPrefix (fst kv) ''node-role.kubernetes.io/'') (no_labels node) of
        Some kv \<Rightarrow> trimPrefix (fst kv) ''node-role.kubernetes.io/''
      | None \<Rightarrow> ''worker'')"

definition nodeMetadata :: "Node \<Rightarrow> (string \<times> string) list" where
  "nodeMetadata node =
     (let meta = [(''role'', nodeRole node)];
          meta1 = (case map_of (no_labels node) ''topology.kubernetes.io/zone'' of
                     Some z \<Rightarrow> AList.update ''zone'' z meta | None \<Rightarrow> meta)
      in case map_of (no_labels node) ''topology.kubernetes.io/region'' of
           Some r \<Rightarrow> AList.update ''region'' r meta1 | None \<Rightarrow> meta1)"

definition nodeResource :: "Node \<Rightarrow> ResourceReference" where
  "nodeResource node = \<lparr>rr_kind = ''Node'', rr_name = no_name node, rr_namespace = [], rr_role = []\<rparr>"

definition checkCondition :: "Node \<Rightarrow> nodeConditionMapping \<Rightarrow> time \<Rightarrow> Signal option" where
  "checkCondition node m now =
     (case List.find (\<lambda>c. pc_type c = nm_conditionType m) (no_conditions node) of
        None \<Rightarrow> None
      | Some cond \<Rightarrow>
          (if pc_status cond \<noteq> nm_unhealthyStatus m then None
           else Some \<lparr>sg_type = nm_signalType m, sg_severity = nm_severity m, sg_category = CategoryNode,
                      sg_source = nodeCollectorName, sg_message = nm_before m @ no_name node @ nm_after m,
                      sg_resource = nodeResource node, sg_personaRef = None, sg_value = None,
                      sg_threshold = None,
                      sg_detectedAt = (if isZero (pc_ltt cond) then now else pc_ltt cond),
                      sg_metadata = nodeMetadata node\<rparr>))"

definition NodeCollector_Collect ::
  "('w \<Rightarrow> goerr + Node list) \<Rightarrow> time \<Rightarrow> 'w \<Rightarrow> goerr + Signal list" where
  "NodeCollector_Collect listNodes now w =
     (case listNodes w of
        Inl e \<Rightarrow> Inl (Wrap ''failed to list nodes'' e)
      | Inr nodes \<Rightarrow>
          Inr (concat (map (\<lambda>node. concat (map (\<lambda>m. optList (checkCondition node m now))
                                            nodeConditionMappings)) nodes)))"

subsection \<open>Resource collector (resource.go)\<close>

record ResourceCollector =
  rcl_warnPct :: rat
  rcl_critPct :: rat

definition NewResourceCollector :: ResourceCollector where
  "NewResourceCollector = \<lparr>rcl_warnPct = fl64 (85 / 100), rcl_critPct = fl64 (95 / 100)\<rparr>"

text \<open>The totals are \<^verbatim>\<open>int64\<close> and wrap around.\<close>

definition wrap64 :: "int \<Rightarrow> int" where
  "wrap64 x = (x + 2 ^ 63) mod 2 ^ 64 - 2 ^ 63"

definition addRequests :: "Container \<Rightarrow> int \<times> int \<Rightarrow> int \<times> int" where
  "addRequests c totals =
     ((case map_of (ct_requests c) ''cpu'' of
         Some q \<Rightarrow> wrap64 (fst totals + q_milliValue q) | None \<Rightarrow> fst totals),
      (case map_of (ct_requests c) ''memory'' of
         Some q \<Rightarrow> wrap64 (snd totals + q_value q) | None \<Rightarrow> snd totals))"

definition podRequests :: "Pod \<Rightarrow> int \<times> int \<Rightarrow> int \<times> int" where
  "podRequests pod totals =
     (if po_phase pod = ''Succeeded'' \<or> po_phase pod = ''Failed'' then totals
      else fold addRequests (po_initContainers pod) (fold addRequests (po_containers pod) totals))"

definition saturationSignal ::
  "ResourceCollector \<Rightarrow> Node \<Rightarrow> string \<Rightarrow> rat \<Rightarrow> string \<Rightarrow> string \<Rightarrow> time \<Rightarrow> Signal option" where
  "saturationSignal r node resourceName ratio critType warnType now =
     (let pct = fmul ratio 100;
          mk = (\<lambda>signalType severity threshold.
            Some \<lparr>sg_type = signalType, sg_severity = severity, sg_category = CategoryResource,
                  sg_source = resourceCollectorName,
                  sg_message = ''Node '' @ no_name node @ '' '' @ resourceName @ '' request saturation at '' @
                               fmtFixed 1 pct @ ''%'',
                  sg_resource = nodeResource node, sg_personaRef = None, sg_value = Some pct,
                  sg_threshold = Some threshold, sg_detectedAt = now,
                  sg_metadata = [(''resourceType'', resourceName), (''node'', no_name node)]\<rparr>)
      in if rcl_critPct r \<le> ratio then mk critType SeverityCritical (fmul (rcl_critPct r) 100)
         else if rcl_warnPct r \<le> ratio then mk warnType SeverityWarning (fmul (rcl_warnPct r) 100)
         else None)"

definition ResourceCollector_checkNode ::
  "ResourceCollector \<Rightarrow> ('w \<Rightarrow> string \<Rightarrow> goerr + Pod list) \<Rightarrow> time \<Rightarrow> 'w \<Rightarrow> Node \<Rightarrow> goerr + Signal list" where
  "ResourceCollector_checkNode r podsOn now w node =
     (case podsOn w (no_name node) of
        Inl e \<Rightarrow> Inl (Wrap (''failed to list pods on node '' @ no_name node) e)
      | Inr pods \<Rightarrow>
          (let (cpu, mem) = fold podRequests pods (0, 0);
               allocatableCPU = q_milliValue (no_allocatableCpu node);
               allocatableMem = q_value (no_allocatableMemory node)
           in Inr ((if 0 < allocatableCPU then
                      optList (saturationSignal r node ''CPU''
                        (fdiv (fl64 (of_int cpu)) (fl64 (of_int allocatableCPU)))
                        ''CPUSaturationCritical'' ''CPUSaturationHigh'' now)
                    else []) @
                   (if 0 < allocatableMem then
                      optList (saturationSignal r node ''memory''
                        (fdiv (fl64 (of_int mem)) (fl64 (of_int allocatableMem)))
                        ''MemorySaturationCritical'' ''MemorySaturationHigh'' now)
                    else []))))"

definition ResourceCollector_Collect ::
  "ResourceCollector \<Rightarrow> ('w \<Rightarrow> goerr + Node list) \<Rightarrow> ('w \<Rightarrow> string \<Rightarrow> goerr + Pod list)
     \<Rightarrow> time \<Rightarrow> 'w \<Rightarrow> goerr + Signal list" where
  "ResourceCollector_Collect r listNodes podsOn now w =
     (case listNodes w of
        Inl e \<Rightarrow> Inl (Wrap ''failed to list nodes'' e)
      | Inr nodes \<Rightarrow>
          Inr (concat (map (\<lambda>node. case ResourceCollector_checkNode r podsOn now w node of
                                     Inl _ \<Rightarrow> [] | Inr sigs \<Rightarrow> sigs) nodes)))"

subsection \<open>Laws of the collectors\<close>

lemma set_optList [simp]: "x \<in> set (optList v) \<longleftrightarrow> v = Some x"
  by (auto simp: optList_def split: option.splits)

lemma podSignal_simps [simp]:
  "sg_type (podSignal pod t sev msg dt meta) = t" "sg_severity (podSignal pod t sev msg dt meta) = sev"
  "sg_resource (podSignal pod t sev msg dt meta) = podResource pod"
  "sg_metadata (podSignal pod t sev msg dt meta) = meta"
  "sg_personaRef (podSignal pod t sev msg dt meta) = None"
  "sg_detectedAt (podSignal pod t sev msg dt meta) = dt"
  by (simp_all add: podSignal_def)

text \<open>The metadata every pod signal carries: where the pod is, and nothing under \<^verbatim>\<open>node\<close>.\<close>

definition pod_meta :: "Pod \<Rightarrow> (string \<times> string) list \<Rightarrow> bool" where
  "pod_meta pod meta =
     (getStr meta MetadataKeyDeployment = ownerDeployment pod \<and>
      map_of meta ''nodeName'' = Some (po_nodeName pod) \<and> map_of meta ''node'' = None)"

lemma pod_meta_base: "pod_meta pod (podMetadata pod)"
  by (simp add: pod_meta_def podMetadata_def getStr_def Let_def)

lemma pod_meta_update:
  "pod_meta pod meta \<Longrightarrow> k \<notin> {MetadataKeyDeployment, ''nodeName'', ''node''} \<Longrightarrow>
     pod_meta pod (AList.update k v meta)"
  by (auto simp: pod_meta_def getStr_def)

lemma pod_meta_container: "pod_meta pod (containerMetadata pod cs)"
  unfolding containerMetadata_def by (intro pod_meta_update pod_meta_base) simp_all

definition pod_signal :: "Pod \<Rightarrow> Signal \<Rightarrow> bool" where
  "pod_signal pod s =
     (sg_resource s = podResource pod \<and> sg_personaRef s = None \<and> pod_meta pod (sg_metadata s))"

lemma checks_pod_signal:
  "checkEviction pod now = Some s \<Longrightarrow> pod_signal pod s"
  "checkPendingLong p pod now = Some s \<Longrightarrow> pod_signal pod s"
  "checkWaiting pod cs wt now = Some s \<Longrightarrow> pod_signal pod s"
  "checkOOMKilled pod cs now = Some s \<Longrightarrow> pod_signal pod s"
  "checkProbeFailure pod cs now = Some s \<Longrightarrow> pod_signal pod s"
  "checkHighRestarts p pod cs now = Some s \<Longrightarrow> pod_signal pod s"
  by (auto simp: checkEviction_def checkPendingLong_def checkWaiting_def checkOOMKilled_def
      checkProbeFailure_def checkHighRestarts_def pod_signal_def Let_def pod_meta_base pod_meta_container
      intro!: pod_meta_update split: if_splits option.splits)

lemma checkContainer_pod_signal: "s \<in> set (checkContainer p pod cs now) \<Longrightarrow> pod_signal pod s"
  by (auto simp: checkContainer_def dest: checks_pod_signal split: option.splits)

lemma checkPod_pod_signal: "s \<in> set (checkPod p pod now) \<Longrightarrow> pod_signal pod s"
  by (auto simp: checkPod_def dest: checks_pod_signal checkContainer_pod_signal)

text \<open>
  Pod detection misses no failing container and invents no pod. When the pods can be listed,
  every signal stems from a listed pod outside the excluded namespaces, names that pod as its
  resource and the Deployment of the pod's ReplicaSet as its workload; and a container of such a
  pod that waits in CrashLoopBackOff, or whose current or last termination was an OOM kill, gives a
  critical signal of that type about that pod.
\<close>

theorem pod_collector_exact:
  assumes "PodCollector_Collect p listPods now w = Inr signals" "listPods w = Inr pods"
  shows "(\<forall>s \<in> set signals. \<exists>pod \<in> set pods. po_namespace pod \<notin> set (pcl_excludeNS p) \<and> pod_signal pod s) \<and>
    (\<forall>pod \<in> set pods. po_namespace pod \<notin> set (pcl_excludeNS p) \<longrightarrow>
       (\<forall>cs \<in> set (po_containerStatuses pod @ po_initContainerStatuses pod).
          ((\<exists>msg. cs_waiting cs = Some (''CrashLoopBackOff'', msg)) \<longrightarrow>
             (\<exists>s \<in> set signals. sg_type s = SignalCrashLoopBackOff \<and> sg_severity s = SeverityCritical \<and>
                sg_resource s = podResource pod)) \<and>
          (oomTermination cs \<noteq> None \<longrightarrow>
             (\<exists>s \<in> set signals. sg_type s = SignalOOMKilled \<and> sg_severity s = SeverityCritical \<and>
                sg_resource s = podResource pod))))"
proof -
  have sigs: "signals = concat (map (\<lambda>pod. if po_namespace pod \<in> set (pcl_excludeNS p) then []
      else checkPod p pod now) pods)"
    using assms by (simp add: PodCollector_Collect_def)
  have sound: "\<exists>pod \<in> set pods. po_namespace pod \<notin> set (pcl_excludeNS p) \<and> pod_signal pod s"
    if "s \<in> set signals" for s
    using that checkPod_pod_signal unfolding sigs by (auto split: if_splits)
  have incl: "s \<in> set signals"
    if "pod \<in> set pods" "po_namespace pod \<notin> set (pcl_excludeNS p)"
      "cs \<in> set (po_containerStatuses pod @ po_initContainerStatuses pod)"
      "s \<in> set (checkContainer p pod cs now)" for pod cs s
    using that unfolding sigs checkPod_def by auto
  have crash: "\<exists>s \<in> set (checkContainer p pod cs now). sg_type s = SignalCrashLoopBackOff \<and>
      sg_severity s = SeverityCritical \<and> sg_resource s = podResource pod"
    if "cs_waiting cs = Some (''CrashLoopBackOff'', msg)" for pod cs msg
  proof -
    from that obtain s where "checkWaiting pod cs (''CrashLoopBackOff'', msg) now = Some s"
      "sg_type s = SignalCrashLoopBackOff" "sg_severity s = SeverityCritical" "sg_resource s = podResource pod"
      by (simp add: checkWaiting_def Let_def)
    then show ?thesis using that by (auto simp: checkContainer_def)
  qed
  have oom: "\<exists>s \<in> set (checkContainer p pod cs now). sg_type s = SignalOOMKilled \<and>
      sg_severity s = SeverityCritical \<and> sg_resource s = podResource pod"
    if "oomTermination cs = Some t" for pod cs t
  proof -
    from that obtain s where "checkOOMKilled pod cs now = Some s" "sg_type s = SignalOOMKilled"
      "sg_severity s = SeverityCritical" "sg_resource s = podResource pod"
      by (simp add: checkOOMKilled_def Let_def)
    then show ?thesis by (auto simp: checkContainer_def)
  qed
  show ?thesis using sound incl crash oom by (fastforce simp del: set_append)
qed

end
