(* ===== verification/Diagnosis.thy ===== *)
theory Diagnosis
  imports Collectors
begin

text \<open>
  Root-cause diagnosis (\<^verbatim>\<open>internal/diagnosis\<close>): confidence scores (\<^verbatim>\<open>confidence.go\<close>), the
  eight rules of the deterministic provider (\<^verbatim>\<open>rules.go\<close>), the engine that merges the results
  of several providers (\<^verbatim>\<open>engine.go\<close>), and the gate that withholds a diagnosis from a model
  (\<^verbatim>\<open>namespace_gate.go\<close>). The model-backed provider is a parameter: any provider is a function
  from signals to diagnoses or an error. \<^verbatim>\<open>sort.Slice\<close> is modelled by a stable sort; the
  theorems only use that the result is an ordered permutation.
\<close>

record ContributingSignal =
  con_signal :: Signal
  con_detail :: string

record Diagnosis =
  dg_summary :: string
  dg_confidence :: rat
  dg_provider :: string
  dg_category :: string
  dg_severity :: string
  dg_personaRef :: "PersonaReference option"
  dg_affectedResources :: "ResourceReference list"
  dg_contributing :: "ContributingSignal list"
  dg_suggestedAction :: string
  dg_diagnosedAt :: time

subsection \<open>Confidence (confidence.go)\<close>

record ConfidenceFactors =
  cf_base :: rat
  cf_signalCount :: nat
  cf_signalClarity :: rat
  cf_timeWindowSeconds :: rat

definition lit :: "int \<Rightarrow> rat" where
  "lit n = fl64 (of_int n / 100)"

definition signalCountBoost :: "nat \<Rightarrow> rat" where
  "signalCountBoost n = (if 3 \<le> n then lit 110 else if n = 2 then lit 105 else 1)"

definition timeProximityBoost :: "rat \<Rightarrow> rat" where
  "timeProximityBoost w = (if w < 60 then 1 else if w < 300 then lit 95 else lit 85)"

definition CalculateConfidence :: "ConfidenceFactors \<Rightarrow> rat" where
  "CalculateConfidence f =
     (let confidence = fmul (fmul (fmul (cf_base f) (signalCountBoost (cf_signalCount f)))
                                  (cf_signalClarity f))
                            (timeProximityBoost (cf_timeWindowSeconds f))
      in min 1 (max 0 confidence))"

definition signalClarity :: "(string \<times> rat) list" where
  "signalClarity =
     [(''OOMKilled'', lit 100), (''CrashLoopBackOff'', lit 90), (''NodeNotReady'', lit 95),
      (''ImagePullBackOff'', lit 90), (''PodEvicted'', lit 95), (''CPUSaturationCritical'', lit 85),
      (''MemorySaturationCritical'', lit 85), (''PodPendingLong'', lit 60), (''ProbeFailure'', lit 70),
      (''ContainerHighRestarts'', lit 60), (''NodeMemoryPressure'', lit 90), (''NodeDiskPressure'', lit 90),
      (''NodePIDPressure'', lit 90), (''NodeNetworkUnavailable'', lit 95), (''APIServerUnhealthy'', lit 95),
      (''ETCDUnhealthy'', lit 95), (''SchedulerUnhealthy'', lit 95), (''ControllerManagerUnhealthy'', lit 95),
      (''ComponentUnhealthy'', lit 90), (''CPUSaturationHigh'', lit 75), (''MemorySaturationHigh'', lit 75),
      (''CPUUsageHigh'', lit 70), (''MemoryUsageHigh'', lit 70)]"

definition SignalClarity :: "string \<Rightarrow> rat" where
  "SignalClarity signalType = (case map_of signalClarity signalType of Some c \<Rightarrow> c | None \<Rightarrow> lit 50)"

definition AverageClarity :: "Signal list \<Rightarrow> rat" where
  "AverageClarity signals =
     (if signals = [] then lit 50
      else fdiv (foldl (\<lambda>total s. fadd total (SignalClarity (sg_type s))) 0 signals)
                (fl64 (of_nat (length signals))))"

definition durSeconds :: "duration \<Rightarrow> rat" where
  "durSeconds d = fadd (fl64 (of_int (d div second))) (fdiv (of_int (d mod second)) 1000000000)"

definition TimeWindowSeconds :: "Signal list \<Rightarrow> rat" where
  "TimeWindowSeconds signals =
     (case signals of
        [] \<Rightarrow> 0
      | [_] \<Rightarrow> 0
      | s # ss \<Rightarrow>
          durSeconds (timeSub (fold (\<lambda>x t. if t < sg_detectedAt x then sg_detectedAt x else t) ss (sg_detectedAt s))
                              (fold (\<lambda>x t. if sg_detectedAt x < t then sg_detectedAt x else t) ss (sg_detectedAt s))))"

subsection \<open>Signal helpers (rules.go)\<close>

definition hasSignalType :: "Signal list \<Rightarrow> string \<Rightarrow> bool" where
  "hasSignalType signals t = list_ex (\<lambda>s. sg_type s = t) signals"

definition signalsOfType :: "Signal list \<Rightarrow> string \<Rightarrow> Signal list" where
  "signalsOfType signals t = filter (\<lambda>s. sg_type s = t) signals"

definition signalsForResource :: "Signal list \<Rightarrow> ResourceReference \<Rightarrow> Signal list" where
  "signalsForResource signals ref =
     filter (\<lambda>s. rr_kind (sg_resource s) = rr_kind ref \<and> rr_name (sg_resource s) = rr_name ref \<and>
                 rr_namespace (sg_resource s) = rr_namespace ref) signals"

definition severityRank :: "string \<Rightarrow> int" where
  "severityRank s = (if s = SeverityWarning then 1 else if s = SeverityCritical then 2 else 0)"

definition severityGreater :: "string \<Rightarrow> string \<Rightarrow> bool" where
  "severityGreater a b = (severityRank b < severityRank a)"

definition highestSeverity :: "Signal list \<Rightarrow> string" where
  "highestSeverity signals =
     fold (\<lambda>s highest. if severityGreater (sg_severity s) highest then sg_severity s else highest)
       signals SeverityInfo"

definition resourceKey :: "ResourceReference \<Rightarrow> string" where
  "resourceKey r = rr_kind r @ ''/'' @ rr_namespace r @ ''/'' @ rr_name r"

fun collectResources :: "string list \<Rightarrow> Signal list \<Rightarrow> ResourceReference list" where
  "collectResources seen [] = []"
| "collectResources seen (s # ss) =
     (let key = resourceKey (sg_resource s)
      in if key \<in> set seen then collectResources seen ss
         else sg_resource s # collectResources (key # seen) ss)"

definition collectAffectedResources :: "Signal list \<Rightarrow> ResourceReference list" where
  "collectAffectedResources signals = collectResources [] signals"

fun firstPersonaRef :: "Signal list \<Rightarrow> PersonaReference option" where
  "firstPersonaRef [] = None"
| "firstPersonaRef (s # ss) = (case sg_personaRef s of Some r \<Rightarrow> Some r | None \<Rightarrow> firstPersonaRef ss)"

definition buildContributing :: "Signal list \<Rightarrow> string \<Rightarrow> ContributingSignal list" where
  "buildContributing signals detail = map (\<lambda>s. \<lparr>con_signal = s, con_detail = detail\<rparr>) signals"

definition buildConfidence :: "rat \<Rightarrow> Signal list \<Rightarrow> rat" where
  "buildConfidence base signals =
     CalculateConfidence \<lparr>cf_base = base, cf_signalCount = length signals,
       cf_signalClarity = AverageClarity signals, cf_timeWindowSeconds = TimeWindowSeconds signals\<rparr>"

text \<open>The struct literal all rules end with: the fields computed from the gathered signals.\<close>

definition mkDiagnosis ::
  "string \<Rightarrow> rat \<Rightarrow> string \<Rightarrow> string \<Rightarrow> Signal list \<Rightarrow> ContributingSignal list \<Rightarrow> string \<Rightarrow> Diagnosis" where
  "mkDiagnosis summary base category severity allSignals contributing action =
     \<lparr>dg_summary = summary, dg_confidence = buildConfidence base allSignals, dg_provider = [],
      dg_category = category, dg_severity = severity, dg_personaRef = firstPersonaRef allSignals,
      dg_affectedResources = collectAffectedResources allSignals, dg_contributing = contributing,
      dg_suggestedAction = action, dg_diagnosedAt = zeroTime\<rparr>"

abbreviation "actionResourceAdjustment \<equiv> ''resource-adjustment''"
abbreviation "actionDeploymentFix \<equiv> ''deployment-fix''"
abbreviation "actionInvestigate \<equiv> ''investigate''"
abbreviation "CategoryScaling \<equiv> ''scaling''"
abbreviation "CategoryControlPlane \<equiv> ''controlplane''"
abbreviation "CategoryDeployment \<equiv> ''deployment''"
abbreviation "SignalMemoryUsageHigh \<equiv> ''MemoryUsageHigh''"
abbreviation "SignalNodeNotReady \<equiv> ''NodeNotReady''"
abbreviation "SignalNodeNetworkDown \<equiv> ''NodeNetworkUnavailable''"

subsection \<open>Rules\<close>

definition matchOOM :: "Signal list \<Rightarrow> bool" where
  "matchOOM signals = hasSignalType signals SignalOOMKilled"

definition diagnoseOOM :: "Signal list \<Rightarrow> Diagnosis option" where
  "diagnoseOOM signals =
     (case signalsOfType signals SignalOOMKilled of
        [] \<Rightarrow> None
      | primary # more' \<Rightarrow>
          (let oomSignals = primary # more';
               related = signalsForResource signals (sg_resource primary);
               memUsage = signalsOfType related SignalMemoryUsageHigh;
               allRelated = oomSignals @ memUsage
           in if memUsage \<noteq> [] then
                (let val = (case sg_value (hd memUsage) of
                              Some v \<Rightarrow> '' Memory usage was at '' @ fmtFixed 0 v @ ''% of limit.'' | None \<Rightarrow> [])
                 in Some (mkDiagnosis (''Container memory limit insufficient for workload.'' @ val) (lit 85)
                      CategoryResource SeverityCritical allRelated
                      (buildContributing oomSignals ''Container was OOM-killed'' @
                       buildContributing memUsage ''Memory usage was near limit'') actionResourceAdjustment))
              else Some (mkDiagnosis ''Container OOM-killed. Memory limit may be insufficient.'' (lit 70)
                     CategoryResource SeverityCritical allRelated
                     (buildContributing oomSignals ''Container was OOM-killed'') actionResourceAdjustment)))"

definition matchCrashLoop :: "Signal list \<Rightarrow> bool" where
  "matchCrashLoop signals = hasSignalType signals SignalCrashLoopBackOff"

definition diagnoseCrashLoop :: "Signal list \<Rightarrow> Diagnosis option" where
  "diagnoseCrashLoop signals =
     (case signalsOfType signals SignalCrashLoopBackOff of
        [] \<Rightarrow> None
      | primary # more' \<Rightarrow>
          (let crashSignals = primary # more';
               related = signalsForResource signals (sg_resource primary);
               oomRelated = signalsOfType related SignalOOMKilled;
               imgRelated = signalsOfType related SignalImagePullBackOff;
               probeRelated = signalsOfType related SignalProbeFailure;
               allSignals = crashSignals @ oomRelated @ imgRelated @ probeRelated;
               looping = buildContributing crashSignals ''Container is crash-looping''
           in Some (if oomRelated \<noteq> [] then
                mkDiagnosis ''CrashLoopBackOff caused by OOM kills. Increase memory limits.'' (lit 90)
                  CategoryHealth SeverityCritical allSignals
                  (looping @ buildContributing oomRelated ''Container was OOM-killed during crash loop'')
                  actionResourceAdjustment
              else if imgRelated \<noteq> [] then
                mkDiagnosis ''CrashLoopBackOff caused by image pull failures.'' (lit 90)
                  CategoryHealth SeverityCritical allSignals
                  (looping @ buildContributing imgRelated ''Image pull is failing'') actionDeploymentFix
              else if probeRelated \<noteq> [] then
                mkDiagnosis ''CrashLoopBackOff likely caused by failing health probes.'' (lit 90)
                  CategoryHealth SeverityCritical allSignals
                  (looping @ buildContributing probeRelated ''Health probes are failing'') actionDeploymentFix
              else
                mkDiagnosis (''CrashLoopBackOff '' @ em_dash @ '' check container logs for application errors.'')
                  (lit 50) CategoryHealth SeverityCritical allSignals
                  (buildContributing crashSignals ''Container is crash-looping with no correlated signals'')
                  actionInvestigate)))"

definition nodePressureTypes :: "string list" where
  "nodePressureTypes = [''NodeMemoryPressure'', ''NodeDiskPressure'', ''NodePIDPressure'']"

definition hasAnyType :: "Signal list \<Rightarrow> string list \<Rightarrow> bool" where
  "hasAnyType signals types = list_ex (hasSignalType signals) types"

definition signalsOfTypes :: "Signal list \<Rightarrow> string list \<Rightarrow> Signal list" where
  "signalsOfTypes signals types = concat (map (signalsOfType signals) types)"

definition matchNodePressure :: "Signal list \<Rightarrow> bool" where
  "matchNodePressure signals = hasAnyType signals nodePressureTypes"

text \<open>Distinct types in order of first appearance.\<close>

definition typesSeen :: "Signal list \<Rightarrow> string list" where
  "typesSeen signals = fold (\<lambda>s out. if sg_type s \<in> set out then out else out @ [sg_type s]) signals []"

definition evictionNode :: "Signal \<Rightarrow> string" where
  "evictionNode e =
     (let nodeName = getStr (sg_metadata e) ''node''
      in if nodeName = [] then rr_name (sg_resource e) else nodeName)"

definition relatedEvictionsOf :: "Signal list \<Rightarrow> Signal list \<Rightarrow> Signal list" where
  "relatedEvictionsOf signals pressureSignals =
     (let nodeNames = map (\<lambda>s. rr_name (sg_resource s))
                          (filter (\<lambda>s. rr_kind (sg_resource s) = ''Node'') pressureSignals)
      in filter (\<lambda>e. evictionNode e \<in> set nodeNames) (signalsOfType signals SignalPodEvicted))"

definition diagnoseNodePressure :: "Signal list \<Rightarrow> Diagnosis option" where
  "diagnoseNodePressure signals =
     (let pressureSignals = signalsOfTypes signals nodePressureTypes in
      if pressureSignals = [] then None
      else let relatedEvictions = relatedEvictionsOf signals pressureSignals;
               pressureTypes = joinWith '', '' (typesSeen pressureSignals);
               allSignals = pressureSignals @ relatedEvictions;
               pressing = buildContributing pressureSignals ''Node is under resource pressure''
           in Some (if relatedEvictions \<noteq> [] then
                mkDiagnosis (''Node under pressure ('' @ pressureTypes @ ''), causing pod evictions.'') (lit 90)
                  CategoryNode (highestSeverity allSignals) allSignals
                  (pressing @ buildContributing relatedEvictions ''Pods evicted due to node pressure'')
                  actionResourceAdjustment
              else
                mkDiagnosis (''Node under pressure: '' @ pressureTypes @ ''.'') (lit 80)
                  CategoryNode (highestSeverity allSignals) allSignals pressing actionResourceAdjustment))"

definition matchNodeDown :: "Signal list \<Rightarrow> bool" where
  "matchNodeDown signals = hasSignalType signals SignalNodeNotReady"

definition diagnoseNodeDown :: "Signal list \<Rightarrow> Diagnosis option" where
  "diagnoseNodeDown signals =
     (case signalsOfType signals SignalNodeNotReady of
        [] \<Rightarrow> None
      | primary # more' \<Rightarrow>
          (let notReadySignals = primary # more';
               related = signalsForResource signals (sg_resource primary);
               networkDown = signalsOfType related SignalNodeNetworkDown;
               allSignals = notReadySignals @ networkDown;
               name = rr_name (sg_resource primary);
               notReady = buildContributing notReadySignals ''Node is not ready''
           in Some (if networkDown \<noteq> [] then
                mkDiagnosis (''Node '' @ name @ '' unreachable '' @ em_dash @ '' network connectivity lost.'')
                  (lit 85) CategoryNode SeverityCritical allSignals
                  (notReady @ buildContributing networkDown ''Node network is unavailable'') actionInvestigate
              else
                mkDiagnosis (''Node '' @ name @ '' not ready '' @ em_dash @ '' may require restart or investigation.'')
                  (lit 85) CategoryNode SeverityCritical allSignals notReady ''node-restart'')))"

definition saturationCriticalTypes :: "string list" where
  "saturationCriticalTypes = [''CPUSaturationCritical'', ''MemorySaturationCritical'']"

definition matchResourceSaturation :: "Signal list \<Rightarrow> bool" where
  "matchResourceSaturation signals = hasAnyType signals saturationCriticalTypes"

definition diagnoseResourceSaturation :: "Signal list \<Rightarrow> Diagnosis option" where
  "diagnoseResourceSaturation signals =
     (let saturationSignals = signalsOfTypes signals saturationCriticalTypes in
      if saturationSignals = [] then None
      else let pendingPods = signalsOfType signals SignalPodPendingLong;
               nodeDetails = map (\<lambda>s. case sg_value s of
                   Some v \<Rightarrow> rr_name (sg_resource s) @ '' at '' @ fmtFixed 0 v @ ''%''
                 | None \<Rightarrow> rr_name (sg_resource s)) saturationSignals;
               allSignals = saturationSignals @ pendingPods;
               saturated = buildContributing saturationSignals ''Node resource saturation is critical''
           in Some (if pendingPods \<noteq> [] then
                mkDiagnosis (''Resource saturation ('' @ joinWith '', '' nodeDetails @ ''). New pods failing to schedule.'')
                  (lit 90) CategoryScaling SeverityCritical allSignals
                  (saturated @ buildContributing pendingPods ''Pods are pending due to resource constraints'') ''scale-up''
              else
                mkDiagnosis (''Resource saturation ('' @ joinWith '', '' nodeDetails @ ''). New pods may fail to schedule.'')
                  (lit 80) CategoryScaling SeverityCritical allSignals saturated ''scale-up''))"

definition controlPlaneTypes :: "string list" where
  "controlPlaneTypes =
     [''APIServerUnhealthy'', ''ETCDUnhealthy'', ''SchedulerUnhealthy'', ''ControllerManagerUnhealthy'',
      ''ComponentUnhealthy'']"

definition matchControlPlane :: "Signal list \<Rightarrow> bool" where
  "matchControlPlane signals = hasAnyType signals controlPlaneTypes"

definition diagnoseControlPlane :: "Signal list \<Rightarrow> Diagnosis option" where
  "diagnoseControlPlane signals =
     (let cpSignals = signalsOfTypes signals controlPlaneTypes in
      if cpSignals = [] then None
      else Some (mkDiagnosis (''Control plane degraded: '' @ joinWith '', '' (typesSeen cpSignals) @ ''.'') (lit 95)
             CategoryControlPlane SeverityCritical cpSignals
             (buildContributing cpSignals ''Control plane component is unhealthy'') actionInvestigate))"

definition matchImagePull :: "Signal list \<Rightarrow> bool" where
  "matchImagePull signals = hasSignalType signals SignalImagePullBackOff"

definition podKey :: "Signal \<Rightarrow> string" where
  "podKey s = rr_namespace (sg_resource s) @ ''/'' @ rr_name (sg_resource s)"

definition diagnoseImagePull :: "Signal list \<Rightarrow> Diagnosis option" where
  "diagnoseImagePull signals =
     (let imgSignals = signalsOfType signals SignalImagePullBackOff;
          crashPods = map podKey (signalsOfType signals SignalCrashLoopBackOff);
          imgSignals' = filter (\<lambda>s. podKey s \<notin> set crashPods) imgSignals
      in if imgSignals = [] then None
         else if imgSignals' = [] then None
         else Some (mkDiagnosis
                ''Image pull failing for container. Check image name, tag, and registry credentials.'' (lit 80)
                CategoryDeployment SeverityCritical imgSignals'
                (buildContributing imgSignals' ''Image pull is failing'') actionDeploymentFix))"

definition matchPendingPod :: "Signal list \<Rightarrow> bool" where
  "matchPendingPod signals = hasSignalType signals SignalPodPendingLong"

definition diagnosePendingPod :: "Signal list \<Rightarrow> Diagnosis option" where
  "diagnosePendingPod signals =
     (let pendingSignals = signalsOfType signals SignalPodPendingLong in
      if pendingSignals = [] then None
      else if hasAnyType signals saturationCriticalTypes then None
      else Some (mkDiagnosis
             ''Pod pending for extended period. May be waiting for resources, node affinity, or tolerations.''
             (lit 50) CategoryScaling SeverityWarning pendingSignals
             (buildContributing pendingSignals ''Pod has been pending beyond threshold'') actionResourceAdjustment))"

record Rule =
  ru_name :: string
  ru_match :: "Signal list \<Rightarrow> bool"
  ru_diagnose :: "Signal list \<Rightarrow> Diagnosis option"

definition builtinRules :: "Rule list" where
  "builtinRules =
     [\<lparr>ru_name = ''oom-root-cause'', ru_match = matchOOM, ru_diagnose = diagnoseOOM\<rparr>,
      \<lparr>ru_name = ''crashloop-root-cause'', ru_match = matchCrashLoop, ru_diagnose = diagnoseCrashLoop\<rparr>,
      \<lparr>ru_name = ''node-pressure'', ru_match = matchNodePressure, ru_diagnose = diagnoseNodePressure\<rparr>,
      \<lparr>ru_name = ''node-down'', ru_match = matchNodeDown, ru_diagnose = diagnoseNodeDown\<rparr>,
      \<lparr>ru_name = ''resource-saturation'', ru_match = matchResourceSaturation,
       ru_diagnose = diagnoseResourceSaturation\<rparr>,
      \<lparr>ru_name = ''control-plane'', ru_match = matchControlPlane, ru_diagnose = diagnoseControlPlane\<rparr>,
      \<lparr>ru_name = ''image-pull-failure'', ru_match = matchImagePull, ru_diagnose = diagnoseImagePull\<rparr>,
      \<lparr>ru_name = ''long-pending-pod'', ru_match = matchPendingPod, ru_diagnose = diagnosePendingPod\<rparr>]"

definition deduplicationKey :: "Diagnosis \<Rightarrow> string" where
  "deduplicationKey d =
     dg_category d @ '':'' @ dg_suggestedAction d @ '':'' @
     joinWith '','' (sort (map resourceKey (dg_affectedResources d)))"

fun ruleLoop :: "time \<Rightarrow> Signal list \<Rightarrow> string list \<Rightarrow> Rule list \<Rightarrow> Diagnosis list" where
  "ruleLoop now signals seen [] = []"
| "ruleLoop now signals seen (rule # rules) =
     (if \<not> ru_match rule signals then ruleLoop now signals seen rules
      else (case ru_diagnose rule signals of
              None \<Rightarrow> ruleLoop now signals seen rules
            | Some d \<Rightarrow>
                (let key = deduplicationKey d in
                 if key \<in> set seen then ruleLoop now signals seen rules
                 else d\<lparr>dg_provider := ''rule-based'', dg_diagnosedAt := now\<rparr>
                        # ruleLoop now signals (key # seen) rules)))"

definition sortByConfidence :: "Diagnosis list \<Rightarrow> Diagnosis list" where
  "sortByConfidence ds = sort_key (\<lambda>d. - dg_confidence d) ds"

definition RuleBased_Diagnose :: "time \<Rightarrow> Signal list \<Rightarrow> goerr + Diagnosis list" where
  "RuleBased_Diagnose now signals =
     (if signals = [] then Inr [] else Inr (sortByConfidence (ruleLoop now signals [] builtinRules)))"

subsection \<open>Engine (engine.go)\<close>

record DiagnosisProvider =
  dp_name :: string
  dp_diagnose :: "Signal list \<Rightarrow> goerr + Diagnosis list"

record rankedDiagnosis =
  rk_diagnosis :: Diagnosis
  rk_stage :: nat

definition supersedes :: "rankedDiagnosis \<Rightarrow> rankedDiagnosis \<Rightarrow> bool" where
  "supersedes candidate current =
     (let c = dg_confidence (rk_diagnosis candidate); k = dg_confidence (rk_diagnosis current)
      in if c \<noteq> k then k < c else rk_stage current < rk_stage candidate)"

text \<open>
  The map \<^verbatim>\<open>best\<close> and the slice \<^verbatim>\<open>order\<close> of \<^verbatim>\<open>deduplicateDiagnoses\<close>: updating a key of an
  association list keeps its place, and a new key goes to the end, so one list is both.
\<close>

definition keepBest :: "rankedDiagnosis \<Rightarrow> (string \<times> rankedDiagnosis) list \<Rightarrow> (string \<times> rankedDiagnosis) list" where
  "keepBest candidate best =
     (let key = deduplicationKey (rk_diagnosis candidate) in
      case map_of best key of
        None \<Rightarrow> AList.update key candidate best
      | Some current \<Rightarrow> if supersedes candidate current then AList.update key candidate best else best)"

definition deduplicateDiagnoses :: "rankedDiagnosis list \<Rightarrow> Diagnosis list" where
  "deduplicateDiagnoses produced = map (rk_diagnosis \<circ> snd) (fold keepBest produced [])"

fun runProviders ::
  "Signal list \<Rightarrow> nat \<Rightarrow> rankedDiagnosis list \<Rightarrow> DiagnosisProvider list \<Rightarrow> goerr + rankedDiagnosis list" where
  "runProviders signals stage produced [] = Inr produced"
| "runProviders signals stage produced (p # ps) =
     (case dp_diagnose p signals of
        Inl e \<Rightarrow> Inl (Wrap (''provider '' @ dp_name p @ '' failed'') e)
      | Inr ds \<Rightarrow>
          runProviders signals (Suc stage)
            (produced @ map (\<lambda>d. \<lparr>rk_diagnosis = d, rk_stage = stage\<rparr>) ds) ps)"

definition Analyze :: "DiagnosisProvider list \<Rightarrow> Signal list \<Rightarrow> goerr + Diagnosis list" where
  "Analyze providers signals =
     (if signals = [] then Inr []
      else (case runProviders signals 0 [] providers of
              Inl e \<Rightarrow> Inl e
            | Inr produced \<Rightarrow> Inr (sortByConfidence (deduplicateDiagnoses produced))))"

subsection \<open>Namespace gate (namespace\_gate.go)\<close>

definition clusterScopedKinds :: "string list" where
  "clusterScopedKinds = [''Node'', ''ComponentStatus'']"

definition diagnosisNamespaces :: "Diagnosis \<Rightarrow> string list" where
  "diagnosisNamespaces d =
     (case dg_personaRef d of Some r \<Rightarrow> [pr_namespace r] | None \<Rightarrow> []) @
     map rr_namespace
       (filter (\<lambda>ref. \<not> (rr_namespace ref = [] \<and> rr_kind ref \<in> set clusterScopedKinds))
         (dg_affectedResources d @ map (sg_resource \<circ> con_signal) (dg_contributing d)))"

fun gateLoop :: "(string \<Rightarrow> bool) \<Rightarrow> string list \<Rightarrow> string list \<Rightarrow> string \<times> bool" where
  "gateLoop protected checked [] = ([], False)"
| "gateLoop protected checked (ns # nss) =
     (if ns \<in> set checked then gateLoop protected checked nss
      else if ns = [] \<or> protected ns then (ns, True)
      else gateLoop protected (ns # checked) nss)"

definition ProtectedNamespace :: "(string \<Rightarrow> bool) option \<Rightarrow> Diagnosis \<Rightarrow> string \<times> bool" where
  "ProtectedNamespace gate d =
     (case gate of None \<Rightarrow> ([], True) | Some protected \<Rightarrow> gateLoop protected [] (diagnosisNamespaces d))"

subsection \<open>Laws of the rules\<close>

lemma hasSignalType_iff: "hasSignalType ss t \<longleftrightarrow> (\<exists>s \<in> set ss. sg_type s = t)"
  by (simp add: hasSignalType_def list_ex_iff)

lemma set_signalsOfType [simp]: "set (signalsOfType ss t) = {s \<in> set ss. sg_type s = t}"
  by (simp add: signalsOfType_def)

lemma set_signalsForResource: "set (signalsForResource ss r) \<subseteq> set ss"
  by (auto simp: signalsForResource_def)

lemma set_signalsOfTypes [simp]: "set (signalsOfTypes ss ts) = {s \<in> set ss. sg_type s \<in> set ts}"
  by (auto simp: signalsOfTypes_def)

lemma hasAnyType_iff: "hasAnyType ss ts \<longleftrightarrow> (\<exists>s \<in> set ss. sg_type s \<in> set ts)"
  by (auto simp: hasAnyType_def list_ex_iff hasSignalType_iff)

lemma collectResources_sub: "set (collectResources seen ss) \<subseteq> sg_resource ` set ss"
  by (induction ss arbitrary: seen) (auto simp: Let_def)

lemma firstPersonaRef_in: "firstPersonaRef ss = Some r \<Longrightarrow> \<exists>s \<in> set ss. sg_personaRef s = Some r"
  by (induction ss) (auto split: option.splits)

lemma confidence_unit: "0 \<le> buildConfidence base ss \<and> buildConfidence base ss \<le> 1"
  by (simp add: buildConfidence_def CalculateConfidence_def Let_def)

text \<open>A diagnosis that rests on the given signals only.\<close>

definition grounded :: "Signal list \<Rightarrow> Diagnosis \<Rightarrow> bool" where
  "grounded signals d =
     (dg_contributing d \<noteq> [] \<and> con_signal ` set (dg_contributing d) \<subseteq> set signals \<and>
      dg_affectedResources d \<noteq> [] \<and> set (dg_affectedResources d) \<subseteq> sg_resource ` set signals \<and>
      (\<forall>r. dg_personaRef d = Some r \<longrightarrow> (\<exists>s \<in> set signals. sg_personaRef s = Some r)) \<and>
      0 \<le> dg_confidence d \<and> dg_confidence d \<le> 1)"

lemma buildContributing_signals [simp]: "con_signal ` set (buildContributing ss t) = set ss"
  by (force simp: buildContributing_def)

lemma mkDiagnosis_grounded:
  assumes "set allS \<subseteq> set signals" "allS \<noteq> []" "con \<noteq> []" "con_signal ` set con \<subseteq> set signals"
  shows "grounded signals (mkDiagnosis sm b cat sev allS con act)"
proof -
  obtain s ss where "allS = s # ss" using assms(2) by (cases allS) auto
  then have "collectAffectedResources allS \<noteq> []" by (simp add: collectAffectedResources_def Let_def)
  moreover have "set (collectAffectedResources allS) \<subseteq> sg_resource ` set signals"
    unfolding collectAffectedResources_def
    by (rule subset_trans [OF collectResources_sub image_mono [OF assms(1)]])
  moreover have "\<exists>s \<in> set signals. sg_personaRef s = Some r" if "firstPersonaRef allS = Some r" for r
    using firstPersonaRef_in [OF that] assms(1) by blast
  ultimately show ?thesis
    using assms(3,4) confidence_unit by (simp add: grounded_def mkDiagnosis_def)
qed

lemma buildContributing_Nil [simp]: "buildContributing ss t = [] \<longleftrightarrow> ss = []"
  by (simp add: buildContributing_def)

lemma related_sub:
  "set (signalsOfType (signalsForResource ss r) t) \<subseteq> set ss" "set (signalsOfType ss t) \<subseteq> set ss"
  "set (signalsOfTypes ss ts) \<subseteq> set ss" "set (relatedEvictionsOf ss ps) \<subseteq> set ss"
  "set (filter P (signalsOfType ss t)) \<subseteq> set ss"
  using set_signalsForResource by (auto simp: relatedEvictionsOf_def Let_def)

text \<open>Each rule returns nothing or a grounded diagnosis; the lemmas follow the shape of the rules.\<close>

definition groundedO :: "Signal list \<Rightarrow> Diagnosis option \<Rightarrow> bool" where
  "groundedO ss r = (case r of None \<Rightarrow> True | Some d \<Rightarrow> grounded ss d)"

lemma groundedO_None: "groundedO ss None"
  by (simp add: groundedO_def)

lemma groundedO_Some: "grounded ss d \<Longrightarrow> groundedO ss (Some d)"
  by (simp add: groundedO_def)

lemma groundedO_if: "(c \<Longrightarrow> groundedO ss a) \<Longrightarrow> (\<not> c \<Longrightarrow> groundedO ss b) \<Longrightarrow> groundedO ss (if c then a else b)"
  by simp

lemma grounded_if: "(c \<Longrightarrow> grounded ss a) \<Longrightarrow> (\<not> c \<Longrightarrow> grounded ss b) \<Longrightarrow> grounded ss (if c then a else b)"
  by simp

lemma groundedO_list:
  assumes "\<And>x xs. x \<in> set ss \<Longrightarrow> set xs \<subseteq> set ss \<Longrightarrow> groundedO ss (f x xs)"
  shows "groundedO ss (case signalsOfType ss t of [] \<Rightarrow> None | x # xs \<Rightarrow> f x xs)"
proof (cases "signalsOfType ss t")
  case (Cons x xs)
  then have "x \<in> set ss" "set xs \<subseteq> set ss" using related_sub(2) [of ss t] by auto
  with assms Cons show ?thesis by simp
qed (simp add: groundedO_def)

lemmas grounded_intros = groundedO_list groundedO_if grounded_if groundedO_Some groundedO_None
  mkDiagnosis_grounded

lemma rules_grounded:
  "groundedO ss (diagnoseOOM ss)" "groundedO ss (diagnoseCrashLoop ss)"
  "groundedO ss (diagnoseNodePressure ss)" "groundedO ss (diagnoseNodeDown ss)"
  "groundedO ss (diagnoseResourceSaturation ss)" "groundedO ss (diagnoseControlPlane ss)"
  "groundedO ss (diagnoseImagePull ss)" "groundedO ss (diagnosePendingPod ss)"
  unfolding diagnoseOOM_def diagnoseCrashLoop_def diagnoseNodePressure_def diagnoseNodeDown_def
    diagnoseResourceSaturation_def diagnoseControlPlane_def diagnoseImagePull_def diagnosePendingPod_def Let_def
  by (intro grounded_intros;
      simp add: image_Un related_sub del: set_signalsOfType set_signalsOfTypes set_filter)+

lemma builtin_grounded:
  "rule \<in> set builtinRules \<Longrightarrow> ru_diagnose rule ss = Some d \<Longrightarrow> grounded ss d"
  using rules_grounded [of ss] unfolding builtinRules_def by (auto simp: groundedO_def)

lemma deduplicationKey_stamp [simp]:
  "deduplicationKey (d\<lparr>dg_provider := p, dg_diagnosedAt := t\<rparr>) = deduplicationKey d"
  by (simp add: deduplicationKey_def)

lemma grounded_stamp [simp]: "grounded ss (d\<lparr>dg_provider := p, dg_diagnosedAt := t\<rparr>) = grounded ss d"
  by (simp add: grounded_def)

lemma ruleLoop_props:
  assumes "\<And>r d. r \<in> set rules \<Longrightarrow> ru_diagnose r ss = Some d \<Longrightarrow> grounded ss d"
  shows "(\<forall>d \<in> set (ruleLoop now ss seen rules). grounded ss d) \<and>
    distinct (map deduplicationKey (ruleLoop now ss seen rules)) \<and>
    deduplicationKey ` set (ruleLoop now ss seen rules) \<inter> set seen = {}"
  using assms
proof (induction rules arbitrary: seen)
  case (Cons r rules)
  have IH: "(\<forall>d \<in> set (ruleLoop now ss seen' rules). grounded ss d) \<and>
    distinct (map deduplicationKey (ruleLoop now ss seen' rules)) \<and>
    deduplicationKey ` set (ruleLoop now ss seen' rules) \<inter> set seen' = {}" for seen'
    by (rule Cons.IH) (use Cons.prems in auto)
  show ?case
  proof (cases "ru_match r ss \<and> (\<exists>d. ru_diagnose r ss = Some d \<and> deduplicationKey d \<notin> set seen)")
    case False
    then have "ruleLoop now ss seen (r # rules) = ruleLoop now ss seen rules"
      by (auto simp: Let_def split: option.splits)
    with IH show ?thesis by simp
  next
    case True
    then obtain d where d: "ru_match r ss" "ru_diagnose r ss = Some d" "deduplicationKey d \<notin> set seen" by blast
    with IH [of "deduplicationKey d # seen"] Cons.prems [of r d] show ?thesis
      by (auto simp: Let_def)
  qed
qed simp

lemma ruleLoop_some:
  assumes "r \<in> set rules" "ru_match r ss" "ru_diagnose r ss \<noteq> None"
  shows "seen = [] \<Longrightarrow> ruleLoop now ss seen rules \<noteq> []"
  using assms by (induction rules) (auto simp: Let_def split: option.splits)

lemma sortByConfidence_laws [simp]:
  "set (sortByConfidence ds) = set ds" "mset (sortByConfidence ds) = mset ds"
  "sortByConfidence ds = [] \<longleftrightarrow> ds = []"
  by (auto simp: sortByConfidence_def simp flip: set_empty)

lemma sortByConfidence_sorted: "sorted_wrt (\<lambda>a b. dg_confidence b \<le> dg_confidence a) (sortByConfidence ds)"
proof -
  have "sorted (map (\<lambda>d. - dg_confidence d) (sortByConfidence ds))"
    unfolding sortByConfidence_def by simp
  then show ?thesis by (simp add: sorted_map)
qed

lemma distinct_sortByConfidence: "distinct (map f (sortByConfidence ds)) = distinct (map f ds)"
  by (metis mset_eq_imp_distinct_iff mset_map sortByConfidence_laws(2))

text \<open>
  C40. Every rule-based diagnosis is grounded in the signals it was given: its contributing signals
  are among them and so are the resources and the persona it names, it has at least one of each of
  the former two, and its confidence lies between 0 and 1. No two diagnoses share a deduplication
  key, and they come most confident first.
\<close>

theorem rule_diagnoses_grounded:
  assumes "RuleBased_Diagnose now signals = Inr ds"
  shows "(\<forall>d \<in> set ds. grounded signals d \<and> dg_provider d = ''rule-based'') \<and>
    distinct (map deduplicationKey ds) \<and> sorted_wrt (\<lambda>a b. dg_confidence b \<le> dg_confidence a) ds"
proof (cases "signals = []")
  case False
  let ?out = "ruleLoop now signals [] builtinRules"
  have ds: "ds = sortByConfidence ?out" using assms False by (simp add: RuleBased_Diagnose_def)
  have pr: "\<forall>d \<in> set (ruleLoop now signals seen rules). dg_provider d = ''rule-based''" for seen rules
    by (induction rules arbitrary: seen) (auto simp: Let_def split: option.splits)
  show ?thesis
    using ruleLoop_props [of builtinRules signals now "[]"] builtin_grounded [of _ signals] pr
    unfolding ds by (simp add: distinct_sortByConfidence sortByConfidence_sorted)
qed (use assms in \<open>simp add: RuleBased_Diagnose_def\<close>)

subsection \<open>Which signals lead to a diagnosis\<close>

definition diagnosable :: "string set" where
  "diagnosable = {SignalOOMKilled, SignalCrashLoopBackOff, SignalNodeNotReady, SignalImagePullBackOff,
     SignalPodPendingLong} \<union> set nodePressureTypes \<union> set saturationCriticalTypes \<union> set controlPlaneTypes"

lemma signalsOfType_Nil: "signalsOfType ss t = [] \<longleftrightarrow> \<not> hasSignalType ss t"
  by (auto simp: signalsOfType_def hasSignalType_iff filter_empty_conv)

lemma signalsOfTypes_Nil: "signalsOfTypes ss ts = [] \<longleftrightarrow> \<not> hasAnyType ss ts"
  by (auto simp: signalsOfTypes_def hasAnyType_def list_ex_iff signalsOfType_Nil)

lemma list_case_None: "(case xs of [] \<Rightarrow> None | y # ys \<Rightarrow> Some (f y ys)) = None \<longleftrightarrow> xs = []"
  by (cases xs) auto

lemma diagnoseOOM_None: "diagnoseOOM ss = None \<longleftrightarrow> signalsOfType ss SignalOOMKilled = []"
  unfolding diagnoseOOM_def Let_def by (simp split: list.split)

lemma diagnoses_some:
  "diagnoseOOM ss = None \<longleftrightarrow> \<not> matchOOM ss"
  "diagnoseCrashLoop ss = None \<longleftrightarrow> \<not> matchCrashLoop ss"
  "diagnoseNodePressure ss = None \<longleftrightarrow> \<not> matchNodePressure ss"
  "diagnoseNodeDown ss = None \<longleftrightarrow> \<not> matchNodeDown ss"
  "diagnoseResourceSaturation ss = None \<longleftrightarrow> \<not> matchResourceSaturation ss"
  "diagnoseControlPlane ss = None \<longleftrightarrow> \<not> matchControlPlane ss"
  "diagnosePendingPod ss = None \<longleftrightarrow> \<not> matchPendingPod ss \<or> matchResourceSaturation ss"
  unfolding diagnoseOOM_None diagnoseCrashLoop_def diagnoseNodePressure_def diagnoseNodeDown_def
    diagnoseResourceSaturation_def diagnoseControlPlane_def diagnosePendingPod_def Let_def
    matchOOM_def matchCrashLoop_def matchNodePressure_def matchNodeDown_def matchResourceSaturation_def
    matchControlPlane_def matchPendingPod_def
  by (simp_all add: list_case_None signalsOfType_Nil signalsOfTypes_Nil)

lemma diagnoseImagePull_None: "diagnoseImagePull ss = None \<Longrightarrow> matchImagePull ss \<Longrightarrow> matchCrashLoop ss"
proof (rule ccontr)
  assume n: "diagnoseImagePull ss = None" and m: "matchImagePull ss" and c: "\<not> matchCrashLoop ss"
  have "signalsOfType ss SignalCrashLoopBackOff = []" using c by (simp add: matchCrashLoop_def signalsOfType_Nil)
  moreover have "signalsOfType ss SignalImagePullBackOff \<noteq> []"
    using m by (simp add: matchImagePull_def signalsOfType_Nil)
  ultimately show False using n unfolding diagnoseImagePull_def Let_def by simp
qed

lemma diagnosable_iff:
  "(\<exists>s \<in> set ss. sg_type s \<in> diagnosable) \<longleftrightarrow>
     matchOOM ss \<or> matchCrashLoop ss \<or> matchNodePressure ss \<or> matchNodeDown ss \<or>
     matchResourceSaturation ss \<or> matchControlPlane ss \<or> matchImagePull ss \<or> matchPendingPod ss"
  unfolding matchOOM_def matchCrashLoop_def matchNodePressure_def matchNodeDown_def matchImagePull_def
    matchResourceSaturation_def matchControlPlane_def matchPendingPod_def hasSignalType_iff hasAnyType_iff
    diagnosable_def by blast

lemma ruleLoop_none: "\<forall>r \<in> set rules. \<not> ru_match r ss \<Longrightarrow> ruleLoop now ss seen rules = []"
  by (induction rules) auto

lemma firing_rule:
  assumes "matchOOM ss \<or> matchCrashLoop ss \<or> matchNodePressure ss \<or> matchNodeDown ss \<or>
     matchResourceSaturation ss \<or> matchControlPlane ss \<or> matchImagePull ss \<or> matchPendingPod ss"
  shows "\<exists>r \<in> set builtinRules. ru_match r ss \<and> ru_diagnose r ss \<noteq> None"
  using assms diagnoses_some [of ss] diagnoseImagePull_None [of ss]
  by (simp add: builtinRules_def) blast

lemma ruleLoop_fires:
  assumes "\<exists>s \<in> set signals. sg_type s \<in> diagnosable"
  shows "ruleLoop now signals [] builtinRules \<noteq> []"
proof -
  obtain r where "r \<in> set builtinRules" "ru_match r signals" "ru_diagnose r signals \<noteq> None"
    using firing_rule [OF assms [unfolded diagnosable_iff]] by blast
  then show ?thesis by (rule ruleLoop_some) simp
qed

text \<open>
  What is diagnosed. The rules return a diagnosis exactly if some signal is an OOM kill, a crash
  loop, an image pull failure, a long-pending pod, a node that is not ready or under pressure, a
  critical saturation or a control plane failure. The two rules that step back for another rule
  never leave such a signal set without a diagnosis; and a group that holds only evictions, probe
  failures, restarts, usage warnings or a lost node network gets none.
\<close>

theorem diagnosed_iff_known_failure:
  "\<exists>ds. RuleBased_Diagnose now signals = Inr ds \<and>
     (ds \<noteq> [] \<longleftrightarrow> (\<exists>s \<in> set signals. sg_type s \<in> diagnosable))"
proof -
  note some = ruleLoop_fires [of signals now]
  have none: "ruleLoop now signals [] builtinRules = []" if "\<not> (\<exists>s \<in> set signals. sg_type s \<in> diagnosable)"
    using that unfolding diagnosable_iff by (intro ruleLoop_none) (simp add: builtinRules_def)
  show ?thesis
  proof (cases "signals = []")
    case True
    then show ?thesis by (simp add: RuleBased_Diagnose_def)
  next
    case False
    then have "RuleBased_Diagnose now signals = Inr (sortByConfidence (ruleLoop now signals [] builtinRules))"
      by (simp add: RuleBased_Diagnose_def)
    then show ?thesis using some none by auto
  qed
qed

subsection \<open>Evictions\<close>

text \<open>
  Evictions are never linked to node pressure. The rule looks for the node of an eviction under
  the metadata key \<^verbatim>\<open>node\<close>, which the pod collector does not write (it writes
  \<^verbatim>\<open>nodeName\<close>), and falls back to the name of the evicted pod. So when the evictions come from
  the pod collector and no evicted pod bears the name of a node under pressure, the diagnosis
  names the pressure signals only, wherever the pods ran.
\<close>

theorem evictions_never_linked:
  assumes "diagnoseNodePressure signals = Some d"
    and "\<forall>e \<in> set signals. sg_type e = SignalPodEvicted \<longrightarrow> (\<exists>pod. pod_signal pod e)"
    and "\<forall>e \<in> set signals. \<forall>s \<in> set signals. sg_type e = SignalPodEvicted \<and>
       sg_type s \<in> set nodePressureTypes \<longrightarrow> rr_name (sg_resource e) \<noteq> rr_name (sg_resource s)"
  shows "con_signal ` set (dg_contributing d) = {s \<in> set signals. sg_type s \<in> set nodePressureTypes}"
proof -
  let ?ps = "signalsOfTypes signals nodePressureTypes"
  have node: "evictionNode e = rr_name (sg_resource e)" if "e \<in> set signals" "sg_type e = SignalPodEvicted" for e
    using assms(2) that by (auto simp: evictionNode_def pod_signal_def pod_meta_def getStr_def)
  have "relatedEvictionsOf signals ?ps = []"
    using assms(3) node unfolding relatedEvictionsOf_def Let_def by (auto simp: filter_empty_conv)
  then have "dg_contributing d = buildContributing ?ps ''Node is under resource pressure''"
    using assms(1) unfolding diagnoseNodePressure_def Let_def by (auto simp: mkDiagnosis_def split: if_splits)
  then show ?thesis by simp
qed

subsection \<open>Laws of the engine\<close>

abbreviation rk_key :: "rankedDiagnosis \<Rightarrow> string" where
  "rk_key r \<equiv> deduplicationKey (rk_diagnosis r)"

lemma supersedes_lex:
  "supersedes a b \<longleftrightarrow> dg_confidence (rk_diagnosis b) < dg_confidence (rk_diagnosis a) \<or>
     (dg_confidence (rk_diagnosis b) = dg_confidence (rk_diagnosis a) \<and> rk_stage b < rk_stage a)"
  by (auto simp: supersedes_def Let_def)

lemma supersedes_trans: "\<not> supersedes q c \<Longrightarrow> supersedes n c \<Longrightarrow> \<not> supersedes q n"
  by (auto simp: supersedes_lex)

lemma supersedes_irrefl [simp]: "\<not> supersedes a a"
  by (simp add: supersedes_lex)

definition best_of :: "rankedDiagnosis list \<Rightarrow> (string \<times> rankedDiagnosis) list \<Rightarrow> bool" where
  "best_of produced best =
     (distinct (map fst best) \<and> (\<forall>q \<in> set produced. rk_key q \<in> fst ` set best) \<and>
      (\<forall>k r. map_of best k = Some r \<longrightarrow> r \<in> set produced \<and> rk_key r = k \<and>
         (\<forall>q \<in> set produced. rk_key q = k \<longrightarrow> \<not> supersedes q r)))"

lemma keepBest_best_of:
  assumes "best_of produced best"
  shows "best_of (produced @ [c]) (keepBest c best)"
proof (cases "map_of best (rk_key c)")
  case None
  then have "\<And>q. q \<in> set produced \<Longrightarrow> rk_key q \<noteq> rk_key c"
    using assms unfolding best_of_def map_of_eq_None_iff by metis
  with assms None show ?thesis
    by (auto simp: best_of_def keepBest_def Let_def distinct_update dom_update [unfolded dom_map_of_conv_image_fst]
        split: if_splits)
next
  case (Some cur)
  have cur: "cur \<in> set produced" "rk_key cur = rk_key c"
    "\<And>q. q \<in> set produced \<Longrightarrow> rk_key q = rk_key c \<Longrightarrow> \<not> supersedes q cur"
    using assms Some unfolding best_of_def by blast+
  have dom: "rk_key c \<in> fst ` set best" using Some by (metis map_of_eq_None_iff option.distinct(1))
  show ?thesis
  proof (cases "supersedes c cur")
    case True
    then have "keepBest c best = AList.update (rk_key c) c best" using Some by (simp add: keepBest_def)
    moreover have "\<not> supersedes q c" if "q \<in> set produced" "rk_key q = rk_key c" for q
      using supersedes_trans [OF cur(3) [OF that] True] .
    ultimately show ?thesis using assms dom
      by (auto simp: best_of_def distinct_update dom_update [unfolded dom_map_of_conv_image_fst] split: if_splits)
  next
    case False
    then have keep: "keepBest c best = best" using Some by (simp add: keepBest_def)
    have "r \<in> set (produced @ [c]) \<and> rk_key r = k \<and>
        (\<forall>q \<in> set (produced @ [c]). rk_key q = k \<longrightarrow> \<not> supersedes q r)" if "map_of best k = Some r" for k r
    proof -
      have "r \<in> set produced" "rk_key r = k" "\<And>q. q \<in> set produced \<Longrightarrow> rk_key q = k \<Longrightarrow> \<not> supersedes q r"
        using assms that unfolding best_of_def by blast+
      moreover have "\<not> supersedes c r" if "rk_key c = k"
        using False Some \<open>map_of best k = Some r\<close> that by auto
      ultimately show ?thesis by auto
    qed
    moreover have "distinct (map fst best)" "\<forall>q \<in> set (produced @ [c]). rk_key q \<in> fst ` set best"
      using assms dom unfolding best_of_def by auto
    ultimately show ?thesis unfolding best_of_def keep by blast
  qed
qed

lemma fold_keepBest: "best_of produced (fold keepBest produced [])"
  by (induction produced rule: rev_induct) (simp add: best_of_def, simp add: keepBest_best_of)

text \<open>
  Merging the providers. Of all diagnoses the providers produced, the engine returns exactly one
  for every deduplication key, most confident first; the one it keeps was produced by a provider, no
  diagnosis with the same key is more confident, and none that is equally confident comes from a
  later provider. So an enhanced diagnosis with the confidence of the rule it enhances wins.
\<close>

theorem analyze_keeps_best:
  assumes "signals \<noteq> []" "runProviders signals 0 [] providers = Inr produced"
    and "Analyze providers signals = Inr ds"
  shows "distinct (map deduplicationKey ds) \<and>
    sorted_wrt (\<lambda>a b. dg_confidence b \<le> dg_confidence a) ds \<and>
    deduplicationKey ` set ds = rk_key ` set produced \<and>
    (\<forall>d \<in> set ds. \<exists>r \<in> set produced. rk_diagnosis r = d \<and>
       (\<forall>q \<in> set produced. rk_key q = deduplicationKey d \<longrightarrow>
          dg_confidence (rk_diagnosis q) < dg_confidence d \<or>
          (dg_confidence (rk_diagnosis q) = dg_confidence d \<and> rk_stage q \<le> rk_stage r)))"
proof -
  let ?best = "fold keepBest produced []"
  note b = fold_keepBest [of produced, unfolded best_of_def]
  have ds: "ds = sortByConfidence (map (rk_diagnosis \<circ> snd) ?best)"
    using assms by (simp add: Analyze_def deduplicateDiagnoses_def)
  have el: "r \<in> set produced \<and> rk_key r = k \<and> (\<forall>q \<in> set produced. rk_key q = k \<longrightarrow> \<not> supersedes q r)"
    if "(k, r) \<in> set ?best" for k r
  proof -
    have "map_of ?best k = Some r" using that b by simp
    then show ?thesis using b by blast
  qed
  have keys: "map deduplicationKey (map (rk_diagnosis \<circ> snd) ?best) = map fst ?best"
    using el by (auto simp: comp_def)
  have "\<exists>r \<in> set produced. rk_diagnosis r = d \<and> (\<forall>q \<in> set produced. rk_key q = deduplicationKey d \<longrightarrow>
      dg_confidence (rk_diagnosis q) < dg_confidence d \<or>
      (dg_confidence (rk_diagnosis q) = dg_confidence d \<and> rk_stage q \<le> rk_stage r))" if "d \<in> set ds" for d
  proof -
    from that obtain k r where kr: "(k, r) \<in> set ?best" "d = rk_diagnosis r" unfolding ds by auto
    from el [OF kr(1)] have "r \<in> set produced" and
      nr: "\<And>q. q \<in> set produced \<Longrightarrow> rk_key q = deduplicationKey d \<Longrightarrow> \<not> supersedes q r"
      using kr(2) by auto
    have "dg_confidence (rk_diagnosis q) < dg_confidence d \<or>
        (dg_confidence (rk_diagnosis q) = dg_confidence d \<and> rk_stage q \<le> rk_stage r)"
      if "q \<in> set produced" "rk_key q = deduplicationKey d" for q
      using nr [OF that] kr(2) unfolding supersedes_lex by auto
    with \<open>r \<in> set produced\<close> kr(2) show ?thesis by blast
  qed
  moreover have "distinct (map deduplicationKey ds)"
    using b unfolding ds distinct_sortByConfidence keys by blast
  moreover have "deduplicationKey ` set ds = set (map fst ?best)"
    unfolding ds sortByConfidence_laws keys [symmetric] by (simp only: set_map)
  moreover have "set (map fst ?best) = rk_key ` set produced"
  proof
    show "set (map fst ?best) \<subseteq> rk_key ` set produced" using el by fastforce
    show "rk_key ` set produced \<subseteq> set (map fst ?best)" using b by auto
  qed
  ultimately show ?thesis using sortByConfidence_sorted ds by auto
qed

subsection \<open>Laws of the gate\<close>

lemma gateLoop_False:
  "\<not> snd (gateLoop prot checked nss) \<longleftrightarrow> (\<forall>ns \<in> set nss. ns \<in> set checked \<or> (ns \<noteq> [] \<and> \<not> prot ns))"
  by (induction nss arbitrary: checked) auto

lemma gate_clears_namespaces:
  "\<not> snd (ProtectedNamespace (Some prot) d) \<longleftrightarrow> (\<forall>ns \<in> set (diagnosisNamespaces d). ns \<noteq> [] \<and> \<not> prot ns)"
  unfolding ProtectedNamespace_def option.case gateLoop_False by simp

text \<open>
  The gate withholds whole diagnoses. A diagnosis may reach a model exactly if there is a gate
  and the namespace of its persona, of every affected resource and of the resource behind every
  contributing signal is known and not protected, cluster-scoped kinds without a namespace aside.
\<close>

theorem gate_clears_iff:
  "\<not> snd (ProtectedNamespace gate d) \<longleftrightarrow>
     (\<exists>prot. gate = Some prot \<and>
        (\<forall>r. dg_personaRef d = Some r \<longrightarrow> pr_namespace r \<noteq> [] \<and> \<not> prot (pr_namespace r)) \<and>
        (\<forall>ref \<in> set (dg_affectedResources d) \<union> (sg_resource \<circ> con_signal) ` set (dg_contributing d).
           (rr_namespace ref = [] \<and> rr_kind ref \<in> set clusterScopedKinds) \<or>
           (rr_namespace ref \<noteq> [] \<and> \<not> prot (rr_namespace ref))))"
  (is "_ \<longleftrightarrow> (\<exists>prot. _ \<and> _ \<and> (\<forall>ref \<in> ?refs. _ ref prot))")
proof (cases gate)
  case (Some prot)
  have "\<not> snd (ProtectedNamespace gate d) \<longleftrightarrow> (\<forall>ns \<in> set (diagnosisNamespaces d). ns \<noteq> [] \<and> \<not> prot ns)"
    unfolding Some by (rule gate_clears_namespaces)
  also have "set (diagnosisNamespaces d) = pr_namespace ` set_option (dg_personaRef d) \<union>
      rr_namespace ` {ref \<in> ?refs. \<not> (rr_namespace ref = [] \<and> rr_kind ref \<in> set clusterScopedKinds)}"
    unfolding diagnosisNamespaces_def set_append set_map set_filter
    by (cases "dg_personaRef d") simp_all
  finally show ?thesis using Some by (cases "dg_personaRef d") (simp_all, blast+)
qed (simp add: ProtectedNamespace_def)

text \<open>A gate that keeps its interface withholds every diagnosis that mentions a denied namespace.\<close>

context namespace_gate
begin

lemma cleared_diagnosis:
  assumes "\<not> snd (ProtectedNamespace (Some (prot w)) d)"
  shows "set (diagnosisNamespaces d) \<inter> denied = {}"
  using assms cleared unfolding gate_clears_namespaces by blast

end

end
