(* ===== verification/PlanContext.thy ===== *)
theory PlanContext
  imports Grounding Diagnosis
begin

text \<open>
  What the planner is told and what it answers (\<^verbatim>\<open>internal/remediation/planner/types.go\<close>,
  \<^verbatim>\<open>context.go\<close>): the context of an incident, gathered from the cluster, best effort except for
  the persona itself. The model behind the planner is outside the program.
\<close>

subsection \<open>Types\<close>

record PlannedStep =
  ps_order :: int
  ps_type :: string
  ps_description :: string
  ps_rationale :: string
  ps_risk :: string
  ps_patch :: raw
  ps_command :: string

record RemediationPlan =
  pl_rootCause :: string
  pl_confidence :: rat
  pl_steps :: "PlannedStep list"

text \<open>The live workload as the planner is told of it (\<^verbatim>\<open>workload.go\<close>).\<close>

record WorkloadContext =
  wcx_ref :: WorkloadRef
  wcx_replicas :: int
  wcx_readyReplicas :: int
  wcx_priorImages :: "string list"

record RemediationContext =
  rx_diagnosis :: Diagnosis
  rx_signals :: "Signal list"
  rx_appPersona :: ApplicationPersona
  rx_workload :: "WorkloadContext option"
  rx_clusterPersona :: "ClusterPersona option"
  rx_pastIncidents :: "IncidentMemory list"
  rx_pastRemediations :: "RemediationAction list"

subsection \<open>The live workload (workload.go)\<close>

abbreviation "AnnotationImportedImage \<equiv> ''dorgu.io/imported-image''"

text \<open>The loop of \<^verbatim>\<open>priorImages\<close> that keeps each known image once and not the running one.\<close>

definition addImage :: "string \<Rightarrow> string \<Rightarrow> string list \<Rightarrow> string list" where
  "addImage currentImage img out =
     (if img = [] \<or> img = currentImage \<or> img \<in> set out then out else out @ [img])"

definition priorImages :: "ApplicationPersona option \<Rightarrow> string \<Rightarrow> string list" where
  "priorImages persona currentImage =
     (case persona of
        None \<Rightarrow> []
      | Some p \<Rightarrow>
          (let candidates = [getStr (p_annotations p) AnnotationImportedImage] @
             (case ast_deployments (p_status p) of
                None \<Rightarrow> [] | Some d \<Rightarrow> [dt_lastSuccessful d, dt_current d])
           in fold (addImage currentImage) candidates []))"

definition NewWorkloadContext ::
  "WorkloadRef option \<Rightarrow> Deployment option \<Rightarrow> ApplicationPersona option \<Rightarrow> WorkloadContext option" where
  "NewWorkloadContext ref deploy persona =
     (case ref of
        None \<Rightarrow> None
      | Some r \<Rightarrow>
          (if wr_name r = [] then None
           else Some \<lparr>wcx_ref = r,
                      wcx_replicas = (case deploy of None \<Rightarrow> 0
                        | Some d \<Rightarrow> (case d_replicas d of None \<Rightarrow> 0 | Some n \<Rightarrow> n)),
                      wcx_readyReplicas = (case deploy of None \<Rightarrow> 0 | Some d \<Rightarrow> dst_readyReplicas (d_status d)),
                      wcx_priorImages = priorImages persona (wr_observedImage r)\<rparr>))"

subsection \<open>Building the context\<close>

abbreviation "labelPersonaName \<equiv> ''dorgu.io/persona-name''"

definition MaxPastIncidents :: nat where "MaxPastIncidents = 10"

definition personaReference :: "Diagnosis \<Rightarrow> IncidentMemory \<Rightarrow> PersonaReference option" where
  "personaReference diag incident =
     (case dg_personaRef diag of
        Some r \<Rightarrow> Some r
      | None \<Rightarrow> (if pr_name (is_personaRef (im_spec incident)) = [] then None
                 else Some (is_personaRef (im_spec incident))))"

definition signalsFromDiagnosis :: "Diagnosis \<Rightarrow> Signal list" where
  "signalsFromDiagnosis diag = map con_signal (dg_contributing diag)"

definition personaNamespace :: "PersonaReference \<Rightarrow> string" where
  "personaNamespace ref = (if pr_namespace ref = [] then ''default'' else pr_namespace ref)"

definition loadAppPersona ::
  "'w ProposerClient \<Rightarrow> 'w \<Rightarrow> PersonaReference \<Rightarrow> goerr + ApplicationPersona" where
  "loadAppPersona c w ref =
     (if pr_kind ref \<noteq> [] \<and> pr_kind ref \<noteq> kindApplicationPersona then
        Inl (Err (''unsupported persona kind '' @ quoteQ (pr_kind ref) @ '' for remediation planning''))
      else case pc_getPersona c w (personaNamespace ref, pr_name ref) of
             Inl e \<Rightarrow> Inl (Wrap (''getting ApplicationPersona '' @ personaNamespace ref @ ''/'' @ pr_name ref) e)
           | Inr persona \<Rightarrow> Inr persona)"

definition loadClusterPersona :: "'w ProposerClient \<Rightarrow> 'w \<Rightarrow> ClusterPersona option" where
  "loadClusterPersona c w =
     (case pc_listClusterPersonas c w of Inr (cp # _) \<Rightarrow> Some cp | _ \<Rightarrow> None)"

definition incidentRecency :: "time \<times> IncidentMemory \<Rightarrow> time" where
  "incidentRecency im =
     (case ims_lastOccurrence (im_status (snd im)) of Some t \<Rightarrow> t | None \<Rightarrow> fst im)"

definition loadPastIncidents :: "'w ProposerClient \<Rightarrow> 'w \<Rightarrow> PersonaReference \<Rightarrow> IncidentMemory list" where
  "loadPastIncidents c w ref =
     (case pc_listIncidents c w (Some (personaNamespace ref)) [(labelPersonaName, pr_name ref)] of
        Inl _ \<Rightarrow> []
      | Inr items \<Rightarrow>
          take MaxPastIncidents (map snd (sort_key (\<lambda>im. - incidentRecency im) items)))"

text \<open>The closure \<^verbatim>\<open>add\<close>: an action is taken once, by its namespace and name.\<close>

definition addAction :: "RemediationAction \<Rightarrow> RemediationAction list \<Rightarrow> RemediationAction list" where
  "addAction a out = (if ra_key a \<in> set (map ra_key out) then out else out @ [a])"

definition referencedAction ::
  "'w ProposerClient \<Rightarrow> 'w \<Rightarrow> PersonaReference \<Rightarrow> IncidentMemory \<Rightarrow> RemediationAction option" where
  "referencedAction c w ref incident =
     (case is_resolution (im_spec incident) of
        None \<Rightarrow> None
      | Some res \<Rightarrow>
          (case ri_remediationRef res of
             None \<Rightarrow> None
           | Some rr \<Rightarrow>
               (let namespace = (if rref_namespace rr = [] then im_namespace incident else rref_namespace rr) in
                if rref_name rr = [] then None
                else if namespace \<noteq> personaNamespace ref then None
                else (case pc_getAction c w (namespace, rref_name rr) of Inl _ \<Rightarrow> None | Inr a \<Rightarrow> Some a))))"

definition loadPastRemediations ::
  "'w ProposerClient \<Rightarrow> 'w \<Rightarrow> PersonaReference \<Rightarrow> IncidentMemory list \<Rightarrow> RemediationAction list" where
  "loadPastRemediations c w ref incidents =
     (let direct = fold (\<lambda>i out. case referencedAction c w ref i of None \<Rightarrow> out | Some a \<Rightarrow> addAction a out)
                     incidents []
      in case pc_listActions c w (Some (personaNamespace ref)) [(labelPersonaName, pr_name ref)] of
           Inl _ \<Rightarrow> direct
         | Inr items \<Rightarrow> fold addAction items direct)"

definition BuildContext ::
  "'w ProposerClient \<Rightarrow> 'w \<Rightarrow> Diagnosis \<Rightarrow> IncidentMemory option \<Rightarrow> goerr + RemediationContext" where
  "BuildContext c w diag incident =
     (case incident of
        None \<Rightarrow> Inl (Err ''incident is required to build remediation context'')
      | Some im \<Rightarrow>
          (case personaReference diag im of
             None \<Rightarrow> Inl (Err ''no persona reference available to build remediation context'')
           | Some ref \<Rightarrow>
               (case loadAppPersona c w ref of
                  Inl e \<Rightarrow> Inl (Wrap ''loading application persona'' e)
                | Inr persona \<Rightarrow>
                    (let past = loadPastIncidents c w ref in
                     Inr \<lparr>rx_diagnosis = diag, rx_signals = signalsFromDiagnosis diag,
                          rx_appPersona = persona, rx_workload = None,
                          rx_clusterPersona = loadClusterPersona c w, rx_pastIncidents = past,
                          rx_pastRemediations = loadPastRemediations c w ref past\<rparr>))))"

end
