(* ===== verification/Incident.thy ===== *)
theory Incident
  imports Lifecycle Workload Diagnosis
begin

text \<open>
  What happens to an incident after it was raised: the evidence that lets it close
  (\<^verbatim>\<open>internal/controller/incident_recovery.go\<close>), the controller that keeps its labels and
  conditions (\<^verbatim>\<open>incident_controller.go\<close>), and the rejection cooldown that stops a declined fix
  from being proposed again (\<^verbatim>\<open>rejection_cooldown.go\<close>). Cluster reads are parameters.
\<close>

subsection \<open>Durations in messages\<close>

definition maxDuration :: duration where
  "maxDuration = 2 ^ 63 - 1"

text \<open>\<^verbatim>\<open>Duration.Round(time.Second)\<close>: half away from zero, saturating.\<close>

definition roundSecond :: "duration \<Rightarrow> duration" where
  "roundSecond d =
     (let q = \<bar>d\<bar> div second; r = \<bar>d\<bar> mod second;
          m = (if 2 * r < second then q * second else (q + 1) * second)
      in if d < 0 then (if m \<le> maxDuration + 1 then - m else - (maxDuration + 1))
         else (if m \<le> maxDuration then m else maxDuration))"

definition trimZeros :: "string \<Rightarrow> string" where
  "trimZeros s = rev (dropWhile (\<lambda>c. c = CHR ''0'') (rev s))"

text \<open>\<^verbatim>\<open>Duration.String\<close> for zero and for durations of at least a second.\<close>

definition showDuration :: "duration \<Rightarrow> string" where
  "showDuration d =
     (let u = nat \<bar>d\<bar>; s = u div 1000000000; frac = trimZeros (padLeft 9 (showNat (u mod 1000000000)));
          sec = showNat (s mod 60) @ (if frac = [] then [] else ''.'' @ frac) @ ''s'';
          mins = s div 60;
          txt = (if mins = 0 then sec
                 else if mins div 60 = 0 then showNat (mins mod 60) @ ''m'' @ sec
                 else showNat (mins div 60) @ ''h'' @ showNat (mins mod 60) @ ''m'' @ sec)
      in if d < 0 then ''-'' @ txt else txt)"

subsection \<open>Recovery evidence (incident\_recovery.go)\<close>

definition RecoveryStabilityWindow :: duration where
  "RecoveryStabilityWindow = 6 * minute"

datatype recoveryVerdict = verdictHealthy | verdictUnknown | verdictBroken

record recoveryEvidence =
  ev_verdict :: recoveryVerdict
  ev_reason :: string

definition Recovered :: "recoveryEvidence \<Rightarrow> bool" where
  "Recovered e = (ev_verdict e = verdictHealthy)"

definition healthy :: "string \<Rightarrow> recoveryEvidence" where
  "healthy reason = \<lparr>ev_verdict = verdictHealthy, ev_reason = reason\<rparr>"

definition unknown :: "string \<Rightarrow> recoveryEvidence" where
  "unknown reason = \<lparr>ev_verdict = verdictUnknown, ev_reason = reason\<rparr>"

definition broken :: "string \<Rightarrow> recoveryEvidence" where
  "broken reason = \<lparr>ev_verdict = verdictBroken, ev_reason = reason\<rparr>"

definition resolutionAction :: "recoveryEvidence \<Rightarrow> string" where
  "resolutionAction e = ''auto-resolved'' @ '': '' @ ev_reason e"

definition incidentNamespace :: "IncidentMemory \<Rightarrow> string" where
  "incidentNamespace im =
     (let ns = pr_namespace (is_personaRef (im_spec im)) in if ns \<noteq> [] then ns else im_namespace im)"

definition incidentWorkloadName :: "IncidentMemory \<Rightarrow> string" where
  "incidentWorkloadName im = pr_name (is_personaRef (im_spec im))"

definition podReadyCondition :: "Pod \<Rightarrow> PodCondition option" where
  "podReadyCondition pod = List.find (\<lambda>c. pc_type c = ''Ready'') (po_conditions pod)"

definition containerRecoveryEvidence :: "string \<Rightarrow> ContainerStatus \<Rightarrow> time \<Rightarrow> recoveryEvidence" where
  "containerRecoveryEvidence podName cs now =
     (case cs_waiting cs of
        Some wt \<Rightarrow>
          broken (''container '' @ cs_name cs @ '' in pod '' @ podName @ '' is waiting: '' @ fst wt)
      | None \<Rightarrow>
          (if \<not> cs_ready cs \<and> cs_terminated cs = None then
             broken (''container '' @ cs_name cs @ '' in pod '' @ podName @ '' is not ready'')
           else (case cs_lastTerminated cs of
                   None \<Rightarrow> healthy ''container has not restarted''
                 | Some last' \<Rightarrow>
                     (if isZero (tm_finishedAt last') then healthy ''container has not restarted''
                      else let since = timeSub now (tm_finishedAt last') in
                        if since < RecoveryStabilityWindow then
                          broken (''container '' @ cs_name cs @ '' in pod '' @ podName @ '' last restarted '' @
                            showDuration (roundSecond since) @ '' ago ('' @ tm_reason last' @
                            ''), inside the 6m0s stability window'')
                        else healthy ''container has been up for the stability window''))))"

fun firstBroken :: "string \<Rightarrow> time \<Rightarrow> ContainerStatus list \<Rightarrow> recoveryEvidence option" where
  "firstBroken podName now [] = None"
| "firstBroken podName now (cs # css) =
     (let e = containerRecoveryEvidence podName cs now
      in if ev_verdict e = verdictBroken then Some e else firstBroken podName now css)"

definition podRecoveryEvidence :: "Pod \<Rightarrow> time \<Rightarrow> recoveryEvidence" where
  "podRecoveryEvidence pod now =
     (if po_deletionTimestamp pod \<noteq> None then unknown (''pod '' @ po_name pod @ '' is terminating'')
      else if po_phase pod = ''Succeeded'' then unknown (''pod '' @ po_name pod @ '' completed'')
      else if po_phase pod = ''Failed'' then
        broken (''pod '' @ po_name pod @ '' is in phase Failed ('' @ po_reason pod @ '')'')
      else (case podReadyCondition pod of
              None \<Rightarrow> broken (''pod '' @ po_name pod @ '' is not Ready'')
            | Some ready \<Rightarrow>
                (if pc_status ready \<noteq> ''True'' then broken (''pod '' @ po_name pod @ '' is not Ready'')
                 else let stableFor = timeSub now (pc_ltt ready) in
                   if stableFor < RecoveryStabilityWindow then
                     broken (''pod '' @ po_name pod @ '' has only been Ready for '' @
                       showDuration (roundSecond stableFor) @ '', and recovery needs 6m0s'')
                   else (case firstBroken (po_name pod) now
                                (po_containerStatuses pod @ po_initContainerStatuses pod) of
                           Some e \<Rightarrow> e
                         | None \<Rightarrow> healthy (''pod '' @ po_name pod @ '' is Ready and stable'')))))"

record 'w ClusterReader =
  cr_listPods :: "'w \<Rightarrow> string \<Rightarrow> goerr + Pod list"
  cr_listDeployments :: "'w \<Rightarrow> string \<Rightarrow> goerr + Deployment list"
  cr_listActions :: "'w \<Rightarrow> string option \<Rightarrow> (string \<times> string) list \<Rightarrow> goerr + RemediationAction list"

definition workloadPods :: "'w ClusterReader \<Rightarrow> 'w \<Rightarrow> IncidentMemory \<Rightarrow> string \<Rightarrow> goerr + Pod list" where
  "workloadPods c w im namespace =
     (case cr_listPods c w namespace of
        Inl e \<Rightarrow> Inl (Wrap (''listing pods in '' @ namespace) e)
      | Inr items \<Rightarrow>
          (let affected = map rr_name (filter (\<lambda>ref. rr_kind ref = ''Pod'' \<and>
                   (rr_namespace ref = [] \<or> rr_namespace ref = namespace))
                 (di_affectedResources (is_detection (im_spec im))));
               name = incidentWorkloadName im
           in Inr (filter (\<lambda>pod. po_name pod \<in> set affected \<or> NameClaimedByPersona (po_name pod) name) items)))"

definition verifyAbsentWorkload :: "'w ClusterReader \<Rightarrow> 'w \<Rightarrow> IncidentMemory \<Rightarrow> string \<Rightarrow> recoveryEvidence" where
  "verifyAbsentWorkload c w im namespace =
     (case cr_listDeployments c w namespace of
        Inl e \<Rightarrow> broken (''no pods were found and the Deployments could not be listed: '' @ err_text e)
      | Inr items \<Rightarrow>
          (case Resolve items (incidentWorkloadName im) of
             Inl amb \<Rightarrow> broken (''no pods were found and the workload is ambiguous: '' @ ambiguousText amb)
           | Inr (None, _) \<Rightarrow> healthy ''the workload has no pods and no Deployment: it is no longer running''
           | Inr (Some deploy, _) \<Rightarrow>
               (let desired = (case d_replicas deploy of Some n \<Rightarrow> n | None \<Rightarrow> 1)
                in if 0 < desired then
                     broken (''Deployment '' @ d_name deploy @ '' wants '' @ showInt desired @
                             '' running and none are'')
                   else healthy (''Deployment '' @ d_name deploy @ '' is scaled to zero''))))"

fun podLoop :: "time \<Rightarrow> nat \<Rightarrow> Pod list \<Rightarrow> recoveryEvidence + nat" where
  "podLoop now confirmed [] = Inr confirmed"
| "podLoop now confirmed (pod # pods) =
     (let e = podRecoveryEvidence pod now in
      if ev_verdict e = verdictBroken then Inl e
      else podLoop now (if ev_verdict e = verdictHealthy then confirmed + 1 else confirmed) pods)"

definition verifyRecovery :: "'w ClusterReader \<Rightarrow> 'w \<Rightarrow> IncidentMemory \<Rightarrow> time \<Rightarrow> recoveryEvidence" where
  "verifyRecovery c w im now =
     (let namespace = incidentNamespace im in
      if namespace = [] then
        broken ''the incident names no namespace, so its workload cannot be inspected''
      else (case workloadPods c w im namespace of
              Inl e \<Rightarrow>
                broken (''the workload'' @ [CHR 0x27] @ ''s pods could not be listed: '' @ err_text e)
            | Inr pods \<Rightarrow>
                (case podLoop now 0 pods of
                   Inl e \<Rightarrow> e
                 | Inr confirmed \<Rightarrow>
                     (if confirmed = 0 then verifyAbsentWorkload c w im namespace
                      else healthy (showNat confirmed @ '' pod(s) Ready with no restarts for 6m0s'')))))"

subsection \<open>Rejection cooldown (rejection\_cooldown.go)\<close>

definition primarySignalType :: "Diagnosis \<Rightarrow> string" where
  "primarySignalType diag =
     (case dg_contributing diag of [] \<Rightarrow> ''Unknown'' | c # _ \<Rightarrow> sg_type (con_signal c))"

definition targetUnchanged :: "Diagnosis \<Rightarrow> IncidentMemory \<Rightarrow> bool" where
  "targetUnchanged diag incident = (primarySignalType diag = di_signal (is_detection (im_spec incident)))"

definition severityEscalated :: "Diagnosis \<Rightarrow> IncidentMemory \<Rightarrow> bool" where
  "severityEscalated diag incident =
     (SeverityRank (is_severity (im_spec incident)) < SeverityRank (dg_severity diag))"

fun rejectionTimeLoop :: "Condition list \<Rightarrow> time option" where
  "rejectionTimeLoop [] = None"
| "rejectionTimeLoop (c # cs) =
     (if c_type c = ConditionRejected \<and> \<not> isZero (c_ltt c) then Some (c_ltt c) else rejectionTimeLoop cs)"

definition rejectionTime :: "RemediationAction \<Rightarrow> time option" where
  "rejectionTime ra = rejectionTimeLoop (ra_conditions ra)"

fun rejectionLoop :: "time \<Rightarrow> Diagnosis \<Rightarrow> IncidentMemory \<Rightarrow> RemediationAction list \<Rightarrow> string" where
  "rejectionLoop now diag incident [] = []"
| "rejectionLoop now diag incident (ra # ras) =
     (if ra_phase ra \<noteq> Rejected then rejectionLoop now diag incident ras
      else if ir_name (sp_incidentRef (ra_spec ra)) \<noteq> im_name incident then rejectionLoop now diag incident ras
      else if \<not> targetUnchanged diag incident then rejectionLoop now diag incident ras
      else if severityEscalated diag incident then rejectionLoop now diag incident ras
      else (case rejectionTime ra of
              None \<Rightarrow> ''remediation '' @ ra_name ra @
                      '' was rejected and its cooldown has not been timestamped yet''
            | Some rejectedAt \<Rightarrow>
                (let elapsed = timeSub now rejectedAt in
                 if elapsed < RejectionCooldown then
                   ''remediation '' @ ra_name ra @ '' was rejected '' @ showDuration (roundSecond elapsed) @
                   '' ago; not re-proposing for another '' @
                   showDuration (roundSecond (RejectionCooldown - elapsed))
                 else rejectionLoop now diag incident ras)))"

definition rejectionSuppressesProposal ::
  "'w ClusterReader \<Rightarrow> time \<Rightarrow> 'w \<Rightarrow> Diagnosis \<Rightarrow> IncidentMemory option \<Rightarrow> goerr + string" where
  "rejectionSuppressesProposal c now w diag incident =
     (case (incident, dg_personaRef diag) of
        (Some im, Some pref) \<Rightarrow>
          (let namespace = (if im_namespace im = [] then pr_namespace pref else im_namespace im);
               inNs = (if namespace \<noteq> [] then Some namespace else None);
               sel = (if pr_name pref \<noteq> [] then [(''dorgu.io/persona-name'', pr_name pref)] else [])
           in case cr_listActions c w inNs sel of
                Inl e \<Rightarrow> Inl (Wrap (''listing RemediationActions for incident '' @ im_name im) e)
              | Inr items \<Rightarrow> Inr (rejectionLoop now diag im items))
      | _ \<Rightarrow> Inr [])"

subsection \<open>Incident controller (incident\_controller.go)\<close>

abbreviation "LabelPersonaKind \<equiv> ''dorgu.io/persona-kind''"
abbreviation "LabelPersonaName \<equiv> ''dorgu.io/persona-name''"
abbreviation "LabelPersonaNamespace \<equiv> ''dorgu.io/persona-namespace''"
abbreviation "LabelCategory \<equiv> ''dorgu.io/category''"
abbreviation "LabelSeverity \<equiv> ''dorgu.io/severity''"
abbreviation "LabelSignal \<equiv> ''dorgu.io/signal''"
abbreviation "LabelAttribution \<equiv> ''dorgu.io/attribution''"
abbreviation "AttributionUnattributed \<equiv> ''unattributed''"
abbreviation "PhaseDetected \<equiv> ''Detected''"
abbreviation "PhaseInvestigating \<equiv> ''Investigating''"
abbreviation "ConditionDetected \<equiv> ''Detected''"
abbreviation "ConditionResolved \<equiv> ''Resolved''"
abbreviation "ConditionRecurring \<equiv> ''Recurring''"

record 'w IncidentClient =
  ic_get :: "'w \<Rightarrow> objkey \<Rightarrow> goerr + IncidentMemory"
  ic_update :: "'w \<Rightarrow> IncidentMemory \<Rightarrow> 'w \<times> goerr option"
  ic_statusUpdate :: "'w \<Rightarrow> IncidentMemory \<Rightarrow> 'w \<times> goerr option"
  ic_list :: "'w \<Rightarrow> string \<Rightarrow> (string \<times> string) list \<Rightarrow> goerr + IncidentMemory list"
  ic_getPersona :: "'w \<Rightarrow> objkey \<Rightarrow> goerr + ApplicationPersona"
  ic_statusUpdatePersona :: "'w \<Rightarrow> ApplicationPersona \<Rightarrow> 'w \<times> goerr option"
  ic_retry :: "('w \<Rightarrow> 'w \<times> goerr option) \<Rightarrow> 'w \<Rightarrow> 'w \<times> goerr option"
  ic_retryIncident :: "('w \<times> IncidentMemory \<Rightarrow> ('w \<times> IncidentMemory) \<times> goerr option) \<Rightarrow>
                       'w \<times> IncidentMemory \<Rightarrow> ('w \<times> IncidentMemory) \<times> goerr option"

definition expectedLabels :: "IncidentMemory \<Rightarrow> (string \<times> string) list" where
  "expectedLabels im =
     (let sp = im_spec im; ref = is_personaRef sp in
      [(LabelPersonaKind, pr_kind ref), (LabelPersonaName, pr_name ref),
       (LabelPersonaNamespace, pr_namespace ref), (LabelCategory, is_category sp),
       (LabelSeverity, is_severity sp), (LabelSignal, di_signal (is_detection sp))] @
      (if is_attribution sp \<noteq> [] then [(LabelAttribution, is_attribution sp)] else []) @
      (if ims_phase (im_status im) \<noteq> [] then [(LabelPhase, ims_phase (im_status im))] else []))"

definition setLabel :: "string \<times> string \<Rightarrow> (string \<times> string) list \<times> bool \<Rightarrow> (string \<times> string) list \<times> bool" where
  "setLabel kv st =
     (if getStr (fst st) (fst kv) \<noteq> snd kv then (AList.update (fst kv) (snd kv) (fst st), True) else st)"

definition ensureLabels :: "IncidentMemory \<Rightarrow> IncidentMemory \<times> bool" where
  "ensureLabels im =
     (let (lbls, changed) = fold setLabel (expectedLabels im) (im_labels im, False)
      in (im\<lparr>im_labels := lbls\<rparr>, changed))"

text \<open>The status, reason and message variables of the three conditions.\<close>

definition detectedState :: "IncidentMemory \<Rightarrow> ConditionStatus \<times> string \<times> string" where
  "detectedState im =
     (if ims_phase (im_status im) = PhaseDetected \<or> ims_phase (im_status im) = PhaseInvestigating
      then (CondTrue, ''SignalActive'', ''Incident detected: '' @ di_signal (is_detection (im_spec im)))
      else (CondFalse, ''NotDetected'', ''Incident is not in detected state''))"

definition resolvedState :: "IncidentMemory \<Rightarrow> ConditionStatus \<times> string \<times> string" where
  "resolvedState im =
     (if ims_phase (im_status im) = PhaseResolved
      then (CondTrue, ''SignalCleared'', ''Incident has been resolved'')
      else (CondFalse, ''NotResolved'', ''Incident is not resolved''))"

definition recurringState :: "IncidentMemory \<Rightarrow> ConditionStatus \<times> string \<times> string" where
  "recurringState im =
     (if 1 < ims_occurrenceCount (im_status im)
      then (CondTrue, ''MultipleOccurrences'',
            ''Incident has occurred '' @ showInt (ims_occurrenceCount (im_status im)) @ '' times'')
      else (CondFalse, ''FirstOccurrence'', ''This is the first occurrence''))"

definition setState ::
  "time \<Rightarrow> string \<Rightarrow> ConditionStatus \<times> string \<times> string \<Rightarrow> Condition list \<Rightarrow> Condition list" where
  "setState now ct st = setCondition now ct (fst st) (fst (snd st)) (snd (snd st))"

definition updateConditions :: "time \<Rightarrow> IncidentMemory \<Rightarrow> IncidentMemory" where
  "updateConditions now im =
     (let c1 = setState now ConditionDetected (detectedState im) (ims_conditions (im_status im));
          c2 = setState now ConditionResolved (resolvedState im) c1;
          c3 = setState now ConditionRecurring (recurringState im) c2
      in im\<lparr>im_status := (im_status im)\<lparr>ims_conditions := c3\<rparr>\<rparr>)"

definition activeCount :: "IncidentMemory list \<Rightarrow> int" where
  "activeCount items = int (length (filter (\<lambda>i. ims_phase (im_status i) \<noteq> PhaseResolved) items))"

definition latestOccurrence :: "IncidentMemory list \<Rightarrow> time option" where
  "latestOccurrence items =
     fold (\<lambda>i latest. case ims_lastOccurrence (im_status i) of
             None \<Rightarrow> latest
           | Some t \<Rightarrow> (case latest of None \<Rightarrow> Some t | Some l \<Rightarrow> if l < t then Some t else latest))
       items None"

definition syncPersonaStatus :: "'w IncidentClient \<Rightarrow> 'w \<Rightarrow> IncidentMemory \<Rightarrow> 'w \<times> goerr option" where
  "syncPersonaStatus c w im =
     (let ref = is_personaRef (im_spec im) in
      case ic_list c w (im_namespace im)
             [(LabelPersonaKind, ''ApplicationPersona''), (LabelPersonaName, pr_name ref)] of
        Inl e \<Rightarrow> (w, Some (Wrap ''listing incidents'' e))
      | Inr items \<Rightarrow>
          ic_retry c (\<lambda>v.
            case ic_getPersona c v (pr_namespace ref, pr_name ref) of
              Inl e \<Rightarrow> (v, Some e)
            | Inr current \<Rightarrow>
                (if ast_activeIncidents (p_status current) = activeCount items \<and>
                    ast_lastIncidentTime (p_status current) = latestOccurrence items then (v, None)
                 else ic_statusUpdatePersona c v
                        (current\<lparr>p_status := (p_status current)\<lparr>ast_activeIncidents := activeCount items,
                                 ast_lastIncidentTime := latestOccurrence items\<rparr>\<rparr>))) w)"

definition IncidentController_Reconcile ::
  "'w IncidentClient \<Rightarrow> time \<Rightarrow> 'w \<Rightarrow> objkey \<Rightarrow> 'w \<times> goerr option" where
  "IncidentController_Reconcile c now w key =
     (case ic_get c w key of
        Inl e \<Rightarrow> (w, if api_reason_of e = Some NotFound then None else Some e)
      | Inr im0 \<Rightarrow>
          (let (im1, changed) = ensureLabels im0;
               (w1, e1) = (if changed then ic_update c w im1 else (w, None))
           in case e1 of
                Some e \<Rightarrow> (w1, Some (Wrap ''updating labels'' e))
              | None \<Rightarrow>
                  (let im2 = updateConditions now im1;
                       ((w2, im3), e2) =
                         (if ims_conditions (im_status im2) \<noteq> ims_conditions (im_status im1) then
                            ic_retryIncident c (\<lambda>(v, im).
                              case ic_get c v key of
                                Inl e \<Rightarrow> ((v, im), Some e)
                              | Inr fresh \<Rightarrow>
                                  (let im' = updateConditions now fresh; (v', e) = ic_statusUpdate c v im'
                                   in ((v', im'), e))) (w1, im2)
                          else ((w1, im2), None))
                   in case e2 of
                        Some e \<Rightarrow> (w2, Some (Wrap ''updating conditions'' e))
                      | None \<Rightarrow>
                          (if pr_kind (is_personaRef (im_spec im3)) = ''ApplicationPersona'' \<and>
                              is_attribution (im_spec im3) \<noteq> AttributionUnattributed
                           then (fst (syncPersonaStatus c w2 im3), None)
                           else (w2, None)))))"

subsection \<open>Laws of recovery\<close>

lemma verdicts [simp]:
  "ev_verdict (healthy r) = verdictHealthy" "ev_verdict (unknown r) = verdictUnknown"
  "ev_verdict (broken r) = verdictBroken"
  by (simp_all add: healthy_def unknown_def broken_def)

definition container_stable :: "time \<Rightarrow> ContainerStatus \<Rightarrow> bool" where
  "container_stable now cs =
     (cs_waiting cs = None \<and> (cs_ready cs \<or> cs_terminated cs \<noteq> None) \<and>
      (case cs_lastTerminated cs of
         None \<Rightarrow> True
       | Some t \<Rightarrow> isZero (tm_finishedAt t) \<or> RecoveryStabilityWindow \<le> timeSub now (tm_finishedAt t)))"

definition pod_leaving :: "Pod \<Rightarrow> bool" where
  "pod_leaving pod = (po_deletionTimestamp pod \<noteq> None \<or> po_phase pod = ''Succeeded'')"

definition pod_stable :: "time \<Rightarrow> Pod \<Rightarrow> bool" where
  "pod_stable now pod =
     (\<not> pod_leaving pod \<and> po_phase pod \<noteq> ''Failed'' \<and>
      (\<exists>ready. podReadyCondition pod = Some ready \<and> pc_status ready = ''True'' \<and>
         RecoveryStabilityWindow \<le> timeSub now (pc_ltt ready)) \<and>
      (\<forall>cs \<in> set (po_containerStatuses pod) \<union> set (po_initContainerStatuses pod). container_stable now cs))"

lemma container_verdict:
  "ev_verdict (containerRecoveryEvidence n cs now) =
     (if container_stable now cs then verdictHealthy else verdictBroken)"
  unfolding containerRecoveryEvidence_def container_stable_def Let_def
  by (auto simp: not_less split: option.splits)

lemma firstBroken_None: "firstBroken n now css = None \<longleftrightarrow> (\<forall>cs \<in> set css. container_stable now cs)"
  by (induction css) (auto simp: Let_def container_verdict)

lemma firstBroken_Some: "firstBroken n now css = Some e \<Longrightarrow> ev_verdict e = verdictBroken"
  by (induction css) (auto simp: Let_def split: if_splits)

lemma pod_verdict:
  "ev_verdict (podRecoveryEvidence pod now) =
     (if pod_leaving pod then verdictUnknown else if pod_stable now pod then verdictHealthy else verdictBroken)"
proof (cases "pod_leaving pod")
  case True
  then show ?thesis by (auto simp: podRecoveryEvidence_def pod_leaving_def)
next
  case False
  let ?css = "po_containerStatuses pod @ po_initContainerStatuses pod"
  show ?thesis
  proof (cases "firstBroken (po_name pod) now ?css")
    case None
    then have "\<forall>cs \<in> set (po_containerStatuses pod) \<union> set (po_initContainerStatuses pod). container_stable now cs"
      unfolding firstBroken_None by simp
    with None False show ?thesis
      by (auto simp: podRecoveryEvidence_def pod_stable_def pod_leaving_def Let_def not_less split: option.splits)
  next
    case (Some e)
    then have "\<not> (\<forall>cs \<in> set ?css. container_stable now cs)"
      using firstBroken_None [of "po_name pod" now ?css] by auto
    then have "\<not> pod_stable now pod" by (simp add: pod_stable_def)
    with Some False firstBroken_Some [OF Some] show ?thesis
      by (auto simp: podRecoveryEvidence_def pod_leaving_def Let_def split: option.splits)
  qed
qed

lemma podLoop_broken: "podLoop now n pods = Inl e \<Longrightarrow> ev_verdict e = verdictBroken"
  by (induction pods arbitrary: n) (auto simp: Let_def split: if_splits)

lemma podLoop_Inr:
  "podLoop now n pods = Inr k \<longleftrightarrow>
     (\<forall>pod \<in> set pods. pod_leaving pod \<or> pod_stable now pod) \<and> k = n + length (filter (pod_stable now) pods)"
proof (induction pods arbitrary: n)
  case (Cons pod pods)
  have "pod_stable now pod \<Longrightarrow> \<not> pod_leaving pod" by (simp add: pod_stable_def)
  then show ?case using Cons by (auto simp: Let_def pod_verdict)
qed auto

text \<open>
  C10. An incident closes only on something seen. The evidence says recovered exactly if the incident
  names a namespace, its pods could be listed, every one of them is leaving or stable, and either
  one of them is stable, or the Deployments could be listed and the workload's Deployment does not
  exist or wants no replicas. A stable pod has been Ready for the whole window, and each of its
  containers is not waiting, is ready or finished, and did not restart within the window; so a pod
  in a crash loop keeps the incident open in every state of the cluster.
\<close>

theorem recovery_iff_seen:
  "Recovered (verifyRecovery c w im now) \<longleftrightarrow>
     incidentNamespace im \<noteq> [] \<and>
     (\<exists>pods. workloadPods c w im (incidentNamespace im) = Inr pods \<and>
        (\<forall>pod \<in> set pods. pod_leaving pod \<or> pod_stable now pod) \<and>
        ((\<exists>pod \<in> set pods. pod_stable now pod) \<or>
         (\<exists>items. cr_listDeployments c w (incidentNamespace im) = Inr items \<and>
            (\<exists>rung. Resolve items (incidentWorkloadName im) = Inr (None, rung) \<or>
               (\<exists>d n. Resolve items (incidentWorkloadName im) = Inr (Some d, rung) \<and>
                  d_replicas d = Some n \<and> n \<le> 0)))))"
proof (cases "incidentNamespace im = []")
  case True
  then show ?thesis by (simp add: verifyRecovery_def Recovered_def)
next
  case ns: False
  show ?thesis
  proof (cases "workloadPods c w im (incidentNamespace im)")
    case (Inl e)
    with ns show ?thesis by (simp add: verifyRecovery_def Recovered_def)
  next
    case (Inr pods)
    have absent: "Recovered (verifyAbsentWorkload c w im (incidentNamespace im)) \<longleftrightarrow>
        (\<exists>items. cr_listDeployments c w (incidentNamespace im) = Inr items \<and>
            (\<exists>rung. Resolve items (incidentWorkloadName im) = Inr (None, rung) \<or>
               (\<exists>d n. Resolve items (incidentWorkloadName im) = Inr (Some d, rung) \<and>
                  d_replicas d = Some n \<and> n \<le> 0)))"
      by (auto simp: verifyAbsentWorkload_def Recovered_def Let_def not_less
          split: sum.splits prod.splits option.splits)
    show ?thesis
    proof (cases "podLoop now 0 pods")
      case (Inl e)
      then have "\<not> (\<forall>pod \<in> set pods. pod_leaving pod \<or> pod_stable now pod)"
        using podLoop_Inr [of now 0 pods] by (metis Inl_Inr_False)
      with Inl Inr ns podLoop_broken [OF Inl] show ?thesis
        by (simp add: verifyRecovery_def Recovered_def)
    next
      case (Inr k)
      then have k: "\<forall>pod \<in> set pods. pod_leaving pod \<or> pod_stable now pod" "k = length (filter (pod_stable now) pods)"
        unfolding podLoop_Inr by simp_all
      have "k = 0 \<longleftrightarrow> \<not> (\<exists>pod \<in> set pods. pod_stable now pod)"
        unfolding k(2) by (auto simp: filter_empty_conv)
      with k(1) Inr \<open>workloadPods c w im (incidentNamespace im) = Inr pods\<close> ns absent show ?thesis
        by (auto simp: verifyRecovery_def Recovered_def Let_def)
    qed
  qed
qed

subsection \<open>Laws of the rejection cooldown\<close>

definition rejection_holds :: "time \<Rightarrow> Diagnosis \<Rightarrow> IncidentMemory \<Rightarrow> RemediationAction \<Rightarrow> bool" where
  "rejection_holds now diag im ra =
     (ra_phase ra = Rejected \<and> ir_name (sp_incidentRef (ra_spec ra)) = im_name im \<and>
      targetUnchanged diag im \<and> \<not> severityEscalated diag im \<and>
      (case rejectionTime ra of None \<Rightarrow> True | Some t \<Rightarrow> timeSub now t < RejectionCooldown))"

lemma rejectionLoop_iff:
  "rejectionLoop now diag im ras \<noteq> [] \<longleftrightarrow> (\<exists>ra \<in> set ras. rejection_holds now diag im ra)"
proof (induction ras)
  case (Cons ra ras)
  show ?case
  proof (cases "rejection_holds now diag im ra")
    case True
    then show ?thesis by (auto simp: rejection_holds_def Let_def split: option.splits)
  next
    case False
    then have "rejectionLoop now diag im (ra # ras) = rejectionLoop now diag im ras"
      by (auto simp: rejection_holds_def Let_def split: option.splits)
    with Cons False show ?thesis by simp
  qed
qed simp

lemma rejectionTime_stamped:
  assumes "\<not> hasCondition cs ConditionRejected" "\<not> isZero now"
  shows "rejectionTimeLoop (setCondition now ConditionRejected st rs m cs) = Some now"
  using assms by (induction cs) (auto simp: hasCondition_def)

text \<open>
  C39. A no is respected, once and for its question. When the persona's actions can be listed, a
  proposal is suppressed exactly if one of them is a Rejected action for this very incident, the
  diagnosis still has the incident's signal and is not more severe, and the rejection either has no
  timestamp yet or is younger than an hour. The timestamp the controller writes when it sees a
  rejection for the first time starts that hour.
\<close>

theorem rejection_suppresses_iff:
  assumes "dg_personaRef diag = Some pref" "rejectionSuppressesProposal c now w diag (Some im) = Inr reason"
    and "\<not> hasCondition (ra_conditions ra) ConditionRejected" "\<not> isZero stamped"
  shows "(\<exists>items. cr_listActions c w
        (let namespace = (if im_namespace im = [] then pr_namespace pref else im_namespace im)
         in if namespace \<noteq> [] then Some namespace else None)
        (if pr_name pref \<noteq> [] then [(''dorgu.io/persona-name'', pr_name pref)] else []) = Inr items \<and>
      (reason \<noteq> [] \<longleftrightarrow> (\<exists>b \<in> set items. rejection_holds now diag im b))) \<and>
    rejectionTime (set_ra_condition stamped ConditionRejected CondTrue ReasonUserRejected msg ra) = Some stamped"
proof
  show "\<exists>items. cr_listActions c w
        (let namespace = (if im_namespace im = [] then pr_namespace pref else im_namespace im)
         in if namespace \<noteq> [] then Some namespace else None)
        (if pr_name pref \<noteq> [] then [(''dorgu.io/persona-name'', pr_name pref)] else []) = Inr items \<and>
      (reason \<noteq> [] \<longleftrightarrow> (\<exists>b \<in> set items. rejection_holds now diag im b))"
    using assms(1,2) unfolding rejectionSuppressesProposal_def Let_def
    by (auto simp: rejectionLoop_iff [symmetric] split: sum.splits)
  show "rejectionTime (set_ra_condition stamped ConditionRejected CondTrue ReasonUserRejected msg ra) = Some stamped"
    unfolding rejectionTime_def ra_setters using assms(3,4) by (rule rejectionTime_stamped)
qed

subsection \<open>Laws of labels and conditions\<close>

lemma fold_setLabel:
  assumes "distinct (map fst wanted)"
  shows "getStr (fst (fold setLabel wanted (lbls, ch))) k =
           (case map_of wanted k of Some v \<Rightarrow> v | None \<Rightarrow> getStr lbls k) \<and>
         (snd (fold setLabel wanted (lbls, ch)) \<longleftrightarrow> ch \<or> (\<exists>kv \<in> set wanted. getStr lbls (fst kv) \<noteq> snd kv))"
  using assms
proof (induction wanted arbitrary: lbls ch)
  case (Cons kv wanted)
  obtain k' v' where kv: "kv = (k', v')" by fastforce
  have nk: "map_of wanted k' = None" using Cons.prems kv by (simp add: map_of_eq_None_iff)
  let ?l = "if getStr lbls k' \<noteq> v' then AList.update k' v' lbls else lbls"
  have st: "setLabel kv (lbls, ch) = (?l, ch \<or> getStr lbls k' \<noteq> v')" by (simp add: setLabel_def kv)
  have g: "getStr ?l j = (if j = k' then v' else getStr lbls j)" for j by (simp add: getStr_update)
  have same: "(\<exists>x \<in> set wanted. getStr ?l (fst x) \<noteq> snd x) \<longleftrightarrow> (\<exists>x \<in> set wanted. getStr lbls (fst x) \<noteq> snd x)"
    using Cons.prems kv unfolding g by (auto simp: image_iff split: if_splits)
  show ?case
    using Cons.IH [of ?l "ch \<or> getStr lbls k' \<noteq> v'"] Cons.prems nk
    unfolding fold_Cons comp_def st same by (auto simp: kv g split: option.splits)
qed simp

lemma expected_distinct: "distinct (map fst (expectedLabels im))"
  by (simp add: expectedLabels_def Let_def)

lemma expectedLabels_labels [simp]: "expectedLabels (im\<lparr>im_labels := l\<rparr>) = expectedLabels im"
  by (simp add: expectedLabels_def)

text \<open>
  Label maintenance converges. After one pass every expected label has its value and every other
  label is as before; the pass reports a change exactly if some expected label was missing or wrong,
  and a second pass reports none. So the controller never rewrites an incident that is up to date.
\<close>

theorem labels_converge:
  "getStr (im_labels (fst (ensureLabels im))) k =
     (case map_of (expectedLabels im) k of Some v \<Rightarrow> v | None \<Rightarrow> getStr (im_labels im) k) \<and>
   (snd (ensureLabels im) \<longleftrightarrow> (\<exists>kv \<in> set (expectedLabels im). getStr (im_labels im) (fst kv) \<noteq> snd kv)) \<and>
   \<not> snd (ensureLabels (fst (ensureLabels im)))"
proof -
  let ?im = "fst (ensureLabels im)"
  have law: "getStr (im_labels (fst (ensureLabels j))) k =
      (case map_of (expectedLabels j) k of Some v \<Rightarrow> v | None \<Rightarrow> getStr (im_labels j) k) \<and>
    (snd (ensureLabels j) \<longleftrightarrow> (\<exists>kv \<in> set (expectedLabels j). getStr (im_labels j) (fst kv) \<noteq> snd kv))" for j k
    using fold_setLabel [OF expected_distinct, of j "im_labels j" False k]
    by (simp add: ensureLabels_def case_prod_beta)
  have ex: "expectedLabels ?im = expectedLabels im" by (simp add: ensureLabels_def split: prod.splits)
  have "getStr (im_labels ?im) (fst kv) = snd kv" if "kv \<in> set (expectedLabels im)" for kv
  proof -
    have "map_of (expectedLabels im) (fst kv) = Some (snd kv)"
      using that expected_distinct by (metis map_of_is_SomeI prod.collapse)
    then show ?thesis using law [of im "fst kv"] by simp
  qed
  then have "\<not> snd (ensureLabels ?im)" using law [of ?im] unfolding ex by blast
  with law [of im k] show ?thesis by blast
qed

lemma setCondition_find:
  "List.find (\<lambda>c. c_type c = t) (setCondition now ct st rs m cs) =
     (if t = ct then
        Some (case List.find (\<lambda>c. c_type c = ct) cs of
                None \<Rightarrow> \<lparr>c_type = ct, c_status = st, c_reason = rs, c_message = m, c_ltt = now\<rparr>
              | Some c \<Rightarrow> if c_status c = st \<and> c_reason c = rs then c
                          else c\<lparr>c_status := st, c_reason := rs, c_message := m, c_ltt := now\<rparr>)
      else List.find (\<lambda>c. c_type c = t) cs)"
  by (induction cs) (auto split: option.splits)

lemma setCondition_noop:
  "List.find (\<lambda>c. c_type c = ct) cs = Some c \<Longrightarrow> c_status c = st \<Longrightarrow> c_reason c = rs \<Longrightarrow>
     setCondition now ct st rs m cs = cs"
  by (induction cs) (auto split: if_splits)

definition condition_is :: "Condition list \<Rightarrow> string \<Rightarrow> ConditionStatus \<Rightarrow> string \<Rightarrow> bool" where
  "condition_is cs ct st rs =
     (\<exists>c. List.find (\<lambda>c. c_type c = ct) cs = Some c \<and> c_status c = st \<and> c_reason c = rs)"

lemma condition_is_set:
  "condition_is (setCondition now ct st rs m cs) t s r \<longleftrightarrow>
     (if t = ct then s = st \<and> r = rs else condition_is cs t s r)"
  by (auto simp: condition_is_def setCondition_find split: option.splits)

lemma condition_is_noop: "condition_is cs ct st rs \<Longrightarrow> setCondition now ct st rs m cs = cs"
  by (auto simp: condition_is_def dest: setCondition_noop)

definition state_is :: "Condition list \<Rightarrow> string \<Rightarrow> ConditionStatus \<times> string \<times> string \<Rightarrow> bool" where
  "state_is cs ct st = condition_is cs ct (fst st) (fst (snd st))"

lemma updateConditions_fields [simp]:
  "im_spec (updateConditions now im) = im_spec im"
  "ims_phase (im_status (updateConditions now im)) = ims_phase (im_status im)"
  "ims_occurrenceCount (im_status (updateConditions now im)) = ims_occurrenceCount (im_status im)"
  by (simp_all add: updateConditions_def Let_def)

lemma updateConditions_states:
  "state_is (ims_conditions (im_status (updateConditions now im))) ConditionDetected (detectedState im)"
  "state_is (ims_conditions (im_status (updateConditions now im))) ConditionResolved (resolvedState im)"
  "state_is (ims_conditions (im_status (updateConditions now im))) ConditionRecurring (recurringState im)"
  by (simp_all add: updateConditions_def Let_def state_is_def setState_def condition_is_set)

lemma setState_noop: "state_is cs ct st \<Longrightarrow> fst st = fst st' \<Longrightarrow> fst (snd st) = fst (snd st') \<Longrightarrow> setState now ct st' cs = cs"
  by (simp add: state_is_def setState_def condition_is_noop)

lemma updateConditions_noop:
  assumes "state_is (ims_conditions (im_status im)) ConditionDetected (detectedState im)"
    and "state_is (ims_conditions (im_status im)) ConditionResolved (resolvedState im)"
    and "state_is (ims_conditions (im_status im)) ConditionRecurring st"
    and "fst st = fst (recurringState im)" "fst (snd st) = fst (snd (recurringState im))"
  shows "updateConditions now im = im"
  unfolding updateConditions_def Let_def
  using setState_noop [OF assms(1)] setState_noop [OF assms(2)] setState_noop [OF assms(3-5)] by simp

text \<open>
  Conditions mirror the incident and settle. After an update the Detected, Resolved and
  Recurring conditions carry the status and reason that follow from the phase and the occurrence
  count, and a further update at any later time changes nothing, not even a timestamp; so unchanged
  incidents cause no writes.
\<close>

theorem conditions_mirror_and_settle:
  "state_is (ims_conditions (im_status (updateConditions now im))) ConditionDetected (detectedState im) \<and>
   state_is (ims_conditions (im_status (updateConditions now im))) ConditionResolved (resolvedState im) \<and>
   state_is (ims_conditions (im_status (updateConditions now im))) ConditionRecurring (recurringState im) \<and>
   updateConditions later (updateConditions now im) = updateConditions now im"
proof -
  let ?im = "updateConditions now im"
  have "detectedState ?im = detectedState im" "resolvedState ?im = resolvedState im"
    "recurringState ?im = recurringState im"
    by (simp_all add: detectedState_def resolvedState_def recurringState_def)
  then have "updateConditions later ?im = ?im"
    using updateConditions_noop [of ?im "recurringState im" later] updateConditions_states [of now im] by simp
  then show ?thesis using updateConditions_states by simp
qed

text \<open>
  The occurrence count in the Recurring message is not kept up. Once an incident recurred, a
  higher count leaves the condition untouched, so the message keeps the count of the first update
  that saw a recurrence.
\<close>

theorem recurring_message_stale:
  assumes "1 < ims_occurrenceCount (im_status im)" "1 < n"
  shows "updateConditions later ((updateConditions now im)\<lparr>im_status :=
      (im_status (updateConditions now im))\<lparr>ims_occurrenceCount := n\<rparr>\<rparr>) =
    (updateConditions now im)\<lparr>im_status := (im_status (updateConditions now im))\<lparr>ims_occurrenceCount := n\<rparr>\<rparr>"
proof (rule updateConditions_noop)
  let ?im = "(updateConditions now im)\<lparr>im_status := (im_status (updateConditions now im))\<lparr>ims_occurrenceCount := n\<rparr>\<rparr>"
  have "detectedState ?im = detectedState im" "resolvedState ?im = resolvedState im"
    by (simp_all add: detectedState_def resolvedState_def)
  then show "state_is (ims_conditions (im_status ?im)) ConditionDetected (detectedState ?im)"
    "state_is (ims_conditions (im_status ?im)) ConditionResolved (resolvedState ?im)"
    using updateConditions_states [of now im] by simp_all
  show "state_is (ims_conditions (im_status ?im)) ConditionRecurring (recurringState im)"
    using updateConditions_states(3) [of now im] by simp
  show "fst (recurringState im) = fst (recurringState ?im)" "fst (snd (recurringState im)) = fst (snd (recurringState ?im))"
    using assms by (simp_all add: recurringState_def)
qed

end
