(* ===== verification/Sha256.thy ===== *)
theory Sha256
  imports Prelude "HOL-Library.Word"
begin

text \<open>
  The digest of package \<^verbatim>\<open>crypto/sha256\<close>, which the generated object names end with, and the
  \<^verbatim>\<open>%x\<close> verb on its first bytes. Words are 32 bits wide and additions wrap.
\<close>

unbundle bit_operations_syntax

type_synonym w32 = "32 word"

definition sha_K :: "w32 list" where
  "sha_K = [
    1116352408, 1899447441, 3049323471, 3921009573, 961987163, 1508970993, 2453635748, 2870763221,
    3624381080, 310598401, 607225278, 1426881987, 1925078388, 2162078206, 2614888103, 3248222580,
    3835390401, 4022224774, 264347078, 604807628, 770255983, 1249150122, 1555081692, 1996064986,
    2554220882, 2821834349, 2952996808, 3210313671, 3336571891, 3584528711, 113926993, 338241895,
    666307205, 773529912, 1294757372, 1396182291, 1695183700, 1986661051, 2177026350, 2456956037,
    2730485921, 2820302411, 3259730800, 3345764771, 3516065817, 3600352804, 4094571909, 275423344,
    430227734, 506948616, 659060556, 883997877, 958139571, 1322822218, 1537002063, 1747873779,
    1955562222, 2024104815, 2227730452, 2361852424, 2428436474, 2756734187, 3204031479, 3329325298]"

definition sha_init :: "w32 list" where
  "sha_init = [1779033703, 3144134277, 1013904242, 2773480762, 1359893119, 2600822924, 528734635, 1541459225]"

definition rotr :: "nat \<Rightarrow> w32 \<Rightarrow> w32" where
  "rotr n x = drop_bit n x OR push_bit (32 - n) x"

definition nextWord :: "w32 list \<Rightarrow> w32 list" where
  "nextWord ws =
     (let t = length ws; a = ws ! (t - 15); b = ws ! (t - 2);
          s0 = rotr 7 a XOR rotr 18 a XOR drop_bit 3 a;
          s1 = rotr 17 b XOR rotr 19 b XOR drop_bit 10 b
      in ws @ [ws ! (t - 16) + s0 + ws ! (t - 7) + s1])"

definition shaRound :: "w32 list \<Rightarrow> w32 \<times> w32 \<Rightarrow> w32 list" where
  "shaRound st kw =
     (let a = st ! 0; b = st ! 1; c = st ! 2; d = st ! 3; e = st ! 4; f = st ! 5; g = st ! 6; h = st ! 7;
          s1 = rotr 6 e XOR rotr 11 e XOR rotr 25 e;
          ch = (e AND f) XOR (NOT e AND g);
          t1 = h + s1 + ch + fst kw + snd kw;
          s0 = rotr 2 a XOR rotr 13 a XOR rotr 22 a;
          maj = (a AND b) XOR (a AND c) XOR (b AND c)
      in [t1 + s0 + maj, a, b, c, d + t1, e, f, g])"

fun bytesToWords :: "int list \<Rightarrow> w32 list" where
  "bytesToWords (a # b # c # d # bs) =
     of_int (((a * 256 + b) * 256 + c) * 256 + d) # bytesToWords bs"
| "bytesToWords _ = []"

definition shaBlock :: "int list \<Rightarrow> w32 list \<Rightarrow> w32 list" where
  "shaBlock block st =
     (let ws = (nextWord ^^ 48) (bytesToWords block)
      in map2 (+) st (foldl shaRound st (zip sha_K ws)))"

fun blocks :: "int list \<Rightarrow> int list list" where
  "blocks bs = (if length bs \<le> 64 then [bs] else take 64 bs # blocks (drop 64 bs))"

declare blocks.simps [simp del]

definition shaPad :: "int list \<Rightarrow> int list" where
  "shaPad bs =
     (let n = length bs; zeros = (119 - n mod 64) mod 64
      in bs @ [128] @ replicate zeros 0 @ map (\<lambda>i. (8 * int n) div 256 ^ (7 - i) mod 256) [0..<8])"

definition wordBytes :: "w32 \<Rightarrow> int list" where
  "wordBytes w = (let n = uint w in [n div 16777216 mod 256, n div 65536 mod 256, n div 256 mod 256, n mod 256])"

definition sha256 :: "string \<Rightarrow> int list" where
  "sha256 s = concat (map wordBytes (fold shaBlock (blocks (shaPad (map of_char s))) sha_init))"

definition hexDigits :: string where
  "hexDigits = ''0123456789abcdef''"

definition hexDigit :: "int \<Rightarrow> char" where
  "hexDigit n = hexDigits ! nat n"

definition hexByte :: "int \<Rightarrow> string" where
  "hexByte n = [hexDigit (n div 16), hexDigit (n mod 16)]"

text \<open>\<^verbatim>\<open>fmt.Sprintf("%x", hash[:n])\<close>.\<close>

definition hashHex :: "nat \<Rightarrow> string \<Rightarrow> string" where
  "hashHex n s = concat (map hexByte (take n (sha256 s)))"

subsection \<open>The shape of a digest\<close>

lemma length_shaRound [simp]: "length (shaRound st kw) = 8"
  by (simp add: shaRound_def Let_def)

lemma length_foldl_shaRound: "length st = 8 \<Longrightarrow> length (foldl shaRound st kws) = 8"
  by (induction kws arbitrary: st) simp_all

lemma length_fold_shaBlock: "length st = 8 \<Longrightarrow> length (fold shaBlock bss st) = 8"
  by (induction bss arbitrary: st) (simp_all add: shaBlock_def Let_def length_foldl_shaRound)

lemma sha256_bytes: "length (sha256 s) = 32" "n \<in> set (sha256 s) \<Longrightarrow> 0 \<le> n \<and> n < 256"
proof -
  have "length (fold shaBlock (blocks (shaPad (map of_char s))) sha_init) = 8"
    by (simp add: length_fold_shaBlock sha_init_def)
  then show "length (sha256 s) = 32"
    by (simp add: sha256_def length_concat wordBytes_def Let_def comp_def sum_list_triv)
qed (auto simp: sha256_def wordBytes_def Let_def)

lemma hexDigit_in: "0 \<le> m \<Longrightarrow> m < 16 \<Longrightarrow> hexDigit m \<in> set hexDigits"
  unfolding hexDigit_def by (rule nth_mem) (simp add: hexDigits_def)

lemma hashHex_shape:
  assumes "n \<le> 32"
  shows "length (hashHex n s) = 2 * n" "set (hashHex n s) \<subseteq> set hexDigits"
proof -
  show "length (hashHex n s) = 2 * n"
    using assms by (simp add: hashHex_def length_concat hexByte_def comp_def sum_list_triv sha256_bytes(1))
  have "set (hexByte b) \<subseteq> set hexDigits" if b: "b \<in> set (sha256 s)" for b
  proof -
    have "0 \<le> b div 16 \<and> b div 16 < 16" using sha256_bytes(2) [OF b] by presburger
    then show ?thesis using hexDigit_in [of "b div 16"] hexDigit_in [of "b mod 16"]
      by (simp add: hexByte_def)
  qed
  then show "set (hashHex n s) \<subseteq> set hexDigits"
    by (auto simp: hashHex_def dest!: in_set_takeD)
qed

end
