(* ===== verification/Names.thy ===== *)
theory Names
  imports Sha256
begin

text \<open>
  The generated object names: \<^verbatim>\<open>generateIncidentName\<close> of
  \<^verbatim>\<open>internal/controller/healthcheck_reconciler.go\<close>, \<^verbatim>\<open>generateActionName\<close> of
  \<^verbatim>\<open>internal/remediation/proposer.go\<close> and \<^verbatim>\<open>generateCRDName\<close> of \<^verbatim>\<open>internal/events/store.go\<close>, each
  over its arguments' text. All three end with twelve hex digits of a digest; the first two
  shorten the readable part, the third cuts the end.
\<close>

definition sanitizeByte :: "char \<Rightarrow> char" where
  "sanitizeByte c =
     (let n = of_char c :: nat in
      if (97 \<le> n \<and> n \<le> 122) \<or> (48 \<le> n \<and> n \<le> 57) \<or> c = CHR ''-'' then c
      else if 65 \<le> n \<and> n \<le> 90 then char_of (n + 32)
      else CHR ''-'')"

definition sanitizeName :: "string \<Rightarrow> string" where
  "sanitizeName s = map sanitizeByte s"

definition sanitizeActionName :: "string \<Rightarrow> string" where
  "sanitizeActionName s = map sanitizeByte s"

definition sanitizeK8sName :: "string \<Rightarrow> string" where
  "sanitizeK8sName s = map sanitizeByte s"

definition truncate :: "string \<Rightarrow> nat \<Rightarrow> string" where
  "truncate s maxLen = (if length s \<le> maxLen then s else take maxLen s)"

definition truncateStr :: "string \<Rightarrow> nat \<Rightarrow> string" where
  "truncateStr s maxLen = (if length s \<le> maxLen then s else take maxLen s)"

definition MaxIncidentNameLength :: nat where "MaxIncidentNameLength = 253"
definition incidentNameOverhead :: nat where "incidentNameOverhead = 18"
definition maxActionNameLength :: nat where "maxActionNameLength = 253"
definition actionNameOverhead :: nat where "actionNameOverhead = 18"
definition MaxK8sNameLength :: nat where "MaxK8sNameLength = 253"

definition generateIncidentName :: "string \<Rightarrow> string \<Rightarrow> string \<Rightarrow> string" where
  "generateIncidentName namespace persona signal =
     (let hashStr = hashHex 6 (namespace @ ''/'' @ persona @ ''/'' @ signal);
          maxSegmentLen = (MaxIncidentNameLength - incidentNameOverhead) div 3;
          ns = truncate (sanitizeName namespace) maxSegmentLen;
          p = truncate (sanitizeName persona) maxSegmentLen;
          sig = truncate (sanitizeName signal) maxSegmentLen
      in ''im-'' @ ns @ ''-'' @ p @ ''-'' @ sig @ ''-'' @ hashStr)"

text \<open>The incident enters with its namespace, name and persona; the clock as its nanoseconds.\<close>

definition generateActionName :: "string \<Rightarrow> string \<Rightarrow> string \<Rightarrow> string \<Rightarrow> int \<Rightarrow> string" where
  "generateActionName incidentNs incidentNm personaName actionType unixNano =
     (let hashStr = hashHex 6 (incidentNs @ ''/'' @ incidentNm @ ''/'' @ actionType @ ''/'' @ showInt unixNano);
          maxSegmentLen = (maxActionNameLength - actionNameOverhead) div 3;
          persona = truncateStr (sanitizeActionName personaName) maxSegmentLen;
          action = truncateStr (sanitizeActionName actionType) maxSegmentLen
      in ''ra-'' @ persona @ ''-'' @ action @ ''-'' @ hashStr)"

text \<open>The event enters with its involved object, category, reason and formatted time.\<close>

definition generateCRDName ::
  "string \<Rightarrow> string \<Rightarrow> string \<Rightarrow> string \<Rightarrow> string \<Rightarrow> string \<Rightarrow> string" where
  "generateCRDName ns kind objName category reason eventTime =
     (let hashStr = hashHex 6 (category @ ''/'' @ reason @ ''/'' @ eventTime);
          name = ''de-'' @ ns @ ''-'' @ sanitizeK8sName kind @ ''-'' @ sanitizeK8sName objName @ ''-'' @ hashStr
      in if MaxK8sNameLength < length name then take MaxK8sNameLength name else name)"

subsection \<open>Laws\<close>

text \<open>Lower case letters, digits and dashes, beginning and ending with a letter or digit.\<close>

definition label_char :: "char \<Rightarrow> bool" where
  "label_char c =
     (let n = of_char c :: nat in (97 \<le> n \<and> n \<le> 122) \<or> (48 \<le> n \<and> n \<le> 57) \<or> c = CHR ''-'')"

definition valid_name :: "string \<Rightarrow> bool" where
  "valid_name s = (s \<noteq> [] \<and> length s \<le> 253 \<and> list_all label_char s \<and> hd s \<noteq> CHR ''-'' \<and> last s \<noteq> CHR ''-'')"

lemma label_sanitizeByte [simp]: "label_char (sanitizeByte c)"
proof -
  have "of_char (char_of (n + 32) :: char) = n + 32" if "65 \<le> n" "n \<le> 90" for n :: nat
    using that by (simp add: of_char_of)
  then show ?thesis by (auto simp: label_char_def sanitizeByte_def Let_def)
qed

lemma label_hex: "set s \<subseteq> set hexDigits \<Longrightarrow> list_all label_char s \<and> CHR ''-'' \<notin> set s"
  by (auto simp: list_all_iff hexDigits_def label_char_def Let_def)

lemma list_all_take: "list_all P xs \<Longrightarrow> list_all P (take n xs)"
  by (auto simp: list_all_iff dest: in_set_takeD)

lemma truncate_shape:
  "length (truncate s n) \<le> n" "list_all P s \<Longrightarrow> list_all P (truncate s n)"
  "length (truncateStr s n) \<le> n" "list_all P s \<Longrightarrow> list_all P (truncateStr s n)"
  by (auto simp: truncate_def truncateStr_def list_all_take)

lemma valid_hash_name:
  assumes "list_all label_char pre" "pre \<noteq> []" "hd pre \<noteq> CHR ''-''" "length pre \<le> 241"
  shows "valid_name (pre @ hashHex 6 s)"
proof -
  have l: "length (hashHex 6 s) = 12" and h: "set (hashHex 6 s) \<subseteq> set hexDigits"
    using hashHex_shape [of 6 s] by simp_all
  then have ne: "hashHex 6 s \<noteq> []" by auto
  have "last (hashHex 6 s) \<noteq> CHR ''-''" using label_hex [OF h] last_in_set [OF ne] by metis
  then show ?thesis
    using assms l label_hex [OF h] ne by (auto simp: valid_name_def hd_append)
qed

lemma hash_suffix:
  assumes "a @ hashHex 6 s = b @ hashHex 6 t"
  shows "hashHex 6 s = hashHex 6 t"
  using assms hashHex_shape(1) [of 6 s] hashHex_shape(1) [of 6 t] by simp

lemma generateIncidentName_split:
  "\<exists>pre. generateIncidentName ns p sg = pre @ hashHex 6 (ns @ ''/'' @ p @ ''/'' @ sg) \<and>
     list_all label_char pre \<and> pre \<noteq> [] \<and> hd pre \<noteq> CHR ''-'' \<and> length pre \<le> 241"
proof -
  let ?m = "(MaxIncidentNameLength - incidentNameOverhead) div 3"
  let ?t = "\<lambda>s. truncate (sanitizeName s) ?m"
  let ?pre = "''im-'' @ ?t ns @ ''-'' @ ?t p @ ''-'' @ ?t sg @ ''-''"
  have m: "?m = 78" by (simp add: MaxIncidentNameLength_def incidentNameOverhead_def)
  have ok: "list_all label_char (?t s) \<and> length (?t s) \<le> 78" for s
    using truncate_shape(1) [of "sanitizeName s" ?m] truncate_shape(2) [of label_char "sanitizeName s" ?m] m
    by (simp add: sanitizeName_def list_all_iff)
  have "length ?pre \<le> 241" using ok [of ns] ok [of p] ok [of sg] by simp
  moreover have "list_all label_char ?pre" using ok by (simp add: label_char_def)
  moreover have "generateIncidentName ns p sg = ?pre @ hashHex 6 (ns @ ''/'' @ p @ ''/'' @ sg)"
    by (simp add: generateIncidentName_def Let_def)
  ultimately show ?thesis by (intro exI [of _ ?pre]) simp
qed

lemma slash_split:
  assumes "CHR ''/'' \<notin> set a" "CHR ''/'' \<notin> set b" "a @ ''/'' @ s = b @ ''/'' @ t"
  shows "a = b \<and> s = t"
proof -
  have w: "takeWhile (\<lambda>c. c \<noteq> CHR ''/'') (x @ CHR ''/'' # y) = x" if "CHR ''/'' \<notin> set x" for x y
    using that by (induction x) auto
  show ?thesis using assms w [OF assms(1), of s] w [OF assms(2), of t] by simp
qed

text \<open>
  Incident names identify their subject. A generated incident name is at most 253 bytes of
  lower-case letters, digits and dashes, begins with a letter and ends with a letter or digit,
  whatever the inputs. Two subjects whose namespaces and persona keys contain no slash get the
  same name only if they agree on namespace, persona key and signal, or the shortened digests of
  their identities collide: shortening the readable part never merges two incidents.
\<close>

theorem incident_names_identify:
  assumes "CHR ''/'' \<notin> set ns" "CHR ''/'' \<notin> set ns'" "CHR ''/'' \<notin> set p" "CHR ''/'' \<notin> set p'"
  shows "valid_name (generateIncidentName ns p sg) \<and>
    (generateIncidentName ns p sg = generateIncidentName ns' p' sg' \<longrightarrow>
       (ns = ns' \<and> p = p' \<and> sg = sg') \<or>
       (ns @ ''/'' @ p @ ''/'' @ sg \<noteq> ns' @ ''/'' @ p' @ ''/'' @ sg' \<and>
        hashHex 6 (ns @ ''/'' @ p @ ''/'' @ sg) = hashHex 6 (ns' @ ''/'' @ p' @ ''/'' @ sg')))"
proof
  show "valid_name (generateIncidentName ns p sg)"
    using generateIncidentName_split [of ns p sg] valid_hash_name by metis
  have inj: "ns = ns' \<and> p = p' \<and> sg = sg'" if "ns @ ''/'' @ p @ ''/'' @ sg = ns' @ ''/'' @ p' @ ''/'' @ sg'"
    using slash_split [OF assms(1,2) that] slash_split [OF assms(3,4), of sg sg'] by simp
  have "hashHex 6 (ns @ ''/'' @ p @ ''/'' @ sg) = hashHex 6 (ns' @ ''/'' @ p' @ ''/'' @ sg')"
    if "generateIncidentName ns p sg = generateIncidentName ns' p' sg'"
    using generateIncidentName_split [of ns p sg] generateIncidentName_split [of ns' p' sg'] that hash_suffix
    by metis
  then show "generateIncidentName ns p sg = generateIncidentName ns' p' sg' \<longrightarrow>
      (ns = ns' \<and> p = p' \<and> sg = sg') \<or>
      (ns @ ''/'' @ p @ ''/'' @ sg \<noteq> ns' @ ''/'' @ p' @ ''/'' @ sg' \<and>
       hashHex 6 (ns @ ''/'' @ p @ ''/'' @ sg) = hashHex 6 (ns' @ ''/'' @ p' @ ''/'' @ sg'))"
    using inj by blast
qed

text \<open>
  Long event names lose their digest. When the involved object's namespace, kind and name are
  together 247 bytes or longer, the name of a DorguEvent no longer depends on category, reason or
  time: every further event about the object has the name of the first one.
\<close>

theorem crd_name_loses_digest:
  assumes "247 \<le> length ns + length kind + length obj"
  shows "generateCRDName ns kind obj cat rs et = generateCRDName ns kind obj cat' rs' et'"
proof -
  let ?pre = "''de-'' @ ns @ ''-'' @ sanitizeK8sName kind @ ''-'' @ sanitizeK8sName obj @ ''-''"
  have l: "253 \<le> length ?pre" using assms by (simp add: sanitizeK8sName_def)
  have "generateCRDName ns kind obj c r e = take 253 ?pre" for c r e
  proof -
    let ?h = "hashHex 6 (c @ ''/'' @ r @ ''/'' @ e)"
    have "length ?h = 12" using hashHex_shape(1) [of 6] by simp
    then have "generateCRDName ns kind obj c r e = take 253 (?pre @ ?h)"
      using l by (simp add: generateCRDName_def Let_def MaxK8sNameLength_def)
    also have "\<dots> = take 253 ?pre" using l by (simp only: take_append diff_is_0_eq' take_0 append_Nil2)
    finally show ?thesis .
  qed
  then show ?thesis by simp
qed

end
