(* ===== verification/Events.thy ===== *)
theory Events
  imports Names Collectors
begin

text \<open>
  The event pipeline of \<^verbatim>\<open>internal/events\<close>: Kubernetes Events are classified
  (\<^verbatim>\<open>classifier.go\<close>), attributed to a persona (\<^verbatim>\<open>correlator.go\<close>), recorded as DorguEvents with
  deduplication (\<^verbatim>\<open>store.go\<close>), announced again as Kubernetes Events (\<^verbatim>\<open>emitter.go\<close>), all in the order
  of \<^verbatim>\<open>watcher.go\<close>; and pruned by age and by number (\<^verbatim>\<open>cleanup.go\<close>).

  One instant \<open>now\<close> stands for the clock readings of one call. Formatting a time depends on the
  zone of the process, so \<^verbatim>\<open>Time.Format\<close> is the parameter \<open>fmtTime\<close>, indexed by its layout.
\<close>

subsection \<open>Data (types.go, dorguevent\_types.go)\<close>

abbreviation "OperatorEventSource \<equiv> ''dorgu-operator''"
abbreviation "ReasonDorguDetected \<equiv> ''DorguDetected''"
abbreviation "EventTypeNormal \<equiv> ''Normal''"
abbreviation "EventTypeWarning \<equiv> ''Warning''"

text \<open>The fields of \<^verbatim>\<open>corev1.Event\<close> the pipeline reads.\<close>

record K8sEvent =
  ke_name :: string
  ke_uid :: string
  ke_creationTimestamp :: time
  ke_type :: string
  ke_reason :: string
  ke_message :: string
  ke_source :: string
  ke_reportingController :: string
  ke_kind :: string
  ke_objName :: string
  ke_objNamespace :: string
  ke_lastTimestamp :: time

record InternalEvent =
  ie_id :: string
  ie_severity :: string
  ie_category :: string
  ie_source :: string
  ie_reason :: string
  ie_message :: string
  ie_object :: ResourceReference
  ie_personaRef :: "PersonaReference option"
  ie_eventTime :: time
  ie_uid :: string
  ie_raw :: "K8sEvent option"

record DorguEvent =
  de_name :: string
  de_namespace :: string
  de_severity :: string
  de_category :: string
  de_source :: string
  de_message :: string
  de_object :: ResourceReference
  de_personaRef :: "PersonaReference option"
  de_incidentRef :: "IncidentReference option"
  de_eventTime :: time
  de_k8sEventRef :: string
  de_ttl :: "duration option"

definition de_key :: "DorguEvent \<Rightarrow> objkey" where
  "de_key e = (de_namespace e, de_name e)"

datatype layout = RFC3339 | RFC3339Nano

type_synonym formatter = "layout \<Rightarrow> time \<Rightarrow> string"

subsection \<open>Classifier (classifier.go)\<close>

record classificationRule =
  cl_category :: string
  cl_sev :: string
  cl_match :: "K8sEvent \<Rightarrow> bool"

definition reasonEquals :: "string \<Rightarrow> K8sEvent \<Rightarrow> bool" where
  "reasonEquals reason event = (ke_reason event = reason)"

definition clRule :: "string \<Rightarrow> string \<Rightarrow> (K8sEvent \<Rightarrow> bool) \<Rightarrow> classificationRule" where
  "clRule sev cat mt = \<lparr>cl_category = cat, cl_sev = sev, cl_match = mt\<rparr>"

definition defaultRules :: "classificationRule list" where
  "defaultRules =
     [clRule ''critical'' ''resource'' (reasonEquals ''OOMKilling''),
      clRule ''critical'' ''health'' (reasonEquals ''BackOff''),
      clRule ''warning'' ''deployment''
        (\<lambda>e. ke_reason e = ''Failed'' \<and> containsStr (ke_message e) ''ImagePullBackOff''),
      clRule ''warning'' ''deployment''
        (\<lambda>e. ke_reason e = ''Failed'' \<and> containsStr (ke_message e) ''ErrImagePull''),
      clRule ''critical'' ''resource'' (reasonEquals ''Evicted''),
      clRule ''warning'' ''resource'' (reasonEquals ''FailedScheduling''),
      clRule ''critical'' ''node'' (reasonEquals ''NodeNotReady''),
      clRule ''warning'' ''node'' (reasonEquals ''MemoryPressure''),
      clRule ''warning'' ''node'' (reasonEquals ''DiskPressure''),
      clRule ''warning'' ''node'' (reasonEquals ''PIDPressure''),
      clRule ''critical'' ''node'' (reasonEquals ''NetworkUnavailable''),
      clRule ''warning'' ''dependency'' (reasonEquals ''FailedMount''),
      clRule ''warning'' ''health'' (reasonEquals ''Unhealthy''),
      clRule ''info'' ''scaling'' (reasonEquals ''ScalingReplicaSet''),
      clRule ''info'' ''deployment'' (reasonEquals ''SuccessfulCreate'')]"

definition isSelfRecorded :: "K8sEvent \<Rightarrow> bool" where
  "isSelfRecorded event =
     (ke_source event = OperatorEventSource \<or> ke_reportingController event = OperatorEventSource)"

definition generateEventID :: "formatter \<Rightarrow> K8sEvent \<Rightarrow> string" where
  "generateEventID fmtTime event =
     hashHex 8 (ke_objNamespace event @ ''/'' @ ke_kind event @ ''/'' @ ke_objName event @ ''/'' @
       ke_reason event @ ''/'' @ fmtTime RFC3339 (ke_lastTimestamp event))"

definition toInternalEvent :: "formatter \<Rightarrow> time \<Rightarrow> K8sEvent \<Rightarrow> string \<Rightarrow> string \<Rightarrow> InternalEvent" where
  "toInternalEvent fmtTime now event severity category =
     (let t1 = ke_lastTimestamp event;
          t2 = (if isZero t1 then ke_creationTimestamp event else t1);
          eventTime = (if isZero t2 then now else t2)
      in \<lparr>ie_id = generateEventID fmtTime event, ie_severity = severity, ie_category = category,
          ie_source = ke_source event, ie_reason = ke_reason event, ie_message = ke_message event,
          ie_object = \<lparr>rr_kind = ke_kind event, rr_name = ke_objName event,
                       rr_namespace = ke_objNamespace event, rr_role = []\<rparr>,
          ie_personaRef = None, ie_eventTime = eventTime, ie_uid = ke_uid event, ie_raw = Some event\<rparr>)"

definition Classify :: "formatter \<Rightarrow> time \<Rightarrow> K8sEvent option \<Rightarrow> InternalEvent option" where
  "Classify fmtTime now ev =
     (case ev of
        None \<Rightarrow> None
      | Some event \<Rightarrow>
          (if isSelfRecorded event then None
           else (case List.find (\<lambda>rule. cl_match rule event) defaultRules of
                   Some rule \<Rightarrow> Some (toInternalEvent fmtTime now event (cl_sev rule) (cl_category rule))
                 | None \<Rightarrow>
                     (if ke_type event = EventTypeWarning
                      then Some (toInternalEvent fmtTime now event SeverityInfo ''health'') else None))))"

subsection \<open>Correlator (correlator.go)\<close>

record ReplicaSet =
  rset_owners :: "(string \<times> string) list"
  rset_labels :: "(string \<times> string) list"

record 'w CorrelatorReader =
  co_listClusterPersonas :: "'w \<Rightarrow> goerr + ClusterPersona list"
  co_listPersonas :: "'w \<Rightarrow> string \<Rightarrow> goerr + ApplicationPersona list"
  co_getPod :: "'w \<Rightarrow> objkey \<Rightarrow> goerr + Pod"
  co_getReplicaSet :: "'w \<Rightarrow> objkey \<Rightarrow> goerr + ReplicaSet"

definition appRef :: "ApplicationPersona \<Rightarrow> PersonaReference" where
  "appRef p = \<lparr>pr_kind = ''ApplicationPersona'', pr_name = p_name p, pr_namespace = p_namespace p\<rparr>"

definition findOwnerDeployment :: "(string \<times> string) list \<Rightarrow> string" where
  "findOwnerDeployment refs =
     (case List.find (\<lambda>ref. fst ref = ''Deployment'') refs of Some ref \<Rightarrow> snd ref | None \<Rightarrow> [])"

definition correlateNode :: "'w CorrelatorReader \<Rightarrow> 'w \<Rightarrow> InternalEvent \<Rightarrow> InternalEvent \<times> goerr option" where
  "correlateNode c w event =
     (case co_listClusterPersonas c w of
        Inl e \<Rightarrow> (event, Some (Wrap ''listing ClusterPersonas'' e))
      | Inr [] \<Rightarrow> (event, None)
      | Inr (cp # _) \<Rightarrow>
          (event\<lparr>ie_personaRef := Some \<lparr>pr_kind = ''ClusterPersona'', pr_name = cp_name cp, pr_namespace = []\<rparr>\<rparr>,
           None))"

definition matchDeploymentToPersona ::
  "'w CorrelatorReader \<Rightarrow> 'w \<Rightarrow> string \<Rightarrow> string \<Rightarrow> InternalEvent \<Rightarrow> InternalEvent \<times> goerr option" where
  "matchDeploymentToPersona c w namespace deploymentName event =
     (case co_listPersonas c w namespace of
        Inl e \<Rightarrow> (event, Some (Wrap ''listing ApplicationPersonas'' e))
      | Inr personas \<Rightarrow>
          (case List.find (\<lambda>p. p_specName p = deploymentName) personas of
             Some p \<Rightarrow> (event\<lparr>ie_personaRef := Some (appRef p)\<rparr>, None)
           | None \<Rightarrow>
               (case List.find (\<lambda>p. p_name p = deploymentName) personas of
                  Some p \<Rightarrow> (event\<lparr>ie_personaRef := Some (appRef p)\<rparr>, None)
                | None \<Rightarrow> (event, None))))"

definition matchLabelsToPersona ::
  "'w CorrelatorReader \<Rightarrow> 'w \<Rightarrow> string \<Rightarrow> (string \<times> string) list \<Rightarrow> InternalEvent \<Rightarrow>
   InternalEvent \<times> goerr option" where
  "matchLabelsToPersona c w namespace labels event =
     (let n1 = getStr labels ''app.kubernetes.io/name'';
          appName = (if n1 = [] then getStr labels ''app'' else n1)
      in if appName = [] then (event, None)
         else (case co_listPersonas c w namespace of
                 Inl e \<Rightarrow> (event, Some (Wrap ''listing ApplicationPersonas'' e))
               | Inr personas \<Rightarrow>
                   (case List.find (\<lambda>p. p_specName p = appName \<or> p_name p = appName) personas of
                      Some p \<Rightarrow> (event\<lparr>ie_personaRef := Some (appRef p)\<rparr>, None)
                    | None \<Rightarrow> (event, None))))"

definition correlateByNamespace ::
  "'w CorrelatorReader \<Rightarrow> 'w \<Rightarrow> InternalEvent \<Rightarrow> InternalEvent \<times> goerr option" where
  "correlateByNamespace c w event =
     (let ns = rr_namespace (ie_object event) in
      if ns = [] then (event, None)
      else (case co_listPersonas c w ns of
              Inl e \<Rightarrow> (event, Some (Wrap ''listing ApplicationPersonas'' e))
            | Inr [p] \<Rightarrow> (event\<lparr>ie_personaRef := Some (appRef p)\<rparr>, None)
            | Inr _ \<Rightarrow> (event, None)))"

text \<open>\<^verbatim>\<open>correlatePod\<close> and \<^verbatim>\<open>correlateReplicaSet\<close>: both take the owners and labels of a fetched object.\<close>

definition correlateOwned ::
  "'w CorrelatorReader \<Rightarrow> 'w \<Rightarrow> goerr + (string \<times> string) list \<times> (string \<times> string) list \<Rightarrow> InternalEvent \<Rightarrow>
   InternalEvent \<times> goerr option" where
  "correlateOwned c w got event =
     (let ns = rr_namespace (ie_object event) in
      case got of
        Inl _ \<Rightarrow> correlateByNamespace c w event
      | Inr (owners, labels) \<Rightarrow>
          (let deploymentName = findOwnerDeployment owners in
           if deploymentName \<noteq> [] then matchDeploymentToPersona c w ns deploymentName event
           else matchLabelsToPersona c w ns labels event))"

definition correlatePod :: "'w CorrelatorReader \<Rightarrow> 'w \<Rightarrow> InternalEvent \<Rightarrow> InternalEvent \<times> goerr option" where
  "correlatePod c w event =
     (let ns = rr_namespace (ie_object event) in
      if ns = [] then (event, None)
      else correlateOwned c w (map_sum id (\<lambda>pod. (po_owners pod, po_labels pod))
             (co_getPod c w (ns, rr_name (ie_object event)))) event)"

definition correlateReplicaSet :: "'w CorrelatorReader \<Rightarrow> 'w \<Rightarrow> InternalEvent \<Rightarrow> InternalEvent \<times> goerr option" where
  "correlateReplicaSet c w event =
     (let ns = rr_namespace (ie_object event) in
      if ns = [] then (event, None)
      else correlateOwned c w (map_sum id (\<lambda>rs. (rset_owners rs, rset_labels rs))
             (co_getReplicaSet c w (ns, rr_name (ie_object event)))) event)"

definition correlateDeployment :: "'w CorrelatorReader \<Rightarrow> 'w \<Rightarrow> InternalEvent \<Rightarrow> InternalEvent \<times> goerr option" where
  "correlateDeployment c w event =
     (let ns = rr_namespace (ie_object event) in
      if ns = [] then (event, None)
      else matchDeploymentToPersona c w ns (rr_name (ie_object event)) event)"

definition CorrelateEvent :: "'w CorrelatorReader \<Rightarrow> 'w \<Rightarrow> InternalEvent \<Rightarrow> InternalEvent \<times> goerr option" where
  "CorrelateEvent c w event =
     (if ie_personaRef event \<noteq> None then (event, None)
      else let kind = rr_kind (ie_object event) in
        if kind = ''Node'' then correlateNode c w event
        else if kind = ''Pod'' then correlatePod c w event
        else if kind = ''ReplicaSet'' then correlateReplicaSet c w event
        else if kind = ''Deployment'' then correlateDeployment c w event
        else correlateByNamespace c w event)"

subsection \<open>Store (store.go)\<close>

definition maxDedupEntries :: nat where "maxDedupEntries = 1000"
definition DefaultDedupWindow :: duration where "DefaultDedupWindow = 5 * minute"
definition DefaultTTL :: duration where "DefaultTTL = 24 * hour"

record HybridEventStore =
  hs_dedupWindow :: duration
  hs_ttl :: duration
  hs_dedupMap :: "(string \<times> time) list"

definition WithDedupWindow :: "duration \<Rightarrow> HybridEventStore \<Rightarrow> HybridEventStore" where
  "WithDedupWindow d s = s\<lparr>hs_dedupWindow := d\<rparr>"

definition WithTTL :: "duration \<Rightarrow> HybridEventStore \<Rightarrow> HybridEventStore" where
  "WithTTL d s = s\<lparr>hs_ttl := d\<rparr>"

definition NewEventStore :: "(HybridEventStore \<Rightarrow> HybridEventStore) list \<Rightarrow> HybridEventStore" where
  "NewEventStore opts =
     fold (\<lambda>opt s. opt s) opts \<lparr>hs_dedupWindow = DefaultDedupWindow, hs_ttl = DefaultTTL, hs_dedupMap = []\<rparr>"

definition dedupKey :: "InternalEvent \<Rightarrow> string" where
  "dedupKey event =
     ie_source event @ ''/'' @ rr_namespace (ie_object event) @ ''/'' @ rr_name (ie_object event) @ ''/'' @
     ie_category event @ ''/'' @ ie_reason event"

definition checkAndMarkSeen :: "time \<Rightarrow> string \<Rightarrow> HybridEventStore \<Rightarrow> HybridEventStore \<times> bool" where
  "checkAndMarkSeen now key s =
     (if (case map_of (hs_dedupMap s) key of
            Some lastSeen \<Rightarrow> timeSub now lastSeen < hs_dedupWindow s | None \<Rightarrow> False)
      then (s, True)
      else let marked = AList.update key now (hs_dedupMap s);
               kept = (if maxDedupEntries < length marked
                       then filter (\<lambda>kt. \<not> hs_dedupWindow s < timeSub now (snd kt)) marked else marked)
           in (s\<lparr>hs_dedupMap := kept\<rparr>, False))"

record 'w EventClient =
  ec_create :: "'w \<Rightarrow> DorguEvent \<Rightarrow> 'w \<times> goerr option"
  ec_list :: "'w \<Rightarrow> goerr + DorguEvent list"
  ec_delete :: "'w \<Rightarrow> DorguEvent \<Rightarrow> 'w \<times> goerr option"

definition dorguEvent :: "formatter \<Rightarrow> HybridEventStore \<Rightarrow> InternalEvent \<Rightarrow> DorguEvent" where
  "dorguEvent fmtTime s event =
     (let obj = ie_object event in
      \<lparr>de_name = generateCRDName (rr_namespace obj) (rr_kind obj) (rr_name obj) (ie_category event)
                   (ie_reason event) (fmtTime RFC3339Nano (ie_eventTime event)),
       de_namespace = (if rr_namespace obj = [] then ''default'' else rr_namespace obj),
       de_severity = ie_severity event, de_category = ie_category event, de_source = ie_source event,
       de_message = ie_message event,
       de_object = \<lparr>rr_kind = rr_kind obj, rr_name = rr_name obj, rr_namespace = rr_namespace obj, rr_role = []\<rparr>,
       de_personaRef = ie_personaRef event, de_incidentRef = None, de_eventTime = ie_eventTime event,
       de_k8sEventRef = ie_uid event, de_ttl = Some (hs_ttl s)\<rparr>)"

definition persistCRD ::
  "'w EventClient \<Rightarrow> formatter \<Rightarrow> HybridEventStore \<Rightarrow> 'w \<Rightarrow> InternalEvent \<Rightarrow> 'w \<times> goerr option" where
  "persistCRD c fmtTime s w event =
     (let de = dorguEvent fmtTime s event in
      case ec_create c w de of
        (w', None) \<Rightarrow> (w', None)
      | (w', Some e) \<Rightarrow>
          (if api_reason_of e = Some AlreadyExists then (w', None)
           else (w', Some (Wrap (''creating DorguEvent '' @ de_namespace de @ ''/'' @ de_name de) e))))"

definition StoreEvent ::
  "'w EventClient \<Rightarrow> formatter \<Rightarrow> time \<Rightarrow> HybridEventStore \<times> 'w \<Rightarrow> InternalEvent option \<Rightarrow>
   (HybridEventStore \<times> 'w) \<times> goerr option" where
  "StoreEvent c fmtTime now st ev =
     (case ev of
        None \<Rightarrow> (st, None)
      | Some event \<Rightarrow>
          (case checkAndMarkSeen now (dedupKey event) (fst st) of
             (s', True) \<Rightarrow> ((s', snd st), None)
           | (s', False) \<Rightarrow>
               (case persistCRD c fmtTime s' (snd st) event of
                  (w', None) \<Rightarrow> ((s', w'), None)
                | (w', Some e) \<Rightarrow> ((s', w'), Some (Wrap ''persisting DorguEvent CRD'' e)))))"

subsection \<open>Emitter (emitter.go)\<close>

definition apiVersionForKind :: "string \<Rightarrow> string" where
  "apiVersionForKind kind =
     (if kind \<in> {''Pod'', ''Node'', ''Service'', ''ComponentStatus'', ''Event'', ''Namespace'', ''PersistentVolumeClaim''}
      then ''v1''
      else if kind \<in> {''Deployment'', ''ReplicaSet'', ''StatefulSet'', ''DaemonSet''} then ''apps/v1''
      else if kind = ''Lease'' then ''coordination.k8s.io/v1''
      else if kind \<in> {''ApplicationPersona'', ''ClusterPersona'', ''IncidentMemory'', ''RemediationAction'', ''DorguEvent''}
      then ''dorgu.io/v1'' else [])"

record ObjectRef =
  oref_kind :: string
  oref_name :: string
  oref_namespace :: string
  oref_apiVersion :: string

definition involvedObjectRef :: "ResourceReference \<Rightarrow> goerr + ObjectRef" where
  "involvedObjectRef obj =
     (if rr_kind obj = [] \<or> rr_name obj = [] then
        Inl (Err (''involved object needs both a kind and a name, got kind='' @ quoteQ (rr_kind obj) @
                  '' name='' @ quoteQ (rr_name obj)))
      else Inr \<lparr>oref_kind = rr_kind obj, oref_name = rr_name obj, oref_namespace = rr_namespace obj,
                oref_apiVersion = apiVersionForKind (rr_kind obj)\<rparr>)"

text \<open>The arguments of the one call of \<^verbatim>\<open>EventRecorder.Event\<close>.\<close>

record Emission =
  em_ref :: ObjectRef
  em_type :: string
  em_reason :: string
  em_message :: string

definition Emit :: "InternalEvent option \<Rightarrow> goerr + Emission option" where
  "Emit ev =
     (case ev of
        None \<Rightarrow> Inr None
      | Some event \<Rightarrow>
          (case involvedObjectRef (ie_object event) of
             Inl e \<Rightarrow> Inl (Wrap (''emitting '' @ quoteQ (ie_source event) @ '' event'') e)
           | Inr ref \<Rightarrow>
               Inr (Some \<lparr>em_ref = ref,
                 em_type = (if ie_severity event = ''warning'' \<or> ie_severity event = ''critical''
                            then EventTypeWarning else EventTypeNormal),
                 em_reason = (if ie_reason event = [] then ReasonDorguDetected else ie_reason event),
                 em_message = ''[dorgu] '' @ ie_severity event @ '': '' @ ie_message event\<rparr>)))"

subsection \<open>Watcher (watcher.go)\<close>

definition DefaultStartupWindow :: duration where "DefaultStartupWindow = 10 * minute"

record 'w Watcher =
  wa_format :: formatter
  wa_reader :: "'w CorrelatorReader"
  wa_client :: "'w EventClient"
  wa_recorder :: "('w \<Rightarrow> Emission \<Rightarrow> 'w) option"
  wa_startupTime :: time

definition isOldEvent :: "'w Watcher \<Rightarrow> K8sEvent \<Rightarrow> bool" where
  "isOldEvent wt event =
     (let t1 = ke_lastTimestamp event; t = (if isZero t1 then ke_creationTimestamp event else t1)
      in if isZero t then False else t < wa_startupTime wt - DefaultStartupWindow)"

definition processEvent ::
  "'w Watcher \<Rightarrow> time \<Rightarrow> HybridEventStore \<times> 'w \<Rightarrow> K8sEvent \<Rightarrow> HybridEventStore \<times> 'w" where
  "processEvent wt now st event =
     (if isOldEvent wt event then st
      else (case Classify (wa_format wt) now (Some event) of
              None \<Rightarrow> st
            | Some classified \<Rightarrow>
                (let internal = fst (CorrelateEvent (wa_reader wt) (snd st) classified) in
                 case StoreEvent (wa_client wt) (wa_format wt) now st (Some internal) of
                   (st', Some _) \<Rightarrow> st'
                 | (st', None) \<Rightarrow>
                     (case wa_recorder wt of
                        None \<Rightarrow> st'
                      | Some recorder \<Rightarrow>
                          (case Emit (Some internal) of
                             Inr (Some em) \<Rightarrow> (fst st', recorder (snd st') em)
                           | _ \<Rightarrow> st')))))"

subsection \<open>Cleaner (cleanup.go)\<close>

record Cleaner =
  cn_interval :: duration
  cn_batchSize :: nat
  cn_retention :: duration
  cn_maxRecords :: int

definition WithCleanupInterval :: "duration \<Rightarrow> Cleaner \<Rightarrow> Cleaner" where
  "WithCleanupInterval d c = c\<lparr>cn_interval := d\<rparr>"

definition WithBatchSize :: "nat \<Rightarrow> Cleaner \<Rightarrow> Cleaner" where
  "WithBatchSize n c = c\<lparr>cn_batchSize := n\<rparr>"

definition WithRetention :: "duration \<Rightarrow> Cleaner \<Rightarrow> Cleaner" where
  "WithRetention d c = c\<lparr>cn_retention := d\<rparr>"

definition WithMaxRecords :: "int \<Rightarrow> Cleaner \<Rightarrow> Cleaner" where
  "WithMaxRecords n c = c\<lparr>cn_maxRecords := n\<rparr>"

definition NewCleaner :: "(Cleaner \<Rightarrow> Cleaner) list \<Rightarrow> Cleaner" where
  "NewCleaner opts =
     fold (\<lambda>opt c. opt c) opts
       \<lparr>cn_interval = 30 * minute, cn_batchSize = 200, cn_retention = DefaultTTL, cn_maxRecords = 2000\<rparr>"

definition isExpired :: "DorguEvent \<Rightarrow> duration \<Rightarrow> time \<Rightarrow> bool" where
  "isExpired de fallbackTTL now =
     (let ttl = (case de_ttl de of Some t \<Rightarrow> t | None \<Rightarrow> fallbackTTL)
      in de_eventTime de + ttl < now)"

definition selectForDeletion :: "Cleaner \<Rightarrow> DorguEvent list \<Rightarrow> time \<Rightarrow> DorguEvent list \<times> DorguEvent list" where
  "selectForDeletion c items now =
     (let expired = filter (\<lambda>de. isExpired de (cn_retention c) now) items;
          kept = filter (\<lambda>de. \<not> isExpired de (cn_retention c) now) items
      in if cn_maxRecords c \<le> 0 \<or> int (length kept) \<le> cn_maxRecords c then (expired, [])
         else (expired, take (length kept - nat (cn_maxRecords c)) (sort_key de_eventTime kept)))"

fun deleteLoop :: "'w EventClient \<Rightarrow> 'w \<Rightarrow> DorguEvent list \<Rightarrow> 'w" where
  "deleteLoop c w [] = w"
| "deleteLoop c w (de # des) = deleteLoop c (fst (ec_delete c w de)) des"

definition cleanup :: "Cleaner \<Rightarrow> 'w EventClient \<Rightarrow> time \<Rightarrow> 'w \<Rightarrow> 'w \<times> goerr option" where
  "cleanup c cl now w =
     (case ec_list cl w of
        Inl e \<Rightarrow> (w, Some (Wrap ''listing DorguEvents'' e))
      | Inr items \<Rightarrow>
          (let (expired, surplus) = selectForDeletion c items now;
               doomed = expired @ surplus
           in (deleteLoop cl w (if cn_batchSize c < length doomed then take (cn_batchSize c) doomed else doomed),
               None)))"

subsection \<open>Deduplication\<close>

text \<open>The verdicts of the store on a sequence of occurrences, and of one that never forgets a key.\<close>

fun seenVerdicts :: "HybridEventStore \<Rightarrow> (time \<times> string) list \<Rightarrow> bool list" where
  "seenVerdicts s [] = []"
| "seenVerdicts s ((now, key) # occs) =
     (case checkAndMarkSeen now key s of (s', dup) \<Rightarrow> dup # seenVerdicts s' occs)"

fun refVerdicts :: "duration \<Rightarrow> (string \<Rightarrow> time option) \<Rightarrow> (time \<times> string) list \<Rightarrow> bool list" where
  "refVerdicts d recorded [] = []"
| "refVerdicts d recorded ((now, key) # occs) =
     (if \<exists>t. recorded key = Some t \<and> timeSub now t < d
      then True # refVerdicts d recorded occs
      else False # refVerdicts d (recorded(key \<mapsto> now)) occs)"

text \<open>What the store may have forgotten by \<open>now\<close>.\<close>

definition forgets :: "duration \<Rightarrow> time \<Rightarrow> (string \<times> time) list \<Rightarrow> (string \<Rightarrow> time option) \<Rightarrow> bool" where
  "forgets d now m recorded =
     (distinct (map fst m) \<and>
      (\<forall>k. map_of m k = recorded k \<or> (map_of m k = None \<and> (\<exists>t. recorded k = Some t \<and> d < timeSub now t))))"

lemma map_of_filter_snd:
  "distinct (map fst m) \<Longrightarrow>
   map_of (filter (\<lambda>kt. P (snd kt)) m) k = (case map_of m k of Some t \<Rightarrow> if P t then Some t else None | None \<Rightarrow> None)"
  by (induction m) (auto split: option.splits simp: map_of_eq_None_iff image_iff)

lemma forgetsD:
  "forgets d now m rec \<Longrightarrow>
   map_of m k = rec k \<or> (map_of m k = None \<and> (\<exists>t. rec k = Some t \<and> d < timeSub now t))"
  by (simp add: forgets_def)

lemma forgets_later: "forgets d now m rec \<Longrightarrow> now \<le> now' \<Longrightarrow> forgets d now' m rec"
  unfolding forgets_def by (meson less_le_trans timeSub_mono)

lemma forgets_prune:
  assumes "forgets d now m rec"
  shows "forgets d now (filter (\<lambda>kt. \<not> d < timeSub now (snd kt)) m) rec"
proof -
  have dist: "distinct (map fst m)" using assms by (simp add: forgets_def)
  have "map_of (filter (\<lambda>kt. \<not> d < timeSub now (snd kt)) m) k = rec k \<or>
      (map_of (filter (\<lambda>kt. \<not> d < timeSub now (snd kt)) m) k = None \<and>
       (\<exists>t. rec k = Some t \<and> d < timeSub now t))" for k
    using forgetsD [OF assms, of k] unfolding map_of_filter_snd [OF dist, where P = "\<lambda>t. \<not> d < timeSub now t"]
    by (cases "rec k") (auto split: option.splits)
  then show ?thesis using dist by (simp add: forgets_def distinct_map_filter)
qed

lemma forgets_mark: "forgets d now m rec \<Longrightarrow> forgets d now (AList.update k now m) (rec(k \<mapsto> now))"
  unfolding forgets_def by (simp add: distinct_update)

lemma checkAndMarkSeen_step:
  assumes "forgets (hs_dedupWindow s) now (hs_dedupMap s) rec" "checkAndMarkSeen now key s = (s', dup)"
  shows "dup = (\<exists>t. rec key = Some t \<and> timeSub now t < hs_dedupWindow s) \<and>
    hs_dedupWindow s' = hs_dedupWindow s \<and>
    forgets (hs_dedupWindow s) now (hs_dedupMap s') (if dup then rec else rec(key \<mapsto> now))"
proof -
  let ?d = "hs_dedupWindow s"
  let ?test = "case map_of (hs_dedupMap s) key of Some t \<Rightarrow> timeSub now t < ?d | None \<Rightarrow> False"
  have test: "?test = (\<exists>t. rec key = Some t \<and> timeSub now t < ?d)"
    using forgetsD [OF assms(1), of key] by (cases "rec key") (auto split: option.splits)
  show ?thesis
  proof (cases ?test)
    case True
    with assms test show ?thesis by (auto simp: checkAndMarkSeen_def)
  next
    case False
    let ?m = "AList.update key now (hs_dedupMap s)"
    have "forgets ?d now ?m (rec(key \<mapsto> now))" using forgets_mark [OF assms(1)] .
    with forgets_prune [OF this] assms(2) False test show ?thesis
      by (auto simp: checkAndMarkSeen_def Let_def split: if_splits)
  qed
qed

lemma verdicts_agree:
  "forgets (hs_dedupWindow s) start (hs_dedupMap s) rec \<Longrightarrow> sorted (map fst occs) \<Longrightarrow>
   (\<forall>o' \<in> set occs. start \<le> fst o') \<Longrightarrow> seenVerdicts s occs = refVerdicts (hs_dedupWindow s) rec occs"
proof (induction occs arbitrary: s start rec)
  case (Cons occ occs)
  obtain now key where occ: "occ = (now, key)" by fastforce
  obtain s' dup where step: "checkAndMarkSeen now key s = (s', dup)" by fastforce
  have "forgets (hs_dedupWindow s) now (hs_dedupMap s) rec"
    using Cons.prems(1,3) occ forgets_later by simp
  note st = checkAndMarkSeen_step [OF this step]
  have "seenVerdicts s' occs = refVerdicts (hs_dedupWindow s') (if dup then rec else rec(key \<mapsto> now)) occs"
    by (rule Cons.IH [of s' now]) (use st Cons.prems(2) occ in auto)
  with st show ?case unfolding occ by (auto simp: step)
qed simp

text \<open>
  C23. Pruning the deduplication map is invisible. From any state of the map, on any sequence of
  occurrences in the order of their times, the store suppresses exactly the occurrences that come
  less than the window after the last recorded one of the same key, as a store that never dropped
  an entry would.
\<close>

theorem dedup_pruning_invisible:
  assumes "distinct (map fst (hs_dedupMap s))" "sorted (map fst occs)"
  shows "seenVerdicts s occs = refVerdicts (hs_dedupWindow s) (map_of (hs_dedupMap s)) occs"
proof (cases occs)
  case (Cons occ rest)
  show ?thesis
  proof (rule verdicts_agree [OF _ assms(2)])
    show "forgets (hs_dedupWindow s) (fst occ) (hs_dedupMap s) (map_of (hs_dedupMap s))"
      using assms(1) by (simp add: forgets_def)
    show "\<forall>o' \<in> set occs. fst occ \<le> fst o'" using assms(2) Cons by auto
  qed
qed simp

subsection \<open>Retention\<close>

text \<open>
  What the cleaner relies on: a list call returns every held record once, and a delete that
  reports success removed its record and nothing else; one that reports an error removed its
  record or nothing.
\<close>

locale event_server =
  fixes cl :: "'w EventClient" and held :: "'w \<Rightarrow> objkey \<rightharpoonup> DorguEvent"
  assumes held_key: "held w k = Some e \<Longrightarrow> de_key e = k"
    and list_held: "ec_list cl w = Inr items \<Longrightarrow> distinct items \<and> set items = ran (held w)"
    and delete_held: "ec_delete cl w e = (w', None) \<Longrightarrow> held w' = (held w)(de_key e := None)"
    and delete_failed: "ec_delete cl w e = (w', Some x) \<Longrightarrow>
          held w' = held w \<or> held w' = (held w)(de_key e := None)"
    and create_held: "ec_create cl w e = (w', None) \<Longrightarrow>
          held w (de_key e) = None \<and> held w' = (held w)(de_key e \<mapsto> e)"
begin

lemma ran_iff: "e \<in> ran (held w) \<longleftrightarrow> held w (de_key e) = Some e"
  unfolding ran_def using held_key by blast

lemma delete_ran:
  assumes "snd (ec_delete cl w e) = None" "e \<in> ran (held w)"
  shows "held (fst (ec_delete cl w e)) \<subseteq>\<^sub>m held w"
    and "ran (held (fst (ec_delete cl w e))) = ran (held w) - {e}"
proof -
  have h: "held (fst (ec_delete cl w e)) = (held w)(de_key e := None)"
    using delete_held assms(1) by (metis prod.collapse)
  then show "held (fst (ec_delete cl w e)) \<subseteq>\<^sub>m held w" by (simp add: map_le_def)
  from assms(2) have e: "held w (de_key e) = Some e" using ran_iff by blast
  have "x \<in> ran ((held w)(de_key e := None)) \<longleftrightarrow> x \<in> ran (held w) \<and> x \<noteq> e" for x
  proof
    assume "x \<in> ran ((held w)(de_key e := None))"
    then obtain k where "k \<noteq> de_key e" "held w k = Some x" by (auto simp: ran_def split: if_splits)
    then show "x \<in> ran (held w) \<and> x \<noteq> e" using held_key ranI by metis
  next
    assume "x \<in> ran (held w) \<and> x \<noteq> e"
    then have "held w (de_key x) = Some x" "de_key x \<noteq> de_key e" using ran_iff e by auto
    then have "((held w)(de_key e := None)) (de_key x) = Some x" by simp
    then show "x \<in> ran ((held w)(de_key e := None))" by (rule ranI)
  qed
  then show "ran (held (fst (ec_delete cl w e))) = ran (held w) - {e}" unfolding h by blast
qed

lemma deleteLoop_ran:
  assumes "\<And>v e. snd (ec_delete cl v e) = None"
  shows "distinct ds \<Longrightarrow> set ds \<subseteq> ran (held w) \<Longrightarrow>
    held (deleteLoop cl w ds) \<subseteq>\<^sub>m held w \<and> ran (held (deleteLoop cl w ds)) = ran (held w) - set ds"
proof (induction ds arbitrary: w)
  case (Cons d ds)
  let ?v = "fst (ec_delete cl w d)"
  have d: "held ?v \<subseteq>\<^sub>m held w" "ran (held ?v) = ran (held w) - {d}"
    using delete_ran [of w d] assms Cons.prems by simp_all
  have "held (deleteLoop cl ?v ds) \<subseteq>\<^sub>m held ?v \<and> ran (held (deleteLoop cl ?v ds)) = ran (held ?v) - set ds"
    by (rule Cons.IH) (use Cons.prems d(2) in auto)
  with d show ?case by (auto intro: map_le_trans)
qed simp

end

definition unexpired :: "Cleaner \<Rightarrow> time \<Rightarrow> DorguEvent set \<Rightarrow> DorguEvent set" where
  "unexpired c now S = {e \<in> S. \<not> isExpired e (cn_retention c) now}"

text \<open>How many records are due for deletion.\<close>

definition backlog :: "Cleaner \<Rightarrow> time \<Rightarrow> DorguEvent set \<Rightarrow> nat" where
  "backlog c now S =
     card (S - unexpired c now S) +
     (if cn_maxRecords c \<le> 0 then 0 else card (unexpired c now S) - nat (cn_maxRecords c))"

text \<open>What any number of cycles did: unexpired records go only over the cap, oldest first.\<close>

definition pruned :: "Cleaner \<Rightarrow> time \<Rightarrow> DorguEvent set \<Rightarrow> DorguEvent set \<Rightarrow> bool" where
  "pruned c now S S' =
     (S' \<subseteq> S \<and>
      (int (card (unexpired c now S)) \<ge> cn_maxRecords c \<longrightarrow> int (card (unexpired c now S')) \<ge> cn_maxRecords c) \<and>
      (\<forall>e \<in> unexpired c now S - S'. 0 < cn_maxRecords c \<and> int (card (unexpired c now S')) \<ge> cn_maxRecords c \<and>
         (\<forall>e' \<in> unexpired c now S'. de_eventTime e \<le> de_eventTime e')))"

lemma unexpired_sub: "unexpired c now S \<subseteq> S"
  by (auto simp: unexpired_def)

lemma pruned_refl: "pruned c now S S"
  by (auto simp: pruned_def unexpired_def)

lemma pruned_trans:
  assumes "pruned c now S S'" "pruned c now S' S''"
  shows "pruned c now S S''"
proof -
  have "unexpired c now S - S'' \<subseteq> (unexpired c now S - S') \<union> (unexpired c now S' - S'')"
    and "unexpired c now S'' \<subseteq> unexpired c now S'"
    using assms by (auto simp: pruned_def unexpired_def)
  with assms show ?thesis unfolding pruned_def by (meson UnE order_trans subsetD)
qed

lemma sorted_take_le:
  assumes "x \<in> set (take j (sort_key f xs))" "y \<in> set xs" "y \<notin> set (take j (sort_key f xs))"
  shows "f x \<le> f y"
proof -
  have "y \<in> set (drop j (sort_key f xs))"
    using assms(2,3) by (metis Un_iff append_take_drop_id set_append set_sort)
  moreover have "sorted (map f (take j (sort_key f xs)) @ map f (drop j (sort_key f xs)))"
    by (simp flip: map_append)
  ultimately show ?thesis using assms(1) by (auto simp: sorted_append)
qed

lemma doomed_shape:
  assumes "selectForDeletion c items now = (ex, su)"
  obtains m where "ex = filter (\<lambda>e. isExpired e (cn_retention c) now) items"
    "su = take m (sort_key de_eventTime (filter (\<lambda>e. \<not> isExpired e (cn_retention c) now) items))"
    "m = (if cn_maxRecords c \<le> 0 then 0
          else length (filter (\<lambda>e. \<not> isExpired e (cn_retention c) now) items) - nat (cn_maxRecords c))"
  using assms that unfolding selectForDeletion_def Let_def by (auto split: if_splits)

lemma cycle_pruned:
  assumes "distinct items" "selectForDeletion c items now = (ex, su)"
    and "D = set (take b (ex @ su))"
  shows "D \<subseteq> set items" "length (ex @ su) = backlog c now (set items)" "distinct (ex @ su)"
    and "backlog c now (set items - D) = backlog c now (set items) - b"
    and "pruned c now (set items) (set items - D)"
proof -
  let ?S = "set items" and ?M = "cn_maxRecords c"
  let ?K = "filter (\<lambda>e. \<not> isExpired e (cn_retention c) now) items"
  let ?L = "sort_key de_eventTime ?K"
  obtain m where ex: "ex = filter (\<lambda>e. isExpired e (cn_retention c) now) items"
    and su: "su = take m ?L" and m: "m = (if ?M \<le> 0 then 0 else length ?K - nat ?M)"
    using doomed_shape [OF assms(2)] by metis
  have mK: "m \<le> length ?K" by (simp add: m)
  have setL: "set ?L = unexpired c now ?S" "length ?K = card (unexpired c now ?S)"
    using assms(1) distinct_card [of ?K] by (auto simp: unexpired_def)
  have exS: "set ex = ?S - unexpired c now ?S" "length ex = card (?S - unexpired c now ?S)" "distinct ex"
  proof -
    show e: "set ex = ?S - unexpired c now ?S" by (auto simp: ex unexpired_def)
    show d: "distinct ex" using assms(1) by (simp add: ex)
    show "length ex = card (?S - unexpired c now ?S)" using distinct_card [OF d] e by simp
  qed
  have suS: "set su \<subseteq> unexpired c now ?S" "distinct su" "length su = m"
    using setL(1) assms(1) mK set_take_subset [of m ?L] by (simp_all add: su)
  show D: "D \<subseteq> ?S"
    using assms(3) exS(1) suS(1) unexpired_sub [of c now ?S] set_take_subset [of b "ex @ su"] by auto
  show "length (ex @ su) = backlog c now ?S"
    using exS(2) suS(3) setL(2) by (simp add: backlog_def m)
  show "distinct (ex @ su)" using exS suS by (auto simp: unexpired_def)
  define j where "j = min m (b - length ex)"
  have DU: "D \<inter> unexpired c now ?S = set (take j ?L)"
    using exS(1) setL(1) set_take_subset [of j ?L] set_take_subset [of b ex]
    unfolding assms(3) su j_def take_append take_take min.commute [of m] by auto
  have DE: "D - unexpired c now ?S = set (take b ex)"
    using exS(1) setL(1) set_take_subset [of b ex] set_take_subset [of "min (b - length ex) m" ?L]
    unfolding assms(3) su take_append take_take by auto
  have un: "unexpired c now (?S - D) = unexpired c now ?S - set (take j ?L)"
    using DU by (auto simp: unexpired_def)
  have cardU: "card (unexpired c now (?S - D)) = card (unexpired c now ?S) - j"
  proof -
    have "card (set (take j ?L)) = j"
      using assms(1) mK distinct_card [of "take j ?L"] by (simp add: j_def)
    moreover have "set (take j ?L) \<subseteq> unexpired c now ?S" using setL(1) set_take_subset by metis
    ultimately show ?thesis unfolding un by (simp add: card_Diff_subset)
  qed
  have "(?S - D) - unexpired c now (?S - D) = (?S - unexpired c now ?S) - set (take b ex)"
    using DE D by (auto simp: unexpired_def)
  moreover have "card (set (take b ex)) = min b (length ex)"
    using exS(3) distinct_card [of "take b ex"] by simp
  moreover have "set (take b ex) \<subseteq> ?S - unexpired c now ?S" using exS(1) set_take_subset by metis
  ultimately have cardE: "card ((?S - D) - unexpired c now (?S - D)) = length ex - min b (length ex)"
    using exS(2) by (simp add: card_Diff_subset)
  show "backlog c now (?S - D) = backlog c now ?S - b"
    unfolding backlog_def cardE cardU j_def m exS(2) setL(2) by (auto simp: min_def)
  show "pruned c now ?S (?S - D)"
    unfolding pruned_def
  proof (intro conjI impI ballI)
    show "int (card (unexpired c now (?S - D))) \<ge> ?M" if "int (card (unexpired c now ?S)) \<ge> ?M"
      unfolding cardU using that setL(2) m by (auto simp: j_def)
    fix e assume e: "e \<in> unexpired c now ?S - (?S - D)"
    then have eL: "e \<in> set (take j ?L)" using DU by (auto simp: unexpired_def)
    then have "0 < m" by (cases m) (auto simp: j_def)
    then show "0 < ?M" "int (card (unexpired c now (?S - D))) \<ge> ?M"
      unfolding cardU using setL(2) m by (auto simp: j_def split: if_splits)
    show "de_eventTime e \<le> de_eventTime e'" if "e' \<in> unexpired c now (?S - D)" for e'
    proof -
      have "e' \<in> unexpired c now ?S" "e' \<notin> set (take j ?L)" using that unfolding un by simp_all
      then show ?thesis using sorted_take_le [OF eL, of e'] by (simp add: unexpired_def)
    qed
  qed simp
qed

context event_server
begin

lemma cleanup_cycle:
  assumes "ec_list cl w = Inr items" "\<And>v e. snd (ec_delete cl v e) = None"
  shows "held (fst (cleanup c cl now w)) \<subseteq>\<^sub>m held w"
    and "backlog c now (ran (held (fst (cleanup c cl now w)))) = backlog c now (ran (held w)) - cn_batchSize c"
    and "pruned c now (ran (held w)) (ran (held (fst (cleanup c cl now w))))"
proof -
  obtain ex su where sel: "selectForDeletion c items now = (ex, su)" by fastforce
  let ?b = "cn_batchSize c" and ?d = "ex @ su"
  have w': "fst (cleanup c cl now w) = deleteLoop cl w (take ?b ?d)"
    by (simp add: cleanup_def assms(1) sel Let_def)
  have items: "distinct items" "set items = ran (held w)" using list_held [OF assms(1)] by simp_all
  note cyc = cycle_pruned [OF items(1) sel, of "set (take ?b ?d)" ?b, OF refl]
  have "held (deleteLoop cl w (take ?b ?d)) \<subseteq>\<^sub>m held w \<and>
      ran (held (deleteLoop cl w (take ?b ?d))) = ran (held w) - set (take ?b ?d)"
    by (rule deleteLoop_ran [OF assms(2) distinct_take [OF cyc(3)]]) (use cyc(1) items(2) in simp)
  then show "held (fst (cleanup c cl now w)) \<subseteq>\<^sub>m held w"
    and "backlog c now (ran (held (fst (cleanup c cl now w)))) = backlog c now (ran (held w)) - ?b"
    and "pruned c now (ran (held w)) (ran (held (fst (cleanup c cl now w))))"
    using cyc(4,5) items(2) unfolding w' by simp_all
qed

lemma cleanup_cycles:
  assumes "\<And>v. \<exists>items. ec_list cl v = Inr items" "\<And>v e. snd (ec_delete cl v e) = None"
  shows "held (((\<lambda>v. fst (cleanup c cl now v)) ^^ n) w) \<subseteq>\<^sub>m held w \<and>
    backlog c now (ran (held (((\<lambda>v. fst (cleanup c cl now v)) ^^ n) w))) =
      backlog c now (ran (held w)) - n * cn_batchSize c \<and>
    pruned c now (ran (held w)) (ran (held (((\<lambda>v. fst (cleanup c cl now v)) ^^ n) w)))"
proof (induction n)
  case 0
  show ?case by (simp add: pruned_refl)
next
  case (Suc n)
  let ?v = "((\<lambda>v. fst (cleanup c cl now v)) ^^ n) w"
  obtain items where "ec_list cl ?v = Inr items" using assms(1) by blast
  note step = cleanup_cycle [OF this assms(2), of c now]
  show ?case using Suc step map_le_trans [OF step(1)] pruned_trans [OF _ step(3)] by (simp add: add.commute)
qed

lemma finite_held: "\<exists>items. ec_list cl w = Inr items \<Longrightarrow> finite (ran (held w))"
  using list_held by (metis List.finite_set)

end

text \<open>A store of records by key: writes answer as the API server does, and always reach it.\<close>

definition held_events :: "(objkey \<times> DorguEvent) list \<Rightarrow> objkey \<rightharpoonup> DorguEvent" where
  "held_events w k = (case map_of w k of Some e \<Rightarrow> if de_key e = k then Some e else None | None \<Rightarrow> None)"

definition event_client :: "(objkey \<times> DorguEvent) list EventClient" where
  "event_client = \<lparr>
     ec_create = (\<lambda>w e. if held_events w (de_key e) \<noteq> None
        then (w, Some (ApiErr AlreadyExists (''dorguevents '' @ quoteQ (de_name e) @ '' already exists'')))
        else (AList.update (de_key e) e w, None)),
     ec_list = (\<lambda>w. Inr (remdups (filter (\<lambda>e. held_events w (de_key e) = Some e) (map snd w)))),
     ec_delete = (\<lambda>w e. (AList.delete (de_key e) w, None))\<rparr>"

lemma held_events_iff: "held_events w k = Some e \<longleftrightarrow> map_of w k = Some e \<and> de_key e = k"
  by (auto simp: held_events_def split: option.splits)

interpretation es: event_server event_client held_events
proof
  fix w :: "(objkey \<times> DorguEvent) list" and items
  assume "ec_list event_client w = Inr items"
  then have items: "items = remdups (filter (\<lambda>e. held_events w (de_key e) = Some e) (map snd w))"
    by (simp add: event_client_def)
  have "e \<in> set items \<longleftrightarrow> e \<in> ran (held_events w)" for e
  proof -
    have "e \<in> ran (held_events w) \<longleftrightarrow> held_events w (de_key e) = Some e"
      by (auto simp: ran_def held_events_iff simp del: split_paired_Ex)
    moreover have "e \<in> snd ` set w" if "held_events w (de_key e) = Some e"
      using that map_of_SomeD by (force simp: held_events_iff)
    ultimately show ?thesis unfolding items by auto
  qed
  then show "distinct items \<and> set items = ran (held_events w)" using items by auto
next
  fix w :: "(objkey \<times> DorguEvent) list" and e w' x
  show "de_key e = k" if "held_events w k = Some e" for k using that by (simp add: held_events_iff)
  show "held_events w' = (held_events w)(de_key e := None)" if "ec_delete event_client w e = (w', None)"
    using that by (auto simp: event_client_def fun_eq_iff held_events_def)
  show "held_events w' = held_events w \<or> held_events w' = (held_events w)(de_key e := None)"
    if "ec_delete event_client w e = (w', Some x)" using that by (simp add: event_client_def)
  show "held_events w (de_key e) = None \<and> held_events w' = (held_events w)(de_key e \<mapsto> e)"
    if "ec_create event_client w e = (w', None)"
  proof -
    from that have "held_events w (de_key e) = None" "w' = AList.update (de_key e) e w"
      by (simp_all add: event_client_def split: if_splits)
    then show ?thesis by (simp add: fun_eq_iff held_events_def)
  qed
qed

text \<open>
  C24. The backlog drains, to the cap and no further. Against an API server that keeps its contract,
  when list and delete calls succeed, a number of cycles whose batches add up to the records due
  leaves no expired record and, with a cap, at most that many records. Nothing is written, and an
  unexpired record is deleted only if the cap is reached exactly and every surviving record is at
  least as recent.
\<close>

theorem cleanup_drains:
  assumes "event_server cl held"
    and "\<And>v. \<exists>items. ec_list cl v = Inr items" "\<And>v e. snd (ec_delete cl v e) = None"
    and "backlog c now (ran (held w)) \<le> n * cn_batchSize c"
    and "w' = ((\<lambda>v. fst (cleanup c cl now v)) ^^ n) w"
  shows "held w' \<subseteq>\<^sub>m held w \<and>
    (\<forall>e \<in> ran (held w'). \<not> isExpired e (cn_retention c) now) \<and>
    (0 < cn_maxRecords c \<longrightarrow> int (card (ran (held w'))) \<le> cn_maxRecords c) \<and>
    (\<forall>e \<in> ran (held w) - ran (held w'). \<not> isExpired e (cn_retention c) now \<longrightarrow>
       int (card (ran (held w'))) = cn_maxRecords c \<and>
       (\<forall>e' \<in> ran (held w'). de_eventTime e \<le> de_eventTime e'))"
proof -
  note cyc = event_server.cleanup_cycles [OF assms(1-3), where c = c and now = now and n = n and w = w, folded assms(5)]
  let ?S = "ran (held w')"
  have fin: "finite ?S" using event_server.finite_held [OF assms(1)] assms(2) by blast
  have b: "backlog c now ?S = 0" using cyc assms(4) by simp
  then have un: "unexpired c now ?S = ?S" using fin by (auto simp: backlog_def unexpired_def)
  have cap: "0 < cn_maxRecords c \<longrightarrow> int (card ?S) \<le> cn_maxRecords c"
    using b un by (auto simp: backlog_def)
  have "int (card ?S) = cn_maxRecords c \<and> (\<forall>e' \<in> ?S. de_eventTime e \<le> de_eventTime e')"
    if "e \<in> ran (held w) - ?S" "\<not> isExpired e (cn_retention c) now" for e
  proof -
    have "e \<in> unexpired c now (ran (held w)) - ?S" using that by (simp add: unexpired_def)
    with cyc have "0 < cn_maxRecords c \<and> cn_maxRecords c \<le> int (card (unexpired c now ?S)) \<and>
        (\<forall>e' \<in> unexpired c now ?S. de_eventTime e \<le> de_eventTime e')"
      unfolding pruned_def by blast
    with cap show ?thesis unfolding un by linarith
  qed
  with cyc un cap show ?thesis by (auto simp: unexpired_def)
qed

end
