(* ===== verification/HealthCheck.thy ===== *)
theory HealthCheck
  imports Server Incident Events
begin

text \<open>
  The health check cycle of \<^verbatim>\<open>internal/controller/healthcheck_reconciler.go\<close>, with its retried
  writes (\<^verbatim>\<open>incident_write.go\<close>): signals are grouped, each group is diagnosed on its own, each
  diagnosis is recorded as an IncidentMemory and may lead to a proposal, and incidents whose
  workload was seen to have recovered are closed.

  The record \<open>HealthCheckReconciler\<close> holds the fields of the Go struct: the client calls on
  IncidentMemory objects, the cluster reads, and the event store, event emitter, proposer and
  WebSocket server as functions on the world, absent where the Go field is nil. Client-go's
  \<^verbatim>\<open>retry.OnError\<close> is the field \<open>hc_onError\<close>: it is given the number of attempts, the test for
  errors worth another attempt, and the write as a step on attempt number, world and object. One
  instant \<open>now\<close> stands for the clock readings of one cycle. Log lines and counters other than
  those of the result are left out.
\<close>

subsection \<open>Retried writes (incident\_write.go)\<close>

record 'w IncidentWriter =
  hc_get :: "'w \<Rightarrow> objkey \<Rightarrow> goerr + IncidentMemory"
  hc_list :: "'w \<Rightarrow> string option \<Rightarrow> (string \<times> string) list \<Rightarrow> goerr + IncidentMemory list"
  hc_create :: "'w \<Rightarrow> IncidentMemory \<Rightarrow> 'w \<times> goerr option"
  hc_update :: "'w \<Rightarrow> IncidentMemory \<Rightarrow> 'w \<times> goerr option"
  hc_statusUpdate :: "'w \<Rightarrow> IncidentMemory \<Rightarrow> 'w \<times> goerr option"
  hc_onError :: "nat \<Rightarrow> (goerr \<Rightarrow> bool) \<Rightarrow>
     (nat \<times> 'w \<times> IncidentMemory \<Rightarrow> (nat \<times> 'w \<times> IncidentMemory) \<times> goerr option) \<Rightarrow>
     nat \<times> 'w \<times> IncidentMemory \<Rightarrow> (nat \<times> 'w \<times> IncidentMemory) \<times> goerr option"

definition incidentWriteSteps :: nat where "incidentWriteSteps = 6"

definition retriableIncidentWriteError :: "goerr \<Rightarrow> bool" where
  "retriableIncidentWriteError e = (api_reason_of e = Some Conflict \<or> api_reason_of e = Some NotFound)"

definition retryIncidentWrite ::
  "'w IncidentWriter \<Rightarrow> (nat \<Rightarrow> 'w \<times> IncidentMemory \<Rightarrow> ('w \<times> IncidentMemory) \<times> goerr option) \<Rightarrow>
   'w \<times> IncidentMemory \<Rightarrow> ('w \<times> IncidentMemory) \<times> goerr option" where
  "retryIncidentWrite c write st =
     (case hc_onError c incidentWriteSteps retriableIncidentWriteError
             (\<lambda>(attempt, st'). case write attempt st' of (st'', e) \<Rightarrow> ((attempt + 1, st''), e)) (0, st) of
        ((_, st'), e) \<Rightarrow> (st', e))"

subsection \<open>Subjects\<close>

abbreviation "AttributionPersona \<equiv> ''persona''"
abbreviation "ReasonDiagnosisDiscarded \<equiv> ''DorguDiagnosisDiscarded''"

definition ResolutionGracePeriod :: duration where "ResolutionGracePeriod = 5 * minute"

record incidentSubject =
  su_personaRef :: PersonaReference
  su_unattributed :: bool
  su_namespace :: string

definition personaSubject :: "PersonaReference \<Rightarrow> incidentSubject" where
  "personaSubject ref = \<lparr>su_personaRef = ref, su_unattributed = False, su_namespace = pr_namespace ref\<rparr>"

definition incidentSubjectFor :: "SignalGroup \<Rightarrow> incidentSubject option" where
  "incidentSubjectFor grp =
     (case gr_scope grp of
        ScopePersona \<Rightarrow>
          (case gr_personaRef grp of
             None \<Rightarrow> None
           | Some ref \<Rightarrow>
               (let subject = personaSubject ref
                in Some (if su_namespace subject = [] then subject\<lparr>su_namespace := gr_namespace grp\<rparr> else subject)))
      | ScopeUnattributed \<Rightarrow>
          Some \<lparr>su_personaRef = \<lparr>pr_kind = ''ApplicationPersona'', pr_name = gr_workload grp,
                  pr_namespace = gr_namespace grp\<rparr>,
                su_unattributed = True, su_namespace = gr_namespace grp\<rparr>
      | ScopeCluster \<Rightarrow> None)"

definition attribution :: "incidentSubject \<Rightarrow> string" where
  "attribution s = (if su_unattributed s then AttributionUnattributed else AttributionPersona)"

definition incidentNameKey :: "incidentSubject \<Rightarrow> string" where
  "incidentNameKey s =
     (if su_unattributed s then pr_name (su_personaRef s) @ ''-unattributed'' else pr_name (su_personaRef s))"

definition matchesIncident :: "incidentSubject \<Rightarrow> IncidentMemory \<Rightarrow> bool" where
  "matchesIncident s im =
     (if is_attribution (im_spec im) = [] then \<not> su_unattributed s
      else is_attribution (im_spec im) = attribution s)"

definition signalKey :: "incidentSubject \<Rightarrow> Diagnosis \<Rightarrow> string" where
  "signalKey subject diag =
     pr_kind (su_personaRef subject) @ ''/'' @ pr_namespace (su_personaRef subject) @ ''/'' @
     pr_name (su_personaRef subject) @ ''/'' @ dg_category diag @ ''/'' @ primarySignalType diag"

definition incidentSignalKey :: "IncidentMemory \<Rightarrow> string" where
  "incidentSignalKey im =
     (let ref = is_personaRef (im_spec im) in
      pr_kind ref @ ''/'' @ pr_namespace ref @ ''/'' @ pr_name ref @ ''/'' @
      is_category (im_spec im) @ ''/'' @ di_signal (is_detection (im_spec im)))"

subsection \<open>Recording a diagnosis\<close>

definition buildRootCause :: "Diagnosis \<Rightarrow> RootCauseInfo option" where
  "buildRootCause diag =
     (if dg_confidence diag = 0 \<and> dg_summary diag = [] then None
      else Some \<lparr>rc_summary = dg_summary diag, rc_confidence = fmtFixed 2 (dg_confidence diag),
                 rc_provider = dg_provider diag,
                 rc_contributing = map (\<lambda>cs. (sg_type (con_signal cs), con_detail cs)) (dg_contributing diag)\<rparr>)"

definition annotateUnattributed :: "RootCauseInfo option \<Rightarrow> incidentSubject \<Rightarrow> RootCauseInfo option" where
  "annotateUnattributed rc subject =
     (case rc of
        None \<Rightarrow> None
      | Some r \<Rightarrow>
          (if \<not> su_unattributed subject then Some r
           else Some (r\<lparr>rc_summary := trimSpace (rc_summary r) @
             '' No ApplicationPersona in namespace '' @ su_namespace subject @ '' claims workload '' @
             pr_name (su_personaRef subject) @ '', so this incident is recorded against the workload'' @
             '' and Dorgu will not propose a remediation for it. Run '' @ [CHR 0x22] @ ''dorgu persona import -n '' @
             su_namespace subject @ [CHR 0x22] @ '' to onboard it.''\<rparr>)))"

definition toResourceRefs :: "ResourceReference list \<Rightarrow> ResourceReference list" where
  "toResourceRefs refs = map (\<lambda>ref. ref\<lparr>rr_role := ''affected''\<rparr>) refs"

definition existingConfidence :: "IncidentMemory \<Rightarrow> rat" where
  "existingConfidence im =
     (case is_rootCause (im_spec im) of
        None \<Rightarrow> 0
      | Some rc \<Rightarrow> (case parseFloat (rc_confidence rc) of Some parsed \<Rightarrow> parsed | None \<Rightarrow> 0))"

definition applyDiagnosisToSpec ::
  "time \<Rightarrow> incidentSubject \<Rightarrow> Diagnosis \<Rightarrow> IncidentMemory \<Rightarrow> IncidentMemory" where
  "applyDiagnosisToSpec now subject diag im =
     (let sp = im_spec im;
          attr = (if is_attribution sp = [] then attribution subject else is_attribution sp);
          lbls = (if getStr (im_labels im) LabelAttribution = []
                  then AList.update LabelAttribution attr (im_labels im) else im_labels im);
          rc = (if 0 < dg_confidence diag \<and> existingConfidence im \<le> dg_confidence diag
                then annotateUnattributed (buildRootCause diag) subject else is_rootCause sp)
      in im\<lparr>im_labels := lbls,
            im_spec := sp\<lparr>is_attribution := attr, is_rootCause := rc,
              is_detection := (is_detection sp)\<lparr>di_lastSeen := now,
                di_affectedResources := toResourceRefs (dg_affectedResources diag)\<rparr>\<rparr>\<rparr>)"

record IncidentEvent =
  iv_eventType :: string
  iv_name :: string
  iv_namespace :: string
  iv_severity :: string
  iv_category :: string
  iv_signal :: string
  iv_phase :: string
  iv_personaName :: string
  iv_personaKind :: string
  iv_summary :: string

datatype WsEvent =
    WsIncident IncidentEvent
  | WsRemediation RemediationEvent
  | WsHealth nat nat

record ProposalResult =
  pp_action :: "RemediationAction option"
  pp_skipReason :: string
  pp_proposed :: bool

record 'w HealthCheckReconciler =
  hr_client :: "'w IncidentWriter"
  hr_reader :: "'w ClusterReader"
  hr_detection :: "'w Engine"
  hr_diagnosis :: "DiagnosisProvider list"
  hr_eventStore :: "('w \<Rightarrow> time \<Rightarrow> InternalEvent \<Rightarrow> 'w \<times> goerr option) option"
  hr_eventEmitter :: "('w \<Rightarrow> InternalEvent \<Rightarrow> 'w \<times> goerr option) option"
  hr_proposer :: "('w \<Rightarrow> time \<Rightarrow> Diagnosis \<Rightarrow> IncidentMemory \<Rightarrow> 'w \<times> (goerr + ProposalResult)) option"
  hr_webSocket :: "('w \<Rightarrow> WsEvent \<Rightarrow> 'w) option"

definition broadcast :: "'w HealthCheckReconciler \<Rightarrow> WsEvent \<Rightarrow> 'w \<Rightarrow> 'w" where
  "broadcast r ev w = (case hr_webSocket r of Some send \<Rightarrow> send w ev | None \<Rightarrow> w)"

definition storeEventIn :: "'w HealthCheckReconciler \<Rightarrow> time \<Rightarrow> InternalEvent \<Rightarrow> 'w \<Rightarrow> 'w" where
  "storeEventIn r now ev w = (case hr_eventStore r of Some st \<Rightarrow> fst (st w now ev) | None \<Rightarrow> w)"

definition emitEvent :: "'w HealthCheckReconciler \<Rightarrow> InternalEvent \<Rightarrow> 'w \<Rightarrow> 'w" where
  "emitEvent r ev w = (case hr_eventEmitter r of Some em \<Rightarrow> fst (em w ev) | None \<Rightarrow> w)"

definition providerSuffix :: "string \<Rightarrow> string" where
  "providerSuffix provider = (if provider = [] then [] else '' '' @ provider)"

definition reportDiscardedDiagnosis ::
  "'w HealthCheckReconciler \<Rightarrow> time \<Rightarrow> 'w \<Rightarrow> IncidentMemory \<Rightarrow> Diagnosis \<Rightarrow> string \<Rightarrow> goerr \<Rightarrow> 'w \<times> goerr" where
  "reportDiscardedDiagnosis r now w im diag stage cause =
     (let err = Wrap (stage @ '' for IncidentMemory '' @ im_name im) cause;
          message = ''discarded the'' @ providerSuffix (dg_provider diag) @ '' diagnosis for '' @ im_name im @
            '' after '' @ stage @ '' failed: '' @ err_text cause @
            ''. The analysis was produced and paid for but is not recorded.'';
          surfaced = \<lparr>ie_id = ''diagnosis-discarded-'' @ im_name im @ ''-'' @ showInt now,
            ie_severity = ''critical'', ie_category = is_category (im_spec im),
            ie_source = ''healthcheck-reconciler'', ie_reason = ReasonDiagnosisDiscarded, ie_message = message,
            ie_object = \<lparr>rr_kind = ''IncidentMemory'', rr_name = im_name im, rr_namespace = im_namespace im,
                         rr_role = []\<rparr>,
            ie_personaRef = dg_personaRef diag, ie_eventTime = now, ie_uid = [], ie_raw = None\<rparr>
      in (emitEvent r surfaced (storeEventIn r now surfaced w), err))"

definition findMatchingIncident ::
  "'w HealthCheckReconciler \<Rightarrow> 'w \<Rightarrow> incidentSubject \<Rightarrow> Diagnosis \<Rightarrow> goerr + IncidentMemory option" where
  "findMatchingIncident r w subject diag =
     (case hc_list (hr_client r) w (if su_namespace subject \<noteq> [] then Some (su_namespace subject) else None)
             [(LabelPersonaKind, pr_kind (su_personaRef subject)),
              (LabelPersonaName, pr_name (su_personaRef subject)),
              (LabelCategory, dg_category diag), (LabelSignal, primarySignalType diag)] of
        Inl e \<Rightarrow> Inl (Wrap ''listing IncidentMemories'' e)
      | Inr items \<Rightarrow>
          Inr (List.find (\<lambda>im. ims_phase (im_status im) \<noteq> PhaseResolved \<and> matchesIncident subject im) items))"

text \<open>The two writes of \<^verbatim>\<open>updateExistingIncident\<close>, each on a freshly read object.\<close>

definition writeSpec ::
  "'w IncidentWriter \<Rightarrow> (IncidentMemory \<Rightarrow> IncidentMemory) \<Rightarrow> nat \<Rightarrow> 'w \<times> IncidentMemory \<Rightarrow>
   ('w \<times> IncidentMemory) \<times> goerr option" where
  "writeSpec c change attempt st =
     (case hc_get c (fst st) (im_key (snd st)) of
        Inl e \<Rightarrow> (st, Some e)
      | Inr fresh \<Rightarrow>
          (case hc_update c (fst st) (change fresh) of
             (w', Some e) \<Rightarrow> ((w', snd st), Some e)
           | (w', None) \<Rightarrow> ((w', change fresh), None)))"

definition writeStatus ::
  "'w IncidentWriter \<Rightarrow> (IncidentMemory \<Rightarrow> IncidentMemory) \<Rightarrow> nat \<Rightarrow> 'w \<times> IncidentMemory \<Rightarrow>
   ('w \<times> IncidentMemory) \<times> goerr option" where
  "writeStatus c change attempt st =
     (case hc_get c (fst st) (im_key (snd st)) of
        Inl e \<Rightarrow> (st, Some e)
      | Inr im \<Rightarrow> (case hc_statusUpdate c (fst st) (change im) of (w', e) \<Rightarrow> ((w', change im), e)))"

definition recordOccurrence :: "time \<Rightarrow> IncidentMemory \<Rightarrow> IncidentMemory" where
  "recordOccurrence now im =
     im\<lparr>im_status := (im_status im)\<lparr>ims_occurrenceCount := ims_occurrenceCount (im_status im) + 1,
          ims_lastOccurrence := Some now\<rparr>\<rparr>"

definition updateExistingIncident ::
  "'w HealthCheckReconciler \<Rightarrow> time \<Rightarrow> 'w \<Rightarrow> IncidentMemory \<Rightarrow> incidentSubject \<Rightarrow> Diagnosis \<Rightarrow>
   ('w \<times> IncidentMemory) \<times> goerr option" where
  "updateExistingIncident r now w im subject diag =
     (case retryIncidentWrite (hr_client r)
             (writeSpec (hr_client r) (applyDiagnosisToSpec now subject diag)) (w, im) of
        ((w1, im1), Some e) \<Rightarrow>
          (case reportDiscardedDiagnosis r now w1 im1 diag ''recording the root cause'' e of
             (w2, err) \<Rightarrow> ((w2, im1), Some err))
      | ((w1, im1), None) \<Rightarrow>
          (case retryIncidentWrite (hr_client r) (writeStatus (hr_client r) (recordOccurrence now)) (w1, im1) of
             ((w2, im2), Some e) \<Rightarrow>
               (case reportDiscardedDiagnosis r now w2 im2 diag ''recording the occurrence count'' e of
                  (w3, err) \<Rightarrow> ((w3, im2), Some err))
           | ((w2, im2), None) \<Rightarrow>
               ((broadcast r (WsIncident
                   \<lparr>iv_eventType = ''updated'', iv_name = im_name im2, iv_namespace = im_namespace im2,
                    iv_severity = is_severity (im_spec im2), iv_category = is_category (im_spec im2),
                    iv_signal = di_signal (is_detection (im_spec im2)), iv_phase = ims_phase (im_status im2),
                    iv_personaName = pr_name (is_personaRef (im_spec im2)),
                    iv_personaKind = pr_kind (is_personaRef (im_spec im2)),
                    iv_summary = (case is_rootCause (im_spec im2) of Some rc \<Rightarrow> rc_summary rc | None \<Rightarrow> [])\<rparr>) w2,
                 im2), None)))"

definition newIncident :: "time \<Rightarrow> incidentSubject \<Rightarrow> Diagnosis \<Rightarrow> IncidentMemory" where
  "newIncident now subject diag =
     (let primarySignal = primarySignalType diag;
          namespace = (if su_namespace subject = [] then ''default'' else su_namespace subject)
      in \<lparr>im_name = generateIncidentName namespace (incidentNameKey subject) primarySignal,
          im_namespace = namespace,
          im_labels = [(LabelPersonaKind, pr_kind (su_personaRef subject)),
             (LabelPersonaName, pr_name (su_personaRef subject)), (LabelPersonaNamespace, namespace),
             (LabelCategory, dg_category diag), (LabelSeverity, dg_severity diag), (LabelSignal, primarySignal),
             (LabelPhase, PhaseDetected), (LabelAttribution, attribution subject)],
          im_spec = \<lparr>is_personaRef = su_personaRef subject, is_attribution = attribution subject,
             is_category = dg_category diag, is_severity = dg_severity diag,
             is_detection = \<lparr>di_signal = primarySignal, di_source = dg_provider diag, di_firstSeen = now,
                di_lastSeen = now, di_affectedResources = toResourceRefs (dg_affectedResources diag)\<rparr>,
             is_rootCause = annotateUnattributed (buildRootCause diag) subject,
             is_relatedResources = [], is_resolution = None\<rparr>,
          im_status = \<lparr>ims_phase = [], ims_occurrenceCount = 0, ims_lastOccurrence = None, ims_conditions = []\<rparr>\<rparr>)"

definition initialStatus :: "time \<Rightarrow> IncidentMemory \<Rightarrow> IncidentMemory" where
  "initialStatus now im =
     im\<lparr>im_status := (im_status im)\<lparr>ims_phase := PhaseDetected, ims_occurrenceCount := 1,
          ims_lastOccurrence := Some now\<rparr>\<rparr>"

definition writeInitialStatus ::
  "'w IncidentWriter \<Rightarrow> time \<Rightarrow> nat \<Rightarrow> 'w \<times> IncidentMemory \<Rightarrow> ('w \<times> IncidentMemory) \<times> goerr option" where
  "writeInitialStatus c now attempt st =
     (case (if 0 < attempt then hc_get c (fst st) (im_key (snd st)) else Inr (snd st)) of
        Inl e \<Rightarrow> (st, Some e)
      | Inr im \<Rightarrow>
          (case hc_statusUpdate c (fst st) (initialStatus now im) of (w', e) \<Rightarrow> ((w', initialStatus now im), e)))"

definition signalEvent :: "string \<Rightarrow> string \<Rightarrow> Signal \<Rightarrow> InternalEvent" where
  "signalEvent evId message sig =
     \<lparr>ie_id = evId, ie_severity = sg_severity sig, ie_category = sg_category sig, ie_source = sg_source sig,
      ie_reason = [], ie_message = message,
      ie_object = (sg_resource sig)\<lparr>rr_role := []\<rparr>, ie_personaRef = sg_personaRef sig,
      ie_eventTime = sg_detectedAt sig, ie_uid = [], ie_raw = None\<rparr>"

definition storeSignalEvents ::
  "'w HealthCheckReconciler \<Rightarrow> time \<Rightarrow> Diagnosis \<Rightarrow> IncidentMemory \<Rightarrow> 'w \<Rightarrow> 'w" where
  "storeSignalEvents r now diag im w =
     fold (\<lambda>cs. let sig = con_signal cs in
         storeEventIn r now (signalEvent (im_name im @ ''-'' @ sg_type sig @ ''-'' @ showInt (sg_detectedAt sig))
           (sg_message sig) sig))
       (dg_contributing diag) w"

definition emitK8sEvents :: "'w HealthCheckReconciler \<Rightarrow> Diagnosis \<Rightarrow> 'w \<Rightarrow> 'w" where
  "emitK8sEvents r diag w =
     fold (\<lambda>cs. let sig = con_signal cs in
         emitEvent r (signalEvent [] (dg_summary diag @ '': '' @ sg_message sig) sig))
       (dg_contributing diag) w"

definition createIncident ::
  "'w HealthCheckReconciler \<Rightarrow> time \<Rightarrow> 'w \<Rightarrow> incidentSubject \<Rightarrow> Diagnosis \<Rightarrow> 'w \<times> goerr option" where
  "createIncident r now w subject diag =
     (let im = newIncident now subject diag; c = hr_client r in
      case hc_create c w im of
        (w1, Some e) \<Rightarrow>
          (if api_reason_of e = Some AlreadyExists then
             (case retryIncidentWrite c
                     (\<lambda>_ st. case hc_get c (fst st) (im_key im) of
                        Inl e \<Rightarrow> (st, Some e) | Inr existing \<Rightarrow> ((fst st, existing), None)) (w1, im) of
                ((w2, _), Some e2) \<Rightarrow>
                  (case reportDiscardedDiagnosis r now w2 im diag ''adopting the incident that already existed'' e2 of
                     (w3, err) \<Rightarrow> (w3, Some err))
              | ((w2, existing), None) \<Rightarrow>
                  (case updateExistingIncident r now w2 existing subject diag of ((w3, _), e3) \<Rightarrow> (w3, e3)))
           else (w1, Some (Wrap ''creating IncidentMemory'' e)))
      | (w1, None) \<Rightarrow>
          (case retryIncidentWrite c (writeInitialStatus c now) (w1, im) of
             ((w2, im2), Some e) \<Rightarrow>
               (case reportDiscardedDiagnosis r now w2 im2 diag ''setting the initial incident status'' e of
                  (w3, err) \<Rightarrow> (w3, Some err))
           | ((w2, im2), None) \<Rightarrow>
               (let w3 = broadcast r (WsIncident
                      \<lparr>iv_eventType = ''created'', iv_name = im_name im2, iv_namespace = im_namespace im2,
                       iv_severity = dg_severity diag, iv_category = dg_category diag,
                       iv_signal = primarySignalType diag, iv_phase = PhaseDetected,
                       iv_personaName = pr_name (su_personaRef subject),
                       iv_personaKind = pr_kind (su_personaRef subject), iv_summary = dg_summary diag\<rparr>) w2;
                    w4 = storeSignalEvents r now diag im2 w3
                in (if dg_severity diag = SeverityWarning \<or> dg_severity diag = SeverityCritical
                    then emitK8sEvents r diag w4 else w4, None))))"

subsection \<open>The cycle\<close>

text \<open>The tail of \<^verbatim>\<open>processDiagnosis\<close>: an attributed, open incident may lead to a proposal.\<close>

definition proposeFor ::
  "'w HealthCheckReconciler \<Rightarrow> time \<Rightarrow> 'w \<Rightarrow> Diagnosis \<Rightarrow> IncidentMemory option \<Rightarrow> 'w" where
  "proposeFor r now w diag incident =
     (case (hr_proposer r, incident) of
        (Some propose, Some im) \<Rightarrow>
          (if ims_phase (im_status im) = PhaseResolved then w
           else (case rejectionSuppressesProposal (hr_reader r) now w diag (Some im) of
                   Inl _ \<Rightarrow> w
                 | Inr suppressed \<Rightarrow>
                     (if suppressed \<noteq> [] then w
                      else (case propose w now diag im of
                              (w1, Inl _) \<Rightarrow> w1
                            | (w1, Inr result) \<Rightarrow>
                                (case (pp_proposed result, pp_action result) of
                                   (True, Some a) \<Rightarrow>
                                     broadcast r (WsRemediation
                                       \<lparr>re_eventType = ''created'', re_name = ra_name a, re_namespace = ra_namespace a,
                                        re_phase = ra_phase a, re_actionType = ad_type (sp_action (ra_spec a)),
                                        re_confidence = sp_confidence (ra_spec a),
                                        re_personaName = pr_name (sp_personaRef (ra_spec a)),
                                        re_personaKind = pr_kind (sp_personaRef (ra_spec a))\<rparr>) w1
                                 | _ \<Rightarrow> w1)))))
      | _ \<Rightarrow> w)"

definition processDiagnosis ::
  "'w HealthCheckReconciler \<Rightarrow> time \<Rightarrow> 'w \<Rightarrow> incidentSubject \<Rightarrow> Diagnosis \<Rightarrow> 'w \<times> goerr option" where
  "processDiagnosis r now w subject diag =
     (case findMatchingIncident r w subject diag of
        Inl e \<Rightarrow> (w, Some (Wrap ''finding matching incident'' e))
      | Inr (Some existing) \<Rightarrow>
          (case updateExistingIncident r now w existing subject diag of
             ((w1, _), Some e) \<Rightarrow> (w1, Some e)
           | ((w1, im1), None) \<Rightarrow>
               (if su_unattributed subject then (w1, None) else (proposeFor r now w1 diag (Some im1), None)))
      | Inr None \<Rightarrow>
          (case createIncident r now w subject diag of
             (w1, Some e) \<Rightarrow> (w1, Some e)
           | (w1, None) \<Rightarrow>
               (if su_unattributed subject then (w1, None)
                else (proposeFor r now w1 diag
                        (case findMatchingIncident r w1 subject diag of Inr im \<Rightarrow> im | Inl _ \<Rightarrow> None), None))))"

record CycleCount =
  cc_attempted :: nat
  cc_discarded :: nat

fun diagnosisLoop ::
  "'w HealthCheckReconciler \<Rightarrow> time \<Rightarrow> incidentSubject \<Rightarrow> Diagnosis list \<Rightarrow> 'w \<times> string list \<times> CycleCount \<Rightarrow>
   'w \<times> string list \<times> CycleCount" where
  "diagnosisLoop r now subject [] st = st"
| "diagnosisLoop r now subject (diag # diags) (w, keys, n) =
     (case processDiagnosis r now w subject diag of
        (w', e) \<Rightarrow> diagnosisLoop r now subject diags
          (w', signalKey subject diag # keys,
           \<lparr>cc_attempted = cc_attempted n + 1, cc_discarded = cc_discarded n + (if e = None then 0 else 1)\<rparr>))"

definition processGroup ::
  "'w HealthCheckReconciler \<Rightarrow> time \<Rightarrow> SignalGroup \<Rightarrow> 'w \<times> string list \<times> CycleCount \<Rightarrow>
   'w \<times> string list \<times> CycleCount" where
  "processGroup r now grp st =
     (case Analyze (hr_diagnosis r) (gr_signals grp) of
        Inl _ \<Rightarrow> st
      | Inr diagnoses \<Rightarrow>
          (case incidentSubjectFor grp of
             None \<Rightarrow> st
           | Some subject \<Rightarrow> diagnosisLoop r now subject diagnoses st))"

subsection \<open>Closing incidents\<close>

definition supersededByPersona ::
  "'w HealthCheckReconciler \<Rightarrow> 'w \<Rightarrow> IncidentMemory \<Rightarrow> recoveryEvidence option" where
  "supersededByPersona r w im =
     (if is_attribution (im_spec im) \<noteq> AttributionUnattributed then None
      else let namespace = incidentNamespace im; workloadName = incidentWorkloadName im in
        if namespace = [] then None
        else (case hc_list (hr_client r) w (Some namespace)
                     [(LabelPersonaKind, ''ApplicationPersona''), (LabelPersonaName, workloadName),
                      (LabelAttribution, AttributionPersona)] of
                Inl _ \<Rightarrow> None
              | Inr items \<Rightarrow>
                  (case List.find (\<lambda>other. im_name other \<noteq> im_name im \<and>
                            ims_phase (im_status other) \<noteq> PhaseResolved) items of
                     None \<Rightarrow> None
                   | Some other \<Rightarrow>
                       Some (healthy (''superseded: workload '' @ workloadName @ '' is now tracked by incident '' @
                         im_name other @ '', which is open against its persona'')))))"

definition resolutionEvidence ::
  "'w HealthCheckReconciler \<Rightarrow> 'w \<Rightarrow> IncidentMemory \<Rightarrow> time \<Rightarrow> recoveryEvidence" where
  "resolutionEvidence r w im now =
     (case supersededByPersona r w im of
        Some evidence \<Rightarrow> evidence
      | None \<Rightarrow> verifyRecovery (hr_reader r) w im now)"

definition resolvedSpec :: "recoveryEvidence \<Rightarrow> IncidentMemory \<Rightarrow> IncidentMemory" where
  "resolvedSpec evidence im =
     im\<lparr>im_labels := AList.update LabelPhase PhaseResolved (im_labels im),
        im_spec := (im_spec im)\<lparr>is_resolution := Some
          \<lparr>ri_action = resolutionAction evidence, ri_remediationRef = None, ri_appliedAt = None,
           ri_outcome = ''resolved'', ri_duration = None\<rparr>\<rparr>\<rparr>"

definition resolvedPhase :: "IncidentMemory \<Rightarrow> IncidentMemory" where
  "resolvedPhase im = im\<lparr>im_status := (im_status im)\<lparr>ims_phase := PhaseResolved\<rparr>\<rparr>"

definition markResolved ::
  "'w HealthCheckReconciler \<Rightarrow> 'w \<Rightarrow> IncidentMemory \<Rightarrow> recoveryEvidence \<Rightarrow> ('w \<times> IncidentMemory) \<times> goerr option" where
  "markResolved r w im evidence =
     (case retryIncidentWrite (hr_client r) (writeSpec (hr_client r) (resolvedSpec evidence)) (w, im) of
        (st, Some e) \<Rightarrow> (st, Some (Wrap ''recording the resolution'' e))
      | (st, None) \<Rightarrow>
          (case retryIncidentWrite (hr_client r) (writeStatus (hr_client r) resolvedPhase) st of
             (st', Some e) \<Rightarrow> (st', Some (Wrap ''recording the resolved phase'' e))
           | (st', None) \<Rightarrow> (st', None)))"

definition resolveOne :: "'w HealthCheckReconciler \<Rightarrow> time \<Rightarrow> string list \<Rightarrow> IncidentMemory \<Rightarrow> 'w \<Rightarrow> 'w" where
  "resolveOne r now keys im w =
     (if incidentSignalKey im \<in> set keys then w
      else if timeSub now (di_lastSeen (is_detection (im_spec im))) < ResolutionGracePeriod then w
      else let evidence = resolutionEvidence r w im now in
        if \<not> Recovered evidence then w
        else (case markResolved r w im evidence of
                ((w1, _), Some _) \<Rightarrow> w1
              | ((w1, im1), None) \<Rightarrow>
                  broadcast r (WsIncident
                    \<lparr>iv_eventType = ''resolved'', iv_name = im_name im1, iv_namespace = im_namespace im1,
                     iv_severity = is_severity (im_spec im1), iv_category = is_category (im_spec im1),
                     iv_signal = di_signal (is_detection (im_spec im1)), iv_phase = PhaseResolved,
                     iv_personaName = pr_name (is_personaRef (im_spec im1)),
                     iv_personaKind = pr_kind (is_personaRef (im_spec im1)), iv_summary = []\<rparr>) w1))"

definition resolveCleared :: "'w HealthCheckReconciler \<Rightarrow> time \<Rightarrow> string list \<Rightarrow> 'w \<Rightarrow> 'w \<times> goerr option" where
  "resolveCleared r now keys w =
     (case hc_list (hr_client r) w None [(LabelPhase, PhaseDetected)] of
        Inl e \<Rightarrow> (w, Some (Wrap ''listing active IncidentMemories'' e))
      | Inr detected \<Rightarrow>
          (case hc_list (hr_client r) w None [(LabelPhase, PhaseInvestigating)] of
             Inl e \<Rightarrow> (w, Some (Wrap ''listing investigating IncidentMemories'' e))
           | Inr investigating \<Rightarrow> (fold (resolveOne r now keys) (detected @ investigating) w, None)))"

definition broadcastHealthSummary :: "'w HealthCheckReconciler \<Rightarrow> 'w \<Rightarrow> 'w" where
  "broadcastHealthSummary r w =
     (let size_of = (\<lambda>ph. case hc_list (hr_client r) w None [(LabelPhase, ph)] of
                       Inl _ \<Rightarrow> 0 | Inr items \<Rightarrow> length items);
          pending = (case cr_listActions (hr_reader r) w None [] of
                       Inl _ \<Rightarrow> 0 | Inr items \<Rightarrow> length (filter (\<lambda>a. ra_phase a = Pending) items))
      in broadcast r (WsHealth (size_of PhaseDetected + size_of PhaseInvestigating) pending) w)"

text \<open>One cycle; its result counts the diagnoses that could not be recorded.\<close>

definition healthCycle :: "'w HealthCheckReconciler \<Rightarrow> time \<Rightarrow> 'w \<Rightarrow> 'w \<times> CycleCount" where
  "healthCycle r now w =
     (case CollectAll (hr_detection r) w of
        Inl _ \<Rightarrow> (w, \<lparr>cc_attempted = 0, cc_discarded = 0\<rparr>)
      | Inr signals \<Rightarrow>
          (case fold (processGroup r now) (GroupSignals signals) (w, [], \<lparr>cc_attempted = 0, cc_discarded = 0\<rparr>) of
             (w1, keys, n) \<Rightarrow>
               (let w2 = fst (resolveCleared r now keys w1)
                in (if hr_webSocket r \<noteq> None then broadcastHealthSummary r w2 else w2, n))))"

end
