(* ===== verification/Proposer.thy ===== *)
theory Proposer
  imports Refused PlanContext HealthCheck
begin

text \<open>
  The rule-based half of the proposal builder (\<^verbatim>\<open>internal/remediation/proposer.go\<close>,
  \<^verbatim>\<open>proposer_mode.go\<close>): the self-healing mode, the deduplication against actions in flight, and
  the sizing of a limit increase against the live workload. The persona's recorded limits are read
  from the JSON image of its spec.
\<close>

abbreviation "SignalMemorySaturationCrit \<equiv> ''MemorySaturationCritical''"
abbreviation "SignalMemorySaturationHigh \<equiv> ''MemorySaturationHigh''"
abbreviation "SignalCPUSaturationHigh \<equiv> ''CPUSaturationHigh''"
abbreviation "SignalCPUSaturationCritical \<equiv> ''CPUSaturationCritical''"
abbreviation "resourcePathMemory \<equiv> ''spec.resources.limits.memory''"
abbreviation "resourcePathCPU \<equiv> ''spec.resources.limits.cpu''"

record 'w Proposer =
  pr_client :: "'w ProposerClient"
  pr_safety :: "'w SafetyCheckerImpl"
  pr_quantity :: QuantityOps
  pr_planner :: "('w \<Rightarrow> RemediationContext \<Rightarrow> goerr + RemediationPlan option) option"

subsection \<open>Self-healing mode (proposer\_mode.go)\<close>

abbreviation "SelfHealingModeObserve \<equiv> ''observe''"
abbreviation "SelfHealingModePropose \<equiv> ''propose''"

definition skipReasonObserveMode :: string where
  "skipReasonObserveMode = ''selfHealing.mode=observe '' @ em_dash @ '' proposal suppressed''"

fun modeLoop :: "ClusterPersona list \<Rightarrow> string" where
  "modeLoop [] = SelfHealingModePropose"
| "modeLoop (cp # cps) =
     (case cp_selfHealing cp of
        None \<Rightarrow> modeLoop cps
      | Some sh \<Rightarrow> if sh_mode sh \<noteq> [] then sh_mode sh else modeLoop cps)"

definition selfHealingMode :: "'w Proposer \<Rightarrow> 'w \<Rightarrow> string" where
  "selfHealingMode p w =
     (case pc_listClusterPersonas (pr_client p) w of
        Inl _ \<Rightarrow> SelfHealingModePropose
      | Inr cps \<Rightarrow> modeLoop cps)"

definition proposalSuppressedByMode :: "'w Proposer \<Rightarrow> 'w \<Rightarrow> string" where
  "proposalSuppressedByMode p w =
     (if selfHealingMode p w = SelfHealingModeObserve then skipReasonObserveMode else [])"

subsection \<open>Actions in flight\<close>

definition hasOOMCorrelation :: "Diagnosis \<Rightarrow> bool" where
  "hasOOMCorrelation diag =
     list_ex (\<lambda>cs. sg_type (con_signal cs) \<in>
         {SignalOOMKilled, SignalMemorySaturationCrit, SignalMemorySaturationHigh}) (dg_contributing diag)"

definition diagnosisTargetPath :: "Diagnosis \<Rightarrow> string" where
  "diagnosisTargetPath diag =
     (let t = primarySignalType diag in
      if t \<in> {SignalOOMKilled, SignalMemorySaturationCrit, SignalMemorySaturationHigh} then resourcePathMemory
      else if t \<in> {SignalCPUSaturationHigh, SignalCPUSaturationCritical} then resourcePathCPU
      else if t = SignalCrashLoopBackOff \<and> hasOOMCorrelation diag then resourcePathMemory
      else [])"

definition patchOptTouches :: "raw option \<Rightarrow> string \<Rightarrow> bool" where
  "patchOptTouches p target = (case p of None \<Rightarrow> False | Some r \<Rightarrow> patchTouchesPath r target)"

definition remediationTargetsPath :: "RemediationAction \<Rightarrow> string \<Rightarrow> bool" where
  "remediationTargetsPath ra target =
     (patchOptTouches (ad_patch (sp_action (ra_spec ra))) target \<or>
      list_ex (\<lambda>s. patchOptTouches (st_patch s) target) (sp_steps (ra_spec ra)))"

definition activeRemediationPhases :: "phase list" where
  "activeRemediationPhases = [OtherPhase [], Pending, Approved, Applying, Verifying]"

fun dedupLoop :: "string \<Rightarrow> string \<Rightarrow> string \<Rightarrow> RemediationAction list \<Rightarrow> string" where
  "dedupLoop incident persona targetPath [] = []"
| "dedupLoop incident persona targetPath (ra # ras) =
     (if ra_phase ra \<notin> set activeRemediationPhases then dedupLoop incident persona targetPath ras
      else if ir_name (sp_incidentRef (ra_spec ra)) = incident then
        ''active remediation already exists for incident '' @ incident
      else if targetPath \<noteq> [] \<and> remediationTargetsPath ra targetPath then
        ''active remediation already exists for persona '' @ persona @ '' targeting '' @ targetPath @
        '' (via '' @ ra_name ra @ '')''
      else dedupLoop incident persona targetPath ras)"

definition activeRemediationExists ::
  "'w Proposer \<Rightarrow> 'w \<Rightarrow> Diagnosis \<Rightarrow> IncidentMemory \<Rightarrow> goerr + string" where
  "activeRemediationExists p w diag incident =
     (let refNs = (case dg_personaRef diag of Some ref \<Rightarrow> pr_namespace ref | None \<Rightarrow> []);
          refNm = (case dg_personaRef diag of Some ref \<Rightarrow> pr_name ref | None \<Rightarrow> []);
          namespace = (if im_namespace incident = [] then refNs else im_namespace incident);
          inNamespace = (if namespace \<noteq> [] then Some namespace else None);
          sel = (if refNm \<noteq> [] then [(''dorgu.io/persona-name'', refNm)] else [])
      in case pc_listActions (pr_client p) w inNamespace sel of
           Inl e \<Rightarrow> Inl (Wrap (''listing existing RemediationActions for incident '' @ im_name incident) e)
         | Inr items \<Rightarrow> Inr (dedupLoop (im_name incident) refNm (diagnosisTargetPath diag) items))"

subsection \<open>Sizing a limit increase\<close>

record resourceAdjustment =
  ra_patch :: "jmap option"
  ra_prePatch :: jmap
  ra_explanation :: string
  ra_skipReason :: string

definition noAdjustment :: resourceAdjustment where
  "noAdjustment = \<lparr>ra_patch = None, ra_prePatch = [], ra_explanation = [], ra_skipReason = []\<rparr>"

definition personaLimits :: "ApplicationPersona \<Rightarrow> jmap option" where
  "personaLimits persona =
     (case jpath (p_spec persona) [''resources'', ''limits''] of Some (JObj l) \<Rightarrow> Some l | _ \<Rightarrow> None)"

definition personaLimit :: "ApplicationPersona \<Rightarrow> string \<Rightarrow> string" where
  "personaLimit persona key =
     (case personaLimits persona of
        None \<Rightarrow> []
      | Some l \<Rightarrow>
          (case map_of l (if key = resourceKeyCPU then ''cpu'' else ''memory'') of
             Some (JStr v) \<Rightarrow> v | _ \<Rightarrow> []))"

definition hasObservedLimits :: "WorkloadRef option \<Rightarrow> bool" where
  "hasObservedLimits ref =
     (resolved ref \<and>
      (case wr_observedResources (the ref) of None \<Rightarrow> False | Some obs \<Rightarrow> or_limits obs \<noteq> None))"

definition maxResourceMultiplier :: rat where "maxResourceMultiplier = 2"

definition increaseMultiplier :: "string \<Rightarrow> string \<Rightarrow> rat" where
  "increaseMultiplier key severity =
     (let (warning, critical) = (if key = resourceKeyCPU then (5 / 4, 3 / 2) else (3 / 2, 2))
      in min (if severity = SeverityCritical then critical else warning) maxResourceMultiplier)"

text \<open>\<^verbatim>\<open>int64(x)\<close> on a double: towards zero, for values within the range of an int64.\<close>

definition truncRat :: "rat \<Rightarrow> int" where
  "truncRat x = (if x < 0 then - \<lfloor>- x\<rfloor> else \<lfloor>x\<rfloor>)"

definition scaleQuantity :: "QuantityOps \<Rightarrow> Quantity \<Rightarrow> rat \<Rightarrow> string \<Rightarrow> string" where
  "scaleQuantity q qty multiplier key =
     (if key = resourceKeyCPU then qo_milli q (truncRat (fmul (fl64 (of_int (q_milliValue qty))) multiplier))
      else qo_bytes q (truncRat (fmul (fl64 (of_int (q_value qty))) multiplier)))"

definition limitIncreaseExplanation ::
  "Diagnosis \<Rightarrow> WorkloadRef option \<Rightarrow> string \<Rightarrow> string \<Rightarrow> string \<Rightarrow> rat \<Rightarrow> bool \<Rightarrow> string" where
  "limitIncreaseExplanation diag ref key baseline newValue multiplier groundedInLive =
     (let change = ''Increase the '' @ key @ '' limit from '' @ baseline @ '' to '' @ newValue @ '' (a '' @
            fmtFixed 0 ((multiplier - 1) * 100) @ ''% increase) after a '' @ primarySignalType diag @
            '' signal at '' @ dg_severity diag @ '' severity. ''
      in if \<not> groundedInLive then
           change @ baseline @ '' is the limit recorded in the persona: the live Deployment could not be read, so the running value may differ.''
         else
           change @ baseline @ '' is the live limit read from container '' @ quoteQ (wr_container (the ref)) @
           '' on Deployment '' @ wr_namespace (the ref) @ ''/'' @ wr_name (the ref) @ ''.'')"

definition calculateLimitIncrease ::
  "QuantityOps \<Rightarrow> Diagnosis \<Rightarrow> ApplicationPersona \<Rightarrow> WorkloadRef option \<Rightarrow> string \<Rightarrow> goerr + resourceAdjustment" where
  "calculateLimitIncrease q diag persona ref key =
     (let personaValue = personaLimit persona key;
          live = observedValue ref (pathPrefixLimits @ key);
          sized = (\<lambda>baseline grounded.
            case qo_parse q baseline of
              None \<Rightarrow> Inl (Wrap (''parsing '' @ key @ '' quantity '' @ quoteQ baseline)
                         (Err ''quantities must match the regular expression''))
            | Some qty \<Rightarrow>
                (let multiplier = increaseMultiplier key (dg_severity diag);
                     newValue = scaleQuantity q qty multiplier key;
                     rollbackValue = (if personaValue = [] then baseline else personaValue)
                 in Inr \<lparr>ra_patch = Some (buildNestedMap [''spec'', ''resources'', ''limits'', key, newValue]),
                         ra_prePatch = buildNestedMap [''spec'', ''resources'', ''limits'', key, rollbackValue],
                         ra_explanation = limitIncreaseExplanation diag ref key baseline newValue multiplier grounded,
                         ra_skipReason = []\<rparr>))
      in case live of
           Some v \<Rightarrow> sized v True
         | None \<Rightarrow>
             (if resolved ref then
                Inr (noAdjustment\<lparr>ra_skipReason := ''container '' @ quoteQ (wr_container (the ref)) @
                  '' on Deployment '' @ wr_name (the ref) @ '' does not set a '' @ key @
                  '' limit, so raising one would introduce a field the workload has never had''\<rparr>)
              else if personaValue \<noteq> [] then sized personaValue False
              else Inr noAdjustment))"

definition calculateResourceChange ::
  "QuantityOps \<Rightarrow> Diagnosis \<Rightarrow> ApplicationPersona \<Rightarrow> WorkloadRef option \<Rightarrow> goerr + resourceAdjustment" where
  "calculateResourceChange q diag persona ref =
     (let t = primarySignalType diag in
      if t \<in> {SignalOOMKilled, SignalMemorySaturationCrit, SignalMemorySaturationHigh} then
        calculateLimitIncrease q diag persona ref resourceKeyMemory
      else if t \<in> {SignalCPUSaturationHigh, SignalCPUSaturationCritical} then
        calculateLimitIncrease q diag persona ref resourceKeyCPU
      else if t = SignalCrashLoopBackOff \<and> hasOOMCorrelation diag then
        calculateLimitIncrease q diag persona ref resourceKeyMemory
      else Inr noAdjustment)"

subsection \<open>The rule-based proposal\<close>

definition getApplicationPersona ::
  "'w Proposer \<Rightarrow> 'w \<Rightarrow> PersonaReference \<Rightarrow> goerr + ApplicationPersona" where
  "getApplicationPersona p w ref =
     (if pr_kind ref \<noteq> kindApplicationPersona then
        Inl (Err (''unsupported persona kind for resource adjustment: '' @ pr_kind ref))
      else let namespace = (if pr_namespace ref = [] then defaultNamespace else pr_namespace ref) in
           case pc_getPersona (pr_client p) w (namespace, pr_name ref) of
             Inl e \<Rightarrow> Inl (Wrap (''getting ApplicationPersona '' @ namespace @ ''/'' @ pr_name ref) e)
           | Inr persona \<Rightarrow> Inr persona)"

definition defaultHealthCheckAfter :: duration where "defaultHealthCheckAfter = 10 * minute"

definition skipResult :: "string \<Rightarrow> ProposalResult" where
  "skipResult reason = \<lparr>pp_action = None, pp_skipReason = reason, pp_proposed = False\<rparr>"

definition noActionStatus :: RemediationActionStatus where
  "noActionStatus = \<lparr>rs_phase = OtherPhase [], rs_approvedBy = [], rs_approvedAt = None, rs_appliedAt = None,
     rs_verificationResult = [], rs_conditions = [], rs_currentStep = 0, rs_stepStatuses = []\<rparr>"

definition proposalNamespace :: "PersonaReference \<Rightarrow> string" where
  "proposalNamespace ref = (if pr_namespace ref = [] then defaultNamespace else pr_namespace ref)"

text \<open>
  The part the two proposal paths have in common: the metadata, the references, the trust level,
  the approval and the rollback. A created object gets its timestamp from the server.
\<close>

definition proposedAction ::
  "time \<Rightarrow> IncidentMemory \<Rightarrow> PersonaReference \<Rightarrow> string \<Rightarrow> WorkloadRef \<Rightarrow> RemediationAction" where
  "proposedAction now incident ref actionType wref =
     \<lparr>ra_name = generateActionName (im_namespace incident) (im_name incident)
                  (pr_name (is_personaRef (im_spec incident))) actionType now,
      ra_namespace = proposalNamespace ref, ra_creationTimestamp = zeroTime,
      ra_labels = [(''dorgu.io/persona-kind'', pr_kind ref), (''dorgu.io/persona-name'', pr_name ref),
                   (''dorgu.io/persona-namespace'', proposalNamespace ref)],
      ra_spec = \<lparr>sp_incidentRef = \<lparr>ir_name = im_name incident, ir_namespace = im_namespace incident\<rparr>,
                 sp_personaRef = ref, sp_trustLevel = 2,
                 sp_action = \<lparr>ad_type = [], ad_patch = None, ad_prePatchState = None\<rparr>,
                 sp_steps = [], sp_planSource = [], sp_planSummary = [], sp_explanation = [],
                 sp_confidence = [], sp_workloadRef = Some wref,
                 sp_approval = Some \<lparr>ap_required = True, ap_deadline = None, ap_autoApproveRule = None\<rparr>,
                 sp_rollback = Some \<lparr>rb_enabled = True, rb_healthCheckAfter = Some defaultHealthCheckAfter,
                                     rb_maxRetries = 1\<rparr>\<rparr>,
      ra_status = noActionStatus\<rparr>"

definition ruleAction ::
  "time \<Rightarrow> Diagnosis \<Rightarrow> IncidentMemory \<Rightarrow> PersonaReference \<Rightarrow> WorkloadRef \<Rightarrow> resourceAdjustment \<Rightarrow> jmap \<Rightarrow> RemediationAction" where
  "ruleAction now diag incident ref wref change patch =
     (let a = proposedAction now incident ref (dg_suggestedAction diag) wref in
      a\<lparr>ra_spec := (ra_spec a)\<lparr>
          sp_explanation := ra_explanation change, sp_confidence := fmtFixed 2 (dg_confidence diag),
          sp_action := \<lparr>ad_type = ''persona-update'', ad_patch = Some (RawJson (JObj patch)),
                        ad_prePatchState = Some (RawJson (JObj (ra_prePatch change)))\<rparr>\<rparr>\<rparr>)"

text \<open>\<^verbatim>\<open>%v\<close> of a list of strings.\<close>

definition showReasons :: "string list \<Rightarrow> string" where
  "showReasons reasons = ''['' @ joinWith '' '' reasons @ '']''"

definition violationReason :: "SafetyViolation \<Rightarrow> string" where
  "violationReason v = ''['' @ sv_rule v @ ''] '' @ sv_message v"

text \<open>The create and the status write that end both paths; the error of the second is only logged.\<close>

definition persistProposal ::
  "'w Proposer \<Rightarrow> 'w \<Rightarrow> RemediationAction \<Rightarrow> 'w \<times> (goerr + ProposalResult)" where
  "persistProposal p w action =
     (case pc_create (pr_client p) w action of
        (w1, Some e) \<Rightarrow> (w1, Inl (Wrap ''creating RemediationAction'' e))
      | (w1, None) \<Rightarrow>
          (let pending = action\<lparr>ra_status := noActionStatus\<lparr>rs_phase := Pending\<rparr>\<rparr>;
               (w2, _) = pc_statusUpdate (pr_client p) w1 pending
           in (w2, Inr \<lparr>pp_action = Some pending, pp_skipReason = [], pp_proposed = True\<rparr>)))"

definition proposeResourceAdjustment ::
  "'w Proposer \<Rightarrow> time \<Rightarrow> 'w \<Rightarrow> Diagnosis \<Rightarrow> PersonaReference \<Rightarrow> IncidentMemory \<Rightarrow> WorkloadRef \<Rightarrow>
   'w \<times> (goerr + ProposalResult)" where
  "proposeResourceAdjustment p now w diag ref incident wref =
     (case getApplicationPersona p w ref of
        Inl e \<Rightarrow> (w, Inl (Wrap ''getting application persona'' e))
      | Inr persona \<Rightarrow>
          (if personaLimits persona = None \<and> \<not> hasObservedLimits (Some wref) then
             (w, Inr (skipResult ''persona has no resource limits configured''))
           else (case calculateResourceChange (pr_quantity p) diag persona (Some wref) of
                   Inl e \<Rightarrow> (w, Inl (Wrap ''calculating resource change'' e))
                 | Inr change \<Rightarrow>
                     (if ra_skipReason change \<noteq> [] then (w, Inr (skipResult (ra_skipReason change)))
                      else (case ra_patch change of
                              None \<Rightarrow> (w, Inr (skipResult ''no applicable resource adjustment''))
                            | Some patch \<Rightarrow>
                                (let a0 = ruleAction now diag incident ref wref change patch;
                                     (a1, _) = discloseGroundedBlastRadiusClamp (qo_parse (pr_quantity p)) a0 (Some wref)
                                 in (case Check (pr_safety p) now w (groundedSafetyProbe a1 (Some wref)) of
                                       Inl e \<Rightarrow> (w, Inl (Wrap ''safety check'' e))
                                     | Inr result \<Rightarrow>
                                         (if \<not> sr_allowed result then
                                            (w, Inr (skipResult (''safety check failed: '' @
                                               showReasons (map violationReason (sr_violations result)))))
                                          else persistProposal p w (scrubFabricatedGuardrailClaims a1)))))))))"

end
