(* ===== verification/AIPlan.thy ===== *)
theory AIPlan
  imports Proposer
begin

text \<open>
  The planned half of the proposal builder (\<^verbatim>\<open>internal/remediation/proposer_ai.go\<close>,
  \<^verbatim>\<open>proposer_ai_appliable.go\<close>): a model's plan becomes an action whose only executable steps
  are persona updates that passed the guardrails against the live workload, or the rules take
  over. \<open>Propose\<close>, the entry point of both halves, comes last.
\<close>

subsection \<open>Wording\<close>

definition formatRatio :: "rat \<Rightarrow> string" where
  "formatRatio ratio = fmtFixed 1 ratio @ ''x''"

definition blastRadiusRejectedMessage :: "StepSafety \<Rightarrow> string" where
  "blastRadiusRejectedMessage s =
     ''Blast-radius guardrail: the plan asked to set '' @ ss_field s @ '' to '' @ ss_requested s @ '', which is '' @
     ss_ratio s @ '' the current '' @ ss_baseline s @ ''. The ceiling is '' @ ss_maxRatio s @
     '', so this field is refused and nothing will be applied for it.''"

definition blastRadiusClampedMessage :: "StepSafety \<Rightarrow> string" where
  "blastRadiusClampedMessage s =
     ''Blast-radius guardrail: the plan asked to set '' @ ss_field s @ '' to '' @ ss_requested s @ '', which is '' @
     ss_ratio s @ '' the current '' @ ss_baseline s @ ''. The ceiling is '' @ ss_maxRatio s @
     '', so Dorgu will apply '' @ ss_permitted s @ '' instead, which may not be enough on its own.''"

definition derivedMessage :: "string \<Rightarrow> string \<Rightarrow> string" where
  "derivedMessage field permitted =
     ''The plan named a change to '' @ field @ '' but carried no patch Dorgu could apply, so Dorgu sized it to '' @
     permitted @ '' from the workload it observed.''"

definition guardedRationale :: string where
  "guardedRationale =
     ''Dorgu decides what its guardrails permit, so the outcome above is Dorgu's own arithmetic against the workload it observed, not the plan's account of it.''"

definition derivedRationale :: "StepSafety list \<Rightarrow> string" where
  "derivedRationale safety =
     (if list_ex (\<lambda>s. ss_verdict s = SafetyVerdictClamped) safety then guardedRationale
      else ''The plan named this resource change without a patch Dorgu could apply, so Dorgu sized it with the same calculation the rule-based path uses, against the workload it observed.'')"

definition dorguAuthoredDescription :: "string \<Rightarrow> StepSafety list \<Rightarrow> string" where
  "dorguAuthoredDescription base safety =
     joinWith '' '' ((if base = [] then ''This step applies nothing.'' else base) # map ss_message safety)"

definition describeStepPatch :: "raw option \<Rightarrow> string" where
  "describeStepPatch patch =
     (case patch of
        None \<Rightarrow> []
      | Some r \<Rightarrow>
          (if \<not> rawNonEmpty r then []
           else let vals = patchLeafValues r in
             if vals = [] then []
             else ''Set '' @ humanFieldList (map (\<lambda>field. field @ '' to '' @ the (map_of vals field))
                     (sort (map fst vals))) @ '' on the ApplicationPersona.''))"

subsection \<open>From planned steps to steps\<close>

definition advisoryCommand :: "PlannedStep \<Rightarrow> string" where
  "advisoryCommand ps = (if ps_type ps = StepTypePersonaUpdate then [] else SanitizeStepCommand (ps_command ps))"

definition absentSafety :: "raw \<Rightarrow> WorkloadRef \<Rightarrow> string \<Rightarrow> StepSafety" where
  "absentSafety requested ref field =
     \<lparr>ss_rule = SafetyRuleAbsentField, ss_verdict = SafetyVerdictRejected, ss_field = field, ss_baseline = [],
      ss_requested = (case map_of (patchLeafValues requested) field of Some v \<Rightarrow> v | None \<Rightarrow> []),
      ss_permitted = [], ss_ratio = [], ss_maxRatio = [],
      ss_message = ''Left out: container '' @ quoteQ (wr_container ref) @ '' on '' @ wr_name ref @
        '' does not set '' @ afterLastDot field @
        '' today, so Dorgu will not introduce it as a side effect of another fix. Ask for it as its own change.''\<rparr>"

definition recordAbsentFields :: "RemediationStep \<Rightarrow> raw \<Rightarrow> string list \<Rightarrow> WorkloadRef \<Rightarrow> RemediationStep" where
  "recordAbsentFields step requested dropped ref =
     step\<lparr>st_safety := st_safety step @ map (absentSafety requested ref) dropped\<rparr>"

text \<open>\<^verbatim>\<open>json.Valid\<close> of a non-empty patch.\<close>

fun usablePatch :: "raw \<Rightarrow> bool" where
  "usablePatch (RawJson _) = True"
| "usablePatch _ = False"

definition mapPlannedStep ::
  "ApplicationPersona option \<Rightarrow> WorkloadRef option \<Rightarrow> PlannedStep \<Rightarrow> RemediationStep" where
  "mapPlannedStep persona ref ps =
     (let step = \<lparr>st_order = ps_order ps, st_id = ''step-'' @ showInt (ps_order ps), st_type = ps_type ps,
                  st_description = ps_description ps, st_rationale = ps_rationale ps, st_risk = ps_risk ps,
                  st_autoExecutable = (ps_type ps = StepTypePersonaUpdate), st_command = advisoryCommand ps,
                  st_patch = None, st_prePatchState = None, st_safety = []\<rparr>
      in if ps_type ps \<noteq> StepTypePersonaUpdate then step
         else if \<not> usablePatch (ps_patch ps) then step\<lparr>st_autoExecutable := False\<rparr>
         else (let (patch, dropped) = dropAbsentResourceKeys (Some (ps_patch ps)) ref;
                   noted = (if dropped = [] then step
                            else recordAbsentFields
                                   (step\<lparr>st_rationale := appendNote (st_rationale step)
                                           (absentKeyNote (derefWorkload ref) dropped)\<rparr>)
                                   (ps_patch ps) dropped (derefWorkload ref))
               in case patch of
                    None \<Rightarrow> noted\<lparr>st_autoExecutable := False\<rparr>
                  | Some q \<Rightarrow> noted\<lparr>st_patch := Some q, st_prePatchState := snapshotPrePatch persona q\<rparr>))"

definition mapPlannedSteps ::
  "RemediationPlan \<Rightarrow> ApplicationPersona option \<Rightarrow> WorkloadRef option \<Rightarrow> RemediationStep list" where
  "mapPlannedSteps plan persona ref = map (mapPlannedStep persona ref) (pl_steps plan)"

subsection \<open>The action of a plan\<close>

definition executablePersonaUpdate :: "RemediationStep \<Rightarrow> bool" where
  "executablePersonaUpdate s = (st_autoExecutable s \<and> st_type s = StepTypePersonaUpdate)"

definition setBackCompatAction :: "RemediationAction \<Rightarrow> RemediationAction" where
  "setBackCompatAction action =
     action\<lparr>ra_spec := (ra_spec action)\<lparr>sp_action :=
       (case List.find executablePersonaUpdate (sp_steps (ra_spec action)) of
          Some s \<Rightarrow> \<lparr>ad_type = StepTypePersonaUpdate, ad_patch = st_patch s, ad_prePatchState = st_prePatchState s\<rparr>
        | None \<Rightarrow> notificationDetail)\<rparr>\<rparr>"

definition enforceAutoExecutableInvariant :: "RemediationAction \<Rightarrow> RemediationAction" where
  "enforceAutoExecutableInvariant action =
     action\<lparr>ra_spec := (ra_spec action)\<lparr>sp_steps :=
       map (\<lambda>s. if st_autoExecutable s \<and> st_type s \<noteq> StepTypePersonaUpdate then s\<lparr>st_autoExecutable := False\<rparr> else s)
         (sp_steps (ra_spec action))\<rparr>\<rparr>"

definition formatConfidence :: "rat \<Rightarrow> string" where
  "formatConfidence c = fmtFixed 2 (if c < 0 then 0 else if 1 < c then 1 else c)"

definition buildPlanAction ::
  "time \<Rightarrow> IncidentMemory \<Rightarrow> PersonaReference \<Rightarrow> RemediationPlan \<Rightarrow> RemediationStep list \<Rightarrow> WorkloadRef \<Rightarrow> RemediationAction" where
  "buildPlanAction now incident ref plan steps wref =
     (let a = proposedAction now incident ref ''ai-remediation'' wref in
      setBackCompatAction (a\<lparr>ra_spec := (ra_spec a)\<lparr>
        sp_steps := steps, sp_planSource := PlanSourceAIAnthropic, sp_planSummary := pl_rootCause plan,
        sp_explanation := planExplanation steps, sp_confidence := formatConfidence (pl_confidence plan)\<rparr>\<rparr>))"

subsection \<open>The guardrails, step by step\<close>

definition probeActionForStep :: "RemediationAction \<Rightarrow> WorkloadRef option \<Rightarrow> RemediationStep \<Rightarrow> RemediationAction" where
  "probeActionForStep action ref step =
     action\<lparr>ra_spec := (ra_spec action)\<lparr>sp_steps := [], sp_action :=
       \<lparr>ad_type = StepTypePersonaUpdate, ad_patch = st_patch step,
        ad_prePatchState = groundedOr (st_patch step) ref (st_prePatchState step)\<rparr>\<rparr>\<rparr>"

definition probeAdvisoryAction :: "RemediationAction \<Rightarrow> RemediationAction" where
  "probeAdvisoryAction action =
     action\<lparr>ra_spec := (ra_spec action)\<lparr>sp_steps := [], sp_action := notificationDetail\<rparr>\<rparr>"

definition rejectedEntry :: "SafetyViolation \<Rightarrow> StepSafety" where
  "rejectedEntry v =
     (let entry = \<lparr>ss_rule = SafetyRuleBlastRadius, ss_verdict = SafetyVerdictRejected, ss_field = [],
                   ss_baseline = [], ss_requested = [], ss_permitted = [], ss_ratio = [], ss_maxRatio = [],
                   ss_message = sv_message v\<rparr>
      in case sv_blastRadius v of
           None \<Rightarrow> entry
         | Some d \<Rightarrow>
             (let e = entry\<lparr>ss_field := bv_field d, ss_baseline := bv_baseline d, ss_requested := bv_requested d,
                       ss_ratio := formatRatio (bv_ratio d), ss_maxRatio := formatRatio (bv_maxRatio d)\<rparr>
              in e\<lparr>ss_message := blastRadiusRejectedMessage e\<rparr>))"

definition refusedFields :: "SafetyViolation list \<Rightarrow> string list" where
  "refusedFields refusals = concat (map (\<lambda>v. case sv_blastRadius v of Some d \<Rightarrow> [bv_field d] | None \<Rightarrow> []) refusals)"

definition refuseStepFields :: "RemediationStep \<Rightarrow> SafetyViolation list \<Rightarrow> RemediationStep" where
  "refuseStepFields step refusals =
     (if refusals = [] then step
      else let safety = st_safety step @ map rejectedEntry refusals;
               patch = prunePatchPaths (st_patch step) (refusedFields refusals)
        in step\<lparr>st_safety := safety, st_patch := patch,
             st_prePatchState := prunePatchPaths (st_prePatchState step) (refusedFields refusals),
             st_autoExecutable := (patch \<noteq> None \<and> st_autoExecutable step),
             st_description := dorguAuthoredDescription (describeStepPatch patch) safety,
             st_rationale := guardedRationale\<rparr>)"

text \<open>The violations of the persona as a whole, each once, by rule and message, with their text.\<close>

definition addGlobal :: "SafetyViolation \<Rightarrow> (string \<times> string) list \<Rightarrow> (string \<times> string) list" where
  "addGlobal v seen =
     (let key = sv_rule v @ ''|'' @ sv_message v in
      if key \<in> set (map fst seen) then seen else seen @ [(key, violationReason v)])"

fun stepSafetyLoop ::
  "(RemediationStep \<Rightarrow> goerr + SafetyResult) \<Rightarrow> (string \<times> string) list \<Rightarrow> RemediationStep list \<Rightarrow>
   goerr + RemediationStep list \<times> (string \<times> string) list" where
  "stepSafetyLoop check seen [] = Inr ([], seen)"
| "stepSafetyLoop check seen (s # ss) =
     (if \<not> executablePersonaUpdate s then
        (case stepSafetyLoop check seen ss of Inl e \<Rightarrow> Inl e | Inr (ss', seen') \<Rightarrow> Inr (s # ss', seen'))
      else (case check s of
              Inl e \<Rightarrow> Inl e
            | Inr result \<Rightarrow>
                (let refusals = filter (\<lambda>v. sv_rule v = ''blast-radius'') (sr_violations result);
                     others = filter (\<lambda>v. sv_rule v \<noteq> ''blast-radius'') (sr_violations result)
                 in (case stepSafetyLoop check (fold addGlobal others seen) ss of
                       Inl e \<Rightarrow> Inl e
                     | Inr (ss', seen') \<Rightarrow> Inr (refuseStepFields s refusals # ss', seen')))))"

definition applyStepSafety ::
  "'w Proposer \<Rightarrow> time \<Rightarrow> 'w \<Rightarrow> RemediationAction \<Rightarrow> WorkloadRef option \<Rightarrow> goerr + RemediationAction \<times> string" where
  "applyStepSafety p now w action ref =
     (let skip = (\<lambda>seen. if seen = [] then []
            else ''safety check failed: '' @ showReasons (map snd seen))
      in case stepSafetyLoop (\<lambda>s. Check (pr_safety p) now w (probeActionForStep action ref s)) []
                (sp_steps (ra_spec action)) of
           Inl e \<Rightarrow> Inl e
         | Inr (steps, seen) \<Rightarrow>
             (let action' = action\<lparr>ra_spec := (ra_spec action)\<lparr>sp_steps := steps\<rparr>\<rparr> in
              if list_ex executablePersonaUpdate (sp_steps (ra_spec action)) then Inr (action', skip seen)
              else (case Check (pr_safety p) now w (probeAdvisoryAction action') of
                      Inl e \<Rightarrow> Inl e
                    | Inr result \<Rightarrow> Inr (action', skip (fold addGlobal (sr_violations result) seen)))))"

subsection \<open>A plan that heals what it diagnosed (proposer\_ai\_appliable.go)\<close>

definition appliesDiagnosedChange :: "RemediationAction \<Rightarrow> string \<Rightarrow> bool" where
  "appliesDiagnosedChange action target =
     (let sp = ra_spec action in
      if list_ex (\<lambda>s. executablePersonaUpdate s \<and> patchOptTouches (st_patch s) target) (sp_steps sp) then True
      else if sp_steps sp \<noteq> [] then False
      else ad_type (sp_action sp) = ActionTypePersonaUpdate \<and> patchOptTouches (ad_patch (sp_action sp)) target)"

definition assertAppliableWhenResourceDiagnosed :: "RemediationAction \<Rightarrow> Diagnosis \<Rightarrow> bool \<Rightarrow> goerr option" where
  "assertAppliableWhenResourceDiagnosed action diag ruleEngineDeclined =
     (let target = diagnosisTargetPath diag in
      if ruleEngineDeclined \<or> target = [] \<or> appliesDiagnosedChange action target then None
      else Some (Err (''refusing to persist a plan that applies nothing for a diagnosed change to '' @ target @
             '': no step carries an appliable persona-update patch for it'')))"

definition hasBlastRadiusRefusal :: "StepSafety list \<Rightarrow> bool" where
  "hasBlastRadiusRefusal safety =
     list_ex (\<lambda>s. ss_rule s = SafetyRuleBlastRadius \<and> ss_verdict s = SafetyVerdictRejected) safety"

fun firstIndex :: "('a \<Rightarrow> bool) \<Rightarrow> 'a list \<Rightarrow> nat option" where
  "firstIndex P [] = None"
| "firstIndex P (x # xs) = (if P x then Some 0 else map_option Suc (firstIndex P xs))"

definition personaUpdateStep :: "RemediationStep list \<Rightarrow> nat option" where
  "personaUpdateStep steps =
     (case firstIndex (\<lambda>s. st_type s = StepTypePersonaUpdate \<and> hasBlastRadiusRefusal (st_safety s)) steps of
        Some i \<Rightarrow> Some i
      | None \<Rightarrow> firstIndex (\<lambda>s. st_type s = StepTypePersonaUpdate) steps)"

definition mergePatches :: "raw option \<Rightarrow> raw option \<Rightarrow> raw option" where
  "mergePatches base overlay =
     (if \<not> hasPatch base then overlay
      else if \<not> hasPatch overlay then base
      else (case (unmarshalMap (the base), unmarshalMap (the overlay)) of
              (None, _) \<Rightarrow> overlay
            | (_, None) \<Rightarrow> base
            | (Some b, Some ov) \<Rightarrow> Some (RawJson (JObj (mergeMaps b ov)))))"

definition settles :: "(string \<times> string) list \<Rightarrow> StepSafety \<Rightarrow> bool" where
  "settles derived e =
     (map_of derived (ss_field e) \<noteq> None \<and> ss_rule e = SafetyRuleBlastRadius \<and>
      ss_verdict e = SafetyVerdictRejected)"

definition clampedEntry :: "(string \<times> string) list \<Rightarrow> StepSafety \<Rightarrow> StepSafety" where
  "clampedEntry derived e =
     (let e' = e\<lparr>ss_verdict := SafetyVerdictClamped, ss_permitted := the (map_of derived (ss_field e))\<rparr>
      in e'\<lparr>ss_message := blastRadiusClampedMessage e'\<rparr>)"

definition recordDerivedValues :: "StepSafety list \<Rightarrow> (string \<times> string) list \<Rightarrow> StepSafety list" where
  "recordDerivedValues safety derived =
     map (\<lambda>e. if settles derived e then clampedEntry derived e else e) safety @
     map (\<lambda>field. let v = the (map_of derived field) in
          \<lparr>ss_rule = SafetyRulePlanValidation, ss_verdict = SafetyVerdictDerived, ss_field = field,
           ss_baseline = [], ss_requested = [], ss_permitted = v, ss_ratio = [], ss_maxRatio = [],
           ss_message = derivedMessage field v\<rparr>)
       (filter (\<lambda>field. field \<notin> set (map ss_field (filter (settles derived) safety))) (sort (map fst derived)))"

definition installDerivedPatch :: "raw \<Rightarrow> raw \<Rightarrow> string \<Rightarrow> RemediationStep \<Rightarrow> RemediationStep" where
  "installDerivedPatch patch prePatch explanation step =
     (let safety = recordDerivedValues (st_safety step) (patchLeafValues patch) in
      step\<lparr>st_type := StepTypePersonaUpdate, st_autoExecutable := True,
           st_patch := mergePatches (st_patch step) (Some patch),
           st_prePatchState := mergePatches (st_prePatchState step) (Some prePatch),
           st_command := [], st_safety := safety,
           st_description := dorguAuthoredDescription explanation safety,
           st_rationale := derivedRationale safety\<rparr>)"

definition ensureAppliableResourcePlan ::
  "QuantityOps \<Rightarrow> RemediationAction \<Rightarrow> Diagnosis \<Rightarrow> ApplicationPersona \<Rightarrow> WorkloadRef option \<Rightarrow>
   goerr + RemediationAction \<times> bool" where
  "ensureAppliableResourcePlan q action diag persona ref =
     (let target = diagnosisTargetPath diag; steps = sp_steps (ra_spec action) in
      if target = [] \<or> appliesDiagnosedChange action target then Inr (action, False)
      else (case calculateResourceChange q diag persona ref of
              Inl e \<Rightarrow> Inl (Wrap ''sizing a resource change for an unappliable AI plan'' e)
            | Inr change \<Rightarrow>
                (case (ra_skipReason change, ra_patch change, personaUpdateStep steps) of
                   ([], Some patch, Some i) \<Rightarrow>
                     Inr (action\<lparr>ra_spec := (ra_spec action)\<lparr>sp_steps :=
                            steps[i := installDerivedPatch (RawJson (JObj patch)) (RawJson (JObj (ra_prePatch change)))
                                         (ra_explanation change) (steps ! i)]\<rparr>\<rparr>, False)
                 | ([], Some patch, None) \<Rightarrow>
                     Inl (Err (''AI plan for a diagnosed change to '' @ target @
                       '' contains no persona-update step, the only kind the operator can apply''))
                 | _ \<Rightarrow> Inr (action, True))))"

definition patchlessUpdate :: "RemediationStep \<Rightarrow> bool" where
  "patchlessUpdate s = (st_type s = StepTypePersonaUpdate \<and> \<not> hasPatch (st_patch s) \<and> st_safety s = [])"

fun renumber :: "int \<Rightarrow> RemediationStep list \<Rightarrow> RemediationStep list" where
  "renumber n [] = []"
| "renumber n (s # ss) = s\<lparr>st_order := n, st_id := ''step-'' @ showInt n\<rparr> # renumber (n + 1) ss"

definition dropPatchlessPersonaUpdates :: "RemediationAction \<Rightarrow> RemediationAction \<times> nat" where
  "dropPatchlessPersonaUpdates action =
     (let steps = sp_steps (ra_spec action);
          kept = filter (\<lambda>s. \<not> patchlessUpdate s) steps;
          dropped = length steps - length kept
      in if dropped = 0 then (action, 0)
         else (action\<lparr>ra_spec := (ra_spec action)\<lparr>sp_steps := renumber 1 kept\<rparr>\<rparr>, dropped))"

end
