(* ===== verification/Proposal.thy ===== *)
theory Proposal
  imports AIPlan
begin

text \<open>
  The two entry points of the proposal builder: \<^verbatim>\<open>proposeWithPlanner\<close>
  (\<^verbatim>\<open>internal/remediation/proposer_ai.go\<close>) and \<^verbatim>\<open>Propose\<close> (\<^verbatim>\<open>proposer.go\<close>), and the laws of what
  they write: every action asks for approval, only persona updates are executable, and no command
  survives that writes an owned workload. The incident is never nil, as its caller passes one.
\<close>

subsection \<open>The planned path\<close>

text \<open>The statements of \<^verbatim>\<open>proposeWithPlanner\<close> from \<^verbatim>\<open>setBackCompatAction\<close> to the last scrub.\<close>

definition shapePlan :: "QuantityOps \<Rightarrow> WorkloadRef option \<Rightarrow> RemediationAction \<Rightarrow> RemediationAction" where
  "shapePlan q ref action =
     (let a1 = enforceAutoExecutableInvariant (setBackCompatAction action);
          a2 = stripWorkloadWriteCommands (applyOwnershipShaping a1 ref) ref;
          a3 = a2\<lparr>ra_spec := (ra_spec a2)\<lparr>sp_explanation := planExplanation (sp_steps (ra_spec a2))\<rparr>\<rparr>;
          a4 = fst (discloseGroundedBlastRadiusClamp (qo_parse q) a3 ref)
      in scrubFabricatedGuardrailClaims (scrubRefusedValues q a4))"

definition observedDeployment :: "Observation option \<Rightarrow> Deployment option" where
  "observedDeployment obs = Option.bind obs ob_deployment"

text \<open>From the plan the model returned to the object to be written, or a reason to skip.\<close>

definition assemblePlan ::
  "'w Proposer \<Rightarrow> time \<Rightarrow> 'w \<Rightarrow> Diagnosis \<Rightarrow> PersonaReference \<Rightarrow> IncidentMemory \<Rightarrow> ApplicationPersona \<Rightarrow>
   WorkloadRef \<Rightarrow> RemediationPlan \<Rightarrow> goerr + string + RemediationAction" where
  "assemblePlan p now w diag ref incident persona wref plan =
     (let steps = mapPlannedSteps plan (Some persona) (Some wref);
          a0 = buildPlanAction now incident ref plan steps wref
      in case applyStepSafety p now w a0 (Some wref) of
           Inl e \<Rightarrow> Inl (Wrap ''safety check'' e)
         | Inr (a1, skip) \<Rightarrow>
             (if skip \<noteq> [] then Inr (Inl skip)
              else (case ensureAppliableResourcePlan (pr_quantity p) a1 diag persona (Some wref) of
                      Inl e \<Rightarrow> Inl e
                    | Inr (a2, declined) \<Rightarrow>
                        (let (a3, dropped) = dropPatchlessPersonaUpdates a2 in
                         if 0 < dropped \<and> sp_steps (ra_spec a3) = [] then
                           Inl (Err ''AI plan had nothing left after removing persona-update steps with no patch'')
                         else let a4 = shapePlan (pr_quantity p) (Some wref) a3 in
                              case assertAppliableWhenResourceDiagnosed a4 diag declined of
                                Some e \<Rightarrow> Inl e
                              | None \<Rightarrow> Inr (Inr a4)))))"

definition proposeWithPlanner ::
  "'w Proposer \<Rightarrow> ('w \<Rightarrow> RemediationContext \<Rightarrow> goerr + RemediationPlan option) \<Rightarrow> time \<Rightarrow> 'w \<Rightarrow> Diagnosis \<Rightarrow>
   PersonaReference \<Rightarrow> IncidentMemory \<Rightarrow> WorkloadRef \<Rightarrow> Observation option \<Rightarrow>
   'w \<times> (goerr + ProposalResult)" where
  "proposeWithPlanner p planner now w diag ref incident wref obs =
     (case BuildContext (pr_client p) w diag (Some incident) of
        Inl e \<Rightarrow> (w, Inl (Wrap ''building remediation context'' e))
      | Inr rc \<Rightarrow>
          (case planner w (rc\<lparr>rx_workload := NewWorkloadContext (Some wref) (observedDeployment obs)
                                                           (Some (rx_appPersona rc))\<rparr>) of
             Inl e \<Rightarrow> (w, Inl (Wrap ''planning remediation'' e))
           | Inr None \<Rightarrow> (w, Inl (Err ''planner returned an empty plan''))
           | Inr (Some plan) \<Rightarrow>
               (if pl_steps plan = [] then (w, Inl (Err ''planner returned an empty plan''))
                else (case assemblePlan p now w diag ref incident (rx_appPersona rc) wref plan of
                        Inl e \<Rightarrow> (w, Inl e)
                      | Inr (Inl skip) \<Rightarrow> (w, Inr (skipResult skip))
                      | Inr (Inr action) \<Rightarrow> persistProposal p w action))))"

subsection \<open>The entry point\<close>

definition withholdFromModel :: "'w Proposer \<Rightarrow> 'w \<Rightarrow> Diagnosis \<Rightarrow> bool" where
  "withholdFromModel p w diag = snd (ProtectedNamespace (Some (NamespaceProtected (Some (pr_safety p)) w)) diag)"

text \<open>The switch on the suggested action that ends \<^verbatim>\<open>Propose\<close>.\<close>

definition proposeByRules ::
  "'w Proposer \<Rightarrow> time \<Rightarrow> 'w \<Rightarrow> Diagnosis \<Rightarrow> PersonaReference \<Rightarrow> IncidentMemory \<Rightarrow> WorkloadRef \<Rightarrow>
   'w \<times> (goerr + ProposalResult)" where
  "proposeByRules p now w diag ref incident wref =
     (if dg_suggestedAction diag = ''resource-adjustment'' then
        proposeResourceAdjustment p now w diag ref incident wref
      else if dg_suggestedAction diag = ''restart'' then
        (w, Inr (skipResult ''restart remediation not automated in Phase 2b''))
      else (w, Inr (skipResult (''unsupported action type: '' @ dg_suggestedAction diag))))"

abbreviation seenWorkload :: "'w Proposer \<Rightarrow> time \<Rightarrow> 'w \<Rightarrow> PersonaReference \<Rightarrow> Observation option" where
  "seenWorkload p now w ref \<equiv> fst (observeWorkload (pr_client p) now w (Some ref))"

definition Propose ::
  "'w Proposer \<Rightarrow> 'w \<Rightarrow> time \<Rightarrow> Diagnosis \<Rightarrow> IncidentMemory \<Rightarrow> 'w \<times> (goerr + ProposalResult)" where
  "Propose p w now diag incident =
     (case dg_personaRef diag of
        None \<Rightarrow> (w, Inr (skipResult ''diagnosis has no persona reference''))
      | Some ref \<Rightarrow>
          (if proposalSuppressedByMode p w \<noteq> [] then (w, Inr (skipResult (proposalSuppressedByMode p w)))
           else (case NamespaceDenied (Some (pr_safety p)) w (pr_namespace ref) of
                   Some v \<Rightarrow> (w, Inr (skipResult (''safety check failed: '' @ showReasons [violationReason v])))
                 | None \<Rightarrow>
                     (case activeRemediationExists p w diag incident of
                        Inl e \<Rightarrow> (w, Inl e)
                      | Inr reason \<Rightarrow>
                          (if reason \<noteq> [] then (w, Inr (skipResult reason))
                           else (let (obs, wref) = observeWorkload (pr_client p) now w (Some ref) in
                                 (case pr_planner p of
                                    None \<Rightarrow> proposeByRules p now w diag ref incident wref
                                  | Some planner \<Rightarrow>
                                      (if withholdFromModel p w diag then
                                         proposeByRules p now w diag ref incident wref
                                       else (case proposeWithPlanner p planner now w diag ref incident wref obs of
                                               (w1, Inl _) \<Rightarrow> proposeByRules p now w1 diag ref incident wref
                                             | done' \<Rightarrow> done')))))))))"

end
