(* ===== verification/ProposalLaws.thy ===== *)
theory ProposalLaws
  imports Proposal
begin

text \<open>
  The laws of the proposal builder. What a proposal may change of the action it started from
  (\<open>frame\<close>) and of its steps (\<open>tamer\<close>) carries the properties of the two entry points; the grammar
  of global flags is the specification of the kubectl parser.
\<close>

subsection \<open>What shaping an action may change\<close>

definition frame :: "RemediationAction \<Rightarrow> RemediationAction" where
  "frame a = a\<lparr>ra_spec := (ra_spec a)\<lparr>sp_steps := [], sp_action := notificationDetail, sp_planSummary := [],
     sp_explanation := [], sp_confidence := []\<rparr>\<rparr>"

definition tamer :: "RemediationStep \<Rightarrow> RemediationStep \<Rightarrow> bool" where
  "tamer s s' \<longleftrightarrow> st_type s' = st_type s \<and> (st_autoExecutable s' \<longrightarrow> st_autoExecutable s) \<and>
     (st_command s' = st_command s \<or> st_command s' = []) \<and> st_safety s' = st_safety s"

abbreviation steps_of :: "RemediationAction \<Rightarrow> RemediationStep list" where
  "steps_of a \<equiv> sp_steps (ra_spec a)"

abbreviation tamed :: "RemediationAction \<Rightarrow> RemediationAction \<Rightarrow> bool" where
  "tamed a b \<equiv> list_all2 tamer (steps_of a) (steps_of b)"

named_theorems shaping

lemma tamer_refl [simp]: "tamer s s"
  by (simp add: tamer_def)

lemma tamer_trans: "tamer s t \<Longrightarrow> tamer t u \<Longrightarrow> tamer s u"
  by (auto simp: tamer_def)

lemma tamed_refl [simp]: "list_all2 tamer ss ss"
  by (simp add: list_all2_refl)

lemma tamed_trans [trans]: "tamed a b \<Longrightarrow> tamed b c \<Longrightarrow> tamed a c"
  by (rule list_all2_trans [OF tamer_trans])

lemma tamed_map: "(\<And>s. tamer s (f s)) \<Longrightarrow> list_all2 tamer ss (map f ss)"
  by (simp add: list_all2_conv_all_nth)

lemma tamed_step: "list_all2 tamer ss ts \<Longrightarrow> t \<in> set ts \<Longrightarrow> \<exists>s \<in> set ss. tamer s t"
  by (metis in_set_conv_nth list_all2_conv_all_nth)

lemma not_writes_Nil [simp]: "\<not> writesWorkload []"
  by (simp add: writesWorkload_def isKubectlInvocation_def stringFields_def)

lemma frame_setBackCompatAction [shaping]: "frame (setBackCompatAction a) = frame a"
  and frame_enforce [shaping]: "frame (enforceAutoExecutableInvariant a) = frame a"
  and frame_ownership [shaping]: "frame (applyOwnershipShaping a ref) = frame a"
  and frame_strip [shaping]: "frame (stripWorkloadWriteCommands a ref) = frame a"
  and frame_scrubRefused [shaping]: "frame (scrubRefusedValues q a) = frame a"
  and frame_scrubClaims [shaping]: "frame (scrubFabricatedGuardrailClaims a) = frame a"
  by (simp_all add: frame_def setBackCompatAction_def enforceAutoExecutableInvariant_def applyOwnershipShaping_def
      stripWorkloadWriteCommands_def scrubRefusedValues_def scrubFabricatedGuardrailClaims_def Let_def)

lemma frame_disclose [shaping]: "frame (fst (discloseBlastRadiusClamp pq a)) = frame a"
  by (simp add: frame_def discloseBlastRadiusClamp_def Let_def)

lemma frame_probe [shaping]: "frame (groundedSafetyProbe a ref) = frame a"
  by (simp add: frame_def groundedSafetyProbe_def Let_def)

lemma frame_disclose_grounded [shaping]: "frame (fst (discloseGroundedBlastRadiusClamp pq a ref)) = frame a"
proof (cases "resolved ref")
  case True
  have "frame (fst (discloseGroundedBlastRadiusClamp pq a ref)) =
      frame (fst (discloseBlastRadiusClamp pq (groundedSafetyProbe a ref)))"
    using True by (simp add: discloseGroundedBlastRadiusClamp_def frame_def Let_def split: prod.split)
  then show ?thesis by (simp add: shaping)
qed (simp add: discloseGroundedBlastRadiusClamp_def shaping)

lemma tamed_setBackCompatAction: "tamed a (setBackCompatAction a)"
  by (simp add: setBackCompatAction_def)

lemma tamed_enforce: "tamed a (enforceAutoExecutableInvariant a)"
  by (simp add: enforceAutoExecutableInvariant_def tamed_map tamer_def)

lemma tamed_ownership: "tamed a (applyOwnershipShaping a ref)"
  by (simp add: applyOwnershipShaping_def Let_def tamed_map tamer_def)

lemma tamed_strip: "tamed a (stripWorkloadWriteCommands a ref)"
  by (simp add: stripWorkloadWriteCommands_def tamed_map tamer_def)

lemma tamed_scrubClaims: "tamed a (scrubFabricatedGuardrailClaims a)"
  by (simp add: scrubFabricatedGuardrailClaims_def Let_def tamed_map tamer_def)

lemma tamer_scrubStep: "tamer s (scrubStep q refused s)"
  by (auto simp: tamer_def scrubStep_def Let_def split: prod.split bool.split)

lemma tamed_scrubRefused: "tamed a (scrubRefusedValues q a)"
  by (simp add: scrubRefusedValues_def Let_def tamed_map tamer_scrubStep)

lemma tamed_disclose: "tamed a (fst (discloseBlastRadiusClamp pq a))"
  by (simp add: discloseBlastRadiusClamp_def Let_def tamed_map tamer_def split: list.split)

lemma tamed_probe: "tamed a (groundedSafetyProbe a ref)"
  by (simp add: groundedSafetyProbe_def Let_def tamed_map tamer_def)

lemma tamed_map2: "length ss = length ts \<Longrightarrow> (\<And>s t. tamer s (f s t)) \<Longrightarrow> list_all2 tamer ss (map2 f ss ts)"
  by (simp add: list_all2_conv_all_nth)

lemma tamed_disclose_grounded: "tamed a (fst (discloseGroundedBlastRadiusClamp pq a ref))"
proof (cases "resolved ref")
  case True
  let ?d = "fst (discloseBlastRadiusClamp pq (groundedSafetyProbe a ref))"
  have 1: "tamed a ?d" using tamed_trans [OF tamed_probe tamed_disclose] .
  have "length (steps_of ?d) = length (steps_of a)" using 1 by (simp add: list_all2_lengthD)
  then have 2: "tamed ?d (fst (discloseGroundedBlastRadiusClamp pq a ref))"
    using True by (cases "discloseBlastRadiusClamp pq (groundedSafetyProbe a ref)")
      (auto simp: discloseGroundedBlastRadiusClamp_def Let_def tamer_def intro!: tamed_map2)
  show ?thesis using tamed_trans [OF 1 2] .
qed (simp add: discloseGroundedBlastRadiusClamp_def tamed_disclose)

subsection \<open>The shaped plan\<close>

lemma frame_shapePlan [shaping]: "frame (shapePlan q ref a) = frame a"
proof -
  have explain: "frame (b\<lparr>ra_spec := (ra_spec b)\<lparr>sp_explanation := e\<rparr>\<rparr>) = frame b" for b e
    by (simp add: frame_def)
  show ?thesis by (simp add: shapePlan_def Let_def shaping explain)
qed

lemma enforced: "s \<in> set (steps_of (enforceAutoExecutableInvariant a)) \<Longrightarrow>
    st_autoExecutable s \<Longrightarrow> st_type s = StepTypePersonaUpdate"
  by (auto simp: enforceAutoExecutableInvariant_def split: if_splits)

lemma stripped: "IsOwned ref \<Longrightarrow> s \<in> set (steps_of (stripWorkloadWriteCommands a ref)) \<Longrightarrow>
    \<not> writesWorkload (st_command s)"
  by (auto simp: stripWorkloadWriteCommands_def)

lemma shapePlan_steps:
  assumes "s \<in> set (steps_of (shapePlan q ref a))"
  shows "st_autoExecutable s \<Longrightarrow> st_type s = StepTypePersonaUpdate"
    and "IsOwned ref \<Longrightarrow> \<not> writesWorkload (st_command s)"
proof -
  let ?a1 = "enforceAutoExecutableInvariant (setBackCompatAction a)"
  let ?a2 = "stripWorkloadWriteCommands (applyOwnershipShaping ?a1 ref) ref"
  let ?a3 = "?a2\<lparr>ra_spec := (ra_spec ?a2)\<lparr>sp_explanation := planExplanation (steps_of ?a2)\<rparr>\<rparr>"
  let ?a4 = "fst (discloseGroundedBlastRadiusClamp (qo_parse q) ?a3 ref)"
  have s: "shapePlan q ref a = scrubFabricatedGuardrailClaims (scrubRefusedValues q ?a4)"
    by (simp add: shapePlan_def Let_def)
  have 1: "tamed ?a1 ?a2" using tamed_trans [OF tamed_ownership tamed_strip] .
  have 2: "tamed ?a2 ?a3" by simp
  have 3: "tamed ?a3 (shapePlan q ref a)"
    unfolding s using tamed_trans [OF tamed_disclose_grounded tamed_trans [OF tamed_scrubRefused tamed_scrubClaims]] .
  obtain t where t: "t \<in> set (steps_of ?a2)" "tamer t s"
    using tamed_step [OF tamed_trans [OF 2 3] assms] by blast
  obtain u where u: "u \<in> set (steps_of ?a1)" "tamer u t" using tamed_step [OF 1 t(1)] by blast
  show "st_type s = StepTypePersonaUpdate" if "st_autoExecutable s"
    using that t(2) u enforced [OF u(1)] by (simp add: tamer_def)
  show "\<not> writesWorkload (st_command s)" if "IsOwned ref"
    using stripped [OF that t(1)] t(2) by (auto simp: tamer_def)
qed

subsection \<open>What a proposal holds\<close>

lemma persist_proposed:
  assumes "persistProposal p w a = (w', Inr r)" "pp_proposed r"
  shows "pp_action r = Some (a\<lparr>ra_status := noActionStatus\<lparr>rs_phase := Pending\<rparr>\<rparr>)"
    and "snd (pc_create (pr_client p) w a) = None"
  using assms by (auto simp: persistProposal_def Let_def split: prod.splits option.splits)

lemma skip_not_proposed [simp]: "\<not> pp_proposed (skipResult reason)"
  by (simp add: skipResult_def)

text \<open>The two ways to a written action.\<close>

lemma rules_proposed:
  assumes "proposeByRules p now w d ref im wref = (w', Inr r)" "pp_proposed r"
  obtains persona change patch a1 res where
    "getApplicationPersona p w ref = Inr persona"
    "calculateResourceChange (pr_quantity p) d persona (Some wref) = Inr change"
    "ra_skipReason change = []" "ra_patch change = Some patch"
    "a1 = fst (discloseGroundedBlastRadiusClamp (qo_parse (pr_quantity p))
            (ruleAction now d im ref wref change patch) (Some wref))"
    "Check (pr_safety p) now w (groundedSafetyProbe a1 (Some wref)) = Inr res" "sr_allowed res"
    "persistProposal p w (scrubFabricatedGuardrailClaims a1) = (w', Inr r)"
  using assms
  by (auto simp: proposeByRules_def proposeResourceAdjustment_def Let_def
      split: if_splits sum.splits option.splits prod.splits)

lemma plan_proposed:
  assumes "proposeWithPlanner p planner now w d ref im wref obs = (w', Inr r)" "pp_proposed r"
  obtains rc plan a where
    "BuildContext (pr_client p) w d (Some im) = Inr rc"
    "assemblePlan p now w d ref im (rx_appPersona rc) wref plan = Inr (Inr a)"
    "persistProposal p w a = (w', Inr r)"
  using assms
  by (auto simp: proposeWithPlanner_def split: if_splits sum.splits option.splits)

lemma assemblePlan_shaped:
  assumes "assemblePlan p now w d ref im persona wref plan = Inr (Inr a)"
  obtains a1 a2 declined where
    "applyStepSafety p now w (buildPlanAction now im ref plan (mapPlannedSteps plan (Some persona) (Some wref)) wref)
       (Some wref) = Inr (a1, [])"
    "ensureAppliableResourcePlan (pr_quantity p) a1 d persona (Some wref) = Inr (a2, declined)"
    "a = shapePlan (pr_quantity p) (Some wref) (fst (dropPatchlessPersonaUpdates a2))"
    "assertAppliableWhenResourceDiagnosed a d declined = None"
  using assms
  by (auto simp: assemblePlan_def Let_def split: if_splits sum.splits option.splits prod.splits)

lemma Propose_proposed:
  assumes "Propose p w now d im = (w', Inr r)" "pp_proposed r"
  obtains ref wref w1 where "dg_personaRef d = Some ref"
    "wref = snd (observeWorkload (pr_client p) now w (Some ref))"
    "proposeByRules p now w1 d ref im wref = (w', Inr r) \<or>
     (\<exists>planner. pr_planner p = Some planner \<and>
        proposeWithPlanner p planner now w d ref im wref (seenWorkload p now w ref) = (w', Inr r))"
    "pr_planner p = None \<longrightarrow> w1 = w \<and> proposeByRules p now w1 d ref im wref = (w', Inr r)"
proof -
  obtain ref where ref: "dg_personaRef d = Some ref" using assms by (auto simp: Propose_def split: option.splits)
  obtain obs wref where seen: "observeWorkload (pr_client p) now w (Some ref) = (obs, wref)" by fastforce
  show ?thesis
    using assms that [OF ref, of wref]
    by (auto simp: Propose_def ref seen split: if_splits sum.splits option.splits prod.splits)
qed

definition approvalRequired :: ApprovalSpec where
  "approvalRequired = \<lparr>ap_required = True, ap_deadline = None, ap_autoApproveRule = None\<rparr>"

text \<open>The action every path starts from, up to what shaping changes and the source of the plan.\<close>

definition wellFramed :: "IncidentMemory \<Rightarrow> PersonaReference \<Rightarrow> WorkloadRef \<Rightarrow> RemediationAction \<Rightarrow> bool" where
  "wellFramed im ref wref a \<longleftrightarrow>
     ra_namespace a = proposalNamespace ref \<and> ra_status a = noActionStatus \<and>
     sp_personaRef (ra_spec a) = ref \<and> ir_name (sp_incidentRef (ra_spec a)) = im_name im \<and>
     sp_workloadRef (ra_spec a) = Some wref \<and> sp_approval (ra_spec a) = Some approvalRequired \<and>
     map_option rb_enabled (sp_rollback (ra_spec a)) = Some True"

lemma wellFramed_frame: "frame a = frame b \<Longrightarrow> wellFramed im ref wref a = wellFramed im ref wref b"
proof -
  have "wellFramed im ref wref c = wellFramed im ref wref (frame c)" for c
    by (simp add: wellFramed_def frame_def)
  then show "frame a = frame b \<Longrightarrow> ?thesis" by metis
qed

lemma wellFramed_ruleAction: "wellFramed im ref wref (ruleAction now d im ref wref change patch)"
  and wellFramed_buildPlanAction: "wellFramed im ref wref (buildPlanAction now im ref plan steps wref)"
  by (simp_all add: wellFramed_def ruleAction_def buildPlanAction_def setBackCompatAction_def proposedAction_def
      approvalRequired_def Let_def)

lemma frame_applyStepSafety: "applyStepSafety p now w a ref = Inr (b, skip) \<Longrightarrow> frame b = frame a"
  by (auto simp: applyStepSafety_def frame_def Let_def split: sum.splits prod.splits if_splits)

lemma frame_ensureAppliable: "ensureAppliableResourcePlan q a d persona ref = Inr (b, declined) \<Longrightarrow> frame b = frame a"
  by (auto simp: ensureAppliableResourcePlan_def frame_def Let_def
      split: sum.splits if_splits list.splits option.splits)

lemma frame_dropPatchless: "frame (fst (dropPatchlessPersonaUpdates a)) = frame a"
  by (simp add: dropPatchlessPersonaUpdates_def frame_def Let_def)

lemma assemblePlan_framed:
  assumes "assemblePlan p now w d ref im persona wref plan = Inr (Inr a)"
  shows "wellFramed im ref wref a"
proof -
  obtain a1 a2 declined where
    1: "applyStepSafety p now w (buildPlanAction now im ref plan (mapPlannedSteps plan (Some persona) (Some wref)) wref)
          (Some wref) = Inr (a1, [])" and
    2: "ensureAppliableResourcePlan (pr_quantity p) a1 d persona (Some wref) = Inr (a2, declined)" and
    3: "a = shapePlan (pr_quantity p) (Some wref) (fst (dropPatchlessPersonaUpdates a2))"
    using assemblePlan_shaped [OF assms] by metis
  have "frame a = frame (buildPlanAction now im ref plan (mapPlannedSteps plan (Some persona) (Some wref)) wref)"
    using 3 frame_ensureAppliable [OF 2] frame_applyStepSafety [OF 1]
    by (simp add: shaping frame_dropPatchless)
  then show ?thesis using wellFramed_frame wellFramed_buildPlanAction by metis
qed

subsection \<open>The guardrails see only the persona and the change\<close>

lemma concurrentLoop_cong: "personaText a = personaText b \<Longrightarrow> concurrentLoop a acts = concurrentLoop b acts"
  by (induction acts) auto

lemma cooldownLoop_cong: "personaText a = personaText b \<Longrightarrow> cooldownLoop now a acts = cooldownLoop now b acts"
  by (induction acts) (auto simp: Let_def)

lemma Check_cong:
  assumes "ra_namespace a = ra_namespace b" "sp_personaRef (ra_spec a) = sp_personaRef (ra_spec b)" "sp_action (ra_spec a) = sp_action (ra_spec b)"
  shows "Check s now w a = Check s now w b"
proof -
  have t: "personaText a = personaText b" using assms by (simp add: personaText_def)
  have l: "listPersonaActions s w a = listPersonaActions s w b" using assms by (simp add: listPersonaActions_def)
  have r: "checkRateLimit s now w a = checkRateLimit s now w b"
    by (simp add: checkRateLimit_def listRecentActions_def l t Let_def split: sum.split)
  have c: "checkConcurrent s w a = checkConcurrent s w b"
    by (simp add: checkConcurrent_def l concurrentLoop_cong [OF t] split: sum.split)
  have f: "checkFailedCooldown s now w a = checkFailedCooldown s now w b"
    by (simp add: checkFailedCooldown_def l cooldownLoop_cong [OF t] split: sum.split)
  have d: "checkBlastRadius s a = checkBlastRadius s b" and dl: "checkDenyList s w a = checkDenyList s w b"
    by (simp_all add: checkBlastRadius_def checkDenyList_def assms Let_def)
  show ?thesis unfolding Check_def r c f d dl by (rule HOL.refl)
qed

subsection \<open>Commands\<close>

text \<open>
  The flags that may stand before the verb: \<^verbatim>\<open>--name=value\<close> of a known name, a known flag without
  a value, a known flag with its value.
\<close>

inductive globalFlags :: "string list \<Rightarrow> bool" where
  none: "globalFlags []"
| joined: "CHR ''='' \<in> set f \<Longrightarrow> takeWhile (\<lambda>c. c \<noteq> CHR ''='') f \<in> set valueTakingGlobalFlags \<union> set booleanGlobalFlags \<Longrightarrow>
    globalFlags fs \<Longrightarrow> globalFlags (f # fs)"
| boolean: "f \<in> set booleanGlobalFlags \<Longrightarrow> globalFlags fs \<Longrightarrow> globalFlags (f # fs)"
| valued: "f \<in> set valueTakingGlobalFlags \<Longrightarrow> globalFlags fs \<Longrightarrow> globalFlags (f # v # fs)"

lemma known_flags:
  "list_all (\<lambda>f. hasPrefix f ''-'' \<and> CHR ''='' \<notin> set f) (valueTakingGlobalFlags @ booleanGlobalFlags)"
  "list_all (\<lambda>f. f \<notin> set booleanGlobalFlags) valueTakingGlobalFlags"
  by code_simp+

lemma flag_dash:
  assumes "takeWhile P f \<in> set valueTakingGlobalFlags \<union> set booleanGlobalFlags"
  shows "hasPrefix f ''-''"
proof -
  have "hasPrefix (takeWhile P f) ''-''" using assms known_flags(1) by (auto simp: list_all_iff)
  then show ?thesis by (cases f) (auto simp: hasPrefix_def split: if_splits)
qed

lemma verbLoop_flags:
  "globalFlags flags \<Longrightarrow> \<not> hasPrefix verb ''-'' \<Longrightarrow> verbLoop (flags @ verb # arguments) = Some (verb, arguments)"
proof (induction rule: globalFlags.induct)
  case (joined f fs)
  then show ?case using flag_dash [OF joined(2)] by auto
next
  case (boolean f fs)
  then show ?case using known_flags(1) by (auto simp: list_all_iff)
next
  case (valued f fs v)
  then show ?case using known_flags by (auto simp: list_all_iff)
qed simp

lemma verbLoop_grammar:
  "verbLoop tokens = Some (verb, arguments) \<Longrightarrow>
     \<exists>flags. tokens = flags @ verb # arguments \<and> globalFlags flags \<and> \<not> hasPrefix verb ''-''"
proof (induction tokens rule: verbLoop.induct)
  case (2 token rest)
  let ?name = "takeWhile (\<lambda>c. c \<noteq> CHR ''='') token"
  consider (verb) "\<not> hasPrefix token ''-''"
    | (joined) "hasPrefix token ''-''" "CHR ''='' \<in> set token"
    | (plain) "hasPrefix token ''-''" "CHR ''='' \<notin> set token" by blast
  then show ?case
  proof cases
    case verb
    with 2(4) show ?thesis by (intro exI [of _ "[]"]) (simp add: globalFlags.none)
  next
    case joined
    with 2(4) have name: "?name \<in> set valueTakingGlobalFlags \<union> set booleanGlobalFlags"
      and rec: "verbLoop rest = Some (verb, arguments)" by (auto simp: Let_def split: if_splits)
    from 2(1) name joined rec obtain flags where
      "rest = flags @ verb # arguments" "globalFlags flags" "\<not> hasPrefix verb ''-''" by auto
    then show ?thesis using globalFlags.joined [OF joined(2) name] by (intro exI [of _ "token # flags"]) simp
  next
    case plain
    show ?thesis
    proof (cases "token \<in> set booleanGlobalFlags")
      case True
      with plain 2(2,4) obtain flags where
        "rest = flags @ verb # arguments" "globalFlags flags" "\<not> hasPrefix verb ''-''" by auto
      then show ?thesis using globalFlags.boolean [OF True] by (intro exI [of _ "token # flags"]) simp
    next
      case False
      with plain 2(4) have valued: "token \<in> set valueTakingGlobalFlags"
        and "(case rest of [] \<Rightarrow> None | _ # rest' \<Rightarrow> verbLoop rest') = Some (verb, arguments)"
        by (auto split: if_splits)
      then obtain v rest' where rest: "rest = v # rest'" "verbLoop rest' = Some (verb, arguments)"
        by (cases rest) auto
      with 2(3) [OF _ plain(2) False valued rest(1)] plain(1) obtain flags where
        "rest' = flags @ verb # arguments" "globalFlags flags" "\<not> hasPrefix verb ''-''" by auto
      then show ?thesis using rest globalFlags.valued [OF valued] by (intro exI [of _ "token # v # flags"]) simp
    qed
  qed
qed simp

lemma kubectlVerb_iff:
  "kubectlVerb command = Some (verb, arguments) \<longleftrightarrow>
     (\<exists>flags. stringFields command = ''kubectl'' # flags @ verb # arguments \<and> globalFlags flags \<and>
        \<not> hasPrefix verb ''-'')"
proof
  assume "kubectlVerb command = Some (verb, arguments)"
  then have fs: "2 \<le> length (stringFields command)" "hd (stringFields command) = ''kubectl''"
    "verbLoop (tl (stringFields command)) = Some (verb, arguments)"
    by (auto simp: kubectlVerb_def Let_def split: if_splits)
  then have "stringFields command = ''kubectl'' # tl (stringFields command)"
    by (cases "stringFields command") auto
  then show "\<exists>flags. stringFields command = ''kubectl'' # flags @ verb # arguments \<and> globalFlags flags \<and>
      \<not> hasPrefix verb ''-''" using verbLoop_grammar [OF fs(3)] by metis
next
  assume "\<exists>flags. stringFields command = ''kubectl'' # flags @ verb # arguments \<and> globalFlags flags \<and>
      \<not> hasPrefix verb ''-''"
  then show "kubectlVerb command = Some (verb, arguments)"
    by (auto simp: kubectlVerb_def Let_def verbLoop_flags)
qed

subsection \<open>Refused values\<close>

lemma tamed_refusedValues: "tamed a b \<Longrightarrow> refusedValues q b = refusedValues q a"
proof -
  have "list_all2 tamer ss ts \<Longrightarrow> map st_safety ts = map st_safety ss" for ss ts
    by (induction rule: list_all2_induct) (simp_all add: tamer_def)
  then show "tamed a b \<Longrightarrow> ?thesis" by (simp add: refusedValues_def)
qed

lemma not_mentions_Nil [simp]: "\<not> mentionsRefusedValue q [] r"
  by (simp add: mentionsRefusedValue_def)

lemma scrubbed_command:
  "st_command (scrubStep q refused s) = [] \<or> \<not> offersRefusedValue q (st_command (scrubStep q refused s)) refused"
  by (auto simp: scrubStep_def Let_def split: prod.split bool.split)

lemma scrubRefused_commands:
  assumes "s \<in> set (steps_of (scrubRefusedValues q a))" "r \<in> set (refusedValues q a)"
  shows "\<not> mentionsRefusedValue q (st_command s) r"
proof -
  from assms obtain t where "s = scrubStep q (refusedValues q a) t"
    by (auto simp: scrubRefusedValues_def Let_def split: if_splits)
  then show ?thesis
    using scrubbed_command [of q "refusedValues q a" t] assms(2) by (auto simp: offersRefusedValue_def list_ex_iff)
qed

lemma shapePlan_refused:
  assumes "s \<in> set (steps_of (shapePlan q ref a))" "r \<in> set (refusedValues q (shapePlan q ref a))"
  shows "\<not> mentionsRefusedValue q (st_command s) r"
proof -
  obtain b where b: "shapePlan q ref a = scrubFabricatedGuardrailClaims (scrubRefusedValues q b)"
    by (simp add: shapePlan_def Let_def)
  have "refusedValues q (shapePlan q ref a) = refusedValues q b"
    unfolding b using tamed_refusedValues [OF tamed_trans [OF tamed_scrubRefused tamed_scrubClaims]] .
  moreover obtain t where "t \<in> set (steps_of (scrubRefusedValues q b))" "tamer t s"
    using tamed_step [OF tamed_scrubClaims] assms(1) unfolding b by blast
  ultimately show ?thesis
    using scrubRefused_commands [of t q b r] assms(2) by (auto simp: tamer_def)
qed

end
