(* ===== verification/ProposalProps.thy ===== *)
theory ProposalProps
  imports ProposalLaws
begin

text \<open>
  The properties of the proposal builder: what it writes, when it writes nothing and asks no model,
  that the rules stay within the guardrails, that a plan changes the field its diagnosis names, that
  refused values are gone, the kubectl grammar, the size of an increase, and the scope of a context.
\<close>

text \<open>
  C3. Every proposal the builder reports asks a person. The action is Pending, requires approval
  without a deadline or an automatic rule, carries a rollback, and names the persona of the
  diagnosis, the incident and the workload that was observed. Of its steps only persona updates are
  executable. If somebody owns the workload, or it could not be read, no step holds a command that
  writes the cluster. The server accepted the action. All this holds for every planner, whatever
  plan it returns.
\<close>

theorem proposals_ask_and_never_write_owned:
  assumes "Propose p w now d im = (w', Inr r)" "pp_proposed r"
  shows "\<exists>a ref. pp_action r = Some a \<and> dg_personaRef d = Some ref \<and>
    ra_phase a = Pending \<and> sp_approval (ra_spec a) = Some approvalRequired \<and>
    map_option rb_enabled (sp_rollback (ra_spec a)) = Some True \<and>
    sp_personaRef (ra_spec a) = ref \<and> ra_namespace a = proposalNamespace ref \<and>
    ir_name (sp_incidentRef (ra_spec a)) = im_name im \<and>
    sp_workloadRef (ra_spec a) = Some (snd (observeWorkload (pr_client p) now w (Some ref))) \<and>
    (\<forall>s \<in> set (steps_of a). st_autoExecutable s \<longrightarrow> st_type s = StepTypePersonaUpdate) \<and>
    (IsOwned (sp_workloadRef (ra_spec a)) \<longrightarrow> (\<forall>s \<in> set (steps_of a). \<not> writesWorkload (st_command s))) \<and>
    (\<exists>w1. snd (pc_create (pr_client p) w1 (a\<lparr>ra_status := noActionStatus\<rparr>)) = None)"
proof -
  obtain ref wref w1 where ref: "dg_personaRef d = Some ref"
    and wref: "wref = snd (observeWorkload (pr_client p) now w (Some ref))"
    and path: "proposeByRules p now w1 d ref im wref = (w', Inr r) \<or>
       (\<exists>planner. pr_planner p = Some planner \<and> proposeWithPlanner p planner now w d ref im wref (seenWorkload p now w ref) = (w', Inr r))"
    using Propose_proposed [OF assms] by metis
  have "\<exists>b w2. persistProposal p w2 b = (w', Inr r) \<and> wellFramed im ref wref b \<and>
      (\<forall>s \<in> set (steps_of b). (st_autoExecutable s \<longrightarrow> st_type s = StepTypePersonaUpdate) \<and>
         (IsOwned (Some wref) \<longrightarrow> \<not> writesWorkload (st_command s)))"
    using path
  proof
    assume "proposeByRules p now w1 d ref im wref = (w', Inr r)"
    from rules_proposed [OF this assms(2)] obtain change patch a1 where
      a1: "a1 = fst (discloseGroundedBlastRadiusClamp (qo_parse (pr_quantity p))
            (ruleAction now d im ref wref change patch) (Some wref))"
      and persist: "persistProposal p w1 (scrubFabricatedGuardrailClaims a1) = (w', Inr r)" by metis
    let ?b = "scrubFabricatedGuardrailClaims a1" and ?r = "ruleAction now d im ref wref change patch"
    have "frame ?b = frame ?r" unfolding a1 by (simp add: shaping)
    then have "wellFramed im ref wref ?b" using wellFramed_frame wellFramed_ruleAction by metis
    moreover have "steps_of ?r = []" by (simp add: ruleAction_def proposedAction_def Let_def)
    then have "steps_of ?b = []"
      using list_all2_lengthD [OF tamed_trans [OF tamed_disclose_grounded tamed_scrubClaims], of ?r]
      unfolding a1 by simp
    ultimately show ?thesis using persist by (intro exI [of _ ?b] exI [of _ w1]) simp
  next
    assume "\<exists>planner. pr_planner p = Some planner \<and> proposeWithPlanner p planner now w d ref im wref (seenWorkload p now w ref) = (w', Inr r)"
    then obtain planner where "proposeWithPlanner p planner now w d ref im wref (seenWorkload p now w ref) = (w', Inr r)" by blast
    from plan_proposed [OF this assms(2)] obtain rc plan b where
      "BuildContext (pr_client p) w d (Some im) = Inr rc"
      and b: "assemblePlan p now w d ref im (rx_appPersona rc) wref plan = Inr (Inr b)"
      and persist: "persistProposal p w b = (w', Inr r)" .
    from assemblePlan_shaped [OF b] obtain a2 where
      "b = shapePlan (pr_quantity p) (Some wref) (fst (dropPatchlessPersonaUpdates a2))" by metis
    then have "\<forall>s \<in> set (steps_of b). (st_autoExecutable s \<longrightarrow> st_type s = StepTypePersonaUpdate) \<and>
         (IsOwned (Some wref) \<longrightarrow> \<not> writesWorkload (st_command s))"
      using shapePlan_steps by metis
    then show ?thesis using persist assemblePlan_framed [OF b] by blast
  qed
  then obtain b w2 where persist: "persistProposal p w2 b = (w', Inr r)" and framed: "wellFramed im ref wref b"
    and steps: "\<forall>s \<in> set (steps_of b). (st_autoExecutable s \<longrightarrow> st_type s = StepTypePersonaUpdate) \<and>
         (IsOwned (Some wref) \<longrightarrow> \<not> writesWorkload (st_command s))" by blast
  let ?a = "b\<lparr>ra_status := noActionStatus\<lparr>rs_phase := Pending\<rparr>\<rparr>"
  have "?a\<lparr>ra_status := noActionStatus\<rparr> = b" using framed by (simp add: wellFramed_def)
  then have "\<exists>w1. snd (pc_create (pr_client p) w1 (?a\<lparr>ra_status := noActionStatus\<rparr>)) = None"
    using persist_proposed(2) [OF persist assms(2)] by metis
  then show ?thesis
    using persist_proposed(1) [OF persist assms(2)] framed steps ref wref
    by (intro exI [of _ ?a] exI [of _ ref]) (auto simp: wellFramed_def)
qed

definition listedInFlight ::
  "'w Proposer \<Rightarrow> 'w \<Rightarrow> IncidentMemory \<Rightarrow> PersonaReference \<Rightarrow> goerr + RemediationAction list" where
  "listedInFlight p w im ref =
     (let namespace = (if im_namespace im = [] then pr_namespace ref else im_namespace im)
      in pc_listActions (pr_client p) w (if namespace \<noteq> [] then Some namespace else None)
           (if pr_name ref \<noteq> [] then [(''dorgu.io/persona-name'', pr_name ref)] else []))"

definition gatesOpen :: "'w Proposer \<Rightarrow> 'w \<Rightarrow> Diagnosis \<Rightarrow> IncidentMemory \<Rightarrow> PersonaReference \<Rightarrow> bool" where
  "gatesOpen p w d im ref \<longleftrightarrow>
     selfHealingMode p w \<noteq> SelfHealingModeObserve \<and>
     NamespaceDenied (Some (pr_safety p)) w (pr_namespace ref) = None \<and>
     (\<exists>acts. listedInFlight p w im ref = Inr acts \<and>
        (\<forall>a \<in> set acts. ra_phase a \<in> set activeRemediationPhases \<longrightarrow>
           ir_name (sp_incidentRef (ra_spec a)) \<noteq> im_name im \<and>
           (diagnosisTargetPath d \<noteq> [] \<longrightarrow> \<not> remediationTargetsPath a (diagnosisTargetPath d))))"

lemma dedupLoop_clear:
  "dedupLoop i n target acts = [] \<longleftrightarrow>
     (\<forall>a \<in> set acts. ra_phase a \<in> set activeRemediationPhases \<longrightarrow>
        ir_name (sp_incidentRef (ra_spec a)) \<noteq> i \<and> (target \<noteq> [] \<longrightarrow> \<not> remediationTargetsPath a target))"
  by (induction acts) simp_all

lemma gatesOpen_iff:
  assumes "dg_personaRef d = Some ref"
  shows "gatesOpen p w d im ref \<longleftrightarrow> proposalSuppressedByMode p w = [] \<and>
    NamespaceDenied (Some (pr_safety p)) w (pr_namespace ref) = None \<and>
    activeRemediationExists p w d im = Inr []"
proof -
  have "skipReasonObserveMode \<noteq> []" by (simp add: skipReasonObserveMode_def)
  then show ?thesis
    using assms
    by (auto simp: gatesOpen_def proposalSuppressedByMode_def activeRemediationExists_def listedInFlight_def
        dedupLoop_clear Let_def split: sum.splits)
qed

lemma Propose_behind_gates:
  assumes "dg_personaRef d = Some ref" "gatesOpen p w d im ref"
  shows "Propose p w now d im =
    (let wref = snd (observeWorkload (pr_client p) now w (Some ref)) in
     case pr_planner p of
       None \<Rightarrow> proposeByRules p now w d ref im wref
     | Some planner \<Rightarrow>
         (if withholdFromModel p w d then proposeByRules p now w d ref im wref
          else (case proposeWithPlanner p planner now w d ref im wref (seenWorkload p now w ref) of
                  (w1, Inl _) \<Rightarrow> proposeByRules p now w1 d ref im wref
                | done' \<Rightarrow> done')))"
  using assms by (simp add: Propose_def gatesOpen_iff case_prod_beta Let_def)

lemma planner_erased [simp]:
  "proposalSuppressedByMode (p\<lparr>pr_planner := x\<rparr>) w = proposalSuppressedByMode p w"
  "activeRemediationExists (p\<lparr>pr_planner := x\<rparr>) w d im = activeRemediationExists p w d im"
  "persistProposal (p\<lparr>pr_planner := x\<rparr>) w a = persistProposal p w a"
  "getApplicationPersona (p\<lparr>pr_planner := x\<rparr>) w ref = getApplicationPersona p w ref"
  by (simp_all add: proposalSuppressedByMode_def selfHealingMode_def activeRemediationExists_def persistProposal_def
      getApplicationPersona_def Let_def split: prod.split option.split)

lemma planner_erased_gates [simp]:
  "gatesOpen (p\<lparr>pr_planner := x\<rparr>) w d im ref = gatesOpen p w d im ref"
  by (simp add: gatesOpen_def listedInFlight_def selfHealingMode_def)

lemma planner_erased_rules [simp]:
  "proposeByRules (p\<lparr>pr_planner := x\<rparr>) now w d ref im wref = proposeByRules p now w d ref im wref"
  by (simp add: proposeByRules_def proposeResourceAdjustment_def Let_def split: sum.split option.split prod.split)

lemma Propose_gate_closed:
  assumes "\<forall>ref. dg_personaRef d = Some ref \<longrightarrow> \<not> gatesOpen p w d im ref"
  obtains res where "\<forall>r. res = Inr r \<longrightarrow> \<not> pp_proposed r"
    "\<And>x. Propose (p\<lparr>pr_planner := x\<rparr>) w now d im = (w, res)"
proof (cases "dg_personaRef d")
  case None
  then show ?thesis by (intro that) (auto simp: Propose_def)
next
  case (Some ref)
  with assms have shut: "\<not> gatesOpen p w d im ref" by simp
  show ?thesis
  proof (cases "proposalSuppressedByMode p w = []")
    case False
    then show ?thesis by (intro that) (auto simp: Propose_def Some)
  next
    case mode: True
    show ?thesis
    proof (cases "NamespaceDenied (Some (pr_safety p)) w (pr_namespace ref)")
      case (Some v)
      then show ?thesis using mode \<open>dg_personaRef d = Some ref\<close> by (intro that) (auto simp: Propose_def)
    next
      case None
      then have "activeRemediationExists p w d im \<noteq> Inr []" using shut mode gatesOpen_iff [OF Some] by metis
      then show ?thesis
        using mode None Some by (cases "activeRemediationExists p w d im"; intro that) (auto simp: Propose_def)
    qed
  qed
qed

text \<open>
  C6. The gates come first. A planner is asked, the cluster is changed or an action is proposed only
  if the self-healing mode is not observe, the namespace of the persona is not denied, and no action
  in flight targets the same incident or the field the diagnosis would change. The planner is asked
  only if moreover every namespace the diagnosis mentions is known and unprotected; otherwise the
  outcome is that of a builder that has no planner.
\<close>

theorem planner_and_cluster_behind_gates:
  assumes "Propose p w now d im = (w', res)"
  shows "(w' \<noteq> w \<or> (\<exists>r. res = Inr r \<and> pp_proposed r) \<longrightarrow>
      (\<exists>ref. dg_personaRef d = Some ref \<and> gatesOpen p w d im ref)) \<and>
    (Propose (p\<lparr>pr_planner := None\<rparr>) w now d im \<noteq> (w', res) \<longrightarrow>
      (\<exists>ref. dg_personaRef d = Some ref \<and> gatesOpen p w d im ref) \<and>
      (\<forall>ns \<in> set (diagnosisNamespaces d). ns \<noteq> [] \<and> \<not> NamespaceProtected (Some (pr_safety p)) w ns))"
proof (cases "\<exists>ref. dg_personaRef d = Some ref \<and> gatesOpen p w d im ref")
  case True
  then obtain ref where ref: "dg_personaRef d = Some ref" "gatesOpen p w d im ref" by blast
  have "Propose (p\<lparr>pr_planner := None\<rparr>) w now d im = Propose p w now d im" if "withholdFromModel p w d"
    using that ref by (cases "pr_planner p") (simp_all add: Propose_behind_gates Let_def)
  then show ?thesis using True assms gate_clears_namespaces by (auto simp: withholdFromModel_def)
next
  case False
  then have shut: "\<forall>ref. dg_personaRef d = Some ref \<longrightarrow> \<not> gatesOpen p w d im ref" by blast
  obtain res' where res': "\<forall>r. res' = Inr r \<longrightarrow> \<not> pp_proposed r"
    "\<And>x. Propose (p\<lparr>pr_planner := x\<rparr>) w now d im = (w, res')"
    using Propose_gate_closed [OF shut] by metis
  have "Propose p w now d im = (w, res')" using res'(2) [of "pr_planner p"] by simp
  then show ?thesis using assms res' by auto
qed


lemma rule_patch_touches:
  assumes "calculateResourceChange q d persona ref = Inr change" "ra_patch change = Some patch"
  shows "diagnosisTargetPath d \<noteq> [] \<and> patchTouchesPath (RawJson (JObj patch)) (diagnosisTargetPath d)"
proof -
  have built: "\<exists>v. patch = buildNestedMap [''spec'', ''resources'', ''limits'', key, v]"
    if "calculateLimitIncrease q d persona ref key = Inr change" for key
    using that assms(2)
    by (auto simp: calculateLimitIncrease_def noAdjustment_def Let_def split: option.splits if_splits)
  have touches: "patchTouchesPath (RawJson (JObj (buildNestedMap [''spec'', ''resources'', ''limits'', key, v])))
      (''spec.resources.limits.'' @ key)" for key v
    by (simp add: patchTouchesPath_def patchLeafPaths_def buildNestedMap_def unmarshalMap_def)
  from assms show ?thesis
    by (auto simp: calculateResourceChange_def diagnosisTargetPath_def noAdjustment_def Let_def
        dest!: built split: if_splits intro: touches [of resourceKeyMemory, simplified] touches [of resourceKeyCPU, simplified])
qed

lemma ensure_declined:
  "ensureAppliableResourcePlan q a d persona ref = Inr (b, True) \<Longrightarrow>
     \<exists>change. calculateResourceChange q d persona ref = Inr change \<and>
       (ra_skipReason change \<noteq> [] \<or> ra_patch change = None)"
  by (auto simp: ensureAppliableResourcePlan_def Let_def split: if_splits sum.splits list.splits option.splits)



text \<open>
  C25. A command passes as a read exactly if it parses as one: after known global flags, in any
  number and with any values, stands a verb of the read-only list, or one of the two verbs with
  subcommands followed at once by a reading one. Every other kubectl invocation writes, an unknown
  flag before the verb included, so no flag's value can pass for the verb.
\<close>

theorem writes_iff_not_parsed_as_read:
  "writesWorkload command \<longleftrightarrow> isKubectlInvocation command \<and>
     \<not> (\<exists>flags verb arguments. stringFields command = ''kubectl'' # flags @ verb # arguments \<and> globalFlags flags \<and>
          (verb \<in> set readOnlyKubectlVerbs \<or>
           (\<exists>subs sub more'. map_of verbsWithSubcommands verb = Some subs \<and> arguments = sub # more' \<and> sub \<in> set subs)))"
proof -
  have tables: "list_all (\<lambda>v. map_of verbsWithSubcommands v = None \<and> v \<notin> set mutatingKubectlVerbs \<and>
       \<not> hasPrefix v ''-'') readOnlyKubectlVerbs"
    "list_all (\<lambda>(v, subs). \<not> hasPrefix v ''-'' \<and> list_all (\<lambda>s. \<not> hasPrefix s ''-'') subs) verbsWithSubcommands"
    by code_simp+
  then have read: "map_of verbsWithSubcommands v = None" "v \<notin> set mutatingKubectlVerbs" "\<not> hasPrefix v ''-''"
    if "v \<in> set readOnlyKubectlVerbs" for v using that by (auto simp: list_all_iff)
  have subs: "\<not> hasPrefix v ''-''" "s \<in> set ss \<Longrightarrow> \<not> hasPrefix s ''-''"
    if "map_of verbsWithSubcommands v = Some ss" for v ss s
    using map_of_SomeD [OF that] tables(2) by (auto simp: list_all_iff)
  have "readsOnly command \<longleftrightarrow> (\<exists>verb arguments. kubectlVerb command = Some (verb, arguments) \<and>
      (verb \<in> set readOnlyKubectlVerbs \<or>
       (\<exists>ss sub more'. map_of verbsWithSubcommands verb = Some ss \<and> arguments = sub # more' \<and> sub \<in> set ss)))"
  proof (cases "kubectlVerb command")
    case (Some va)
    then obtain verb arguments where va: "kubectlVerb command = Some (verb, arguments)" by (cases va) simp
    show ?thesis
    proof (cases "map_of verbsWithSubcommands verb")
      case None
      then show ?thesis using va read(2) by (auto simp: readsOnly_def)
    next
      case (Some ss)
      then have "verb \<notin> set readOnlyKubectlVerbs" using read(1) by force
      then show ?thesis
        using va Some subs(2) [OF Some] by (cases arguments) (auto simp: readsOnly_def subcommandReadsOnly_def)
    qed
  qed (simp add: readsOnly_def)
  also have "\<dots> \<longleftrightarrow> (\<exists>flags verb arguments. stringFields command = ''kubectl'' # flags @ verb # arguments \<and>
      globalFlags flags \<and> (verb \<in> set readOnlyKubectlVerbs \<or>
       (\<exists>ss sub more'. map_of verbsWithSubcommands verb = Some ss \<and> arguments = sub # more' \<and> sub \<in> set ss)))"
    unfolding kubectlVerb_iff using read(3) subs(1) by blast
  finally show ?thesis by (simp add: writesWorkload_def)
qed

lemma truncRat_bounds:
  assumes "0 \<le> lo" "of_int lo \<le> x" "x < of_int hi + 1"
  shows "lo \<le> truncRat x \<and> truncRat x \<le> hi"
proof -
  have "(0 :: rat) \<le> of_int lo" using assms(1) by simp
  then have "0 \<le> x" using assms(2) by linarith
  then have "truncRat x = \<lfloor>x\<rfloor>" by (simp add: truncRat_def)
  moreover have "lo \<le> \<lfloor>x\<rfloor>" using assms(2) by (simp add: le_floor_iff)
  moreover have "\<lfloor>x\<rfloor> < hi + 1" using assms(3) by linarith
  ultimately show ?thesis by simp
qed

lemma two_roundings:
  fixes x y z k :: rat
  shows "y * (1 - 1 / 2 ^ 53) \<le> z \<Longrightarrow> 5 / 4 * x \<le> y \<Longrightarrow> k * (1 - 1 / 2 ^ 53) \<le> x \<Longrightarrow> 0 < k \<Longrightarrow> k \<le> z"
    and "z \<le> y * (1 + 1 / 2 ^ 53) \<Longrightarrow> y \<le> 2 * x \<Longrightarrow> x \<le> k * (1 + 1 / 2 ^ 53) \<Longrightarrow> k \<le> 2 ^ 50 \<Longrightarrow> z < 2 * k + 1"
  by (simp_all add: field_simps)

lemma scaled_bounds:
  fixes m :: rat
  assumes n: "0 \<le> n" "n \<le> 2 ^ 50" and m: "5 / 4 \<le> m" "m \<le> 2"
  shows "n \<le> truncRat (fmul (fl64 (of_int n)) m) \<and> truncRat (fmul (fl64 (of_int n)) m) \<le> 2 * n"
proof (cases "n = 0")
  case True
  then show ?thesis by (simp add: fmul_def fl64_def truncRat_def)
next
  case False
  define x where "x = fl64 (of_int n)"
  have pos: "(0 :: rat) < of_int n" and small: "(of_int n :: rat) \<le> 2 ^ 50"
    using False n by (simp, metis of_int_le_iff of_int_numeral of_int_power)
  have e1: "\<bar>x - of_int n\<bar> \<le> of_int n / 2 ^ 53" using fl64_error [OF pos] by (simp add: x_def)
  have "x - of_int n \<le> of_int n / 2 ^ 53" "of_int n - x \<le> of_int n / 2 ^ 53" using e1 by linarith+
  then have lo1: "of_int n * (1 - 1 / 2 ^ 53) \<le> x" and hi1: "x \<le> of_int n * (1 + 1 / 2 ^ 53)"
    by (simp_all add: field_simps)
  have "(0 :: rat) < of_int n * (1 - 1 / 2 ^ 53)" using pos by (intro mult_pos_pos) simp_all
  then have xpos: "0 < x" using lo1 by (rule less_le_trans)
  have mx: "5 / 4 * x \<le> x * m" "x * m \<le> 2 * x" using m xpos by (simp_all add: mult.commute)
  have mpos: "0 < x * m" using mx xpos by linarith
  have e2: "\<bar>fmul x m - x * m\<bar> \<le> x * m / 2 ^ 53" using fl64_error [OF mpos] by (simp add: fmul_def)
  have "fmul x m - x * m \<le> x * m / 2 ^ 53" "x * m - fmul x m \<le> x * m / 2 ^ 53" using e2 by linarith+
  then have r: "fmul x m \<le> x * m * (1 + 1 / 2 ^ 53)" "x * m * (1 - 1 / 2 ^ 53) \<le> fmul x m"
    by (simp_all add: field_simps)
  have lower: "of_int n \<le> fmul x m" using two_roundings(1) [OF r(2) mx(1) lo1 pos] .
  have upper: "fmul x m < of_int (2 * n) + 1" using two_roundings(2) [OF r(1) mx(2) hi1 small] by simp
  show ?thesis using truncRat_bounds [OF n(1) lower upper] by (simp add: x_def)
qed

text \<open>
  The size of an increase. For a current value of up to 2^50 bytes or millicores, in double
  precision and truncated to an integer, the proposed limit is at least the current one and at most
  twice as much, for both dimensions and all severities.
\<close>

theorem increase_at_most_doubles:
  assumes "n = (if key = resourceKeyCPU then q_milliValue qty else q_value qty)" "0 \<le> n" "n \<le> 2 ^ 50"
  shows "\<exists>k. n \<le> k \<and> k \<le> 2 * n \<and>
    scaleQuantity q qty (increaseMultiplier key severity) key =
      (if key = resourceKeyCPU then qo_milli q k else qo_bytes q k)"
proof -
  have m: "5 / 4 \<le> increaseMultiplier key severity" "increaseMultiplier key severity \<le> 2"
    by (auto simp: increaseMultiplier_def maxResourceMultiplier_def Let_def)
  show ?thesis
    using scaled_bounds [OF assms(2,3) m] assms(1)
    by (intro exI [of _ "truncRat (fmul (fl64 (of_int n)) (increaseMultiplier key severity))"])
      (auto simp: scaleQuantity_def)
qed

text \<open>
  The planner hears of one namespace. Two clusters with the same cluster policy that agree on the
  personas, incidents and actions of the persona's namespace give the planner the same context, even
  if a resolution in an incident refers to an action elsewhere.
\<close>

theorem context_reads_one_namespace:
  assumes "personaReference d im = Some ref" "ns = personaNamespace ref"
    "pc_listClusterPersonas c w = pc_listClusterPersonas c w'"
    "\<And>name. pc_getPersona c w (ns, name) = pc_getPersona c w' (ns, name)"
    "\<And>name. pc_getAction c w (ns, name) = pc_getAction c w' (ns, name)"
    "\<And>sel. pc_listIncidents c w (Some ns) sel = pc_listIncidents c w' (Some ns) sel"
    "\<And>sel. pc_listActions c w (Some ns) sel = pc_listActions c w' (Some ns) sel"
  shows "BuildContext c w d (Some im) = BuildContext c w' d (Some im)"
proof -
  have past: "loadPastIncidents c w ref = loadPastIncidents c w' ref"
    using assms(2,6) by (simp add: loadPastIncidents_def)
  have direct: "referencedAction c w ref i = referencedAction c w' ref i" for i
    using assms(2,5) by (auto simp: referencedAction_def Let_def split: option.split)
  have "loadPastRemediations c w ref is = loadPastRemediations c w' ref is" for "is"
    using assms(2,7) by (simp add: loadPastRemediations_def direct)
  moreover have "loadAppPersona c w ref = loadAppPersona c w' ref"
    using assms(2,4) by (simp add: loadAppPersona_def)
  moreover have "loadClusterPersona c w = loadClusterPersona c w'" using assms(3) by (simp add: loadClusterPersona_def)
  ultimately show ?thesis by (simp add: BuildContext_def assms(1) past Let_def split: sum.split)
qed

end
