(* ===== verification/HealthLaws.thy ===== *)
theory HealthLaws
  imports HealthCheck
begin

text \<open>
  What the health check cycle guarantees about the incidents it keeps, against an API server that
  keeps the contract \<open>incident_writer\<close>: which phase changes a cycle can make, that a recorded
  diagnosis is on an object, and what happens when a failure comes back after its incident was
  closed.
\<close>

subsection \<open>Retries\<close>

text \<open>
  A run of \<^verbatim>\<open>retry.OnError\<close>: the step is taken again only after an error that passes the test,
  and the outcome is that of the last step.
\<close>

inductive retried :: "(goerr \<Rightarrow> bool) \<Rightarrow> ('s \<Rightarrow> 's \<times> goerr option) \<Rightarrow> 's \<Rightarrow> 's \<Rightarrow> goerr option \<Rightarrow> bool"
  for p f where
  last: "f s = (s', e) \<Longrightarrow> retried p f s s' e"
| again: "f s = (s1, Some x) \<Longrightarrow> p x \<Longrightarrow> retried p f s1 s' e \<Longrightarrow> retried p f s s' e"

lemma retried_last:
  assumes "retried p f s s' e" "Q s" "\<And>t t' x. Q t \<Longrightarrow> f t = (t', x) \<Longrightarrow> Q t'"
  shows "Q s' \<and> (\<exists>t. Q t \<and> f t = (s', e))"
  using assms by (induction rule: retried.induct) blast+

text \<open>The bounded loop of client-go.\<close>

fun onErrorLoop :: "nat \<Rightarrow> (goerr \<Rightarrow> bool) \<Rightarrow> ('s \<Rightarrow> 's \<times> goerr option) \<Rightarrow> 's \<Rightarrow> 's \<times> goerr option" where
  "onErrorLoop n p f s =
     (case f s of
        (s', None) \<Rightarrow> (s', None)
      | (s', Some e) \<Rightarrow> (if p e \<and> 1 < n then onErrorLoop (n - 1) p f s' else (s', Some e)))"

declare onErrorLoop.simps [simp del]

lemma onErrorLoop_retried: "onErrorLoop n p f s = (s', e) \<Longrightarrow> retried p f s s' e"
proof (induction n p f s rule: onErrorLoop.induct)
  case (1 n p f s)
  obtain s1 x where f: "f s = (s1, x)" by fastforce
  show ?case
  proof (cases "\<exists>y. x = Some y \<and> p y \<and> 1 < n")
    case True
    then obtain y where y: "x = Some y" "p y" "1 < n" by blast
    from "1.prems" have "onErrorLoop (n - 1) p f s1 = (s', e)"
      by (subst (asm) onErrorLoop.simps) (use y(3) in \<open>simp add: f y(1,2)\<close>)
    with "1.IH" [OF f [symmetric] y(1)] y f show ?thesis by (auto intro: retried.again)
  next
    case False
    with "1.prems" have "f s = (s', e)"
      by (subst (asm) onErrorLoop.simps) (auto simp: f split: option.splits if_splits)
    then show ?thesis by (rule retried.last)
  qed
qed

lemma split_state:
  obtains w i e where "x = ((w, i), e)"
  by (metis prod.exhaust)

subsection \<open>The contract of the incident client\<close>

definition noStatus :: IncidentMemoryStatus where
  "noStatus = \<lparr>ims_phase = [], ims_occurrenceCount = 0, ims_lastOccurrence = None, ims_conditions = []\<rparr>"

text \<open>
  A read returns a held object or fails; a list call returns the held objects it selects; a create
  call, when the key is free, adds the object without its status; an update replaces all but the
  status, a status update the status. Writes may be refused, or performed and their reply lost.
\<close>

locale incident_writer =
  fixes c :: "'w IncidentWriter" and held :: "'w \<Rightarrow> objkey \<rightharpoonup> IncidentMemory"
  assumes held_key: "held w k = Some i \<Longrightarrow> im_key i = k"
    and get_held: "hc_get c w k = Inr i \<Longrightarrow> held w k = Some i"
    and list_held: "hc_list c w ns sel = Inr items \<Longrightarrow>
          set items = {i. held w (im_key i) = Some i \<and> (\<forall>n. ns = Some n \<longrightarrow> im_namespace i = n) \<and>
                          (\<forall>(l, v) \<in> set sel. map_of (im_labels i) l = Some v)}"
    and create_held: "hc_create c w i = (w', None) \<Longrightarrow>
          held w (im_key i) = None \<and> held w' = (held w)(im_key i \<mapsto> i\<lparr>im_status := noStatus\<rparr>)"
    and create_failed: "hc_create c w i = (w', Some x) \<Longrightarrow>
          held w' = held w \<or>
          (held w (im_key i) = None \<and> held w' = (held w)(im_key i \<mapsto> i\<lparr>im_status := noStatus\<rparr>))"
    and update_held: "hc_update c w i = (w', e) \<Longrightarrow>
          (held w' = held w \<and> e \<noteq> None) \<or>
          (\<exists>j. held w (im_key i) = Some j \<and> held w' = (held w)(im_key i \<mapsto> i\<lparr>im_status := im_status j\<rparr>))"
    and status_held: "hc_statusUpdate c w i = (w', e) \<Longrightarrow>
          (held w' = held w \<and> e \<noteq> None) \<or>
          (\<exists>j. held w (im_key i) = Some j \<and> held w' = (held w)(im_key i \<mapsto> j\<lparr>im_status := im_status i\<rparr>))"
    and onError_retries: "hc_onError c incidentWriteSteps p f s = (s', e) \<Longrightarrow> retried p f s s' e"
begin

text \<open>What a retried write does, for a reflexive and transitive relation every attempt respects.\<close>

lemma retry_rel:
  assumes "retryIncidentWrite c write (w, i) = ((w', i'), e)" "im_key i = k"
    and step: "\<And>a v j v' j' x. im_key j = k \<Longrightarrow> write a (v, j) = ((v', j'), x) \<Longrightarrow>
          im_key j' = k \<and> R (held v) (held v')"
    and "\<And>h. R h h" and trans: "\<And>h1 h2 h3. R h1 h2 \<Longrightarrow> R h2 h3 \<Longrightarrow> R h1 h3"
  shows "im_key i' = k \<and> R (held w) (held w') \<and>
    (\<exists>a v j. im_key j = k \<and> R (held w) (held v) \<and> write a (v, j) = ((w', i'), e))"
proof -
  let ?f = "\<lambda>(attempt, st'). case write attempt st' of (st'', e) \<Rightarrow> ((attempt + 1, st''), e)"
  let ?Q = "\<lambda>(a, v, j). im_key j = k \<and> R (held w) (held v)"
  obtain a where run: "hc_onError c incidentWriteSteps retriableIncidentWriteError ?f (0, w, i) = ((a, w', i'), e)"
    using assms(1) unfolding retryIncidentWrite_def by (auto split: prod.splits)
  have "?Q (a, w', i') \<and> (\<exists>t. ?Q t \<and> ?f t = ((a, w', i'), e))"
  proof (rule retried_last [OF onError_retries [OF run]])
    show "?Q (0, w, i)" using assms(2,4) by simp
    show "?Q t'" if q: "?Q t" "?f t = (t', x)" for t t' x
    proof -
      obtain a v j where t: "t = (a, v, j)" by (cases t)
      obtain v' j' y where wr: "write a (v, j) = ((v', j'), y)" by (rule split_state)
      have "im_key j' = k \<and> R (held v) (held v')" using step [OF _ wr] q(1) t by simp
      then show ?thesis using q trans by (auto simp: t wr)
    qed
  qed
  then show ?thesis by (force split: prod.splits)
qed

text \<open>The effect of one attempt of the two kinds of write.\<close>

lemma writeSpec_effect:
  assumes "writeSpec c change a (w, i) = ((w', i'), e)" "\<And>j. im_key (change j) = im_key j"
    and "\<And>j. im_status (change j) = im_status j"
  shows "im_key i' = im_key i \<and>
    (held w' = held w \<or> (\<exists>j. held w (im_key i) = Some j \<and> held w' = (held w)(im_key i \<mapsto> change j))) \<and>
    (e = None \<longrightarrow> held w' (im_key i) = Some i' \<and> (\<exists>j. held w (im_key i) = Some j \<and> i' = change j))"
proof (cases "hc_get c w (im_key i)")
  case (Inl x)
  with assms show ?thesis by (auto simp: writeSpec_def)
next
  case (Inr fresh)
  then have f: "held w (im_key i) = Some fresh" by (rule get_held)
  then have k: "im_key fresh = im_key i" by (rule held_key)
  have s: "(change fresh)\<lparr>im_status := im_status fresh\<rparr> = change fresh"
    using assms(3) [of fresh] by (cases "change fresh") simp
  obtain v x where up: "hc_update c w (change fresh) = (v, x)" by fastforce
  note eff = update_held [OF up, unfolded assms(2) k]
  from eff f s have "(held v = held w \<and> x \<noteq> None) \<or> held v = (held w)(im_key i \<mapsto> change fresh)"
    by auto
  then show ?thesis using assms(1) Inr up f k assms(2) by (auto simp: writeSpec_def split: option.splits)
qed

lemma statusUpdate_effect:
  assumes "hc_statusUpdate c w (i\<lparr>im_status := st\<rparr>) = (w', e)" "held w (im_key i) = Some i"
  shows "(held w' = held w \<and> e \<noteq> None) \<or> held w' = (held w)(im_key i \<mapsto> i\<lparr>im_status := st\<rparr>)"
  using status_held [OF assms(1)] assms(2) by (auto simp: im_key_def)

lemma writeStatus_effect:
  assumes "writeStatus c change a (w, i) = ((w', i'), e)" "\<And>j. \<exists>st. change j = j\<lparr>im_status := st\<rparr>"
  shows "im_key i' = im_key i \<and>
    (held w' = held w \<or> (\<exists>j. held w (im_key i) = Some j \<and> held w' = (held w)(im_key i \<mapsto> change j))) \<and>
    (e = None \<longrightarrow> held w' (im_key i) = Some i' \<and> (\<exists>j. held w (im_key i) = Some j \<and> i' = change j))"
proof (cases "hc_get c w (im_key i)")
  case (Inl x)
  with assms show ?thesis by (auto simp: writeStatus_def)
next
  case (Inr j)
  then have f: "held w (im_key i) = Some j" by (rule get_held)
  then have k: "im_key j = im_key i" by (rule held_key)
  obtain st where st: "change j = j\<lparr>im_status := st\<rparr>" using assms(2) by blast
  obtain v x where up: "hc_statusUpdate c w (change j) = (v, x)" by fastforce
  from statusUpdate_effect [OF up [unfolded st]] f k
  have "(held v = held w \<and> x \<noteq> None) \<or> held v = (held w)(im_key i \<mapsto> change j)" by (simp add: st)
  moreover have "im_key (change j) = im_key i" using k by (simp add: st im_key_def)
  ultimately show ?thesis using assms(1) Inr up f by (auto simp: writeStatus_def)
qed

lemma spec_write_rel:
  assumes "retryIncidentWrite c (writeSpec c change) (w, i) = ((w', i'), e)" "im_key i = k"
    and ch: "\<And>j. im_key (change j) = im_key j" "\<And>j. im_status (change j) = im_status j"
    and refl: "\<And>h. R h h" and trans: "\<And>h1 h2 h3. R h1 h2 \<Longrightarrow> R h2 h3 \<Longrightarrow> R h1 h3"
    and step: "\<And>h j. h k = Some j \<Longrightarrow> R h (h(k \<mapsto> change j))"
  shows "im_key i' = k \<and> R (held w) (held w') \<and>
    (e = None \<longrightarrow> (\<exists>j. i' = change j \<and> held w' k = Some i'))"
proof -
  have one: "im_key j' = k \<and> R (held v) (held v') \<and> (x = None \<longrightarrow> (\<exists>j. j' = change j \<and> held v' k = Some j'))"
    if "im_key j = k" "writeSpec c change a (v, j) = ((v', j'), x)" for a v j v' j' x
    using writeSpec_effect [OF that(2) ch] that(1) refl step by metis
  have "im_key i' = k \<and> R (held w) (held w') \<and>
      (\<exists>a v j. im_key j = k \<and> R (held w) (held v) \<and> writeSpec c change a (v, j) = ((w', i'), e))"
    by (rule retry_rel [OF assms(1,2) _ refl trans]) (use one in blast)
  then show ?thesis using one by blast
qed

lemma status_write_rel:
  assumes "retryIncidentWrite c (writeStatus c change) (w, i) = ((w', i'), e)" "im_key i = k"
    and ch: "\<And>j. \<exists>st. change j = j\<lparr>im_status := st\<rparr>"
    and refl: "\<And>h. R h h" and trans: "\<And>h1 h2 h3. R h1 h2 \<Longrightarrow> R h2 h3 \<Longrightarrow> R h1 h3"
    and step: "\<And>h j. h k = Some j \<Longrightarrow> R h (h(k \<mapsto> change j))"
  shows "im_key i' = k \<and> R (held w) (held w') \<and>
    (e = None \<longrightarrow> (\<exists>j. i' = change j \<and> held w' k = Some i'))"
proof -
  have one: "im_key j' = k \<and> R (held v) (held v') \<and> (x = None \<longrightarrow> (\<exists>j. j' = change j \<and> held v' k = Some j'))"
    if "im_key j = k" "writeStatus c change a (v, j) = ((v', j'), x)" for a v j v' j' x
    using writeStatus_effect [OF that(2) ch] that(1) refl step by metis
  have "im_key i' = k \<and> R (held w) (held w') \<and>
      (\<exists>a v j. im_key j = k \<and> R (held w) (held v) \<and> writeStatus c change a (v, j) = ((w', i'), e))"
    by (rule retry_rel [OF assms(1,2) _ refl trans]) (use one in blast)
  then show ?thesis using one by blast
qed

text \<open>The first status of a created object: only the writes at its key matter.\<close>

lemma initial_write_effect:
  assumes "writeInitialStatus c now a (w, i) = ((w', i'), e)"
  shows "im_key i' = im_key i \<and>
    (held w' = held w \<or> (\<exists>j st. held w (im_key i) = Some j \<and> held w' = (held w)(im_key i \<mapsto> j\<lparr>im_status := st\<rparr>))) \<and>
    (e = None \<longrightarrow> ims_phase (im_status i') = PhaseDetected \<and>
       (\<exists>j. held w (im_key i) = Some j \<and> held w' (im_key i) = Some (j\<lparr>im_status := im_status i'\<rparr>)))"
proof (cases "if 0 < a then hc_get c w (im_key i) else Inr i")
  case (Inl y)
  with assms show ?thesis unfolding writeInitialStatus_def fst_conv snd_conv by (auto split: if_splits)
next
  case (Inr m)
  have "im_key m = im_key i"
  proof (cases "0 < a")
    case True
    with Inr have "hc_get c w (im_key i) = Inr m" by simp
    then show ?thesis by (rule held_key [OF get_held])
  qed (use Inr in simp)
  then have mk: "im_key (initialStatus now m) = im_key i" by (simp add: initialStatus_def im_key_def)
  obtain v x where up: "hc_statusUpdate c w (initialStatus now m) = (v, x)" by fastforce
  have i': "w' = v" "i' = initialStatus now m" "e = x"
    using assms Inr up unfolding writeInitialStatus_def fst_conv snd_conv by auto
  show ?thesis unfolding i' using status_held [OF up, unfolded mk] mk
    by (auto simp: initialStatus_def)
qed

lemma initial_write_rel:
  assumes "retryIncidentWrite c (writeInitialStatus c now) (w, i) = ((w', i'), e)" "im_key i = k"
    and "held w k = Some j0"
  shows "im_key i' = k \<and> (\<forall>k'. k' \<noteq> k \<longrightarrow> held w' k' = held w k') \<and>
    (\<exists>j. held w' k = Some j \<and> im_spec j = im_spec j0 \<and>
         (e = None \<longrightarrow> ims_phase (im_status j) = PhaseDetected))"
proof -
  let ?R = "\<lambda>h h'. (\<forall>k'. k' \<noteq> k \<longrightarrow> h' k' = h k') \<and>
      (\<forall>j. h k = Some j \<longrightarrow> (\<exists>j'. h' k = Some j' \<and> im_spec j' = im_spec j))"
  have one: "im_key j' = k \<and> ?R (held v) (held v')"
    if "im_key j = k" "writeInitialStatus c now a (v, j) = ((v', j'), x)" for a v j v' j' x
    using initial_write_effect [OF that(2)] that(1) by auto
  have all: "im_key i' = k \<and> ?R (held w) (held w') \<and>
      (\<exists>a v j. im_key j = k \<and> ?R (held w) (held v) \<and> writeInitialStatus c now a (v, j) = ((w', i'), e))"
  proof (rule retry_rel [where R = ?R, OF assms(1,2)])
    show "?R h h" for h :: "objkey \<rightharpoonup> IncidentMemory" by blast
    show "?R h1 h3" if "?R h1 h2" "?R h2 h3" for h1 h2 h3 :: "objkey \<rightharpoonup> IncidentMemory"
      using that by (metis (no_types, lifting))
  qed (rule one)
  then obtain a v j where v: "im_key j = k" "?R (held w) (held v)"
    "writeInitialStatus c now a (v, j) = ((w', i'), e)" by blast
  obtain j1 where j1: "held w' k = Some j1" "im_spec j1 = im_spec j0" using all assms(3) by blast
  moreover have "ims_phase (im_status j1) = PhaseDetected" if en: "e = None"
  proof -
    obtain n where n: "held w' k = Some (n\<lparr>im_status := im_status i'\<rparr>)"
      "ims_phase (im_status i') = PhaseDetected"
      using initial_write_effect [OF v(3)] en v(1) by blast
    then have "j1 = n\<lparr>im_status := im_status i'\<rparr>" using j1(1) by simp
    then show ?thesis using n(2) by simp
  qed
  ultimately show ?thesis using all by blast
qed

end

subsection \<open>The contract of the reconciler's surroundings\<close>

text \<open>The event store, the emitter, the proposer and the WebSocket server write no incidents.\<close>

locale health_server = incident_writer "hr_client r" held
  for r :: "'w HealthCheckReconciler" and held :: "'w \<Rightarrow> objkey \<rightharpoonup> IncidentMemory" +
  assumes store_frame: "hr_eventStore r = Some st \<Longrightarrow> held (fst (st w now ev)) = held w"
    and emit_frame: "hr_eventEmitter r = Some em \<Longrightarrow> held (fst (em w ev)) = held w"
    and propose_frame: "hr_proposer r = Some pr \<Longrightarrow> held (fst (pr w now d i)) = held w"
    and socket_frame: "hr_webSocket r = Some snd' \<Longrightarrow> held (snd' w wev) = held w"
begin

lemma frames [simp]:
  "held (broadcast r wev w) = held w" "held (storeEventIn r now ev w) = held w" "held (emitEvent r ev w) = held w"
  using socket_frame store_frame emit_frame
  by (auto simp: broadcast_def storeEventIn_def emitEvent_def split: option.splits)

lemma fold_frame: "(\<And>x v. held (f x v) = held v) \<Longrightarrow> held (fold f xs w) = held w"
  by (induction xs arbitrary: w) auto

lemma event_frames [simp]:
  "held (storeSignalEvents r now d im w) = held w" "held (emitK8sEvents r d w) = held w"
  unfolding storeSignalEvents_def emitK8sEvents_def by (rule fold_frame, simp add: Let_def)+

lemma report_frame [simp]:
  "held (fst (reportDiscardedDiagnosis r now w im d stage cause)) = held w"
  by (simp add: reportDiscardedDiagnosis_def Let_def)

lemma propose_for_frame [simp]: "held (proposeFor r now w d inc) = held w"
proof (cases "hr_proposer r")
  case (Some pr)
  then have "held v = held w" if "pr w now d i = (v, x)" for v i x
    using propose_frame [OF Some, of w now d i] that by simp
  with Some show ?thesis
    by (auto simp: proposeFor_def Let_def split: option.splits sum.splits prod.splits bool.splits)
qed (simp add: proposeFor_def)

text \<open>Updating an incident writes only at its key: a diagnosis, then an occurrence.\<close>

lemma update_rel:
  assumes "updateExistingIncident r now w i subject d = ((w', i'), e)" "im_key i = k"
    and refl: "\<And>h. R h h" and trans: "\<And>h1 h2 h3. R h1 h2 \<Longrightarrow> R h2 h3 \<Longrightarrow> R h1 h3"
    and step: "\<And>h j. h k = Some j \<Longrightarrow> R h (h(k \<mapsto> applyDiagnosisToSpec now subject d j))"
      "\<And>h j. h k = Some j \<Longrightarrow> R h (h(k \<mapsto> recordOccurrence now j))"
  shows "im_key i' = k \<and> R (held w) (held w') \<and>
    (e = None \<longrightarrow> (\<exists>j. i' = recordOccurrence now j \<and> held w' k = Some i'))"
proof -
  obtain w1 i1 e1 where sp: "retryIncidentWrite (hr_client r)
      (writeSpec (hr_client r) (applyDiagnosisToSpec now subject d)) (w, i) = ((w1, i1), e1)"
    by (rule split_state)
  have s: "im_key i1 = k \<and> R (held w) (held w1) \<and> (e1 = None \<longrightarrow> (\<exists>j. i1 = applyDiagnosisToSpec now subject d j
      \<and> held w1 k = Some i1))"
    by (rule spec_write_rel [OF sp assms(2) _ _ refl trans step(1)])
       (simp_all add: applyDiagnosisToSpec_def Let_def im_key_def)
  show ?thesis
  proof (cases e1)
    case (Some x)
    with assms(1) sp s show ?thesis
      by (auto simp: updateExistingIncident_def reportDiscardedDiagnosis_def Let_def)
  next
    case None
    obtain w2 i2 e2 where st: "retryIncidentWrite (hr_client r)
        (writeStatus (hr_client r) (recordOccurrence now)) (w1, i1) = ((w2, i2), e2)"
      by (rule split_state)
    have u: "im_key i2 = k \<and> R (held w1) (held w2) \<and> (e2 = None \<longrightarrow>
        (\<exists>j. i2 = recordOccurrence now j \<and> held w2 k = Some i2))"
      by (rule status_write_rel [OF st _ _ refl trans step(2)]) (use s in \<open>auto simp: recordOccurrence_def\<close>)
    have "i' = i2 \<and> held w' = held w2 \<and> (e = None \<longleftrightarrow> e2 = None)"
      using assms(1) sp st None
      by (cases e2) (auto simp: updateExistingIncident_def reportDiscardedDiagnosis_def Let_def)
    moreover have "R (held w) (held w2)" using trans s u by blast
    ultimately show ?thesis using u by simp
  qed
qed

text \<open>After a successful update the object carries the diagnosis.\<close>

lemma update_recorded:
  assumes "updateExistingIncident r now w i subject d = ((w', i'), None)"
  shows "held w' (im_key i) = Some i' \<and> (\<exists>j. im_spec i' = im_spec (applyDiagnosisToSpec now subject d j))"
proof -
  let ?k = "im_key i"
  obtain w1 i1 e1 where sp: "retryIncidentWrite (hr_client r)
      (writeSpec (hr_client r) (applyDiagnosisToSpec now subject d)) (w, i) = ((w1, i1), e1)"
    by (rule split_state)
  have e1: "e1 = None"
    using assms sp by (cases e1) (auto simp: updateExistingIncident_def split: prod.splits)
  have s: "im_key i1 = ?k \<and> True \<and> (e1 = None \<longrightarrow> (\<exists>j. i1 = applyDiagnosisToSpec now subject d j
      \<and> held w1 ?k = Some i1))"
    by (rule spec_write_rel [OF sp refl]) (simp_all add: applyDiagnosisToSpec_def Let_def im_key_def)
  obtain w2 i2 e2 where st: "retryIncidentWrite (hr_client r)
      (writeStatus (hr_client r) (recordOccurrence now)) (w1, i1) = ((w2, i2), e2)"
    by (rule split_state)
  have e2: "e2 = None" "i' = i2" "held w' = held w2"
    using assms sp st e1 by (cases e2; auto simp: updateExistingIncident_def split: prod.splits)+
  have u: "im_key i2 = ?k \<and> (\<forall>j. held w1 ?k = Some j \<longrightarrow> (\<exists>j'. held w2 ?k = Some j' \<and> im_spec j' = im_spec j)) \<and>
      (e2 = None \<longrightarrow> (\<exists>j. i2 = recordOccurrence now j \<and> held w2 ?k = Some i2))"
    by (rule status_write_rel [OF st]) (use s in \<open>auto simp: recordOccurrence_def\<close>)
  with s e1 e2 show ?thesis by auto
qed

end

subsection \<open>Phases\<close>

text \<open>
  No object disappears or changes the failure it is about, and its phase changes at most to
  Resolved, where \<open>P\<close> allows it.
\<close>

definition phases_ok ::
  "(objkey \<Rightarrow> bool) \<Rightarrow> (objkey \<rightharpoonup> IncidentMemory) \<Rightarrow> (objkey \<rightharpoonup> IncidentMemory) \<Rightarrow> bool" where
  "phases_ok P h h' =
     (\<forall>k i. h k = Some i \<longrightarrow> (\<exists>i'. h' k = Some i' \<and> incidentSignalKey i' = incidentSignalKey i \<and>
        (ims_phase (im_status i') = ims_phase (im_status i) \<or>
         (ims_phase (im_status i') = PhaseResolved \<and> P k))))"

lemma phases_okE:
  assumes "phases_ok P h h'" "h k = Some i"
  obtains i' where "h' k = Some i'" "incidentSignalKey i' = incidentSignalKey i"
    "ims_phase (im_status i') = ims_phase (im_status i) \<or> (ims_phase (im_status i') = PhaseResolved \<and> P k)"
  using assms unfolding phases_ok_def by blast

lemma phases_ok_refl: "phases_ok P h h"
  by (auto simp: phases_ok_def)

lemma phases_ok_trans:
  assumes "phases_ok P h1 h2" "phases_ok P h2 h3"
  shows "phases_ok P h1 h3"
  unfolding phases_ok_def
proof (intro allI impI)
  fix k i assume "h1 k = Some i"
  with assms(1) obtain i2 where i2: "h2 k = Some i2" "incidentSignalKey i2 = incidentSignalKey i"
    "ims_phase (im_status i2) = ims_phase (im_status i) \<or> (ims_phase (im_status i2) = PhaseResolved \<and> P k)"
    by (rule phases_okE)
  from assms(2) i2(1) obtain i3 where "h3 k = Some i3" "incidentSignalKey i3 = incidentSignalKey i2"
    "ims_phase (im_status i3) = ims_phase (im_status i2) \<or> (ims_phase (im_status i3) = PhaseResolved \<and> P k)"
    by (rule phases_okE)
  with i2 show "\<exists>i'. h3 k = Some i' \<and> incidentSignalKey i' = incidentSignalKey i \<and>
      (ims_phase (im_status i') = ims_phase (im_status i) \<or>
       (ims_phase (im_status i') = PhaseResolved \<and> P k))" by auto
qed

lemma phases_ok_mono: "phases_ok P h h' \<Longrightarrow> (\<And>k. P k \<Longrightarrow> Q k) \<Longrightarrow> phases_ok Q h h'"
  unfolding phases_ok_def by meson

lemma phases_ok_keep:
  "h k = Some j \<Longrightarrow> ims_phase (im_status j') = ims_phase (im_status j) \<Longrightarrow>
   incidentSignalKey j' = incidentSignalKey j \<Longrightarrow> phases_ok P h (h(k \<mapsto> j'))"
  by (auto simp: phases_ok_def)

lemma phases_ok_new: "h k = None \<Longrightarrow> (\<And>k'. k' \<noteq> k \<Longrightarrow> h' k' = h k') \<Longrightarrow> phases_ok P h h'"
  unfolding phases_ok_def by (metis option.distinct(1))

text \<open>
  Why an incident may be closed: it is listed as open, its failure was not diagnosed in this cycle,
  it was not seen for the grace period, and the evidence read when its turn came shows recovery.
\<close>

definition closed_on_evidence ::
  "'w HealthCheckReconciler \<Rightarrow> time \<Rightarrow> 'w \<Rightarrow> string list \<Rightarrow> IncidentMemory list \<Rightarrow> objkey \<Rightarrow> bool" where
  "closed_on_evidence r now w keys items k =
     (\<exists>earlier l later. items = earlier @ l # later \<and> im_key l = k \<and> incidentSignalKey l \<notin> set keys \<and>
        ResolutionGracePeriod \<le> timeSub now (di_lastSeen (is_detection (im_spec l))) \<and>
        Recovered (resolutionEvidence r (fold (resolveOne r now keys) earlier w) l now))"

context health_server
begin

lemma apply_diagnosis_frame [simp]:
  "im_status (applyDiagnosisToSpec now subject d j) = im_status j"
  "im_key (applyDiagnosisToSpec now subject d j) = im_key j"
  "im_name (applyDiagnosisToSpec now subject d j) = im_name j"
  "im_namespace (applyDiagnosisToSpec now subject d j) = im_namespace j"
  "incidentSignalKey (applyDiagnosisToSpec now subject d j) = incidentSignalKey j"
  by (simp_all add: applyDiagnosisToSpec_def Let_def im_key_def incidentSignalKey_def)

lemma record_occurrence_frame [simp]:
  "ims_phase (im_status (recordOccurrence now j)) = ims_phase (im_status j)"
  "incidentSignalKey (recordOccurrence now j) = incidentSignalKey j"
  by (simp_all add: recordOccurrence_def incidentSignalKey_def)

lemma resolved_frame [simp]:
  "im_status (resolvedSpec ev j) = im_status j" "im_key (resolvedSpec ev j) = im_key j"
  "incidentSignalKey (resolvedSpec ev j) = incidentSignalKey j"
  "ims_phase (im_status (resolvedPhase j)) = PhaseResolved"
  "incidentSignalKey (resolvedPhase j) = incidentSignalKey j"
  by (simp_all add: resolvedSpec_def resolvedPhase_def incidentSignalKey_def im_key_def Let_def)

lemma update_phases:
  assumes "updateExistingIncident r now w i subject d = ((w', i'), e)"
  shows "phases_ok P (held w) (held w')"
proof -
  have 1: "phases_ok P h (h(im_key i \<mapsto> applyDiagnosisToSpec now subject d j))"
    if "h (im_key i) = Some j" for h j
    using that by (rule phases_ok_keep) simp_all
  have 2: "phases_ok P h (h(im_key i \<mapsto> recordOccurrence now j))" if "h (im_key i) = Some j" for h j
    using that by (rule phases_ok_keep) simp_all
  have "im_key i' = im_key i \<and> phases_ok P (held w) (held w') \<and>
      (e = None \<longrightarrow> (\<exists>j. i' = recordOccurrence now j \<and> held w' (im_key i) = Some i'))"
    by (rule update_rel [where R = "phases_ok P", OF assms refl phases_ok_refl _ 1 2])
       (rule phases_ok_trans)
  then show ?thesis by blast
qed

lemma adopt_frame:
  assumes "retryIncidentWrite (hr_client r)
      (\<lambda>_ st. case hc_get (hr_client r) (fst st) k of Inl e \<Rightarrow> (st, Some e) | Inr x \<Rightarrow> ((fst st, x), None))
      (w, i) = ((w', i'), e)" "im_key i = k"
  shows "held w' = held w \<and> im_key i' = k \<and> (e = None \<longrightarrow> held w k = Some i')"
proof -
  let ?step = "\<lambda>(_ :: nat) st. case hc_get (hr_client r) (fst st) k of
      Inl e \<Rightarrow> (st, Some e) | Inr x \<Rightarrow> ((fst st, x), None)"
  have one: "im_key j' = k \<and> held v = held v' \<and> (x = None \<longrightarrow> held v k = Some j')"
    if "im_key j = k" "?step a (v, j) = ((v', j'), x)" for a :: nat and v j v' j' x
  proof (cases "hc_get (hr_client r) v k")
    case (Inr y)
    note g = get_held [OF Inr]
    with Inr that held_key [OF g] show ?thesis by simp
  qed (use that in auto)
  have "im_key i' = k \<and> held w = held w' \<and>
      (\<exists>a v j. im_key j = k \<and> held w = held v \<and> ?step a (v, j) = ((w', i'), e))"
  proof (rule retry_rel [where R = "(=)", OF assms])
    show "im_key j' = k \<and> held v = held v'"
      if "im_key j = k" "?step a (v, j) = ((v', j'), x)" for a v j v' j' x
      using one [OF that] by blast
  qed simp_all
  then show ?thesis using one by metis
qed

text \<open>Creating writes only at the key of the new incident: the object, or an adopted one.\<close>

lemma create_rel:
  assumes "createIncident r now w subject d = (w', e)" "im_key (newIncident now subject d) = k"
    and refl: "\<And>h. R h h" and trans: "\<And>h1 h2 h3. R h1 h2 \<Longrightarrow> R h2 h3 \<Longrightarrow> R h1 h3"
    and step: "\<And>h j. h k = Some j \<Longrightarrow> R h (h(k \<mapsto> applyDiagnosisToSpec now subject d j))"
      "\<And>h j. h k = Some j \<Longrightarrow> R h (h(k \<mapsto> recordOccurrence now j))"
    and new: "\<And>h h'. h k = None \<Longrightarrow> (\<And>k'. k' \<noteq> k \<Longrightarrow> h' k' = h k') \<Longrightarrow> R h h'"
  shows "R (held w) (held w')"
proof -
  let ?i = "newIncident now subject d" and ?c = "hr_client r"
  have st: "?i\<lparr>im_status := noStatus\<rparr> = ?i" by (simp add: newIncident_def noStatus_def Let_def)
  obtain w1 x where cr: "hc_create ?c w ?i = (w1, x)" by fastforce
  show ?thesis
  proof (cases x)
    case (Some y)
    have p1: "R (held w) (held w1)"
      using create_failed [OF cr [unfolded Some]] new [of "held w" "held w1"] refl assms(2) by auto
    show ?thesis
    proof (cases "api_reason_of y = Some AlreadyExists")
      case False
      with assms(1) cr Some p1 show ?thesis by (simp add: createIncident_def Let_def)
    next
      case True
      obtain w2 j z where ad: "retryIncidentWrite ?c
          (\<lambda>_ st. case hc_get ?c (fst st) (im_key ?i) of
             Inl e \<Rightarrow> (st, Some e) | Inr existing \<Rightarrow> ((fst st, existing), None)) (w1, ?i) = ((w2, j), z)"
        by (rule split_state)
      have f: "held w2 = held w1" "im_key j = k" using adopt_frame [OF ad HOL.refl] assms(2) by simp_all
      obtain w3 j3 e3 where up: "updateExistingIncident r now w2 j subject d = ((w3, j3), e3)"
        by (rule split_state)
      have "held w' = held w2 \<or> held w' = held w3"
        using assms(1) cr Some True ad up
        by (cases z) (auto simp: createIncident_def reportDiscardedDiagnosis_def Let_def)
      moreover have "im_key j3 = k \<and> R (held w2) (held w3) \<and>
          (e3 = None \<longrightarrow> (\<exists>j. j3 = recordOccurrence now j \<and> held w3 k = Some j3))"
        by (rule update_rel [where R = R, OF up f(2)]) (fact refl trans step)+
      ultimately show ?thesis using p1 f trans by metis
    qed
  next
    case None
    from create_held [OF cr [unfolded None]] st assms(2)
    have n: "held w k = None" "held w1 = (held w)(k \<mapsto> ?i)" by simp_all
    obtain w2 j e2 where ini: "retryIncidentWrite ?c (writeInitialStatus ?c now) (w1, ?i) = ((w2, j), e2)"
      by (rule split_state)
    have "held w1 k = Some ?i" using n(2) by simp
    note rel = initial_write_rel [OF ini assms(2) this]
    have "held w' = held w2"
      using assms(1) cr None ini
      by (cases e2) (auto simp: createIncident_def reportDiscardedDiagnosis_def Let_def split: if_splits)
    then show ?thesis using n rel by (intro new) auto
  qed
qed

lemma create_phases:
  assumes "createIncident r now w subject d = (w', e)"
  shows "phases_ok P (held w) (held w')"
proof (rule create_rel [where R = "phases_ok P", OF assms refl phases_ok_refl])
  let ?k = "im_key (newIncident now subject d)"
  show "phases_ok P h1 h3" if "phases_ok P h1 h2" "phases_ok P h2 h3" for h1 h2 h3
    using that by (rule phases_ok_trans)
  show "phases_ok P h (h(?k \<mapsto> applyDiagnosisToSpec now subject d j))" if "h ?k = Some j" for h j
    using that by (rule phases_ok_keep) simp_all
  show "phases_ok P h (h(?k \<mapsto> recordOccurrence now j))" if "h ?k = Some j" for h j
    using that by (rule phases_ok_keep) simp_all
  show "phases_ok P h h'" if "h ?k = None" "\<And>k'. k' \<noteq> ?k \<Longrightarrow> h' k' = h k'" for h h'
    using that by (rule phases_ok_new)
qed

lemma create_frame:
  assumes "createIncident r now w subject d = (w', e)" "k' \<noteq> im_key (newIncident now subject d)"
  shows "held w' k' = held w k'"
  using create_rel [where R = "\<lambda>h h'. h' k' = h k'", OF assms(1) refl] assms(2) by simp

lemma process_phases:
  assumes "processDiagnosis r now w subject d = (w', e)"
  shows "phases_ok P (held w) (held w')"
proof (cases "findMatchingIncident r w subject d")
  case (Inl x)
  with assms show ?thesis by (simp add: processDiagnosis_def phases_ok_refl)
next
  case (Inr found)
  show ?thesis
  proof (cases found)
    case None
    obtain w1 e1 where cr: "createIncident r now w subject d = (w1, e1)" by fastforce
    have "held w' = held w1"
      using assms Inr None cr by (cases e1) (auto simp: processDiagnosis_def split: if_splits)
    with create_phases [OF cr] show ?thesis by simp
  next
    case (Some existing)
    obtain w1 i1 e1 where up: "updateExistingIncident r now w existing subject d = ((w1, i1), e1)"
      by (rule split_state)
    have "held w' = held w1"
      using assms Inr Some up by (cases e1) (auto simp: processDiagnosis_def split: if_splits)
    with update_phases [OF up] show ?thesis by simp
  qed
qed

lemma loop_phases: "diagnosisLoop r now subject ds (w, keys, n) = (w', rest) \<Longrightarrow> phases_ok P (held w) (held w')"
proof (induction ds arbitrary: w keys n)
  case Nil
  then show ?case by (simp add: phases_ok_refl)
next
  case (Cons d ds)
  obtain w1 e where pd: "processDiagnosis r now w subject d = (w1, e)" by fastforce
  with Cons.prems Cons.IH have "phases_ok P (held w1) (held w')" by (auto simp: pd)
  with process_phases [OF pd] show ?case by (rule phases_ok_trans)
qed

lemma group_phases: "phases_ok P (held (fst st)) (held (fst (processGroup r now grp st)))"
proof (cases "Analyze (hr_diagnosis r) (gr_signals grp)")
  case (Inr ds)
  show ?thesis
  proof (cases "incidentSubjectFor grp")
    case (Some subject)
    obtain w keys n where st: "st = (w, keys, n)" by (cases st)
    obtain w' rest where lo: "diagnosisLoop r now subject ds (w, keys, n) = (w', rest)"
      by (rule prod.exhaust)
    from loop_phases [OF lo] show ?thesis by (simp add: processGroup_def Inr Some st lo)
  qed (simp add: processGroup_def Inr phases_ok_refl)
qed (simp add: processGroup_def phases_ok_refl)

lemma resolve_phases:
  assumes "incidentSignalKey i \<notin> set keys \<Longrightarrow>
      ResolutionGracePeriod \<le> timeSub now (di_lastSeen (is_detection (im_spec i))) \<Longrightarrow>
      Recovered (resolutionEvidence r w i now) \<Longrightarrow> P (im_key i)"
  shows "phases_ok P (held w) (held (resolveOne r now keys i w))"
proof (cases "incidentSignalKey i \<in> set keys \<or>
    timeSub now (di_lastSeen (is_detection (im_spec i))) < ResolutionGracePeriod \<or>
    \<not> Recovered (resolutionEvidence r w i now)")
  case True
  then show ?thesis by (auto simp: resolveOne_def Let_def phases_ok_refl)
next
  case False
  then have P: "P (im_key i)" using assms by linarith
  let ?ev = "resolutionEvidence r w i now" and ?c = "hr_client r"
  obtain w1 i1 e1 where sp: "retryIncidentWrite ?c (writeSpec ?c (resolvedSpec ?ev)) (w, i) = ((w1, i1), e1)"
    by (rule split_state)
  obtain w2 i2 e2 where st: "retryIncidentWrite ?c (writeStatus ?c resolvedPhase) (w1, i1) = ((w2, i2), e2)"
    by (rule split_state)
  have p1: "im_key i1 = im_key i \<and> phases_ok P (held w) (held w1) \<and>
      (e1 = None \<longrightarrow> (\<exists>j. i1 = resolvedSpec ?ev j \<and> held w1 (im_key i) = Some i1))"
  proof (rule spec_write_rel [where R = "phases_ok P", OF sp refl _ _ phases_ok_refl])
    show "phases_ok P h (h(im_key i \<mapsto> resolvedSpec ?ev j))" if "h (im_key i) = Some j" for h j
      using that by (rule phases_ok_keep) simp_all
  qed (simp_all add: phases_ok_trans)
  have p2: "im_key i2 = im_key i \<and> phases_ok P (held w1) (held w2) \<and>
      (e2 = None \<longrightarrow> (\<exists>j. i2 = resolvedPhase j \<and> held w2 (im_key i) = Some i2))"
  proof (rule status_write_rel [where R = "phases_ok P", OF st _ _ phases_ok_refl])
    show "phases_ok P h (h(im_key i \<mapsto> resolvedPhase j))" if "h (im_key i) = Some j" for h j
      using that P by (auto simp: phases_ok_def)
  qed (use p1 in \<open>auto simp: resolvedPhase_def intro: phases_ok_trans\<close>)
  have "held (resolveOne r now keys i w) = held w1 \<or> held (resolveOne r now keys i w) = held w2"
    using False sp st by (cases e1; cases e2) (auto simp: resolveOne_def markResolved_def Let_def)
  with p1 p2 phases_ok_trans show ?thesis by metis
qed

lemma fold_phases:
  assumes "\<And>earlier x later. xs = earlier @ x # later \<Longrightarrow>
      phases_ok P (held (g (fold f earlier v))) (held (g (f x (fold f earlier v))))"
  shows "phases_ok P (held (g v)) (held (g (fold f xs v)))"
  using assms
proof (induction xs rule: rev_induct)
  case (snoc x xs)
  have "phases_ok P (held (g v)) (held (g (fold f xs v)))"
    by (rule snoc.IH) (use snoc.prems in \<open>metis append.assoc append_Cons\<close>)
  from phases_ok_trans [OF this snoc.prems [of xs x "[]"]] show ?case by simp
qed (simp add: phases_ok_refl)

lemma cleared_phases:
  assumes "hc_list (hr_client r) w None [(LabelPhase, PhaseDetected)] = Inr detected"
    and "hc_list (hr_client r) w None [(LabelPhase, PhaseInvestigating)] = Inr investigating"
  shows "phases_ok (closed_on_evidence r now w keys (detected @ investigating))
    (held w) (held (fst (resolveCleared r now keys w)))"
proof -
  let ?xs = "detected @ investigating"
  have "phases_ok (closed_on_evidence r now w keys ?xs) (held w) (held (fold (resolveOne r now keys) ?xs w))"
  proof (rule fold_phases [where g = "\<lambda>v. v"])
    show "phases_ok (closed_on_evidence r now w keys ?xs) (held (fold (resolveOne r now keys) earlier w))
        (held (resolveOne r now keys x (fold (resolveOne r now keys) earlier w)))"
      if "?xs = earlier @ x # later" for earlier x later
      by (rule resolve_phases) (use that in \<open>auto simp: closed_on_evidence_def\<close>)
  qed
  then show ?thesis using assms by (simp add: resolveCleared_def del: fold_append)
qed

lemma diagnosed_phases:
  "phases_ok P (held w) (held (fst (fold (processGroup r now) grps (w, keys, n))))"
  using fold_phases [of grps P fst "processGroup r now" "(w, keys, n)", OF group_phases] by simp

end

end
