(* ===== verification/HealthProps.thy ===== *)
theory HealthProps
  imports HealthLaws
begin

text \<open>
  The properties of the health check cycle: what closes an incident, that a recorded diagnosis is
  on an object, what happens when a failure comes back after its incident was closed, when a
  workload is handed over to its persona, and when a recorded root cause is refreshed.
\<close>

subsection \<open>Closing\<close>

context health_server
begin

lemma cycle_phases:
  assumes "CollectAll (hr_detection r) w = Inr signals"
    and "fold (processGroup r now) (GroupSignals signals) (w, [], \<lparr>cc_attempted = 0, cc_discarded = 0\<rparr>) = (w1, keys, n)"
    and "held w k = Some i"
  shows "\<exists>i'. held (fst (healthCycle r now w)) k = Some i' \<and> incidentSignalKey i' = incidentSignalKey i \<and>
    (ims_phase (im_status i') = ims_phase (im_status i) \<or>
     (ims_phase (im_status i') = PhaseResolved \<and> incidentSignalKey i \<notin> set keys \<and>
      (\<exists>items. closed_on_evidence r now w1 keys items k \<and>
        set items = {j. held w1 (im_key j) = Some j \<and>
          map_of (im_labels j) LabelPhase \<in> {Some PhaseDetected, Some PhaseInvestigating}})))"
proof -
  let ?w2 = "fst (resolveCleared r now keys w1)"
  have fin: "held (fst (healthCycle r now w)) = held ?w2"
    by (simp add: healthCycle_def assms(1,2) Let_def broadcastHealthSummary_def)
  have "phases_ok (\<lambda>_. False) (held w) (held w1)"
    using diagnosed_phases [of "\<lambda>_. False" w now "GroupSignals signals" "[]"
        "\<lparr>cc_attempted = 0, cc_discarded = 0\<rparr>"] assms(2) by simp
  then obtain i1 where i1: "held w1 k = Some i1" "incidentSignalKey i1 = incidentSignalKey i"
    "ims_phase (im_status i1) = ims_phase (im_status i)" using assms(3) by (auto elim: phases_okE)
  show ?thesis
  proof (cases "hc_list (hr_client r) w1 None [(LabelPhase, PhaseDetected)]")
    case (Inl e)
    with i1 show ?thesis by (simp add: fin resolveCleared_def)
  next
    case (Inr detected)
    show ?thesis
    proof (cases "hc_list (hr_client r) w1 None [(LabelPhase, PhaseInvestigating)]")
      case (Inl e)
      with i1 Inr show ?thesis by (simp add: fin resolveCleared_def)
    next
      case (Inr investigating)
      let ?items = "detected @ investigating"
      note det = \<open>hc_list (hr_client r) w1 None [(LabelPhase, PhaseDetected)] = Inr detected\<close>
      have items: "set ?items = {j. held w1 (im_key j) = Some j \<and>
          map_of (im_labels j) LabelPhase \<in> {Some PhaseDetected, Some PhaseInvestigating}}"
        using list_held [OF det] list_held [OF Inr] by auto
      from cleared_phases [OF det Inr, of now keys] i1(1) obtain i2 where i2: "held ?w2 k = Some i2"
        "incidentSignalKey i2 = incidentSignalKey i1"
        "ims_phase (im_status i2) = ims_phase (im_status i1) \<or>
          (ims_phase (im_status i2) = PhaseResolved \<and> closed_on_evidence r now w1 keys ?items k)"
        by (rule phases_okE)
      have "incidentSignalKey i \<notin> set keys" if "closed_on_evidence r now w1 keys ?items k"
      proof -
        from that obtain l where l: "l \<in> set ?items" "im_key l = k" "incidentSignalKey l \<notin> set keys"
          unfolding closed_on_evidence_def by (metis in_set_conv_decomp)
        then have "held w1 k = Some l" using items by blast
        then show ?thesis using l(3) i1 by simp
      qed
      with i1 i2 items show ?thesis unfolding fin by (metis (no_types, lifting))
    qed
  qed
qed

text \<open>The diagnoses of a cycle whose failures count as active.\<close>

lemma loop_keys:
  "diagnosisLoop r now s ds (w, keys, n) = (w', keys', n') \<Longrightarrow> set keys' = set keys \<union> signalKey s ` set ds"
  by (induction ds arbitrary: w keys n) (auto split: prod.splits)

end


text \<open>
  An unattributed incident is not handed over while its failure lasts. Let an incident be
  recorded against a workload without persona, and let a persona with the workload's name now own
  the failure: a diagnosis of this cycle, with the persona as its subject, has the category and
  the primary signal of the incident. Then the cycle leaves the phase of the incident as it is,
  although the persona's own incident is open, because the two have the same signal key.
\<close>

theorem handover_waits_for_recovery:
  assumes "health_server r held" "CollectAll (hr_detection r) w = Inr signals"
    and "fold (processGroup r now) (GroupSignals signals) (w, [], \<lparr>cc_attempted = 0, cc_discarded = 0\<rparr>) = (w1, keys, n)"
    and "held w k = Some i" "is_attribution (im_spec i) = AttributionUnattributed"
    and "signalKey (personaSubject ref) d \<in> set keys"
    and "is_personaRef (im_spec i) = ref" "is_category (im_spec i) = dg_category d"
      "di_signal (is_detection (im_spec i)) = primarySignalType d"
  shows "\<exists>i'. held (fst (healthCycle r now w)) k = Some i' \<and>
    ims_phase (im_status i') = ims_phase (im_status i)"
proof -
  have "incidentSignalKey i = signalKey (personaSubject ref) d"
    using assms(7-9) by (simp add: incidentSignalKey_def signalKey_def personaSubject_def Let_def)
  with health_server.cycle_phases [OF assms(1-4)] assms(6) show ?thesis by metis
qed

subsection \<open>Recording\<close>

definition diagnosed :: "time \<Rightarrow> Diagnosis \<Rightarrow> IncidentMemory \<Rightarrow> bool" where
  "diagnosed now d i =
     (di_lastSeen (is_detection (im_spec i)) = now \<and>
      di_affectedResources (is_detection (im_spec i)) = toResourceRefs (dg_affectedResources d))"

lemma diagnosed_apply: "im_spec i = im_spec (applyDiagnosisToSpec now s d j) \<Longrightarrow> diagnosed now d i"
  by (simp add: diagnosed_def applyDiagnosisToSpec_def Let_def)

lemma diagnosed_new: "im_spec i = im_spec (newIncident now s d) \<Longrightarrow> diagnosed now d i"
  by (simp add: diagnosed_def newIncident_def Let_def)

context health_server
begin

lemma create_recorded:
  assumes "createIncident r now w subject d = (w', None)"
  shows "\<exists>i. held w' (im_key (newIncident now subject d)) = Some i \<and> diagnosed now d i"
proof -
  let ?i = "newIncident now subject d" and ?c = "hr_client r"
  have st: "?i\<lparr>im_status := noStatus\<rparr> = ?i" by (simp add: newIncident_def noStatus_def Let_def)
  obtain w1 x where cr: "hc_create ?c w ?i = (w1, x)" by fastforce
  show ?thesis
  proof (cases x)
    case (Some y)
    with assms cr have ae: "api_reason_of y = Some AlreadyExists"
      by (simp add: createIncident_def Let_def split: if_splits)
    obtain w2 j z where ad: "retryIncidentWrite ?c
        (\<lambda>_ st. case hc_get ?c (fst st) (im_key ?i) of
           Inl e \<Rightarrow> (st, Some e) | Inr existing \<Rightarrow> ((fst st, existing), None)) (w1, ?i) = ((w2, j), z)"
      by (rule split_state)
    obtain w3 j3 e3 where up: "updateExistingIncident r now w2 j subject d = ((w3, j3), e3)"
      by (rule split_state)
    have e: "z = None" "e3 = None" "w' = w3"
      using assms cr Some ae ad up
      by (cases z; auto simp: createIncident_def reportDiscardedDiagnosis_def Let_def)+
    have "im_key j = im_key ?i" using adopt_frame [OF ad refl] by blast
    with update_recorded [OF up [unfolded e]] e show ?thesis
      by (auto intro: diagnosed_apply)
  next
    case None
    from create_held [OF cr [unfolded None]] st
    have h: "held w1 (im_key ?i) = Some ?i" by simp
    obtain w2 j e2 where ini: "retryIncidentWrite ?c (writeInitialStatus ?c now) (w1, ?i) = ((w2, j), e2)"
      by (rule split_state)
    have "held w' = held w2"
      using assms cr None ini
      by (cases e2) (auto simp: createIncident_def reportDiscardedDiagnosis_def Let_def split: if_splits)
    with initial_write_rel [OF ini refl h] show ?thesis by (auto intro: diagnosed_new)
  qed
qed

lemma process_recorded:
  assumes "processDiagnosis r now w subject d = (w', None)"
  shows "\<exists>i. held w' (case findMatchingIncident r w subject d of
      Inr (Some existing) \<Rightarrow> im_key existing | _ \<Rightarrow> im_key (newIncident now subject d)) = Some i \<and>
    diagnosed now d i"
proof (cases "findMatchingIncident r w subject d")
  case (Inl x)
  with assms show ?thesis by (simp add: processDiagnosis_def)
next
  case (Inr found)
  show ?thesis
  proof (cases found)
    case None
    obtain w1 e1 where cr: "createIncident r now w subject d = (w1, e1)" by fastforce
    have "held w' = held w1" "e1 = None"
      using assms Inr None cr by (cases e1; auto simp: processDiagnosis_def split: if_splits)+
    with create_recorded [of now w subject d w1] cr Inr None show ?thesis by simp
  next
    case (Some existing)
    obtain w1 i1 e1 where up: "updateExistingIncident r now w existing subject d = ((w1, i1), e1)"
      by (rule split_state)
    have e: "held w' = held w1" "e1 = None"
      using assms Inr Some up by (cases e1; auto simp: processDiagnosis_def split: if_splits)+
    from update_recorded [OF up [unfolded e(2)]] e(1) Inr Some show ?thesis
      by (auto intro: diagnosed_apply)
  qed
qed

end

text \<open>
  C9. A diagnosis that is not reported as lost is recorded. If \<open>processDiagnosis\<close> reports no error,
  the open incident it found, or else the object named after the subject and the signal, is held
  afterwards and states this diagnosis: it was last seen now and affects the diagnosed resources.
  This holds under conflicts, missing cache entries, lost replies and an incident that already
  existed.
\<close>

theorem diagnosis_recorded:
  assumes "health_server r held" "processDiagnosis r now w subject d = (w', None)"
  shows "\<exists>i. held w' (case findMatchingIncident r w subject d of
      Inr (Some existing) \<Rightarrow> im_key existing | _ \<Rightarrow> im_key (newIncident now subject d)) = Some i \<and>
    diagnosed now d i"
  by (rule health_server.process_recorded [OF assms])

subsection \<open>Recurrence\<close>

text \<open>Recording an incident does not consult the proposer.\<close>

lemma proposer_blind:
  "hr_client (r\<lparr>hr_proposer := p\<rparr>) = hr_client r"
  "broadcast (r\<lparr>hr_proposer := p\<rparr>) = broadcast r"
  "storeEventIn (r\<lparr>hr_proposer := p\<rparr>) = storeEventIn r"
  "emitEvent (r\<lparr>hr_proposer := p\<rparr>) = emitEvent r"
  by (simp_all add: fun_eq_iff broadcast_def storeEventIn_def emitEvent_def)

lemma proposer_blind_event:
  "reportDiscardedDiagnosis (r\<lparr>hr_proposer := p\<rparr>) = reportDiscardedDiagnosis r"
  "storeSignalEvents (r\<lparr>hr_proposer := p\<rparr>) = storeSignalEvents r"
  "emitK8sEvents (r\<lparr>hr_proposer := p\<rparr>) = emitK8sEvents r"
  by (unfold reportDiscardedDiagnosis_def storeSignalEvents_def emitK8sEvents_def
      proposer_blind, (rule refl)+)

lemma proposer_blind_update:
  "findMatchingIncident (r\<lparr>hr_proposer := p\<rparr>) = findMatchingIncident r"
  "updateExistingIncident (r\<lparr>hr_proposer := p\<rparr>) = updateExistingIncident r"
  by (unfold findMatchingIncident_def updateExistingIncident_def proposer_blind
      proposer_blind_event, (rule refl)+)

lemma proposer_blind_create: "createIncident (r\<lparr>hr_proposer := p\<rparr>) = createIncident r"
  by (unfold createIncident_def proposer_blind proposer_blind_event proposer_blind_update, rule refl)

lemma proposeFor_None [simp]:
  "proposeFor r now w d None = w" "hr_proposer r = None \<Longrightarrow> proposeFor r now w d inc = w"
  by (simp_all add: proposeFor_def split: option.splits)

context health_server
begin

lemma no_match_after_create:
  assumes f: "findMatchingIncident r w subject d = Inr None"
    and i: "held w (im_key (newIncident now subject d)) = Some i" "ims_phase (im_status i) = PhaseResolved"
    and cr: "createIncident r now w subject d = (w', e)"
  shows "findMatchingIncident r w' subject d \<noteq> Inr (Some j)"
proof
  let ?k = "im_key (newIncident now subject d)"
  let ?ns = "if su_namespace subject \<noteq> [] then Some (su_namespace subject) else None"
  let ?sel = "[(LabelPersonaKind, pr_kind (su_personaRef subject)),
              (LabelPersonaName, pr_name (su_personaRef subject)),
              (LabelCategory, dg_category d), (LabelSignal, primarySignalType d)]"
  let ?ok = "\<lambda>im. ims_phase (im_status im) \<noteq> PhaseResolved \<and> matchesIncident subject im"
  assume "findMatchingIncident r w' subject d = Inr (Some j)"
  then obtain new where new: "hc_list (hr_client r) w' ?ns ?sel = Inr new" "List.find ?ok new = Some j"
    by (simp add: findMatchingIncident_def split: sum.splits)
  from f obtain old where old: "hc_list (hr_client r) w ?ns ?sel = Inr old" "List.find ?ok old = None"
    by (simp add: findMatchingIncident_def split: sum.splits)
  have j: "j \<in> set new" "?ok j" using new(2) by (auto simp: find_Some_iff)
  have nk: "im_key j \<noteq> ?k"
  proof
    assume "im_key j = ?k"
    then have "held w' ?k = Some j" using j(1) list_held [OF new(1)] by auto
    moreover obtain i' where "held w' ?k = Some i'" "ims_phase (im_status i') = PhaseResolved"
      using create_phases [OF cr, of "\<lambda>_. False"] i by (auto elim: phases_okE)
    ultimately show False using j(2) by simp
  qed
  then have "held w (im_key j) = held w' (im_key j)" using create_frame [OF cr] by simp
  then have "j \<in> set old" using j(1) unfolding list_held [OF new(1)] list_held [OF old(1)] by simp
  then show False using old(2) j(2) by (auto simp: find_None_iff)
qed

lemma recurrence_blind:
  assumes f: "findMatchingIncident r w subject d = Inr None"
    and i: "held w (im_key (newIncident now subject d)) = Some i" "ims_phase (im_status i) = PhaseResolved"
  shows "processDiagnosis r now w subject d = createIncident r now w subject d"
proof -
  obtain w' e where cr: "createIncident r now w subject d = (w', e)" by fastforce
  show ?thesis
  proof (cases "findMatchingIncident r w' subject d")
    case (Inr x)
    with no_match_after_create [OF f i cr] have "x = None" by (cases x) auto
    with Inr show ?thesis by (cases e) (simp_all add: processDiagnosis_def f cr)
  qed (cases e; simp add: processDiagnosis_def f cr)
qed

end

text \<open>
  C22. A failure that comes back after its incident was closed is lost. The name of an incident is
  a function of namespace, subject and signal, so a recurrence has the name of the closed record.
  When that record is still there and no open one matches, \<open>processDiagnosis\<close> opens nothing: every
  other object is unchanged, the record stays Resolved, no open incident matches afterwards, and
  the outcome does not depend on the proposer, so that no remediation is ever proposed for it.
\<close>

theorem recurrence_folded_into_resolved:
  assumes "health_server r held" "findMatchingIncident r w subject d = Inr None"
    and "held w (im_key (newIncident now subject d)) = Some i" "ims_phase (im_status i) = PhaseResolved"
    and "processDiagnosis r now w subject d = (w', e)"
  shows "(\<exists>i'. held w' (im_key (newIncident now subject d)) = Some i' \<and> ims_phase (im_status i') = PhaseResolved) \<and>
    (\<forall>k. k \<noteq> im_key (newIncident now subject d) \<longrightarrow> held w' k = held w k) \<and>
    \<not> (\<exists>j. findMatchingIncident r w' subject d = Inr (Some j)) \<and>
    processDiagnosis (r\<lparr>hr_proposer := None\<rparr>) now w subject d = (w', e)"
proof -
  note hs = assms(1) and rec = assms(2-4)
  have cr: "createIncident r now w subject d = (w', e)"
    using health_server.recurrence_blind [OF hs rec] assms(5) by simp
  have "processDiagnosis (r\<lparr>hr_proposer := None\<rparr>) now w subject d = (w', e)"
    by (cases e) (simp_all add: processDiagnosis_def proposer_blind_update proposer_blind_create assms(2) cr)
  moreover have "phases_ok (\<lambda>_. False) (held w) (held w')" by (rule health_server.create_phases [OF hs cr])
  then have "\<exists>i'. held w' (im_key (newIncident now subject d)) = Some i' \<and>
      ims_phase (im_status i') = PhaseResolved"
    using assms(3,4) by (auto elim: phases_okE)
  moreover have "\<forall>k. k \<noteq> im_key (newIncident now subject d) \<longrightarrow> held w' k = held w k"
    using health_server.create_frame [OF hs cr] by blast
  moreover have "\<not> (\<exists>j. findMatchingIncident r w' subject d = Inr (Some j))"
    using health_server.no_match_after_create [OF hs rec cr] by blast
  ultimately show ?thesis by blast
qed

subsection \<open>Refreshing the root cause\<close>

text \<open>
  When a root cause is refreshed. An incident that carries the root cause of a diagnosis with
  confidence c takes over the root cause of a later diagnosis exactly if the later confidence is
  positive and reaches c as rounded to the two decimals it was recorded with. A diagnosis of equal
  confidence therefore does not refresh it when c was rounded up.
\<close>

theorem root_cause_refresh_threshold:
  assumes "is_rootCause (im_spec im) = annotateUnattributed (buildRootCause d0) s0"
    and "is_rootCause (im_spec im) \<noteq> None" "0 \<le> dg_confidence d0"
  shows "is_rootCause (im_spec (applyDiagnosisToSpec now s d im)) =
    (if 0 < dg_confidence d \<and> fl64 (of_int (roundHalfEven (dg_confidence d0 * 100)) / 100) \<le> dg_confidence d
     then annotateUnattributed (buildRootCause d) s else is_rootCause (im_spec im))"
proof -
  obtain rc where rc: "is_rootCause (im_spec im) = Some rc" using assms(2) by blast
  then have "rc_confidence rc = fmtFixed 2 (dg_confidence d0)"
    using assms(1) by (auto simp: annotateUnattributed_def buildRootCause_def split: if_splits)
  then have "existingConfidence im = fl64 (of_int (roundHalfEven (dg_confidence d0 * 100)) / 100)"
    by (simp add: existingConfidence_def rc parseFloat_fmtFixed [OF assms(3)])
  then show ?thesis by (simp add: applyDiagnosisToSpec_def Let_def)
qed

end
