(* ===== verification/Cluster.thy ===== *)
theory Cluster
  imports HealthProps Store
begin

text \<open>
  A cluster for the health check reconciler: the object store of \<^verbatim>\<open>Store\<close> under its fault script
  for IncidentMemory objects, the event records of \<^verbatim>\<open>Events\<close> with the deduplicating event store
  in front of them, the Kubernetes events emitted and the WebSocket messages sent. The reconciler
  on it has the program's own event store, emitter and retry loop; the locales \<open>incident_writer\<close> and
  \<open>health_server\<close> are interpreted on it.
\<close>

record cluster =
  cl_store :: store
  cl_events :: "(objkey \<times> DorguEvent) list"
  cl_eventStore :: HybridEventStore
  cl_emitted :: "Emission list"
  cl_sent :: "WsEvent list"

definition onStore :: "(store \<Rightarrow> store \<times> goerr option) \<Rightarrow> cluster \<Rightarrow> cluster \<times> goerr option" where
  "onStore f w = (case f (cl_store w) of (s, e) \<Rightarrow> (w\<lparr>cl_store := s\<rparr>, e))"

definition store_list_incidents :: "store \<Rightarrow> string option \<Rightarrow> (string \<times> string) list \<Rightarrow> IncidentMemory list" where
  "store_list_incidents s ns sel =
     filter (\<lambda>i. held_incidents s (im_key i) = Some i \<and> (ns = None \<or> ns = Some (im_namespace i)) \<and>
         list_all (\<lambda>(l, v). map_of (im_labels i) l = Some v) sel) (map snd (so_incidents s))"

definition store_create_incident :: "script \<Rightarrow> IncidentMemory \<Rightarrow> store \<Rightarrow> store \<times> goerr option" where
  "store_create_incident script i s =
     (if held_incidents s (im_key i) \<noteq> None
      then (s, Some (ApiErr AlreadyExists (''incidentmemories '' @ quoteQ (im_name i) @ '' already exists'')))
      else write_obj script True (Err []) (\<lambda>v. v\<lparr>so_incidents :=
          AList.update (im_key i) (i\<lparr>im_status := noStatus\<rparr>) (so_incidents v)\<rparr>) s)"

definition health_client :: "script \<Rightarrow> cluster IncidentWriter" where
  "health_client script = \<lparr>
     hc_get = (\<lambda>w. lookup_obj ''incidentmemories'' (so_incidents (cl_store w)) im_key),
     hc_list = (\<lambda>w ns sel. Inr (store_list_incidents (cl_store w) ns sel)),
     hc_create = (\<lambda>w i. onStore (store_create_incident script i) w),
     hc_update = (\<lambda>w i. onStore (\<lambda>s. store_update_incident script s i) w),
     hc_statusUpdate = (\<lambda>w i. onStore (\<lambda>s. store_status_update_incident script s i) w),
     hc_onError = onErrorLoop\<rparr>"

definition cluster_store_event ::
  "formatter \<Rightarrow> cluster \<Rightarrow> time \<Rightarrow> InternalEvent \<Rightarrow> cluster \<times> goerr option" where
  "cluster_store_event fmt w now ev =
     (case StoreEvent event_client fmt now (cl_eventStore w, cl_events w) (Some ev) of
        ((st, evs), e) \<Rightarrow> (w\<lparr>cl_eventStore := st, cl_events := evs\<rparr>, e))"

definition cluster_emit_event :: "cluster \<Rightarrow> InternalEvent \<Rightarrow> cluster \<times> goerr option" where
  "cluster_emit_event w ev =
     (case Emit (Some ev) of
        Inl e \<Rightarrow> (w, Some e)
      | Inr None \<Rightarrow> (w, None)
      | Inr (Some em) \<Rightarrow> (w\<lparr>cl_emitted := cl_emitted w @ [em]\<rparr>, None))"

definition cluster_reconciler ::
  "script \<Rightarrow> formatter \<Rightarrow> cluster ClusterReader \<Rightarrow> cluster Engine \<Rightarrow> DiagnosisProvider list \<Rightarrow>
   (cluster \<Rightarrow> time \<Rightarrow> Diagnosis \<Rightarrow> IncidentMemory \<Rightarrow> goerr + ProposalResult) option \<Rightarrow> cluster HealthCheckReconciler" where
  "cluster_reconciler script fmt reader engine providers proposer = \<lparr>
     hr_client = health_client script, hr_reader = reader, hr_detection = engine, hr_diagnosis = providers,
     hr_eventStore = Some (cluster_store_event fmt), hr_eventEmitter = Some cluster_emit_event,
     hr_proposer = map_option (\<lambda>pr w now d i. (w, pr w now d i)) proposer,
     hr_webSocket = Some (\<lambda>w ev. w\<lparr>cl_sent := cl_sent w @ [ev]\<rparr>)\<rparr>"

abbreviation cluster_incidents :: "cluster \<Rightarrow> objkey \<rightharpoonup> IncidentMemory" where
  "cluster_incidents w \<equiv> held_incidents (cl_store w)"

subsection \<open>The contracts\<close>

lemma held_incident_update:
  "im_key i = k \<Longrightarrow>
   held_incidents (s\<lparr>so_incidents := AList.update k i (so_incidents s)\<rparr>) = (held_incidents s)(k \<mapsto> i)"
  by (auto simp: fun_eq_iff held_incidents_def lookup_obj_def update_conv')

lemma write_incident:
  assumes "write_obj script True m (\<lambda>v. v\<lparr>so_incidents := AList.update k i (so_incidents v)\<rparr>) s = (s', e)"
    and "im_key i = k"
  shows "(held_incidents s' = held_incidents s \<and> e \<noteq> None) \<or> held_incidents s' = (held_incidents s)(k \<mapsto> i)"
  using assms(1)
proof (cases rule: write_obj_cases)
  case (2 fs)
  then show ?thesis using held_incident_update [OF assms(2), of "s\<lparr>so_writes := fs\<rparr>"] by simp
qed simp

lemma store_create_incident_effect:
  assumes "store_create_incident script i s = (s', e)"
  shows "(held_incidents s' = held_incidents s \<and> e \<noteq> None) \<or>
    (held_incidents s (im_key i) = None \<and>
     held_incidents s' = (held_incidents s)(im_key i \<mapsto> i\<lparr>im_status := noStatus\<rparr>))"
proof (cases "held_incidents s (im_key i)")
  case None
  have k: "im_key (i\<lparr>im_status := noStatus\<rparr>) = im_key i" by (simp add: im_key_def)
  from None assms have "write_obj script True (Err []) (\<lambda>v. v\<lparr>so_incidents :=
      AList.update (im_key i) (i\<lparr>im_status := noStatus\<rparr>) (so_incidents v)\<rparr>) s = (s', e)"
    by (simp add: store_create_incident_def)
  from write_incident [OF this k] None show ?thesis by blast
qed (use assms in \<open>simp add: store_create_incident_def; blast\<close>)

lemma store_update_incident_effect:
  assumes "store_update_incident script s i = (s', e)"
  shows "(held_incidents s' = held_incidents s \<and> e \<noteq> None) \<or>
    (\<exists>j. held_incidents s (im_key i) = Some j \<and>
         held_incidents s' = (held_incidents s)(im_key i \<mapsto> i\<lparr>im_status := im_status j\<rparr>))"
proof (cases "held_incidents s (im_key i)")
  case None
  with assms have "write_obj script False (notFound ''incidentmemories'' (im_key i)) id s = (s', e)"
    by (simp add: store_update_incident_def)
  then show ?thesis by (cases rule: write_obj_cases) auto
next
  case (Some j)
  have k: "im_key (i\<lparr>im_status := im_status j\<rparr>) = im_key i" by (simp add: im_key_def)
  from Some assms have "write_obj script True (Err []) (\<lambda>v. v\<lparr>so_incidents :=
      AList.update (im_key i) (i\<lparr>im_status := im_status j\<rparr>) (so_incidents v)\<rparr>) s = (s', e)"
    by (simp add: store_update_incident_def)
  from write_incident [OF this k] Some show ?thesis by blast
qed

lemma store_status_update_incident_effect:
  assumes "store_status_update_incident script s i = (s', e)"
  shows "(held_incidents s' = held_incidents s \<and> e \<noteq> None) \<or>
    (\<exists>j. held_incidents s (im_key i) = Some j \<and>
         held_incidents s' = (held_incidents s)(im_key i \<mapsto> j\<lparr>im_status := im_status i\<rparr>))"
proof (cases "held_incidents s (im_key i)")
  case None
  with assms have "write_obj script False (notFound ''incidentmemories'' (im_key i)) id s = (s', e)"
    by (simp add: store_status_update_incident_def)
  then show ?thesis by (cases rule: write_obj_cases) auto
next
  case (Some j)
  then have k: "im_key (j\<lparr>im_status := im_status i\<rparr>) = im_key i" by (simp add: im_key_def held_iff)
  from Some assms have "write_obj script True (Err []) (\<lambda>v. v\<lparr>so_incidents :=
      AList.update (im_key i) (j\<lparr>im_status := im_status i\<rparr>) (so_incidents v)\<rparr>) s = (s', e)"
    by (simp add: store_status_update_incident_def)
  from write_incident [OF this k] Some show ?thesis by blast
qed

lemma onStore_effect:
  assumes "onStore f w = (w', e)"
  shows "f (cl_store w) = (cl_store w', e)"
  using assms by (auto simp: onStore_def split: prod.splits)

lemma store_list_iff:
  "set (store_list_incidents s ns sel) =
     {i. held_incidents s (im_key i) = Some i \<and> (\<forall>n. ns = Some n \<longrightarrow> im_namespace i = n) \<and>
         (\<forall>(l, v) \<in> set sel. map_of (im_labels i) l = Some v)}"
proof -
  have "i \<in> snd ` set (so_incidents s)" if "held_incidents s (im_key i) = Some i" for i
    using that map_of_SomeD by (force simp: held_iff)
  moreover have "(\<forall>n. ns = Some n \<longrightarrow> im_namespace i = n) \<longleftrightarrow> ns = None \<or> ns = Some (im_namespace i)" for i
    by (cases ns) auto
  ultimately show ?thesis unfolding store_list_incidents_def by (simp add: list_all_iff) blast
qed

interpretation hc: incident_writer "health_client script" cluster_incidents for script
proof
  fix w w' :: cluster and i :: IncidentMemory and e :: "goerr option" and x k ns sel items
  show "im_key i = k" if "cluster_incidents w k = Some i" using that by (simp add: held_iff)
  show "cluster_incidents w k = Some i" if "hc_get (health_client script) w k = Inr i"
    using that by (simp add: health_client_def held_iff lookup_obj_Inr)
  show "set items = {i. cluster_incidents w (im_key i) = Some i \<and> (\<forall>n. ns = Some n \<longrightarrow> im_namespace i = n) \<and>
      (\<forall>(l, v) \<in> set sel. map_of (im_labels i) l = Some v)}"
    if "hc_list (health_client script) w ns sel = Inr items"
    using that by (auto simp: health_client_def store_list_iff)
  show "cluster_incidents w (im_key i) = None \<and>
      cluster_incidents w' = (cluster_incidents w)(im_key i \<mapsto> i\<lparr>im_status := noStatus\<rparr>)"
    if "hc_create (health_client script) w i = (w', None)"
    using that by (auto simp: health_client_def dest!: onStore_effect store_create_incident_effect)
  show "cluster_incidents w' = cluster_incidents w \<or> (cluster_incidents w (im_key i) = None \<and>
      cluster_incidents w' = (cluster_incidents w)(im_key i \<mapsto> i\<lparr>im_status := noStatus\<rparr>))"
    if "hc_create (health_client script) w i = (w', Some x)"
    using that by (auto simp: health_client_def dest!: onStore_effect store_create_incident_effect)
  show "(cluster_incidents w' = cluster_incidents w \<and> e \<noteq> None) \<or>
      (\<exists>j. cluster_incidents w (im_key i) = Some j \<and>
           cluster_incidents w' = (cluster_incidents w)(im_key i \<mapsto> i\<lparr>im_status := im_status j\<rparr>))"
    if "hc_update (health_client script) w i = (w', e)"
    using that by (auto simp: health_client_def dest!: onStore_effect store_update_incident_effect)
  show "(cluster_incidents w' = cluster_incidents w \<and> e \<noteq> None) \<or>
      (\<exists>j. cluster_incidents w (im_key i) = Some j \<and>
           cluster_incidents w' = (cluster_incidents w)(im_key i \<mapsto> j\<lparr>im_status := im_status i\<rparr>))"
    if "hc_statusUpdate (health_client script) w i = (w', e)"
    using that by (auto simp: health_client_def dest!: onStore_effect store_status_update_incident_effect)
next
  show "retried p f s s' e" if "hc_onError (health_client script) incidentWriteSteps p f s = (s', e)"
    for p f and s s' :: "nat \<times> cluster \<times> IncidentMemory" and e
    using that by (auto simp: health_client_def intro: onErrorLoop_retried)
qed

interpretation hr: health_server "cluster_reconciler script fmt reader engine providers proposer" cluster_incidents
  for script fmt reader engine providers proposer
proof -
  have c: "incident_writer (hr_client (cluster_reconciler script fmt reader engine providers proposer)) cluster_incidents"
    by (simp add: cluster_reconciler_def hc.incident_writer_axioms)
  show "health_server (cluster_reconciler script fmt reader engine providers proposer) cluster_incidents"
  proof (intro health_server.intro c health_server_axioms.intro)
    fix w :: cluster and now ev
    show "cluster_incidents (fst (st w now ev)) = cluster_incidents w"
      if "hr_eventStore (cluster_reconciler script fmt reader engine providers proposer) = Some st" for st
      using that by (auto simp: cluster_reconciler_def cluster_store_event_def split: prod.splits)
    show "cluster_incidents (fst (em w ev)) = cluster_incidents w"
      if "hr_eventEmitter (cluster_reconciler script fmt reader engine providers proposer) = Some em" for em
      using that by (auto simp: cluster_reconciler_def cluster_emit_event_def split: sum.splits option.splits)
  qed (auto simp: cluster_reconciler_def)
qed

end
