(* ===== verification/ProposalStore.thy ===== *)
theory ProposalStore
  imports ProposalProps Cluster
begin

text \<open>
  The proposal builder and its API server. The locale states what the builder's writes do to the
  actions held by the server, lost replies included; inside it a call of \<open>Propose\<close> is shown to add
  actions and to change nothing else. It is interpreted on the cluster of \<open>Cluster\<close>, and with it
  the health check reconciler that carries the real builder.
\<close>

declare split_paired_All [simp del] and split_paired_Ex [simp del]

lemma rules_wrote:
  assumes "proposeByRules p now w d ref im wref = (w', res)" "w' \<noteq> w"
  shows "\<exists>change patch. persistProposal p w (scrubFabricatedGuardrailClaims
    (fst (discloseGroundedBlastRadiusClamp (qo_parse (pr_quantity p))
       (ruleAction now d im ref wref change patch) (Some wref)))) = (w', res)"
  using assms
  by (auto simp: proposeByRules_def proposeResourceAdjustment_def Let_def case_prod_beta
      split: if_splits sum.splits option.splits)

lemma plan_wrote:
  assumes "proposeWithPlanner p planner now w d ref im wref obs = (w', res)" "w' \<noteq> w"
  shows "\<exists>persona plan a. assemblePlan p now w d ref im persona wref plan = Inr (Inr a) \<and>
    persistProposal p w a = (w', res)"
  using assms
  by (auto simp: proposeWithPlanner_def split: if_splits sum.splits option.splits)

subsection \<open>The contract\<close>

definition submitted :: "RemediationAction \<Rightarrow> RemediationAction \<Rightarrow> bool" where
  "submitted a b \<longleftrightarrow> b = a\<lparr>ra_creationTimestamp := ra_creationTimestamp b, ra_status := ra_status b\<rparr>"

locale proposal_writer =
  fixes c :: "'w ProposerClient" and acts :: "'w \<Rightarrow> objkey \<rightharpoonup> RemediationAction" and rest :: "'w \<Rightarrow> 'r"
  assumes create_rest: "pc_create c w a = (w', e) \<Longrightarrow> rest w' = rest w"
    and status_rest: "pc_statusUpdate c w a = (w', e) \<Longrightarrow> rest w' = rest w"
    and create: "pc_create c w a = (w', e) \<Longrightarrow> (acts w' = acts w \<and> e \<noteq> None) \<or>
      (acts w (ra_key a) = None \<and>
       (\<exists>b. submitted a b \<and> ra_status b = noActionStatus \<and> acts w' = (acts w)(ra_key a \<mapsto> b)))"
    and status: "pc_statusUpdate c w a = (w', e) \<Longrightarrow> acts w' = acts w \<or>
      (\<exists>b. acts w (ra_key a) = Some b \<and> acts w' = (acts w)(ra_key a \<mapsto> b\<lparr>ra_status := ra_status a\<rparr>))"
begin

text \<open>Actions are added, all of them well-framed, new or Pending; nothing else changes.\<close>

definition adds :: "IncidentMemory \<Rightarrow> PersonaReference \<Rightarrow> 'w \<Rightarrow> 'w \<Rightarrow> bool" where
  "adds im ref w w' \<longleftrightarrow> rest w' = rest w \<and> acts w \<subseteq>\<^sub>m acts w' \<and>
     (\<forall>k b. acts w' k = Some b \<and> acts w k = None \<longrightarrow>
        ra_phase b \<in> {OtherPhase [], Pending} \<and>
        (\<exists>wref. wellFramed im ref wref (b\<lparr>ra_status := noActionStatus\<rparr>)))"

lemma adds_same: "rest v = rest w \<Longrightarrow> acts v = acts w \<Longrightarrow> adds im ref w v"
  by (auto simp: adds_def)

lemma adds_one:
  assumes "rest v = rest w" "acts w key = None" "acts v = (acts w)(key \<mapsto> b)"
    "ra_phase b = OtherPhase [] \<or> ra_phase b = Pending" "wellFramed im ref wref (b\<lparr>ra_status := noActionStatus\<rparr>)"
  shows "adds im ref w v"
  unfolding adds_def
proof (intro conjI allI impI)
  show "acts w \<subseteq>\<^sub>m acts v" using assms(2,3) by (auto simp: map_le_def)
  fix k x assume "acts v k = Some x \<and> acts w k = None"
  then have "x = b" using assms(2,3) by (auto split: if_splits)
  then show "ra_phase x \<in> {OtherPhase [], Pending}"
    and "\<exists>wref. wellFramed im ref wref (x\<lparr>ra_status := noActionStatus\<rparr>)" using assms(4,5) by auto
qed (rule assms(1))

lemma adds_refl [simp]: "adds im ref w w"
  by (rule adds_same) (rule HOL.refl)+

lemma adds_trans: "adds im ref u v \<Longrightarrow> adds im ref v w \<Longrightarrow> adds im ref u w"
proof -
  assume uv: "adds im ref u v" and vw: "adds im ref v w"
  have "ra_phase b \<in> {OtherPhase [], Pending} \<and> (\<exists>wref. wellFramed im ref wref (b\<lparr>ra_status := noActionStatus\<rparr>))"
    if "acts w k = Some b" "acts u k = None" for k b
  proof (cases "acts v k")
    case None
    then show ?thesis using vw that by (auto simp: adds_def)
  next
    case (Some x)
    then have "acts w k = Some x" using vw by (auto simp: adds_def map_le_def dom_def)
    then show ?thesis using uv that Some by (auto simp: adds_def)
  qed
  moreover have "acts u \<subseteq>\<^sub>m acts w" using uv vw map_le_trans by (auto simp: adds_def)
  ultimately show ?thesis using uv vw by (auto simp: adds_def)
qed

lemma wellFramed_submitted:
  assumes "wellFramed im ref wref a" "submitted a b"
  shows "wellFramed im ref wref (b\<lparr>ra_status := noActionStatus\<rparr>)"
proof -
  obtain t s where "b = a\<lparr>ra_creationTimestamp := t, ra_status := s\<rparr>"
    using assms(2) unfolding submitted_def by blast
  then show ?thesis using assms(1) by (simp add: wellFramed_def)
qed

lemma persist_adds:
  assumes "persistProposal p w a = (w', res)" "pr_client p = c" "wellFramed im ref wref a"
  shows "adds im ref w w'"
proof -
  obtain w1 e where w1: "pc_create c w a = (w1, e)" by (cases "pc_create c w a")
  have one: "adds im ref w w1"
  proof -
    consider "acts w1 = acts w"
      | b where "acts w (ra_key a) = None" "submitted a b" "ra_status b = noActionStatus" "acts w1 = (acts w)(ra_key a \<mapsto> b)"
      using create [OF w1] by blast
    then show ?thesis
    proof cases
      case (2 b)
      have "ra_phase b = OtherPhase []" using 2(3) by (simp add: noActionStatus_def)
      then show ?thesis
        using adds_one [OF create_rest [OF w1] 2(1,4) _ wellFramed_submitted [OF assms(3) 2(2)]] by blast
    qed (rule adds_same [OF create_rest [OF w1]])
  qed
  show ?thesis
  proof (cases e)
    case (Some x)
    then have "w' = w1" using assms(1,2) w1 by (simp add: persistProposal_def)
    then show ?thesis using one by simp
  next
    case None
    let ?p = "a\<lparr>ra_status := noActionStatus\<lparr>rs_phase := Pending\<rparr>\<rparr>"
    have s: "pc_statusUpdate c w1 ?p = (w', snd (pc_statusUpdate c w1 ?p))"
      using assms(1,2) w1 None by (auto simp: persistProposal_def Let_def split: prod.splits)
    have k: "ra_key ?p = ra_key a" by (simp add: ra_key_def)
    obtain b where new: "acts w (ra_key a) = None" "submitted a b" "acts w1 = (acts w)(ra_key a \<mapsto> b)"
      using create [OF w1] None by auto
    have r: "rest w' = rest w" using status_rest [OF s] create_rest [OF w1] by simp
    from status [OF s] new(3) consider "acts w' = acts w1"
      | "acts w' = (acts w)(ra_key a \<mapsto> b\<lparr>ra_status := ra_status ?p\<rparr>)" unfolding k by auto
    then show ?thesis
    proof cases
      case 1
      have "rest w' = rest w1" using status_rest [OF s] .
      from adds_trans [OF one adds_same [OF this 1]] show ?thesis .
    next
      case 2
      show ?thesis
        using adds_one [OF r new(1) 2] wellFramed_submitted [OF assms(3) new(2)] by simp
    qed
  qed
qed

lemma rules_add:
  assumes "proposeByRules p now w d ref im wref = (w', res)" "pr_client p = c"
  shows "adds im ref w w'"
proof (cases "w' = w")
  case False
  from rules_wrote [OF assms(1) False] obtain change patch where
    persist: "persistProposal p w (scrubFabricatedGuardrailClaims
      (fst (discloseGroundedBlastRadiusClamp (qo_parse (pr_quantity p))
         (ruleAction now d im ref wref change patch) (Some wref)))) = (w', res)" (is "persistProposal p w ?a = _") by blast
  have "frame ?a = frame (ruleAction now d im ref wref change patch)" by (simp add: shaping)
  then have "wellFramed im ref wref ?a"
    using wellFramed_frame wellFramed_ruleAction by metis
  then show ?thesis using persist_adds [OF persist assms(2)] by blast
qed simp

lemma plan_adds:
  assumes "proposeWithPlanner p planner now w d ref im wref obs = (w', res)" "pr_client p = c"
  shows "adds im ref w w'"
proof (cases "w' = w")
  case False
  from plan_wrote [OF assms(1) False] obtain persona plan a where
    a: "assemblePlan p now w d ref im persona wref plan = Inr (Inr a)" and
    persist: "persistProposal p w a = (w', res)" by blast
  show ?thesis using persist_adds [OF persist assms(2) assemblePlan_framed [OF a]] .
qed simp

lemma propose_adds:
  assumes "Propose p w now d im = (w', res)" "pr_client p = c" "dg_personaRef d = Some ref"
  shows "adds im ref w w'"
proof (cases "gatesOpen p w d im ref")
  case False
  then have "\<forall>r. dg_personaRef d = Some r \<longrightarrow> \<not> gatesOpen p w d im r" using assms(3) by simp
  from Propose_gate_closed [OF this] have "fst (Propose (p\<lparr>pr_planner := pr_planner p\<rparr>) w now d im) = w"
    by (metis fst_conv)
  then show ?thesis using assms(1) by simp
next
  case True
  define wref where "wref = snd (observeWorkload (pr_client p) now w (Some ref))"
  note P = Propose_behind_gates [OF assms(3) True, of now, folded wref_def, unfolded Let_def]
  have rules: "adds im ref v w'" if "proposeByRules p now v d ref im wref = (w', res)" for v
    using rules_add [OF that assms(2)] .
  show ?thesis
  proof (cases "pr_planner p")
    case None
    then show ?thesis using P assms(1) rules by (simp add: wref_def)
  next
    case (Some planner)
    obtain w1 r1 where w1: "proposeWithPlanner p planner now w d ref im wref (seenWorkload p now w ref) = (w1, r1)"
      by (cases "proposeWithPlanner p planner now w d ref im wref (seenWorkload p now w ref)")
    show ?thesis
      using P assms(1) Some w1 rules plan_adds [OF w1 assms(2)] adds_trans
      by (auto simp: wref_def split: if_splits sum.splits)
  qed
qed

end

subsection \<open>The cluster\<close>

definition store_list_actions :: "store \<Rightarrow> string option \<Rightarrow> (string \<times> string) list \<Rightarrow> RemediationAction list" where
  "store_list_actions s ns sel =
     filter (\<lambda>a. held_actions s (ra_key a) = Some a \<and> (ns = None \<or> ns = Some (ra_namespace a)) \<and>
         list_all (\<lambda>(l, v). map_of (ra_labels a) l = Some v) sel) (map snd (so_actions s))"

text \<open>A created action gets its timestamp and loses its status.\<close>

definition store_create_action :: "script \<Rightarrow> time \<Rightarrow> RemediationAction \<Rightarrow> store \<Rightarrow> store \<times> goerr option" where
  "store_create_action script now a s =
     (if held_actions s (ra_key a) \<noteq> None
      then (s, Some (ApiErr AlreadyExists (''remediationactions '' @ quoteQ (ra_name a) @ '' already exists'')))
      else write_obj script True (Err []) (\<lambda>v. v\<lparr>so_actions :=
          AList.update (ra_key a) (a\<lparr>ra_creationTimestamp := now, ra_status := noActionStatus\<rparr>) (so_actions v)\<rparr>) s)"

definition proposal_client ::
  "script \<Rightarrow> time \<Rightarrow> (cluster \<Rightarrow> goerr + ClusterPersona list) \<Rightarrow> cluster ProposerClient" where
  "proposal_client script now policies = \<lparr>
     pc_listClusterPersonas = policies,
     pc_listActions = (\<lambda>w ns sel. Inr (store_list_actions (cl_store w) ns sel)),
     pc_listDeployments = (\<lambda>w ns. Inr (filter (\<lambda>d. d_namespace d = ns) (map snd (so_deployments (cl_store w))))),
     pc_getPersona = (\<lambda>w. lookup_obj ''applicationpersonas'' (so_personas (cl_store w)) p_key),
     pc_getAction = (\<lambda>w. lookup_obj ''remediationactions'' (so_actions (cl_store w)) ra_key),
     pc_listIncidents = (\<lambda>w ns sel. Inr (map (\<lambda>i. (0, i)) (store_list_incidents (cl_store w) ns sel))),
     pc_create = (\<lambda>w a. onStore (store_create_action script now a) w),
     pc_statusUpdate = (\<lambda>w a. onStore (\<lambda>s. store_status_update script s a) w)\<rparr>"

abbreviation cluster_actions :: "cluster \<Rightarrow> objkey \<rightharpoonup> RemediationAction" where
  "cluster_actions w \<equiv> held_actions (cl_store w)"

definition cluster_rest :: "cluster \<Rightarrow> cluster" where
  "cluster_rest w = w\<lparr>cl_store := (cl_store w)\<lparr>so_actions := [], so_writes := 0\<rparr>\<rparr>"

definition store_rest :: "store \<Rightarrow> store" where
  "store_rest s = s\<lparr>so_actions := [], so_writes := 0\<rparr>"

lemma write_action_rest:
  assumes "write_obj script ex m (\<lambda>v. v\<lparr>so_actions := f v\<rparr>) s = (s', e)"
  shows "store_rest s' = store_rest s"
  using assms by (cases rule: write_obj_cases) (simp_all add: store_rest_def)

lemma create_action_rest: "store_create_action script now a s = (s', e) \<Longrightarrow> store_rest s' = store_rest s"
  by (auto simp: store_create_action_def dest: write_action_rest split: if_splits)

lemma status_action_rest: "store_status_update script s a = (s', e) \<Longrightarrow> store_rest s' = store_rest s"
proof (cases "held_actions s (ra_key a)")
  case None
  assume "store_status_update script s a = (s', e)"
  with None have "write_obj script False (notFound ''remediationactions'' (ra_key a)) id s = (s', e)"
    by (simp add: store_status_update_def)
  then show ?thesis by (cases rule: write_obj_cases) (simp_all add: store_rest_def)
qed (auto simp: store_status_update_def dest: write_action_rest)

lemma on_store_rest:
  "onStore f w = (w', e) \<Longrightarrow> (\<And>s s' e. f s = (s', e) \<Longrightarrow> store_rest s' = store_rest s) \<Longrightarrow> cluster_rest w' = cluster_rest w"
  by (cases "f (cl_store w)") (force simp: onStore_def cluster_rest_def store_rest_def)

lemma store_create_action_effect:
  assumes "store_create_action script now a s = (s', e)"
  shows "(held_actions s' = held_actions s \<and> e \<noteq> None) \<or> (held_actions s (ra_key a) = None \<and>
    (\<exists>b. submitted a b \<and> ra_status b = noActionStatus \<and> held_actions s' = (held_actions s)(ra_key a \<mapsto> b)))"
proof (cases "held_actions s (ra_key a)")
  case None
  let ?b = "a\<lparr>ra_creationTimestamp := now, ra_status := noActionStatus\<rparr>"
  have k: "ra_key ?b = ra_key a" by (simp add: ra_key_def)
  have new: "submitted a ?b \<and> ra_status ?b = noActionStatus" by (simp add: submitted_def)
  from None assms have "write_obj script True (Err []) (\<lambda>v. v\<lparr>so_actions :=
      AList.update (ra_key a) ?b (so_actions v)\<rparr>) s = (s', e)" by (simp add: store_create_action_def)
  then show ?thesis
  proof (cases rule: write_obj_cases)
    case (2 fs)
    have "held_actions s' = (held_actions s)(ra_key a \<mapsto> ?b)"
      using 2 held_update(1) [OF k, of "s\<lparr>so_writes := fs\<rparr>"] by simp
    then show ?thesis using None new by blast
  qed simp
qed (use assms in \<open>simp add: store_create_action_def; blast\<close>)

interpretation pw: proposal_writer "proposal_client script created policies" cluster_actions cluster_rest
  for script created policies
proof
  fix w w' :: cluster and a e
  show "cluster_rest w' = cluster_rest w"
    if "pc_create (proposal_client script created policies) w a = (w', e)"
    using that create_action_rest by (auto simp: proposal_client_def dest!: on_store_rest)
  show "cluster_rest w' = cluster_rest w"
    if "pc_statusUpdate (proposal_client script created policies) w a = (w', e)"
    using that status_action_rest by (auto simp: proposal_client_def dest!: on_store_rest)
  show "(cluster_actions w' = cluster_actions w \<and> e \<noteq> None) \<or> (cluster_actions w (ra_key a) = None \<and>
      (\<exists>b. submitted a b \<and> ra_status b = noActionStatus \<and> cluster_actions w' = (cluster_actions w)(ra_key a \<mapsto> b)))"
    if "pc_create (proposal_client script created policies) w a = (w', e)"
    using that by (auto simp: proposal_client_def dest!: onStore_effect store_create_action_effect)
  show "cluster_actions w' = cluster_actions w \<or>
      (\<exists>b. cluster_actions w (ra_key a) = Some b \<and>
           cluster_actions w' = (cluster_actions w)(ra_key a \<mapsto> b\<lparr>ra_status := ra_status a\<rparr>))"
    if "pc_statusUpdate (proposal_client script created policies) w a = (w', e)"
    using that by (auto simp: proposal_client_def status_written_def dest!: onStore_effect store_status_update_effect)
qed

definition cluster_proposer ::
  "script \<Rightarrow> time \<Rightarrow> QuantityOps \<Rightarrow> string list \<Rightarrow>
   (cluster \<Rightarrow> RemediationContext \<Rightarrow> goerr + RemediationPlan option) option \<Rightarrow> cluster Proposer" where
  "cluster_proposer script created q denied planner = \<lparr>
     pr_client = proposal_client script created (\<lambda>_. Inr []),
     pr_safety = NewSafetyChecker (\<lambda>_. Inr []) (\<lambda>w sel ns. Inr (store_list_actions (cl_store w) ns sel))
                   (qo_parse q) [WithProtectedNamespaces denied],
     pr_quantity = q, pr_planner = planner\<rparr>"

text \<open>
  C15. On a cluster whose writes may be refused or lose their reply, in any order, a call of the
  builder changes nothing but the set of actions: no incident, persona, Deployment, event or message
  is touched, no existing action is changed, and every added action is new or Pending, asks for
  approval and names the incident and the persona it was called for.
\<close>

theorem proposals_only_add:
  assumes "Propose (cluster_proposer script created q denied planner) w now d im = (w', res)"
    "dg_personaRef d = Some ref"
  shows "cluster_rest w' = cluster_rest w \<and> cluster_actions w \<subseteq>\<^sub>m cluster_actions w' \<and>
    (\<forall>k a. cluster_actions w' k = Some a \<and> cluster_actions w k = None \<longrightarrow>
       ra_phase a \<in> {OtherPhase [], Pending} \<and> sp_approval (ra_spec a) = Some approvalRequired \<and>
       sp_personaRef (ra_spec a) = ref \<and> ir_name (sp_incidentRef (ra_spec a)) = im_name im)"
proof -
  have "pr_client (cluster_proposer script created q denied planner) = proposal_client script created (\<lambda>_. Inr [])"
    by (simp add: cluster_proposer_def)
  from pw.propose_adds [OF assms(1) this assms(2)] show ?thesis
    unfolding pw.adds_def wellFramed_def by auto
qed

subsection \<open>The health check with the real builder\<close>

definition proposing_reconciler ::
  "script \<Rightarrow> formatter \<Rightarrow> cluster ClusterReader \<Rightarrow> cluster Engine \<Rightarrow> DiagnosisProvider list \<Rightarrow> cluster Proposer \<Rightarrow>
   cluster HealthCheckReconciler" where
  "proposing_reconciler script fmt reader engine providers p =
     (cluster_reconciler script fmt reader engine providers None)\<lparr>hr_proposer := Some (Propose p)\<rparr>"

lemma proposal_keeps_incidents:
  "cluster_incidents (fst (Propose (cluster_proposer script created q denied planner) w now d im)) = cluster_incidents w"
proof (cases "dg_personaRef d")
  case (Some ref)
  obtain w' res where "Propose (cluster_proposer script created q denied planner) w now d im = (w', res)" by fastforce
  moreover from pw.propose_adds [OF this _ Some] have "cluster_rest w' = cluster_rest w"
    by (simp add: cluster_proposer_def pw.adds_def)
  then have "so_incidents (cl_store w') = so_incidents (cl_store w)"
    by (metis cluster_rest_def cluster.select_convs(1) cluster.surjective cluster.update_convs(1)
        store.select_convs(3) store.surjective store.update_convs(1) store.update_convs(5))
  ultimately show ?thesis by (simp add: fun_eq_iff held_incidents_def)
qed (simp add: Propose_def)

interpretation hp: health_server
  "proposing_reconciler script fmt reader engine providers (cluster_proposer script' created q denied planner)" cluster_incidents
  for script fmt reader engine providers script' created q denied planner
proof -
  let ?r = "proposing_reconciler script fmt reader engine providers (cluster_proposer script' created q denied planner)"
  let ?c = "cluster_reconciler script fmt reader engine providers None"
  have same: "hr_client ?r = hr_client ?c" "hr_eventStore ?r = hr_eventStore ?c" "hr_eventEmitter ?r = hr_eventEmitter ?c"
    "hr_webSocket ?r = hr_webSocket ?c" by (simp_all add: proposing_reconciler_def)
  show "health_server ?r cluster_incidents"
  proof (intro health_server.intro health_server_axioms.intro)
    show "incident_writer (hr_client ?r) cluster_incidents"
      unfolding same by (rule hr.incident_writer_axioms)
    show "cluster_incidents (fst (pr w now d i)) = cluster_incidents w" if "hr_proposer ?r = Some pr" for pr w now d i
      using that by (auto simp: proposing_reconciler_def proposal_keeps_incidents)
  qed (unfold same, erule hr.store_frame, erule hr.emit_frame, erule hr.socket_frame)
qed

end
