(* ===== verification/Instances.thy ===== *)
theory Instances
  imports System
begin

text \<open>
  Concrete objects, and the properties of the other theories applied to them: an application
  with a memory limit, a plan that raises the limit, its incident and its Deployment, held in
  the store of \<^verbatim>\<open>Store\<close>. Every hypothesis of a property is discharged on them.
\<close>

definition ex_patch :: raw where
  "ex_patch = RawJson (JObj [(''spec'', JObj [(''resources'', JObj [(''limits'',
     JObj [(''memory'', JStr ''512Mi''), (''cpu'', JStr ''1'')])]), (''tier'', JStr ''gold'')])])"

definition ex_persona :: ApplicationPersona where
  "ex_persona = \<lparr>p_name = ''web'', p_namespace = ''shop'', p_annotations = [], p_deletionTimestamp = None,
     p_spec = [(''name'', JStr ''web''), (''resources'', JObj [(''limits'', JObj [(''memory'', JStr ''256Mi'')])])],
     p_status = \<lparr>ast_phase = ''Degraded'', ast_lastUpdated = Some 0, ast_deployments = None,
        ast_health = None, ast_validation = None, ast_learned = None, ast_recommendations = [],
        ast_argoCD = None, ast_activeIncidents = 1, ast_lastIncidentTime = None, ast_conditions = []\<rparr>\<rparr>"

definition ex_workload :: WorkloadRef where
  "ex_workload = \<lparr>wr_kind = ''Deployment'', wr_name = ''web'', wr_namespace = ''shop'',
     wr_container = ''app'', wr_managedBy = ''helm'', wr_managedByDetail = ''release web'',
     wr_observedResources = Some \<lparr>or_requests = None,
        or_limits = Some \<lparr>rv_cpu = [], rv_memory = ''256Mi''\<rparr>\<rparr>,
     wr_observedImage = ''web:1'', wr_observedAt = Some 0\<rparr>"

definition ex_spec :: RemediationActionSpec where
  "ex_spec = \<lparr>sp_incidentRef = \<lparr>ir_name = ''web-oom'', ir_namespace = ''shop''\<rparr>,
     sp_personaRef = \<lparr>pr_kind = ''ApplicationPersona'', pr_name = ''web'', pr_namespace = ''shop''\<rparr>,
     sp_trustLevel = 1,
     sp_action = \<lparr>ad_type = ''persona-update'', ad_patch = Some ex_patch,
                  ad_prePatchState = snapshotPrePatch (Some ex_persona) ex_patch\<rparr>,
     sp_steps = [], sp_planSource = ''rules'', sp_planSummary = [], sp_explanation = ''raise memory'',
     sp_confidence = ''0.90'', sp_workloadRef = Some ex_workload, sp_approval = None,
     sp_rollback = Some \<lparr>rb_enabled = True, rb_healthCheckAfter = Some (60 * second), rb_maxRetries = 1\<rparr>\<rparr>"

definition ex_action :: "phase \<Rightarrow> time option \<Rightarrow> RemediationAction" where
  "ex_action ph applied = \<lparr>ra_name = ''web-oom-persona-update'', ra_namespace = ''shop'',
     ra_creationTimestamp = 0, ra_labels = [], ra_spec = ex_spec,
     ra_status = \<lparr>rs_phase = ph, rs_approvedBy = ''alice'', rs_approvedAt = Some 0,
        rs_appliedAt = applied, rs_verificationResult = [], rs_conditions = [], rs_currentStep = 0,
        rs_stepStatuses = []\<rparr>\<rparr>"

definition ex_incident :: IncidentMemory where
  "ex_incident = \<lparr>im_name = ''web-oom'', im_namespace = ''shop'', im_labels = [],
     im_spec = \<lparr>is_personaRef = \<lparr>pr_kind = ''ApplicationPersona'', pr_name = ''web'', pr_namespace = ''shop''\<rparr>,
        is_attribution = [], is_category = ''resource'', is_severity = ''critical'',
        is_detection = \<lparr>di_signal = ''OOMKilled'', di_source = ''pod'', di_firstSeen = 5, di_lastSeen = 9,
           di_affectedResources = []\<rparr>,
        is_rootCause = None, is_relatedResources = [], is_resolution = None\<rparr>,
     im_status = \<lparr>ims_phase = ''Active'', ims_occurrenceCount = 1, ims_lastOccurrence = None,
        ims_conditions = []\<rparr>\<rparr>"

definition ex_quantity :: "string \<Rightarrow> Quantity" where
  "ex_quantity s = \<lparr>q_string = s, q_isZero = False, q_approx = 1, q_value = 1, q_milliValue = 1000\<rparr>"

definition ex_deployment :: Deployment where
  "ex_deployment = \<lparr>d_name = ''web'', d_namespace = ''shop'', d_labels = [], d_annotations = [],
     d_managedFields = [], d_selector = Some [(''app'', ''web'')], d_replicas = Some 1,
     d_containers = [\<lparr>ct_name = ''app'', ct_image = ''web:1'',
        ct_limits = [(''memory'', ex_quantity ''512Mi'')], ct_requests = [],
        ct_livenessProbe = None, ct_readinessProbe = None, ct_securityContext = None\<rparr>],
     d_podSecurity = None,
     d_status = \<lparr>dst_replicas = 1, dst_readyReplicas = 1, dst_conditions = [(''Available'', ''True'')]\<rparr>\<rparr>"

abbreviation ex_key :: objkey where "ex_key \<equiv> (''shop'', ''web-oom-persona-update'')"

definition ex_store :: "RemediationAction \<Rightarrow> store" where
  "ex_store a = \<lparr>so_actions = [(ex_key, a)], so_personas = [((''shop'', ''web''), ex_persona)],
     so_incidents = [((''shop'', ''web-oom''), ex_incident)],
     so_deployments = [((''shop'', ''web''), ex_deployment)], so_writes = 0\<rparr>"

abbreviation no_faults :: script where "no_faults \<equiv> (\<lambda>_. NoFault)"

definition ex_signal :: Signal where
  "ex_signal = \<lparr>sg_type = ''OOMKilled'', sg_severity = ''critical'', sg_category = ''pod'', sg_source = ''pod'',
     sg_message = [], sg_resource = \<lparr>rr_kind = ''Pod'', rr_name = ''web-1'', rr_namespace = ''shop'', rr_role = []\<rparr>,
     sg_personaRef = None, sg_value = None, sg_threshold = None, sg_detectedAt = 0,
     sg_metadata = [(''deployment'', ''web'')]\<rparr>"

definition ex_controller :: "script \<Rightarrow> Signal list \<Rightarrow> store RemediationController" where
  "ex_controller script signals = \<lparr>rc_api = store_api script,
     rc_engine = \<lparr>en_collectors = [\<lambda>_. Inr signals], en_correlator = None\<rparr>, rc_webSocket = True\<rparr>"

lemma ex_held: "held_actions (ex_store (ex_action ph ap)) ex_key = Some (ex_action ph ap)"
  by (simp add: held_iff ex_store_def ra_key_def ex_action_def)

subsection \<open>Plans\<close>

theorem effective_steps_safe_witness:
  "ValidateAutoExecutable (Some (ex_action Approved None)) = [] \<and>
   HasAutoApplicableChange (Some (ex_action Approved None)) \<and>
   (\<exists>s \<in> set (EffectiveSteps (Some (ex_action Approved None))).
      st_autoExecutable s \<and> hasPatch (st_patch s))"
proof -
  have v: "ValidateAutoExecutable (Some (ex_action Approved None)) = []"
    and h: "HasAutoApplicableChange (Some (ex_action Approved None))" by code_simp+
  from effective_steps_safe [OF v] v h show ?thesis by blast
qed

theorem sanitize_step_command_safe_witness:
  "SanitizeStepCommand '' kubectl get pods'' = ''kubectl get pods'' \<and>
   hasPrefix (SanitizeStepCommand '' kubectl get pods'') stepCommandPrefix"
proof -
  have "SanitizeStepCommand '' kubectl get pods'' = ''kubectl get pods''" by code_simp
  with sanitize_step_command_safe [of "'' kubectl get pods''"] show ?thesis by simp
qed

subsection \<open>Detection\<close>

theorem correlate_exactly_one_owner_witness:
  "\<exists>ps p. (\<lambda>ns. if ns = ''shop'' then Inr [ex_persona] else Inl (Err [])) ''shop'' = Inr ps \<and>
     0 < claimLength ''web-1'' p"
proof -
  let ?list = "\<lambda>ns. if ns = ''shop'' then Inr [ex_persona] else Inl (Err [])"
  have ref: "sg_personaRef (Correlate ?list [ex_signal] ! 0) =
      Some \<lparr>pr_kind = ''ApplicationPersona'', pr_name = ''web'', pr_namespace = ''shop''\<rparr>"
    by code_simp
  have scoped: "p_namespace p = ns" if "?list ns = Inr ps" "p \<in> set ps" for ns ps p
    using that by (auto simp: ex_persona_def split: if_splits)
  have "0 < length [ex_signal]" and none: "sg_personaRef ([ex_signal] ! 0) = None"
    by (simp_all add: ex_signal_def)
  from correlate_exactly_one_owner [of ?list 0 "[ex_signal]", OF _ this ref] scoped
  have "\<exists>ps p. ?list (rr_namespace (sg_resource ex_signal)) = Inr ps \<and>
      0 < claimLength (rr_name (sg_resource ex_signal)) p"
    unfolding nth_Cons_0 by meson
  then show ?thesis by (simp add: ex_signal_def)
qed

theorem group_signals_partition_witness:
  "list_all slash_free [ex_signal, ex_signal] \<and>
   mset (concat (map gr_signals (GroupSignals [ex_signal, ex_signal]))) = {#ex_signal, ex_signal#}"
proof -
  have "list_all slash_free [ex_signal, ex_signal]" by code_simp
  with group_signals_partition [of "[ex_signal, ex_signal]"] show ?thesis by simp
qed

subsection \<open>Execution and rollback\<close>

lemma write_obj_error:
  "write_obj no_faults ex missing upd s = (s', Some e) \<Longrightarrow> e = missing"
  by (auto simp: write_obj_def Let_def split: if_splits)

theorem apply_precondition_contract_witness:
  "\<exists>e. snd (Apply (store_api no_faults) (ex_store (ex_action Pending None)) (ex_action Pending None)) = Some e \<and>
     is_precondition e"
proof -
  have "\<not> is_precondition e" if "get_persona (store_api no_faults) w k = Inl e" for w k e
    using that by (auto simp: store_api_def lookup_obj_def notFound_def split: option.splits if_splits)
  moreover have "\<not> is_precondition e" if "update_persona (store_api no_faults) w p = (w', Some e)" for w p w' e
    using that by (auto simp: store_api_def store_update_persona_def notFound_def
        split: option.splits dest!: write_obj_error)
  moreover have "\<not> is_precondition e" if "decode_spec (store_api no_faults) m = Inl e" for m e
    using that by (simp add: store_api_def)
  ultimately show ?thesis
    using apply_precondition_contract [of "store_api no_faults" "ex_store (ex_action Pending None)"
        "ex_action Pending None"]
    by (simp add: ex_action_def)
qed


subsection \<open>The running system\<close>

theorem reconcile_refines_lifecycle_witness:
  "api_server (store_api no_faults) held_actions held_personas held_incidents \<and>
   lifecycle_move ex_key (held_actions (ex_store (ex_action Approved None)))
     (held_actions (rd_world (Reconcile (ex_controller no_faults []) 7 (ex_store (ex_action Approved None)) ex_key)))"
  using reconcile_refines_lifecycle [of "store_api no_faults" held_actions held_personas held_incidents
      "ex_controller no_faults []"] so.api_server_axioms by (simp add: ex_controller_def)

lemma ex_run:
  "ra_phase (the (held_actions (rd_world (Reconcile (ex_controller no_faults []) 7
      (ex_store (ex_action Approved None)) ex_key)) ex_key)) = Applying"
  "p_spec (the (held_personas (rd_world (Reconcile (ex_controller no_faults []) 7
      (ex_store (ex_action Approved None)) ex_key)) (''shop'', ''web''))) \<noteq>
   p_spec (the (held_personas (ex_store (ex_action Approved None)) (''shop'', ''web'')))"
  by code_simp+

theorem reconcile_persona_writes_witness:
  "\<exists>a. held_actions (ex_store (ex_action Approved None)) ex_key = Some a \<and>
     (ra_phase a = Approved \<or> ra_phase a = Verifying)"
proof -
  have "held_personas (rd_world (Reconcile (ex_controller no_faults []) 7 (ex_store (ex_action Approved None)) ex_key))
      \<noteq> held_personas (ex_store (ex_action Approved None))"
    using ex_run(2) by metis
  moreover have "rc_api (ex_controller no_faults []) = store_api no_faults" by (simp add: ex_controller_def)
  ultimately show ?thesis
    using reconcile_persona_writes [of "store_api no_faults" held_actions held_personas held_incidents
        "ex_controller no_faults []" 7 "ex_store (ex_action Approved None)" ex_key]
      so.api_server_axioms by blast
qed

lemma ex_system_run: "system_run (ex_controller no_faults []) held_actions (ex_store (ex_action Pending None))"
proof (rule system_run.step)
  show "system_run (ex_controller no_faults []) held_actions
      (ex_store (ex_action Pending None)\<lparr>so_actions := []\<rparr>)"
    by (rule system_run.empty) (simp add: fun_eq_iff held_actions_def lookup_obj_def)
  show "system_step (ex_controller no_faults []) held_actions
      (ex_store (ex_action Pending None)\<lparr>so_actions := []\<rparr>) (ex_store (ex_action Pending None))"
    by (rule system_step.create [where k = ex_key and a = "ex_action Pending None"])
       (auto simp: fun_eq_iff held_actions_def lookup_obj_def ex_store_def abs_state_def ex_action_def ra_key_def)
qed


text \<open>
  The store with its incident reads replaced still keeps the contract, with a constant view of
  the incidents.
\<close>

lemma server_get_incident:
  assumes "\<And>w k x. gi w k = Inr x \<Longrightarrow> inc k = Some x"
  shows "api_server ((store_api script)\<lparr>get_incident := gi\<rparr>) held_actions held_personas (\<lambda>_. inc)"
proof
  show "Q w w'" if "retry_conflict ((store_api script)\<lparr>get_incident := gi\<rparr>) f w = (w', e)" "Q w w"
    "\<And>u v v' x. Q u v \<Longrightarrow> f v = (v', x) \<Longrightarrow> Q u v'" for f w w' e and Q :: "store \<Rightarrow> store \<Rightarrow> bool"
    by (rule so.retry_runs [of script f w w' e Q]) (use that in auto)
qed (use so.status_write so.persona_write in \<open>auto simp: assms dest: so.stored_key so.personas_key so.get_stored
    so.get_personas so.status_frame so.persona_frame so.incident_frame so.incident_status_frame\<close>)

definition blind_api :: "store api" where
  "blind_api = (store_api no_faults)\<lparr>get_incident := \<lambda>_ k. Inl (notFound ''incidentmemories'' k)\<rparr>"

lemma blind_server: "api_server blind_api held_actions held_personas (\<lambda>_. Map.empty)"
  unfolding blind_api_def by (rule server_get_incident) simp

theorem unknown_verification_never_given_up_witness:
  "\<exists>b. held_actions (foldl (\<lambda>v now. rd_world (Reconcile ((ex_controller no_faults [])\<lparr>rc_api := blind_api\<rparr>) now v ex_key))
         (ex_store (ex_action Verifying (Some 1))) (replicate 100 0)) ex_key = Some b \<and>
       ra_phase b = Verifying"
proof -
  let ?a = "ex_action Verifying (Some 1)"
  let ?r = "(ex_controller no_faults [])\<lparr>rc_api := blind_api\<rparr>"
  have "rc_api ?r = blind_api" "ra_phase ?a = Verifying" "\<not> hasCondition (ra_conditions ?a) ConditionVerified"
    by (simp_all add: ex_controller_def ex_action_def hasCondition_def)
  moreover have "\<exists>e. get_incident blind_api v (incidentKey ?a) = Inl e" for v by (simp add: blind_api_def)
  ultimately show ?thesis
    using unknown_verification_never_given_up [OF blind_server, of ?r ?a "ex_store ?a" ex_key "replicate 100 0"]
      ex_held by blast
qed

definition ex_done :: store where
  "ex_done = fst (Apply (store_api no_faults) (ex_store (ex_action Approved None)) (ex_action Approved None))"

lemma ex_apply:
  "Apply (store_api no_faults) (ex_store (ex_action Approved None)) (ex_action Approved None) = (ex_done, None)"
proof -
  have "snd (Apply (store_api no_faults) (ex_store (ex_action Approved None)) (ex_action Approved None)) = None"
    by code_simp
  then show ?thesis unfolding ex_done_def by (simp add: prod_eq_iff)
qed

text \<open>An API server that serves one incident whatever happens, so that verification never fails.\<close>

definition steady_api :: "store api" where
  "steady_api = (store_api no_faults)\<lparr>get_incident := \<lambda>_ _. Inr ex_incident\<rparr>"

lemma steady_server: "api_server steady_api held_actions held_personas (\<lambda>_ _. Some ex_incident)"
  unfolding steady_api_def by (rule server_get_incident) simp

lemma steady_verify: "Verify steady_api (rc_engine (ex_controller no_faults [])) v b = (VerificationHealthy, None)"
  by (simp add: Verify_def CollectAll_def ex_controller_def getIncident_def steady_api_def Let_def
      sortSignals_def hasSignalForPersona_def hasNewCriticalSignals_def)

lemma steady_writes:
  assumes "held_actions v (ra_key b) \<noteq> None"
  shows "snd (status_update_action steady_api v b) = None"
  using assms by (auto simp: steady_api_def store_api_def store_status_update_def write_obj_def Let_def
      split: option.splits)

lemma steady_reads: "held_actions v k = Some b \<Longrightarrow> get_action steady_api v k = Inr b"
  by (simp add: steady_api_def store_api_def held_iff lookup_obj_Inr)

lemma steady_apply:
  "\<exists>v. Apply steady_api (ex_store (ex_action Approved None)) (ex_action Approved None) = (v, None)"
proof -
  have "snd (Apply steady_api (ex_store (ex_action Approved None)) (ex_action Approved None)) = None"
    by code_simp
  then show ?thesis by (metis prod.collapse)
qed

theorem approved_remediation_completes_witness:
  "\<exists>b. held_actions (foldl (\<lambda>v now. rd_world (Reconcile ((ex_controller no_faults [])\<lparr>rc_api := steady_api\<rparr>) now v ex_key))
         (ex_store (ex_action Approved None)) [0, 60 * second, 61 * second]) ex_key = Some b \<and>
       ra_phase b = Completed \<and> rs_appliedAt (ra_status b) = Some 0"
proof -
  let ?a = "ex_action Approved None"
  let ?r = "(ex_controller no_faults [])\<lparr>rc_api := steady_api\<rparr>"
  obtain v where ap: "Apply steady_api (ex_store ?a) ?a = (v, None)" using steady_apply by blast
  have h: "rc_api ?r = steady_api" "ra_phase ?a = Approved" by (simp_all add: ex_action_def)
  have vf: "Verify steady_api (rc_engine ?r) v b = (VerificationHealthy, None)" for v b
    using steady_verify by simp
  have c: "HasAutoApplicableChange (Some ?a)" "getVerificationDelay ?a \<le> timeSub (60 * second) 0"
    by code_simp+
  show ?thesis
    using approved_remediation_completes [of steady_api held_actions held_personas "\<lambda>_ _. Some ex_incident"
        ?r "ex_store ?a" ex_key ?a v "60 * second" 0 "61 * second",
        OF steady_server h(1) ex_held h(2) c(1) ap steady_writes steady_reads vf c(2)] by blast
qed

lemma ex_rollback:
  "\<exists>v. Rollback_Execute (store_api no_faults) ex_done (ex_action Verifying (Some 1)) = (v, None)"
proof -
  have "snd (Rollback_Execute (store_api no_faults) ex_done (ex_action Verifying (Some 1))) = None"
    by code_simp
  then show ?thesis by (metis prod.collapse)
qed

lemma ex_rollback_hyps:
  "held_personas (ex_store (ex_action Approved None)) (personaKey (ex_action Approved None)) = Some ex_persona"
  "wf_map (p_spec ex_persona)" "no_null (p_spec ex_persona)"
  "ad_patch (sp_action (ra_spec (ex_action Approved None))) = Some ex_patch"
  "\<exists>pw sp. unmarshalMap ex_patch = Some pw \<and> wf_map pw \<and> map_of pw ''spec'' = Some (JObj sp) \<and>
     map_of sp ''tier'' = Some (JStr ''gold'')"
  "ad_prePatchState (sp_action (ra_spec (ex_action Approved None))) = snapshotPrePatch (Some ex_persona) ex_patch"
  "same_meta (ex_action Approved None) (ex_action Verifying (Some 1))"
  "decode_spec (store_api no_faults) m = Inr m"
  "jpath (p_spec ex_persona) [''resources'', ''limits'', ''memory''] = Some (JStr ''256Mi'')"
  "map_of (p_spec ex_persona) ''tier'' = None"
  by (simp_all add: held_iff ex_store_def personaKey_def ex_action_def ex_spec_def p_key_def ex_persona_def
      ex_patch_def unmarshalMap_def same_meta_def store_api_def)


theorem rollback_keeps_added_fields_witness:
  "\<exists>v q. Rollback_Execute (store_api no_faults) ex_done (ex_action Verifying (Some 1)) = (v, None) \<and>
     held_personas v (personaKey (ex_action Approved None)) = Some q \<and>
     map_of (p_spec q) ''tier'' = Some (JStr ''gold'')"
proof -
  obtain v where rb: "Rollback_Execute (store_api no_faults) ex_done (ex_action Verifying (Some 1)) = (v, None)"
    using ex_rollback by blast
  obtain pw sp where pw: "unmarshalMap ex_patch = Some pw" "wf_map pw" "map_of pw ''spec'' = Some (JObj sp)"
    and t: "map_of sp ''tier'' = Some (JStr ''gold'')"
    using ex_rollback_hyps(5) by blast
  have "JStr ''gold'' \<noteq> JNull" by simp
  from rollback_keeps_added_fields [of "store_api no_faults" held_actions held_personas held_incidents
      "ex_store (ex_action Approved None)" "ex_action Approved None" ex_persona ex_patch pw sp ex_done
      "ex_action Verifying (Some 1)" v, OF so.api_server_axioms ex_rollback_hyps(1,2,4) pw
      ex_rollback_hyps(6) ex_apply ex_rollback_hyps(7) rb ex_rollback_hyps(8,10) t this] rb
  show ?thesis by blast
qed

end
