(* ===== verification/Examples.thy ===== *)
theory Examples
  imports Instances Safety Incident
begin

text \<open>
  The properties of the safety checker, the workload matcher, the collectors, the diagnosis rules
  and the incident controller applied to concrete objects: the application of
  \<^verbatim>\<open>Instances\<close>, a crash-looping pod and a recovered one of its Deployment, and a checker over an
  empty cluster.
\<close>

subsection \<open>Safety checker\<close>

definition ex_bytes :: "string \<Rightarrow> int \<Rightarrow> Quantity" where
  "ex_bytes s n = \<lparr>q_string = s, q_isZero = False, q_approx = of_int n, q_value = n, q_milliValue = 1000 * n\<rparr>"

definition ex_parse :: "string \<Rightarrow> Quantity option" where
  "ex_parse s =
     (if s = ''256Mi'' then Some (ex_bytes s 268435456)
      else if s = ''512Mi'' then Some (ex_bytes s 536870912) else None)"

definition ex_checker :: "RemediationAction list \<Rightarrow> unit SafetyCheckerImpl" where
  "ex_checker acts = NewSafetyChecker (\<lambda>_. Inr []) (\<lambda>_ _ _. Inr acts) ex_parse
     [WithProtectedNamespaces [''payments'']]"

theorem check_allows_iff_all_guards_witness:
  "Check (ex_checker []) 7 () (ex_action Pending None) = Inr \<lparr>sr_allowed = True, sr_violations = []\<rparr> \<and>
   checkBlastRadius (ex_checker []) (ex_action Pending None) = [] \<and>
   \<not> (\<exists>res. Check (ex_checker [ex_action Applying None]) 7 () (ex_action Pending None) = Inr res \<and> sr_allowed res)"
proof -
  have ok: "Check (ex_checker []) 7 () (ex_action Pending None) = Inr \<lparr>sr_allowed = True, sr_violations = []\<rparr>"
    by code_simp
  have "listPersonaActions (ex_checker [ex_action Applying None]) () (ex_action Pending None) =
      Inr [ex_action Applying None]" by code_simp
  moreover have "ra_phase (ex_action Applying None) \<in> active_phases"
    by (simp add: ex_action_def)
  ultimately have "\<not> sr_allowed res"
    if "Check (ex_checker [ex_action Applying None]) 7 () (ex_action Pending None) = Inr res" for res
    using check_allows_iff_all_guards [OF that] by auto
  with ok check_allows_iff_all_guards [OF ok] show ?thesis by auto
qed

lemma ex_resources:
  "parseResourcePatch (sc_parseQuantity (ex_checker [])) ex_patch =
     Inr [(''spec.resources.limits.memory'', ex_bytes ''512Mi'' 536870912)]"
  "parseResourcePatch (sc_parseQuantity (ex_checker [])) (the (snapshotPrePatch (Some ex_persona) ex_patch)) =
     Inr [(''spec.resources.limits.memory'', ex_bytes ''256Mi'' 268435456)]"
  "snapshotPrePatch (Some ex_persona) ex_patch \<noteq> None"
  by code_simp+

theorem blast_radius_bounds_witness:
  "checkBlastRadius (ex_checker []) (ex_action Pending None) = [] \<and>
   q_approx (ex_bytes ''512Mi'' 536870912) / q_approx (ex_bytes ''256Mi'' 268435456) \<le> 2 / (1 - 1 / 2 ^ 53)"
proof -
  let ?a = "ex_action Pending None"
  obtain S where S: "snapshotPrePatch (Some ex_persona) ex_patch = Some S" using ex_resources(3) by blast
  have h: "ad_type (sp_action (ra_spec ?a)) = ''persona-update''"
      "ad_patch (sp_action (ra_spec ?a)) = Some ex_patch" "ad_prePatchState (sp_action (ra_spec ?a)) = Some S"
    by (simp_all add: ex_action_def ex_spec_def S)
  have ok: "checkBlastRadius (ex_checker []) ?a = []" by code_simp
  have "measured [(''spec.resources.limits.memory'', ex_bytes ''512Mi'' 536870912)]
      [(''spec.resources.limits.memory'', ex_bytes ''256Mi'' 268435456)] ''spec.resources.limits.memory''
      (ex_bytes ''512Mi'' 536870912) (ex_bytes ''256Mi'' 268435456)"
    by (simp add: measured_def ex_bytes_def)
  with blast_radius_bounds [OF h ex_resources(1) ex_resources(2) [unfolded S option.sel]] ok
  show ?thesis by blast
qed

theorem deny_list_fails_closed_witness:
  "NamespaceProtected (Some (ex_checker [])) () ''payments'' \<and>
   \<not> NamespaceProtected (Some (ex_checker [])) () ''shop''"
proof -
  have "sc_protected (ex_checker []) = [''kube-system'', ''payments'']"
    "sc_listClusterPersonas (ex_checker []) () = Inr []" by code_simp+
  then show ?thesis
    using deny_list_fails_closed [of "()" "''shop''" "ex_checker []"]
      deny_list_fails_closed [of "()" "''payments''" "ex_checker []"] by simp
qed

text \<open>A plan without a snapshot, which the executor refuses, and a store without the persona.\<close>

definition ex_no_snapshot :: RemediationAction where
  "ex_no_snapshot = (ex_action Approved None)\<lparr>ra_spec :=
     ex_spec\<lparr>sp_action := (sp_action ex_spec)\<lparr>ad_prePatchState := None\<rparr>\<rparr>\<rparr>"

theorem precondition_refusal_spares_cooldown_witness:
  "\<exists>w' a' evs res. dispatch (ex_controller no_faults []) 7 (ex_store ex_no_snapshot) ex_no_snapshot =
       (w', a', evs, res) \<and>
     ra_phase a' = Failed \<and> cooldownLoop 8 (ex_action Pending None) [a'] = None"
proof -
  obtain w' a' evs res where d:
    "dispatch (ex_controller no_faults []) 7 (ex_store ex_no_snapshot) ex_no_snapshot = (w', a', evs, res)"
    by (metis prod_cases4)
  have h: "ra_phase ex_no_snapshot = Approved" "rs_appliedAt (ra_status ex_no_snapshot) = None"
    by (simp_all add: ex_no_snapshot_def ex_action_def)
  have c: "HasAutoApplicableChange (Some ex_no_snapshot)" "validatePreconditions ex_no_snapshot \<noteq> None"
    by code_simp+
  from precondition_refusal_spares_cooldown [OF h(1) c(1) h(2) c(2) d, of 8 "ex_action Pending None" "[]" "[]"] d
  show ?thesis by auto
qed

theorem late_failure_has_no_cooldown_witness:
  "\<exists>w' a' evs res. dispatch (ex_controller no_faults []) (31 * minute)
        ((ex_store (ex_action Approved None))\<lparr>so_personas := []\<rparr>) (ex_action Approved None) = (w', a', evs, res) \<and>
     ra_phase a' = Failed \<and> cooldownLoop (31 * minute) (ex_action Pending None) [a'] = None"
proof -
  let ?a = "ex_action Approved None" and ?r = "ex_controller no_faults []"
  let ?w = "(ex_store ?a)\<lparr>so_personas := []\<rparr>"
  obtain w' a' evs res where d: "dispatch ?r (31 * minute) ?w ?a = (w', a', evs, res)" by (metis prod_cases4)
  have h: "ra_phase ?a = Approved" "rs_appliedAt (ra_status ?a) = None" by (simp_all add: ex_action_def)
  have c: "HasAutoApplicableChange (Some ?a)" "snd (Apply (rc_api ?r) ?w ?a) \<noteq> None"
    "FailedCooldown \<le> timeSub (31 * minute) (ra_creationTimestamp ?a)" by code_simp+
  then obtain v e where ap: "Apply (rc_api ?r) ?w ?a = (v, Some e)" by (metis option.exhaust prod.collapse)
  from late_failure_has_no_cooldown [OF h(1) c(1) h(2) ap c(3) d order.refl, of "ex_action Pending None" "[]" "[]"] d
  show ?thesis unfolding append_Nil cooldownLoop.simps(1) by blast
qed

subsection \<open>Workload\<close>

theorem resolve_never_guesses_witness:
  "Resolve [ex_deployment] ''web'' = Inr (Some ex_deployment, RungName) \<and>
   resolve_ok [ex_deployment] ''web'' chain (Inr (Some ex_deployment, RungName))"
proof -
  have "Resolve [ex_deployment] ''web'' = Inr (Some ex_deployment, RungName)" by code_simp
  with resolve_never_guesses [of "''web''" "[ex_deployment]"] show ?thesis by simp
qed

theorem unmanaged_iff_no_evidence_witness:
  "\<not> Ownership_IsOwned (DetectOwner (Some ex_deployment)) \<and> no_owner_evidence ex_deployment"
proof -
  have "\<not> Ownership_IsOwned (DetectOwner (Some ex_deployment))" by code_simp
  with unmanaged_iff_no_evidence [of ex_deployment 0] show ?thesis by blast
qed

definition ex_observation :: Observation where
  "ex_observation = \<lparr>ob_deployment = Some ex_deployment, ob_container = PickContainer ex_deployment ''web'',
     ob_matchedBy = RungName, ob_ownership = DetectOwner (Some ex_deployment)\<rparr>"

definition ex_observed_action :: RemediationAction where
  "ex_observed_action = (ex_action Verifying (Some 1))\<lparr>ra_spec :=
     ex_spec\<lparr>sp_workloadRef := Some (Ref (Some ex_observation) 0)\<rparr>\<rparr>"

theorem unchanged_workload_reads_restored_witness:
  "Reason (InspectRollback (store_api no_faults) (ex_store ex_observed_action) ex_observed_action) =
     ReasonWorkloadRestored"
proof -
  have r: "Resolve [ex_deployment] ''web'' = Inr (Some ex_deployment, RungName)" by code_simp
  have o: "Observe (\<lambda>_ _. Inr [ex_deployment]) () ''shop'' ''web'' = Inr (Some ex_observation)"
    by (simp add: Observe_def r ex_observation_def)
  have h: "ob_deployment ex_observation = Some ex_deployment"
    "d_containers ex_deployment \<noteq> []" "distinct (map ct_name (d_containers ex_deployment))"
    "d_name ex_deployment \<noteq> []" "d_namespace ex_deployment \<noteq> []"
    "sp_workloadRef (ra_spec ex_observed_action) = Some (Ref (Some ex_observation) 0)"
    by (simp_all add: ex_observation_def ex_deployment_def ex_observed_action_def)
  have g: "get_deployment (store_api no_faults) (ex_store ex_observed_action)
      (d_namespace ex_deployment, d_name ex_deployment) = Inr ex_deployment"
    by (simp add: store_api_def lookup_obj_def ex_store_def ex_deployment_def)
  show ?thesis
    using unchanged_workload_reads_restored [of "\<lambda>_ _. Inr [ex_deployment]" "()" "''shop''" "''web''"
        ex_observation ex_deployment ex_observed_action 0 "store_api no_faults" "ex_store ex_observed_action"]
      o h g by blast
qed

subsection \<open>Pods and diagnoses\<close>

definition ex_status :: "bool \<Rightarrow> (string \<times> string) option \<Rightarrow> ContainerStatus" where
  "ex_status ready waiting = \<lparr>cs_name = ''app'', cs_image = ''web:1'', cs_ready = ready, cs_restartCount = 1,
     cs_waiting = waiting, cs_running = ready, cs_terminated = None, cs_lastTerminated = None\<rparr>"

definition ex_pod :: "string \<Rightarrow> ContainerStatus \<Rightarrow> Pod" where
  "ex_pod ready cs = \<lparr>po_name = ''web-7d9-x'', po_namespace = ''shop'', po_labels = [(''app'', ''web'')], po_creationTimestamp = 0,
     po_deletionTimestamp = None, po_owners = [(''ReplicaSet'', ''web-7d9'')], po_nodeName = ''node-1'', po_hostname = [],
     po_phase = ''Running'', po_reason = [], po_message = [],
     po_conditions = [\<lparr>pc_type = ''Ready'', pc_status = ready, pc_ltt = 0\<rparr>],
     po_containerStatuses = [cs], po_initContainerStatuses = [], po_containers = [], po_initContainers = []\<rparr>"

abbreviation ex_crashing :: Pod where
  "ex_crashing \<equiv> ex_pod ''False'' (ex_status False (Some (''CrashLoopBackOff'', ''back-off'')))"

definition ex_pod_signals :: "Signal list" where
  "ex_pod_signals = concat (map (\<lambda>pod. checkPod NewPodCollector pod 7) [ex_crashing])"

lemma ex_collect: "PodCollector_Collect NewPodCollector (\<lambda>_. Inr [ex_crashing]) 7 () = Inr ex_pod_signals"
  unfolding ex_pod_signals_def by code_simp

theorem pod_collector_exact_witness:
  "\<exists>s \<in> set ex_pod_signals. sg_type s = SignalCrashLoopBackOff \<and> sg_severity s = SeverityCritical \<and>
     sg_resource s = podResource ex_crashing"
proof -
  have "po_namespace ex_crashing \<notin> set (pcl_excludeNS NewPodCollector)"
    "\<exists>cs \<in> set (po_containerStatuses ex_crashing @ po_initContainerStatuses ex_crashing).
      \<exists>msg. cs_waiting cs = Some (''CrashLoopBackOff'', msg)"
    by (simp_all add: ex_pod_def ex_status_def NewPodCollector_def)
  with pod_collector_exact [OF ex_collect refl] show ?thesis
    by (meson list.set_intros(1))
qed

definition ex_diagnoses :: "Diagnosis list" where
  "ex_diagnoses = projr (RuleBased_Diagnose 7 [ex_signal])"

lemma ex_diagnosed: "RuleBased_Diagnose 7 [ex_signal] = Inr ex_diagnoses"
  by (simp add: RuleBased_Diagnose_def ex_diagnoses_def)

theorem rule_diagnoses_grounded_witness:
  "RuleBased_Diagnose 7 [ex_signal] = Inr ex_diagnoses \<and> ex_diagnoses \<noteq> [] \<and>
   list_all (grounded [ex_signal]) ex_diagnoses"
proof -
  have "ex_diagnoses \<noteq> []"
    using ruleLoop_fires [of "[ex_signal]" 7]
    by (simp add: ex_diagnoses_def RuleBased_Diagnose_def ex_signal_def diagnosable_def)
  with rule_diagnoses_grounded [OF ex_diagnosed] ex_diagnosed show ?thesis by (simp add: list_all_iff)
qed

definition ex_provider :: DiagnosisProvider where
  "ex_provider = \<lparr>dp_name = ''rule-based'', dp_diagnose = RuleBased_Diagnose 7\<rparr>"

theorem analyze_keeps_best_witness:
  "\<exists>produced ds. runProviders [ex_signal] 0 [] [ex_provider, ex_provider] = Inr produced \<and>
     Analyze [ex_provider, ex_provider] [ex_signal] = Inr ds \<and>
     deduplicationKey ` set ds = rk_key ` set produced"
proof -
  obtain produced where p: "runProviders [ex_signal] 0 [] [ex_provider, ex_provider] = Inr produced"
    by (simp add: ex_provider_def ex_diagnosed)
  then obtain ds where d: "Analyze [ex_provider, ex_provider] [ex_signal] = Inr ds" by (simp add: Analyze_def)
  from analyze_keeps_best [OF _ p d] p d show ?thesis by blast
qed

definition ex_diagnosis :: Diagnosis where
  "ex_diagnosis = \<lparr>dg_summary = ''OOM'', dg_confidence = 1 / 2, dg_provider = ''rule-based'', dg_category = ''resource'',
     dg_severity = ''critical'',
     dg_personaRef = Some \<lparr>pr_kind = ''ApplicationPersona'', pr_name = ''web'', pr_namespace = ''shop''\<rparr>,
     dg_affectedResources = [\<lparr>rr_kind = ''Node'', rr_name = ''node-1'', rr_namespace = [], rr_role = []\<rparr>],
     dg_contributing = [\<lparr>con_signal = ex_signal, con_detail = []\<rparr>],
     dg_suggestedAction = ''resource-adjustment'', dg_diagnosedAt = 7\<rparr>"

theorem gate_clears_iff_witness:
  "\<not> snd (ProtectedNamespace (Some (\<lambda>ns. ns = ''payments'')) ex_diagnosis) \<and>
   snd (ProtectedNamespace (Some (\<lambda>ns. ns = ''shop'')) ex_diagnosis)"
  unfolding gate_clears_iff [of "Some (\<lambda>ns. ns = ''payments'')"]
  using gate_clears_iff [of "Some (\<lambda>ns. ns = ''shop'')" ex_diagnosis]
  by (simp add: ex_diagnosis_def ex_signal_def clusterScopedKinds_def)

definition ex_evicted :: Pod where
  "ex_evicted = (ex_pod ''False'' (ex_status False None))\<lparr>po_phase := ''Failed'', po_reason := ''Evicted''\<rparr>"

definition ex_eviction :: Signal where
  "ex_eviction = the (checkEviction ex_evicted 7)"

definition ex_pressure :: Signal where
  "ex_pressure = ex_signal\<lparr>sg_type := ''NodeMemoryPressure'',
     sg_resource := \<lparr>rr_kind = ''Node'', rr_name = ''node-1'', rr_namespace = [], rr_role = []\<rparr>\<rparr>"

theorem evictions_never_linked_witness:
  "\<exists>d. diagnoseNodePressure [ex_pressure, ex_eviction] = Some d \<and>
     po_nodeName ex_evicted = rr_name (sg_resource ex_pressure) \<and>
     ex_eviction \<notin> con_signal ` set (dg_contributing d)"
proof -
  have ev: "checkEviction ex_evicted 7 = Some ex_eviction" "sg_type ex_eviction = SignalPodEvicted"
    "rr_name (sg_resource ex_eviction) = ''web-7d9-x''"
    by (simp_all add: ex_eviction_def checkEviction_def ex_evicted_def ex_pod_def podResource_def)
  have pr: "sg_type ex_pressure = ''NodeMemoryPressure''" "rr_name (sg_resource ex_pressure) = ''node-1''"
    by (simp_all add: ex_pressure_def)
  have "diagnoseNodePressure [ex_pressure, ex_eviction] \<noteq> None"
    by (simp add: diagnoseNodePressure_def signalsOfTypes_def signalsOfType_def nodePressureTypes_def pr Let_def)
  then obtain d where d: "diagnoseNodePressure [ex_pressure, ex_eviction] = Some d" by blast
  have "con_signal ` set (dg_contributing d) =
      {s \<in> set [ex_pressure, ex_eviction]. sg_type s \<in> set nodePressureTypes}"
    by (rule evictions_never_linked [OF d])
       (use checks_pod_signal(1) [OF ev(1)] ev(2,3) pr in \<open>auto simp: nodePressureTypes_def\<close>)
  with d ev(2) show ?thesis
    by (auto simp: nodePressureTypes_def ex_evicted_def ex_pod_def pr)
qed

subsection \<open>Incidents\<close>

abbreviation ex_running :: Pod where
  "ex_running \<equiv> ex_pod ''True'' (ex_status True None)"

definition ex_reader :: "Pod list \<Rightarrow> RemediationAction list \<Rightarrow> unit ClusterReader" where
  "ex_reader pods acts = \<lparr>cr_listPods = \<lambda>_ _. Inr pods, cr_listDeployments = \<lambda>_ _. Inr [ex_deployment],
     cr_listActions = \<lambda>_ _ _. Inr acts\<rparr>"

theorem recovery_iff_seen_witness:
  "Recovered (verifyRecovery (ex_reader [ex_running] []) () ex_incident (7 * minute)) \<and>
   \<not> Recovered (verifyRecovery (ex_reader [ex_running, ex_crashing] []) () ex_incident (7 * minute))"
proof -
  have n: "incidentNamespace ex_incident \<noteq> []" by code_simp
  have w: "workloadPods (ex_reader [ex_running] []) () ex_incident (incidentNamespace ex_incident) = Inr [ex_running]"
    "workloadPods (ex_reader [ex_running, ex_crashing] []) () ex_incident (incidentNamespace ex_incident) =
      Inr [ex_running, ex_crashing]" by code_simp+
  have s: "pod_stable (7 * minute) ex_running" "\<not> pod_stable (7 * minute) ex_crashing" "\<not> pod_leaving ex_crashing"
    by (simp_all add: pod_stable_def pod_leaving_def container_stable_def ex_pod_def ex_status_def
        podReadyCondition_def RecoveryStabilityWindow_def timeSub_def)
  show ?thesis
    using recovery_iff_seen [of "ex_reader [ex_running] []" "()" ex_incident "7 * minute"]
      recovery_iff_seen [of "ex_reader [ex_running, ex_crashing] []" "()" ex_incident "7 * minute"] n w s
    by auto
qed

theorem rejection_suppresses_iff_witness:
  "\<exists>reason. rejectionSuppressesProposal (ex_reader [] [ex_action Rejected None]) 7 () ex_diagnosis (Some ex_incident) =
       Inr reason \<and> reason \<noteq> []"
proof -
  let ?c = "ex_reader [] [ex_action Rejected None]"
  have p: "dg_personaRef ex_diagnosis =
      Some \<lparr>pr_kind = ''ApplicationPersona'', pr_name = ''web'', pr_namespace = ''shop''\<rparr>"
    by (simp add: ex_diagnosis_def)
  obtain reason where r: "rejectionSuppressesProposal ?c 7 () ex_diagnosis (Some ex_incident) = Inr reason"
    by (simp add: rejectionSuppressesProposal_def p ex_reader_def)
  have h: "rejection_holds 7 ex_diagnosis ex_incident (ex_action Rejected None)" by code_simp
  have n: "\<not> hasCondition (ra_conditions (ex_action Rejected None)) ConditionRejected" "\<not> isZero 7"
    by (simp_all add: ex_action_def hasCondition_def isZero_def zeroTime_def)
  from rejection_suppresses_iff [OF p r n] h r show ?thesis by (auto simp: ex_reader_def)
qed

definition ex_recurred :: IncidentMemory where
  "ex_recurred = ex_incident\<lparr>im_status := (im_status ex_incident)\<lparr>ims_occurrenceCount := 2\<rparr>\<rparr>"

theorem recurring_message_stale_witness:
  "updateConditions 9 ((updateConditions 7 ex_recurred)\<lparr>im_status :=
      (im_status (updateConditions 7 ex_recurred))\<lparr>ims_occurrenceCount := 3\<rparr>\<rparr>) =
    (updateConditions 7 ex_recurred)\<lparr>im_status :=
      (im_status (updateConditions 7 ex_recurred))\<lparr>ims_occurrenceCount := 3\<rparr>\<rparr>"
  by (rule recurring_message_stale) (simp_all add: ex_recurred_def)

end
