(* ===== verification/HealthExamples.thy ===== *)
theory HealthExamples
  imports Cluster Examples
begin

text \<open>
  The properties of names, events and the health check cycle applied to concrete objects: the
  persona, the diagnosis and the pods of \<^verbatim>\<open>Examples\<close> on the cluster of \<^verbatim>\<open>Cluster\<close>.
\<close>

subsection \<open>Names and events\<close>

theorem incident_names_identify_witness:
  "valid_name (generateIncidentName ''shop'' ''web'' ''OOMKilled'') \<and> CHR ''/'' \<notin> set ''shop''"
proof -
  have n: "CHR ''/'' \<notin> set ''shop''" "CHR ''/'' \<notin> set ''web''" by simp_all
  from incident_names_identify [OF n(1) n(1) n(2) n(2), of "''OOMKilled''"] n(1) show ?thesis by blast
qed

theorem crd_name_loses_digest_witness:
  "generateCRDName (replicate 63 (CHR ''n'')) ''Pod'' (replicate 190 (CHR ''p'')) ''pod'' ''BackOff'' ''t1'' =
   generateCRDName (replicate 63 (CHR ''n'')) ''Pod'' (replicate 190 (CHR ''p'')) ''node'' ''Evicted'' ''t2''"
  by (rule crd_name_loses_digest) simp

theorem dedup_pruning_invisible_witness:
  "seenVerdicts (NewEventStore [WithDedupWindow 10]) [(0, ''a''), (5, ''a''), (9, ''b''), (10, ''a'')] =
     [False, True, False, False] \<and>
   refVerdicts 10 Map.empty [(0, ''a''), (5, ''a''), (9, ''b''), (10, ''a'')] = [False, True, False, False]"
proof -
  let ?s = "NewEventStore [WithDedupWindow 10]" and ?occs = "[(0, ''a''), (5, ''a''), (9, ''b''), (10, ''a'')]"
  have s: "hs_dedupMap ?s = []" "hs_dedupWindow ?s = 10" by (simp_all add: NewEventStore_def WithDedupWindow_def)
  have "seenVerdicts ?s ?occs = [False, True, False, False]" by code_simp
  with dedup_pruning_invisible [of ?s ?occs] s show ?thesis by simp
qed

definition ex_record :: "string \<Rightarrow> time \<Rightarrow> DorguEvent" where
  "ex_record name t = \<lparr>de_name = name, de_namespace = ''shop'', de_severity = ''info'', de_category = ''pod'',
     de_source = ''kubelet'', de_message = [],
     de_object = \<lparr>rr_kind = ''Pod'', rr_name = ''web-1'', rr_namespace = ''shop'', rr_role = []\<rparr>,
     de_personaRef = None, de_incidentRef = None, de_eventTime = t, de_k8sEventRef = [], de_ttl = None\<rparr>"

definition ex_cleaner :: Cleaner where
  "ex_cleaner = \<lparr>cn_interval = 1, cn_batchSize = 2, cn_retention = 10, cn_maxRecords = 1\<rparr>"

definition ex_records :: "(objkey \<times> DorguEvent) list" where
  "ex_records = map (\<lambda>e. (de_key e, e)) [ex_record ''a'' 1, ex_record ''b'' 95, ex_record ''c'' 98]"

theorem cleanup_drains_witness:
  "\<exists>w'. w' = fst (cleanup ex_cleaner event_client 100 ex_records) \<and>
     held_events w' = [de_key (ex_record ''c'' 98) \<mapsto> ex_record ''c'' 98] \<and>
     (\<forall>e \<in> ran (held_events w'). \<not> isExpired e 10 100)"
proof -
  let ?w' = "((\<lambda>v. fst (cleanup ex_cleaner event_client 100 v)) ^^ 1) ex_records"
  have ran: "ran (held_events ex_records) = {ex_record ''a'' 1, ex_record ''b'' 95, ex_record ''c'' 98}"
  proof -
    have "ec_list event_client ex_records = Inr [ex_record ''a'' 1, ex_record ''b'' 95, ex_record ''c'' 98]"
      by code_simp
    from es.list_held [OF this] show ?thesis by simp
  qed
  have un: "unexpired ex_cleaner 100 (ran (held_events ex_records)) = {ex_record ''b'' 95, ex_record ''c'' 98}"
    unfolding ran by (auto simp: unexpired_def isExpired_def ex_record_def ex_cleaner_def)
  have ne: "ex_record ''b'' 95 \<noteq> ex_record ''c'' 98" by (simp add: ex_record_def)
  have df: "ran (held_events ex_records) - {ex_record ''b'' 95, ex_record ''c'' 98} = {ex_record ''a'' 1}"
    unfolding ran by (auto simp: ex_record_def)
  have b: "backlog ex_cleaner 100 (ran (held_events ex_records)) \<le> 1 * cn_batchSize ex_cleaner"
    unfolding backlog_def un df using ne by (simp add: ex_cleaner_def)
  have l: "\<exists>items. ec_list event_client v = Inr items" for v by (simp add: event_client_def)
  have d: "snd (ec_delete event_client v e) = None" for v e by (simp add: event_client_def)
  have w': "fst (cleanup ex_cleaner event_client 100 ex_records) = [(de_key (ex_record ''c'' 98), ex_record ''c'' 98)]"
    by code_simp
  have "(\<forall>e \<in> ran (held_events ?w'). \<not> isExpired e (cn_retention ex_cleaner) 100)"
    using cleanup_drains [OF es.event_server_axioms l d b refl] by blast
  then show ?thesis using w'
    by (auto simp: fun_eq_iff held_events_def ex_cleaner_def)
qed

subsection \<open>The health check cycle\<close>

definition ex_webRef :: PersonaReference where
  "ex_webRef = \<lparr>pr_kind = ''ApplicationPersona'', pr_name = ''web'', pr_namespace = ''shop''\<rparr>"

text \<open>Open incidents about the diagnosis \<open>ex_diagnosis\<close>, with and without a persona.\<close>

definition ex_open :: "string \<Rightarrow> bool \<Rightarrow> IncidentMemory" where
  "ex_open name unattributed =
     (let s = \<lparr>su_personaRef = ex_webRef, su_unattributed = unattributed, su_namespace = ''shop''\<rparr>;
          i = \<lparr>im_name = name, im_namespace = ''shop'',
                im_labels = [(LabelPersonaKind, ''ApplicationPersona''), (LabelPersonaName, ''web''),
                  (LabelCategory, dg_category ex_diagnosis), (LabelSignal, primarySignalType ex_diagnosis),
                  (LabelPhase, PhaseDetected), (LabelAttribution, attribution s)],
                im_spec = \<lparr>is_personaRef = ex_webRef, is_attribution = attribution s,
                  is_category = dg_category ex_diagnosis, is_severity = ''critical'',
                  is_detection = \<lparr>di_signal = primarySignalType ex_diagnosis, di_source = ''rule-based'',
                    di_firstSeen = 0, di_lastSeen = 0, di_affectedResources = []\<rparr>,
                  is_rootCause = None, is_relatedResources = [], is_resolution = None\<rparr>,
                im_status = noStatus\<rparr>
      in initialStatus 0 i)"

definition ex_cluster :: "IncidentMemory list \<Rightarrow> cluster" where
  "ex_cluster is = \<lparr>
     cl_store = \<lparr>so_actions = [], so_personas = [], so_incidents = map (\<lambda>i. (im_key i, i)) is,
                 so_deployments = [], so_writes = 0\<rparr>,
     cl_events = [], cl_eventStore = NewEventStore [], cl_emitted = [], cl_sent = []\<rparr>"

definition ex_cluster_reader :: "Pod list \<Rightarrow> cluster ClusterReader" where
  "ex_cluster_reader pods = \<lparr>cr_listPods = \<lambda>_ _. Inr pods, cr_listDeployments = \<lambda>_ _. Inr [ex_deployment],
     cr_listActions = \<lambda>_ _ _. Inr []\<rparr>"

definition ex_fmt :: formatter where "ex_fmt = (\<lambda>_ t. showInt t)"

text \<open>A reconciler that sees the given signals and diagnoses what it is told to.\<close>

definition ex_health ::
  "Pod list \<Rightarrow> Signal list \<Rightarrow> Diagnosis list \<Rightarrow> cluster HealthCheckReconciler" where
  "ex_health pods signals diags = cluster_reconciler no_faults ex_fmt (ex_cluster_reader pods)
     \<lparr>en_collectors = [\<lambda>_. Inr signals], en_correlator = None\<rparr>
     [\<lparr>dp_name = ''rule-based'', dp_diagnose = \<lambda>_. Inr diags\<rparr>] None"

lemma ex_health_server: "health_server (ex_health pods signals diags) cluster_incidents"
  unfolding ex_health_def by (rule hr.health_server_axioms)


definition ex_owned_signal :: Signal where
  "ex_owned_signal = ex_signal\<lparr>sg_personaRef := Some ex_webRef\<rparr>"

theorem handover_waits_for_recovery_witness:
  "\<exists>i'. cluster_incidents (fst (healthCycle (ex_health [ex_running] [ex_owned_signal] [ex_diagnosis]) (7 * minute)
        (ex_cluster [ex_open ''web-oom'' False, ex_open ''web-oom-unattributed'' True]))) (''shop'', ''web-oom-unattributed'') = Some i' \<and>
     ims_phase (im_status i') = PhaseDetected"
proof -
  let ?r = "ex_health [ex_running] [ex_owned_signal] [ex_diagnosis]"
  let ?w = "ex_cluster [ex_open ''web-oom'' False, ex_open ''web-oom-unattributed'' True]"
  let ?start = "(?w, [], \<lparr>cc_attempted = 0, cc_discarded = 0\<rparr>)"
  have c: "CollectAll (hr_detection ?r) ?w = Inr [ex_owned_signal]" by code_simp
  obtain w1 keys n where f: "fold (processGroup ?r (7 * minute)) (GroupSignals [ex_owned_signal]) ?start = (w1, keys, n)"
    by (metis prod_cases3)
  have "fst (snd (fold (processGroup ?r (7 * minute)) (GroupSignals [ex_owned_signal]) ?start)) =
      [signalKey (personaSubject ex_webRef) ex_diagnosis]" by code_simp
  then have k: "signalKey (personaSubject ex_webRef) ex_diagnosis \<in> set keys" unfolding f by simp
  have i: "cluster_incidents ?w (''shop'', ''web-oom-unattributed'') = Some (ex_open ''web-oom-unattributed'' True)"
    by code_simp
  have a: "is_attribution (im_spec (ex_open ''web-oom-unattributed'' True)) = AttributionUnattributed"
    "is_personaRef (im_spec (ex_open ''web-oom-unattributed'' True)) = ex_webRef"
    "is_category (im_spec (ex_open ''web-oom-unattributed'' True)) = dg_category ex_diagnosis"
    "di_signal (is_detection (im_spec (ex_open ''web-oom-unattributed'' True))) = primarySignalType ex_diagnosis"
    "ims_phase (im_status (ex_open ''web-oom-unattributed'' True)) = PhaseDetected"
    by code_simp+
  from handover_waits_for_recovery [where r = ?r and held = cluster_incidents, OF ex_health_server c f i a(1) k a(2,3,4)] show ?thesis unfolding a(5) .
qed

theorem diagnosis_recorded_witness:
  "\<exists>i w'. processDiagnosis (ex_health [] [] []) 9 (ex_cluster [ex_open ''web-oom'' False])
        (personaSubject ex_webRef) ex_diagnosis = (w', None) \<and>
     cluster_incidents w' (''shop'', ''web-oom'') = Some i \<and> diagnosed 9 ex_diagnosis i"
proof -
  let ?r = "ex_health [] [] []" and ?w = "ex_cluster [ex_open ''web-oom'' False]"
  have "snd (processDiagnosis ?r 9 ?w (personaSubject ex_webRef) ex_diagnosis) = None" by code_simp
  then obtain w' where w': "processDiagnosis ?r 9 ?w (personaSubject ex_webRef) ex_diagnosis = (w', None)"
    by (metis prod.collapse)
  have f: "findMatchingIncident ?r ?w (personaSubject ex_webRef) ex_diagnosis = Inr (Some (ex_open ''web-oom'' False))"
    "im_key (ex_open ''web-oom'' False) = (''shop'', ''web-oom'')" by code_simp+
  from diagnosis_recorded [where r = ?r and held = cluster_incidents, OF ex_health_server w'] w' show ?thesis by (auto simp: f)
qed

text \<open>The closed incident has the name that the recurrence gets.\<close>

definition ex_closed :: IncidentMemory where
  "ex_closed = resolvedPhase (newIncident 0 (personaSubject ex_webRef) ex_diagnosis)"

theorem recurrence_folded_into_resolved_witness:
  "\<exists>i' w' e. processDiagnosis (ex_health [] [] []) 9 (ex_cluster [ex_closed])
        (personaSubject ex_webRef) ex_diagnosis = (w', e) \<and>
     cluster_incidents w' (im_key ex_closed) = Some i' \<and> ims_phase (im_status i') = PhaseResolved"
proof -
  let ?r = "ex_health [] [] []" and ?w = "ex_cluster [ex_closed]"
  let ?s = "personaSubject ex_webRef"
  have ph: "ims_phase (im_status ex_closed) = PhaseResolved" by (simp add: ex_closed_def resolvedPhase_def)
  have k: "im_key (newIncident 9 ?s ex_diagnosis) = im_key ex_closed"
    by (simp add: ex_closed_def resolvedPhase_def newIncident_def im_key_def Let_def)
  have i: "cluster_incidents ?w (im_key ex_closed) = Some ex_closed"
    by (simp add: ex_cluster_def held_incidents_def lookup_obj_def)
  have f: "findMatchingIncident ?r ?w ?s ex_diagnosis = Inr None"
    by (auto simp: findMatchingIncident_def ex_health_def cluster_reconciler_def health_client_def
        store_list_incidents_def ex_cluster_def ph find_None_iff)
  obtain w' e where p: "processDiagnosis ?r 9 ?w ?s ex_diagnosis = (w', e)" by (metis prod.collapse)
  from recurrence_folded_into_resolved [where r = ?r and held = cluster_incidents, OF ex_health_server f i [folded k] ph p] p show ?thesis
    unfolding k by blast
qed

text \<open>A confidence of 0.9975 is recorded as 1.00, and its own diagnosis no longer reaches it.\<close>

definition ex_confident :: "string \<Rightarrow> Diagnosis" where
  "ex_confident provider = ex_diagnosis\<lparr>dg_confidence := 399 / 400, dg_provider := provider\<rparr>"

theorem root_cause_refresh_threshold_witness:
  "is_rootCause (im_spec (applyDiagnosisToSpec 9 (personaSubject ex_webRef) (ex_confident ''ai'')
       (newIncident 0 (personaSubject ex_webRef) (ex_confident ''rule-based'')))) =
   annotateUnattributed (buildRootCause (ex_confident ''rule-based'')) (personaSubject ex_webRef)"
proof -
  let ?s = "personaSubject ex_webRef" and ?d0 = "ex_confident ''rule-based''"
  let ?i = "newIncident 0 ?s ?d0"
  have rc: "is_rootCause (im_spec ?i) = annotateUnattributed (buildRootCause ?d0) ?s"
    by (simp add: newIncident_def Let_def)
  have ne: "is_rootCause (im_spec ?i) \<noteq> None"
    unfolding rc by (simp add: annotateUnattributed_def buildRootCause_def personaSubject_def ex_confident_def)
  have c: "dg_confidence (ex_confident p) = 399 / 400" for p by (simp add: ex_confident_def)
  have r: "fl64 (of_int (roundHalfEven (dg_confidence ?d0 * 100)) / 100) = 1" unfolding c by code_simp
  have z: "0 \<le> dg_confidence ?d0" by (simp add: c)
  from root_cause_refresh_threshold [OF rc ne z, of 9 ?s "ex_confident ''ai''"] show ?thesis
    unfolding r by (simp add: rc c)
qed

end
