(* ===== verification/ProposalExamples.thy ===== *)
theory ProposalExamples
  imports ProposalStore HealthExamples
begin

text \<open>
  The properties of the proposal builder applied to concrete objects: the persona, the incident and
  the diagnosis of \<^verbatim>\<open>Examples\<close>, a Deployment that Helm owns, and the plan of a model that hands out
  a command that writes the Deployment.
\<close>

definition ex_quantity_ops :: QuantityOps where
  "ex_quantity_ops = \<lparr>
     qo_parse = (\<lambda>s. if s = ''256Mi'' then Some (ex_bytes s 268435456)
                     else if s = ''512Mi'' then Some (ex_bytes s 536870912)
                     else if s = ''1Gi'' then Some (ex_bytes s 1073741824) else None),
     qo_equal = (\<lambda>a b. q_value a = q_value b),
     qo_bytes = (\<lambda>n. if n = 1073741824 then ''1Gi'' else showInt (n div 1048576) @ ''Mi''),
     qo_milli = (\<lambda>n. showInt n @ ''m''),
     qo_cmp = (\<lambda>a b. sgn (q_value a - q_value b)), qo_add = (\<lambda>a b. a\<lparr>q_value := q_value a + q_value b\<rparr>)\<rparr>"

definition ex_helm :: Deployment where
  "ex_helm = ex_deployment\<lparr>d_annotations := [(''meta.helm.sh/release-name'', ''web'')]\<rparr>"

definition ex_world :: cluster where
  "ex_world = \<lparr>
     cl_store = \<lparr>so_actions = [], so_personas = [((''shop'', ''web''), ex_persona)],
                 so_incidents = [((''shop'', ''web-oom''), ex_incident)],
                 so_deployments = [((''shop'', ''web''), ex_helm)], so_writes = 0\<rparr>,
     cl_events = [], cl_eventStore = NewEventStore [], cl_emitted = [], cl_sent = []\<rparr>"

definition ex_plan :: RemediationPlan where
  "ex_plan = \<lparr>pl_rootCause = ''The container is out of memory.'', pl_confidence = 9 / 10,
     pl_steps = [
       \<lparr>ps_order = 1, ps_type = StepTypePersonaUpdate, ps_description = ''Raise the memory limit'', ps_rationale = [],
        ps_risk = ''low'', ps_patch = RawEmpty, ps_command = []\<rparr>,
       \<lparr>ps_order = 2, ps_type = StepTypeWorkloadApply, ps_description = ''Raise it now'', ps_rationale = [],
        ps_risk = ''low'', ps_patch = RawEmpty,
        ps_command = ''kubectl -n shop set resources deployment/web --limits=memory=1Gi''\<rparr>]\<rparr>"

text \<open>Builders whose server accepts every write; what it keeps plays no part in a proposal.\<close>

definition accepting :: "cluster Proposer \<Rightarrow> cluster Proposer" where
  "accepting p = p\<lparr>pr_client := (pr_client p)\<lparr>pc_create := \<lambda>w a. (w, None), pc_statusUpdate := \<lambda>w a. (w, None)\<rparr>\<rparr>"

abbreviation ex_rules :: "cluster Proposer" where
  "ex_rules \<equiv> accepting (cluster_proposer no_faults 7 ex_quantity_ops [''payments''] None)"

abbreviation ex_planned :: "cluster Proposer" where
  "ex_planned \<equiv> accepting (cluster_proposer no_faults 7 ex_quantity_ops [''payments''] (Some (\<lambda>_ _. Inr (Some ex_plan))))"

text \<open>A diagnosis that calls for no change of a resource.\<close>

definition ex_image_diagnosis :: Diagnosis where
  "ex_image_diagnosis = ex_diagnosis\<lparr>
     dg_contributing := [\<lparr>con_signal = ex_signal\<lparr>sg_type := ''ImagePullBackOff''\<rparr>, con_detail = []\<rparr>],
     dg_suggestedAction := ''investigate''\<rparr>"

text \<open>
  The digest of a name and the wording of a plan are not evaluated below: whether a proposal is made
  does not depend on them.
\<close>

declare generateActionName_def [code del] and scrubFabricatedGuardrailClaims_def [code del] and
  shapePlan_def [code del]

definition proposes :: "goerr + ProposalResult \<Rightarrow> bool" where
  "proposes res = (case res of Inl _ \<Rightarrow> False | Inr r \<Rightarrow> pp_proposed r \<and> pp_action r \<noteq> None)"

lemma proposes_iff: "proposes res \<longleftrightarrow> (\<exists>r a. res = Inr r \<and> pp_proposed r \<and> pp_action r = Some a)"
  by (auto simp: proposes_def split: sum.split)

lemma ex_rules_propose: "proposes (snd (Propose ex_rules ex_world 7 ex_diagnosis ex_incident))"
  by code_simp

lemma ex_plan_proposes: "proposes (snd (Propose ex_planned ex_world 7 ex_image_diagnosis ex_incident))"
  by code_simp

lemma ex_rules_outcome:
  obtains w' r a where "Propose ex_rules ex_world 7 ex_diagnosis ex_incident = (w', Inr r)" "pp_proposed r" "pp_action r = Some a"
proof -
  obtain w' res where o: "Propose ex_rules ex_world 7 ex_diagnosis ex_incident = (w', res)" by fastforce
  with ex_rules_propose obtain r a where "res = Inr r" "pp_proposed r" "pp_action r = Some a"
    unfolding proposes_iff by auto
  with o show ?thesis by (intro that) simp_all
qed

lemma ex_plan_outcome:
  obtains w' r a where "Propose ex_planned ex_world 7 ex_image_diagnosis ex_incident = (w', Inr r)" "pp_proposed r"
    "pp_action r = Some a"
proof -
  obtain w' res where o: "Propose ex_planned ex_world 7 ex_image_diagnosis ex_incident = (w', res)" by fastforce
  with ex_plan_proposes obtain r a where "res = Inr r" "pp_proposed r" "pp_action r = Some a"
    unfolding proposes_iff by auto
  with o show ?thesis by (intro that) simp_all
qed

lemma ex_owned:
  "IsOwned (Some (snd (observeWorkload (pr_client ex_planned) 7 ex_world (Some ex_webRef))))"
  "dg_personaRef ex_image_diagnosis = Some ex_webRef"
  "set (map ps_command (pl_steps ex_plan)) \<inter> {c. writesWorkload c} \<noteq> {}"
proof -
  show "IsOwned (Some (snd (observeWorkload (pr_client ex_planned) 7 ex_world (Some ex_webRef))))" by code_simp
  show "dg_personaRef ex_image_diagnosis = Some ex_webRef"
    by (simp add: ex_image_diagnosis_def ex_diagnosis_def ex_webRef_def)
  have "list_ex writesWorkload (map ps_command (pl_steps ex_plan))" by code_simp
  then show "set (map ps_command (pl_steps ex_plan)) \<inter> {c. writesWorkload c} \<noteq> {}" by (auto simp: list_ex_iff)
qed

theorem proposals_ask_and_never_write_owned_witness:
  "\<exists>w' r a. Propose ex_planned ex_world 7 ex_image_diagnosis ex_incident = (w', Inr r) \<and> pp_action r = Some a \<and>
     ra_phase a = Pending \<and> IsOwned (sp_workloadRef (ra_spec a)) \<and>
     (\<forall>s \<in> set (steps_of a). \<not> writesWorkload (st_command s))"
proof -
  obtain w' r a where o: "Propose ex_planned ex_world 7 ex_image_diagnosis ex_incident = (w', Inr r)" "pp_proposed r"
    using ex_plan_outcome by metis
  from proposals_ask_and_never_write_owned [OF o] obtain b ref where
    b: "pp_action r = Some b" "dg_personaRef ex_image_diagnosis = Some ref" "ra_phase b = Pending"
      "sp_workloadRef (ra_spec b) = Some (snd (observeWorkload (pr_client ex_planned) 7 ex_world (Some ref)))"
      "IsOwned (sp_workloadRef (ra_spec b)) \<longrightarrow> (\<forall>s \<in> set (steps_of b). \<not> writesWorkload (st_command s))"
    by blast
  have "ref = ex_webRef" using b(2) ex_owned(2) by simp
  then have "IsOwned (sp_workloadRef (ra_spec b))" using b(4) ex_owned(1) by simp
  with o b show ?thesis by blast
qed

theorem planner_and_cluster_behind_gates_witness:
  "(\<exists>ref. dg_personaRef ex_image_diagnosis = Some ref \<and> gatesOpen ex_planned ex_world ex_image_diagnosis ex_incident ref) \<and>
   list_all (\<lambda>ns. ns \<noteq> [] \<and> \<not> NamespaceProtected (Some (pr_safety ex_planned)) ex_world ns)
     (diagnosisNamespaces ex_image_diagnosis)"
proof -
  obtain w' r where o: "Propose ex_planned ex_world 7 ex_image_diagnosis ex_incident = (w', Inr r)" "pp_proposed r"
    using ex_plan_outcome by metis
  have "\<not> proposes (snd (Propose (ex_planned\<lparr>pr_planner := None\<rparr>) ex_world 7 ex_image_diagnosis ex_incident))"
    by code_simp
  moreover have "proposes (Inr r)" using ex_plan_proposes o(1) by simp
  ultimately have "Propose (ex_planned\<lparr>pr_planner := None\<rparr>) ex_world 7 ex_image_diagnosis ex_incident \<noteq> (w', Inr r)"
    by auto
  with planner_and_cluster_behind_gates [OF o(1)] show ?thesis unfolding list_all_iff by blast
qed




theorem increase_at_most_doubles_witness:
  "\<exists>k. 536870912 \<le> k \<and> k \<le> 2 * 536870912 \<and>
     scaleQuantity ex_quantity_ops (ex_bytes ''512Mi'' 536870912) (increaseMultiplier resourceKeyMemory SeverityCritical)
       resourceKeyMemory = qo_bytes ex_quantity_ops k"
proof -
  let ?n = "536870912 :: int" and ?q = "ex_bytes ''512Mi'' 536870912"
  have h: "?n = (if resourceKeyMemory = resourceKeyCPU then q_milliValue ?q else q_value ?q)" "0 \<le> ?n" "?n \<le> 2 ^ 50"
    by (simp_all add: ex_bytes_def)
  have "resourceKeyMemory \<noteq> resourceKeyCPU" by simp
  with increase_at_most_doubles [OF h, of ex_quantity_ops SeverityCritical] show ?thesis by (simp only: if_False)
qed

text \<open>A second cluster that differs in another namespace only.\<close>

definition ex_elsewhere :: cluster where
  "ex_elsewhere = ex_world\<lparr>cl_store := (cl_store ex_world)\<lparr>so_actions :=
     [((''other'', ''x''), (ex_action Pending None)\<lparr>ra_namespace := ''other'', ra_name := ''x''\<rparr>)]\<rparr>\<rparr>"

theorem context_reads_one_namespace_witness:
  "BuildContext (pr_client ex_planned) ex_world ex_diagnosis (Some ex_incident) =
     BuildContext (pr_client ex_planned) ex_elsewhere ex_diagnosis (Some ex_incident) \<and> ex_world \<noteq> ex_elsewhere"
proof -
  have r: "personaReference ex_diagnosis ex_incident = Some ex_webRef" "''shop'' = personaNamespace ex_webRef"
    by code_simp+
  have s: "cl_store ex_elsewhere = (cl_store ex_world)\<lparr>so_actions :=
     [((''other'', ''x''), (ex_action Pending None)\<lparr>ra_namespace := ''other'', ra_name := ''x''\<rparr>)]\<rparr>"
    "so_actions (cl_store ex_world) = []" by (simp_all add: ex_elsewhere_def ex_world_def)
  have "BuildContext (pr_client ex_planned) ex_world ex_diagnosis (Some ex_incident) =
     BuildContext (pr_client ex_planned) ex_elsewhere ex_diagnosis (Some ex_incident)"
    by (rule context_reads_one_namespace [OF r])
      (simp_all add: accepting_def cluster_proposer_def proposal_client_def s lookup_obj_def
        store_list_actions_def store_list_incidents_def held_incidents_def)
  moreover have "so_actions (cl_store ex_world) \<noteq> so_actions (cl_store ex_elsewhere)"
    unfolding s(2) by (simp add: s(1))
  then have "ex_world \<noteq> ex_elsewhere" by metis
  ultimately show ?thesis by blast
qed

theorem proposals_only_add_witness:
  "\<exists>w' res. Propose (cluster_proposer no_faults 7 ex_quantity_ops [''payments''] None) ex_world 7 ex_diagnosis ex_incident =
       (w', res) \<and> cluster_rest w' = cluster_rest ex_world \<and> cluster_actions ex_world \<subseteq>\<^sub>m cluster_actions w'"
proof -
  let ?p = "cluster_proposer no_faults 7 ex_quantity_ops [''payments''] None"
  obtain w' res where o: "Propose ?p ex_world 7 ex_diagnosis ex_incident = (w', res)" by fastforce
  have "dg_personaRef ex_diagnosis = Some ex_webRef" by (simp add: ex_diagnosis_def ex_webRef_def)
  from proposals_only_add [OF o this] o show ?thesis by blast
qed

end
