(* ===== verification/PersonaChecks.thy ===== *)
theory PersonaChecks
  imports Incident Grounding
begin

text \<open>
  How an ApplicationPersona is checked against its Deployment
  (\<^verbatim>\<open>internal/controller/applicationpersona_validation.go\<close>) and how its health is derived
  (\<^verbatim>\<open>applicationpersona_status.go\<close>). \<^verbatim>\<open>resource.MustParse\<close> panics on a text that is not a
  quantity, so the check of the limits returns or panics.
\<close>

datatype 'a run = Panics string | Returns 'a

fun run_bind :: "'a run \<Rightarrow> ('a \<Rightarrow> 'b run) \<Rightarrow> 'b run" where
  "run_bind (Panics msg) f = Panics msg"
| "run_bind (Returns x) f = f x"

subsection \<open>Issues (applicationpersona\_validation.go)\<close>

definition issue :: "string \<Rightarrow> string \<Rightarrow> string \<Rightarrow> string \<Rightarrow> ValidationIssue" where
  "issue severity path message suggestion =
     \<lparr>vis_severity = severity, vis_field = path, vis_message = message, vis_suggestion = suggestion\<rparr>"

definition containerField :: "Container \<Rightarrow> string \<Rightarrow> string" where
  "containerField c path = ''containers['' @ ct_name c @ ''].'' @ path"

definition MustParse :: "QuantityOps \<Rightarrow> string \<Rightarrow> Quantity run" where
  "MustParse q s =
     (case qo_parse q s of None \<Rightarrow> Panics (''cannot parse '' @ s) | Some v \<Rightarrow> Returns v)"

text \<open>
  The CPU and the memory block of the loop differ in the resource key, its label in the messages
  and the field of the persona's limits.
\<close>

definition checkLimit ::
  "QuantityOps \<Rightarrow> string \<Rightarrow> string \<Rightarrow> string \<Rightarrow> Container \<Rightarrow> ValidationIssue list run" where
  "checkLimit q key label limit c =
     (if limit = [] then Returns []
      else run_bind (MustParse q limit) (\<lambda>personaLimit.
        let containerLimit = resourceOf (ct_limits c) key in
        Returns (if \<not> q_isZero containerLimit \<and> 0 < qo_cmp q containerLimit personaLimit then
          [issue ''warning'' (containerField c (''resources.limits.'' @ key))
             (''Container '' @ label @ '' limit ('' @ q_string containerLimit @ '') exceeds persona limit ('' @
              q_string personaLimit @ '')'')
             (''Set '' @ label @ '' limit to at most '' @ limit)]
          else [])))"

definition checkRequests :: "Container \<Rightarrow> ValidationIssue list" where
  "checkRequests c =
     (if q_isZero (resourceOf (ct_requests c) ''cpu'') \<and> q_isZero (resourceOf (ct_requests c) ''memory'') then
        [issue ''warning'' (containerField c ''resources.requests'') ''No resource requests set on container''
           ''Set resource requests for predictable scheduling'']
      else [])"

definition containerResources ::
  "QuantityOps \<Rightarrow> ResourceConstraints \<Rightarrow> Container \<Rightarrow> ValidationIssue list run" where
  "containerResources q res c =
     run_bind (case rcn_limits res of None \<Rightarrow> Returns []
               | Some l \<Rightarrow> run_bind (checkLimit q ''cpu'' ''CPU'' (rv_cpu l) c) (\<lambda>cpu.
                   run_bind (checkLimit q ''memory'' ''memory'' (rv_memory l) c) (\<lambda>memory.
                     Returns (cpu @ memory))))
       (\<lambda>limits. Returns (limits @ checkRequests c))"

fun resourcesLoop ::
  "QuantityOps \<Rightarrow> ResourceConstraints \<Rightarrow> Container list \<Rightarrow> ValidationIssue list run" where
  "resourcesLoop q res [] = Returns []"
| "resourcesLoop q res (c # cs) =
     run_bind (containerResources q res c) (\<lambda>issues.
       run_bind (resourcesLoop q res cs) (\<lambda>rest. Returns (issues @ rest)))"

definition validateResources ::
  "QuantityOps \<Rightarrow> ApplicationPersonaSpec \<Rightarrow> Deployment \<Rightarrow> ValidationIssue list run" where
  "validateResources q sp deploy =
     (case asp_resources sp of None \<Rightarrow> Returns [] | Some res \<Rightarrow> resourcesLoop q res (d_containers deploy))"

definition validateReplicas :: "ApplicationPersonaSpec \<Rightarrow> Deployment \<Rightarrow> ValidationIssue list" where
  "validateReplicas sp deploy =
     (case asp_scaling sp of
        None \<Rightarrow> []
      | Some sc \<Rightarrow>
          (let replicas = (case d_replicas deploy of None \<Rightarrow> 1 | Some n \<Rightarrow> n) in
           (case scs_minReplicas sc of
              None \<Rightarrow> []
            | Some lo \<Rightarrow> if replicas < lo then
                [issue ''error'' ''spec.replicas''
                   (''Deployment replicas ('' @ showInt replicas @ '') below persona minimum ('' @ showInt lo @ '')'')
                   (''Set replicas to at least '' @ showInt lo)] else []) @
           (case scs_maxReplicas sc of
              None \<Rightarrow> []
            | Some hi \<Rightarrow> if hi < replicas then
                [issue ''warning'' ''spec.replicas''
                   (''Deployment replicas ('' @ showInt replicas @ '') above persona maximum ('' @ showInt hi @ '')'')
                   (''Set replicas to at most '' @ showInt hi)] else [])))"

definition checkLiveness :: "HealthSpec \<Rightarrow> Container \<Rightarrow> ValidationIssue list" where
  "checkLiveness h c =
     (if hsp_livenessPath h = [] then []
      else case Option.bind (ct_livenessProbe c) prb_httpGet of
             None \<Rightarrow>
               [issue ''warning'' (containerField c ''livenessProbe'')
                  ''Persona specifies livenessPath but container has no HTTP liveness probe''
                  (''Add a liveness probe at '' @ hsp_livenessPath h)]
           | Some path \<Rightarrow>
               (if path \<noteq> hsp_livenessPath h then
                  [issue ''info'' (containerField c ''livenessProbe.httpGet.path'')
                     (''Liveness path ('' @ path @ '') differs from persona ('' @ hsp_livenessPath h @ '')'')
                     (''Consider aligning to persona path: '' @ hsp_livenessPath h)]
                else []))"

definition checkReadiness :: "HealthSpec \<Rightarrow> Container \<Rightarrow> ValidationIssue list" where
  "checkReadiness h c =
     (if hsp_readinessPath h \<noteq> [] \<and> ct_readinessProbe c = None then
        [issue ''warning'' (containerField c ''readinessProbe'')
           ''Persona specifies readinessPath but container has no readiness probe''
           (''Add a readiness probe at '' @ hsp_readinessPath h)]
      else [])"

definition validateHealthProbes :: "ApplicationPersonaSpec \<Rightarrow> Deployment \<Rightarrow> ValidationIssue list" where
  "validateHealthProbes sp deploy =
     (case asp_health sp of
        None \<Rightarrow> []
      | Some h \<Rightarrow> concat (map (\<lambda>c. checkLiveness h c @ checkReadiness h c) (d_containers deploy)))"

definition runsAsRoot :: "SecurityPolicy \<Rightarrow> Deployment \<Rightarrow> ValidationIssue list" where
  "runsAsRoot sec deploy =
     (if sec_runAsNonRoot sec = Some True \<and>
         Option.bind (d_podSecurity deploy) psx_runAsNonRoot \<noteq> Some True then
        [issue ''error'' ''spec.template.spec.securityContext.runAsNonRoot''
           ''Persona requires runAsNonRoot but Deployment does not enforce it''
           ''Set spec.template.spec.securityContext.runAsNonRoot: true'']
      else [])"

definition containerSecurity :: "SecurityPolicy \<Rightarrow> Container \<Rightarrow> ValidationIssue list" where
  "containerSecurity sec c =
     (if sec_readOnlyRootFilesystem sec = Some True \<and>
         Option.bind (ct_securityContext c) sx_readOnlyRootFilesystem \<noteq> Some True then
        [issue ''warning'' (containerField c ''securityContext.readOnlyRootFilesystem'')
           ''Persona requires readOnlyRootFilesystem but container does not set it''
           ''Set readOnlyRootFilesystem: true on the container security context'']
      else []) @
     (if sec_allowPrivilegeEscalation sec = Some False \<and>
         Option.bind (ct_securityContext c) sx_allowPrivilegeEscalation = Some True then
        [issue ''error'' (containerField c ''securityContext.allowPrivilegeEscalation'')
           ''Persona forbids privilege escalation but container allows it''
           ''Set allowPrivilegeEscalation: false'']
      else [])"

definition validateSecurityContext :: "ApplicationPersonaSpec \<Rightarrow> Deployment \<Rightarrow> ValidationIssue list" where
  "validateSecurityContext sp deploy =
     (case Option.bind (asp_policies sp) pol_security of
        None \<Rightarrow> []
      | Some sec \<Rightarrow> runsAsRoot sec deploy @ concat (map (containerSecurity sec) (d_containers deploy)))"

definition countSeverity :: "ValidationIssue list \<Rightarrow> string \<Rightarrow> int" where
  "countSeverity issues severity = int (length (filter (\<lambda>i. vis_severity i = severity) issues))"

subsection \<open>Health (applicationpersona\_status.go)\<close>

abbreviation "healthStatusHealthy \<equiv> ''Healthy''"
abbreviation "healthStatusDegraded \<equiv> ''Degraded''"
abbreviation "healthStatusUnhealthy \<equiv> ''Unhealthy''"
abbreviation "healthStatusUnknown \<equiv> ''Unknown''"

definition deriveHealthFromDeployment :: "Deployment \<Rightarrow> time \<Rightarrow> HealthStatus" where
  "deriveHealthFromDeployment deploy now =
     (let st = d_status deploy;
          available = (''Available'', ''True'') \<in> set (dst_conditions st);
          progressing = (''Progressing'', ''True'') \<in> set (dst_conditions st);
          count = showInt (dst_readyReplicas st) @ ''/'' @ showInt (dst_replicas st) @ '' replicas ready'';
          mk = (\<lambda>status message. \<lparr>hst_status = status, hst_lastCheck = Some now, hst_message = message,
                                   hst_podFailures = []\<rparr>)
      in if available \<and> dst_readyReplicas st = dst_replicas st then mk healthStatusHealthy count
         else if available \<and> 0 < dst_readyReplicas st then mk healthStatusDegraded count
         else if progressing then mk healthStatusUnknown ''Deployment is progressing''
         else mk healthStatusUnhealthy count)"

definition failureReasons :: "string list" where
  "failureReasons =
     [''CrashLoopBackOff'', ''ImagePullBackOff'', ''ErrImagePull'', ''CreateContainerConfigError'',
      ''CreateContainerError'', ''InvalidImageName'', ''RunContainerError'', ''ContainerCannotRun'', ''OOMKilled'']"

definition isFailureReason :: "string \<Rightarrow> bool" where
  "isFailureReason reason = (reason \<in> set failureReasons)"

text \<open>The three blocks of \<^verbatim>\<open>extractContainerFailure\<close>: the reason and message of a failure.\<close>

definition waitingFailure :: "ContainerStatus \<Rightarrow> (string \<times> string) option" where
  "waitingFailure cs =
     (case cs_waiting cs of
        None \<Rightarrow> None
      | Some (reason, message) \<Rightarrow> if isFailureReason reason then Some (reason, message) else None)"

definition exitFailure :: "ContainerStatus \<Rightarrow> (string \<times> string) option" where
  "exitFailure cs =
     (case cs_terminated cs of
        None \<Rightarrow> None
      | Some t \<Rightarrow>
          (if tm_exitCode t = 0 then None
           else Some (if tm_reason t = [] then ''ExitCode:'' @ showInt (tm_exitCode t) else tm_reason t, tm_message t)))"

definition restartFailure :: "ContainerStatus \<Rightarrow> (string \<times> string) option" where
  "restartFailure cs =
     (case cs_lastTerminated cs of
        None \<Rightarrow> None
      | Some t \<Rightarrow>
          (if 0 < cs_restartCount cs
           then Some (''CrashLoopBackOff'', ''Restarted '' @ showInt (cs_restartCount cs) @
                      '' times; last exit code: '' @ showInt (tm_exitCode t))
           else None))"

definition orFailure :: "(string \<times> string) option \<Rightarrow> (string \<times> string) option \<Rightarrow> (string \<times> string) option" where
  "orFailure a b = (case a of Some f \<Rightarrow> Some f | None \<Rightarrow> b)"

definition extractContainerFailure :: "string \<Rightarrow> ContainerStatus \<Rightarrow> PodFailure option" where
  "extractContainerFailure podName cs =
     map_option (\<lambda>(reason, message). \<lparr>pfl_podName = podName, pfl_container = cs_name cs,
                                     pfl_reason = reason, pfl_message = message\<rparr>)
       (orFailure (waitingFailure cs) (orFailure (exitFailure cs) (restartFailure cs)))"

text \<open>The loop of \<^verbatim>\<open>getPodFailures\<close> over the pods of the Deployment.\<close>

definition podFailures :: "Pod \<Rightarrow> PodFailure list" where
  "podFailures pod =
     concat (map (\<lambda>cs. optList (extractContainerFailure (po_name pod) cs))
       (po_initContainerStatuses pod @ po_containerStatuses pod))"

definition getPodFailures ::
  "('w \<Rightarrow> Deployment \<Rightarrow> goerr + Pod list) \<Rightarrow> 'w \<Rightarrow> Deployment \<Rightarrow> goerr + PodFailure list" where
  "getPodFailures listPods w deploy =
     (case listPods w deploy of
        Inl e \<Rightarrow> Inl (Wrap ''failed to list pods'' e)
      | Inr pods \<Rightarrow> Inr (concat (map podFailures pods)))"

end
