(* ===== verification/PersonaController.thy ===== *)
theory PersonaController
  imports PersonaChecks
begin

text \<open>
  The controller of the ApplicationPersona
  (\<^verbatim>\<open>internal/controller/applicationpersona_controller.go\<close>): it ties a persona to its Deployment
  through the chain of the workload package, checks it, and writes the status.

  The cluster and the other services are the record \<open>PersonaReconciler\<close>. Listing the pods of
  a Deployment stands for making a selector of its label selector and listing with it; the query
  for the resource baseline is absent when no Prometheus is configured. Ranging over a Go map
  visits the keys in an unspecified order, the field \<open>ap_mapOrder\<close>.
\<close>

record 'w PersonaReconciler =
  ap_get :: "'w \<Rightarrow> objkey \<Rightarrow> goerr + ApplicationPersona"
  ap_listDeployments :: "'w \<Rightarrow> string \<Rightarrow> goerr + Deployment list"
  ap_listPods :: "'w \<Rightarrow> Deployment \<Rightarrow> goerr + Pod list"
  ap_listPersonas :: "'w \<Rightarrow> string \<Rightarrow> goerr + ApplicationPersona list"
  ap_statusUpdate :: "'w \<Rightarrow> ApplicationPersona \<Rightarrow> 'w \<times> goerr option"
  ap_baseline :: "('w \<Rightarrow> string \<Rightarrow> string \<Rightarrow> goerr + ResourceBaseline) option"
  ap_quantity :: QuantityOps
  ap_mapOrder :: "string list \<Rightarrow> string list"

definition requeueInterval :: duration where
  "requeueInterval = 60 * second"

abbreviation "conditionTypeReady \<equiv> ''Ready''"
abbreviation "conditionTypeValidated \<equiv> ''Validated''"
abbreviation "phasePending \<equiv> ''Pending''"
abbreviation "phaseActive \<equiv> ''Active''"
abbreviation "phaseDegraded \<equiv> ''Degraded''"
abbreviation "phaseFailed \<equiv> ''Failed''"

subsection \<open>Status of a persona\<close>

definition setConditions ::
  "time \<Rightarrow> ConditionStatus \<times> string \<times> string \<Rightarrow> ConditionStatus \<times> string \<times> string \<Rightarrow>
   ApplicationPersonaStatus \<Rightarrow> ApplicationPersonaStatus" where
  "setConditions now ready validated st =
     st\<lparr>ast_conditions := setState now conditionTypeValidated validated
                             (setState now conditionTypeReady ready (ast_conditions st))\<rparr>"

definition markUnresolved :: "time \<Rightarrow> string \<Rightarrow> string \<Rightarrow> ApplicationPersona \<Rightarrow> ApplicationPersona" where
  "markUnresolved now reason message persona =
     persona\<lparr>p_status := setConditions now (CondFalse, reason, message)
         (CondTrue, ''Skipped'', ''No Deployment to validate'')
         ((p_status persona)\<lparr>ast_phase := phasePending, ast_lastUpdated := Some now,
            ast_health := Some \<lparr>hst_status = healthStatusUnknown, hst_lastCheck = Some now,
                                hst_message = message, hst_podFailures = []\<rparr>,
            ast_validation := Some \<lparr>vst_passed = True, vst_lastChecked = Some now, vst_issues = []\<rparr>\<rparr>)\<rparr>"

text \<open>Step 4: the issues of the four checks.\<close>

definition validationIssues ::
  "QuantityOps \<Rightarrow> ApplicationPersonaSpec \<Rightarrow> Deployment \<Rightarrow> ValidationIssue list run" where
  "validationIssues q sp deploy =
     run_bind (validateResources q sp deploy) (\<lambda>resources.
       Returns (resources @ validateReplicas sp deploy @ validateHealthProbes sp deploy @
                validateSecurityContext sp deploy))"

definition hasErrors :: "ValidationIssue list \<Rightarrow> bool" where
  "hasErrors issues = list_ex (\<lambda>i. vis_severity i = ''error'') issues"

text \<open>Steps 6 and 6.5: the health, with the reasons of the failing pods when it is not Healthy.\<close>

definition withPodFailures :: "(string list \<Rightarrow> string list) \<Rightarrow> PodFailure list \<Rightarrow> HealthStatus \<Rightarrow> HealthStatus" where
  "withPodFailures order failures hs =
     hs\<lparr>hst_podFailures := failures,
        hst_message := hst_message hs @ ''; failures: '' @
                       joinWith '', '' (order (remdups (map pfl_reason failures)))\<rparr>"

definition observeHealth ::
  "'w PersonaReconciler \<Rightarrow> time \<Rightarrow> 'w \<Rightarrow> Deployment \<Rightarrow> HealthStatus" where
  "observeHealth r now w deploy =
     (let hs = deriveHealthFromDeployment deploy now in
      if hst_status hs = healthStatusHealthy then hs
      else case getPodFailures (ap_listPods r) w deploy of
             Inl _ \<Rightarrow> hs
           | Inr failures \<Rightarrow> (if failures = [] then hs else withPodFailures (ap_mapOrder r) failures hs))"

text \<open>Step 7: the image of the first container.\<close>

definition trackedDeployment :: "Deployment \<Rightarrow> DeploymentTracking" where
  "trackedDeployment deploy =
     \<lparr>dt_current = (case d_containers deploy of [] \<Rightarrow> [] | c # _ \<Rightarrow> ct_image c),
      dt_lastSuccessful = [], dt_lastFailed = [], dt_history = []\<rparr>"

definition noLearned :: LearnedPatterns where
  "noLearned = \<lparr>lrn_resourceBaseline = None, lrn_incidentCount = 0, lrn_lastIncident = [], lrn_patterns = []\<rparr>"

definition updateLearned ::
  "'w PersonaReconciler \<Rightarrow> 'w \<Rightarrow> string \<Rightarrow> string \<Rightarrow> LearnedPatterns option \<Rightarrow> LearnedPatterns option" where
  "updateLearned r w namespace name learned =
     (case ap_baseline r of
        None \<Rightarrow> learned
      | Some query \<Rightarrow>
          (case query w namespace name of
             Inl _ \<Rightarrow> learned
           | Inr baseline \<Rightarrow>
               Some ((case learned of None \<Rightarrow> noLearned | Some l \<Rightarrow> l)\<lparr>lrn_resourceBaseline := Some baseline\<rparr>)))"

text \<open>Step 8.\<close>

definition phaseFor :: "string \<Rightarrow> bool \<Rightarrow> string" where
  "phaseFor health errors =
     (if health = healthStatusHealthy \<and> \<not> errors then phaseActive
      else if errors then phaseDegraded
      else if health = healthStatusUnhealthy then phaseFailed
      else phaseDegraded)"

definition readyState :: "string \<Rightarrow> ConditionStatus \<times> string \<times> string" where
  "readyState phase =
     (if phase = phaseActive then (CondTrue, ''Active'', ''Deployment is healthy and passes all validations'')
      else (CondFalse, ''Issues'', ''Phase: '' @ phase))"

definition validatedState :: "ValidationIssue list \<Rightarrow> ConditionStatus \<times> string \<times> string" where
  "validatedState issues =
     (if hasErrors issues
      then (CondFalse, ''ValidationFailed'', showInt (countSeverity issues ''error'') @ '' validation error(s) found'')
      else (CondTrue, ''Passed'', ''All validations passed''))"

text \<open>Steps 5 to 9 on the status of the fetched persona.\<close>

definition assessed ::
  "'w PersonaReconciler \<Rightarrow> time \<Rightarrow> 'w \<Rightarrow> string \<Rightarrow> Deployment \<Rightarrow> ValidationIssue list \<Rightarrow>
   ApplicationPersona \<Rightarrow> ApplicationPersona" where
  "assessed r now w namespace deploy issues persona =
     (let health = observeHealth r now w deploy;
          phase = phaseFor (hst_status health) (hasErrors issues);
          st = p_status persona
      in persona\<lparr>p_status := setConditions now (readyState phase) (validatedState issues)
           (st\<lparr>ast_phase := phase, ast_lastUpdated := Some now,
               ast_deployments := Some (trackedDeployment deploy), ast_health := Some health,
               ast_validation := Some \<lparr>vst_passed = \<not> hasErrors issues, vst_lastChecked = Some now,
                                       vst_issues = issues\<rparr>,
               ast_learned := updateLearned r w namespace (asp_name (p_typed persona)) (ast_learned st)\<rparr>)\<rparr>)"

subsection \<open>Reconcile\<close>

definition persistStatus ::
  "'w PersonaReconciler \<Rightarrow> 'w \<Rightarrow> ApplicationPersona \<Rightarrow> 'w \<times> (goerr + Result)" where
  "persistStatus r w persona =
     (case ap_statusUpdate r w persona of
        (w1, Some e) \<Rightarrow> (w1, Inl e)
      | (w1, None) \<Rightarrow> (w1, Inr (requeueAfter requeueInterval)))"

definition noDeploymentMessage :: "string \<Rightarrow> string \<Rightarrow> string" where
  "noDeploymentMessage namespace name =
     ''No Deployment in namespace '' @ namespace @ '' matches persona '' @ quoteQ name @ '' by '' @ ChainDescription"

definition Persona_Reconcile ::
  "'w PersonaReconciler \<Rightarrow> time \<Rightarrow> 'w \<Rightarrow> objkey \<Rightarrow> ('w \<times> (goerr + Result)) run" where
  "Persona_Reconcile r now w key =
     (case ap_get r w key of
        Inl e \<Rightarrow> Returns (w, if api_reason_of e = Some NotFound then Inr noRequeue else Inl e)
      | Inr persona \<Rightarrow>
          (case ap_listDeployments r w (fst key) of
             Inl e \<Rightarrow> Returns (w, Inl e)
           | Inr items \<Rightarrow>
               (case Resolve items (asp_name (p_typed persona)) of
                  Inl err \<Rightarrow>
                    Returns (persistStatus r w
                      (markUnresolved now ''AmbiguousDeployment'' (ambiguousText err) persona))
                | Inr (None, _) \<Rightarrow>
                    Returns (persistStatus r w
                      (markUnresolved now ''NoDeployment''
                         (noDeploymentMessage (fst key) (asp_name (p_typed persona))) persona))
                | Inr (Some deploy, rung) \<Rightarrow>
                    run_bind (validationIssues (ap_quantity r) (p_typed persona) deploy) (\<lambda>issues.
                      Returns (persistStatus r w (assessed r now w (fst key) deploy issues persona))))))"

subsection \<open>Watches\<close>

definition deploymentToPersona :: "'w PersonaReconciler \<Rightarrow> 'w \<Rightarrow> Deployment \<Rightarrow> objkey list" where
  "deploymentToPersona r w deploy =
     (case ap_listPersonas r w (d_namespace deploy) of
        Inl _ \<Rightarrow> []
      | Inr items \<Rightarrow>
          map (\<lambda>p. (p_namespace p, p_name p)) (filter (\<lambda>p. Matches (Some deploy) (asp_name (p_typed p))) items))"

end
