(* ===== verification/ClusterDiscovery.thy ===== *)
theory ClusterDiscovery
  imports PersonaController
begin

text \<open>
  What the ClusterPersona controller discovers of a cluster: nodes, the resource summary, namespaces,
  the platform (\<^verbatim>\<open>internal/controller/clusterpersona_discovery.go\<close>) and the installed add-ons
  (\<^verbatim>\<open>clusterpersona_addons.go\<close>). The cluster is the record \<open>DiscoveryClient\<close>; ranging over
  the labels of a node visits them in an unspecified order, its field \<open>dc_labelOrder\<close>. Counters
  of type \<^verbatim>\<open>int32\<close> wrap around.
\<close>

record Namespace =
  nmsp_name :: string
  nmsp_uid :: string
  nmsp_phase :: string

record 'w DiscoveryClient =
  dc_get :: "'w \<Rightarrow> string \<Rightarrow> goerr + ClusterPersona"
  dc_update :: "'w \<Rightarrow> ClusterPersona \<Rightarrow> 'w \<times> (goerr + ClusterPersona)"
  dc_statusUpdate :: "'w \<Rightarrow> ClusterPersona \<Rightarrow> 'w \<times> goerr option"
  dc_listNodes :: "'w \<Rightarrow> goerr + Node list"
  dc_listPods :: "'w \<Rightarrow> string option \<Rightarrow> goerr + Pod list"
  dc_getNamespace :: "'w \<Rightarrow> string \<Rightarrow> goerr + Namespace"
  dc_listNamespaces :: "'w \<Rightarrow> goerr + Namespace list"
  dc_listPersonas :: "'w \<Rightarrow> goerr + ApplicationPersona list"
  dc_serverVersion :: "('w \<Rightarrow> goerr + string) option"
  dc_quantity :: QuantityOps
  dc_labelOrder :: "string list \<Rightarrow> string list"

definition wrap32 :: "int \<Rightarrow> int" where
  "wrap32 x = (x + 2 ^ 31) mod 2 ^ 32 - 2 ^ 31"

subsection \<open>Nodes\<close>

abbreviation "nodeRoleControlPlane \<equiv> ''control-plane''"
abbreviation "nodeRoleWorker \<equiv> ''worker''"

definition getNodeRole :: "Node \<Rightarrow> string" where
  "getNodeRole node =
     (if map_of (no_labels node) ''node-role.kubernetes.io/control-plane'' \<noteq> None then nodeRoleControlPlane
      else if map_of (no_labels node) ''node-role.kubernetes.io/master'' \<noteq> None then nodeRoleControlPlane
      else nodeRoleWorker)"

definition isNodeReady :: "Node \<Rightarrow> bool" where
  "isNodeReady node = list_ex (\<lambda>c. pc_type c = ''Ready'' \<and> pc_status c = ''True'') (no_conditions node)"

definition interestingPrefixes :: "string list" where
  "interestingPrefixes =
     [''node.kubernetes.io/'', ''topology.kubernetes.io/'', ''kubernetes.io/arch'', ''kubernetes.io/os'',
      ''node-role.kubernetes.io/'']"

definition interesting :: "string \<Rightarrow> bool" where
  "interesting key = list_ex (\<lambda>pre. hasPrefix key pre \<or> containsStr key ''role'') interestingPrefixes"

definition filterNodeLabels :: "(string \<times> string) list \<Rightarrow> (string \<times> string) list" where
  "filterNodeLabels labels = filter (\<lambda>kv. interesting (fst kv)) labels"

definition getTaintStrings :: "(string \<times> string \<times> string) list \<Rightarrow> string list" where
  "getTaintStrings taints = map (\<lambda>(key, value, effect). key @ ''='' @ value @ '':'' @ effect) taints"

definition countReadyNodes :: "NodeInfo list \<Rightarrow> int" where
  "countReadyNodes nodes = int (length (filter ni_ready nodes))"

definition nodeResources :: "(string \<times> Quantity) list \<Rightarrow> NodeResources" where
  "nodeResources rl = \<lparr>nrs_cpu = q_string (resourceOf rl ''cpu''), nrs_memory = q_string (resourceOf rl ''memory''),
     nrs_pods = q_string (resourceOf rl ''pods''),
     nrs_ephemeralStorage = q_string (resourceOf rl ''ephemeral-storage'')\<rparr>"

definition nodeInfo :: "Node \<Rightarrow> NodeInfo" where
  "nodeInfo node = \<lparr>ni_name = no_name node, ni_role = getNodeRole node, ni_ready = isNodeReady node,
     ni_capacity = Some (nodeResources (no_capacity node)),
     ni_allocatable = Some (nodeResources (no_allocatable node)),
     ni_taints = getTaintStrings (no_taints node), ni_labels = filterNodeLabels (no_labels node),
     ni_kubeletVersion = no_kubeletVersion node, ni_containerRuntime = no_containerRuntimeVersion node\<rparr>"

definition discoverNodes :: "'w DiscoveryClient \<Rightarrow> 'w \<Rightarrow> goerr + NodeInfo list" where
  "discoverNodes r w =
     (case dc_listNodes r w of Inl e \<Rightarrow> Inl e | Inr nodes \<Rightarrow> Inr (map nodeInfo nodes))"

subsection \<open>Resource summary\<close>

text \<open>
  A pod holds an allocation once a node has accepted it and until it ends. It claims the sum of its
  containers, or what a single init container asks for if that is more.
\<close>

definition podHoldsAllocation :: "Pod \<Rightarrow> bool" where
  "podHoldsAllocation pod =
     (if po_phase pod = ''Succeeded'' \<or> po_phase pod = ''Failed'' then False else po_nodeName pod \<noteq> [])"

definition podClaim :: "QuantityOps \<Rightarrow> string \<Rightarrow> Pod \<Rightarrow> Quantity" where
  "podClaim q key pod =
     fold (\<lambda>c claim. if 0 < qo_cmp q (resourceOf (ct_requests c) key) claim
                     then resourceOf (ct_requests c) key else claim)
       (po_initContainers pod)
       (fold (\<lambda>c claim. qo_add q claim (resourceOf (ct_requests c) key)) (po_containers pod) zeroQuantity)"

text \<open>\<^verbatim>\<open>math.Round\<close> rounds half away from zero; a float outside the range becomes the least \<^verbatim>\<open>int64\<close>.\<close>

definition roundAway :: "rat \<Rightarrow> int" where
  "roundAway x = (if 0 \<le> x then \<lfloor>x + 1 / 2\<rfloor> else - \<lfloor>- x + 1 / 2\<rfloor>)"

definition toInt64 :: "int \<Rightarrow> int" where
  "toInt64 n = (if - (2 ^ 63) \<le> n \<and> n < 2 ^ 63 then n else - (2 ^ 63))"

definition utilization :: "int \<Rightarrow> int \<Rightarrow> int" where
  "utilization used acc = toInt64 (roundAway (fmul (fdiv (fl64 (of_int used)) (fl64 (of_int acc))) 100))"

definition utilizationPercent :: "int \<Rightarrow> int \<Rightarrow> string" where
  "utilizationPercent used acc =
     (if acc \<le> 0 then [] else showInt (utilization used acc) @ ''%'')"

definition setClaimedResources ::
  "QuantityOps \<Rightarrow> Pod list \<Rightarrow> Quantity \<Rightarrow> Quantity \<Rightarrow> ClusterResourceSummary \<Rightarrow> ClusterResourceSummary" where
  "setClaimedResources q pods allocatableCPU allocatableMemory summary =
     (let holding = filter podHoldsAllocation pods;
          requested = (\<lambda>key. fold (\<lambda>pod acc. qo_add q acc (podClaim q key pod)) holding zeroQuantity)
      in summary\<lparr>crs_usedCPU := q_string (requested ''cpu''), crs_usedMemory := q_string (requested ''memory''),
           crs_cpuUtilization := utilizationPercent (q_milliValue (requested ''cpu'')) (q_milliValue allocatableCPU),
           crs_memoryUtilization := utilizationPercent (q_value (requested ''memory'')) (q_value allocatableMemory)\<rparr>)"

text \<open>The running total of one resource over the nodes: texts that do not parse are passed over.\<close>

definition nodeTotal ::
  "QuantityOps \<Rightarrow> (NodeInfo \<Rightarrow> NodeResources option) \<Rightarrow> (NodeResources \<Rightarrow> string) \<Rightarrow> NodeInfo list \<Rightarrow> Quantity" where
  "nodeTotal q part field nodes =
     fold (\<lambda>node acc. case Option.bind (part node) (\<lambda>rs. qo_parse q (field rs)) of
             None \<Rightarrow> acc | Some v \<Rightarrow> qo_add q acc v) nodes zeroQuantity"

definition totalPods :: "QuantityOps \<Rightarrow> NodeInfo list \<Rightarrow> int" where
  "totalPods q nodes =
     fold (\<lambda>node acc. case Option.bind (ni_capacity node) (\<lambda>rs. qo_parse q (nrs_pods rs)) of
             None \<Rightarrow> acc | Some v \<Rightarrow> wrap64 (acc + q_value v)) nodes 0"

definition calculateResourceSummary ::
  "'w DiscoveryClient \<Rightarrow> 'w \<Rightarrow> NodeInfo list \<Rightarrow> ClusterResourceSummary" where
  "calculateResourceSummary r w nodes =
     (let q = dc_quantity r;
          allocatableCPU = nodeTotal q ni_allocatable nrs_cpu nodes;
          allocatableMemory = nodeTotal q ni_allocatable nrs_memory nodes;
          summary = \<lparr>crs_totalCPU = q_string (nodeTotal q ni_capacity nrs_cpu nodes),
                     crs_totalMemory = q_string (nodeTotal q ni_capacity nrs_memory nodes),
                     crs_allocatableCPU = q_string allocatableCPU,
                     crs_allocatableMemory = q_string allocatableMemory,
                     crs_usedCPU = [], crs_usedMemory = [], crs_cpuUtilization = [], crs_memoryUtilization = [],
                     crs_totalPods = wrap32 (totalPods q nodes), crs_runningPods = 0,
                     crs_nodeCount = wrap32 (int (length nodes))\<rparr>
      in case dc_listPods r w None of
           Inl _ \<Rightarrow> summary
         | Inr pods \<Rightarrow>
             setClaimedResources q pods allocatableCPU allocatableMemory
               (summary\<lparr>crs_runningPods :=
                  wrap32 (int (length (filter (\<lambda>p. po_phase p = ''Running'') pods)))\<rparr>))"

subsection \<open>Namespaces and applications\<close>

definition discoverNamespaces :: "'w DiscoveryClient \<Rightarrow> 'w \<Rightarrow> goerr + NamespaceSummary" where
  "discoverNamespaces r w =
     (case dc_listNamespaces r w of
        Inl e \<Rightarrow> Inl e
      | Inr items \<Rightarrow>
          Inr \<lparr>nsm_total = wrap32 (int (length items)),
               nsm_active = wrap32 (int (length (filter (\<lambda>ns. nmsp_phase ns = ''Active'') items))),
               nsm_withPersonas =
                 (case dc_listPersonas r w of
                    Inl _ \<Rightarrow> 0 | Inr ps \<Rightarrow> wrap32 (int (length (remdups (map p_namespace ps)))))\<rparr>)"

definition countApplicationPersonas :: "'w DiscoveryClient \<Rightarrow> 'w \<Rightarrow> goerr + int" where
  "countApplicationPersonas r w =
     (case dc_listPersonas r w of Inl e \<Rightarrow> Inl e | Inr ps \<Rightarrow> Inr (wrap32 (int (length ps))))"

subsection \<open>Phase and platform\<close>

abbreviation "clusterPhaseDiscovering \<equiv> ''Discovering''"
abbreviation "clusterPhaseReady \<equiv> ''Ready''"
abbreviation "clusterPhaseDegraded \<equiv> ''Degraded''"
abbreviation "clusterPhaseUnknown \<equiv> ''Unknown''"

definition determinePhase :: "NodeInfo list \<Rightarrow> string" where
  "determinePhase nodes =
     (if nodes = [] then clusterPhaseDiscovering
      else if countReadyNodes nodes = int (length nodes) then clusterPhaseReady
      else clusterPhaseDegraded)"

definition labelPlatforms :: "(string \<times> string) list" where
  "labelPlatforms =
     [(''eks.amazonaws.com'', ''EKS''), (''cloud.google.com/gke'', ''GKE''), (''kubernetes.azure.com'', ''AKS''),
      (''node.openshift.io'', ''OpenShift''), (''minikube.k8s.io'', ''Minikube''), (''kind.x-k8s.io'', ''Kind''),
      (''k3s.io'', ''K3s'')]"

definition providerPlatforms :: "(string \<times> string) list" where
  "providerPlatforms = [(''aws://'', ''EKS''), (''gce://'', ''GKE''), (''azure://'', ''AKS''), (''kind://'', ''Kind'')]"

text \<open>The two switches: the first case that applies.\<close>

definition labelPlatform :: "string \<Rightarrow> string option" where
  "labelPlatform key = map_option snd (List.find (\<lambda>(hint, _). containsStr key hint) labelPlatforms)"

definition providerPlatform :: "string \<Rightarrow> string option" where
  "providerPlatform providerID = map_option snd (List.find (\<lambda>(pre, _). hasPrefix providerID pre) providerPlatforms)"

fun firstPlatform :: "string list \<Rightarrow> string option" where
  "firstPlatform [] = None"
| "firstPlatform (key # keys) = (case labelPlatform key of Some p \<Rightarrow> Some p | None \<Rightarrow> firstPlatform keys)"

definition detectPlatform :: "'w DiscoveryClient \<Rightarrow> 'w \<Rightarrow> NodeInfo list \<Rightarrow> string" where
  "detectPlatform r w nodes =
     (if nodes = [] then ''Unknown''
      else case firstPlatform (concat (map (\<lambda>n. dc_labelOrder r (map fst (ni_labels n))) nodes)) of
             Some p \<Rightarrow> p
           | None \<Rightarrow>
               (case dc_listNodes r w of
                  Inr (node # _) \<Rightarrow>
                    (case providerPlatform (no_providerID node) of Some p \<Rightarrow> p | None \<Rightarrow> ''Generic'')
                | _ \<Rightarrow> ''Generic''))"

end
