(* ===== verification/ClusterAddons.thy ===== *)
theory ClusterAddons
  imports ClusterDiscovery
begin

text \<open>
  The add-ons of a cluster (\<^verbatim>\<open>internal/controller/clusterpersona_addons.go\<close>): an add-on is
  installed if its namespace exists and has a pod named after it; its version comes from the pod's
  labels or its image.
\<close>

definition isDigit :: "char \<Rightarrow> bool" where
  "isDigit c = (48 \<le> (of_char c :: nat) \<and> (of_char c :: nat) \<le> 57)"

text \<open>What may follow the hyphen in front of a version: a digit, or \<^verbatim>\<open>v\<close> and a digit.\<close>

fun startsVersion :: "string \<Rightarrow> bool" where
  "startsVersion [] = False"
| "startsVersion [c] = isDigit c"
| "startsVersion (c # d # s) = (isDigit c \<or> (c = CHR ''v'' \<and> isDigit d))"

text \<open>The loop from the end of the label to its start: the text after the last hyphen that fits.\<close>

fun lastVersion :: "string \<Rightarrow> string option" where
  "lastVersion [] = None"
| "lastVersion (c # s) =
     (case lastVersion s of
        Some v \<Rightarrow> Some v
      | None \<Rightarrow> if c = CHR ''-'' \<and> startsVersion s then Some s else None)"

definition extractVersionFromHelmChartLabel :: "(string \<times> string) list \<Rightarrow> string" where
  "extractVersionFromHelmChartLabel labels =
     (case map_of labels ''helm.sh/chart'' of
        None \<Rightarrow> []
      | Some chartLabel \<Rightarrow> (case lastVersion chartLabel of None \<Rightarrow> [] | Some v \<Rightarrow> v))"

definition isHexChar :: "char \<Rightarrow> bool" where
  "isHexChar c = (let n = (of_char c :: nat) in
     (48 \<le> n \<and> n \<le> 57) \<or> (97 \<le> n \<and> n \<le> 102) \<or> (65 \<le> n \<and> n \<le> 70))"

definition isHexDigest :: "string \<Rightarrow> bool" where
  "isHexDigest s = (if length s < 40 then False else list_all isHexChar s)"

definition versionFromImage :: "string \<Rightarrow> string" where
  "versionFromImage img =
     (case splitLast (CHR '':'') img of
        None \<Rightarrow> []
      | Some (_, tag) \<Rightarrow> if isHexDigest tag \<or> tag = ''latest'' then ''unknown'' else tag)"

definition addonVersion :: "Pod \<Rightarrow> string" where
  "addonVersion pod =
     (if getStr (po_labels pod) ''app.kubernetes.io/version'' \<noteq> [] then
        getStr (po_labels pod) ''app.kubernetes.io/version''
      else if extractVersionFromHelmChartLabel (po_labels pod) \<noteq> [] then
        extractVersionFromHelmChartLabel (po_labels pod)
      else case po_containers pod of [] \<Rightarrow> [] | c # _ \<Rightarrow> versionFromImage (ct_image c))"

definition podIsAddon :: "string \<Rightarrow> Pod \<Rightarrow> bool" where
  "podIsAddon name pod \<longleftrightarrow>
     containsStr (po_name pod) name \<or> containsStr (po_name pod) (filter (\<lambda>c. c \<noteq> CHR ''-'') name)"

definition checkAddon :: "'w DiscoveryClient \<Rightarrow> 'w \<Rightarrow> string \<Rightarrow> string \<Rightarrow> string \<Rightarrow> AddonInfo" where
  "checkAddon r w name namespace addonType =
     (let addon = \<lparr>adn_name = name, adn_type = addonType, adn_installed = False, adn_version = [],
                   adn_namespace = namespace, adn_healthy = None\<rparr>
      in case dc_getNamespace r w namespace of
           Inl _ \<Rightarrow> addon
         | Inr _ \<Rightarrow>
             (case dc_listPods r w (Some namespace) of
                Inl _ \<Rightarrow> addon
              | Inr pods \<Rightarrow>
                  (case List.find (podIsAddon name) pods of
                     None \<Rightarrow> addon
                   | Some pod \<Rightarrow>
                       addon\<lparr>adn_installed := True, adn_namespace := namespace, adn_version := addonVersion pod,
                             adn_healthy := Some (po_phase pod = ''Running'')\<rparr>)))"

definition discoverAddons :: "'w DiscoveryClient \<Rightarrow> 'w \<Rightarrow> AddonInfo list" where
  "discoverAddons r w =
     (let argoCD = checkAddon r w ''argocd'' ''argocd'' ''gitops'';
          prometheus0 = checkAddon r w ''prometheus'' ''monitoring'' ''monitoring'';
          prometheus = (if \<not> adn_installed prometheus0
                        then checkAddon r w ''prometheus-server'' ''monitoring'' ''monitoring'' else prometheus0)
      in [argoCD, prometheus,
          checkAddon r w ''grafana'' ''monitoring'' ''monitoring'',
          checkAddon r w ''cert-manager'' ''cert-manager'' ''cert-management'',
          checkAddon r w ''ingress-nginx-controller'' ''ingress-nginx'' ''ingress'',
          checkAddon r w ''external-secrets'' ''external-secrets'' ''secrets'',
          checkAddon r w ''istiod'' ''istio-system'' ''service-mesh'',
          checkAddon r w ''openobserve'' ''openobserve'' ''monitoring'',
          checkAddon r w ''cnpg-cloudnative-pg'' ''cnpg-system'' ''database''])"

end
