(* ===== verification/ClusterController.thy ===== *)
theory ClusterController
  imports ClusterAddons Proposer
begin

text \<open>
  The controller of the ClusterPersona (\<^verbatim>\<open>internal/controller/clusterpersona_controller.go\<close>) and
  the bootstrap that creates the first one (\<^verbatim>\<open>clusterpersona_bootstrap.go\<close>). An update that is
  accepted returns the object as the server stores it, which replaces the one in memory.
\<close>

definition clusterRequeueInterval :: duration where
  "clusterRequeueInterval = 5 * minute"

abbreviation "conditionTypeDiscovered \<equiv> ''Discovered''"
abbreviation "conditionTypeHealthy \<equiv> ''Healthy''"

subsection \<open>Self-healing defaults\<close>

definition noSelfHealing :: SelfHealingPolicy where
  "noSelfHealing = \<lparr>sh_enabled = False, sh_mode = [], sh_trustLevel = 0, sh_maxRemediationsPerHour = 0,
     sh_excludeNamespaces = [], sh_rollback = None\<rparr>"

definition noClusterPolicies :: ClusterPolicies where
  "noClusterPolicies = \<lparr>cpl_security = None, cpl_networking = None, cpl_compliance = [], cpl_selfHealing = None\<rparr>"

definition defaultSelfHealing :: "SelfHealingPolicy \<Rightarrow> SelfHealingPolicy" where
  "defaultSelfHealing sh =
     (let sh1 = (if sh_mode sh = [] then sh\<lparr>sh_mode := SelfHealingModePropose\<rparr> else sh)
      in if sh_trustLevel sh1 = 0 then sh1\<lparr>sh_trustLevel := 2\<rparr> else sh1)"

definition applySelfHealingDefaults :: "ClusterPersona \<Rightarrow> ClusterPersona \<times> bool" where
  "applySelfHealingDefaults persona =
     (let policies = (case cps_policies (cp_spec persona) of None \<Rightarrow> noClusterPolicies | Some pol \<Rightarrow> pol);
          sh = (case cpl_selfHealing policies of None \<Rightarrow> noSelfHealing | Some s \<Rightarrow> s);
          changed = (cps_policies (cp_spec persona) = None \<or> cpl_selfHealing policies = None \<or>
                     sh_mode sh = [] \<or> sh_trustLevel sh = 0)
      in (persona\<lparr>cp_spec := (cp_spec persona)\<lparr>cps_policies :=
            Some (policies\<lparr>cpl_selfHealing := Some (defaultSelfHealing sh)\<rparr>)\<rparr>\<rparr>, changed))"

subsection \<open>Reconcile\<close>

definition nodesReadyText :: "NodeInfo list \<Rightarrow> string" where
  "nodesReadyText nodes = showInt (countReadyNodes nodes) @ ''/'' @ showInt (int (length nodes)) @ '' nodes ready''"

text \<open>Step 10.\<close>

definition clusterConditions :: "time \<Rightarrow> NodeInfo list \<Rightarrow> string \<Rightarrow> Condition list \<Rightarrow> Condition list" where
  "clusterConditions now nodes phase conds =
     (if phase = clusterPhaseReady then
        setCondition now conditionTypeHealthy CondTrue ''AllNodesReady'' (nodesReadyText nodes)
          (setCondition now conditionTypeDiscovered CondTrue ''DiscoveryComplete''
             ''Cluster state discovered successfully'' conds)
      else
        setCondition now conditionTypeHealthy CondFalse ''NodesNotReady'' (nodesReadyText nodes)
          (setCondition now conditionTypeDiscovered CondTrue ''DiscoveryComplete''
             ''Cluster state discovered with issues'' conds))"

text \<open>Step 2: the nodes, or the ones of the last discovery with a condition that says so.\<close>

definition knownNodes ::
  "'w DiscoveryClient \<Rightarrow> time \<Rightarrow> 'w \<Rightarrow> ClusterPersonaStatus \<Rightarrow> NodeInfo list \<times> ClusterPersonaStatus" where
  "knownNodes r now w st =
     (case discoverNodes r w of
        Inl e \<Rightarrow> (cst_nodes st, st\<lparr>cst_conditions := setCondition now conditionTypeDiscovered CondFalse
                    ''NodeDiscoveryFailed'' (err_text e) (cst_conditions st)\<rparr>)
      | Inr nodes \<Rightarrow> (nodes, st\<lparr>cst_nodes := nodes\<rparr>))"

text \<open>Steps 2 to 10 on the status of the fetched object.\<close>

definition discovered :: "'w DiscoveryClient \<Rightarrow> time \<Rightarrow> 'w \<Rightarrow> ClusterPersonaStatus \<Rightarrow> ClusterPersonaStatus" where
  "discovered r now w st0 =
     (let (nodes, st) = knownNodes r now w
            (st0\<lparr>cst_phase := clusterPhaseDiscovering, cst_lastDiscovery := Some now\<rparr>);
          phase = determinePhase nodes
      in st\<lparr>cst_resourceSummary := Some (calculateResourceSummary r w nodes),
            cst_addons := discoverAddons r w,
            cst_namespaces := (case discoverNamespaces r w of Inl _ \<Rightarrow> cst_namespaces st | Inr s \<Rightarrow> Some s),
            cst_kubernetesVersion := (case dc_serverVersion r of
                None \<Rightarrow> cst_kubernetesVersion st
              | Some version \<Rightarrow> (case version w of Inl _ \<Rightarrow> cst_kubernetesVersion st | Inr v \<Rightarrow> v)),
            cst_platform := detectPlatform r w nodes,
            cst_applicationCount := (case countApplicationPersonas r w of
                Inl _ \<Rightarrow> cst_applicationCount st | Inr n \<Rightarrow> n),
            cst_phase := phase,
            cst_conditions := clusterConditions now nodes phase (cst_conditions st)\<rparr>)"

definition persistCluster ::
  "'w DiscoveryClient \<Rightarrow> 'w \<Rightarrow> ClusterPersona \<Rightarrow> 'w \<times> (goerr + Result)" where
  "persistCluster r w persona =
     (case dc_statusUpdate r w persona of
        (w1, Some e) \<Rightarrow> (w1, Inl e)
      | (w1, None) \<Rightarrow> (w1, Inr (requeueAfter clusterRequeueInterval)))"

definition Cluster_Reconcile :: "'w DiscoveryClient \<Rightarrow> time \<Rightarrow> 'w \<Rightarrow> string \<Rightarrow> 'w \<times> (goerr + Result)" where
  "Cluster_Reconcile r now w key =
     (case dc_get r w key of
        Inl e \<Rightarrow> (w, if api_reason_of e = Some NotFound then Inr noRequeue else Inl e)
      | Inr persona0 \<Rightarrow>
          (let (persona1, updated) = applySelfHealingDefaults persona0
           in case (if updated then dc_update r w persona1 else (w, Inr persona1)) of
                (w1, Inl e) \<Rightarrow> (w1, Inl e)
              | (w1, Inr persona) \<Rightarrow>
                  persistCluster r w1 (persona\<lparr>cp_status := discovered r now w1 (cp_status persona)\<rparr>)))"

subsection \<open>Bootstrap\<close>

abbreviation "bootstrapPersonaName \<equiv> ''dorgu-cluster''"
abbreviation "annotationClusterUID \<equiv> ''dorgu.io/cluster-uid''"
abbreviation "annotationBootstrap \<equiv> ''dorgu.io/bootstrap''"

definition defaultEnsureInterval :: duration where "defaultEnsureInterval = 2 * minute"

definition minEnsureInterval :: duration where "minEnsureInterval = 30 * second"

text \<open>
  The periodic run and the backoff of \<^verbatim>\<open>k8s.io/apimachinery/pkg/util/wait\<close> are outside the program;
  a backoff gets a condition that says whether it is done, and returns an error if it never was.
\<close>

record 'w ClusterPersonaBootstrap =
  bs_list :: "'w \<Rightarrow> goerr + ClusterPersona list"
  bs_getNamespace :: "'w \<Rightarrow> string \<Rightarrow> goerr + Namespace"
  bs_create :: "'w \<Rightarrow> ClusterPersona \<Rightarrow> 'w \<times> goerr option"
  bs_backoff :: "(('w \<times> goerr option) \<Rightarrow> ('w \<times> goerr option) \<times> bool) \<Rightarrow>
                 ('w \<times> goerr option) \<Rightarrow> ('w \<times> goerr option) \<times> goerr option"
  bs_ensureInterval :: duration

definition ensureInterval :: "'w ClusterPersonaBootstrap \<Rightarrow> duration" where
  "ensureInterval b =
     (if bs_ensureInterval b \<le> 0 then defaultEnsureInterval
      else if bs_ensureInterval b < minEnsureInterval then minEnsureInterval
      else bs_ensureInterval b)"

definition emptyClusterStatus :: ClusterPersonaStatus where
  "emptyClusterStatus = \<lparr>cst_phase = [], cst_lastDiscovery = None, cst_nodes = [], cst_resourceSummary = None,
     cst_addons = [], cst_namespaces = None, cst_kubernetesVersion = [], cst_platform = [],
     cst_applicationCount = 0, cst_conditions = []\<rparr>"

definition buildPersona :: "string \<Rightarrow> ClusterPersona" where
  "buildPersona clusterUID =
     \<lparr>cp_name = bootstrapPersonaName,
      cp_annotations = [(annotationBootstrap, ''true'')] @
        (if clusterUID \<noteq> [] then [(annotationClusterUID, clusterUID)] else []),
      cp_spec = \<lparr>cps_name = bootstrapPersonaName,
        cps_description = ''Auto-created by Dorgu Operator on startup'', cps_environment = ''development'',
        cps_policies = Some (noClusterPolicies\<lparr>cpl_selfHealing := Some
          \<lparr>sh_enabled = True, sh_mode = SelfHealingModePropose, sh_trustLevel = 2,
           sh_maxRemediationsPerHour = 5, sh_excludeNamespaces = [], sh_rollback = None\<rparr>\<rparr>),
        cps_conventions = None, cps_defaults = None, cps_resourceQuotas = None\<rparr>,
      cp_status = emptyClusterStatus\<rparr>"

definition ensure :: "'w ClusterPersonaBootstrap \<Rightarrow> 'w \<Rightarrow> 'w \<times> goerr option" where
  "ensure b w =
     (case bs_list b w of
        Inl e \<Rightarrow> (w, Some (Wrap ''listing ClusterPersonas'' e))
      | Inr (_ # _) \<Rightarrow> (w, None)
      | Inr [] \<Rightarrow>
          (let clusterUID = (case bs_getNamespace b w ''kube-system'' of Inl _ \<Rightarrow> [] | Inr ns \<Rightarrow> nmsp_uid ns)
           in case bs_create b w (buildPersona clusterUID) of
                (w1, None) \<Rightarrow> (w1, None)
              | (w1, Some e) \<Rightarrow>
                  (if api_reason_of e = Some AlreadyExists then (w1, None)
                   else (w1, Some (Wrap (''creating ClusterPersona '' @ quoteQ bootstrapPersonaName) e)))))"

text \<open>The condition given to the backoff keeps the last error beside the world.\<close>

definition ensureAttempt :: "'w ClusterPersonaBootstrap \<Rightarrow> ('w \<times> goerr option) \<Rightarrow> ('w \<times> goerr option) \<times> bool" where
  "ensureAttempt b st =
     (case ensure b (fst st) of
        (w1, Some e) \<Rightarrow> ((w1, Some e), False)
      | (w1, None) \<Rightarrow> ((w1, snd st), True))"

definition ensureWithRetry :: "'w ClusterPersonaBootstrap \<Rightarrow> 'w \<Rightarrow> 'w \<times> goerr option" where
  "ensureWithRetry b w =
     (case bs_backoff b (ensureAttempt b) (w, None) of
        ((w1, _), None) \<Rightarrow> (w1, None)
      | ((w1, Some lastErr), Some _) \<Rightarrow> (w1, Some (Wrap ''ensuring ClusterPersona after retries'' lastErr))
      | ((w1, None), Some e) \<Rightarrow> (w1, Some (Wrap ''ensuring ClusterPersona'' e)))"

text \<open>
  The ticks of \<^verbatim>\<open>Start\<close>: one ensure now and one after every interval, whatever happens in
  between; an error is logged and the next tick tries again.
\<close>

fun Start :: "'w ClusterPersonaBootstrap \<Rightarrow> ('w \<Rightarrow> 'w) list \<Rightarrow> 'w \<Rightarrow> 'w" where
  "Start b [] w = fst (ensureWithRetry b w)"
| "Start b (between # ticks) w = Start b ticks (between (fst (ensureWithRetry b w)))"

end
