(* ===== verification/PersonaProps.thy ===== *)
theory PersonaProps
  imports PersonaController PlanContext
begin

text \<open>
  What the persona controller guarantees: its verdict on an application, the errors that are panics, the
  schema of what it writes, what its record of images means to the planner, and which Deployments
  it has to watch.
\<close>

subsection \<open>What a persona demands\<close>

definition serving :: "Deployment \<Rightarrow> bool" where
  "serving d = ((''Available'', ''True'') \<in> set (dst_conditions (d_status d)) \<and>
     dst_readyReplicas (d_status d) = dst_replicas (d_status d))"

definition replicasOf :: "Deployment \<Rightarrow> int" where
  "replicasOf d = (case d_replicas d of None \<Rightarrow> 1 | Some n \<Rightarrow> n)"

definition demands_met :: "ApplicationPersonaSpec \<Rightarrow> Deployment \<Rightarrow> bool" where
  "demands_met sp d \<longleftrightarrow>
     (\<forall>sc lo. asp_scaling sp = Some sc \<longrightarrow> scs_minReplicas sc = Some lo \<longrightarrow> lo \<le> replicasOf d) \<and>
     (\<forall>pol sec. asp_policies sp = Some pol \<longrightarrow> pol_security pol = Some sec \<longrightarrow>
        (sec_runAsNonRoot sec = Some True \<longrightarrow> d_podSecurity d = Some \<lparr>psx_runAsNonRoot = Some True\<rparr>) \<and>
        (sec_allowPrivilegeEscalation sec = Some False \<longrightarrow>
           (\<forall>c \<in> set (d_containers d). \<forall>sx. ct_securityContext c = Some sx \<longrightarrow>
              sx_allowPrivilegeEscalation sx \<noteq> Some True)))"

lemma bind_is_Some: "Option.bind a f = Some y \<longleftrightarrow> (\<exists>x. a = Some x \<and> f x = Some y)"
  by (cases a) simp_all

lemma run_bind_assoc [simp]: "run_bind (run_bind m f) g = run_bind m (\<lambda>x. run_bind (f x) g)"
  by (cases m) simp_all

lemma run_bind_Returns: "run_bind m f = Returns y \<longleftrightarrow> (\<exists>x. m = Returns x \<and> f x = Returns y)"
  by (cases m) simp_all

lemma run_bind_Panics: "run_bind m f = Panics e \<longleftrightarrow> m = Panics e \<or> (\<exists>x. m = Returns x \<and> f x = Panics e)"
  by (cases m) simp_all

lemma hasErrors_simps [simp]:
  "hasErrors [] = False" "hasErrors (xs @ ys) = (hasErrors xs \<or> hasErrors ys)"
  "hasErrors [issue sev p m s] = (sev = ''error'')"
  "hasErrors (concat xss) = (\<exists>xs \<in> set xss. hasErrors xs)"
  by (auto simp: hasErrors_def issue_def list_ex_iff)

lemma checkLimit_warns: "checkLimit q key label limit c = Returns issues \<Longrightarrow> \<not> hasErrors issues"
  by (auto simp: checkLimit_def run_bind_Returns Let_def split: if_splits)

lemma containerResources_warns: "containerResources q res c = Returns issues \<Longrightarrow> \<not> hasErrors issues"
  by (auto simp: containerResources_def run_bind_Returns checkRequests_def
      dest: checkLimit_warns split: option.splits if_splits)

lemma resourcesLoop_warns: "resourcesLoop q res cs = Returns issues \<Longrightarrow> \<not> hasErrors issues"
  by (induction cs arbitrary: issues) (auto simp: run_bind_Returns dest: containerResources_warns)

lemma validateResources_warns: "validateResources q sp d = Returns issues \<Longrightarrow> \<not> hasErrors issues"
  by (auto simp: validateResources_def dest: resourcesLoop_warns split: option.splits)

lemma validateReplicas_errors:
  "hasErrors (validateReplicas sp d) \<longleftrightarrow>
     (\<exists>sc lo. asp_scaling sp = Some sc \<and> scs_minReplicas sc = Some lo \<and> replicasOf d < lo)"
  by (auto simp: validateReplicas_def replicasOf_def Let_def split: option.splits)

lemma probes_warn [simp]: "\<not> hasErrors (validateHealthProbes sp d)"
  by (auto simp: validateHealthProbes_def checkLiveness_def checkReadiness_def split: option.splits)

lemma containerSecurity_errors:
  "hasErrors (containerSecurity sec c) \<longleftrightarrow> sec_allowPrivilegeEscalation sec = Some False \<and>
     Option.bind (ct_securityContext c) sx_allowPrivilegeEscalation = Some True"
  by (auto simp: containerSecurity_def)

lemma runsAsRoot_errors:
  "hasErrors (runsAsRoot sec d) \<longleftrightarrow> sec_runAsNonRoot sec = Some True \<and>
     d_podSecurity d \<noteq> Some \<lparr>psx_runAsNonRoot = Some True\<rparr>"
  by (cases "d_podSecurity d") (auto simp: runsAsRoot_def intro: PodSecurityContext.equality)

lemma security_errors:
  "hasErrors (validateSecurityContext sp d) \<longleftrightarrow>
     (\<exists>pol sec. asp_policies sp = Some pol \<and> pol_security pol = Some sec \<and>
        (hasErrors (runsAsRoot sec d) \<or> (\<exists>c \<in> set (d_containers d). hasErrors (containerSecurity sec c))))"
proof -
  have "hasErrors (validateSecurityContext sp d) \<longleftrightarrow> (\<exists>sec. Option.bind (asp_policies sp) pol_security = Some sec \<and>
      (hasErrors (runsAsRoot sec d) \<or> (\<exists>c \<in> set (d_containers d). hasErrors (containerSecurity sec c))))"
    by (auto simp: validateSecurityContext_def split: option.splits)
  then show ?thesis by (auto simp: bind_is_Some)
qed

lemma errors_iff_demands:
  assumes "validationIssues q sp d = Returns issues"
  shows "hasErrors issues \<longleftrightarrow> \<not> demands_met sp d"
  using assms validateResources_warns
  by (auto simp: validationIssues_def run_bind_Returns demands_met_def validateReplicas_errors security_errors
      runsAsRoot_errors containerSecurity_errors bind_is_Some not_le [symmetric])

subsection \<open>Conditions and fields of the written status\<close>

definition condition_true :: "Condition list \<Rightarrow> string \<Rightarrow> bool" where
  "condition_true cs t = (\<exists>rs. condition_is cs t CondTrue rs)"

lemma setConditions_true [simp]:
  "condition_true (ast_conditions (setConditions now ready validated st)) conditionTypeReady \<longleftrightarrow> fst ready = CondTrue"
  "condition_true (ast_conditions (setConditions now ready validated st)) conditionTypeValidated \<longleftrightarrow>
     fst validated = CondTrue"
  by (auto simp: condition_true_def setConditions_def setState_def condition_is_set)

lemma setConditions_fields [simp]:
  "ast_phase (setConditions now ready validated st) = ast_phase st"
  "ast_lastUpdated (setConditions now ready validated st) = ast_lastUpdated st"
  "ast_deployments (setConditions now ready validated st) = ast_deployments st"
  "ast_health (setConditions now ready validated st) = ast_health st"
  "ast_validation (setConditions now ready validated st) = ast_validation st"
  "ast_learned (setConditions now ready validated st) = ast_learned st"
  "ast_recommendations (setConditions now ready validated st) = ast_recommendations st"
  "ast_argoCD (setConditions now ready validated st) = ast_argoCD st"
  "ast_activeIncidents (setConditions now ready validated st) = ast_activeIncidents st"
  "ast_lastIncidentTime (setConditions now ready validated st) = ast_lastIncidentTime st"
  by (simp_all add: setConditions_def)

text \<open>The persona a reconcile writes, by what the workload chain resolved to.\<close>

definition judged ::
  "'w PersonaReconciler \<Rightarrow> time \<Rightarrow> 'w \<Rightarrow> string \<Rightarrow> Deployment list \<Rightarrow> ApplicationPersona \<Rightarrow> ApplicationPersona run" where
  "judged r now w ns items p =
     (case Resolve items (asp_name (p_typed p)) of
        Inl err \<Rightarrow> Returns (markUnresolved now ''AmbiguousDeployment'' (ambiguousText err) p)
      | Inr (None, _) \<Rightarrow>
          Returns (markUnresolved now ''NoDeployment'' (noDeploymentMessage ns (asp_name (p_typed p))) p)
      | Inr (Some d, _) \<Rightarrow>
          run_bind (validationIssues (ap_quantity r) (p_typed p) d) (\<lambda>issues.
            Returns (assessed r now w ns d issues p)))"

lemma Reconcile_judged:
  assumes "ap_get r w key = Inr p" "ap_listDeployments r w (fst key) = Inr items"
  shows "Persona_Reconcile r now w key =
    run_bind (judged r now w (fst key) items p) (\<lambda>q. Returns (persistStatus r w q))"
  using assms
  by (auto simp: Persona_Reconcile_def judged_def split: sum.split option.split)

lemma resolved_written:
  assumes "Persona_Reconcile r now w key = Returns (w', res)"
    and "ap_get r w key = Inr p" "ap_listDeployments r w (fst key) = Inr items"
    and "Resolve items (asp_name (p_typed p)) = Inr (Some d, rung)"
  shows "\<exists>issues. validationIssues (ap_quantity r) (p_typed p) d = Returns issues \<and>
    (w', res) = persistStatus r w (assessed r now w (fst key) d issues p)"
  using assms(1) unfolding Reconcile_judged [OF assms(2,3)] by (fastforce simp: judged_def assms(4) run_bind_Returns)

lemma observed_status:
  "hst_status (observeHealth r now w d) = hst_status (deriveHealthFromDeployment d now)"
  by (simp add: observeHealth_def withPodFailures_def Let_def split: sum.split)

lemma derived_healthy: "hst_status (deriveHealthFromDeployment d now) = healthStatusHealthy \<longleftrightarrow> serving d"
  by (auto simp: deriveHealthFromDeployment_def serving_def Let_def)

lemma phaseFor_simps [simp]:
  "phaseFor h e = phaseActive \<longleftrightarrow> h = healthStatusHealthy \<and> \<not> e" "phaseFor h e \<noteq> phasePending"
  by (auto simp: phaseFor_def)

text \<open>
  C27. The verdict on an application. A reconcile that could read the persona and the Deployments writes
  exactly one thing, the status of that persona. The phase is Active exactly if the workload chain
  resolves to one Deployment, all of its replicas are available, and it meets every demand of the
  persona that counts as an error; the Ready condition is true in exactly that case. Validation
  passes unless a resolved Deployment breaks a demand, and an application without exactly one
  Deployment is Pending with health Unknown. Incident counts, the ArgoCD status and the recommendations stay as they were read.
\<close>

theorem persona_verdict:
  assumes "Persona_Reconcile r now w key = Returns (w', res)"
    and "ap_get r w key = Inr p" "ap_listDeployments r w (fst key) = Inr items"
  defines "tied \<equiv> (\<lambda>d. \<exists>rung. Resolve items (asp_name (p_typed p)) = Inr (Some d, rung))"
  shows "\<exists>q. (w', res) = persistStatus r w q \<and> q\<lparr>p_status := p_status p\<rparr> = p \<and>
    (let st = p_status q; old = p_status p in
     (ast_phase st = phaseActive \<longleftrightarrow> (\<exists>d. tied d \<and> serving d \<and> demands_met (p_typed p) d)) \<and>
     (condition_true (ast_conditions st) conditionTypeReady \<longleftrightarrow> ast_phase st = phaseActive) \<and>
     (\<exists>v. ast_validation st = Some v \<and>
        (vst_passed v \<longleftrightarrow> (\<forall>d. tied d \<longrightarrow> demands_met (p_typed p) d)) \<and>
        (condition_true (ast_conditions st) conditionTypeValidated \<longleftrightarrow> vst_passed v)) \<and>
     (ast_phase st = phasePending \<longleftrightarrow> \<not> (\<exists>d. tied d)) \<and>
     (ast_phase st = phasePending \<longrightarrow> map_option hst_status (ast_health st) = Some healthStatusUnknown) \<and>
     (ast_activeIncidents st, ast_lastIncidentTime st, ast_argoCD st, ast_recommendations st) =
       (ast_activeIncidents old, ast_lastIncidentTime old, ast_argoCD old, ast_recommendations old))"
proof -
  obtain q where q: "judged r now w (fst key) items p = Returns q" "(w', res) = persistStatus r w q"
    using assms(1) unfolding Reconcile_judged [OF assms(2,3)] by (auto simp: run_bind_Returns)
  show ?thesis
  proof (cases "\<exists>d. tied d")
    case False
    then have "\<exists>reason message. q = markUnresolved now reason message p"
      using q(1) by (fastforce simp: judged_def tied_def split: sum.splits option.splits)
    then show ?thesis using False q(2) by (auto simp: markUnresolved_def Let_def)
  next
    case True
    then obtain d rung where d: "Resolve items (asp_name (p_typed p)) = Inr (Some d, rung)" by (auto simp: tied_def)
    then have one: "tied e \<longleftrightarrow> e = d" for e by (auto simp: tied_def)
    obtain issues where issues: "validationIssues (ap_quantity r) (p_typed p) d = Returns issues"
      "q = assessed r now w (fst key) d issues p"
      using q(1) d by (auto simp: judged_def run_bind_Returns)
    show ?thesis
      using q(2) errors_iff_demands [OF issues(1)]
      by (intro exI [of _ q])
        (auto simp: issues(2) one assessed_def Let_def observed_status derived_healthy readyState_def validatedState_def)
  qed
qed

subsection \<open>Panics\<close>

definition unreadable :: "QuantityOps \<Rightarrow> string \<Rightarrow> bool" where
  "unreadable q s \<longleftrightarrow> s \<noteq> [] \<and> qo_parse q s = None"

lemma checkLimit_panics: "(\<exists>msg. checkLimit q key label limit c = Panics msg) \<longleftrightarrow> unreadable q limit"
  by (auto simp: checkLimit_def MustParse_def unreadable_def Let_def split: option.split)

lemma run_panics_iff: "(\<exists>msg. m = Panics msg) \<longleftrightarrow> \<not> (\<exists>x. m = Returns x)"
  by (cases m) auto

lemma bind_panics:
  "(\<exists>msg. run_bind m f = Panics msg) \<longleftrightarrow> (\<exists>msg. m = Panics msg) \<or> (\<exists>x msg. m = Returns x \<and> f x = Panics msg)"
  by (cases m) auto

lemma containerResources_panics:
  "(\<exists>msg. containerResources q res c = Panics msg) \<longleftrightarrow>
     (\<exists>l. rcn_limits res = Some l \<and> (unreadable q (rv_cpu l) \<or> unreadable q (rv_memory l)))"
proof (cases "rcn_limits res")
  case (Some l)
  then show ?thesis
    using checkLimit_panics [of q "''cpu''" "''CPU''" "rv_cpu l" c]
      checkLimit_panics [of q "''memory''" "''memory''" "rv_memory l" c]
    by (cases "checkLimit q ''cpu'' ''CPU'' (rv_cpu l) c"; cases "checkLimit q ''memory'' ''memory'' (rv_memory l) c")
      (auto simp: containerResources_def)
qed (simp add: containerResources_def)

lemma resourcesLoop_panics:
  "(\<exists>msg. resourcesLoop q res cs = Panics msg) \<longleftrightarrow> cs \<noteq> [] \<and>
     (\<exists>l. rcn_limits res = Some l \<and> (unreadable q (rv_cpu l) \<or> unreadable q (rv_memory l)))"
proof (induction cs)
  case (Cons c cs)
  then show ?case
    using containerResources_panics [of q res c]
    by (cases "containerResources q res c"; cases "resourcesLoop q res cs") auto
qed simp

text \<open>
  When a reconcile panics. The persona's limits are free text, and the check of a container's limits
  insists that they parse: reconciling a persona ends in a panic exactly if it resolves to a
  Deployment with a container and one of its two recorded limits is a text that is not a
  quantity. No other input, and no error of any call, makes it panic.
\<close>

theorem persona_panics_iff:
  "(\<exists>msg. Persona_Reconcile r now w key = Panics msg) \<longleftrightarrow>
     (\<exists>p items d rung res l. ap_get r w key = Inr p \<and> ap_listDeployments r w (fst key) = Inr items \<and>
        Resolve items (asp_name (p_typed p)) = Inr (Some d, rung) \<and> d_containers d \<noteq> [] \<and>
        asp_resources (p_typed p) = Some res \<and> rcn_limits res = Some l \<and>
        (unreadable (ap_quantity r) (rv_cpu l) \<or> unreadable (ap_quantity r) (rv_memory l)))"
proof -
  have issues: "(\<exists>msg. validationIssues q sp d = Panics msg) \<longleftrightarrow>
      (\<exists>res. asp_resources sp = Some res \<and> (\<exists>msg. resourcesLoop q res (d_containers d) = Panics msg))" for q sp d
    by (auto simp: validationIssues_def run_bind_Panics validateResources_def split: option.splits)
  have "(\<exists>msg. Persona_Reconcile r now w key = Panics msg) \<longleftrightarrow>
      (\<exists>p items d rung. ap_get r w key = Inr p \<and> ap_listDeployments r w (fst key) = Inr items \<and>
        Resolve items (asp_name (p_typed p)) = Inr (Some d, rung) \<and>
        (\<exists>msg. validationIssues (ap_quantity r) (p_typed p) d = Panics msg))"
    by (fastforce simp: Persona_Reconcile_def run_bind_Panics split: sum.splits option.splits)
  then show ?thesis unfolding issues resourcesLoop_panics by blast
qed

subsection \<open>The schema of the status\<close>

definition inEnum :: "string list \<Rightarrow> string \<Rightarrow> bool" where
  "inEnum es s \<longleftrightarrow> s \<in> set es"

definition optEnum :: "string list \<Rightarrow> string \<Rightarrow> bool" where
  "optEnum es s \<longleftrightarrow> s = [] \<or> s \<in> set es"

text \<open>
  The enumerations and the list map of the status schema; an empty optional field is not sent. The
  status of a persona is admitted if every marker of \<^verbatim>\<open>applicationpersona_types.go\<close> holds.
\<close>

definition status_admitted :: "ApplicationPersonaStatus \<Rightarrow> bool" where
  "status_admitted st \<longleftrightarrow>
     optEnum [''Pending'', ''Active'', ''Degraded'', ''Failed''] (ast_phase st) \<and>
     (\<forall>h. ast_health st = Some h \<longrightarrow>
        optEnum [''Healthy'', ''Degraded'', ''Unhealthy'', ''Unknown''] (hst_status h)) \<and>
     (\<forall>v. ast_validation st = Some v \<longrightarrow>
        (\<forall>i \<in> set (vst_issues v). inEnum [''error'', ''warning'', ''info''] (vis_severity i))) \<and>
     (\<forall>x \<in> set (ast_recommendations st).
        inEnum [''resource'', ''scaling'', ''security'', ''cost'', ''performance''] (rcm_type x) \<and>
        inEnum [''high'', ''medium'', ''low''] (rcm_priority x)) \<and>
     (\<forall>a. ast_argoCD st = Some a \<longrightarrow>
        optEnum [''Synced'', ''OutOfSync'', ''Unknown''] (arg_syncStatus a) \<and>
        optEnum [''Healthy'', ''Degraded'', ''Progressing'', ''Suspended'', ''Missing'', ''Unknown''] (arg_healthStatus a)) \<and>
     distinct (map c_type (ast_conditions st))"

lemma types_setCondition:
  "set (map c_type (setCondition now t s r m cs)) = insert t (set (map c_type cs))"
  by (induction cs) auto

lemma distinct_setCondition:
  "distinct (map c_type cs) \<Longrightarrow> distinct (map c_type (setCondition now t s r m cs))"
proof (induction cs)
  case (Cons c cs)
  then show ?case using types_setCondition [of now t s r m cs] by auto
qed simp

definition severities_ok :: "ValidationIssue list \<Rightarrow> bool" where
  "severities_ok issues \<longleftrightarrow> (\<forall>i \<in> set issues. inEnum [''error'', ''warning'', ''info''] (vis_severity i))"

lemma severities_simps [simp]:
  "severities_ok []" "severities_ok (xs @ ys) \<longleftrightarrow> severities_ok xs \<and> severities_ok ys"
  "severities_ok [issue sev p m s] \<longleftrightarrow> inEnum [''error'', ''warning'', ''info''] sev"
  "severities_ok (concat xss) \<longleftrightarrow> (\<forall>xs \<in> set xss. severities_ok xs)"
  by (auto simp: severities_ok_def issue_def)

lemma resources_severities:
  "checkLimit q key label limit c = Returns issues \<Longrightarrow> severities_ok issues"
  "containerResources q res c = Returns issues \<Longrightarrow> severities_ok issues"
  "resourcesLoop q res cs = Returns issues \<Longrightarrow> severities_ok issues"
proof -
  show limit: "severities_ok issues" if "checkLimit q key label limit c = Returns issues" for key label limit c issues
    using that by (auto simp: checkLimit_def run_bind_Returns Let_def inEnum_def split: if_splits)
  show container: "severities_ok issues" if "containerResources q res c = Returns issues" for c issues
    using that limit
    by (fastforce simp: containerResources_def run_bind_Returns checkRequests_def inEnum_def split: option.splits if_splits)
  show "severities_ok issues" if "resourcesLoop q res cs = Returns issues"
    using that by (induction cs arbitrary: issues) (auto simp: run_bind_Returns dest: container)
qed

lemma issues_severities:
  assumes "validationIssues q sp d = Returns issues"
  shows "severities_ok issues"
proof -
  have "severities_ok (validateReplicas sp d)"
    by (auto simp: validateReplicas_def Let_def inEnum_def split: option.split)
  moreover have "severities_ok (validateHealthProbes sp d)"
    by (auto simp: validateHealthProbes_def checkLiveness_def checkReadiness_def inEnum_def split: option.split)
  moreover have "severities_ok (validateSecurityContext sp d)"
    by (auto simp: validateSecurityContext_def runsAsRoot_def containerSecurity_def inEnum_def split: option.split)
  ultimately show ?thesis
    using assms resources_severities(3)
    by (fastforce simp: validationIssues_def run_bind_Returns validateResources_def split: option.splits)
qed

lemma setConditions_admitted:
  assumes "status_admitted st"
  shows "status_admitted (setConditions now ready validated st)"
  using assms by (simp add: status_admitted_def) (simp add: setConditions_def setState_def distinct_setCondition)

text \<open>
  C28. Whatever the cluster answers, the controller writes only statuses the schema of the resource admits: given a
  persona whose status is admitted, the status a reconcile sends has its phase, its health, the
  severity of every issue and everything it carried over inside the enumerations of the CRD, and
  at most one condition of each type.
\<close>

theorem persona_status_admitted:
  assumes "Persona_Reconcile r now w key = Returns (w', res)" "w' \<noteq> w"
    and "\<And>p. ap_get r w key = Inr p \<Longrightarrow> status_admitted (p_status p)"
  shows "\<exists>q. (w', res) = persistStatus r w q \<and> status_admitted (p_status q)"
proof -
  obtain p where p: "ap_get r w key = Inr p"
    using assms(1,2) by (auto simp: Persona_Reconcile_def split: sum.splits)
  obtain items where items: "ap_listDeployments r w (fst key) = Inr items"
    using assms(1,2) p by (auto simp: Persona_Reconcile_def split: sum.splits)
  note old = assms(3) [OF p]
  obtain q where q: "judged r now w (fst key) items p = Returns q" "(w', res) = persistStatus r w q"
    using assms(1) unfolding Reconcile_judged [OF p items] by (auto simp: run_bind_Returns)
  have health: "hst_status (deriveHealthFromDeployment d now) \<in> {''Healthy'', ''Degraded'', ''Unhealthy'', ''Unknown''}" for d
    by (simp add: deriveHealthFromDeployment_def Let_def)
  have unresolved: "status_admitted (p_status (markUnresolved now reason message p))" for reason message
    using old unfolding markUnresolved_def
    by (simp add: setConditions_admitted) (intro setConditions_admitted, simp add: status_admitted_def optEnum_def)
  have resolved: "status_admitted (p_status (assessed r now w (fst key) d issues p))"
    if "validationIssues (ap_quantity r) (p_typed p) d = Returns issues" for d issues
    using old health [of d] issues_severities [OF that] unfolding assessed_def Let_def
    by (simp, intro setConditions_admitted)
      (simp add: status_admitted_def optEnum_def severities_ok_def observed_status phaseFor_def)
  from q(1) unresolved resolved have "status_admitted (p_status q)"
    by (auto simp: judged_def run_bind_Returns split: sum.splits option.splits)
  with q(2) show ?thesis by blast
qed

subsection \<open>A message that goes stale\<close>

lemma find_setState_other:
  "t \<noteq> ct \<Longrightarrow> List.find (\<lambda>c. c_type c = t) (setState now ct st cs) = List.find (\<lambda>c. c_type c = t) cs"
  by (simp add: setState_def setCondition_find)

text \<open>
  The Ready condition of a persona that stays unready keeps the message of the first verdict. If the
  stored condition is false with reason Issues, a reconcile that finds the application still not
  Active leaves the whole condition as it is, so its text names the phase the persona had then,
  whichever phase the reconcile writes now.
\<close>

theorem ready_message_goes_stale:
  assumes "Persona_Reconcile r now w key = Returns (w', res)"
    and "ap_get r w key = Inr p" "ap_listDeployments r w (fst key) = Inr items"
    and "Resolve items (asp_name (p_typed p)) = Inr (Some d, rung)"
    and "List.find (\<lambda>c. c_type c = conditionTypeReady) (ast_conditions (p_status p)) = Some c"
    and "c_status c = CondFalse" "c_reason c = ''Issues''"
  shows "\<exists>q. (w', res) = persistStatus r w q \<and>
    (ast_phase (p_status q) \<noteq> phaseActive \<longrightarrow>
       List.find (\<lambda>c. c_type c = conditionTypeReady) (ast_conditions (p_status q)) = Some c)"
proof -
  obtain issues where "(w', res) = persistStatus r w (assessed r now w (fst key) d issues p)"
    using resolved_written [OF assms(1-4)] by blast
  moreover have "List.find (\<lambda>c. c_type c = conditionTypeReady)
      (setState now conditionTypeReady (readyState phase) (ast_conditions (p_status p))) = Some c"
    if "phase \<noteq> phaseActive" for phase
    using that assms(5-7) by (simp add: setState_def readyState_def setCondition_find)
  ultimately show ?thesis
    by (intro exI [of _ "assessed r now w (fst key) d issues p"])
      (auto simp: assessed_def Let_def setConditions_def find_setState_other)
qed

subsection \<open>The images the planner may name\<close>

text \<open>
  What a reconcile leaves of the image history. After a reconcile that tied the persona to a Deployment,
  the images the planner is offered as prior versions of a workload running \<^verbatim>\<open>img\<close> are at most two:
  the image recorded when the application was imported, and the image of the Deployment's first
  container if that is not the one running. The recorded history, the last successful and the last
  failed image never survive.
\<close>

theorem prior_images_after_reconcile:
  assumes "Persona_Reconcile r now w key = Returns (w', res)"
    and "ap_get r w key = Inr p" "ap_listDeployments r w (fst key) = Inr items"
    and "Resolve items (asp_name (p_typed p)) = Inr (Some d, rung)" "d_containers d = c # cs"
  shows "\<exists>q. (w', res) = persistStatus r w q \<and>
    set (priorImages (Some q) img) =
      {i \<in> {getStr (p_annotations p) AnnotationImportedImage, ct_image c}. i \<noteq> [] \<and> i \<noteq> img} \<and>
    map_option dt_history (ast_deployments (p_status q)) = Some []"
proof -
  obtain issues where "(w', res) = persistStatus r w (assessed r now w (fst key) d issues p)"
    using resolved_written [OF assms(1-4)] by blast
  moreover have "p_annotations (assessed r now w (fst key) d issues p) = p_annotations p"
    "ast_deployments (p_status (assessed r now w (fst key) d issues p)) = Some (trackedDeployment d)"
    by (simp_all add: assessed_def Let_def)
  ultimately show ?thesis
    by (intro exI [of _ "assessed r now w (fst key) d issues p"])
      (auto simp: priorImages_def addImage_def trackedDeployment_def assms(5))
qed

subsection \<open>What has to be watched\<close>

lemma resolveLoop_ignores:
  assumes "\<forall>m \<in> set ms. \<not> mt_match m d n"
  shows "resolveLoop (xs @ d # ys) n ms = resolveLoop (xs @ ys) n ms"
  using assms by (induction ms) (auto split: list.split)

text \<open>
  Watching is enough. If the event of a Deployment does not requeue a listed persona of its namespace, that
  Deployment makes no difference to the persona: a reconcile does the same whether or not the
  Deployment is there. So every change that could alter a verdict, also one that makes a match
  ambiguous or ends the ambiguity, requeues the persona.
\<close>

theorem unwatched_deployments_do_not_matter:
  assumes "ap_get r w key = Inr p" "key = (p_namespace p, p_name p)"
    and "ap_listPersonas r w (d_namespace d) = Inr ps" "p \<in> set ps"
    and "key \<notin> set (deploymentToPersona r w d)"
    and "ap_listDeployments r w (fst key) = Inr (xs @ d # ys)"
  shows "Persona_Reconcile r now w key =
    Persona_Reconcile (r\<lparr>ap_listDeployments := (\<lambda>_ _. Inr (xs @ ys))\<rparr>) now w key"
proof -
  let ?r = "r\<lparr>ap_listDeployments := (\<lambda>_ _. Inr (xs @ ys))\<rparr>"
  let ?n = "asp_name (p_typed p)"
  have "\<not> Matches (Some d) ?n" using assms(2-5) by (auto simp: deploymentToPersona_def)
  then have "Resolve (xs @ d # ys) ?n = Resolve (xs @ ys) ?n"
    by (simp add: Matches_def Resolve_def resolveLoop_ignores list_ex_iff split: if_splits)
  moreover have "observeHealth ?r now w e = observeHealth r now w e" for e
    by (simp add: observeHealth_def Let_def split: sum.split)
  then have "assessed ?r now w ns e issues p = assessed r now w ns e issues p" for ns e issues
    by (simp add: assessed_def updateLearned_def)
  ultimately have "judged r now w (fst key) (xs @ d # ys) p = judged ?r now w (fst key) (xs @ ys) p"
    by (simp add: judged_def split: sum.split option.split)
  moreover have "persistStatus ?r w q = persistStatus r w q" for q by (simp add: persistStatus_def)
  ultimately show ?thesis
    using assms(1) by (simp add: Reconcile_judged [OF assms(1) assms(6)] Reconcile_judged [of ?r])
qed

end
