(* ===== verification/ClusterProps.thy ===== *)
theory ClusterProps
  imports ClusterController PersonaProps HealthLaws
begin

text \<open>
  What the ClusterPersona controller reports and what its writes mean to the rest of the operator: the
  verdict on a cluster, the defaults of the self-healing policy, the platform, the add-ons, the
  utilization, and the bootstrap of the first persona.
\<close>

subsection \<open>The verdict\<close>

lemma countReady_all: "countReadyNodes nodes = int (length nodes) \<longleftrightarrow> (\<forall>n \<in> set nodes. ni_ready n)"
  by (simp add: countReadyNodes_def) (metis filter_id_conv length_filter_less nat_neq_iff)

lemma determinePhase_ready:
  "determinePhase nodes = clusterPhaseReady \<longleftrightarrow> nodes \<noteq> [] \<and> (\<forall>n \<in> set nodes. ni_ready n)"
  by (simp add: determinePhase_def countReady_all)

lemma clusterConditions_is:
  "condition_is (clusterConditions now nodes phase cs) conditionTypeDiscovered s rs \<longleftrightarrow>
     s = CondTrue \<and> rs = ''DiscoveryComplete''"
  "condition_true (clusterConditions now nodes phase cs) conditionTypeHealthy \<longleftrightarrow> phase = clusterPhaseReady"
  by (auto simp: clusterConditions_def condition_is_set condition_true_def)

text \<open>
  The verdict on a cluster. A reconcile that found the persona and could write its missing defaults
  sends one status. The phase is Ready exactly if some node is known and every known node is
  ready, and the Healthy condition is true in exactly that case. When the nodes cannot be
  listed, the verdict is passed on the nodes of the last discovery, and the Discovered condition is
  still true with reason DiscoveryComplete: the failure set a moment before is overwritten.
\<close>

theorem cluster_verdict:
  assumes "Cluster_Reconcile r now w key = (w', res)" "dc_get r w key = Inr p0"
    and "applySelfHealingDefaults p0 = (p1, updated)"
    and "(if updated then dc_update r w p1 else (w, Inr p1)) = (w1, Inr p)"
    and "discoverNodes r w1 = found"
  defines "nodes \<equiv> (case found of Inl _ \<Rightarrow> cst_nodes (cp_status p) | Inr ns \<Rightarrow> ns)"
  shows "\<exists>q. (w', res) = persistCluster r w1 q \<and> q\<lparr>cp_status := cp_status p\<rparr> = p \<and>
    cst_nodes (cp_status q) = nodes \<and>
    (cst_phase (cp_status q) = clusterPhaseReady \<longleftrightarrow> nodes \<noteq> [] \<and> (\<forall>n \<in> set nodes. ni_ready n)) \<and>
    (condition_true (cst_conditions (cp_status q)) conditionTypeHealthy \<longleftrightarrow>
       cst_phase (cp_status q) = clusterPhaseReady) \<and>
    condition_is (cst_conditions (cp_status q)) conditionTypeDiscovered CondTrue ''DiscoveryComplete''"
proof -
  let ?q = "p\<lparr>cp_status := discovered r now w1 (cp_status p)\<rparr>"
  have "(w', res) = persistCluster r w1 ?q"
    using assms(1-4) by (simp add: Cluster_Reconcile_def split: if_splits)
  moreover have "cst_nodes (discovered r now w1 (cp_status p)) = nodes"
    "cst_phase (discovered r now w1 (cp_status p)) = determinePhase nodes"
    "\<exists>cs. cst_conditions (discovered r now w1 (cp_status p)) = clusterConditions now nodes (determinePhase nodes) cs"
    using assms(5) by (auto simp: discovered_def knownNodes_def nodes_def Let_def split: sum.split)
  ultimately show ?thesis
    by (intro exI [of _ ?q]) (auto simp: determinePhase_ready clusterConditions_is)
qed

subsection \<open>The defaults\<close>

text \<open>
  Filling in the self-healing defaults is settled after one write and changes nothing the guardrails
  read of a single ClusterPersona: the mode the proposer acts on, the hourly limit and the excluded
  namespaces of the safety checker are as before. What it does change is the trust level: after
  it the level is never 0, so the lowest level the schema admits cannot be kept.
\<close>

theorem defaults_keep_guardrails:
  "modeLoop [fst (applySelfHealingDefaults p)] = modeLoop [p] \<and>
   maxLoop [fst (applySelfHealingDefaults p)] = maxLoop [p] \<and>
   map_option sh_excludeNamespaces (cp_selfHealing (fst (applySelfHealingDefaults p))) =
     Some (case cp_selfHealing p of None \<Rightarrow> [] | Some sh \<Rightarrow> sh_excludeNamespaces sh) \<and>
   snd (applySelfHealingDefaults (fst (applySelfHealingDefaults p))) = False \<and>
   (\<exists>sh. cp_selfHealing (fst (applySelfHealingDefaults p)) = Some sh \<and> sh_trustLevel sh \<noteq> 0)"
  by (auto simp: applySelfHealingDefaults_def cp_selfHealing_def defaultSelfHealing_def noSelfHealing_def
      noClusterPolicies_def Let_def split: option.split)

subsection \<open>Add-ons\<close>

lemma checkAddon_installed:
  "adn_installed (checkAddon r w name ns ty) \<longleftrightarrow>
     (\<exists>x pods. dc_getNamespace r w ns = Inr x \<and> dc_listPods r w (Some ns) = Inr pods \<and>
        (\<exists>pod \<in> set pods. podIsAddon name pod))"
  by (auto simp: checkAddon_def Let_def find_None_iff split: sum.split option.split dest: find_Some_in)

lemma checkAddon_name [simp]:
  "adn_name (checkAddon r w name ns ty) = name" "adn_type (checkAddon r w name ns ty) = ty"
  "adn_namespace (checkAddon r w name ns ty) = ns"
  by (simp_all add: checkAddon_def Let_def split: sum.split option.split)

lemma podIsAddon_prometheus: "podIsAddon ''prometheus-server'' pod \<Longrightarrow> podIsAddon ''prometheus'' pod"
proof -
  have parts: "containsStr s (''prometheus'' @ t) \<Longrightarrow> containsStr s ''prometheus''" for s t
    unfolding containsStr_iff by (metis append_assoc)
  assume "podIsAddon ''prometheus-server'' pod"
  then have "containsStr (po_name pod) (''prometheus'' @ ''-server'') \<or>
      containsStr (po_name pod) (''prometheus'' @ ''server'')" by (simp add: podIsAddon_def)
  then show ?thesis using parts by (auto simp: podIsAddon_def)
qed

text \<open>
  The second look for Prometheus finds nothing. Discovery asks for pods named after prometheus-server only
  when none is named after prometheus, and the first name contains the second, so it reports
  Prometheus as installed exactly when the first look does; otherwise the list names an add-on
  prometheus-server that is not installed, and none called prometheus.
\<close>

theorem prometheus_fallback_finds_nothing:
  "adn_installed (discoverAddons r w ! 1) = adn_installed (checkAddon r w ''prometheus'' ''monitoring'' ''monitoring'') \<and>
   adn_name (discoverAddons r w ! 1) =
     (if adn_installed (discoverAddons r w ! 1) then ''prometheus'' else ''prometheus-server'')"
proof -
  have "adn_installed (checkAddon r w ''prometheus-server'' ns ty) \<Longrightarrow> adn_installed (checkAddon r w ''prometheus'' ns ty)"
    for ns ty unfolding checkAddon_installed using podIsAddon_prometheus by blast
  then show ?thesis by (auto simp: discoverAddons_def Let_def)
qed

subsection \<open>Platform\<close>

lemma firstPlatform_None: "firstPlatform keys = None \<longleftrightarrow> (\<forall>k \<in> set keys. labelPlatform k = None)"
  by (induction keys) (auto split: option.split)

text \<open>
  Labels say which platform a cluster runs on only if discovery kept them. The platform is read from the
  labels stored for the nodes, and only labels with one of five prefixes, or the word role in
  their key, are stored: if no stored kind of label carries a platform hint, the platform is that
  of the first node's provider identifier, whatever hints the nodes' other labels carry.
\<close>

theorem platform_hints_must_pass_the_filter:
  assumes "dc_listNodes r w = Inr (n # ns)" "discoverNodes r w = Inr nodes"
    and "\<And>keys. set (dc_labelOrder r keys) = set keys"
    and "\<And>node key. node \<in> set (n # ns) \<Longrightarrow> key \<in> fst ` set (no_labels node) \<Longrightarrow> interesting key \<Longrightarrow>
           labelPlatform key = None"
  shows "detectPlatform r w nodes =
    (case providerPlatform (no_providerID n) of Some p \<Rightarrow> p | None \<Rightarrow> ''Generic'')"
proof -
  have nodes: "nodes = map nodeInfo (n # ns)" using assms(1,2) by (simp add: discoverNodes_def)
  have "firstPlatform (concat (map (\<lambda>x. dc_labelOrder r (map fst (ni_labels x))) nodes)) = None"
  proof -
    have stored: "set (dc_labelOrder r (map fst (ni_labels (nodeInfo x)))) = {k \<in> fst ` set (no_labels x). interesting k}"
      for x unfolding assms(3) by (auto simp: nodeInfo_def filterNodeLabels_def)
    have "labelPlatform k = None"
      if "x \<in> set (n # ns)" "k \<in> set (dc_labelOrder r (map fst (ni_labels (nodeInfo x))))" for x k
    proof -
      from that(2) have "k \<in> fst ` set (no_labels x)" "interesting k" unfolding stored by simp_all
      then show ?thesis by (rule assms(4) [OF that(1)])
    qed
    then show ?thesis unfolding firstPlatform_None nodes by auto
  qed
  then show ?thesis using assms(1) by (simp add: detectPlatform_def nodes)
qed

subsection \<open>Utilization\<close>

text \<open>
  The utilization a cluster reports stays within its bounds. If what the placed pods claim does not
  exceed what the nodes can allocate, the percentage, computed in double precision and rounded to a
  whole number, is between 0 and 100, for all amounts an \<^verbatim>\<open>int64\<close> can hold; with nothing
  allocatable the report is empty instead of a number.
\<close>

theorem utilization_within_bounds:
  assumes "0 \<le> used" "used \<le> capacity"
  shows "(0 < capacity \<longrightarrow> utilizationPercent used capacity = showInt (utilization used capacity) @ ''%'' \<and>
      0 \<le> utilization used capacity \<and> utilization used capacity \<le> 100) \<and>
    (capacity = 0 \<longrightarrow> utilizationPercent used capacity = [])"
proof (cases "0 < capacity")
  case True
  let ?u = "fl64 (of_int used)" and ?c = "fl64 (of_int capacity)"
  have pos: "0 < ?c" using True fl64_pos_bounds(1) [of "of_int capacity"]
    by (metis less_le_trans of_int_0_less_iff zero_less_numeral zero_less_power_int)
  have "0 \<le> ?u" using assms(1) by (intro fl64_nonneg) simp
  moreover have "?u \<le> ?c" using assms by (intro fl64_le_of_le) simp_all
  ultimately have quot: "0 \<le> ?u / ?c" "?u / ?c \<le> 1" using pos by simp_all
  have one: "fl64 1 = 1" "fl64 100 = 100" by code_simp+
  have q: "0 \<le> fdiv ?u ?c" "fdiv ?u ?c \<le> 1"
    using fl64_nonneg [OF quot(1)] fl64_le_of_le [OF quot] one(1) by (simp_all add: fdiv_def)
  have "fdiv ?u ?c * 100 \<le> 100" "0 \<le> fdiv ?u ?c * 100" using q by simp_all
  then have r: "0 \<le> fmul (fdiv ?u ?c) 100" "fmul (fdiv ?u ?c) 100 \<le> 100"
    using fl64_nonneg [of "fdiv ?u ?c * 100"] fl64_le_of_le [of "fdiv ?u ?c * 100" 100] one(2)
    by (simp_all add: fmul_def)
  have "0 \<le> roundAway (fmul (fdiv ?u ?c) 100)" "roundAway (fmul (fdiv ?u ?c) 100) \<le> 100"
    using r by (auto simp: roundAway_def floor_le_iff)
  then show ?thesis using True by (simp add: utilizationPercent_def utilization_def toInt64_def)
qed (use assms in \<open>simp add: utilizationPercent_def\<close>)

text \<open>
  Only pods that a node has accepted and that have not ended count as using the cluster. Two clusters
  whose listed pods differ only in waiting and finished pods report the same use and the same
  utilization, and a node that lists such pods only reports none.
\<close>

theorem unplaced_pods_use_nothing:
  assumes "dc_listPods r w None = Inr pods" "dc_listPods r w' None = Inr pods'"
    and "filter podHoldsAllocation pods = filter podHoldsAllocation pods'"
  defines "use \<equiv> (\<lambda>s. (crs_usedCPU s, crs_usedMemory s, crs_cpuUtilization s, crs_memoryUtilization s))"
  shows "use (calculateResourceSummary r w nodes) = use (calculateResourceSummary r w' nodes) \<and>
    (filter podHoldsAllocation pods = [] \<longrightarrow>
       fst (use (calculateResourceSummary r w nodes)) = ''0'' \<and>
       fst (snd (use (calculateResourceSummary r w nodes))) = ''0'')"
  using assms(1-3) by (simp add: use_def calculateResourceSummary_def setClaimedResources_def Let_def zeroQuantity_def)

end
