(* ===== verification/Bootstrap.thy ===== *)
theory Bootstrap
  imports ClusterController Store
begin

text \<open>
  The bootstrap of the ClusterPersona against the API server it relies on. The locale
  \<open>persona_registry\<close> states what a server promises: a list that is answered is the list of the
  objects held, an accepted create adds the object, and a refused one, unless only its reply was
  lost, changes nothing. It is interpreted on a registry whose writes meet the faults of a script
  and whose backoff makes up to five attempts.
\<close>

text \<open>
  What a backoff does with a condition: it runs it again after a failed attempt and stops with an error when
  its attempts, or its context, are used up.
\<close>

inductive tried :: "('s \<Rightarrow> 's \<times> bool) \<Rightarrow> 's \<Rightarrow> 's \<Rightarrow> bool \<Rightarrow> bool" for f where
  success: "f s = (s', True) \<Longrightarrow> tried f s s' True"
| again: "f s = (s1, False) \<Longrightarrow> tried f s1 s' ok \<Longrightarrow> tried f s s' ok"
| stop: "tried f s s False"

locale persona_registry =
  fixes b :: "'w ClusterPersonaBootstrap" and held :: "'w \<Rightarrow> ClusterPersona list"
  assumes listed: "bs_list b w = Inr xs \<Longrightarrow> xs = held w"
    and created: "bs_create b w p = (w', None) \<Longrightarrow> held w' = held w @ [p]"
    and refused: "bs_create b w p = (w', Some e) \<Longrightarrow>
      (held w' = held w \<and> (api_reason_of e = Some AlreadyExists \<longrightarrow> held w \<noteq> [])) \<or> held w' = held w @ [p]"
    and backed_off: "bs_backoff b f s = (s', err) \<Longrightarrow> tried f s s' (err = None)"
begin

text \<open>What an ensure may do: nothing, or put the default persona into an empty registry.\<close>

definition only_creates :: "'w \<Rightarrow> 'w \<Rightarrow> bool" where
  "only_creates w w' \<longleftrightarrow> held w' = held w \<or> (held w = [] \<and> (\<exists>uid. held w' = [buildPersona uid]))"

lemma only_creates_refl: "only_creates w w"
  by (simp add: only_creates_def)

lemma only_creates_trans: "only_creates u v \<Longrightarrow> only_creates v w \<Longrightarrow> only_creates u w"
  by (auto simp: only_creates_def)

lemma ensure_settles:
  assumes "ensure b w = (w', e)"
  shows "only_creates w w' \<and> (e = None \<longrightarrow> held w' \<noteq> [])"
proof (cases "bs_list b w")
  case (Inl x)
  then show ?thesis using assms by (auto simp: ensure_def only_creates_def)
next
  case (Inr xs)
  then have xs: "xs = held w" by (rule listed)
  show ?thesis
  proof (cases xs)
    case (Cons y ys)
    then show ?thesis using assms Inr xs by (auto simp: ensure_def only_creates_def)
  next
    case Nil
    define uid where "uid = (case bs_getNamespace b w ''kube-system'' of Inl _ \<Rightarrow> [] | Inr ns \<Rightarrow> nmsp_uid ns)"
    obtain w1 x where c: "bs_create b w (buildPersona uid) = (w1, x)" by fastforce
    show ?thesis
    proof (cases x)
      case None
      then show ?thesis
        using assms Inr Nil xs c created [of w "buildPersona uid" w1]
        by (auto simp: ensure_def only_creates_def uid_def)
    next
      case (Some err)
      then show ?thesis
        using assms Inr Nil xs c refused [of w "buildPersona uid" w1 err]
        by (auto simp: ensure_def only_creates_def uid_def split: if_splits)
    qed
  qed
qed

lemma attempt_settles:
  assumes "ensureAttempt b st = (st', ok)"
  shows "only_creates (fst st) (fst st') \<and> (ok \<longrightarrow> held (fst st') \<noteq> [])"
proof -
  obtain w1 e where o: "ensure b (fst st) = (w1, e)" by fastforce
  show ?thesis using assms ensure_settles [OF o] by (cases e) (auto simp: ensureAttempt_def o)
qed

lemma tried_settles:
  "tried (ensureAttempt b) st st' ok \<Longrightarrow> only_creates (fst st) (fst st') \<and> (ok \<longrightarrow> held (fst st') \<noteq> [])"
proof (induction rule: tried.induct)
  case (success st st')
  then show ?case by (simp add: attempt_settles)
next
  case (again st st1 st' ok)
  then show ?case using attempt_settles only_creates_trans by blast
next
  case stop
  then show ?case by (simp add: only_creates_refl)
qed

lemma retry_settles:
  assumes "ensureWithRetry b w = (w', e)"
  shows "only_creates w w' \<and> (e = None \<longrightarrow> held w' \<noteq> [])"
proof -
  obtain st err where o: "bs_backoff b (ensureAttempt b) (w, None) = (st, err)" by fastforce
  from tried_settles [OF backed_off [OF o]] show ?thesis
    using assms o by (auto simp: ensureWithRetry_def split: prod.splits option.splits)
qed

lemma Start_settles:
  "(\<And>f v. f \<in> set ticks \<Longrightarrow> held (f v) = held v) \<Longrightarrow> only_creates w (Start b ticks w)"
proof (induction ticks arbitrary: w)
  case Nil
  then show ?case using retry_settles [of w] by (cases "ensureWithRetry b w") simp
next
  case (Cons f ticks)
  obtain w1 e where o: "ensureWithRetry b w = (w1, e)" by fastforce
  have same: "only_creates v (f v)" for v using Cons.prems [of f v] by (simp add: only_creates_def)
  have "only_creates (f w1) (Start b ticks (f w1))" using Cons by simp
  then show ?case using o retry_settles [OF o] same only_creates_trans by (metis Start.simps(2) fst_conv)
qed

end

subsection \<open>A registry\<close>

record registry =
  rg_personas :: "ClusterPersona list"
  rg_uid :: string
  rg_calls :: nat

text \<open>The fault script names the fate of every call, reads included.\<close>

definition rg_tick :: "registry \<Rightarrow> registry" where
  "rg_tick w = w\<lparr>rg_calls := Suc (rg_calls w)\<rparr>"

definition registry_create :: "script \<Rightarrow> registry \<Rightarrow> ClusterPersona \<Rightarrow> registry \<times> goerr option" where
  "registry_create script w p =
     (if list_ex (\<lambda>q. cp_name q = cp_name p) (rg_personas w)
      then (rg_tick w, Some (ApiErr AlreadyExists (''clusterpersonas '' @ quoteQ (cp_name p) @ '' already exists'')))
      else let w' = (rg_tick w)\<lparr>rg_personas := rg_personas w @ [p]\<rparr> in
           case script (rg_calls w) of
             NoFault \<Rightarrow> (w', None)
           | LostReply e \<Rightarrow> (w', Some e)
           | Refused e \<Rightarrow> (rg_tick w, Some (if api_reason_of e = Some AlreadyExists then Err (err_text e) else e)))"

definition registry_list :: "script \<Rightarrow> registry \<Rightarrow> goerr + ClusterPersona list" where
  "registry_list script w = (case script (rg_calls w) of Refused e \<Rightarrow> Inl e | _ \<Rightarrow> Inr (rg_personas w))"

fun attempts :: "nat \<Rightarrow> ('s \<Rightarrow> 's \<times> bool) \<Rightarrow> 's \<Rightarrow> 's \<times> goerr option" where
  "attempts 0 f s = (s, Some (Err ''timed out waiting for the condition''))"
| "attempts (Suc n) f s = (case f s of (s', True) \<Rightarrow> (s', None) | (s', False) \<Rightarrow> attempts n f s')"

definition registry_bootstrap :: "script \<Rightarrow> duration \<Rightarrow> registry ClusterPersonaBootstrap" where
  "registry_bootstrap script interval = \<lparr>
     bs_list = registry_list script,
     bs_getNamespace = (\<lambda>w ns. Inr \<lparr>nmsp_name = ns, nmsp_uid = rg_uid w, nmsp_phase = ''Active''\<rparr>),
     bs_create = registry_create script, bs_backoff = attempts 5, bs_ensureInterval = interval\<rparr>"

lemma attempts_tried: "attempts n f s = (s', err) \<Longrightarrow> tried f s s' (err = None)"
proof (induction n f s arbitrary: s' err rule: attempts.induct)
  case (1 f s)
  then show ?case by (auto intro: tried.stop)
next
  case (2 n f s)
  then show ?case by (auto split: prod.splits bool.splits intro: tried.intros)
qed

interpretation pr: persona_registry "registry_bootstrap script interval" rg_personas for script interval
proof (unfold_locales, goal_cases)
  case 1
  then show ?case by (auto simp: registry_bootstrap_def registry_list_def split: fault.splits)
next
  case 2
  then show ?case
    by (auto simp: registry_bootstrap_def registry_create_def rg_tick_def Let_def split: if_splits fault.splits)
next
  case (3 w p w' e)
  then show ?case
    by (auto simp: registry_bootstrap_def registry_create_def rg_tick_def Let_def split: if_splits fault.splits)
next
  case 4
  then show ?case by (auto simp: registry_bootstrap_def intro: attempts_tried)
qed

text \<open>
  C29. The bootstrap never makes a second ClusterPersona. Whatever calls fail and whatever replies are lost,
  over any number of ticks between which nothing else touches the personas, the ones there are
  stay, and an empty registry ends empty or with exactly one persona, the default. A single
  ensure that reports success has left a persona behind.
\<close>

theorem bootstrap_settles:
  assumes "\<And>f v. f \<in> set ticks \<Longrightarrow> rg_personas (f v) = rg_personas v"
  shows "(rg_personas (Start (registry_bootstrap script interval) ticks w) = rg_personas w \<or>
      rg_personas w = [] \<and>
      (\<exists>uid. rg_personas (Start (registry_bootstrap script interval) ticks w) = [buildPersona uid])) \<and>
    (snd (ensureWithRetry (registry_bootstrap script interval) w) = None \<longrightarrow>
      rg_personas (fst (ensureWithRetry (registry_bootstrap script interval) w)) \<noteq> [])"
proof -
  have "pr.only_creates w (Start (registry_bootstrap script interval) ticks w)"
    using assms by (rule pr.Start_settles)
  then show ?thesis
    using pr.retry_settles [of script interval w "fst (ensureWithRetry (registry_bootstrap script interval) w)"
        "snd (ensureWithRetry (registry_bootstrap script interval) w)"]
    by (simp add: pr.only_creates_def)
qed

text \<open>The create loses its reply; the ticks still leave one persona.\<close>

theorem bootstrap_settles_witness:
  "\<exists>uid. rg_personas (Start (registry_bootstrap (\<lambda>n. if n = 0 then LostReply (Err ''timeout'') else NoFault) 0)
     [rg_tick, rg_tick] \<lparr>rg_personas = [], rg_uid = ''42'', rg_calls = 0\<rparr>) = [buildPersona uid]"
proof -
  let ?b = "registry_bootstrap (\<lambda>n. if n = 0 then LostReply (Err ''timeout'') else NoFault) 0"
  let ?w = "\<lparr>rg_personas = [], rg_uid = ''42'', rg_calls = 0\<rparr>"
  have "rg_personas (Start ?b [rg_tick, rg_tick] ?w) \<noteq> []" by code_simp
  with bootstrap_settles [of "[rg_tick, rg_tick]" "\<lambda>n. if n = 0 then LostReply (Err ''timeout'') else NoFault" 0 ?w]
  show ?thesis by (auto simp: rg_tick_def)
qed

end
