(* ===== verification/ArgoWatcher.thy ===== *)
theory ArgoWatcher
  imports PersonaProps
begin

text \<open>
  The ArgoCD watcher (\<^verbatim>\<open>internal/controller/argocd_watcher.go\<close>): it copies the sync and health
  status of an ArgoCD Application to the persona it belongs to. The Application is unstructured,
  so its content is JSON; reading an RFC 3339 time is the field \<open>aw_parseTime\<close>.
\<close>

record ArgoApplication =
  aa_name :: string
  aa_namespace :: string
  aa_labels :: "(string \<times> string) list"
  aa_object :: jmap

record 'w ArgoCDWatcher =
  aw_enabled :: bool
  aw_get :: "'w \<Rightarrow> objkey \<Rightarrow> goerr + ArgoApplication"
  aw_listPersonas :: "'w \<Rightarrow> string option \<Rightarrow> goerr + ApplicationPersona list"
  aw_statusUpdate :: "'w \<Rightarrow> ApplicationPersona \<Rightarrow> 'w \<times> goerr option"
  aw_parseTime :: "string \<Rightarrow> time option"

definition argoCDRequeueInterval :: duration where
  "argoCDRequeueInterval = 30 * second"

subsection \<open>Reading the Application\<close>

text \<open>
  \<^verbatim>\<open>unstructured.NestedMap\<close> and \<^verbatim>\<open>NestedString\<close> with one key: an absent field and a field of
  another type are both passed over by the callers.
\<close>

definition nestedMap :: "jmap \<Rightarrow> string \<Rightarrow> jmap option" where
  "nestedMap obj key = (case map_of obj key of Some (JObj m) \<Rightarrow> Some m | _ \<Rightarrow> None)"

definition nestedString :: "jmap \<Rightarrow> string \<Rightarrow> string option" where
  "nestedString obj key = (case map_of obj key of Some (JStr s) \<Rightarrow> Some s | _ \<Rightarrow> None)"

definition getArgoCDAppName :: "ArgoApplication \<Rightarrow> string" where
  "getArgoCDAppName argoApp =
     (case map_of (aa_labels argoApp) ''app.kubernetes.io/name'' of
        Some appName \<Rightarrow> appName
      | None \<Rightarrow> (case map_of (aa_labels argoApp) ''app'' of
                   Some appName \<Rightarrow> appName | None \<Rightarrow> aa_name argoApp))"

definition getArgoCDDestNamespace :: "ArgoApplication \<Rightarrow> string" where
  "getArgoCDDestNamespace argoApp =
     (case nestedMap (aa_object argoApp) ''spec'' of
        None \<Rightarrow> []
      | Some sp \<Rightarrow>
          (case nestedMap sp ''destination'' of
             None \<Rightarrow> []
           | Some dest \<Rightarrow> (case nestedString dest ''namespace'' of None \<Rightarrow> [] | Some ns \<Rightarrow> ns)))"

definition syncPart :: "jmap \<Rightarrow> ArgoCDStatus \<Rightarrow> ArgoCDStatus" where
  "syncPart argoStatus status =
     (case nestedMap argoStatus ''sync'' of
        None \<Rightarrow> status
      | Some sync \<Rightarrow>
          (let st1 = (case nestedString sync ''status'' of None \<Rightarrow> status | Some s \<Rightarrow> status\<lparr>arg_syncStatus := s\<rparr>)
           in case nestedString sync ''revision'' of None \<Rightarrow> st1 | Some v \<Rightarrow> st1\<lparr>arg_revision := v\<rparr>))"

definition healthPart :: "jmap \<Rightarrow> ArgoCDStatus \<Rightarrow> ArgoCDStatus" where
  "healthPart argoStatus status =
     (case Option.bind (nestedMap argoStatus ''health'') (\<lambda>h. nestedString h ''status'') of
        None \<Rightarrow> status | Some s \<Rightarrow> status\<lparr>arg_healthStatus := s\<rparr>)"

definition timePart :: "(string \<Rightarrow> time option) \<Rightarrow> jmap \<Rightarrow> ArgoCDStatus \<Rightarrow> ArgoCDStatus" where
  "timePart parseTime argoStatus status =
     (case Option.bind (nestedMap argoStatus ''operationState'') (\<lambda>st. nestedString st ''finishedAt'') of
        None \<Rightarrow> status
      | Some finishedAt \<Rightarrow>
          (if finishedAt = [] then status
           else case parseTime finishedAt of None \<Rightarrow> status | Some t \<Rightarrow> status\<lparr>arg_lastSyncTime := Some t\<rparr>))"

definition extractArgoCDStatus :: "(string \<Rightarrow> time option) \<Rightarrow> ArgoApplication \<Rightarrow> ArgoCDStatus" where
  "extractArgoCDStatus parseTime argoApp =
     (let status = \<lparr>arg_syncStatus = ''Unknown'', arg_healthStatus = ''Unknown'', arg_lastSyncTime = None,
                    arg_revision = [], arg_applicationName = [], arg_applicationNamespace = []\<rparr>
      in case nestedMap (aa_object argoApp) ''status'' of
           None \<Rightarrow> status
         | Some argoStatus \<Rightarrow> timePart parseTime argoStatus (healthPart argoStatus (syncPart argoStatus status)))"

subsection \<open>Finding the persona\<close>

definition personaNamed :: "string \<Rightarrow> ApplicationPersona list \<Rightarrow> ApplicationPersona option" where
  "personaNamed appName items = List.find (\<lambda>p. asp_name (p_typed p) = appName) items"

definition findMatchingPersona ::
  "'w ArgoCDWatcher \<Rightarrow> 'w \<Rightarrow> string \<Rightarrow> string \<Rightarrow> ApplicationPersona option" where
  "findMatchingPersona r w appName namespace =
     (let inNamespace = (if namespace = [] then None
            else case aw_listPersonas r w (Some namespace) of
                   Inl _ \<Rightarrow> None | Inr items \<Rightarrow> personaNamed appName items)
      in case inNamespace of
           Some p \<Rightarrow> Some p
         | None \<Rightarrow> (case aw_listPersonas r w None of Inl _ \<Rightarrow> None | Inr items \<Rightarrow> personaNamed appName items))"

subsection \<open>Reconcile\<close>

definition Argo_Reconcile :: "'w ArgoCDWatcher \<Rightarrow> 'w \<Rightarrow> objkey \<Rightarrow> 'w \<times> (goerr + Result)" where
  "Argo_Reconcile r w key =
     (if \<not> aw_enabled r then (w, Inr noRequeue)
      else case aw_get r w key of
        Inl e \<Rightarrow> (w, if api_reason_of e = Some NotFound then Inr noRequeue else Inl e)
      | Inr argoApp \<Rightarrow>
          (let appName = getArgoCDAppName argoApp in
           if appName = [] then (w, Inr (requeueAfter argoCDRequeueInterval))
           else case findMatchingPersona r w appName (getArgoCDDestNamespace argoApp) of
                  None \<Rightarrow> (w, Inr (requeueAfter argoCDRequeueInterval))
                | Some persona \<Rightarrow>
                    (let argoStatus = (extractArgoCDStatus (aw_parseTime r) argoApp)
                           \<lparr>arg_applicationName := aa_name argoApp, arg_applicationNamespace := aa_namespace argoApp\<rparr>
                     in case aw_statusUpdate r w
                               (persona\<lparr>p_status := (p_status persona)\<lparr>ast_argoCD := Some argoStatus\<rparr>\<rparr>) of
                          (w1, Some e) \<Rightarrow> (w1, Inl e)
                        | (w1, None) \<Rightarrow> (w1, Inr (requeueAfter argoCDRequeueInterval)))))"

text \<open>The CRD check made before the watcher is registered: the kinds of the group version, if it is served.\<close>

definition ArgoCDCRDExists :: "(unit \<Rightarrow> goerr + string list) option \<Rightarrow> bool" where
  "ArgoCDCRDExists dc =
     (case dc of
        None \<Rightarrow> False
      | Some serverResources \<Rightarrow>
          (case serverResources () of Inl _ \<Rightarrow> False | Inr kinds \<Rightarrow> ''Application'' \<in> set kinds))"

subsection \<open>Laws\<close>

lemma personaNamed_Some:
  "personaNamed n items = Some p \<Longrightarrow> p \<in> set items \<and> asp_name (p_typed p) = n"
  by (auto simp: personaNamed_def dest: find_Some_in)

lemma personaNamed_None: "personaNamed n items = None \<longleftrightarrow> (\<forall>p \<in> set items. asp_name (p_typed p) \<noteq> n)"
  by (auto simp: personaNamed_def find_None_iff)


end
