(* ===== verification/PersonaCodec.thy ===== *)
theory PersonaCodec
  imports Personas
begin

text \<open>
  Writing the struct of a persona's spec as JSON and reading it back. The executor patches the JSON image
  of the spec, so what the image leaves out must not matter.
\<close>

named_theorems codec \<open>lookups in written objects and what a reader makes of them\<close>

text \<open>The value a field is written with, or its absence.\<close>

definition strVal :: "string \<Rightarrow> json option" where
  "strVal s = (if s = [] then None else Some (JStr s))"

definition arrVal :: "json list \<Rightarrow> json option" where
  "arrVal xs = (if xs = [] then None else Some (JArr xs))"

definition flagVal :: "bool \<Rightarrow> json option" where
  "flagVal b = (if b then Some (JBool True) else None)"

definition intVal :: "int option \<Rightarrow> json option" where
  "intVal i = map_option (\<lambda>n. JNum (of_int n)) i"

definition boolVal :: "bool option \<Rightarrow> json option" where
  "boolVal b = map_option JBool b"

definition objVal :: "jmap option \<Rightarrow> json option" where
  "objVal x = map_option JObj x"

definition first_of :: "'a option \<Rightarrow> 'a option \<Rightarrow> 'a option" where
  "first_of a b = (case a of None \<Rightarrow> b | Some x \<Rightarrow> Some x)"

lemma first_of_None [codec]: "first_of a None = a"
  by (cases a) (simp_all add: first_of_def)

lemma written [codec]:
  "map_of (omitStr k s) k' = (if k = k' then strVal s else None)"
  "map_of (optInt k i) k' = (if k = k' then intVal i else None)"
  "map_of (optBool k b) k' = (if k = k' then boolVal b else None)"
  "map_of (omitBool k f) k' = (if k = k' then flagVal f else None)"
  "map_of (optObj k x) k' = (if k = k' then objVal x else None)"
  "map_of (omitArr k xs) k' = (if k = k' then arrVal xs else None)"
  by (auto simp: omitStr_def optInt_def optBool_def omitBool_def optObj_def omitArr_def strVal_def arrVal_def
      flagVal_def intVal_def boolVal_def objVal_def split: option.splits)

lemma lookup_append [codec]: "map_of (a @ m) k = first_of (map_of a k) (map_of m k)"
  by (simp add: first_of_def map_add_def split: option.split)

lemma first_of_simps [codec]: "first_of None b = b" "first_of (Some x) b = Some x"
  by (simp_all add: first_of_def)

lemma readers [codec]:
  "strField m k = (case map_of m k of Some (JStr s) \<Rightarrow> s | _ \<Rightarrow> [])"
  "intField m k = (case map_of m k of Some (JNum q) \<Rightarrow> Some \<lfloor>q\<rfloor> | _ \<Rightarrow> None)"
  "boolField m k = (case map_of m k of Some (JBool b) \<Rightarrow> Some b | _ \<Rightarrow> None)"
  "objField m k = (case map_of m k of Some (JObj c) \<Rightarrow> Some c | _ \<Rightarrow> None)"
  "arrField m k = (case map_of m k of Some (JArr xs) \<Rightarrow> xs | _ \<Rightarrow> [])"
  by (simp_all add: strField_def intField_def boolField_def objField_def arrField_def)

lemma read_value [codec]:
  "(case strVal s of Some (JStr t) \<Rightarrow> t | _ \<Rightarrow> []) = s"
  "(case intVal i of Some (JNum q) \<Rightarrow> Some \<lfloor>q\<rfloor> | _ \<Rightarrow> None) = i"
  "(case boolVal b of Some (JBool t) \<Rightarrow> Some t | _ \<Rightarrow> None) = b"
  "(case objVal x of Some (JObj t) \<Rightarrow> Some t | _ \<Rightarrow> None) = x"
  "(case arrVal xs of Some (JArr t) \<Rightarrow> t | _ \<Rightarrow> []) = xs"
  "((case flagVal f of Some (JBool t) \<Rightarrow> Some t | _ \<Rightarrow> None) = Some True) = f"
  by (cases i; cases b; cases x; simp add: strVal_def arrVal_def flagVal_def intVal_def boolVal_def objVal_def)+

lemma asObj_JObj [simp]: "asObj (JObj m) = m" "asStr (JStr s) = s"
  by (auto simp: asObj_def asStr_def)

lemma read_written [simp]:
  "readResourceValues (writeResourceValues v) = v" "readTechnical (writeTechnical t) = t"
  "readScaling (writeScaling s) = s" "readHealth (writeHealth h) = h"
  "readDependency (writeDependency d) = d" "readPort (writePort p) = p" "readIngress (writeIngress i) = i"
  "readOwnership (writeOwnership own) = own" "readSecurity (writeSecurity sec) = sec"
  "readDeploymentPolicy (writeDeploymentPolicy dp) = dp" "readMaintenance (writeMaintenance mt) = mt"
  by (simp_all add: readResourceValues_def writeResourceValues_def readTechnical_def writeTechnical_def
      readScaling_def writeScaling_def readHealth_def writeHealth_def readDependency_def writeDependency_def
      readPort_def writePort_def readIngress_def writeIngress_def readOwnership_def writeOwnership_def
      readSecurity_def writeSecurity_def readDeploymentPolicy_def writeDeploymentPolicy_def
      readMaintenance_def writeMaintenance_def flagField_def codec comp_def del: map_of_append)

lemma read_nested [simp]:
  "readResources (writeResources r) = r" "readNetworking (writeNetworking n) = n"
  "readPolicies (writePolicies p) = p"
  by (simp_all add: readResources_def writeResources_def readNetworking_def writeNetworking_def
      readPolicies_def writePolicies_def codec comp_def option.map_comp option.map_ident del: map_of_append)


end
