(* ===== verification/PersonaExamples.thy ===== *)
theory PersonaExamples
  imports ArgoWatcher PersonaCodec Instances
begin

text \<open>
  The properties of the persona controller on a concrete application: a persona that asks for two
  replicas and bounds the memory, and a Deployment whose first container is a sidecar. The world is
  the stored persona.
\<close>

definition ex_units :: QuantityOps where
  "ex_units = \<lparr>
     qo_parse = (\<lambda>s. if s = ''256Mi'' then Some (ex_quantity s) else None),
     qo_equal = (\<lambda>a b. q_value a = q_value b), qo_bytes = showInt, qo_milli = showInt,
     qo_cmp = (\<lambda>a b. sgn (q_value a - q_value b)), qo_add = (\<lambda>a b. a\<lparr>q_value := q_value a + q_value b\<rparr>)\<rparr>"

definition ex_sidecar :: Container where
  "ex_sidecar = \<lparr>ct_name = ''proxy'', ct_image = ''proxy:9'', ct_limits = [], ct_requests = [],
     ct_livenessProbe = None, ct_readinessProbe = None, ct_securityContext = None\<rparr>"

definition ex_meshed :: Deployment where
  "ex_meshed = ex_deployment\<lparr>d_containers :=
     ex_sidecar # map (\<lambda>c. c\<lparr>ct_name := ''web''\<rparr>) (d_containers ex_deployment)\<rparr>"

definition ex_degraded :: ApplicationPersona where
  "ex_degraded = ex_persona\<lparr>p_status := (p_status ex_persona)\<lparr>ast_conditions :=
     [\<lparr>c_type = ''Ready'', c_status = CondFalse, c_reason = ''Issues'', c_message = ''Phase: Degraded'', c_ltt = 3\<rparr>]\<rparr>\<rparr>"

definition ex_persona_reconciler :: "Deployment list \<Rightarrow> ApplicationPersona PersonaReconciler" where
  "ex_persona_reconciler ds = \<lparr>
     ap_get = (\<lambda>w key. if key = (p_namespace w, p_name w) then Inr w else Inl (ApiErr NotFound ''not found'')),
     ap_listDeployments = (\<lambda>_ ns. Inr (filter (\<lambda>d. d_namespace d = ns) ds)),
     ap_listPods = (\<lambda>_ _. Inr []), ap_listPersonas = (\<lambda>w ns. Inr (if ns = p_namespace w then [w] else [])),
     ap_statusUpdate = (\<lambda>w q. (q, None)), ap_baseline = None, ap_quantity = ex_units, ap_mapOrder = (\<lambda>xs. xs)\<rparr>"

abbreviation ex_pkey :: objkey where "ex_pkey \<equiv> (''shop'', ''web'')"

definition ex_down :: Deployment where
  "ex_down = ex_meshed\<lparr>d_status := \<lparr>dst_replicas = 1, dst_readyReplicas = 0, dst_conditions = []\<rparr>\<rparr>"

definition ex_other :: Deployment where
  "ex_other = ex_meshed\<lparr>d_name := ''db'', d_selector := Some [(''app'', ''db'')]\<rparr>"

lemma ex_persona_reads [simp]:
  "ap_get (ex_persona_reconciler ds) ex_persona ex_pkey = Inr ex_persona"
  "ap_get (ex_persona_reconciler ds) ex_degraded ex_pkey = Inr ex_degraded"
  "ap_listDeployments (ex_persona_reconciler [ex_meshed]) w ''shop'' = Inr [ex_meshed]"
  "ap_listDeployments (ex_persona_reconciler [ex_down]) w ''shop'' = Inr [ex_down]"
  "ap_listDeployments (ex_persona_reconciler [ex_meshed, ex_other]) w ''shop'' = Inr [ex_meshed, ex_other]"
  by (simp_all add: ex_persona_reconciler_def ex_persona_def ex_degraded_def ex_meshed_def ex_down_def ex_other_def
      ex_deployment_def)

lemma ex_persona_named [simp]: "p_name ex_persona = ''web''" "p_namespace ex_persona = ''shop''"
  by (simp_all add: ex_persona_def)

lemma ex_resolved:
  "asp_name (p_typed ex_persona) = ''web''" "asp_name (p_typed ex_degraded) = ''web''"
  "Resolve [ex_meshed] ''web'' = Inr (Some ex_meshed, RungName)"
  "Resolve [ex_down] ''web'' = Inr (Some ex_down, RungName)"
  by code_simp+

text \<open>What the two reconciles below end in.\<close>

fun ends :: "('w \<times> 'r) run \<Rightarrow> ('w \<Rightarrow> bool) \<Rightarrow> bool" where
  "ends (Panics _) P = False"
| "ends (Returns x) P = P (fst x)"

lemma endsE:
  assumes "ends m P"
  obtains w' res where "m = Returns (w', res)" "P w'"
  using assms by (cases m) auto

lemma ex_runs:
  "ends (Persona_Reconcile (ex_persona_reconciler [ex_meshed]) 7 ex_persona ex_pkey) (\<lambda>q. q \<noteq> ex_persona)"
  "ends (Persona_Reconcile (ex_persona_reconciler [ex_down]) 7 ex_degraded ex_pkey)
     (\<lambda>q. ast_phase (p_status q) = phaseFailed)"
  by code_simp+

lemma ex_persisted: "(w', res) = persistStatus (ex_persona_reconciler ds) w q \<Longrightarrow> w' = q"
  by (simp add: persistStatus_def ex_persona_reconciler_def)

theorem persona_verdict_witness:
  "\<exists>q. ast_phase (p_status q) = phaseActive \<and> condition_true (ast_conditions (p_status q)) conditionTypeReady \<and>
     ast_activeIncidents (p_status q) = 1 \<and> q\<lparr>p_status := p_status ex_persona\<rparr> = ex_persona"
proof -
  obtain w' res where run: "Persona_Reconcile (ex_persona_reconciler [ex_meshed]) 7 ex_persona ex_pkey = Returns (w', res)"
    using ex_runs(1) by (rule endsE)
  have met: "serving ex_meshed" "demands_met (p_typed ex_persona) ex_meshed"
    by (simp_all add: serving_def demands_met_def ex_meshed_def ex_deployment_def ex_persona_def typedSpec_def objField_def)
  have one: "ast_activeIncidents (p_status ex_persona) = 1" by (simp add: ex_persona_def)
  from persona_verdict [OF run, of ex_persona "[ex_meshed]"] met one show ?thesis
    by (auto simp: ex_resolved Let_def)
qed

theorem persona_status_admitted_witness:
  "\<exists>w' res q. (w', res) = persistStatus (ex_persona_reconciler [ex_meshed]) ex_persona q \<and> status_admitted (p_status q)"
proof -
  obtain w' res where run: "Persona_Reconcile (ex_persona_reconciler [ex_meshed]) 7 ex_persona ex_pkey = Returns (w', res)"
    "w' \<noteq> ex_persona" using ex_runs(1) by (rule endsE)
  have "status_admitted (p_status ex_persona)" by (simp add: ex_persona_def status_admitted_def optEnum_def)
  with persona_status_admitted [OF run] show ?thesis by (simp only: ex_persona_reads) blast
qed

theorem ready_message_goes_stale_witness:
  "\<exists>(q :: ApplicationPersona) (c :: Condition). ast_phase (p_status q) = phaseFailed \<and>
     List.find (\<lambda>c. c_type c = conditionTypeReady) (ast_conditions (p_status q)) = Some c \<and>
     c_message c = ''Phase: Degraded''"
proof -
  obtain w' res where run: "Persona_Reconcile (ex_persona_reconciler [ex_down]) 7 ex_degraded ex_pkey = Returns (w', res)"
    "ast_phase (p_status w') = phaseFailed" using ex_runs(2) by (rule endsE)
  define c where "c = \<lparr>c_type = ''Ready'', c_status = CondFalse, c_reason = ''Issues'',
    c_message = ''Phase: Degraded'', c_ltt = (3::time)\<rparr>"
  have "List.find (\<lambda>c. c_type c = conditionTypeReady) (ast_conditions (p_status ex_degraded)) = Some c"
    by (simp add: ex_degraded_def c_def)
  with ready_message_goes_stale [OF run(1), of ex_degraded "[ex_down]" ex_down RungName c]
  obtain q where "(w', res) = persistStatus (ex_persona_reconciler [ex_down]) ex_degraded q"
    "ast_phase (p_status q) \<noteq> phaseActive \<longrightarrow>
       List.find (\<lambda>c. c_type c = conditionTypeReady) (ast_conditions (p_status q)) = Some c"
    by (auto simp: ex_resolved c_def)
  moreover from this(1) have failed: "ast_phase (p_status q) = phaseFailed" using run(2) ex_persisted by metis
  ultimately have "List.find (\<lambda>c. c_type c = conditionTypeReady) (ast_conditions (p_status q)) = Some c" by simp
  moreover have "c_message c = ''Phase: Degraded''" by (simp add: c_def)
  ultimately show ?thesis using failed by blast
qed

theorem prior_images_after_reconcile_witness:
  "map_option ct_image (PickContainer ex_meshed ''web'') = Some ''web:1'' \<and>
   (\<exists>q. set (priorImages (Some q) ''web:1'') = {''proxy:9''})"
proof -
  obtain w' res where run: "Persona_Reconcile (ex_persona_reconciler [ex_meshed]) 7 ex_persona ex_pkey = Returns (w', res)"
    using ex_runs(1) by (rule endsE)
  have containers: "d_containers ex_meshed = ex_sidecar # map (\<lambda>c. c\<lparr>ct_name := ''web''\<rparr>) (d_containers ex_deployment)"
    by (simp add: ex_meshed_def)
  have "getStr (p_annotations ex_persona) AnnotationImportedImage = []" by (simp add: ex_persona_def getStr_def)
  then have "{i \<in> {getStr (p_annotations ex_persona) AnnotationImportedImage, ct_image ex_sidecar}. i \<noteq> [] \<and> i \<noteq> ''web:1''} =
      {''proxy:9''}" by (auto simp: ex_sidecar_def)
  then have "\<exists>q. set (priorImages (Some q) ''web:1'') = {''proxy:9''}"
    using prior_images_after_reconcile [OF run, of ex_persona "[ex_meshed]" ex_meshed RungName _ _ "''web:1''", OF _ _ _ containers]
    by (auto simp: ex_resolved)
  moreover have "map_option ct_image (PickContainer ex_meshed ''web'') = Some ''web:1''" by code_simp
  ultimately show ?thesis by blast
qed

theorem unwatched_deployments_do_not_matter_witness:
  "Persona_Reconcile (ex_persona_reconciler [ex_meshed, ex_other]) 7 ex_persona ex_pkey =
   Persona_Reconcile ((ex_persona_reconciler [ex_meshed, ex_other])\<lparr>ap_listDeployments := (\<lambda>_ _. Inr [ex_meshed])\<rparr>)
     7 ex_persona ex_pkey"
proof -
  let ?r = "ex_persona_reconciler [ex_meshed, ex_other]"
  have silent: "ex_pkey \<notin> set (deploymentToPersona ?r ex_persona ex_other)" by code_simp
  have listed: "ap_listPersonas ?r ex_persona (d_namespace ex_other) = Inr [ex_persona]"
    by (simp add: ex_persona_reconciler_def ex_other_def ex_meshed_def ex_deployment_def ex_persona_def)
  have items: "ap_listDeployments ?r ex_persona (fst ex_pkey) = Inr ([ex_meshed] @ ex_other # [])" by simp
  have key: "ex_pkey = (p_namespace ex_persona, p_name ex_persona)" by simp
  from unwatched_deployments_do_not_matter [OF ex_persona_reads(1) key listed _ silent items, of 7]
  show ?thesis by (simp only: append_Nil2 list.set_intros)
qed

subsection \<open>The ArgoCD watcher\<close>

definition ex_application :: ArgoApplication where
  "ex_application = \<lparr>aa_name = ''web'', aa_namespace = ''argocd'', aa_labels = [],
     aa_object = [(''spec'', JObj [(''destination'', JObj [(''namespace'', JStr ''shop'')])]),
                  (''status'', JObj [(''sync'', JObj [(''status'', JStr ''Synced'')])])]\<rparr>"

definition ex_watcher :: "ApplicationPersona ArgoCDWatcher" where
  "ex_watcher = \<lparr>aw_enabled = True, aw_get = (\<lambda>_ _. Inr ex_application),
     aw_listPersonas = (\<lambda>_ ns. Inr (if ns = None \<or> ns = Some ''shop'' then [ex_persona] else [])),
     aw_statusUpdate = (\<lambda>_ q. (q, None)), aw_parseTime = (\<lambda>_. None)\<rparr>"


end
