(* ===== verification/ClusterExamples.thy ===== *)
theory ClusterExamples
  imports ClusterProps Bootstrap PersonaExamples
begin

text \<open>
  The properties of the cluster controller on concrete clusters: one whose nodes cannot be listed, one
  on EKS that says so only in its labels, and one with waiting pods.
\<close>

definition ex_node_info :: NodeInfo where
  "ex_node_info = \<lparr>ni_name = ''n1'', ni_role = ''worker'', ni_ready = True, ni_capacity = None,
     ni_allocatable = None, ni_taints = [], ni_labels = [], ni_kubeletVersion = [], ni_containerRuntime = []\<rparr>"

definition ex_cluster_persona :: ClusterPersona where
  "ex_cluster_persona = (buildPersona [])\<lparr>cp_status := emptyClusterStatus\<lparr>cst_nodes := [ex_node_info]\<rparr>\<rparr>"

definition ex_eks_node :: Node where
  "ex_eks_node = \<lparr>no_name = ''n1'', no_labels = [(''eks.amazonaws.com/nodegroup'', ''main'')], no_conditions = [],
     no_capacity = [], no_allocatable = [], no_kubeletVersion = [], no_containerRuntimeVersion = [],
     no_taints = [], no_providerID = ''custom://n1''\<rparr>"

definition ex_waiting :: Pod where
  "ex_waiting = \<lparr>po_name = ''big'', po_namespace = ''shop'', po_labels = [], po_creationTimestamp = 0,
     po_deletionTimestamp = None, po_owners = [], po_nodeName = [], po_hostname = [], po_phase = ''Pending'', po_reason = [],
     po_message = [], po_conditions = [], po_containerStatuses = [], po_initContainerStatuses = [],
     po_containers = [\<lparr>ct_name = ''c'', ct_image = ''big:1'', ct_limits = [],
       ct_requests = [(''cpu'', ex_quantity ''64'')], ct_livenessProbe = None, ct_readinessProbe = None,
       ct_securityContext = None\<rparr>], po_initContainers = []\<rparr>"

text \<open>The world is the stored ClusterPersona and whether the nodes can be listed.\<close>

definition ex_discovery :: "(bool \<times> ClusterPersona) DiscoveryClient" where
  "ex_discovery = \<lparr>
     dc_get = (\<lambda>w _. Inr (snd w)), dc_update = (\<lambda>w p. ((fst w, p), Inr p)),
     dc_statusUpdate = (\<lambda>w p. ((fst w, p), None)),
     dc_listNodes = (\<lambda>w. if fst w then Inr [ex_eks_node] else Inl (Err ''timeout'')),
     dc_listPods = (\<lambda>w _. if fst w then Inr [ex_waiting] else Inr []),
     dc_getNamespace = (\<lambda>_ _. Inl (Err ''not found'')), dc_listNamespaces = (\<lambda>_. Inr []),
     dc_listPersonas = (\<lambda>_. Inr []), dc_serverVersion = None, dc_quantity = ex_units, dc_labelOrder = (\<lambda>xs. xs)\<rparr>"

theorem cluster_verdict_witness:
  "discoverNodes ex_discovery (False, ex_cluster_persona) = Inl (Err ''timeout'') \<and>
   (\<exists>q :: ClusterPersona. cst_phase (cp_status q) = clusterPhaseReady \<and>
      condition_is (cst_conditions (cp_status q)) conditionTypeDiscovered CondTrue ''DiscoveryComplete'')"
proof -
  let ?w = "(False, ex_cluster_persona)"
  obtain w' res where run: "Cluster_Reconcile ex_discovery 7 ?w ''dorgu-cluster'' = (w', res)" by fastforce
  have got: "dc_get ex_discovery ?w ''dorgu-cluster'' = Inr ex_cluster_persona" by (simp add: ex_discovery_def)
  have settled: "applySelfHealingDefaults ex_cluster_persona = (ex_cluster_persona, False)" by code_simp
  have kept: "(if False then dc_update ex_discovery ?w ex_cluster_persona else (?w, Inr ex_cluster_persona)) =
      (?w, Inr ex_cluster_persona)" by simp
  have failed: "discoverNodes ex_discovery ?w = Inl (Err ''timeout'')"
    by (simp add: discoverNodes_def ex_discovery_def)
  have "cst_nodes (cp_status ex_cluster_persona) = [ex_node_info]" "ni_ready ex_node_info"
    by (simp_all add: ex_cluster_persona_def ex_node_info_def)
  with cluster_verdict [OF run got settled kept failed] failed show ?thesis by auto
qed

theorem platform_hints_must_pass_the_filter_witness:
  "labelPlatform ''eks.amazonaws.com/nodegroup'' = Some ''EKS'' \<and>
   (\<exists>nodes. discoverNodes ex_discovery (True, ex_cluster_persona) = Inr nodes \<and>
      detectPlatform ex_discovery (True, ex_cluster_persona) nodes = ''Generic'')"
proof -
  let ?w = "(True, ex_cluster_persona)"
  have listed: "dc_listNodes ex_discovery ?w = Inr [ex_eks_node]" by (simp add: ex_discovery_def)
  have found: "discoverNodes ex_discovery ?w = Inr [nodeInfo ex_eks_node]"
    by (simp add: discoverNodes_def listed)
  have order: "set (dc_labelOrder ex_discovery keys) = set keys" for keys by (simp add: ex_discovery_def)
  have dull: "\<not> interesting ''eks.amazonaws.com/nodegroup''" "providerPlatform (no_providerID ex_eks_node) = None"
    "labelPlatform ''eks.amazonaws.com/nodegroup'' = Some ''EKS''" by code_simp+
  have "labelPlatform key = None"
    if "node \<in> set [ex_eks_node]" "key \<in> fst ` set (no_labels node)" "interesting key" for node key
    using that dull(1) by (simp add: ex_eks_node_def)
  from platform_hints_must_pass_the_filter [OF listed found order this] found dull(2,3) show ?thesis by simp
qed

theorem utilization_within_bounds_witness:
  "0 \<le> utilization 1 3 \<and> utilization 1 3 \<le> 100 \<and> utilizationPercent 1 3 = ''33%''"
proof -
  have "utilization 1 3 = 33" by code_simp
  with utilization_within_bounds [of 1 3] show ?thesis by (simp add: showInt_def showNat.simps digitChar_def)
qed

theorem unplaced_pods_use_nothing_witness:
  "crs_usedCPU (calculateResourceSummary ex_discovery (True, ex_cluster_persona) []) = ''0'' \<and>
   crs_usedCPU (calculateResourceSummary ex_discovery (True, ex_cluster_persona) []) =
     crs_usedCPU (calculateResourceSummary ex_discovery (False, ex_cluster_persona) [])"
proof -
  have pods: "dc_listPods ex_discovery (True, ex_cluster_persona) None = Inr [ex_waiting]"
    "dc_listPods ex_discovery (False, ex_cluster_persona) None = Inr []" by (simp_all add: ex_discovery_def)
  have none: "filter podHoldsAllocation [ex_waiting] = []"
    by (simp add: podHoldsAllocation_def ex_waiting_def)
  then have "filter podHoldsAllocation [ex_waiting] = filter podHoldsAllocation []" by simp
  note law = unplaced_pods_use_nothing [OF pods this, of "[]"]
  show ?thesis
    using law [THEN conjunct1] law [THEN conjunct2, THEN mp, OF none, THEN conjunct1]
    by (simp only: prod.inject fst_conv snd_conv)
qed

end
