(* ===== verification/JsonDecode.thy ===== *)
theory JsonDecode
  imports Prose
begin

text \<open>
  \<^verbatim>\<open>encoding/json\<close> as the clients of the language models and the WebSocket server use it: a text
  decodes to a JSON value or not, by a parser that is a parameter, and a value is decoded into a
  struct field by field. The text of the package's errors is a parameter too, given the target and
  what did not fit it.
\<close>

definition newline :: string where "newline = [CHR 0x0A]"

definition rawOf :: "(string \<Rightarrow> json option) \<Rightarrow> string \<Rightarrow> raw" where
  "rawOf parse body =
     (case parse body of
        Some v \<Rightarrow> RawJson v | None \<Rightarrow> if body = [] then RawEmpty else RawInvalid body)"

definition unmarshal ::
  "(string \<Rightarrow> raw \<Rightarrow> goerr) \<Rightarrow> string \<Rightarrow> (json \<Rightarrow> 'a option) \<Rightarrow> raw \<Rightarrow> goerr + 'a" where
  "unmarshal jsonError target dec r =
     (case (case r of RawJson v \<Rightarrow> dec v | _ \<Rightarrow> None) of
        Some x \<Rightarrow> Inr x | None \<Rightarrow> Inl (jsonError target r))"

text \<open>
  Decoding into a struct. A key names a field in any case, and of several keys for one field the
  last one counts. null leaves a string or a number as it is and empties a list; a value of another
  kind than the field is an error.
\<close>

definition fieldValues :: "jmap \<Rightarrow> string \<Rightarrow> json list" where
  "fieldValues m name = map snd (filter (\<lambda>kv. toLower (fst kv) = toLower name) m)"

definition decodeString :: "string \<Rightarrow> json \<Rightarrow> string option" where
  "decodeString old v = (case v of JStr s \<Rightarrow> Some s | JNull \<Rightarrow> Some old | _ \<Rightarrow> None)"

definition decodeObject :: "json \<Rightarrow> jmap option" where
  "decodeObject v = (case v of JObj m \<Rightarrow> Some m | JNull \<Rightarrow> Some [] | _ \<Rightarrow> None)"

definition decodeArray :: "json \<Rightarrow> json list option" where
  "decodeArray v = (case v of JArr vs \<Rightarrow> Some vs | JNull \<Rightarrow> Some [] | _ \<Rightarrow> None)"

definition decodeField :: "('a \<Rightarrow> json \<Rightarrow> 'a option) \<Rightarrow> 'a \<Rightarrow> jmap \<Rightarrow> string \<Rightarrow> 'a option" where
  "decodeField dec initial m name =
     fold (\<lambda>v acc. Option.bind acc (\<lambda>old. dec old v)) (fieldValues m name) (Some initial)"

fun decodeAll :: "(json \<Rightarrow> 'a option) \<Rightarrow> json list \<Rightarrow> 'a list option" where
  "decodeAll dec [] = Some []"
| "decodeAll dec (v # vs) =
     Option.bind (dec v) (\<lambda>x. map_option (Cons x) (decodeAll dec vs))"

definition stringAt :: "jmap \<Rightarrow> string \<Rightarrow> string option" where
  "stringAt m name = decodeField decodeString [] m name"

definition listAt :: "(json \<Rightarrow> 'a option) \<Rightarrow> jmap \<Rightarrow> string \<Rightarrow> 'a list option" where
  "listAt dec m name = decodeField (\<lambda>_ v. Option.bind (decodeArray v) (decodeAll dec)) [] m name"

text \<open>A field of type \<^verbatim>\<open>json.RawMessage\<close> keeps the last value given for it, null included.\<close>

definition rawAt :: "jmap \<Rightarrow> string \<Rightarrow> raw" where
  "rawAt m name =
     (case rev (filter (\<lambda>kv. toLower (fst kv) = toLower name) m) of
        [] \<Rightarrow> RawEmpty | (_, x) # _ \<Rightarrow> RawJson x)"

subsection \<open>Laws\<close>

lemma decodeField_absent: "fieldValues m name = [] \<Longrightarrow> decodeField dec d m name = Some d"
  by (simp add: decodeField_def)

lemma decodeField_single: "fieldValues m name = [v] \<Longrightarrow> decodeField dec d m name = dec d v"
  by (simp add: decodeField_def)

end
