(* ===== verification/WsProtocol.thy ===== *)
theory WsProtocol
  imports HealthCheck JsonDecode
begin

text \<open>
  The protocol the WebSocket server speaks with the CLI (\<^verbatim>\<open>internal/websocket/protocol.go\<close>) and the
  handlers of its requests (\<^verbatim>\<open>handlers.go\<close>). A payload is the JSON value it encodes. A handler
  returns the subscriptions it leaves and the one message it sends; the lists it reads from the
  cluster are fields of a backend.
\<close>

subsection \<open>Messages (protocol.go)\<close>

abbreviation "MessageTypeSubscribe \<equiv> ''subscribe''"
abbreviation "MessageTypeUnsubscribe \<equiv> ''unsubscribe''"
abbreviation "MessageTypeRequest \<equiv> ''request''"
abbreviation "MessageTypeEvent \<equiv> ''event''"
abbreviation "MessageTypeResponse \<equiv> ''response''"
abbreviation "MessageTypeError \<equiv> ''error''"

abbreviation "TopicPersonas \<equiv> ''personas''"
abbreviation "TopicCluster \<equiv> ''cluster''"
abbreviation "TopicIncidents \<equiv> ''incidents''"
abbreviation "TopicRemediations \<equiv> ''remediations''"
abbreviation "TopicHealth \<equiv> ''health''"

record WsMessage =
  ms_type :: string
  ms_topic :: string
  ms_requestID :: string
  ms_payload :: raw
  ms_timestamp :: time

definition NewMessage :: "time \<Rightarrow> string \<Rightarrow> string \<Rightarrow> json \<Rightarrow> WsMessage" where
  "NewMessage now msgType topic payload =
     \<lparr>ms_type = msgType, ms_topic = topic, ms_requestID = [], ms_payload = RawJson payload, ms_timestamp = now\<rparr>"

definition NewErrorMessage :: "time \<Rightarrow> string \<Rightarrow> string \<Rightarrow> WsMessage" where
  "NewErrorMessage now code message =
     NewMessage now MessageTypeError [] (JObj [(''code'', JStr code), (''message'', JStr message)])"

definition NewEventMessage :: "time \<Rightarrow> string \<Rightarrow> json \<Rightarrow> WsMessage" where
  "NewEventMessage now topic payload = NewMessage now MessageTypeEvent topic payload"

text \<open>A field with \<^verbatim>\<open>omitempty\<close> is left out when its string is empty.\<close>

definition omitEmpty :: "string \<Rightarrow> string \<Rightarrow> jmap" where
  "omitEmpty name v = (if v = [] then [] else [(name, JStr v)])"

text \<open>A message on the wire and back; times are texts by a format and its parser.\<close>

definition messageJSON :: "(time \<Rightarrow> string) \<Rightarrow> WsMessage \<Rightarrow> json" where
  "messageJSON fmtTime m = JObj
     ([(''type'', JStr (ms_type m))] @ omitEmpty ''topic'' (ms_topic m) @ omitEmpty ''requestId'' (ms_requestID m) @
      (case ms_payload m of RawJson v \<Rightarrow> [(''payload'', v)] | _ \<Rightarrow> []) @
      [(''timestamp'', JStr (fmtTime (ms_timestamp m)))])"

definition decodeTime :: "(string \<Rightarrow> time option) \<Rightarrow> time \<Rightarrow> json \<Rightarrow> time option" where
  "decodeTime parseTime old v =
     (case v of JNull \<Rightarrow> Some old | JStr s \<Rightarrow> parseTime s | _ \<Rightarrow> None)"

definition decodeMessage :: "(string \<Rightarrow> time option) \<Rightarrow> json \<Rightarrow> WsMessage option" where
  "decodeMessage parseTime v = Option.bind (decodeObject v) (\<lambda>m.
     Option.bind (stringAt m ''type'') (\<lambda>type'.
     Option.bind (stringAt m ''topic'') (\<lambda>topic.
     Option.bind (stringAt m ''requestId'') (\<lambda>requestID.
     Option.bind (decodeField (decodeTime parseTime) zeroTime m ''timestamp'') (\<lambda>timestamp.
       Some \<lparr>ms_type = type', ms_topic = topic, ms_requestID = requestID, ms_payload = rawAt m ''payload'',
             ms_timestamp = timestamp\<rparr>)))))"

subsection \<open>Events\<close>

definition incidentEventJSON :: "IncidentEvent \<Rightarrow> json" where
  "incidentEventJSON e = JObj
     ([(''eventType'', JStr (iv_eventType e)), (''name'', JStr (iv_name e)), (''namespace'', JStr (iv_namespace e)),
       (''severity'', JStr (iv_severity e)), (''category'', JStr (iv_category e)), (''signal'', JStr (iv_signal e)),
       (''phase'', JStr (iv_phase e)), (''personaName'', JStr (iv_personaName e)),
       (''personaKind'', JStr (iv_personaKind e))] @ omitEmpty ''summary'' (iv_summary e))"

definition remediationEventJSON :: "RemediationEvent \<Rightarrow> json" where
  "remediationEventJSON e = JObj
     ([(''eventType'', JStr (re_eventType e)), (''name'', JStr (re_name e)), (''namespace'', JStr (re_namespace e)),
       (''phase'', JStr (phase_str (re_phase e))), (''actionType'', JStr (re_actionType e))] @
      omitEmpty ''confidence'' (re_confidence e) @ [(''personaName'', JStr (re_personaName e))] @
      omitEmpty ''personaKind'' (re_personaKind e))"

definition healthEventJSON :: "nat \<Rightarrow> nat \<Rightarrow> json" where
  "healthEventJSON active pending = JObj
     [(''eventType'', JStr ''health-update''), (''activeIncidents'', JNum (of_nat active)),
      (''pendingRemediations'', JNum (of_nat pending))]"

text \<open>The three \<^verbatim>\<open>Broadcast\<close> functions: the message they hand to the broadcast channel.\<close>

fun eventMessage :: "time \<Rightarrow> WsEvent \<Rightarrow> WsMessage" where
  "eventMessage now (WsIncident e) = NewEventMessage now TopicIncidents (incidentEventJSON e)"
| "eventMessage now (WsRemediation e) = NewEventMessage now TopicRemediations (remediationEventJSON e)"
| "eventMessage now (WsHealth active pending) = NewEventMessage now TopicHealth (healthEventJSON active pending)"

subsection \<open>Summaries\<close>

definition personaSummary :: "ApplicationPersona \<Rightarrow> json" where
  "personaSummary p = JObj
     [(''namespace'', JStr (p_namespace p)), (''name'', JStr (p_name p)), (''appName'', JStr (asp_name (p_typed p))),
      (''type'', JStr (asp_type (p_typed p))), (''tier'', JStr (asp_tier (p_typed p))),
      (''phase'', JStr (ast_phase (p_status p))),
      (''health'', JStr (case ast_health (p_status p) of None \<Rightarrow> [] | Some h \<Rightarrow> hst_status h))]"

definition incidentSummary :: "IncidentMemory \<Rightarrow> json" where
  "incidentSummary im =
     (let sp = im_spec im in JObj
       ([(''name'', JStr (im_name im)), (''namespace'', JStr (im_namespace im)), (''severity'', JStr (is_severity sp)),
         (''category'', JStr (is_category sp)), (''signal'', JStr (di_signal (is_detection sp))),
         (''phase'', JStr (ims_phase (im_status im))), (''personaName'', JStr (pr_name (is_personaRef sp)))] @
        omitEmpty ''personaKind'' (pr_kind (is_personaRef sp)) @
        omitEmpty ''summary'' (case is_rootCause sp of None \<Rightarrow> [] | Some rc \<Rightarrow> rc_summary rc)))"

definition remediationSummary :: "RemediationAction \<Rightarrow> json" where
  "remediationSummary ra =
     (let sp = ra_spec ra in JObj
       ([(''name'', JStr (ra_name ra)), (''namespace'', JStr (ra_namespace ra)),
         (''actionType'', JStr (ad_type (sp_action sp))), (''phase'', JStr (phase_str (ra_phase ra)))] @
        omitEmpty ''confidence'' (sp_confidence sp) @ [(''personaName'', JStr (pr_name (sp_personaRef sp)))] @
        omitEmpty ''personaKind'' (pr_kind (sp_personaRef sp))))"

text \<open>A nil slice is encoded as null.\<close>

definition clusterResponse :: "ClusterPersona \<Rightarrow> json" where
  "clusterResponse cp =
     (let st = cp_status cp; addons = map adn_name (filter adn_installed (cst_addons st)) in JObj
       [(''name'', JStr (cps_name (cp_spec cp))), (''environment'', JStr (cps_environment (cp_spec cp))),
        (''phase'', JStr (cst_phase st)), (''kubernetesVersion'', JStr (cst_kubernetesVersion st)),
        (''platform'', JStr (cst_platform st)), (''nodeCount'', JNum (of_nat (length (cst_nodes st)))),
        (''applicationCount'', JNum (of_int (cst_applicationCount st))),
        (''addons'', if addons = [] then JNull else JArr (map JStr addons))])"

subsection \<open>Handlers (handlers.go)\<close>

text \<open>A list is asked for by namespace, the empty one standing for all.\<close>

record 'w WsBackend =
  wb_personas :: "'w \<Rightarrow> string \<Rightarrow> goerr + ApplicationPersona list"
  wb_clusters :: "'w \<Rightarrow> goerr + ClusterPersona list"
  wb_incidents :: "'w \<Rightarrow> string \<Rightarrow> goerr + IncidentMemory list"
  wb_remediations :: "'w \<Rightarrow> string \<Rightarrow> goerr + RemediationAction list"
  wb_jsonError :: "string \<Rightarrow> raw \<Rightarrow> goerr"

text \<open>\<^verbatim>\<open>NewMessage\<close> followed by the copy of the request identifier.\<close>

definition respond :: "time \<Rightarrow> WsMessage \<Rightarrow> string \<Rightarrow> json \<Rightarrow> WsMessage" where
  "respond now msg topic payload = (NewMessage now MessageTypeResponse topic payload)\<lparr>ms_requestID := ms_requestID msg\<rparr>"

text \<open>
  The requests have one string field each; a message without a payload leaves it empty. \<open>label\<close> is
  the word of the error message, \<open>target\<close> the struct the JSON package names.
\<close>

definition requestField ::
  "'w WsBackend \<Rightarrow> string \<Rightarrow> string \<Rightarrow> string \<Rightarrow> WsMessage \<Rightarrow> goerr + string" where
  "requestField b target label field msg =
     (if ms_payload msg = RawEmpty then Inr []
      else (case unmarshal (wb_jsonError b) target (\<lambda>v. Option.bind (decodeObject v) (\<lambda>m. stringAt m field)) (ms_payload msg) of
              Inl e \<Rightarrow> Inl (Wrap (''failed to parse '' @ label @ '' request'') e)
            | Inr value \<Rightarrow> Inr value))"

definition handleListPersonas :: "'w WsBackend \<Rightarrow> time \<Rightarrow> 'w \<Rightarrow> WsMessage \<Rightarrow> WsMessage" where
  "handleListPersonas b now w msg =
     (case requestField b ''ListPersonasRequest'' ''personas'' ''namespace'' msg of
        Inl e \<Rightarrow> NewErrorMessage now ''invalid_payload'' (err_text e)
      | Inr ns \<Rightarrow>
          (case wb_personas b w ns of
             Inl e \<Rightarrow> NewErrorMessage now ''list_failed'' (err_text e)
           | Inr ps \<Rightarrow> respond now msg TopicPersonas (JObj [(''personas'', JArr (map personaSummary ps))])))"

definition handleGetCluster :: "'w WsBackend \<Rightarrow> time \<Rightarrow> 'w \<Rightarrow> WsMessage \<Rightarrow> WsMessage" where
  "handleGetCluster b now w msg =
     (case requestField b ''GetClusterRequest'' ''cluster'' ''name'' msg of
        Inl e \<Rightarrow> NewErrorMessage now ''invalid_payload'' (err_text e)
      | Inr name \<Rightarrow>
          (case wb_clusters b w of
             Inl e \<Rightarrow> NewErrorMessage now ''list_failed'' (err_text e)
           | Inr [] \<Rightarrow> NewErrorMessage now ''not_found'' ''No ClusterPersona found''
           | Inr (cp # cps) \<Rightarrow>
               (if name \<noteq> [] then
                  (case List.find (\<lambda>c. cp_name c = name) (cp # cps) of
                     None \<Rightarrow> NewErrorMessage now ''not_found''
                               (''ClusterPersona '' @ [CHR 0x27] @ name @ [CHR 0x27] @ '' not found'')
                   | Some c \<Rightarrow> respond now msg TopicCluster (clusterResponse c))
                else respond now msg TopicCluster (clusterResponse cp))))"

definition handleListIncidents :: "'w WsBackend \<Rightarrow> time \<Rightarrow> 'w \<Rightarrow> WsMessage \<Rightarrow> WsMessage" where
  "handleListIncidents b now w msg =
     (case requestField b ''ListIncidentsRequest'' ''incidents'' ''namespace'' msg of
        Inl e \<Rightarrow> NewErrorMessage now ''invalid_payload'' (err_text e)
      | Inr ns \<Rightarrow>
          (case wb_incidents b w ns of
             Inl e \<Rightarrow> NewErrorMessage now ''list_failed'' (err_text e)
           | Inr ims \<Rightarrow> respond now msg TopicIncidents (JObj [(''incidents'', JArr (map incidentSummary ims))])))"

definition handleListRemediations :: "'w WsBackend \<Rightarrow> time \<Rightarrow> 'w \<Rightarrow> WsMessage \<Rightarrow> WsMessage" where
  "handleListRemediations b now w msg =
     (case requestField b ''ListRemediationsRequest'' ''remediations'' ''namespace'' msg of
        Inl e \<Rightarrow> NewErrorMessage now ''invalid_payload'' (err_text e)
      | Inr ns \<Rightarrow>
          (case wb_remediations b w ns of
             Inl e \<Rightarrow> NewErrorMessage now ''list_failed'' (err_text e)
           | Inr ras \<Rightarrow> respond now msg TopicRemediations (JObj [(''remediations'', JArr (map remediationSummary ras))])))"

definition handleRequest :: "'w WsBackend \<Rightarrow> time \<Rightarrow> 'w \<Rightarrow> WsMessage \<Rightarrow> WsMessage" where
  "handleRequest b now w msg =
     (let topic = ms_topic msg in
      if topic = TopicPersonas then handleListPersonas b now w msg
      else if topic = TopicCluster then handleGetCluster b now w msg
      else if topic = TopicIncidents then handleListIncidents b now w msg
      else if topic = TopicRemediations then handleListRemediations b now w msg
      else NewErrorMessage now ''unknown_topic'' (''Unknown topic: '' @ topic))"

text \<open>The subscriptions are the set of topics that are true in the map.\<close>

definition handleSubscribe :: "time \<Rightarrow> string set \<Rightarrow> WsMessage \<Rightarrow> string set \<times> WsMessage" where
  "handleSubscribe now subs msg =
     (insert (ms_topic msg) subs,
      respond now msg (ms_topic msg) (JObj [(''status'', JStr ''subscribed''), (''topic'', JStr (ms_topic msg))]))"

definition handleUnsubscribe :: "time \<Rightarrow> string set \<Rightarrow> WsMessage \<Rightarrow> string set \<times> WsMessage" where
  "handleUnsubscribe now subs msg =
     (subs - {ms_topic msg},
      respond now msg (ms_topic msg) (JObj [(''status'', JStr ''unsubscribed''), (''topic'', JStr (ms_topic msg))]))"

definition handleMessage :: "'w WsBackend \<Rightarrow> time \<Rightarrow> 'w \<Rightarrow> string set \<Rightarrow> WsMessage \<Rightarrow> string set \<times> WsMessage" where
  "handleMessage b now w subs msg =
     (if ms_type msg = MessageTypeSubscribe then handleSubscribe now subs msg
      else if ms_type msg = MessageTypeUnsubscribe then handleUnsubscribe now subs msg
      else if ms_type msg = MessageTypeRequest then (subs, handleRequest b now w msg)
      else (subs, NewErrorMessage now ''unknown_message_type'' (''Unknown message type: '' @ ms_type msg)))"

end
