(* ===== verification/WsServer.thy ===== *)
theory WsServer
  imports WsProtocol "HOL-Library.Sublist"
begin

text \<open>
  The WebSocket server (\<^verbatim>\<open>internal/websocket/server.go\<close>) as a step relation: the broadcaster and,
  for every client, the goroutine that reads and the one that writes, over the channels between
  them. A channel is a list of at most \<open>chanSize\<close> messages. The lock of the client map makes a
  registration or a removal wait while the broadcaster walks the map; the walk visits the clients in
  an order of its own.

  Four fields are history: the broadcasts the channel accepted, and for every client the messages
  received from it, those written to its connection and the one a failed write lost. A message is
  decoded before it is received; data that is no message is skipped by the reader and is no step.
  Data the connection has buffered may be received after it was closed.
\<close>

abbreviation chanSize :: nat where
  "chanSize \<equiv> 256"

record WsClient =
  cl_send :: "WsMessage list"
  cl_subscriptions :: "string set"
  cl_reply :: "WsMessage option"
  cl_reading :: bool
  cl_writing :: bool
  cl_open :: bool
  cl_received :: "WsMessage list"
  cl_delivered :: "WsMessage list"
  cl_lost :: "WsMessage list"

text \<open>
  \<open>cl_reply\<close> is the reply the reader holds and has not put into the channel yet; the server keeps
  every client it ever had, and in \<open>sv_registered\<close> those in the map \<^verbatim>\<open>clients\<close>.
\<close>

record WsServer =
  sv_clients :: "nat \<rightharpoonup> WsClient"
  sv_registered :: "nat set"
  sv_broadcast :: "WsMessage list"
  sv_walk :: "(WsMessage \<times> nat list) option"
  sv_broadcasting :: bool
  sv_done :: bool
  sv_accepted :: "WsMessage list"

definition newClient :: WsClient where
  "newClient = \<lparr>cl_send = [], cl_subscriptions = {}, cl_reply = None, cl_reading = True, cl_writing = True,
     cl_open = True, cl_received = [], cl_delivered = [], cl_lost = []\<rparr>"

definition NewServer :: WsServer where
  "NewServer = \<lparr>sv_clients = Map.empty, sv_registered = {}, sv_broadcast = [], sv_walk = None,
     sv_broadcasting = True, sv_done = False, sv_accepted = []\<rparr>"

abbreviation setClient :: "nat \<Rightarrow> WsClient \<Rightarrow> WsServer \<Rightarrow> WsServer" where
  "setClient i c s \<equiv> s\<lparr>sv_clients := (sv_clients s)(i \<mapsto> c)\<rparr>"

subsection \<open>Broadcasts\<close>

text \<open>\<^verbatim>\<open>Broadcast\<close>: a full channel drops the message.\<close>

definition Broadcast :: "WsMessage \<Rightarrow> WsServer \<Rightarrow> WsServer" where
  "Broadcast msg s =
     (if length (sv_broadcast s) < chanSize
      then s\<lparr>sv_broadcast := sv_broadcast s @ [msg], sv_accepted := sv_accepted s @ [msg]\<rparr> else s)"

text \<open>The body of the loop over the clients: a full buffer skips the client.\<close>

definition offerTo :: "WsMessage \<Rightarrow> WsClient \<Rightarrow> WsClient" where
  "offerTo msg c =
     (if ms_topic msg \<in> cl_subscriptions c \<and> length (cl_send c) < chanSize
      then c\<lparr>cl_send := cl_send c @ [msg]\<rparr> else c)"

subsection \<open>Steps\<close>

datatype 'w WsLabel =
    Publish time WsEvent
  | Take "nat list"
  | Offer nat
  | WalkEnd
  | StopBroadcasting
  | Shutdown
  | Connect nat
  | Receive nat time 'w WsMessage
  | Reply nat
  | ReadError nat
  | CloseConn nat
  | WriteOK nat
  | WriteError nat
  | PingError nat

inductive ws_step :: "'w WsBackend \<Rightarrow> WsServer \<Rightarrow> 'w WsLabel \<Rightarrow> WsServer \<Rightarrow> bool" for b :: "'w WsBackend" where
  publish: "ws_step b s (Publish now ev) (Broadcast (eventMessage now ev) s)"
| take_msg: "\<lbrakk>sv_broadcasting s; sv_walk s = None; sv_broadcast s = msg # rest;
     distinct ids; set ids = sv_registered s\<rbrakk>
   \<Longrightarrow> ws_step b s (Take ids) (s\<lparr>sv_broadcast := rest, sv_walk := Some (msg, ids)\<rparr>)"
| offer: "\<lbrakk>sv_walk s = Some (msg, i # ids); sv_clients s i = Some c\<rbrakk>
   \<Longrightarrow> ws_step b s (Offer i) (setClient i (offerTo msg c) (s\<lparr>sv_walk := Some (msg, ids)\<rparr>))"
| walk_end: "sv_walk s = Some (msg, []) \<Longrightarrow> ws_step b s WalkEnd (s\<lparr>sv_walk := None\<rparr>)"
| stop: "\<lbrakk>sv_done s; sv_walk s = None\<rbrakk> \<Longrightarrow> ws_step b s StopBroadcasting (s\<lparr>sv_broadcasting := False\<rparr>)"
| shutdown: "ws_step b s Shutdown (s\<lparr>sv_done := True\<rparr>)"
| connect: "\<lbrakk>sv_clients s i = None; sv_walk s = None\<rbrakk>
   \<Longrightarrow> ws_step b s (Connect i) (setClient i newClient (s\<lparr>sv_registered := insert i (sv_registered s)\<rparr>))"
| receive: "\<lbrakk>sv_clients s i = Some c; cl_reading c; cl_reply c = None;
     handleMessage b now w (cl_subscriptions c) msg = (subs, reply)\<rbrakk>
   \<Longrightarrow> ws_step b s (Receive i now w msg)
         (setClient i (c\<lparr>cl_subscriptions := subs, cl_reply := Some reply, cl_received := cl_received c @ [msg]\<rparr>) s)"
| reply: "\<lbrakk>sv_clients s i = Some c; cl_reply c = Some r; length (cl_send c) < chanSize\<rbrakk>
   \<Longrightarrow> ws_step b s (Reply i) (setClient i (c\<lparr>cl_send := cl_send c @ [r], cl_reply := None\<rparr>) s)"
| read_error: "\<lbrakk>sv_clients s i = Some c; cl_reading c; cl_reply c = None; sv_walk s = None\<rbrakk>
   \<Longrightarrow> ws_step b s (ReadError i)
         (setClient i (c\<lparr>cl_reading := False\<rparr>) (s\<lparr>sv_registered := sv_registered s - {i}\<rparr>))"
| close_conn: "\<lbrakk>sv_clients s i = Some c; \<not> cl_reading c\<rbrakk>
   \<Longrightarrow> ws_step b s (CloseConn i) (setClient i (c\<lparr>cl_open := False\<rparr>) s)"
| write_ok: "\<lbrakk>sv_clients s i = Some c; cl_writing c; cl_open c; cl_send c = m # ms\<rbrakk>
   \<Longrightarrow> ws_step b s (WriteOK i) (setClient i (c\<lparr>cl_send := ms, cl_delivered := cl_delivered c @ [m]\<rparr>) s)"
| write_error: "\<lbrakk>sv_clients s i = Some c; cl_writing c; cl_send c = m # ms\<rbrakk>
   \<Longrightarrow> ws_step b s (WriteError i) (setClient i (c\<lparr>cl_send := ms, cl_writing := False, cl_open := False, cl_lost := [m]\<rparr>) s)"
| ping_error: "\<lbrakk>sv_clients s i = Some c; cl_writing c\<rbrakk>
   \<Longrightarrow> ws_step b s (PingError i) (setClient i (c\<lparr>cl_writing := False, cl_open := False\<rparr>) s)"

text \<open>Runs of the server, and the states it reaches.\<close>

inductive ws_run :: "'w WsBackend \<Rightarrow> WsServer \<Rightarrow> 'w WsLabel list \<Rightarrow> WsServer \<Rightarrow> bool" for b :: "'w WsBackend" where
  ws_run_Nil: "ws_run b s [] s"
| ws_run_Cons: "\<lbrakk>ws_step b s l s1; ws_run b s1 ls s2\<rbrakk> \<Longrightarrow> ws_run b s (l # ls) s2"

inductive_cases ws_stepE: "ws_step b s l s'"

lemma ws_run_append: "ws_run b s ls s1 \<Longrightarrow> ws_run b s1 ms s2 \<Longrightarrow> ws_run b s (ls @ ms) s2"
  by (induction rule: ws_run.induct) (auto intro: ws_run.intros)

lemma ws_run_single: "ws_step b s l s1 \<Longrightarrow> ws_run b s [l] s1"
  by (auto intro: ws_run.intros)

lemma ws_run_invariant:
  assumes "\<And>s l s'. P s \<Longrightarrow> ws_step b s l s' \<Longrightarrow> P s'" "ws_run b s ls s'" "P s"
  shows "P s'"
  using assms(2,3) by (induction rule: ws_run.induct) (auto intro: assms(1))

end
