(* ===== verification/WsProps.thy ===== *)
theory WsProps
  imports WsServer
begin

text \<open>
  What a client of the WebSocket server may rely on, in every interleaving of the broadcaster and
  the goroutines of all clients: bounded buffers, one answer to every message, in order, events in
  the order they were broadcast and only on topics it subscribed to, a broadcaster no client can
  block; and what it may not: a client whose writer fails while its buffer is full is never removed.
\<close>

subsection \<open>The handlers\<close>

abbreviation is_event :: "WsMessage \<Rightarrow> bool" where
  "is_event m \<equiv> ms_type m = MessageTypeEvent"

text \<open>A message is answered by what some handling of it sends.\<close>

definition answers :: "'w WsBackend \<Rightarrow> WsMessage \<Rightarrow> WsMessage \<Rightarrow> bool" where
  "answers b q r \<longleftrightarrow> (\<exists>now w subs. snd (handleMessage b now w subs q) = r)"

text \<open>A response with the topic and the identifier of the message, or an error with neither.\<close>

definition correlates :: "WsMessage \<Rightarrow> WsMessage \<Rightarrow> bool" where
  "correlates q r \<longleftrightarrow>
     (ms_type r = MessageTypeResponse \<and> ms_requestID r = ms_requestID q \<and> ms_topic r = ms_topic q) \<or>
     (ms_type r = MessageTypeError \<and> ms_requestID r = [])"

lemma correlates_error [simp]: "correlates q (NewErrorMessage now code txt')"
  by (simp add: correlates_def NewErrorMessage_def NewMessage_def)

lemma correlates_respond [simp]: "ms_topic q = topic \<Longrightarrow> correlates q (respond now q topic payload)"
  by (simp add: correlates_def respond_def NewMessage_def)

lemma correlates_list:
  "ms_topic q = TopicPersonas \<Longrightarrow> correlates q (handleListPersonas b now w q)"
  "ms_topic q = TopicIncidents \<Longrightarrow> correlates q (handleListIncidents b now w q)"
  "ms_topic q = TopicRemediations \<Longrightarrow> correlates q (handleListRemediations b now w q)"
  "ms_topic q = TopicCluster \<Longrightarrow> correlates q (handleGetCluster b now w q)"
  unfolding handleListPersonas_def handleListIncidents_def handleListRemediations_def handleGetCluster_def
  by (simp_all split: sum.split list.split option.split)

lemma correlates_request: "correlates q (handleRequest b now w q)"
  unfolding handleRequest_def Let_def using correlates_list [of q b now w] by (simp del: correlates_respond)

lemma handleMessage_subs:
  "fst (handleMessage b now w subs q) =
     (if ms_type q = MessageTypeSubscribe then insert (ms_topic q) subs
      else if ms_type q = MessageTypeUnsubscribe then subs - {ms_topic q} else subs)"
  by (simp add: handleMessage_def handleSubscribe_def handleUnsubscribe_def)

lemma handleMessage_reply:
  "correlates q (snd (handleMessage b now w subs q))"
  by (simp add: handleMessage_def handleSubscribe_def handleUnsubscribe_def correlates_request)

text \<open>
  Every message gets one reply, and an error says nothing of which. The reply to a message is a
  response with the topic and the request identifier of the message, or an error without an
  identifier; subscribing and unsubscribing always succeed, whatever the topic and the payload, and
  nothing else changes the subscriptions.
\<close>

theorem reply_correlation:
  "(let (subs', r) = handleMessage b now w subs q in
     ((ms_type r = MessageTypeResponse \<and> ms_requestID r = ms_requestID q \<and> ms_topic r = ms_topic q) \<or>
      (ms_type r = MessageTypeError \<and> ms_requestID r = [] \<and>
       ms_type q \<notin> {MessageTypeSubscribe, MessageTypeUnsubscribe})) \<and>
     subs' = (if ms_type q = MessageTypeSubscribe then insert (ms_topic q) subs
              else if ms_type q = MessageTypeUnsubscribe then subs - {ms_topic q} else subs))"
proof -
  let ?r = "snd (handleMessage b now w subs q)"
  have "ms_type ?r = MessageTypeResponse" if "ms_type q \<in> {MessageTypeSubscribe, MessageTypeUnsubscribe}"
    using that by (auto simp: handleMessage_def handleSubscribe_def handleUnsubscribe_def respond_def NewMessage_def)
  then have "(ms_type ?r = MessageTypeResponse \<and> ms_requestID ?r = ms_requestID q \<and> ms_topic ?r = ms_topic q) \<or>
      (ms_type ?r = MessageTypeError \<and> ms_requestID ?r = [] \<and>
       ms_type q \<notin> {MessageTypeSubscribe, MessageTypeUnsubscribe})"
    using handleMessage_reply [of q b now w subs] unfolding correlates_def by fastforce
  then show ?thesis unfolding case_prod_beta Let_def handleMessage_subs by (intro conjI refl)
qed

lemma reply_no_event: "answers b q r \<Longrightarrow> \<not> is_event r"
proof -
  assume "answers b q r"
  then obtain now w subs where "snd (handleMessage b now w subs q) = r" unfolding answers_def by blast
  then have "correlates q r" using handleMessage_reply [of q b now w subs] by simp
  then show ?thesis by (auto simp: correlates_def)
qed

lemma eventMessage_type [simp]: "is_event (eventMessage now ev)"
  by (cases ev) (simp_all add: NewEventMessage_def NewMessage_def)

subsection \<open>The wire format\<close>

lemma fieldValues_Cons:
  "fieldValues [] name = []"
  "fieldValues ((k, v) # m) name = (if toLower k = toLower name then v # fieldValues m name else fieldValues m name)"
  by (simp_all add: fieldValues_def)

lemma fieldValues_append: "fieldValues (m @ m') name = fieldValues m name @ fieldValues m' name"
  by (simp add: fieldValues_def)

lemma wire_names:
  "toLower ''type'' = ''type''" "toLower ''topic'' = ''topic''" "toLower ''requestId'' = ''requestid''"
  "toLower ''payload'' = ''payload''" "toLower ''timestamp'' = ''timestamp''"
  by code_simp+

lemma decodeField_Nil: "fieldValues m name = [] \<Longrightarrow> decodeField dec d m name = Some d"
  by (rule decodeField_absent)

text \<open>
  Messages survive the wire. Decoding what a message is encoded to gives the message back, with
  or without topic, request identifier and payload, for every time that its text form gives back.
\<close>

theorem message_roundtrip:
  assumes "parseTime (fmtTime (ms_timestamp m)) = Some (ms_timestamp m)"
    and "ms_payload m = RawEmpty \<or> ms_payload m = RawJson payload"
  shows "decodeMessage parseTime (messageJSON fmtTime m) = Some m"
proof -
  let ?p = "case ms_payload m of RawJson v \<Rightarrow> [(''payload'', v)] | _ \<Rightarrow> []"
  let ?o = "[(''type'', JStr (ms_type m))] @ omitEmpty ''topic'' (ms_topic m) @ omitEmpty ''requestId'' (ms_requestID m) @
      ?p @ [(''timestamp'', JStr (fmtTime (ms_timestamp m)))]"
  have p: "?p = [] \<or> (\<exists>v. ?p = [(''payload'', v)])" using assms(2) by auto
  have p': "fieldValues ?p name = []" if "toLower name \<noteq> ''payload''" for name
    using p that by (auto simp: fieldValues_Cons wire_names)
  have "stringAt ?o ''type'' = Some (ms_type m)" "stringAt ?o ''topic'' = Some (ms_topic m)"
    "stringAt ?o ''requestId'' = Some (ms_requestID m)"
    by (simp_all add: stringAt_def decodeField_def fieldValues_append fieldValues_Cons p' omitEmpty_def wire_names
        decodeString_def)
  moreover have "decodeField (decodeTime parseTime) zeroTime ?o ''timestamp'' = Some (ms_timestamp m)"
    by (simp add: decodeField_def fieldValues_append fieldValues_Cons p' omitEmpty_def wire_names decodeTime_def assms(1))
  moreover have "rawAt ?o ''payload'' = ms_payload m"
    using assms(2) by (auto simp: rawAt_def omitEmpty_def wire_names)
  ultimately show ?thesis
    by (simp add: decodeMessage_def messageJSON_def decodeObject_def del: append.simps append_Cons)
qed

subsection \<open>The invariant of a client\<close>

text \<open>All messages that went into the channel of a client, and its replies with the one the reader holds.\<close>

definition pushed :: "WsClient \<Rightarrow> WsMessage list" where
  "pushed c = cl_delivered c @ cl_lost c @ cl_send c"

definition all_replies :: "WsClient \<Rightarrow> WsMessage list" where
  "all_replies c = filter (Not \<circ> is_event) (pushed c) @ (case cl_reply c of None \<Rightarrow> [] | Some r \<Rightarrow> [r])"

definition subscribedTo :: "WsMessage list \<Rightarrow> string set" where
  "subscribedTo qs = ms_topic ` {q \<in> set qs. ms_type q = MessageTypeSubscribe}"

definition client_ok :: "'w WsBackend \<Rightarrow> WsClient \<Rightarrow> bool" where
  "client_ok b c \<longleftrightarrow>
     length (cl_send c) \<le> chanSize \<and> (cl_writing c \<longrightarrow> cl_lost c = []) \<and>
     list_all2 (answers b) (cl_received c) (all_replies c) \<and>
     cl_subscriptions c \<subseteq> subscribedTo (cl_received c) \<and>
     (\<forall>m \<in> set (pushed c). is_event m \<longrightarrow> ms_topic m \<in> subscribedTo (cl_received c))"

lemma client_okI:
  assumes "length (cl_send c) \<le> chanSize" "cl_writing c \<longrightarrow> cl_lost c = []"
    and "list_all2 (answers b) (cl_received c) (all_replies c)"
    and "cl_subscriptions c \<subseteq> subscribedTo (cl_received c)"
    and "\<And>m. m \<in> set (pushed c) \<Longrightarrow> is_event m \<Longrightarrow> ms_topic m \<in> subscribedTo (cl_received c)"
  shows "client_ok b c"
  using assms unfolding client_ok_def by blast

lemma newClient_ok: "client_ok b newClient"
  by (rule client_okI) (simp_all add: newClient_def pushed_def all_replies_def)

text \<open>A change that leaves the traffic of a client alone.\<close>

lemma client_ok_frame:
  assumes "client_ok b c" "cl_send c' = cl_send c" "cl_delivered c' = cl_delivered c" "cl_lost c' = cl_lost c"
    and "cl_reply c' = cl_reply c" "cl_received c' = cl_received c" "cl_subscriptions c' = cl_subscriptions c"
    and "cl_writing c' \<longrightarrow> cl_writing c"
  shows "client_ok b c'"
  using assms unfolding client_ok_def pushed_def all_replies_def by auto

lemma offerTo_ok:
  assumes "client_ok b c" "is_event msg"
  shows "client_ok b (offerTo msg c)"
proof (cases "ms_topic msg \<in> cl_subscriptions c \<and> length (cl_send c) < chanSize")
  case True
  have "pushed (offerTo msg c) = pushed c @ [msg]" using True by (simp add: pushed_def offerTo_def)
  moreover have "all_replies (offerTo msg c) = all_replies c"
    using True assms(2) by (simp add: all_replies_def pushed_def offerTo_def)
  ultimately show ?thesis
    using assms True unfolding client_ok_def by (auto simp: offerTo_def)
qed (use assms in \<open>auto simp: offerTo_def\<close>)

lemma receive_ok:
  assumes "client_ok b c" "cl_reply c = None"
    and "handleMessage b now w (cl_subscriptions c) q = (subs, r)"
  shows "client_ok b (c\<lparr>cl_subscriptions := subs, cl_reply := Some r, cl_received := cl_received c @ [q]\<rparr>)"
    (is "client_ok b ?c")
proof (rule client_okI)
  have ans: "answers b q r" unfolding answers_def using assms(3) by (metis snd_conv)
  have pushed: "pushed ?c = pushed c" by (simp add: pushed_def)
  show "list_all2 (answers b) (cl_received ?c) (all_replies ?c)"
    using assms(1,2) ans pushed unfolding client_ok_def all_replies_def
    by (auto intro: list_all2_appendI)
  have grows: "subscribedTo (cl_received c) \<subseteq> subscribedTo (cl_received ?c)" by (auto simp: subscribedTo_def)
  show "cl_subscriptions ?c \<subseteq> subscribedTo (cl_received ?c)"
  proof -
    have "subs = fst (handleMessage b now w (cl_subscriptions c) q)" using assms(3) by simp
    moreover have "cl_subscriptions c \<subseteq> subscribedTo (cl_received ?c)" using assms(1) grows unfolding client_ok_def by blast
    ultimately show ?thesis unfolding handleMessage_subs by (auto simp: subscribedTo_def)
  qed
  show "ms_topic m \<in> subscribedTo (cl_received ?c)" if "m \<in> set (pushed ?c)" "is_event m" for m
    using assms(1) grows that unfolding client_ok_def pushed by blast
qed (use assms(1) in \<open>simp_all add: client_ok_def\<close>)

lemma reply_ok:
  assumes "client_ok b c" "cl_reply c = Some r" "length (cl_send c) < chanSize"
  shows "client_ok b (c\<lparr>cl_send := cl_send c @ [r], cl_reply := None\<rparr>)" (is "client_ok b ?c")
proof -
  have pushed: "pushed ?c = pushed c @ [r]" by (simp add: pushed_def)
  have "list_all2 (answers b) (cl_received c) (filter (Not \<circ> is_event) (pushed c) @ [r])"
    using assms(1,2) by (simp add: client_ok_def all_replies_def)
  then obtain q where "answers b q r" by (auto simp: list_all2_append2 list_all2_Cons2)
  then have r: "\<not> is_event r" by (rule reply_no_event)
  then have "all_replies ?c = all_replies c" using assms(2) by (simp add: all_replies_def pushed)
  with r show ?thesis using assms pushed unfolding client_ok_def by auto
qed

lemma write_ok:
  assumes "client_ok b c" "cl_writing c" "cl_send c = m # ms"
  shows "client_ok b (c\<lparr>cl_send := ms, cl_delivered := cl_delivered c @ [m]\<rparr>)" (is "client_ok b ?c")
proof -
  have "pushed ?c = pushed c" "all_replies ?c = all_replies c"
    using assms by (simp_all add: client_ok_def pushed_def all_replies_def)
  then show ?thesis using assms unfolding client_ok_def by auto
qed

lemma write_error_ok:
  assumes "client_ok b c" "cl_writing c" "cl_send c = m # ms"
  shows "client_ok b (c\<lparr>cl_send := ms, cl_writing := False, cl_open := False, cl_lost := [m]\<rparr>)" (is "client_ok b ?c")
proof -
  have "pushed ?c = pushed c" "all_replies ?c = all_replies c"
    using assms by (simp_all add: client_ok_def pushed_def all_replies_def)
  then show ?thesis using assms unfolding client_ok_def by auto
qed

lemma step_clients_ok:
  assumes "ws_step b s l s'" "\<forall>i c. sv_clients s i = Some c \<longrightarrow> client_ok b c"
    and "\<forall>msg ids. sv_walk s = Some (msg, ids) \<longrightarrow> is_event msg"
  shows "\<forall>i c. sv_clients s' i = Some c \<longrightarrow> client_ok b c"
  using assms(1)
proof (cases rule: ws_step.cases)
  case (offer msg i ids c)
  then show ?thesis using assms(2,3) offerTo_ok [of b c msg] by simp
next
  case (receive i c now w msg subs reply)
  then show ?thesis using assms(2) receive_ok [of b c now w msg subs reply] by simp
next
  case (reply i c r)
  then show ?thesis using assms(2) reply_ok [of b c r] by simp
next
  case (read_error i c)
  then show ?thesis using assms(2) client_ok_frame [of b c "c\<lparr>cl_reading := False\<rparr>"] by simp
next
  case (close_conn i c)
  then show ?thesis using assms(2) client_ok_frame [of b c "c\<lparr>cl_open := False\<rparr>"] by simp
next
  case (write_ok i c m ms)
  then show ?thesis using assms(2) WsProps.write_ok [of b c m ms] by simp
next
  case (write_error i c m ms)
  then show ?thesis using assms(2) write_error_ok [of b c m ms] by simp
next
  case (ping_error i c)
  then show ?thesis using assms(2) client_ok_frame [of b c "c\<lparr>cl_writing := False, cl_open := False\<rparr>"] by simp
qed (use assms(2) newClient_ok in \<open>auto simp: Broadcast_def\<close>)

subsection \<open>The invariant of the server\<close>

definition events_of :: "WsClient \<Rightarrow> WsMessage list" where
  "events_of c = filter is_event (pushed c)"

text \<open>
  The broadcasts taken so far are the accepted ones but for those still in the channel; a client the
  walk has still to visit has got none of the message the walk carries.
\<close>

definition taken :: "WsServer \<Rightarrow> WsMessage list" where
  "taken s = take (length (sv_accepted s) - length (sv_broadcast s)) (sv_accepted s)"

definition due :: "WsServer \<Rightarrow> nat \<Rightarrow> WsMessage list" where
  "due s i =
     (case sv_walk s of
        None \<Rightarrow> taken s | Some (msg, ids) \<Rightarrow> if i \<in> set ids then butlast (taken s) else taken s)"

definition server_ok :: "'w WsBackend \<Rightarrow> WsServer \<Rightarrow> bool" where
  "server_ok b s \<longleftrightarrow>
     length (sv_broadcast s) \<le> chanSize \<and> sv_accepted s = taken s @ sv_broadcast s \<and>
     list_all is_event (sv_accepted s) \<and> sv_registered s \<subseteq> dom (sv_clients s) \<and>
     (\<forall>i c. sv_clients s i = Some c \<longrightarrow> client_ok b c) \<and>
     (\<forall>i c. sv_clients s i = Some c \<longrightarrow> subseq (events_of c) (due s i)) \<and>
     (\<forall>msg ids. sv_walk s = Some (msg, ids) \<longrightarrow>
        set ids \<subseteq> sv_registered s \<and> distinct ids \<and> taken s \<noteq> [] \<and> last (taken s) = msg)"

lemma taken_eq: "sv_accepted s = t @ sv_broadcast s \<Longrightarrow> taken s = t"
  by (simp add: taken_def)

lemma due_cong: "taken s' = taken s \<Longrightarrow> sv_walk s' = sv_walk s \<Longrightarrow> due s' = due s"
  by (auto simp: due_def fun_eq_iff split: option.split)

lemma NewServer_ok: "server_ok b NewServer"
  by (simp add: server_ok_def NewServer_def taken_def)

lemma taken_event: "server_ok b s \<Longrightarrow> sv_walk s = Some (msg, ids) \<Longrightarrow> is_event msg"
  unfolding server_ok_def list_all_iff by (metis Un_iff last_in_set set_append)

text \<open>Steps of a client that leave the events it was given alone.\<close>

lemma server_ok_client:
  assumes ok: "server_ok b s" and c: "sv_clients s i = Some c" "events_of c' = events_of c" "client_ok b c'"
    and reg: "sv_registered s' \<subseteq> sv_registered s" "\<And>msg ids. sv_walk s = Some (msg, ids) \<Longrightarrow> set ids \<subseteq> sv_registered s'"
    and s': "sv_clients s' = (sv_clients s)(i \<mapsto> c')" "sv_broadcast s' = sv_broadcast s" "sv_walk s' = sv_walk s"
      "sv_accepted s' = sv_accepted s"
  shows "server_ok b s'"
proof -
  have t: "taken s' = taken s" by (simp add: taken_def s')
  then have same: "taken s' = taken s" "due s' = due s" using due_cong [OF t] s' by simp_all
  have "sv_registered s' \<subseteq> dom (sv_clients s')" using ok reg(1) unfolding server_ok_def s' by auto
  moreover have "subseq (events_of d) (due s' j)" if "sv_clients s' j = Some d" for j d
    using ok c that unfolding server_ok_def same s' by (auto split: if_splits)
  moreover have "client_ok b d" if "sv_clients s' j = Some d" for j d
    using ok c that unfolding server_ok_def s' by (auto split: if_splits)
  ultimately show ?thesis using ok reg(2) unfolding server_ok_def same s' by blast
qed

lemma step_server_ok:
  assumes ok: "server_ok b s" and step: "ws_step b s l s'"
  shows "server_ok b s'"
proof -
  have clients: "\<forall>i c. sv_clients s' i = Some c \<longrightarrow> client_ok b c"
    by (rule step_clients_ok [OF step]) (use ok taken_event [OF ok] in \<open>auto simp: server_ok_def\<close>)
  have new: "client_ok b (the (sv_clients s' i))" if "i \<in> dom (sv_clients s')" for i
    using clients that by auto
  from step show ?thesis
  proof (cases rule: ws_step.cases)
    case (publish now ev)
    let ?m = "eventMessage now ev"
    show ?thesis
    proof (cases "length (sv_broadcast s) < chanSize")
      case True
      then have s': "s' = s\<lparr>sv_broadcast := sv_broadcast s @ [?m], sv_accepted := sv_accepted s @ [?m]\<rparr>"
        using publish by (simp add: Broadcast_def)
      have "sv_accepted s = taken s @ sv_broadcast s" using ok by (simp add: server_ok_def)
      then have t: "taken s' = taken s" unfolding s' taken_def by simp
      moreover have "due s' = due s" using due_cong [OF t] by (simp add: s')
      ultimately show ?thesis using ok True unfolding server_ok_def by (auto simp: s')
    next
      case False
      then show ?thesis using ok publish by (simp add: Broadcast_def)
    qed
  next
    case (take_msg msg rest ids)
    have acc: "sv_accepted s = taken s @ msg # rest" using ok take_msg by (simp add: server_ok_def)
    have t: "taken s' = taken s @ [msg]" by (rule taken_eq) (simp add: take_msg(2) acc)
    have "subseq (events_of c) (due s' i)" if "sv_clients s i = Some c" for i c
    proof -
      have "subseq (events_of c) (taken s)" using ok that take_msg(4) by (simp add: server_ok_def due_def)
      then show ?thesis unfolding due_def t using take_msg(2) by (auto intro: list_emb_prefix)
    qed
    then show ?thesis using ok t acc take_msg clients unfolding server_ok_def by auto
  next
    case (offer msg i ids c)
    have walk: "i \<notin> set ids" "taken s \<noteq> []" "last (taken s) = msg" "set ids \<subseteq> sv_registered s" "distinct ids"
      using ok offer(3) unfolding server_ok_def by auto
    have t: "taken s' = taken s" using offer(2) by (simp add: taken_def)
    have "subseq (events_of c) (due s i)" using ok offer(4) unfolding server_ok_def by blast
    then have "subseq (events_of c) (butlast (taken s))" using offer(3) by (simp add: due_def)
    then have "subseq (events_of c @ [msg]) (butlast (taken s) @ [msg])" by simp
    also have "butlast (taken s) @ [msg] = taken s" using walk(2,3) append_butlast_last_id [of "taken s"] by simp
    finally have fed: "subseq (events_of c @ [msg]) (taken s)" .
    have "subseq (events_of c) (events_of c @ [msg])" by (simp add: list_emb_prefix)
    also note fed
    finally have "subseq (events_of c) (taken s)" .
    with fed have "subseq (events_of (offerTo msg c)) (taken s)"
      using taken_event [OF ok offer(3)] by (auto simp: offerTo_def events_of_def pushed_def)
    moreover have "due s' i = taken s" using walk(1) offer(2) t by (simp add: due_def)
    moreover have "due s' j = due s j" if "j \<noteq> i" for j using that offer(2,3) t by (simp add: due_def)
    ultimately have "subseq (events_of d) (due s' j)" if "sv_clients s' j = Some d" for j d
      using that ok offer(2) unfolding server_ok_def by (cases "j = i") auto
    then show ?thesis using ok walk clients offer(2,4) t unfolding server_ok_def by auto
  next
    case (walk_end msg)
    then have "taken s' = taken s" "due s' = due s" by (auto simp: taken_def due_def fun_eq_iff)
    then show ?thesis using ok clients walk_end unfolding server_ok_def by auto
  next
    case stop
    then have "taken s' = taken s" "due s' = due s" using due_cong [of s' s] by (simp_all add: taken_def)
    then show ?thesis using ok stop unfolding server_ok_def by auto
  next
    case shutdown
    then have "taken s' = taken s" "due s' = due s" using due_cong [of s' s] by (simp_all add: taken_def)
    then show ?thesis using ok shutdown unfolding server_ok_def by auto
  next
    case (connect i)
    then have same: "taken s' = taken s" "due s' = due s" using due_cong [of s' s] by (simp_all add: taken_def)
    have "events_of newClient = []" by (simp add: events_of_def pushed_def newClient_def)
    then have "subseq (events_of d) (due s' j)" if "sv_clients s' j = Some d" for j d
      using that ok connect(2) unfolding server_ok_def same by (auto split: if_splits)
    then show ?thesis using ok clients connect same(1) unfolding server_ok_def by auto
  next
    case (receive i c now w msg subs reply)
    show ?thesis
      by (rule server_ok_client [OF ok receive(3), where s' = s' and c' = "the (sv_clients s' i)"])
        (use receive(2) new [of i] ok in \<open>simp_all add: events_of_def pushed_def server_ok_def\<close>)
  next
    case (reply i c r)
    have "client_ok b c" using ok reply(3) unfolding server_ok_def by blast
    then have "list_all2 (answers b) (cl_received c) (filter (Not \<circ> is_event) (pushed c) @ [r])"
      using reply(4) by (simp add: client_ok_def all_replies_def)
    then obtain q where "answers b q r" by (auto simp: list_all2_append2 list_all2_Cons2)
    then have "\<not> is_event r" by (rule reply_no_event)
    then show ?thesis
      by (intro server_ok_client [OF ok reply(3), where s' = s' and c' = "the (sv_clients s' i)"])
        (use reply(2) new [of i] ok in \<open>simp_all add: events_of_def pushed_def server_ok_def\<close>)
  next
    case (read_error i c)
    show ?thesis
      by (rule server_ok_client [OF ok read_error(3), where s' = s' and c' = "the (sv_clients s' i)"])
        (use read_error new [of i] in \<open>auto simp: events_of_def pushed_def\<close>)
  next
    case (close_conn i c)
    show ?thesis
      by (rule server_ok_client [OF ok close_conn(3), where s' = s' and c' = "the (sv_clients s' i)"])
        (use close_conn(2) new [of i] ok in \<open>simp_all add: events_of_def pushed_def server_ok_def\<close>)
  next
    case (write_ok i c m ms)
    have "cl_lost c = []" using ok write_ok unfolding server_ok_def client_ok_def by blast
    then show ?thesis
      by (intro server_ok_client [OF ok write_ok(3), where s' = s' and c' = "the (sv_clients s' i)"])
        (use write_ok new [of i] ok in \<open>simp_all add: events_of_def pushed_def server_ok_def\<close>)
  next
    case (write_error i c m ms)
    have "cl_lost c = []" using ok write_error unfolding server_ok_def client_ok_def by blast
    then show ?thesis
      by (intro server_ok_client [OF ok write_error(3), where s' = s' and c' = "the (sv_clients s' i)"])
        (use write_error new [of i] ok in \<open>simp_all add: events_of_def pushed_def server_ok_def\<close>)
  next
    case (ping_error i c)
    show ?thesis
      by (rule server_ok_client [OF ok ping_error(3), where s' = s' and c' = "the (sv_clients s' i)"])
        (use ping_error(2) new [of i] ok in \<open>simp_all add: events_of_def pushed_def server_ok_def\<close>)
  qed
qed

lemma reached_ok:
  assumes "ws_run b NewServer ls s"
  shows "server_ok b s"
  using ws_run_invariant [of "server_ok b" b, OF _ assms NewServer_ok] step_server_ok by blast

subsection \<open>What a client may rely on\<close>

text \<open>
  No buffer of the server outgrows its channel. In every state the server reaches, whatever its
  clients, its broadcasts and its network do in whatever order, the broadcast channel and the send
  channel of every client hold at most 256 messages, and the clients it serves are clients it holds.
\<close>

theorem ws_buffers_bounded:
  assumes "ws_run b NewServer ls s"
  shows "length (sv_broadcast s) \<le> 256 \<and> sv_registered s \<subseteq> dom (sv_clients s) \<and>
    (\<forall>c \<in> ran (sv_clients s). length (cl_send c) \<le> 256)"
  using reached_ok [OF assms] unfolding server_ok_def client_ok_def by (auto simp: ran_def)

text \<open>
  C16. Replies come one for one and in order, events in order and on demand. In every reachable state,
  what was written to the connection of a client is, its events aside, one answer to each of the
  first messages received from it, in their order; its events are a subsequence of the broadcasts the
  server accepted, and each is on a topic the client asked for.
\<close>

theorem ws_delivery_in_order:
  assumes "ws_run b NewServer ls s" "sv_clients s i = Some c"
  shows "list_all2 (answers b)
      (take (length (filter (Not \<circ> is_event) (cl_delivered c))) (cl_received c))
      (filter (Not \<circ> is_event) (cl_delivered c)) \<and>
    subseq (filter is_event (cl_delivered c)) (sv_accepted s) \<and>
    list_all (\<lambda>m. is_event m \<longrightarrow> ms_topic m \<in> subscribedTo (cl_received c)) (cl_delivered c)"
proof (intro conjI)
  let ?d = "filter (Not \<circ> is_event) (cl_delivered c)"
  have ok: "client_ok b c" "subseq (events_of c) (due s i)" "sv_accepted s = taken s @ sv_broadcast s"
    using reached_ok [OF assms(1)] assms(2) unfolding server_ok_def by blast+
  have "list_all2 (answers b) (cl_received c) (?d @ drop (length ?d) (all_replies c))"
    using ok(1) by (simp add: client_ok_def all_replies_def pushed_def)
  then show "list_all2 (answers b) (take (length ?d) (cl_received c)) ?d"
    by (auto simp: list_all2_append2)
  have "subseq (filter is_event (cl_delivered c)) (events_of c)"
    by (simp add: events_of_def pushed_def list_emb_prefix)
  also have "subseq (events_of c) (due s i)" by (rule ok(2))
  also have "subseq (due s i) (taken s)"
    by (auto simp: due_def split: option.split intro: prefix_imp_subseq [OF prefix_order.order_trans [OF _ prefix_order.order_refl]] prefixeq_butlast)
  also have "subseq (taken s) (sv_accepted s)" unfolding ok(3) by (simp add: list_emb_prefix)
  finally show "subseq (filter is_event (cl_delivered c)) (sv_accepted s)" .
  show "list_all (\<lambda>m. is_event m \<longrightarrow> ms_topic m \<in> subscribedTo (cl_received c)) (cl_delivered c)"
    using ok(1) by (auto simp: client_ok_def pushed_def list_all_iff)
qed

subsection \<open>The broadcaster\<close>

definition offered :: "WsMessage \<Rightarrow> nat list \<Rightarrow> (nat \<rightharpoonup> WsClient) \<Rightarrow> nat \<rightharpoonup> WsClient" where
  "offered msg ids cs = (\<lambda>i. if i \<in> set ids then map_option (offerTo msg) (cs i) else cs i)"

lemma walk_run:
  "sv_walk s = Some (msg, ids) \<Longrightarrow> set ids \<subseteq> dom (sv_clients s) \<Longrightarrow> distinct ids \<Longrightarrow>
     \<exists>s'. ws_run b s (map Offer ids @ [WalkEnd]) s' \<and> sv_walk s' = None \<and>
       sv_clients s' = offered msg ids (sv_clients s)"
proof (induction ids arbitrary: s)
  case Nil
  then have "ws_step b s WalkEnd (s\<lparr>sv_walk := None\<rparr>)" by (simp add: ws_step.walk_end)
  then show ?case by (intro exI [of _ "s\<lparr>sv_walk := None\<rparr>"]) (auto simp: offered_def intro: ws_run.intros)
next
  case (Cons i ids)
  then obtain c where c: "sv_clients s i = Some c" by auto
  let ?s = "setClient i (offerTo msg c) (s\<lparr>sv_walk := Some (msg, ids)\<rparr>)"
  have step: "ws_step b s (Offer i) ?s" by (rule ws_step.offer [OF Cons.prems(1) c])
  have "\<exists>s'. ws_run b ?s (map Offer ids @ [WalkEnd]) s' \<and> sv_walk s' = None \<and>
      sv_clients s' = offered msg ids (sv_clients ?s)"
    by (rule Cons.IH) (use Cons.prems in auto)
  then obtain s' where s': "ws_run b ?s (map Offer ids @ [WalkEnd]) s'" "sv_walk s' = None"
    "sv_clients s' = offered msg ids (sv_clients ?s)" by blast
  have "offered msg ids (sv_clients ?s) = offered msg (i # ids) (sv_clients s)"
    using Cons.prems(3) c by (auto simp: offered_def fun_eq_iff)
  then show ?case using s' ws_run_Cons [OF step s'(1)] by (intro exI [of _ s']) simp
qed

text \<open>
  No client holds up the others. Whenever the broadcaster has begun to hand a message to the
  clients, its own steps alone, one for each client left and one more, bring it back to its channel,
  whatever the readers and writers are stuck in; each client left has then got the message if it
  subscribed to the topic and its buffer was not full, and is unchanged otherwise.
\<close>

theorem ws_walk_never_blocks:
  assumes "ws_run b NewServer ls s" "sv_walk s = Some (msg, ids)"
  shows "\<exists>s'. ws_run b s (map Offer ids @ [WalkEnd]) s' \<and> sv_walk s' = None \<and>
    sv_clients s' = offered msg ids (sv_clients s)"
  by (rule walk_run) (use assms(2) reached_ok [OF assms(1)] in \<open>auto simp: server_ok_def\<close>)

subsection \<open>The client that never leaves\<close>

text \<open>The reader holds a reply, the buffer is full and nobody writes any more.\<close>

definition wedged :: "nat \<Rightarrow> WsServer \<Rightarrow> bool" where
  "wedged i s \<longleftrightarrow> i \<in> sv_registered s \<and>
     (case sv_clients s i of
        None \<Rightarrow> False
      | Some c \<Rightarrow> cl_reply c \<noteq> None \<and> length (cl_send c) = chanSize \<and> \<not> cl_writing c \<and> \<not> cl_open c)"

lemma wedged_step:
  assumes "wedged i s" "ws_step b s l s'"
  shows "wedged i s'"
  using assms(2,1)
  by (cases rule: ws_step.cases)
    (auto simp: wedged_def Broadcast_def offerTo_def split: option.splits if_splits)

lemma wedged_forever: "ws_run b s ls s' \<Longrightarrow> wedged i s \<Longrightarrow> wedged i s'"
  using ws_run_invariant [of "wedged i" b] wedged_step by blast

definition idle :: "nat \<Rightarrow> nat \<Rightarrow> WsServer \<Rightarrow> bool" where
  "idle i n s \<longleftrightarrow> i \<in> sv_registered s \<and>
     (\<exists>c. sv_clients s i = Some c \<and> cl_reading c \<and> cl_writing c \<and> cl_reply c = None \<and> length (cl_send c) = n)"

lemma fill_buffer: "n \<le> chanSize \<Longrightarrow> \<exists>ls s. ws_run b NewServer ls s \<and> idle i n s"
proof (induction n)
  case 0
  have "ws_step b NewServer (Connect i) (setClient i newClient (NewServer\<lparr>sv_registered := insert i (sv_registered NewServer)\<rparr>))"
    by (rule ws_step.connect) (simp_all add: NewServer_def)
  from ws_run_single [OF this] show ?case by (fastforce simp: idle_def newClient_def)
next
  case (Suc n)
  then obtain ls s c where s: "ws_run b NewServer ls s" "i \<in> sv_registered s" "sv_clients s i = Some c"
    "cl_reading c" "cl_writing c" "cl_reply c = None" "length (cl_send c) = n" unfolding idle_def by fastforce
  define q where "q = \<lparr>ms_type = ''x'', ms_topic = [], ms_requestID = [], ms_payload = RawEmpty, ms_timestamp = zeroTime\<rparr>"
  obtain subs r where h: "handleMessage b 0 undefined (cl_subscriptions c) q = (subs, r)" by (rule prod.exhaust)
  let ?c1 = "c\<lparr>cl_subscriptions := subs, cl_reply := Some r, cl_received := cl_received c @ [q]\<rparr>"
  let ?c2 = "?c1\<lparr>cl_send := cl_send ?c1 @ [r], cl_reply := None\<rparr>"
  have one: "ws_step b s (Receive i 0 undefined q) (setClient i ?c1 s)" by (rule ws_step.receive [OF s(3,4,6) h])
  have two: "ws_step b (setClient i ?c1 s) (Reply i) (setClient i ?c2 (setClient i ?c1 s))"
    by (rule ws_step.reply) (use s Suc.prems in simp_all)
  from ws_run_append [OF s(1) ws_run_Cons [OF one ws_run_single [OF two]]]
  show ?case using s by (fastforce simp: idle_def)
qed

text \<open>
  C31. A client can be leaked. The server reaches a state in which the writer of a registered client
  has failed and its connection is closed, and in which every continuation leaves the client in the
  map of clients: its reader waits for room in a buffer that nobody empties, so it never comes to the
  deferred removal.
\<close>

theorem ws_client_leaked:
  "\<exists>ls s. ws_run b NewServer ls s \<and> wedged i s \<and>
     {s'. \<exists>ms. ws_run b s ms s'} \<subseteq> {s'. wedged i s' \<and> i \<in> sv_registered s'}"
proof -
  obtain ls s c where s: "ws_run b NewServer ls s" "i \<in> sv_registered s" "sv_clients s i = Some c"
    "cl_reading c" "cl_writing c" "cl_reply c = None" "length (cl_send c) = chanSize"
    using fill_buffer [of chanSize b i] unfolding idle_def by auto
  define q where "q = \<lparr>ms_type = ''x'', ms_topic = [], ms_requestID = [], ms_payload = RawEmpty, ms_timestamp = zeroTime\<rparr>"
  obtain subs r where h: "handleMessage b 0 undefined (cl_subscriptions c) q = (subs, r)" by (rule prod.exhaust)
  let ?c1 = "c\<lparr>cl_subscriptions := subs, cl_reply := Some r, cl_received := cl_received c @ [q]\<rparr>"
  let ?c2 = "?c1\<lparr>cl_writing := False, cl_open := False\<rparr>"
  let ?s2 = "setClient i ?c2 (setClient i ?c1 s)"
  have one: "ws_step b s (Receive i 0 undefined q) (setClient i ?c1 s)" by (rule ws_step.receive [OF s(3,4,6) h])
  have two: "ws_step b (setClient i ?c1 s) (PingError i) ?s2"
    by (rule ws_step.ping_error) (use s in simp_all)
  have run: "ws_run b NewServer (ls @ [Receive i 0 undefined q, PingError i]) ?s2"
    by (rule ws_run_append [OF s(1) ws_run_Cons [OF one ws_run_single [OF two]]])
  have "wedged i ?s2" using s by (simp add: wedged_def)
  moreover have "wedged i s' \<and> i \<in> sv_registered s'" if "ws_run b ?s2 ms s'" for ms s'
    using wedged_forever [OF that] \<open>wedged i ?s2\<close> unfolding wedged_def by blast
  ultimately show ?thesis using run by blast
qed

end
