(* ===== verification/UsageCollectors.thy ===== *)
theory UsageCollectors
  imports Diagnosis
begin

text \<open>
  The two collectors that look beside the pods: actual usage reported by metrics-server
  (\<^verbatim>\<open>internal/detection/metrics.go\<close>) and the control plane (\<^verbatim>\<open>controlplane.go\<close>), and the index the
  resource collector lists pods by (\<^verbatim>\<open>index.go\<close>). The calls they make are fields of their records;
  the flag \<^verbatim>\<open>available\<close> of the metrics collector is its state, so a collection returns the collector
  as it leaves it. Neither collector ever returns an error.
\<close>

abbreviation "SignalCPUUsageHigh \<equiv> ''CPUUsageHigh''"
abbreviation "SignalAPIServerUnhealthy \<equiv> ''APIServerUnhealthy''"
abbreviation "SignalSchedulerUnhealthy \<equiv> ''SchedulerUnhealthy''"
abbreviation "SignalControllerMgrUnhealth \<equiv> ''ControllerManagerUnhealthy''"
abbreviation "metricsCollectorName \<equiv> ''metrics-usage-checker''"
abbreviation "controlPlaneCollectorName \<equiv> ''controlplane-health-checker''"

subsection \<open>Metrics collector (metrics.go)\<close>

record ContainerMetrics =
  cmx_name :: string
  cmx_usage :: "(string \<times> Quantity) list"

record PodMetrics =
  pmx_name :: string
  pmx_namespace :: string
  pmx_containers :: "ContainerMetrics list"

record 'w MetricsCollector =
  mtc_serverGroups :: "'w \<Rightarrow> goerr + string list"
  mtc_listPodMetrics :: "'w \<Rightarrow> goerr + PodMetrics list"
  mtc_listPods :: "'w \<Rightarrow> goerr + Pod list"
  mtc_available :: bool
  mtc_usageThreshold :: rat

definition defaultUsageThreshold :: rat where
  "defaultUsageThreshold = fl64 (90 / 100)"

definition probeAvailability :: "'w MetricsCollector \<Rightarrow> 'w \<Rightarrow> bool" where
  "probeAvailability m w =
     (case mtc_serverGroups m w of Inl _ \<Rightarrow> False | Inr groups \<Rightarrow> ''metrics.k8s.io'' \<in> set groups)"

definition NewMetricsCollector ::
  "('w \<Rightarrow> goerr + string list) \<Rightarrow> ('w \<Rightarrow> goerr + PodMetrics list) \<Rightarrow> ('w \<Rightarrow> goerr + Pod list) \<Rightarrow>
   'w \<Rightarrow> 'w MetricsCollector" where
  "NewMetricsCollector groups podMetrics pods w =
     (let mc = \<lparr>mtc_serverGroups = groups, mtc_listPodMetrics = podMetrics, mtc_listPods = pods,
                mtc_available = False, mtc_usageThreshold = defaultUsageThreshold\<rparr>
      in mc\<lparr>mtc_available := probeAvailability mc w\<rparr>)"

text \<open>The map of the pods by namespace and name; of two pods with one key the later one stays.\<close>

definition getPodSpecs :: "'w MetricsCollector \<Rightarrow> 'w \<Rightarrow> goerr + ((string \<times> string) \<times> Pod) list" where
  "getPodSpecs m w =
     (case mtc_listPods m w of
        Inl e \<Rightarrow> Inl (Wrap ''failed to list pods'' e)
      | Inr pods \<Rightarrow> Inr (fold (\<lambda>pod. AList.update (po_namespace pod, po_name pod) pod) pods []))"

definition ownerDeploymentFromSpec :: "Pod \<Rightarrow> string" where
  "ownerDeploymentFromSpec pod = (if po_hostname pod \<noteq> [] then po_hostname pod else [])"

text \<open>
  The CPU and the memory block of the loop differ in the signal type, the words of the message and
  of the metadata, and the accessor that gives the numbers.
\<close>

definition usageSignal ::
  "rat \<Rightarrow> PodMetrics \<Rightarrow> Pod \<Rightarrow> time \<Rightarrow> string \<Rightarrow> string \<Rightarrow> string \<Rightarrow> ContainerMetrics \<Rightarrow>
   int \<Rightarrow> int \<Rightarrow> Quantity \<Rightarrow> Quantity \<Rightarrow> Signal option" where
  "usageSignal usageThreshold pm pod now signalType word key cm used available usage limit =
     (let ratio = fdiv (fl64 (of_int used)) (fl64 (of_int available)) in
      if usageThreshold \<le> ratio then
        (let pct = fmul ratio 100 in
         Some \<lparr>sg_type = signalType, sg_severity = SeverityWarning, sg_category = CategoryResource,
               sg_source = metricsCollectorName,
               sg_message = ''Container '' @ cmx_name cm @ '' in '' @ pmx_namespace pm @ ''/'' @ pmx_name pm @
                            '' '' @ word @ '' usage at '' @ fmtFixed 1 pct @ ''% of limit'',
               sg_resource = \<lparr>rr_kind = ''Pod'', rr_name = pmx_name pm, rr_namespace = pmx_namespace pm, rr_role = []\<rparr>,
               sg_personaRef = None, sg_value = Some pct, sg_threshold = Some (fmul usageThreshold 100),
               sg_detectedAt = now,
               sg_metadata = [(''container'', cmx_name cm), (key @ ''Usage'', q_string usage),
                 (key @ ''Limit'', q_string limit), (MetadataKeyDeployment, ownerDeploymentFromSpec pod)]\<rparr>)
      else None)"

definition checkContainerUsage ::
  "rat \<Rightarrow> PodMetrics \<Rightarrow> Pod \<Rightarrow> time \<Rightarrow> ContainerMetrics \<Rightarrow> (string \<times> Quantity) list \<Rightarrow> Signal list" where
  "checkContainerUsage usageThreshold pm pod now cm limits =
     (case map_of limits ''cpu'' of
        None \<Rightarrow> []
      | Some cpuLimit \<Rightarrow>
          (let cpuUsage = resourceOf (cmx_usage cm) ''cpu'' in
           if 0 < q_milliValue cpuLimit then
             optList (usageSignal usageThreshold pm pod now SignalCPUUsageHigh ''CPU'' ''cpu'' cm
               (q_milliValue cpuUsage) (q_milliValue cpuLimit) cpuUsage cpuLimit)
           else [])) @
     (case map_of limits ''memory'' of
        None \<Rightarrow> []
      | Some memLimit \<Rightarrow>
          (let memUsage = resourceOf (cmx_usage cm) ''memory'' in
           if 0 < q_value memLimit then
             optList (usageSignal usageThreshold pm pod now SignalMemoryUsageHigh ''memory'' ''memory'' cm
               (q_value memUsage) (q_value memLimit) memUsage memLimit)
           else []))"

definition containerLimits :: "Pod \<Rightarrow> (string \<times> (string \<times> Quantity) list) list" where
  "containerLimits pod = fold (\<lambda>c. AList.update (ct_name c) (ct_limits c)) (po_containers pod) []"

definition checkPodMetrics ::
  "rat \<Rightarrow> PodMetrics \<Rightarrow> ((string \<times> string) \<times> Pod) list \<Rightarrow> time \<Rightarrow> Signal list" where
  "checkPodMetrics usageThreshold pm podSpecs now =
     (case map_of podSpecs (pmx_namespace pm, pmx_name pm) of
        None \<Rightarrow> []
      | Some pod \<Rightarrow>
          concat (map (\<lambda>cm. case map_of (containerLimits pod) (cmx_name cm) of
                              None \<Rightarrow> []
                            | Some limits \<Rightarrow> checkContainerUsage usageThreshold pm pod now cm limits)
            (pmx_containers pm)))"

definition MetricsCollector_Collect ::
  "'w MetricsCollector \<Rightarrow> time \<Rightarrow> 'w \<Rightarrow> 'w MetricsCollector \<times> Signal list" where
  "MetricsCollector_Collect m now w =
     (if \<not> mtc_available m then (m, [])
      else if \<not> probeAvailability m w then (m\<lparr>mtc_available := False\<rparr>, [])
      else (case mtc_listPodMetrics m w of
              Inl _ \<Rightarrow> (m, [])
            | Inr items \<Rightarrow>
                (case getPodSpecs m w of
                   Inl _ \<Rightarrow> (m, [])
                 | Inr podSpecs \<Rightarrow>
                     (m, concat (map (\<lambda>pm. checkPodMetrics (mtc_usageThreshold m) pm podSpecs now) items)))))"

text \<open>The collections of one process: the cycle times with the cluster as it was at each.\<close>

fun collections :: "'w MetricsCollector \<Rightarrow> (time \<times> 'w) list \<Rightarrow> Signal list list" where
  "collections m [] = []"
| "collections m ((now, w) # cycles) =
     (case MetricsCollector_Collect m now w of (m1, signals) \<Rightarrow> signals # collections m1 cycles)"

subsection \<open>Control plane collector (controlplane.go)\<close>

record leaseCheck =
  lc_leaseName :: string
  lc_signalType :: string
  lc_component :: string

definition leaseChecks :: "leaseCheck list" where
  "leaseChecks =
     [\<lparr>lc_leaseName = ''kube-scheduler'', lc_signalType = SignalSchedulerUnhealthy, lc_component = ''kube-scheduler''\<rparr>,
      \<lparr>lc_leaseName = ''kube-controller-manager'', lc_signalType = SignalControllerMgrUnhealth,
       lc_component = ''kube-controller-manager''\<rparr>]"

definition leaseStaleThreshold :: duration where
  "leaseStaleThreshold = 60 * second"

text \<open>A lease is read as its renewal time, if it has one; the REST client may be nil.\<close>

record 'w ControlPlaneCollector =
  cpl_probe :: "('w \<Rightarrow> string \<Rightarrow> goerr option) option"
  cpl_getLease :: "'w \<Rightarrow> objkey \<Rightarrow> goerr + time option"

definition endpointSignal :: "time \<Rightarrow> string \<Rightarrow> goerr \<Rightarrow> Signal" where
  "endpointSignal now endpoint err =
     \<lparr>sg_type = SignalAPIServerUnhealthy, sg_severity = SeverityCritical, sg_category = CategoryControlPlane,
      sg_source = controlPlaneCollectorName,
      sg_message = ''API server '' @ endpoint @ '' check failed: '' @ err_text err,
      sg_resource = \<lparr>rr_kind = ''ComponentStatus'', rr_name = ''kube-apiserver'', rr_namespace = [], rr_role = []\<rparr>,
      sg_personaRef = None, sg_value = None, sg_threshold = None, sg_detectedAt = now,
      sg_metadata = [(''endpoint'', endpoint)]\<rparr>"

definition checkHealthEndpoints :: "'w ControlPlaneCollector \<Rightarrow> time \<Rightarrow> 'w \<Rightarrow> Signal list" where
  "checkHealthEndpoints c now w =
     (case cpl_probe c of
        None \<Rightarrow> []
      | Some get \<Rightarrow> concat (map (\<lambda>endpoint. optList (map_option (endpointSignal now endpoint) (get w endpoint)))
                      [''/readyz'', ''/livez'']))"

definition staleLease :: "leaseCheck \<Rightarrow> time \<Rightarrow> time \<Rightarrow> Signal option" where
  "staleLease check now renewTime =
     (let staleDuration = timeSub now renewTime in
      if leaseStaleThreshold < staleDuration then
        (let staleSeconds = durSeconds staleDuration in
         Some \<lparr>sg_type = lc_signalType check, sg_severity = SeverityWarning, sg_category = CategoryControlPlane,
               sg_source = controlPlaneCollectorName,
               sg_message = lc_component check @ '' lease is stale ('' @ fmtFixed 0 staleSeconds @
                            ''s since last renewal)'',
               sg_resource = \<lparr>rr_kind = ''Lease'', rr_name = lc_leaseName check, rr_namespace = ''kube-system'',
                              rr_role = []\<rparr>,
               sg_personaRef = None, sg_value = Some staleSeconds,
               sg_threshold = Some (durSeconds leaseStaleThreshold), sg_detectedAt = renewTime,
               sg_metadata = [(''component'', lc_component check),
                              (''lastRenewAge'', fmtFixed 0 staleSeconds @ ''s'')]\<rparr>)
      else None)"

definition checkLeases :: "'w ControlPlaneCollector \<Rightarrow> time \<Rightarrow> 'w \<Rightarrow> Signal list" where
  "checkLeases c now w =
     concat (map (\<lambda>check. case cpl_getLease c w (''kube-system'', lc_leaseName check) of
                            Inl _ \<Rightarrow> []
                          | Inr None \<Rightarrow> []
                          | Inr (Some renewTime) \<Rightarrow> optList (staleLease check now renewTime)) leaseChecks)"

definition ControlPlaneCollector_Collect ::
  "'w ControlPlaneCollector \<Rightarrow> time \<Rightarrow> 'w \<Rightarrow> goerr + Signal list" where
  "ControlPlaneCollector_Collect c now w = Inr (checkHealthEndpoints c now w @ checkLeases c now w)"

subsection \<open>Index of pods by node (index.go)\<close>

abbreviation "PodNodeNameIndex \<equiv> ''spec.nodeName''"

definition PodByNodeName :: "Pod option \<Rightarrow> string list" where
  "PodByNodeName obj =
     (case obj of None \<Rightarrow> [] | Some pod \<Rightarrow> if po_nodeName pod = [] then [] else [po_nodeName pod])"

text \<open>What a listing by the index returns from a cache that holds the pods.\<close>

definition podsOnNode :: "Pod list \<Rightarrow> string \<Rightarrow> Pod list" where
  "podsOnNode pods node = filter (\<lambda>pod. node \<in> set (PodByNodeName (Some pod))) pods"

end
