(* ===== verification/LLM.thy ===== *)
theory LLM
  imports UsageCollectors JsonDecode
begin

text \<open>
  The clients of the language models that enhance a diagnosis (\<^verbatim>\<open>internal/llm\<close>): the prompt
  (\<^verbatim>\<open>prompt.go\<close>), the clients for the Anthropic and the Gemini API (\<^verbatim>\<open>claude.go\<close>, \<^verbatim>\<open>gemini.go\<close>)
  and the redaction of the key (\<^verbatim>\<open>client.go\<close>).

  The network is the record \<open>Transport\<close> on a world of its own: sending a request changes the
  world and gives a response or an error, a response has a status and a body whose reading may
  fail. A body is text; what it decodes to as JSON, and the error for one that does not decode
  into the struct at hand, are fields too, as is the check of a URL.
\<close>

record HttpRequest =
  hq_url :: string
  hq_headers :: "(string \<times> string) list"
  hq_body :: json

record HttpResponse =
  hp_status :: int
  hp_body :: "goerr + string"

record 'h Transport =
  ht_checkURL :: "string \<Rightarrow> goerr option"
  ht_do :: "'h \<Rightarrow> HttpRequest \<Rightarrow> 'h \<times> (goerr + HttpResponse)"
  ht_parse :: "string \<Rightarrow> json option"
  ht_jsonError :: "string \<Rightarrow> raw \<Rightarrow> goerr"

subsection \<open>Requests and prompt (client.go, prompt.go)\<close>

abbreviation "providerClaude \<equiv> ''claude''"
abbreviation "providerGemini \<equiv> ''gemini''"

record SignalContext =
  sgc_type :: string
  sgc_message :: string
  sgc_resource :: string
  sgc_value :: string

record DiagnosisRequest =
  dr_summary :: string
  dr_category :: string
  dr_severity :: string
  dr_confidence :: rat
  dr_suggestedAction :: string
  dr_signals :: "SignalContext list"

record DiagnosisResponse =
  ds_enhancedSummary :: string
  ds_recommendedAction :: string

definition systemPrompt :: string where
  "systemPrompt = joinWith newline
     [''You are a Kubernetes incident diagnosis expert. You are given the output of a'',
      ''deterministic rule-based diagnosis engine and the raw detection signals.'', [],
      ''Your job is to:'',
      ''1. Provide a clearer, more actionable explanation of the root cause'',
      ''2. Add context about why this happened and what to watch for'',
      ''3. Confirm or refine the suggested remediation action'',
      ''4. Note any patterns from incident history'', [],
      ''Be concise (2-4 sentences). Focus on actionable insight, not generic advice.'',
      ''Do not include caveats about being an AI.'']"

definition signalLine :: "SignalContext \<Rightarrow> string" where
  "signalLine s = ''- ['' @ sgc_type s @ ''] '' @ sgc_message s @
     (if sgc_resource s \<noteq> [] then '' (resource: '' @ sgc_resource s @ '')'' else []) @
     (if sgc_value s \<noteq> [] then '' (value: '' @ sgc_value s @ '')'' else []) @ newline"

definition buildUserMessage :: "DiagnosisRequest \<Rightarrow> string" where
  "buildUserMessage req =
     ''Rule-based diagnosis:'' @ newline @ dr_summary req @ newline @ newline @
     ''Category: '' @ dr_category req @ '' | Severity: '' @ dr_severity req @ '' | Confidence: '' @
     fmtFixed 2 (dr_confidence req) @ newline @
     ''Suggested action: '' @ dr_suggestedAction req @ newline @ newline @
     ''Detection signals:'' @ newline @ concat (map signalLine (dr_signals req))"

subsection \<open>Responses (client.go, claude.go)\<close>

definition redactKey :: "string \<Rightarrow> string \<Rightarrow> string" where
  "redactKey txt apiKey = (if apiKey = [] then txt else replaceAll txt apiKey ''[REDACTED]'')"

definition recommendedActions :: "string list" where
  "recommendedActions =
     [''resource-adjustment'', ''restart'', ''rollback'', ''scale-up'', ''deployment-fix'', ''investigate'']"

definition parseEnhancedResponse :: "string \<Rightarrow> DiagnosisResponse" where
  "parseEnhancedResponse txt =
     (let lower = toLower txt in
      \<lparr>ds_enhancedSummary = trimSpace txt,
       ds_recommendedAction =
         (case List.find (containsStr lower) recommendedActions of None \<Rightarrow> [] | Some action \<Rightarrow> action)\<rparr>)"

text \<open>
  Both clients send a request and read the reply alike, up to the request and the text they pick
  out of the decoded reply; \<open>askModel\<close> is that common course.
\<close>

definition askModel ::
  "'h Transport \<Rightarrow> string \<Rightarrow> (json \<Rightarrow> string list option) \<Rightarrow> string \<Rightarrow> 'h \<Rightarrow> HttpRequest \<Rightarrow>
   'h \<times> (goerr + DiagnosisResponse)" where
  "askModel t apiKey texts vendor h req =
     (case ht_checkURL t (hq_url req) of
        Some e \<Rightarrow> (h, Inl (Wrap ''create request'' e))
      | None \<Rightarrow>
          (case ht_do t h req of
             (h1, Inl e) \<Rightarrow> (h1, Inl (Err (''API call failed: '' @ redactKey (err_text e) apiKey)))
           | (h1, Inr resp) \<Rightarrow>
               (case hp_body resp of
                  Inl e \<Rightarrow> (h1, Inl (Wrap ''read response'' e))
                | Inr body \<Rightarrow>
                    (if hp_status resp \<noteq> 200 then
                       (h1, Inl (Err (''API returned status '' @ showInt (hp_status resp) @ '': '' @
                                      redactKey body apiKey)))
                     else (case unmarshal (ht_jsonError t) (vendor @ ''Response'') texts (rawOf (ht_parse t) body) of
                             Inl e \<Rightarrow> (h1, Inl (Wrap ''unmarshal response'' e))
                           | Inr [] \<Rightarrow> (h1, Inl (Err (''empty response from '' @ vendor @ '' API'')))
                           | Inr (txt # _) \<Rightarrow> (h1, Inr (parseEnhancedResponse txt)))))))"

subsection \<open>Anthropic (claude.go)\<close>

abbreviation "claudeAPIURL \<equiv> ''https://api.anthropic.com/v1/messages''"
abbreviation "anthropicVersion \<equiv> ''2023-06-01''"
abbreviation "defaultClaudeModel \<equiv> ''claude-sonnet-4-6''"

record 'h ClaudeClient =
  ccl_apiKey :: string
  ccl_model :: string
  ccl_baseURL :: string
  ccl_client :: "'h Transport"

definition claudeText :: "json \<Rightarrow> string option" where
  "claudeText v = Option.bind (decodeObject v) (\<lambda>m.
     Option.bind (stringAt m ''type'') (\<lambda>_. stringAt m ''text''))"

definition claudeTexts :: "json \<Rightarrow> string list option" where
  "claudeTexts v = Option.bind (decodeObject v) (\<lambda>m. listAt claudeText m ''content'')"

definition Claude_EnhanceDiagnosis ::
  "'h ClaudeClient \<Rightarrow> 'h \<Rightarrow> DiagnosisRequest \<Rightarrow> 'h \<times> (goerr + DiagnosisResponse)" where
  "Claude_EnhanceDiagnosis c h req =
     askModel (ccl_client c) (ccl_apiKey c) claudeTexts ''Claude'' h
       \<lparr>hq_url = (if ccl_baseURL c = [] then claudeAPIURL else ccl_baseURL c),
        hq_headers = [(''Content-Type'', ''application/json''), (''x-api-key'', ccl_apiKey c),
                      (''anthropic-version'', anthropicVersion)],
        hq_body = JObj [(''model'', JStr (ccl_model c)), (''max_tokens'', JNum 512),
          (''system'', JStr systemPrompt),
          (''messages'', JArr [JObj [(''role'', JStr ''user''), (''content'', JStr (buildUserMessage req))]])]\<rparr>"

subsection \<open>Gemini (gemini.go)\<close>

abbreviation "defaultGeminiModel \<equiv> ''gemini-2.0-flash''"
abbreviation "geminiAPIKeyHeader \<equiv> ''x-goog-api-key''"

definition geminiAPIURL :: "string \<Rightarrow> string" where
  "geminiAPIURL model =
     ''https://generativelanguage.googleapis.com/v1beta/models/'' @ model @ '':generateContent''"

record 'h GeminiClient =
  gcl_apiKey :: string
  gcl_model :: string
  gcl_baseURL :: string
  gcl_client :: "'h Transport"

definition geminiPart :: "json \<Rightarrow> string option" where
  "geminiPart v = Option.bind (decodeObject v) (\<lambda>m. stringAt m ''text'')"

text \<open>The parts of a candidate: its content object, absent or not, with its list of parts.\<close>

definition geminiCandidate :: "json \<Rightarrow> string list option" where
  "geminiCandidate v = Option.bind (decodeObject v) (\<lambda>m.
     decodeField (\<lambda>parts c. case c of JNull \<Rightarrow> Some parts
       | _ \<Rightarrow> Option.bind (decodeObject c) (\<lambda>cm. listAt geminiPart cm ''parts'')) [] m ''content'')"

definition geminiTexts :: "json \<Rightarrow> string list option" where
  "geminiTexts v = Option.bind (decodeObject v) (\<lambda>m.
     map_option (\<lambda>cs. case cs of [] \<Rightarrow> [] | c # _ \<Rightarrow> c) (listAt geminiCandidate m ''candidates''))"

definition Gemini_EnhanceDiagnosis ::
  "'h GeminiClient \<Rightarrow> 'h \<Rightarrow> DiagnosisRequest \<Rightarrow> 'h \<times> (goerr + DiagnosisResponse)" where
  "Gemini_EnhanceDiagnosis g h req =
     askModel (gcl_client g) (gcl_apiKey g) geminiTexts ''Gemini'' h
       \<lparr>hq_url = (if gcl_baseURL g = [] then geminiAPIURL (gcl_model g) else gcl_baseURL g),
        hq_headers = [(''Content-Type'', ''application/json''), (geminiAPIKeyHeader, gcl_apiKey g)],
        hq_body = JObj [(''contents'', JArr [JObj [(''parts'', JArr [JObj [(''text'',
          JStr (systemPrompt @ newline @ newline @ buildUserMessage req))]])]])]\<rparr>"

subsection \<open>The client interface (client.go)\<close>

datatype 'h LlmClient = Claude "'h ClaudeClient" | Gemini "'h GeminiClient"

fun EnhanceDiagnosis :: "'h LlmClient \<Rightarrow> 'h \<Rightarrow> DiagnosisRequest \<Rightarrow> 'h \<times> (goerr + DiagnosisResponse)" where
  "EnhanceDiagnosis (Claude c) h req = Claude_EnhanceDiagnosis c h req"
| "EnhanceDiagnosis (Gemini g) h req = Gemini_EnhanceDiagnosis g h req"

fun Provider :: "'h LlmClient \<Rightarrow> string" where
  "Provider (Claude _) = providerClaude"
| "Provider (Gemini _) = providerGemini"

fun SetModelOf :: "string \<Rightarrow> 'h LlmClient \<Rightarrow> 'h LlmClient" where
  "SetModelOf model (Claude c) = Claude (c\<lparr>ccl_model := model\<rparr>)"
| "SetModelOf model (Gemini g) = Gemini (g\<lparr>gcl_model := model\<rparr>)"

fun llm_key :: "'h LlmClient \<Rightarrow> string" where
  "llm_key (Claude c) = ccl_apiKey c"
| "llm_key (Gemini g) = gcl_apiKey g"

fun llm_transport :: "'h LlmClient \<Rightarrow> 'h Transport" where
  "llm_transport (Claude c) = ccl_client c"
| "llm_transport (Gemini g) = gcl_client g"

definition NewClient :: "'h Transport \<Rightarrow> string \<Rightarrow> string \<Rightarrow> goerr + 'h LlmClient" where
  "NewClient httpClient provider apiKey =
     (if apiKey = [] then Inl (Err (''API key is required for LLM provider '' @ quoteQ provider))
      else if provider = providerClaude then
        Inr (Claude \<lparr>ccl_apiKey = apiKey, ccl_model = defaultClaudeModel, ccl_baseURL = [], ccl_client = httpClient\<rparr>)
      else if provider = providerGemini then
        Inr (Gemini \<lparr>gcl_apiKey = apiKey, gcl_model = defaultGeminiModel, gcl_baseURL = [], gcl_client = httpClient\<rparr>)
      else Inl (Err (''unknown LLM provider '' @ quoteQ provider @ '' (supported: claude, gemini)'')))"

end
