(* ===== verification/PlanPrompt.thy ===== *)
theory PlanPrompt
  imports PlanContext LLM
begin

text \<open>
  What the planning model is told (\<^verbatim>\<open>internal/remediation/planner/prompt.go\<close>): the fixed
  instructions, the schema of the tool it must call, and the user message that renders the context
  of \<^verbatim>\<open>PlanContext\<close>. A line of the source is an entry of a list or ends with \<open>newline\<close>.
\<close>

subsection \<open>Fixed parts\<close>

definition planSystemPrompt :: string where
  "planSystemPrompt = joinWith newline
    [
     ''You are a senior Site Reliability Engineer acting as a Kubernetes remediation planner.'',
     [],
     ''You are given a diagnosed incident plus rich context: the LIVE workload as read'',
     ''from the cluster, the affected application'' @ [CHR 0x27] @ ''s persona (an imported snapshot of'',
     ''desired spec, which drifts and is often stale), the cluster'' @ [CHR 0x27] @ ''s self-healing'',
     ''policy and environment, the recent incident history for this application, and the'',
     ''OUTCOMES of past remediations (which prior fixes succeeded, failed, or were rolled back).'',
     [],
     ''Produce a correct, ORDERED remediation plan by calling the submit_remediation_plan tool.'',
     [],
     ''GROUNDING (the highest-priority rules; a wrong fact is worse than a missing one):'',
     ''G1. The \"Live workload\" section is the only source of truth for what is running'',
     ''   NOW. Every number, image tag, limit, request and replica count you state as'',
     ''   current MUST be copied from it.'',
     ''G2. The persona is a point-in-time import. Its values may be months out of date'',
     ''   and may describe fields the workload does not have. NEVER present a persona'',
     ''   value as the current state, and never compute from one when a live value'',
     ''   exists.'',
     ''G3. Size every change against the LIVE value. \"No more than ~2x\" means no more'',
     ''   than twice what the live workload has, not twice what the persona records.'',
     ''G4. Only change resource keys the live workload ALREADY sets. If the live'',
     ''   container has no CPU limit, do not add one as part of an unrelated fix.'',
     ''   If adding a key is genuinely the fix, it must be its own step whose'',
     ''   description says plainly that a new field is being introduced and why.'',
     ''G5. Never assert a version, tag or release you have not read in the context'',
     ''   above. The live image and the \"Prior images on record\" list are the only'',
     ''   versions you may name. If the right version is not among them, say you'',
     ''   cannot verify it and prefer a rollback (kubectl rollout undo) or an explicit'',
     ''   instruction to the operator to pick a known-good tag. Do not describe a tag'',
     ''   as \"latest\" or \"stable\" unless the context says so.'',
     ''G6. Do not claim to have queried anything you were not given. You did not query'',
     ''   an image registry, a metrics backend, or an external API.'',
     ''G7. Never say whether a change is within, under, or outside any cap, ceiling,'',
     ''   guardrail or budget, and never cite a multiplier as evidence that it complies.'',
     ''   Dorgu computes that ratio itself and prints its own verdict beside your text,'',
     ''   so a claim like \"well within a 2x ceiling\" beside a 16x change is simply'',
     ''   contradicted in the next line. State the values you propose and why they are'',
     ''   right for the workload. Say nothing about limits on your own proposal.'',
     [],
     ''OWNERSHIP (what you may tell the reader to run):'',
     ''O1. The live workload section states managedBy. When it is anything other than'',
     ''   \"unmanaged\", another system owns that Deployment'' @ [CHR 0x27] @ ''s desired state.'',
     ''O2. For an owned workload, NEVER suggest a command that writes to it (no'',
     ''   kubectl patch, set, apply, edit, scale, replace, delete, annotate, label, or'',
     ''   rollout undo/restart). A direct write takes field ownership and makes the'',
     ''   owner'' @ [CHR 0x27] @ ''s next apply fail or silently revert the fix.'',
     ''O3. Instead, tell the reader exactly what to change in the owner'' @ [CHR 0x27] @ ''s source of'',
     ''   truth: the values file for a Helm release, the Git manifests for an ArgoCD'',
     ''   application or a Flux source, the overlay for kustomize. Name the owner.'',
     ''O4. managedBy \"unknown\" is treated as owned. Do not suggest workload writes.'',
     ''O5. Read-only commands (kubectl get, describe, logs, top, events, rollout'',
     ''   status/history) are fine for any workload.'',
     ''O6. persona-update steps are unaffected by all of this. The operator patches the'',
     ''   ApplicationPersona, never the workload, so those steps stay safe and'',
     ''   auto-applied whoever owns the Deployment.'',
     [],
     ''Rules you MUST follow:'',
     ''1. Order steps by execution sequence, starting at 1.'',
     ''2. Each step has a type: one of persona-update, workload-apply, restart, scale,'',
     ''   config-change, manual.'',
     ''3. ONLY persona-update steps are auto-applied by the operator. They MUST carry a'',
     ''   \"patch\": a JSON merge patch against the ApplicationPersona spec, e.g.'',
     ''   {\"spec\":{\"resources\":{\"limits\":{\"memory\":\"512Mi\"}}}}. Never put a workload'',
     ''   (Deployment/Pod) patch here '' @ em_dash @ '' the operator never writes workloads directly.'',
     ''   A persona-update step with no patch applies nothing. It is not a plan, it is a'',
     ''   sentence, and Dorgu will overwrite it with its own computed patch.'',
     ''3a. A change to the container'' @ [CHR 0x27] @ ''s CPU or memory requests or limits is ALWAYS a'',
     ''   persona-update step carrying a patch. Never express a resource change as'',
     ''   workload-apply: Dorgu applies resource changes by patching the'',
     ''   ApplicationPersona, and the CLI takes it from there with the user'' @ [CHR 0x27] @ ''s own'',
     ''   credentials. workload-apply is for changes the persona cannot carry, such as'',
     ''   an image tag.'',
     ''3b. Emit at most ONE persona-update step, and put every persona-spec field the'',
     ''   fix changes in its single patch. Do not restate the same resource change as a'',
     ''   second advisory step: the reader would be told to make by hand a change that'',
     ''   is already being applied for them.'',
     ''4. All other step types are ADVISORY: they describe an action for a human, CLI,'',
     ''   or platform to apply. Do not include a patch on them.'',
     ''4a. When an advisory step can be carried out by ONE kubectl command AND the'',
     ''   command is permitted for this workload'' @ [CHR 0x27] @ ''s owner (see O1-O5), include it as'',
     ''   \"command\", fully resolved with the real namespace, workload, container and'',
     ''   value from the Live workload section (e.g. \"kubectl set image'',
     ''   deployment/web web=nginx:1.27-alpine -n demo\"). A reader should be able to'',
     ''   paste it and be done. Constraints: a single line, starting with \"kubectl \",'',
     ''   and containing none of ; & | < > $ or backticks. If no single command does'',
     ''   the job, the workload is owned, or you would have to guess at a name, omit'',
     ''   \"command\" and say what to do in the description instead. Never guess.'',
     ''5. Respect the cluster'' @ [CHR 0x27] @ ''s self-healing policy and trust level. Size resource'',
     ''   changes conservatively: no more than about twice the LIVE value (per G3).'',
     ''   Size it and move on; per G7, do not comment on whether it complies.'',
     ''6. PREFER approaches that succeeded in past remediations for this app; AVOID'',
     ''   approaches that previously failed or were rolled back.'',
     ''7. Give a concise rootCause and a confidence between 0 and 1.'',
     ''8. Each step needs a short description, a rationale, and a risk (low|medium|high).'',
     [],
     ''Be specific and actionable. Do not include caveats about being an AI.''
    ]"

abbreviation "planToolName \<equiv> ''submit_remediation_plan''"
abbreviation "planToolDescription \<equiv>
  ''Submit the ordered remediation plan as structured data. Call this exactly once.''"

definition planStepTypes :: "string list" where
  "planStepTypes = [''persona-update'', ''workload-apply'', ''restart'', ''scale'', ''config-change'', ''manual'']"

definition fieldSchema :: "string \<Rightarrow> string list \<Rightarrow> string \<Rightarrow> string \<times> json" where
  "fieldSchema name values description =
     (name, JObj ([(''type'', JStr ''string'')] @ (if values = [] then [] else [(''enum'', JArr (map JStr values))]) @
                  [(''description'', JStr description)]))"

definition stepSchema :: json where
  "stepSchema = JObj
     [(''type'', JStr ''object''), (''additionalProperties'', JBool False),
      (''properties'', JObj
        [(''order'', JObj [(''type'', JStr ''integer''), (''description'', JStr ''1-based execution order.'')]),
         fieldSchema ''type'' planStepTypes ''Step type. Only persona-update is auto-applied.'',
         fieldSchema ''description'' [] ''Human-readable summary of the action.'',
         fieldSchema ''rationale'' [] ''Why this step is proposed.'',
         fieldSchema ''risk'' [''low'', ''medium'', ''high''] ''Assessed risk of applying this step.'',
         fieldSchema ''patch'' []
           (''REQUIRED on every persona-update step: a JSON merge patch (as a JSON-encoded string) against the '' @
            ''ApplicationPersona spec, e.g. {\"spec\":{\"resources\":{\"limits\":{\"memory\":\"512Mi\"}}}}. A persona-update '' @
            ''step without this applies nothing and will be replaced by Dorgu'' @ [CHR 0x27] @ ''s own computed patch. '' @
            ''Any change to container requests or limits belongs here, never on a workload-apply step. Omit for '' @
            ''advisory steps.''),
         fieldSchema ''command'' []
           (''For advisory steps only: one ready-to-run kubectl command that carries out this step, fully resolved '' @
            ''with real names, e.g. \"kubectl set image deployment/web web=nginx:1.27-alpine -n demo\". Single line, '' @
            ''must start with \"kubectl \", must not contain ; & | < > $ or backticks. Omit when no single command '' @
            ''does the job or a name would have to be guessed.'')]),
      (''required'', JArr (map JStr [''order'', ''type'', ''description'', ''rationale'', ''risk'']))]"

definition planToolSchema :: json where
  "planToolSchema = JObj
     [(''type'', JStr ''object''), (''additionalProperties'', JBool False),
      (''properties'', JObj
        [fieldSchema ''rootCause'' [] ''Concise root-cause explanation for the incident.'',
         (''confidence'', JObj [(''type'', JStr ''number''),
           (''description'', JStr ''Confidence in the plan, between 0 and 1.'')]),
         (''steps'', JObj [(''type'', JStr ''array''), (''description'', JStr ''Ordered remediation steps.''),
           (''items'', stepSchema)])]),
      (''required'', JArr (map JStr [''rootCause'', ''confidence'', ''steps'']))]"

subsection \<open>The user message\<close>

text \<open>The \<^verbatim>\<open>%q\<close> verb on text with control characters.\<close>

definition hexByte :: "nat \<Rightarrow> string" where
  "hexByte n = (let d = (\<lambda>k. if k < 10 then char_of (48 + k) else char_of (87 + k)) in [d (n div 16), d (n mod 16)])"

definition quoteChar :: "char \<Rightarrow> string" where
  "quoteChar c =
     (let n = of_char c :: nat in
      case map_of [(7, CHR ''a''), (8, CHR ''b''), (9, CHR ''t''), (10, CHR ''n''), (11, CHR ''v''), (12, CHR ''f''),
                   (13, CHR ''r''), (34, CHR 0x22), (92, CHR 0x5C)] n of
        Some e \<Rightarrow> [CHR 0x5C, e]
      | None \<Rightarrow> if n < 32 \<or> n = 127 then [CHR 0x5C, CHR ''x''] @ hexByte n else [c])"

definition quoteText :: "string \<Rightarrow> string" where
  "quoteText s = [CHR 0x22] @ concat (map quoteChar s) @ [CHR 0x22]"

definition valueOrNone :: "string \<Rightarrow> string" where
  "valueOrNone s = (if s = [] then ''(unknown)'' else s)"

definition describeResourceValues :: "ResourceValues option \<Rightarrow> string" where
  "describeResourceValues v =
     (case v of
        None \<Rightarrow> ''none set (adding one would introduce a field the workload does not have)''
      | Some r \<Rightarrow> joinWith '' ''
          [if rv_cpu r \<noteq> [] then ''cpu='' @ rv_cpu r else ''cpu=NOT SET (do not introduce)'',
           if rv_memory r \<noteq> [] then ''memory='' @ rv_memory r else ''memory=NOT SET (do not introduce)''])"

definition writeObservedResources :: "ObservedResources option \<Rightarrow> string" where
  "writeObservedResources res =
     (case res of
        None \<Rightarrow> ''Live resources: the container sets NO requests and NO limits. '' @
                ''Do not add one as a side effect of another fix.'' @ newline
      | Some r \<Rightarrow> ''Live limits: '' @ describeResourceValues (or_limits r) @ newline @
                  ''Live requests: '' @ describeResourceValues (or_requests r) @ newline)"

definition ownedNotice :: "WorkloadRef \<Rightarrow> string" where
  "ownedNotice ref =
     (if IsOwned (Some ref) then
        ''This workload is OWNED. Do not suggest any command that writes to it; '' @
        ''tell the reader what to change in the owner'' @ [CHR 0x27] @ ''s source of truth instead.'' @ newline
      else ''Nothing reconciles this workload, so a direct kubectl command is the right '' @
           ''instruction to give.'' @ newline)"

definition writeLiveWorkload :: "WorkloadContext option \<Rightarrow> string" where
  "writeLiveWorkload wc =
     ''## Live workload (ground truth, read from the cluster just now)'' @ newline @
     (case wc of
        None \<Rightarrow> ''(no Deployment could be resolved for this application)'' @ newline @
                ''Because the live workload is unreadable, you may not state any current'' @ newline @
                ''resource value, image tag or replica count as fact. Say what you cannot see.'' @ newline @ newline
      | Some w \<Rightarrow>
          (let ref = wcx_ref w in
           wr_kind ref @ '': '' @ wr_namespace ref @ ''/'' @ wr_name ref @ '' | container: '' @ wr_container ref @ newline @
           ''Image (running now): '' @ valueOrNone (wr_observedImage ref) @ newline @
           ''Replicas: desired='' @ showInt (wcx_replicas w) @ '' ready='' @ showInt (wcx_readyReplicas w) @ newline @
           writeObservedResources (wr_observedResources ref) @
           (if wcx_priorImages w \<noteq> [] then
              ''Prior images on record (read by Dorgu, safe to name): '' @ joinWith '', '' (wcx_priorImages w) @ newline
            else ''Prior images on record: (none) - you have no verified previous tag to roll back to.'' @ newline) @
           ''managedBy: '' @ wr_managedBy ref @
           (if wr_managedByDetail ref \<noteq> [] then '' ('' @ wr_managedByDetail ref @ '')'' else []) @ newline @
           ownedNotice ref @ newline))"

definition writeAppPersona :: "ApplicationPersona option \<Rightarrow> string" where
  "writeAppPersona persona =
     ''## Application persona (imported snapshot of INTENT, may be stale)'' @ newline @
     (case persona of
        None \<Rightarrow> ''(unavailable)'' @ newline @ newline
      | Some p \<Rightarrow>
          (let sp = p_typed p;
               values = (\<lambda>label r. ''Persona-recorded '' @ label @ '' (NOT current): cpu='' @ rv_cpu r @
                                  '' memory='' @ rv_memory r @ newline)
           in ''Name: '' @ asp_name sp @ '' | Type: '' @ asp_type sp @ '' | Tier: '' @ asp_tier sp @ newline @
              (case Option.bind (asp_resources sp) rcn_limits of None \<Rightarrow> [] | Some r \<Rightarrow> values ''limits'' r) @
              (case Option.bind (asp_resources sp) rcn_requests of None \<Rightarrow> [] | Some r \<Rightarrow> values ''requests'' r) @
              (case Option.bind (ast_learned (p_status p)) lrn_resourceBaseline of
                 None \<Rightarrow> []
               | Some b \<Rightarrow> ''Learned baseline: avgCPU='' @ bl_avgCPU b @ '' avgMemory='' @ bl_avgMemory b @
                            '' peakCPU='' @ bl_peakCPU b @ '' peakMemory='' @ bl_peakMemory b @ newline) @
              newline))"

definition showBool :: "bool \<Rightarrow> string" where
  "showBool b = (if b then ''true'' else ''false'')"

definition writeClusterPersona :: "ClusterPersona option \<Rightarrow> string" where
  "writeClusterPersona persona =
     ''## Cluster policy'' @ newline @
     (case persona of
        None \<Rightarrow> ''(no ClusterPersona configured)'' @ newline @ newline
      | Some cp \<Rightarrow>
          ''Environment: '' @ cps_environment (cp_spec cp) @ newline @
          (case cp_selfHealing cp of
             None \<Rightarrow> []
           | Some sh \<Rightarrow>
               ''Self-healing: enabled='' @ showBool (sh_enabled sh) @ '' mode='' @ sh_mode sh @ '' trustLevel='' @
               showInt (sh_trustLevel sh) @ '' maxRemediationsPerHour='' @ showInt (sh_maxRemediationsPerHour sh) @ newline @
               ''The target namespace is not excluded by policy.'' @ newline) @
          newline)"

definition incidentLine :: "IncidentMemory \<Rightarrow> string" where
  "incidentLine im =
     ''- signal='' @ di_signal (is_detection (im_spec im)) @ '' category='' @ is_category (im_spec im) @
     '' severity='' @ is_severity (im_spec im) @ '' phase='' @ ims_phase (im_status im) @
     '' occurrences='' @ showInt (ims_occurrenceCount (im_status im)) @ newline"

definition writePastIncidents :: "IncidentMemory list \<Rightarrow> string" where
  "writePastIncidents incidents =
     ''## Past incidents for this application'' @ newline @
     (if incidents = [] then ''(none)'' @ newline @ newline else concat (map incidentLine incidents) @ newline)"

definition remediationLine :: "RemediationAction \<Rightarrow> string" where
  "remediationLine ra =
     (let phase = phase_str (ra_phase ra); verification = rs_verificationResult (ra_status ra) in
      ''- type='' @ ad_type (sp_action (ra_spec ra)) @ '' phase='' @ (if phase = [] then ''Unknown'' else phase) @
      '' verification='' @ (if verification = [] then ''n/a'' else verification) @
      '' explanation='' @ quoteText (sp_explanation (ra_spec ra)) @ newline)"

definition writePastRemediations :: "RemediationAction list \<Rightarrow> string" where
  "writePastRemediations remediations =
     ''## Past remediation outcomes'' @ newline @
     (if remediations = [] then ''(none)'' @ newline @ newline else concat (map remediationLine remediations) @ newline)"

definition planSignalLine :: "Signal \<Rightarrow> string" where
  "planSignalLine s =
     ''- ['' @ sg_type s @ ''] '' @ sg_message s @
     (if rr_kind (sg_resource s) \<noteq> []
      then '' (resource: '' @ rr_kind (sg_resource s) @ ''/'' @ rr_name (sg_resource s) @ '')'' else []) @
     (case sg_value s of None \<Rightarrow> [] | Some v \<Rightarrow> '' (value: '' @ fmtFixed 1 v @ '')'') @ newline"

definition buildPlanUserMessage :: "RemediationContext \<Rightarrow> string" where
  "buildPlanUserMessage rc =
     (let d = rx_diagnosis rc in
      ''## Diagnosis'' @ newline @ ''Summary: '' @ dg_summary d @ newline @
      ''Category: '' @ dg_category d @ '' | Severity: '' @ dg_severity d @ '' | Confidence: '' @
      fmtFixed 2 (dg_confidence d) @ '' | Suggested action: '' @ dg_suggestedAction d @ newline @ newline @
      ''## Signals'' @ newline @ (if rx_signals rc = [] then ''(none)'' @ newline else []) @
      concat (map planSignalLine (rx_signals rc)) @ newline @
      writeLiveWorkload (rx_workload rc) @ writeAppPersona (Some (rx_appPersona rc)) @
      writeClusterPersona (rx_clusterPersona rc) @ writePastIncidents (rx_pastIncidents rc) @
      writePastRemediations (rx_pastRemediations rc))"

end
