(* ===== verification/ClaudePlanner.thy ===== *)
theory ClaudePlanner
  imports PlanPrompt Proposal
begin

text \<open>
  The planner that asks the Anthropic API for a plan by forced tool use
  (\<^verbatim>\<open>internal/remediation/planner/claude.go\<close>): the request, the retry on a malformed reply, the
  decoding of the tool input into the plan of \<^verbatim>\<open>types.go\<close>. A number literal is known by its value.
\<close>

abbreviation "planMaxTokens \<equiv> 2048 :: rat"
abbreviation "maxParseRetries \<equiv> 1 :: nat"

record 'h ClaudePlanner =
  cpn_apiKey :: string
  cpn_model :: string
  cpn_baseURL :: string
  cpn_client :: "'h Transport"

definition NewClaudePlanner :: "'h Transport \<Rightarrow> string \<Rightarrow> goerr + 'h ClaudePlanner" where
  "NewClaudePlanner httpClient apiKey =
     (if apiKey = [] then Inl (Err ''planner: API key is required'')
      else Inr \<lparr>cpn_apiKey = apiKey, cpn_model = defaultClaudeModel, cpn_baseURL = [], cpn_client = httpClient\<rparr>)"

definition SetModel :: "string \<Rightarrow> 'h ClaudePlanner \<Rightarrow> 'h ClaudePlanner" where
  "SetModel model c = (if model \<noteq> [] then c\<lparr>cpn_model := model\<rparr> else c)"

subsection \<open>The tool input\<close>

text \<open>\<^verbatim>\<open>planPatch.UnmarshalJSON\<close>: the patch a value sets, or None where it leaves the field alone.\<close>

definition planPatch :: "(string \<Rightarrow> json option) \<Rightarrow> json \<Rightarrow> json option" where
  "planPatch parse v =
     (case v of
        JStr encoded \<Rightarrow> if encoded = [] then None else parse encoded
      | JObj m \<Rightarrow> Some (JObj m)
      | _ \<Rightarrow> None)"

definition patchAt :: "(string \<Rightarrow> json option) \<Rightarrow> jmap \<Rightarrow> string \<Rightarrow> raw" where
  "patchAt parse m name =
     fold (\<lambda>v acc. case planPatch parse v of None \<Rightarrow> acc | Some p \<Rightarrow> RawJson p) (fieldValues m name) RawEmpty"

definition decodeInt32 :: "int \<Rightarrow> json \<Rightarrow> int option" where
  "decodeInt32 old v =
     (case v of
        JNull \<Rightarrow> Some old
      | JNum q \<Rightarrow> if q = of_int \<lfloor>q\<rfloor> \<and> - (2 ^ 31) \<le> \<lfloor>q\<rfloor> \<and> \<lfloor>q\<rfloor> < 2 ^ 31 then Some \<lfloor>q\<rfloor> else None
      | _ \<Rightarrow> None)"

definition decodeFloat :: "rat \<Rightarrow> json \<Rightarrow> rat option" where
  "decodeFloat old v = (case v of JNull \<Rightarrow> Some old | JNum q \<Rightarrow> Some (fl64 q) | _ \<Rightarrow> None)"

definition rawStep :: "(string \<Rightarrow> json option) \<Rightarrow> json \<Rightarrow> PlannedStep option" where
  "rawStep parse v = Option.bind (decodeObject v) (\<lambda>m.
     Option.bind (decodeField decodeInt32 0 m ''order'') (\<lambda>order.
     Option.bind (stringAt m ''type'') (\<lambda>type'.
     Option.bind (stringAt m ''description'') (\<lambda>description.
     Option.bind (stringAt m ''rationale'') (\<lambda>rationale.
     Option.bind (stringAt m ''risk'') (\<lambda>risk.
     Option.bind (stringAt m ''command'') (\<lambda>command.
       Some \<lparr>ps_order = order, ps_type = type', ps_description = description, ps_rationale = rationale,
             ps_risk = risk, ps_patch = patchAt parse m ''patch'', ps_command = command\<rparr>)))))))"

definition rawPlan :: "(string \<Rightarrow> json option) \<Rightarrow> json \<Rightarrow> RemediationPlan option" where
  "rawPlan parse v = Option.bind (decodeObject v) (\<lambda>m.
     Option.bind (stringAt m ''rootCause'') (\<lambda>rootCause.
     Option.bind (decodeField decodeFloat 0 m ''confidence'') (\<lambda>confidence.
     Option.bind (listAt (rawStep parse) m ''steps'') (\<lambda>steps.
       Some \<lparr>pl_rootCause = rootCause, pl_confidence = confidence, pl_steps = steps\<rparr>))))"

text \<open>A content block: its type, its name and its input, which stays raw.\<close>

record claudeContent =
  ctn_type :: string
  ctn_name :: string
  ctn_input :: raw

definition claudeBlock :: "json \<Rightarrow> claudeContent option" where
  "claudeBlock v = Option.bind (decodeObject v) (\<lambda>m.
     Option.bind (stringAt m ''type'') (\<lambda>type'.
     Option.bind (stringAt m ''text'') (\<lambda>_.
     Option.bind (stringAt m ''name'') (\<lambda>name.
       Some \<lparr>ctn_type = type', ctn_name = name,
             ctn_input = rawAt m ''input''\<rparr>))))"

definition claudeResponse :: "json \<Rightarrow> claudeContent list option" where
  "claudeResponse v = Option.bind (decodeObject v) (\<lambda>m.
     Option.bind (stringAt m ''stop_reason'') (\<lambda>_. listAt claudeBlock m ''content''))"

definition extractPlan :: "'h Transport \<Rightarrow> claudeContent list \<Rightarrow> goerr + RemediationPlan" where
  "extractPlan t content =
     (case List.find (\<lambda>b. ctn_type b = ''tool_use'' \<and> ctn_name b = planToolName) content of
        None \<Rightarrow> Inl (Err (''no '' @ planToolName @ '' tool_use block in response''))
      | Some block \<Rightarrow>
          (case unmarshal (ht_jsonError t) ''rawPlan'' (rawPlan (ht_parse t)) (ctn_input block) of
             Inl e \<Rightarrow> Inl (Wrap ''unmarshal tool input'' e)
           | Inr plan \<Rightarrow> Inr plan))"

subsection \<open>The calls\<close>

text \<open>
  The three results of \<^verbatim>\<open>callOnce\<close>: a plan, a reply that does not parse (which may be asked for
  again), or a failed call (which may not).
\<close>

datatype callResult = Planned RemediationPlan | ParseErr goerr | CallErr goerr

definition callOnce :: "'h ClaudePlanner \<Rightarrow> 'h \<Rightarrow> json \<Rightarrow> 'h \<times> callResult" where
  "callOnce c h jsonBody =
     (let t = cpn_client c; apiURL = (if cpn_baseURL c = [] then claudeAPIURL else cpn_baseURL c) in
      case ht_checkURL t apiURL of
        Some e \<Rightarrow> (h, CallErr (Wrap ''planner: create request'' e))
      | None \<Rightarrow>
          (case ht_do t h \<lparr>hq_url = apiURL,
               hq_headers = [(''Content-Type'', ''application/json''), (''x-api-key'', cpn_apiKey c),
                             (''anthropic-version'', anthropicVersion)],
               hq_body = jsonBody\<rparr> of
             (h1, Inl e) \<Rightarrow> (h1, CallErr (Wrap ''planner: API call failed'' e))
           | (h1, Inr resp) \<Rightarrow>
               (case hp_body resp of
                  Inl e \<Rightarrow> (h1, CallErr (Wrap ''planner: read response'' e))
                | Inr body \<Rightarrow>
                    (if hp_status resp \<noteq> 200 then
                       (h1, CallErr (Err (''planner: API returned status '' @ showInt (hp_status resp) @ '': '' @ body)))
                     else (case unmarshal (ht_jsonError t) ''claudeResponse'' claudeResponse (rawOf (ht_parse t) body) of
                             Inl e \<Rightarrow> (h1, ParseErr (Wrap ''unmarshal response envelope'' e))
                           | Inr content \<Rightarrow>
                               (h1, case extractPlan t content of Inl e \<Rightarrow> ParseErr e | Inr plan \<Rightarrow> Planned plan))))))"

definition planRequest :: "'h ClaudePlanner \<Rightarrow> RemediationContext \<Rightarrow> json" where
  "planRequest c rc = JObj
     [(''model'', JStr (cpn_model c)), (''max_tokens'', JNum planMaxTokens), (''system'', JStr planSystemPrompt),
      (''tools'', JArr [JObj [(''name'', JStr planToolName), (''description'', JStr planToolDescription),
         (''input_schema'', planToolSchema), (''strict'', JBool True)]]),
      (''tool_choice'', JObj [(''type'', JStr ''tool''), (''name'', JStr planToolName)]),
      (''messages'', JArr [JObj [(''role'', JStr ''user''), (''content'', JStr (buildPlanUserMessage rc))]])]"

text \<open>The loop of the attempts; \<open>n\<close> is the number of attempts left.\<close>

fun planLoop :: "'h ClaudePlanner \<Rightarrow> json \<Rightarrow> nat \<Rightarrow> goerr \<Rightarrow> 'h \<Rightarrow> 'h \<times> (goerr + RemediationPlan)" where
  "planLoop c jsonBody 0 lastErr h =
     (h, Inl (Err (''planner: malformed structured output from model: '' @ err_text lastErr)))"
| "planLoop c jsonBody (Suc n) lastErr h =
     (case callOnce c h jsonBody of
        (h1, CallErr e) \<Rightarrow> (h1, Inl e)
      | (h1, Planned plan) \<Rightarrow> (h1, Inr plan)
      | (h1, ParseErr e) \<Rightarrow> planLoop c jsonBody n e h1)"

definition PlanRemediation ::
  "'h ClaudePlanner \<Rightarrow> 'h \<Rightarrow> RemediationContext \<Rightarrow> 'h \<times> (goerr + RemediationPlan)" where
  "PlanRemediation c h rc = planLoop c (planRequest c rc) (Suc maxParseRetries) (Err []) h"

text \<open>The planner as the proposal builder calls it, on the network of a given world.\<close>

definition claudePlanner ::
  "'h ClaudePlanner \<Rightarrow> ('w \<Rightarrow> 'h) \<Rightarrow> 'w \<Rightarrow> RemediationContext \<Rightarrow> goerr + RemediationPlan option" where
  "claudePlanner c net w rc = map_sum id Some (snd (PlanRemediation c (net w) rc))"

end
