(* ===== verification/AIDiagnosis.thy ===== *)
theory AIDiagnosis
  imports LLM
begin

text \<open>
  The provider that has a model enhance the rule-based diagnoses (\<^verbatim>\<open>internal/diagnosis/ai.go\<close>),
  and what it may send, what it may change, and what its result does to the engine's merge. The
  model is asked through a function of the network, so one provider serves for both clients of
  \<^verbatim>\<open>LLM\<close>; the gate is the deny list, or nil.
\<close>

record 'h AIProvider =
  aip_enhance :: "'h \<Rightarrow> DiagnosisRequest \<Rightarrow> 'h \<times> (goerr + DiagnosisResponse)"
  aip_gate :: "(string \<Rightarrow> bool) option"

abbreviation "providerNameAI \<equiv> ''ai-enhanced''"

definition NewAIProvider :: "'h LlmClient \<Rightarrow> (string \<Rightarrow> bool) option \<Rightarrow> 'h AIProvider" where
  "NewAIProvider client gate = \<lparr>aip_enhance = EnhanceDiagnosis client, aip_gate = gate\<rparr>"

definition resourceText :: "ResourceReference \<Rightarrow> string" where
  "resourceText r =
     (if rr_kind r = [] then []
      else if rr_namespace r \<noteq> [] then rr_kind r @ ''/'' @ rr_namespace r @ ''/'' @ rr_name r
      else rr_kind r @ ''/'' @ rr_name r)"

definition signalContext :: "ContributingSignal \<Rightarrow> SignalContext" where
  "signalContext cs =
     \<lparr>sgc_type = sg_type (con_signal cs), sgc_message = sg_message (con_signal cs),
      sgc_resource = resourceText (sg_resource (con_signal cs)),
      sgc_value = (case sg_value (con_signal cs) of None \<Rightarrow> [] | Some v \<Rightarrow> fmtFixed 1 v @ ''%'')\<rparr>"

definition buildLLMRequest :: "Diagnosis \<Rightarrow> DiagnosisRequest" where
  "buildLLMRequest d =
     \<lparr>dr_summary = dg_summary d, dr_category = dg_category d, dr_severity = dg_severity d,
      dr_confidence = dg_confidence d, dr_suggestedAction = dg_suggestedAction d,
      dr_signals = map signalContext (dg_contributing d)\<rparr>"

definition enhanceDiagnosis :: "time \<Rightarrow> Diagnosis \<Rightarrow> DiagnosisResponse \<Rightarrow> Diagnosis" where
  "enhanceDiagnosis now base resp =
     base\<lparr>dg_provider := providerNameAI, dg_diagnosedAt := now,
          dg_summary := (if ds_enhancedSummary resp \<noteq> [] then ds_enhancedSummary resp else dg_summary base),
          dg_suggestedAction := (if ds_recommendedAction resp \<noteq> [] then ds_recommendedAction resp
                                 else dg_suggestedAction base)\<rparr>"

text \<open>
  The loop of \<^verbatim>\<open>Diagnose\<close>. A failed call ends it: None, and the caller returns no diagnosis at all.
\<close>

fun enhanceLoop ::
  "'h AIProvider \<Rightarrow> time \<Rightarrow> 'h \<Rightarrow> Diagnosis list \<Rightarrow> Diagnosis list \<Rightarrow> 'h \<times> Diagnosis list option" where
  "enhanceLoop p now h enhanced [] = (h, Some enhanced)"
| "enhanceLoop p now h enhanced (d # ds) =
     (if snd (ProtectedNamespace (aip_gate p) d) then enhanceLoop p now h enhanced ds
      else (case aip_enhance p h (buildLLMRequest d) of
              (h1, Inl _) \<Rightarrow> (h1, None)
            | (h1, Inr resp) \<Rightarrow> enhanceLoop p now h1 (enhanced @ [enhanceDiagnosis now d resp]) ds))"

definition AI_Diagnose ::
  "'h AIProvider \<Rightarrow> time \<Rightarrow> 'h \<Rightarrow> Signal list \<Rightarrow> 'h \<times> (goerr + Diagnosis list)" where
  "AI_Diagnose p now h signals =
     (case RuleBased_Diagnose now signals of
        Inl e \<Rightarrow> (h, Inl (Wrap ''rule-based diagnosis failed'' e))
      | Inr base \<Rightarrow>
          (if base = [] then (h, Inr [])
           else (case enhanceLoop p now h [] base of
                   (h1, None) \<Rightarrow> (h1, Inr [])
                 | (h1, Some enhanced) \<Rightarrow> (h1, Inr enhanced))))"

text \<open>The two providers of the engine, the second one asking the model on a given network.\<close>

definition aiEngine :: "'h AIProvider \<Rightarrow> time \<Rightarrow> 'h \<Rightarrow> DiagnosisProvider list" where
  "aiEngine p now h =
     [\<lparr>dp_name = ''rule-based'', dp_diagnose = RuleBased_Diagnose now\<rparr>,
      \<lparr>dp_name = providerNameAI, dp_diagnose = (\<lambda>signals. snd (AI_Diagnose p now h signals))\<rparr>]"

end
