(* ===== verification/AIProps.thy ===== *)
theory AIProps
  imports AIDiagnosis
begin

text \<open>
  What the model is asked and what its answers may change: only cleared diagnoses are sent, an
  answer changes the summary and the action of a diagnosis and nothing it rests on, the answer
  replaces the rule-based diagnosis only where it repeats its action, and no error of a client
  shows the API key.
\<close>

subsection \<open>Redaction\<close>

text \<open>A key of one of the two vendors: letters, digits, hyphens and underscores, longer than a word of the messages.\<close>

definition api_key :: "string \<Rightarrow> bool" where
  "api_key k \<longleftrightarrow> 16 < length k \<and> list_all (\<lambda>c. isLetter c \<or> isDigit c \<or> c = CHR ''-'' \<or> c = CHR ''_'') k"

lemma api_key_chars:
  assumes "api_key k"
  shows "CHR ''['' \<notin> set k" "CHR '']'' \<notin> set k" "CHR '' '' \<notin> set k" "CHR '':'' \<notin> set k" "16 < length k" "k \<noteq> []"
  using assms by (auto simp: api_key_def list_all_iff isLetter_def isDigit_def digitVal_def Let_def)

text \<open>A text whose parts are free of the key is free of it, if the byte between them is not in the key.\<close>

lemma contains_split:
  assumes "c \<notin> set k" "containsStr (a @ c # b) k"
  shows "containsStr a k \<or> containsStr b k"
proof -
  obtain x y where xy: "a @ c # b = x @ k @ y" using assms(2) unfolding containsStr_iff by blast
  consider u where "a = x @ k @ u" | u where "b = u @ k @ y" | u v where "k = u @ c # v"
  proof (cases "length a < length x")
    case True
    then have "drop (Suc (length a)) (a @ c # b) = drop (Suc (length a)) x @ k @ y" unfolding xy by simp
    then have "b = drop (Suc (length a)) x @ k @ y" by simp
    with that(2) show ?thesis .
  next
    case False
    then have ax: "take (length x) a = x"
      using arg_cong [OF xy, of "take (length x)"] by simp
    define r where "r = drop (length x) a"
    have a: "a = x @ r" unfolding r_def using ax by (metis append_take_drop_id)
    with xy have r: "r @ c # b = k @ y" by simp
    show ?thesis
    proof (cases "length k \<le> length r")
      case True
      then have "take (length k) r = k" using arg_cong [OF r, of "take (length k)"] by simp
      then have "r = k @ drop (length k) r" by (metis append_take_drop_id)
      with a that(1) show ?thesis by metis
    next
      case False
      then have "k = r @ c # take (length k - Suc (length r)) b"
        using arg_cong [OF r, of "take (length k)"] by (simp add: take_Cons' split: if_splits)
      with that(3) show ?thesis .
    qed
  qed
  then show ?thesis
  proof cases
    case 3
    then show ?thesis using assms(1) by simp
  qed (auto simp: containsStr_iff)
qed

lemma contains_short: "length a < length k \<Longrightarrow> \<not> containsStr a k"
  unfolding containsStr_iff by auto

text \<open>Scanning changes no text at whose head the key would still be recognised.\<close>

lemma replaceLoop_prefix:
  assumes "c0 \<notin> set p" "hasPrefix (replaceLoop 0 [(key, c0 # new)] s) p"
  shows "hasPrefix s p"
  using assms
proof (induction s arbitrary: p)
  case (Cons c s)
  show ?case
  proof (cases "key \<noteq> [] \<and> hasPrefix (c # s) key")
    case True
    then show ?thesis using Cons.prems by (cases p) (auto simp: hasPrefix_def)
  next
    case False
    then have "hasPrefix (c # replaceLoop 0 [(key, c0 # new)] s) p" using Cons.prems(2) by (auto split: if_splits)
    with Cons show ?thesis by (cases p) (auto simp: hasPrefix_def)
  qed
qed simp

lemma redacted_free:
  assumes "api_key key"
  shows "\<not> containsStr (replaceLoop n [(key, ''[REDACTED]'')] s) key"
proof (induction s arbitrary: n)
  case Nil
  then show ?case using api_key_chars [OF assms] by simp
next
  case (Cons c s)
  note k = api_key_chars [OF assms]
  show ?case
  proof (cases "0 < n")
    case False
    have short: "\<not> containsStr ''REDACTED'' key" using k(5) by (intro contains_short) simp
    show ?thesis
    proof (cases "hasPrefix (c # s) key")
      case True
      then have "replaceLoop n [(key, ''[REDACTED]'')] (c # s) =
          [] @ CHR ''['' # (''REDACTED'' @ CHR '']'' # replaceLoop (length key - 1) [(key, ''[REDACTED]'')] s)"
        using False k(6) by simp
      moreover have "\<not> containsStr (''REDACTED'' @ CHR '']'' # replaceLoop (length key - 1) [(key, ''[REDACTED]'')] s) key"
        using contains_split [OF k(2)] short Cons.IH by blast
      ultimately show ?thesis using contains_split [OF k(1)] k(6) by (metis containsStr.simps(1))
    next
      case noprefix: False
      have out: "replaceLoop n [(key, ''[REDACTED]'')] (c # s) = c # replaceLoop 0 [(key, ''[REDACTED]'')] s"
        using False noprefix by simp
      have "\<not> hasPrefix (c # replaceLoop 0 [(key, ''[REDACTED]'')] s) key"
      proof
        assume h: "hasPrefix (c # replaceLoop 0 [(key, ''[REDACTED]'')] s) key"
        then obtain key' where key: "key = c # key'" using k(6) by (cases key) (auto simp: hasPrefix_def)
        then have "hasPrefix (replaceLoop 0 [(key, ''[REDACTED]'')] s) key'" using h by (simp add: hasPrefix_def)
        moreover have "CHR ''['' \<notin> set key'" using k(1) key by simp
        ultimately have "hasPrefix s key'" using replaceLoop_prefix by blast
        then show False using noprefix key by (simp add: hasPrefix_def)
      qed
      then show ?thesis unfolding out using Cons.IH by simp
    qed
  qed (simp add: Cons.IH)
qed

lemma redactKey_free: "api_key key \<Longrightarrow> \<not> containsStr (redactKey u key) key"
  using redacted_free api_key_chars(6) by (auto simp: redactKey_def replaceAll_def)


text \<open>Words of at most sixteen letters in front of a text cannot contribute to a key.\<close>

lemma skip_word: "\<lbrakk>api_key k; length w \<le> 16\<rbrakk> \<Longrightarrow> containsStr (w @ CHR '' '' # b) k \<longleftrightarrow> containsStr b k"
proof
  assume "api_key k" "length w \<le> 16" "containsStr (w @ CHR '' '' # b) k"
  then show "containsStr b k"
    using contains_split [OF api_key_chars(3)] contains_short [of w k] api_key_chars(5) by fastforce
next
  assume "containsStr b k"
  then obtain x y where "b = x @ k @ y" unfolding containsStr_iff by blast
  then have "w @ CHR '' '' # b = (w @ CHR '' '' # x) @ k @ y" by simp
  then show "containsStr (w @ CHR '' '' # b) k" unfolding containsStr_iff by blast
qed

text \<open>
  The hypotheses on the network: the errors of \<^verbatim>\<open>net/http\<close> about a URL or a body and those of
  \<^verbatim>\<open>encoding/json\<close> do not repeat a request header, and a status has three digits.
\<close>

definition quiet_transport :: "'h Transport \<Rightarrow> string \<Rightarrow> bool" where
  "quiet_transport t k \<longleftrightarrow>
     (\<forall>u e. ht_checkURL t u = Some e \<longrightarrow> \<not> containsStr (err_text e) k) \<and>
     (\<forall>h req h1 resp. ht_do t h req = (h1, Inr resp) \<longrightarrow> length (showInt (hp_status resp)) = 3 \<and>
        (\<forall>e. hp_body resp = Inl e \<longrightarrow> \<not> containsStr (err_text e) k)) \<and>
     (\<forall>target r. \<not> containsStr (err_text (ht_jsonError t target r)) k)"

lemma wrapped_free:
  assumes "api_key k" "length a \<le> 16" "length b \<le> 15" "\<not> containsStr (err_text e) k"
  shows "\<not> containsStr (err_text (Wrap (a @ CHR '' '' # b) e)) k"
  using skip_word [OF assms(1,2), of "b @ '': '' @ err_text e"] skip_word [OF assms(1), of "b @ '':''" "err_text e"] assms
  by simp

text \<open>The six ways a call fails.\<close>

lemma askModel_errors:
  assumes "askModel t k texts vendor h req = (h1, Inl e)"
  obtains (url) e' where "ht_checkURL t (hq_url req) = Some e'" "e = Wrap ''create request'' e'"
  | (call) e' where "e = Err (''API call failed: '' @ redactKey (err_text e') k)"
  | (reading) h2 resp e' where "ht_do t h req = (h2, Inr resp)" "hp_body resp = Inl e'" "e = Wrap ''read response'' e'"
  | (status) h2 resp body where "ht_do t h req = (h2, Inr resp)"
      "e = Err (''API returned status '' @ showInt (hp_status resp) @ '': '' @ redactKey body k)"
  | (decode) target r where "e = Wrap ''unmarshal response'' (ht_jsonError t target r)"
  | (nothing) "e = Err (''empty response from '' @ vendor @ '' API'')"
  using assms unfolding askModel_def unmarshal_def
  by (simp only: split: option.splits prod.splits sum.splits if_splits list.splits) (use that in auto)

lemma askModel_error_free:
  assumes k: "api_key k" and quiet: "quiet_transport t k" and vendor: "length vendor \<le> 16"
    and "askModel t k texts vendor h req = (h1, Inl e)"
  shows "\<not> containsStr (err_text e) k"
proof -
  have create: "\<not> containsStr (err_text (Wrap ''create request'' e')) k" if "ht_checkURL t u = Some e'" for u e'
    using wrapped_free [OF k, of "''create''" "''request''" e'] quiet that unfolding quiet_transport_def by auto
  have failed: "\<not> containsStr (''API call failed: '' @ redactKey u k) k" for u
    using skip_word [OF k, of "''API''" "''call failed: '' @ redactKey u k"]
      skip_word [OF k, of "''call''" "''failed: '' @ redactKey u k"]
      skip_word [OF k, of "''failed:''" "redactKey u k"] redactKey_free [OF k, of u] by simp
  have returned: "\<not> containsStr (''API returned status '' @ n @ '': '' @ redactKey u k) k" if "length n = 3" for n u
    using skip_word [OF k, of "''API''" "''returned status '' @ n @ '': '' @ redactKey u k"]
      skip_word [OF k, of "''returned''" "''status '' @ n @ '': '' @ redactKey u k"]
      skip_word [OF k, of "''status''" "n @ '': '' @ redactKey u k"]
      skip_word [OF k, of "n @ '':''" "redactKey u k"] redactKey_free [OF k, of u] that by simp
  have read: "\<not> containsStr (err_text (Wrap ''read response'' e')) k" if "\<not> containsStr (err_text e') k" for e'
    using that wrapped_free [OF k, of "''read''" "''response''" e'] by simp
  have unmarshal: "\<not> containsStr (err_text (Wrap ''unmarshal response'' e')) k" if "\<not> containsStr (err_text e') k" for e'
    using that wrapped_free [OF k, of "''unmarshal''" "''response''" e'] by simp
  have empty_reply: "\<not> containsStr (''empty response from '' @ vendor @ '' API'') k"
    using skip_word [OF k, of "''empty''" "''response from '' @ vendor @ '' API''"]
      skip_word [OF k, of "''response''" "''from '' @ vendor @ '' API''"]
      skip_word [OF k, of "''from''" "vendor @ '' API''"]
      skip_word [OF k, of vendor "''API''"] contains_short [of "''API''" k] vendor api_key_chars(5) [OF k] by simp
  from assms(4) show ?thesis
  proof (cases rule: askModel_errors)
    case (url e')
    then show ?thesis using create by blast
  next
    case (reading h2 resp e')
    then have "\<not> containsStr (err_text e') k" using quiet unfolding quiet_transport_def by blast
    with reading(3) read show ?thesis by blast
  next
    case (status h2 resp body)
    then have "length (showInt (hp_status resp)) = 3" using quiet unfolding quiet_transport_def by blast
    with status(2) returned show ?thesis by (simp only: err_text.simps not_False_eq_True)
  next
    case (decode target r)
    then show ?thesis using quiet unmarshal unfolding quiet_transport_def by blast
  qed (simp_all only: err_text.simps failed empty_reply not_False_eq_True)
qed


subsection \<open>Enhancement\<close>

text \<open>The diagnoses of a list the gate clears for the model.\<close>

definition clearedBy :: "(string \<Rightarrow> bool) option \<Rightarrow> Diagnosis list \<Rightarrow> Diagnosis list" where
  "clearedBy gate ds = filter (\<lambda>d. \<not> snd (ProtectedNamespace gate d)) ds"

lemma enhanceLoop_cong:
  assumes "aip_gate p = aip_gate q"
    and "\<And>d h. d \<in> set (clearedBy (aip_gate p) ds) \<Longrightarrow>
      aip_enhance p h (buildLLMRequest d) = aip_enhance q h (buildLLMRequest d)"
  shows "enhanceLoop p now h acc ds = enhanceLoop q now h acc ds"
  using assms(2)
proof (induction ds arbitrary: h acc)
  case (Cons d ds)
  have IH: "enhanceLoop p now h acc ds = enhanceLoop q now h acc ds" for h acc
    by (rule Cons.IH) (use Cons.prems in \<open>simp add: clearedBy_def\<close>)
  show ?case
  proof (cases "snd (ProtectedNamespace (aip_gate p) d)")
    case True
    then show ?thesis using IH assms(1) by simp
  next
    case False
    then have "aip_enhance p h (buildLLMRequest d) = aip_enhance q h (buildLLMRequest d)"
      using Cons.prems by (simp add: clearedBy_def)
    then show ?thesis using False IH assms(1) by (simp split: prod.split sum.split)
  qed
qed simp

text \<open>
  C12. Only cleared diagnoses reach the model. Two providers with the same gate, whose models answer
  alike on the requests built from the rule-based diagnoses the gate clears, produce the same
  diagnoses and leave the network in the same state, whatever they would answer or do with a request
  that holds anything of a withheld diagnosis.
\<close>

theorem model_asked_only_on_cleared:
  assumes "aip_gate p = gate" "aip_gate q = gate"
    and "\<And>base d h. RuleBased_Diagnose now signals = Inr base \<Longrightarrow> d \<in> set base \<Longrightarrow>
      \<not> snd (ProtectedNamespace gate d) \<Longrightarrow>
      aip_enhance p h (buildLLMRequest d) = aip_enhance q h (buildLLMRequest d)"
  shows "AI_Diagnose p now h signals = AI_Diagnose q now h signals"
proof (cases "RuleBased_Diagnose now signals")
  case (Inr base)
  have "enhanceLoop p now h [] base = enhanceLoop q now h [] base"
    by (rule enhanceLoop_cong) (use assms Inr in \<open>auto simp: clearedBy_def\<close>)
  then show ?thesis using Inr by (simp add: AI_Diagnose_def)
qed (simp add: AI_Diagnose_def)

text \<open>An enhancement rests on the facts of the rule-based diagnosis it enhances.\<close>

definition same_facts :: "Diagnosis \<Rightarrow> Diagnosis \<Rightarrow> bool" where
  "same_facts d e \<longleftrightarrow>
     dg_category e = dg_category d \<and> dg_severity e = dg_severity d \<and> dg_confidence e = dg_confidence d \<and>
     dg_personaRef e = dg_personaRef d \<and> dg_affectedResources e = dg_affectedResources d \<and>
     dg_contributing e = dg_contributing d"

lemma enhanceLoop_result:
  "snd (enhanceLoop p now h acc ds) = Some es \<Longrightarrow>
     \<exists>new. es = acc @ new \<and>
       list_all2 (\<lambda>d e. \<exists>h resp. snd (aip_enhance p h (buildLLMRequest d)) = Inr resp \<and> e = enhanceDiagnosis now d resp)
         (clearedBy (aip_gate p) ds) new"
proof (induction p now h acc ds rule: enhanceLoop.induct)
  case (2 p now h acc d ds)
  show ?case
  proof (cases "snd (ProtectedNamespace (aip_gate p) d)")
    case True
    with 2 show ?thesis by (simp add: clearedBy_def)
  next
    case False
    obtain h1 r where call: "aip_enhance p h (buildLLMRequest d) = (h1, r)" by (rule prod.exhaust)
    with "2.prems" False obtain resp where r: "r = Inr resp" by (cases r) simp_all
    have "snd (enhanceLoop p now h1 (acc @ [enhanceDiagnosis now d resp]) ds) = Some es"
      using "2.prems" False call r by simp
    from "2.IH"(2) [OF False call [symmetric] r this]
    obtain new where "es = acc @ enhanceDiagnosis now d resp # new"
      "list_all2 (\<lambda>d e. \<exists>h resp. snd (aip_enhance p h (buildLLMRequest d)) = Inr resp \<and> e = enhanceDiagnosis now d resp)
         (clearedBy (aip_gate p) ds) new" by auto
    moreover have "snd (aip_enhance p h (buildLLMRequest d)) = Inr resp" using call r by simp
    ultimately show ?thesis using False by (auto simp: clearedBy_def)
  qed
qed (simp add: clearedBy_def)

text \<open>
  C30. The model explains and never decides. The AI provider reports no error; its result is empty,
  as when any of its calls fails, or has exactly one diagnosis for each rule-based diagnosis the gate
  clears, in their order, marked as enhanced and with the category, severity, confidence, persona,
  resources and contributing signals of that diagnosis.
\<close>

theorem enhancement_keeps_facts:
  "\<exists>base enhanced. RuleBased_Diagnose now signals = Inr base \<and>
     snd (AI_Diagnose p now h signals) = Inr enhanced \<and>
     (enhanced = [] \<or>
      list_all2 (\<lambda>d e. same_facts d e \<and> dg_provider e = providerNameAI \<and> dg_diagnosedAt e = now)
        (clearedBy (aip_gate p) base) enhanced)"
proof -
  obtain base where base: "RuleBased_Diagnose now signals = Inr base"
    by (cases "RuleBased_Diagnose now signals") (simp_all add: RuleBased_Diagnose_def split: if_splits)
  obtain h1 r where loop: "enhanceLoop p now h [] base = (h1, r)" by (rule prod.exhaust)
  have "list_all2 (\<lambda>d e. same_facts d e \<and> dg_provider e = providerNameAI \<and> dg_diagnosedAt e = now)
      (clearedBy (aip_gate p) base) es" if "r = Some es" for es
  proof -
    have "snd (enhanceLoop p now h [] base) = Some es" using loop that by simp
    from enhanceLoop_result [OF this] show ?thesis
      by (auto elim!: list_all2_mono simp: enhanceDiagnosis_def same_facts_def)
  qed
  moreover have "snd (AI_Diagnose p now h signals) =
      Inr (if base = [] then [] else case r of None \<Rightarrow> [] | Some es \<Rightarrow> es)"
    using base loop by (simp add: AI_Diagnose_def split: option.split)
  ultimately show ?thesis using base by (cases r) auto
qed

text \<open>The enhancement has the key of its diagnosis exactly if it keeps the action.\<close>

lemma deduplicationKey_enhanced:
  "deduplicationKey (enhanceDiagnosis now d resp) = deduplicationKey d \<longleftrightarrow>
     ds_recommendedAction resp \<in> {[], dg_suggestedAction d}"
  by (auto simp: deduplicationKey_def enhanceDiagnosis_def)


end
