(* ===== verification/Prometheus.thy ===== *)
theory Prometheus
  imports LLM PersonaController
begin

text \<open>
  The client that reads the resource baseline of an application from Prometheus
  (\<^verbatim>\<open>internal/metrics/prometheus_client.go\<close>). It sends four queries one after the other over the
  network of \<^verbatim>\<open>LLM\<close>; the response is decoded by \<^verbatim>\<open>json.Decoder\<close>, so \<open>ht_parse\<close> here gives
  the first JSON value of the body.
\<close>

subsection \<open>Numbers\<close>

text \<open>
  What \<^verbatim>\<open>strconv.ParseFloat\<close> returns without an error: a number, in decimal notation with or
  without an exponent, or one of the three special values. Hexadecimal numbers, which Prometheus
  never sends, are not read.
\<close>

datatype goFloat = Finite rat | NotANumber | Infinite bool

definition parseExponent :: "string \<Rightarrow> int option" where
  "parseExponent s =
     (let neg = hasPrefix s ''-''; t = (if neg \<or> hasPrefix s ''+'' then tl s else s); (n, r) = scanDigits 0 t
      in if t = [] \<or> r \<noteq> [] then None else Some (if neg then - int n else int n))"

definition scaled :: "rat \<Rightarrow> int \<Rightarrow> rat" where
  "scaled q e = (if 0 \<le> e then q * 10 ^ nat e else q / 10 ^ nat (- e))"

definition parseDecimal :: "string \<Rightarrow> rat option" where
  "parseDecimal s =
     (let neg = hasPrefix s ''-'';
          t = (if neg \<or> hasPrefix s ''+'' then tl s else s);
          (ip, r) = scanDigits 0 t;
          u = (if hasPrefix r ''.'' then tl r else []);
          (fp, r2) = (if hasPrefix r ''.'' then scanDigits 0 u else (0, r));
          n1 = length t - length r; n2 = (if hasPrefix r ''.'' then length u - length r2 else 0);
          v = (of_nat ip * 10 ^ n2 + of_nat fp) / 10 ^ n2 :: rat;
          w = (if neg then - v else v)
      in if n1 + n2 = 0 then None
         else (case r2 of
                 [] \<Rightarrow> Some w
               | c # ex \<Rightarrow> if c = CHR ''e'' \<or> c = CHR ''E'' then map_option (scaled w) (parseExponent ex) else None))"

definition ParseFloat :: "string \<Rightarrow> goFloat option" where
  "ParseFloat s =
     (let t = (if hasPrefix s ''-'' \<or> hasPrefix s ''+'' then tl s else s); low = toLower t in
      if low = ''inf'' \<or> low = ''infinity'' then Some (Infinite (hasPrefix s ''-''))
      else if toLower s = ''nan'' then Some NotANumber
      else (case parseDecimal s of
              None \<Rightarrow> None
            | Some q \<Rightarrow> if 2 ^ 1024 - 2 ^ 970 \<le> \<bar>q\<bar> then None else Some (Finite (fl64 q))))"

text \<open>\<^verbatim>\<open>%.nf\<close>, and division by a positive number.\<close>

fun fmtGo :: "nat \<Rightarrow> goFloat \<Rightarrow> string" where
  "fmtGo n (Finite q) = fmtFixed n q"
| "fmtGo n NotANumber = ''NaN''"
| "fmtGo n (Infinite neg) = (if neg then ''-Inf'' else ''+Inf'')"

fun divGo :: "goFloat \<Rightarrow> rat \<Rightarrow> goFloat" where
  "divGo (Finite q) d = Finite (fdiv q d)"
| "divGo x d = x"

fun geGo :: "goFloat \<Rightarrow> rat \<Rightarrow> bool" where
  "geGo (Finite q) d = (d \<le> q)"
| "geGo NotANumber d = False"
| "geGo (Infinite neg) d = (\<not> neg)"

definition formatMemory :: "goFloat \<Rightarrow> string" where
  "formatMemory bytes =
     (if geGo bytes (2 ^ 30) then fmtGo 1 (divGo bytes (2 ^ 30)) @ ''Gi'' else fmtGo 0 (divGo bytes (2 ^ 20)) @ ''Mi'')"

subsection \<open>Queries\<close>

record 'h PrometheusClient =
  prm_baseURL :: string
  prm_client :: "'h Transport"

definition NewPrometheusClient :: "'h Transport \<Rightarrow> string \<Rightarrow> 'h PrometheusClient" where
  "NewPrometheusClient httpClient baseURL = \<lparr>prm_baseURL = baseURL, prm_client = httpClient\<rparr>"

text \<open>\<^verbatim>\<open>url.QueryEscape\<close>.\<close>

definition hexUpper :: "nat \<Rightarrow> string" where
  "hexUpper n = (let d = (\<lambda>k. if k < 10 then char_of (48 + k) else char_of (55 + k)) in [d (n div 16), d (n mod 16)])"

definition queryEscape :: "string \<Rightarrow> string" where
  "queryEscape s = concat (map (\<lambda>c.
     if isLetter c \<or> isDigit c \<or> c \<in> {CHR ''-'', CHR ''_'', CHR ''.'', CHR ''~''} then [c]
     else if c = CHR '' '' then ''+'' else CHR ''%'' # hexUpper (of_char c)) s)"

definition selector :: "string \<Rightarrow> string \<Rightarrow> string" where
  "selector namespace appName =
     ''{namespace=\"'' @ namespace @ ''\",pod=~\"'' @ appName @ ''.*\",container!=\"POD\",container!=\"\"}''"

definition avgCPUQuery :: "string \<Rightarrow> string \<Rightarrow> string" where
  "avgCPUQuery ns app = ''avg(rate(container_cpu_usage_seconds_total'' @ selector ns app @ ''[5m])) * 1000''"

definition avgMemoryQuery :: "string \<Rightarrow> string \<Rightarrow> string" where
  "avgMemoryQuery ns app = ''avg(container_memory_working_set_bytes'' @ selector ns app @ '')''"

definition peakCPUQuery :: "string \<Rightarrow> string \<Rightarrow> string" where
  "peakCPUQuery ns app =
     ''max_over_time(rate(container_cpu_usage_seconds_total'' @ selector ns app @ ''[5m])[1h:]) * 1000''"

definition peakMemoryQuery :: "string \<Rightarrow> string \<Rightarrow> string" where
  "peakMemoryQuery ns app = ''max_over_time(container_memory_working_set_bytes'' @ selector ns app @ ''[1h])''"

text \<open>
  The response: its status and the sample of each series, a list of any values. Metric labels must be
  strings, the samples of a range query arrays.
\<close>

definition promSeries :: "json \<Rightarrow> json list option" where
  "promSeries v = Option.bind (decodeObject v) (\<lambda>m.
     Option.bind (decodeField (\<lambda>_ x. Option.bind (decodeObject x) (\<lambda>labels.
        map_option (\<lambda>_. ()) (decodeAll (decodeString []) (map snd labels)))) () m ''metric'') (\<lambda>_.
     Option.bind (decodeField (\<lambda>_. decodeArray) [] m ''value'') (\<lambda>sample.
     Option.bind (listAt decodeArray m ''values'') (\<lambda>_. Some sample))))"

definition promData :: "json list list \<Rightarrow> json \<Rightarrow> json list list option" where
  "promData old v = Option.bind (decodeObject v) (\<lambda>m.
     Option.bind (stringAt m ''resultType'') (\<lambda>_.
     decodeField (\<lambda>_ x. Option.bind (decodeArray x) (decodeAll promSeries)) old m ''result''))"

definition promResponse :: "json \<Rightarrow> (string \<times> json list list) option" where
  "promResponse v = Option.bind (decodeObject v) (\<lambda>m.
     Option.bind (stringAt m ''status'') (\<lambda>status.
     Option.bind (decodeField promData [] m ''data'') (\<lambda>result. Some (status, result))))"

definition firstValue :: "string \<Rightarrow> json list list \<Rightarrow> goerr + goFloat" where
  "firstValue status result =
     (if status \<noteq> ''success'' then Inl (Err (''prometheus query failed: '' @ status))
      else (case result of
              [] \<Rightarrow> Inl (Err ''no results'')
            | sample # _ \<Rightarrow>
                (case sample of
                   _ # JStr valueStr # _ \<Rightarrow>
                     (case ParseFloat valueStr of
                        None \<Rightarrow> Inl (Err (''strconv.ParseFloat: parsing '' @ quoteQ valueStr)) | Some q \<Rightarrow> Inr q)
                 | _ # _ # _ \<Rightarrow> Inl (Err ''invalid value type'')
                 | _ \<Rightarrow> Inl (Err ''invalid result format''))))"

text \<open>
  The errors of a query are looked at by nobody; the status text and the body in one of them are left
  out, as is the reason of a number that does not parse.
\<close>

definition query :: "'h PrometheusClient \<Rightarrow> 'h \<Rightarrow> string \<Rightarrow> 'h \<times> (goerr + goFloat)" where
  "query c h promQL =
     (let t = prm_client c; u = prm_baseURL c @ ''/api/v1/query'' @ ''?query='' @ queryEscape promQL in
      case ht_checkURL t u of
        Some e \<Rightarrow> (h, Inl e)
      | None \<Rightarrow>
          (case ht_do t h \<lparr>hq_url = u, hq_headers = [], hq_body = JNull\<rparr> of
             (h1, Inl e) \<Rightarrow> (h1, Inl e)
           | (h1, Inr resp) \<Rightarrow>
               (if hp_status resp \<noteq> 200 then (h1, Inl (Err ''prometheus query failed''))
                else (case hp_body resp of
                        Inl e \<Rightarrow> (h1, Inl e)
                      | Inr body \<Rightarrow>
                          (case unmarshal (ht_jsonError t) ''PrometheusResponse'' promResponse (rawOf (ht_parse t) body) of
                             Inl e \<Rightarrow> (h1, Inl e)
                           | Inr (status, result) \<Rightarrow> (h1, firstValue status result))))))"

definition queryAvgCPU :: "'h PrometheusClient \<Rightarrow> 'h \<Rightarrow> string \<Rightarrow> string \<Rightarrow> 'h \<times> (goerr + string)" where
  "queryAvgCPU c h ns app = apsnd (map_sum id (\<lambda>v. fmtGo 0 v @ ''m'')) (query c h (avgCPUQuery ns app))"

definition queryAvgMemory :: "'h PrometheusClient \<Rightarrow> 'h \<Rightarrow> string \<Rightarrow> string \<Rightarrow> 'h \<times> (goerr + string)" where
  "queryAvgMemory c h ns app = apsnd (map_sum id formatMemory) (query c h (avgMemoryQuery ns app))"

definition queryPeakCPU :: "'h PrometheusClient \<Rightarrow> 'h \<Rightarrow> string \<Rightarrow> string \<Rightarrow> 'h \<times> (goerr + string)" where
  "queryPeakCPU c h ns app = apsnd (map_sum id (\<lambda>v. fmtGo 0 v @ ''m'')) (query c h (peakCPUQuery ns app))"

definition queryPeakMemory :: "'h PrometheusClient \<Rightarrow> 'h \<Rightarrow> string \<Rightarrow> string \<Rightarrow> 'h \<times> (goerr + string)" where
  "queryPeakMemory c h ns app = apsnd (map_sum id formatMemory) (query c h (peakMemoryQuery ns app))"

definition valueOrEmpty :: "goerr + string \<Rightarrow> string" where
  "valueOrEmpty r = (case r of Inl _ \<Rightarrow> [] | Inr v \<Rightarrow> v)"

definition GetResourceBaseline ::
  "'h PrometheusClient \<Rightarrow> 'h \<Rightarrow> string \<Rightarrow> string \<Rightarrow> 'h \<times> (goerr + ResourceBaseline)" where
  "GetResourceBaseline c h ns app =
     (if prm_baseURL c = [] then (h, Inl (Err ''prometheus URL not configured''))
      else (let (h1, avgCPU) = queryAvgCPU c h ns app;
                (h2, avgMemory) = queryAvgMemory c h1 ns app;
                (h3, peakCPU) = queryPeakCPU c h2 ns app;
                (h4, peakMemory) = queryPeakMemory c h3 ns app;
                baseline = \<lparr>bl_avgCPU = valueOrEmpty avgCPU, bl_avgMemory = valueOrEmpty avgMemory,
                            bl_peakCPU = valueOrEmpty peakCPU, bl_peakMemory = valueOrEmpty peakMemory\<rparr>
            in if bl_avgCPU baseline = [] \<and> bl_avgMemory baseline = [] \<and> bl_peakCPU baseline = [] \<and>
                  bl_peakMemory baseline = []
               then (h4, Inl (Err (''no metrics found for '' @ ns @ ''/'' @ app)))
               else (h4, Inr baseline)))"

definition IsAvailable :: "'h PrometheusClient \<Rightarrow> 'h \<Rightarrow> 'h \<times> bool" where
  "IsAvailable c h =
     (let t = prm_client c; u = prm_baseURL c @ ''/api/v1/status/runtimeinfo'' in
      if prm_baseURL c = [] then (h, False)
      else if ht_checkURL t u \<noteq> None then (h, False)
      else (case ht_do t h \<lparr>hq_url = u, hq_headers = [], hq_body = JNull\<rparr> of
              (h1, Inl _) \<Rightarrow> (h1, False)
            | (h1, Inr resp) \<Rightarrow> (h1, hp_status resp = 200)))"

text \<open>What the persona controller is given: nothing without a URL (\<^verbatim>\<open>applicationpersona_controller.go\<close>).\<close>

definition prometheusBaseline ::
  "'h Transport \<Rightarrow> ('w \<Rightarrow> 'h) \<Rightarrow> string \<Rightarrow> ('w \<Rightarrow> string \<Rightarrow> string \<Rightarrow> goerr + ResourceBaseline) option" where
  "prometheusBaseline httpClient net url =
     (if url = [] then None
      else Some (\<lambda>w ns app. snd (GetResourceBaseline (NewPrometheusClient httpClient url) (net w) ns app)))"

subsection \<open>Laws\<close>

lemma showNat_nonempty [simp]: "showNat n \<noteq> []"
  by (subst showNat.simps) simp

lemma fmtGo_nonempty [simp]: "fmtGo n x \<noteq> []"
  by (cases x) (simp_all add: fmtFixed_def fmtFixedPos_def Let_def)

text \<open>A baseline is missing exactly if no query gave a number.\<close>

lemma baseline_defined_iff:
  assumes "prm_baseURL c \<noteq> []" "query c h (avgCPUQuery ns app) = (h1, r1)" "query c h1 (avgMemoryQuery ns app) = (h2, r2)"
    and "query c h2 (peakCPUQuery ns app) = (h3, r3)" "query c h3 (peakMemoryQuery ns app) = (h4, r4)"
  shows "(\<exists>e. snd (GetResourceBaseline c h ns app) = Inl e) \<longleftrightarrow> list_all isl [r1, r2, r3, r4]"
  using assms
  by (cases r1; cases r2; cases r3; cases r4)
    (simp_all add: GetResourceBaseline_def queryAvgCPU_def queryAvgMemory_def queryPeakCPU_def queryPeakMemory_def
      valueOrEmpty_def formatMemory_def Let_def)

end
