(* ===== verification/EntryPoint.thy ===== *)
theory EntryPoint
  imports ClaudePlanner AIProps Prometheus
begin

text \<open>
  The process entry point as far as it decides anything: the flags and their defaults
  (\<^verbatim>\<open>cmd/config.go\<close>), the namespace the operator runs in (\<^verbatim>\<open>operator_namespace.go\<close>), and the wiring
  of \<^verbatim>\<open>cmd/main.go\<close>: the one deny list, and which model clients are built from flags and
  environment. The parsing of the command line, the manager, the TLS options of the metrics server
  and the order in which the controllers start are not modelled.
\<close>

subsection \<open>Flags (config.go)\<close>

record operatorConfig =
  oc_metricsAddr :: string
  oc_secureMetrics :: bool
  oc_metricsCertPath :: string
  oc_metricsCertName :: string
  oc_metricsCertKey :: string
  oc_probeAddr :: string
  oc_enableLeaderElection :: bool
  oc_enableHTTP2 :: bool
  oc_enableArgoCD :: bool
  oc_prometheusURL :: string
  oc_enableWebSocket :: bool
  oc_webSocketAddr :: string
  oc_enableHealthCheck :: bool
  oc_healthCheckInterval :: duration
  oc_enableMetricsServer :: bool
  oc_safetyExcludedNamespaces :: "string list"
  oc_llmProvider :: string
  oc_llmAPIKey :: string
  oc_llmModel :: string
  oc_enableAIRemediation :: bool
  oc_dorguEventRetention :: duration
  oc_dorguEventMaxRecords :: int
  oc_autoCreateClusterPersona :: bool
  oc_clusterPersonaEnsureInterval :: duration

text \<open>The configuration of a command line without arguments.\<close>

definition defaultConfig :: operatorConfig where
  "defaultConfig =
     \<lparr>oc_metricsAddr = ''0'', oc_secureMetrics = True, oc_metricsCertPath = [], oc_metricsCertName = ''tls.crt'',
      oc_metricsCertKey = ''tls.key'', oc_probeAddr = '':8081'', oc_enableLeaderElection = False,
      oc_enableHTTP2 = False, oc_enableArgoCD = True, oc_prometheusURL = [], oc_enableWebSocket = False,
      oc_webSocketAddr = '':9090'', oc_enableHealthCheck = True, oc_healthCheckInterval = 60 * second,
      oc_enableMetricsServer = True, oc_safetyExcludedNamespaces = [], oc_llmProvider = [], oc_llmAPIKey = [],
      oc_llmModel = [], oc_enableAIRemediation = True, oc_dorguEventRetention = DefaultTTL,
      oc_dorguEventMaxRecords = 2000, oc_autoCreateClusterPersona = True,
      oc_clusterPersonaEnsureInterval = 2 * minute\<rparr>"

definition splitNamespaces :: "string \<Rightarrow> string list" where
  "splitNamespaces list' = filter (\<lambda>ns. ns \<noteq> []) (map trimSpace (splitAt (CHR '','') [] list'))"

text \<open>The flag of the excluded namespaces is the one whose text is worked on.\<close>

definition withExcludedNamespaces :: "string \<Rightarrow> operatorConfig \<Rightarrow> operatorConfig" where
  "withExcludedNamespaces excludedNamespaces cfg =
     cfg\<lparr>oc_safetyExcludedNamespaces := splitNamespaces excludedNamespaces\<rparr>"

subsection \<open>Environment\<close>

text \<open>The variables, an unset one being empty, and the file of the service account, if it can be read.\<close>

record environment =
  env_var :: "string \<Rightarrow> string"
  env_namespaceFile :: "string option"

definition OperatorNamespace :: "environment \<Rightarrow> string" where
  "OperatorNamespace env =
     (let ns = trimSpace (env_var env ''POD_NAMESPACE'') in
      if ns \<noteq> [] then ns
      else (case env_namespaceFile env of None \<Rightarrow> [] | Some contents \<Rightarrow> trimSpace contents))"

subsection \<open>Wiring (main.go)\<close>

definition deniedByFlags :: "environment \<Rightarrow> operatorConfig \<Rightarrow> string list list" where
  "deniedByFlags env cfg = [[OperatorNamespace env], oc_safetyExcludedNamespaces cfg]"

definition mainSafetyChecker ::
  "environment \<Rightarrow> operatorConfig \<Rightarrow> ('w \<Rightarrow> goerr + ClusterPersona list) \<Rightarrow>
   ('w \<Rightarrow> (string \<times> string) list \<Rightarrow> string option \<Rightarrow> goerr + RemediationAction list) \<Rightarrow>
   (string \<Rightarrow> Quantity option) \<Rightarrow> 'w SafetyCheckerImpl" where
  "mainSafetyChecker env cfg listPersonas listActions parse =
     NewSafetyChecker listPersonas listActions parse (map WithProtectedNamespaces (deniedByFlags env cfg))"

definition llmKey :: "environment \<Rightarrow> operatorConfig \<Rightarrow> string" where
  "llmKey env cfg =
     (if oc_llmAPIKey cfg \<noteq> [] then oc_llmAPIKey cfg
      else if oc_llmProvider cfg = ''claude'' then env_var env ''ANTHROPIC_API_KEY''
      else if oc_llmProvider cfg = ''gemini'' then env_var env ''GEMINI_API_KEY''
      else [])"

text \<open>The client of the AI diagnosis and the planner; both come from the same key.\<close>

definition mainLLMClient :: "'h Transport \<Rightarrow> environment \<Rightarrow> operatorConfig \<Rightarrow> 'h LlmClient option" where
  "mainLLMClient httpClient env cfg =
     (if oc_llmProvider cfg = [] \<or> llmKey env cfg = [] then None
      else (case NewClient httpClient (oc_llmProvider cfg) (llmKey env cfg) of
              Inl _ \<Rightarrow> None
            | Inr client \<Rightarrow>
                Some (if oc_llmModel cfg \<noteq> [] then SetModelOf (oc_llmModel cfg) client else client)))"

definition mainPlanner :: "'h Transport \<Rightarrow> environment \<Rightarrow> operatorConfig \<Rightarrow> 'h ClaudePlanner option" where
  "mainPlanner httpClient env cfg =
     (if oc_llmProvider cfg = [] \<or> llmKey env cfg = [] \<or> \<not> (oc_enableAIRemediation cfg \<and> oc_llmProvider cfg = ''claude'')
      then None
      else (case NewClaudePlanner httpClient (llmKey env cfg) of
              Inl _ \<Rightarrow> None | Inr p \<Rightarrow> Some (SetModel (oc_llmModel cfg) p)))"

text \<open>The providers of the diagnosis engine, the second one gated by the deny list.\<close>

definition mainProviders ::
  "'h Transport \<Rightarrow> environment \<Rightarrow> operatorConfig \<Rightarrow> 'w SafetyCheckerImpl \<Rightarrow> time \<Rightarrow> 'w \<Rightarrow> 'h \<Rightarrow> DiagnosisProvider list" where
  "mainProviders httpClient env cfg checker now w h =
     (case mainLLMClient httpClient env cfg of
        None \<Rightarrow> [\<lparr>dp_name = ''rule-based'', dp_diagnose = RuleBased_Diagnose now\<rparr>]
      | Some client \<Rightarrow> aiEngine (NewAIProvider client (Some (NamespaceProtected (Some checker) w))) now h)"

subsection \<open>Laws\<close>

lemma splitAt_part: "sep \<notin> set part \<Longrightarrow> splitAt sep cur (part @ sep # s) = (rev cur @ part) # splitAt sep [] s"
  by (induction part arbitrary: cur) auto

lemma splitAt_last: "sep \<notin> set part \<Longrightarrow> splitAt sep cur part = [rev cur @ part]"
  by (induction part arbitrary: cur) auto

lemma splitAt_join:
  "list_all (\<lambda>part. sep \<notin> set part) parts \<Longrightarrow> parts \<noteq> [] \<Longrightarrow> splitAt sep [] (joinWith [sep] parts) = parts"
  by (induction "[sep]" parts rule: joinWith.induct) (simp_all add: splitAt_part splitAt_last)

lemma splitNamespaces_join:
  "list_all (\<lambda>part. CHR '','' \<notin> set part) parts \<Longrightarrow>
     splitNamespaces (joinWith '','' parts) = filter (\<lambda>ns. ns \<noteq> []) (map trimSpace parts)"
  by (cases "parts = []") (simp_all add: splitNamespaces_def splitAt_join trimSpace_def)

text \<open>
  What the flag and the environment name is protected. For every list of namespaces given to the
  flag of excluded namespaces, with blanks around them or empty ones among them, kube-system, the
  namespace of the operator and each of the listed ones is refused by the checker the process builds,
  in every state of the cluster, and no diagnosis that mentions it is cleared for a model.
\<close>

theorem flag_namespaces_protected:
  assumes "list_all (\<lambda>part. CHR '','' \<notin> set part) parts"
    and "ns \<in> {''kube-system'', OperatorNamespace env} \<union> trimSpace ` set parts"
    and "cfg = withExcludedNamespaces (joinWith '','' parts) cfg0"
    and "checker = mainSafetyChecker env cfg lcp lra pq"
  shows "NamespaceProtected (Some checker) w ns \<and>
    (\<forall>d \<in> set (clearedBy (Some (NamespaceProtected (Some checker) w)) ds). ns \<notin> set (diagnosisNamespaces d))"
proof
  have flags: "deniedByFlags env cfg = [[OperatorNamespace env], filter (\<lambda>ns. ns \<noteq> []) (map trimSpace parts)]"
    using assms(1,3) by (simp add: deniedByFlags_def withExcludedNamespaces_def splitNamespaces_join)
  show prot: "NamespaceProtected (Some checker) w ns"
  proof (cases "ns = []")
    case True
    then show ?thesis by (simp add: NamespaceProtected_def NamespaceDenied_def)
  next
    case False
    have "NamespaceProtected (Some (NewSafetyChecker lcp lra pq (map WithProtectedNamespaces (deniedByFlags env cfg)))) w ns"
      by (rule options_refuse) (use assms(2) False flags in auto)
    then show ?thesis unfolding assms(4) mainSafetyChecker_def .
  qed
  show "\<forall>d \<in> set (clearedBy (Some (NamespaceProtected (Some checker) w)) ds). ns \<notin> set (diagnosisNamespaces d)"
    using prot gate_clears_namespaces [of "NamespaceProtected (Some checker) w"] by (auto simp: clearedBy_def)
qed

text \<open>
  Models are used as configured. A model client is built exactly if the provider is one of the two
  known ones and a key is found for it, a planner exactly if the provider is Anthropic, a key is found
  and planning is enabled; the client has the provider and the key of the configuration.
\<close>

theorem models_as_configured:
  "(mainLLMClient t env cfg \<noteq> None \<longleftrightarrow>
      oc_llmProvider cfg \<in> {providerClaude, providerGemini} \<and> llmKey env cfg \<noteq> []) \<and>
   (mainPlanner t env cfg \<noteq> None \<longleftrightarrow>
      oc_llmProvider cfg = providerClaude \<and> llmKey env cfg \<noteq> [] \<and> oc_enableAIRemediation cfg) \<and>
   pred_option (\<lambda>client. Provider client = oc_llmProvider cfg \<and> llm_key client = llmKey env cfg)
     (mainLLMClient t env cfg)"
  by (auto simp: mainLLMClient_def mainPlanner_def NewClient_def NewClaudePlanner_def)

end
