(* ===== verification/UsageProps.thy ===== *)
theory UsageProps
  imports UsageCollectors
begin

text \<open>
  What the usage collector sees: its threshold is exact although it divides in double precision,
  and one failed probe blinds it for the rest of the process.
\<close>

subsection \<open>The threshold\<close>

text \<open>
  A quotient of amounts that doubles hold exactly reaches nine tenths in double precision only if
  it does in the rationals, as long as the limit has at most 48 bits: a smaller quotient is
  further from nine tenths than two roundings can bridge.
\<close>

lemma threshold_exact:
  assumes l: "0 < l" "l < 2 ^ 48" and u: "0 \<le> u" "u \<le> 2 ^ 53"
  shows "defaultUsageThreshold \<le> fdiv (fl64 (of_int u)) (fl64 (of_int l)) \<longleftrightarrow> 9 * l \<le> 10 * u"
proof -
  have fl: "fl64 (of_int l) = of_int l" "fl64 (of_int u) = of_int u"
    using l u by (auto intro!: fl64_of_int)
  have lr: "(0 :: rat) < of_int l" using l by simp
  let ?q = "of_int u / of_int l :: rat" and ?t = "9 / 10 :: rat"
  have le: "?t \<le> ?q \<longleftrightarrow> 9 * l \<le> 10 * u"
  proof -
    have "?t \<le> ?q \<longleftrightarrow> of_int (9 * l) \<le> (of_int (10 * u) :: rat)" using lr by (simp add: field_simps)
    then show ?thesis by (simp only: of_int_le_iff)
  qed
  have t: "defaultUsageThreshold = fl64 ?t" by (simp add: defaultUsageThreshold_def)
  show ?thesis
  proof (cases "?t \<le> ?q")
    case True
    then show ?thesis using le fl64_mono [of ?t ?q] by (simp add: t fl fdiv_def)
  next
    case False
    then have small: "10 * u + 1 \<le> 9 * l" using le by linarith
    have "of_int (10 * u + 1) \<le> (of_int (9 * l) :: rat)" using small by (simp only: of_int_le_iff)
    then have gap: "?q \<le> ?t - 1 / (10 * of_int l)" using lr by (simp add: field_simps)
    have "(of_int l :: rat) < 2 ^ 48" using l(2) by (metis of_int_less_iff of_int_numeral of_int_power)
    then have wide: "1 / (10 * 2 ^ 48) < (1 :: rat) / (10 * of_int l)" using lr by (intro divide_strict_left_mono) auto
    have "fl64 ?q < fl64 ?t"
    proof (cases "u = 0")
      case True
      then show ?thesis using fl64_ge_powi [of ?t "- 1"] by (simp add: fl64_def [of 0])
    next
      case False
      then have q: "0 < ?q" using u lr by simp
      have "\<bar>fl64 ?q - ?q\<bar> \<le> ?q / 2 ^ 53" "\<bar>fl64 ?t - ?t\<bar> \<le> ?t / 2 ^ 53"
        using fl64_error [OF q] fl64_error [of ?t] by simp_all
      moreover have "?q \<le> 1" using gap lr by (simp add: field_simps)
      then have "?q / 2 ^ 53 \<le> 1 / 2 ^ 53" by (intro divide_right_mono) simp_all
      moreover have "1 / 2 ^ 53 + ?t / 2 ^ 53 < 1 / (10 * 2 ^ 48)" by simp
      ultimately show ?thesis using gap wide by linarith
    qed
    then show ?thesis using le \<open>\<not> ?t \<le> ?q\<close> by (simp add: t fl fdiv_def)
  qed
qed

lemma usageSignal_fields:
  "usageSignal th pm pod now ty word key cm used avail usage limit = Some s \<Longrightarrow>
     sg_type s = ty \<and> rr_name (sg_resource s) = pmx_name pm \<and> rr_namespace (sg_resource s) = pmx_namespace pm \<and>
     getStr (sg_metadata s) ''container'' = cmx_name cm"
  by (auto simp: usageSignal_def Let_def getStr_def split: if_splits)

lemma usageSignal_fires:
  assumes "0 < avail" "avail < 2 ^ 48" "0 \<le> used" "used \<le> 2 ^ 53"
  shows "usageSignal defaultUsageThreshold pm pod now ty word key cm used avail usage limit \<noteq> None \<longleftrightarrow>
    9 * avail \<le> 10 * used"
  using threshold_exact [OF assms] by (simp add: usageSignal_def Let_def)

text \<open>The amount of a resource as the collector reads it, and a container that uses nine tenths of its limit.\<close>

definition amountOf :: "string \<Rightarrow> Quantity \<Rightarrow> int" where
  "amountOf key q = (if key = ''cpu'' then q_milliValue q else q_value q)"

definition usageType :: "string \<Rightarrow> string" where
  "usageType key = (if key = ''cpu'' then SignalCPUUsageHigh else SignalMemoryUsageHigh)"

definition near_limit :: "string \<Rightarrow> ContainerMetrics \<Rightarrow> (string \<times> Quantity) list \<Rightarrow> bool" where
  "near_limit key cm limits \<longleftrightarrow>
     (case map_of limits key of
        None \<Rightarrow> False
      | Some limit \<Rightarrow> 0 < amountOf key limit \<and>
          9 * amountOf key limit \<le> 10 * amountOf key (resourceOf (cmx_usage cm) key))"

text \<open>Amounts no cluster exceeds: limits under 256 TiB or 256 billion cores, usage under 8 PiB.\<close>

definition sane_amounts :: "ContainerMetrics \<Rightarrow> (string \<times> Quantity) list \<Rightarrow> bool" where
  "sane_amounts cm limits \<longleftrightarrow>
     (\<forall>key \<in> {''cpu'', ''memory''}.
        amountOf key (resourceOf limits key) < 2 ^ 48 \<and>
        0 \<le> amountOf key (resourceOf (cmx_usage cm) key) \<and>
        amountOf key (resourceOf (cmx_usage cm) key) \<le> 2 ^ 53)"

definition signal_of :: "PodMetrics \<Rightarrow> string \<Rightarrow> string \<Rightarrow> Signal \<Rightarrow> bool" where
  "signal_of pm container ty s \<longleftrightarrow>
     sg_type s = ty \<and> rr_name (sg_resource s) = pmx_name pm \<and> rr_namespace (sg_resource s) = pmx_namespace pm \<and>
     getStr (sg_metadata s) ''container'' = container"

lemma checkContainerUsage_signals:
  assumes "sane_amounts cm limits" and key: "key \<in> {''cpu'', ''memory''}"
  shows "(\<exists>s \<in> set (checkContainerUsage defaultUsageThreshold pm pod now cm limits).
            sg_type s = usageType key) \<longleftrightarrow> near_limit key cm limits"
proof -
  have sane: "amountOf k (resourceOf limits k) < 2 ^ 48" "0 \<le> amountOf k (resourceOf (cmx_usage cm) k)"
    "amountOf k (resourceOf (cmx_usage cm) k) \<le> 2 ^ 53" if "k \<in> {''cpu'', ''memory''}" for k
    using assms(1) that by (auto simp: sane_amounts_def)
  define fired where "fired ty word k limit = usageSignal defaultUsageThreshold pm pod now ty word k cm
      (amountOf k (resourceOf (cmx_usage cm) k)) (amountOf k limit) (resourceOf (cmx_usage cm) k) limit" for ty word k limit
  have signals: "s \<in> set (checkContainerUsage defaultUsageThreshold pm pod now cm limits) \<longleftrightarrow>
      (\<exists>limit. map_of limits ''cpu'' = Some limit \<and> 0 < amountOf ''cpu'' limit \<and>
         fired SignalCPUUsageHigh ''CPU'' ''cpu'' limit = Some s) \<or>
      (\<exists>limit. map_of limits ''memory'' = Some limit \<and> 0 < amountOf ''memory'' limit \<and>
         fired SignalMemoryUsageHigh ''memory'' ''memory'' limit = Some s)" for s
    by (auto simp: checkContainerUsage_def fired_def amountOf_def Let_def split: option.splits if_splits)
  have types: "fired ty word k limit = Some s \<Longrightarrow> sg_type s = ty" for ty word k limit s
    unfolding fired_def using usageSignal_fields by blast
  have fires: "(\<exists>s. fired ty word k limit = Some s) \<longleftrightarrow> 9 * amountOf k limit \<le> 10 * amountOf k (resourceOf (cmx_usage cm) k)"
    if "k \<in> {''cpu'', ''memory''}" "map_of limits k = Some limit" "0 < amountOf k limit" for ty word k limit
    using usageSignal_fires [of "amountOf k limit" "amountOf k (resourceOf (cmx_usage cm) k)" pm pod now] sane [OF that(1)] that
    unfolding fired_def by (simp add: resourceOf_def)
  have "(\<exists>s \<in> set (checkContainerUsage defaultUsageThreshold pm pod now cm limits). sg_type s = usageType key) \<longleftrightarrow>
      (\<exists>limit. map_of limits key = Some limit \<and> 0 < amountOf key limit \<and>
         (\<exists>s. fired (usageType key) (if key = ''cpu'' then ''CPU'' else ''memory'') key limit = Some s))"
    using key unfolding Bex_def signals by (auto simp: usageType_def dest: types)
  also have "\<dots> \<longleftrightarrow> near_limit key cm limits"
    using fires [OF key] by (auto simp: near_limit_def split: option.splits)
  finally show ?thesis .
qed

text \<open>A map built by a loop over objects with distinct keys holds exactly these objects.\<close>

lemma map_of_fold_update:
  assumes "distinct (map f xs)" "\<And>x. x \<in> set xs \<Longrightarrow> map_of al (f x) = None"
  shows "map_of (fold (\<lambda>x. AList.update (f x) (g x)) xs al) k = Some v \<longleftrightarrow>
    (\<exists>x \<in> set xs. f x = k \<and> g x = v) \<or> map_of al k = Some v"
  using assms
proof (induction xs arbitrary: al)
  case (Cons x xs)
  have "map_of (fold (\<lambda>x. AList.update (f x) (g x)) xs (AList.update (f x) (g x) al)) k = Some v \<longleftrightarrow>
      (\<exists>y \<in> set xs. f y = k \<and> g y = v) \<or> map_of (AList.update (f x) (g x) al) k = Some v"
    by (rule Cons.IH) (use Cons.prems in \<open>auto simp: update_conv' image_iff\<close>)
  then show ?case using Cons.prems(2) [of x] by (auto simp: update_conv')
qed simp

lemma containerLimits_iff:
  "distinct (map ct_name (po_containers pod)) \<Longrightarrow>
     map_of (containerLimits pod) c = Some limits \<longleftrightarrow> (\<exists>ct \<in> set (po_containers pod). ct_name ct = c \<and> ct_limits ct = limits)"
  using map_of_fold_update [of ct_name "po_containers pod" "[]" ct_limits c limits] by (simp add: containerLimits_def)

lemma set_case_option [simp]: "x \<in> set (case m of None \<Rightarrow> [] | Some y \<Rightarrow> f y) \<longleftrightarrow> (\<exists>y. m = Some y \<and> x \<in> set (f y))"
  by (cases m) simp_all

lemma set_checkPodMetrics:
  "s \<in> set (checkPodMetrics th pm specs now) \<longleftrightarrow>
     (\<exists>p. map_of specs (pmx_namespace pm, pmx_name pm) = Some p \<and>
        (\<exists>cm \<in> set (pmx_containers pm). \<exists>limits. map_of (containerLimits p) (cmx_name cm) = Some limits \<and>
           s \<in> set (checkContainerUsage th pm p now cm limits)))"
  by (cases "map_of specs (pmx_namespace pm, pmx_name pm)")
    (force simp: checkPodMetrics_def split: option.splits simp del: set_case_option)+

lemma signal_of_check:
  "s \<in> set (checkContainerUsage th pm pod now cm limits) \<Longrightarrow> signal_of pm (cmx_name cm) (sg_type s) s"
  by (auto simp: checkContainerUsage_def signal_of_def Let_def dest: usageSignal_fields split: option.splits if_splits)

text \<open>A collection, traced back to the listed pods and their containers.\<close>

lemma Collect_signals_iff:
  assumes "mtc_usageThreshold m = defaultUsageThreshold" "mtc_available m" "probeAvailability m w"
    and "mtc_listPodMetrics m w = Inr items" "mtc_listPods m w = Inr pods"
    and "distinct (map (\<lambda>p. (po_namespace p, po_name p)) pods)"
    and "\<And>p. p \<in> set pods \<Longrightarrow> distinct (map ct_name (po_containers p))"
  shows "s \<in> set (snd (MetricsCollector_Collect m now w)) \<longleftrightarrow>
    (\<exists>pm \<in> set items. \<exists>cm \<in> set (pmx_containers pm). \<exists>p \<in> set pods. \<exists>c \<in> set (po_containers p).
       po_namespace p = pmx_namespace pm \<and> po_name p = pmx_name pm \<and> ct_name c = cmx_name cm \<and>
       s \<in> set (checkContainerUsage defaultUsageThreshold pm p now cm (ct_limits c)))"
proof -
  define specs where "specs = fold (\<lambda>pod. AList.update (po_namespace pod, po_name pod) pod) pods []"
  have spec: "map_of specs k = Some p \<longleftrightarrow> p \<in> set pods \<and> (po_namespace p, po_name p) = k" for k p
    unfolding specs_def using map_of_fold_update [OF assms(6), of "[]" "\<lambda>p. p" k p] by auto
  have "s \<in> set (snd (MetricsCollector_Collect m now w)) \<longleftrightarrow>
      (\<exists>pm \<in> set items. s \<in> set (checkPodMetrics defaultUsageThreshold pm specs now))"
    using assms(1-5) by (simp add: MetricsCollector_Collect_def getPodSpecs_def specs_def)
  also have "\<dots> \<longleftrightarrow> (\<exists>pm \<in> set items. \<exists>cm \<in> set (pmx_containers pm). \<exists>p \<in> set pods. \<exists>c \<in> set (po_containers p).
       po_namespace p = pmx_namespace pm \<and> po_name p = pmx_name pm \<and> ct_name c = cmx_name cm \<and>
       s \<in> set (checkContainerUsage defaultUsageThreshold pm p now cm (ct_limits c)))"
  proof (intro bex_cong refl)
    fix pm
    have "s \<in> set (checkPodMetrics defaultUsageThreshold pm specs now) \<longleftrightarrow>
        (\<exists>p \<in> set pods. po_namespace p = pmx_namespace pm \<and> po_name p = pmx_name pm \<and>
           (\<exists>cm \<in> set (pmx_containers pm). \<exists>limits. map_of (containerLimits p) (cmx_name cm) = Some limits \<and>
              s \<in> set (checkContainerUsage defaultUsageThreshold pm p now cm limits)))"
      by (simp add: set_checkPodMetrics spec) blast
    also have "\<dots> \<longleftrightarrow>
        (\<exists>p \<in> set pods. po_namespace p = pmx_namespace pm \<and> po_name p = pmx_name pm \<and>
           (\<exists>cm \<in> set (pmx_containers pm). \<exists>c \<in> set (po_containers p). ct_name c = cmx_name cm \<and>
              s \<in> set (checkContainerUsage defaultUsageThreshold pm p now cm (ct_limits c))))"
      by (intro bex_cong conj_cong refl) (auto simp: containerLimits_iff [OF assms(7)])
    finally show "s \<in> set (checkPodMetrics defaultUsageThreshold pm specs now) \<longleftrightarrow>
        (\<exists>cm \<in> set (pmx_containers pm). \<exists>p \<in> set pods. \<exists>c \<in> set (po_containers p).
           po_namespace p = pmx_namespace pm \<and> po_name p = pmx_name pm \<and> ct_name c = cmx_name cm \<and>
           s \<in> set (checkContainerUsage defaultUsageThreshold pm p now cm (ct_limits c)))"
      by blast
  qed
  finally show ?thesis .
qed

text \<open>
  C21. The usage collector reports exactly the containers that use nine tenths of a limit. While
  metrics-server answers, a collection holds a CPU or memory signal for a container exactly if the
  metrics name a listed pod and one of its containers, that container has a limit of that resource,
  and ten times the reported usage is at least nine times the limit: the division in double
  precision loses nothing for limits below \<open>2\<^sup>4\<^sup>8\<close>.
\<close>

theorem usage_signals_exact:
  assumes "mtc_usageThreshold m = defaultUsageThreshold" "mtc_available m" "probeAvailability m w"
    and "mtc_listPodMetrics m w = Inr items" "mtc_listPods m w = Inr pods"
    and "distinct (map (\<lambda>p. (po_namespace p, po_name p)) pods)"
    and "\<And>p. p \<in> set pods \<Longrightarrow> distinct (map ct_name (po_containers p))"
    and "\<And>p c pm cm. p \<in> set pods \<Longrightarrow> c \<in> set (po_containers p) \<Longrightarrow> pm \<in> set items \<Longrightarrow>
           cm \<in> set (pmx_containers pm) \<Longrightarrow> sane_amounts cm (ct_limits c)"
    and "key \<in> {''cpu'', ''memory''}"
  shows "(\<exists>s \<in> set (snd (MetricsCollector_Collect m now w)).
      sg_type s = usageType key \<and> rr_namespace (sg_resource s) = ns \<and> rr_name (sg_resource s) = name \<and>
      getStr (sg_metadata s) ''container'' = container) \<longleftrightarrow>
    (\<exists>p \<in> set pods. \<exists>c \<in> set (po_containers p). \<exists>pm \<in> set items. \<exists>cm \<in> set (pmx_containers pm).
      po_namespace p = ns \<and> po_name p = name \<and> pmx_namespace pm = ns \<and> pmx_name pm = name \<and>
      ct_name c = container \<and> cmx_name cm = container \<and> near_limit key cm (ct_limits c))"
proof -
  have collected: "s \<in> set (snd (MetricsCollector_Collect m now w)) \<longleftrightarrow>
    (\<exists>pm \<in> set items. \<exists>cm \<in> set (pmx_containers pm). \<exists>p \<in> set pods. \<exists>c \<in> set (po_containers p).
       po_namespace p = pmx_namespace pm \<and> po_name p = pmx_name pm \<and> ct_name c = cmx_name cm \<and>
       s \<in> set (checkContainerUsage defaultUsageThreshold pm p now cm (ct_limits c)))" for s
    by (rule Collect_signals_iff [OF assms(1-6)]) (rule assms(7))
  have at: "s \<in> set (checkContainerUsage defaultUsageThreshold pm p now cm limits) \<Longrightarrow>
      rr_namespace (sg_resource s) = pmx_namespace pm \<and> rr_name (sg_resource s) = pmx_name pm \<and>
      getStr (sg_metadata s) ''container'' = cmx_name cm" for s pm p cm limits
    using signal_of_check unfolding signal_of_def by blast
  have fired: "(\<exists>s \<in> set (checkContainerUsage defaultUsageThreshold pm p now cm (ct_limits c)). sg_type s = usageType key) \<longleftrightarrow>
      near_limit key cm (ct_limits c)"
    if "p \<in> set pods" "c \<in> set (po_containers p)" "pm \<in> set items" "cm \<in> set (pmx_containers pm)" for p c pm cm
    using checkContainerUsage_signals [OF assms(8) [OF that] assms(9)] .
  show ?thesis (is "?L \<longleftrightarrow> ?R")
  proof
    assume ?L
    then obtain s where s: "s \<in> set (snd (MetricsCollector_Collect m now w))" "sg_type s = usageType key"
      "rr_namespace (sg_resource s) = ns" "rr_name (sg_resource s) = name"
      "getStr (sg_metadata s) ''container'' = container" by blast
    from collected [THEN iffD1, OF s(1)]
    obtain pm cm p c where h: "pm \<in> set items" "cm \<in> set (pmx_containers pm)" "p \<in> set pods"
      "c \<in> set (po_containers p)" "po_namespace p = pmx_namespace pm" "po_name p = pmx_name pm" "ct_name c = cmx_name cm"
      "s \<in> set (checkContainerUsage defaultUsageThreshold pm p now cm (ct_limits c))" by (elim bexE conjE) rule
    then have "near_limit key cm (ct_limits c)" using fired s(2) by blast
    with h s at [OF h(8)] show ?R by metis
  next
    assume ?R
    then obtain p c pm cm where h: "p \<in> set pods" "c \<in> set (po_containers p)" "pm \<in> set items"
      "cm \<in> set (pmx_containers pm)" "po_namespace p = ns" "po_name p = name" "pmx_namespace pm = ns" "pmx_name pm = name"
      "ct_name c = container" "cmx_name cm = container" "near_limit key cm (ct_limits c)" by blast
    then obtain s where s: "s \<in> set (checkContainerUsage defaultUsageThreshold pm p now cm (ct_limits c))"
      "sg_type s = usageType key" using fired [of p c pm cm] by blast
    then have "s \<in> set (snd (MetricsCollector_Collect m now w))" using collected h by metis
    moreover have "rr_namespace (sg_resource s) = ns \<and> rr_name (sg_resource s) = name \<and>
        getStr (sg_metadata s) ''container'' = container" using at [OF s(1)] by (simp only: h(5-10))
    ultimately show ?L using s(2) by (intro bexI [of _ s]) simp_all
  qed
qed

subsection \<open>Availability\<close>

lemma Collect_frame:
  "mtc_serverGroups (fst (MetricsCollector_Collect m now w)) = mtc_serverGroups m"
  by (simp add: MetricsCollector_Collect_def split: sum.split)

lemma unavailable_collections:
  "\<not> mtc_available m \<Longrightarrow> collections m cycles = replicate (length cycles) []"
  by (induction m cycles rule: collections.induct) (simp_all add: MetricsCollector_Collect_def)

lemma probe_cong: "mtc_serverGroups a = mtc_serverGroups b \<Longrightarrow> probeAvailability a w = probeAvailability b w"
  by (simp add: probeAvailability_def)

text \<open>
  One failed probe switches usage detection off for good. Whatever was collected before, once the
  probe of a cycle fails, that cycle and every later one of the process yield no signal, also when
  metrics-server answers again: the flag is tested before the probe that could set it.
\<close>

theorem metrics_collector_never_recovers:
  assumes "\<not> probeAvailability m w"
  shows "drop (length before') (collections m (before' @ (now, w) # later)) = replicate (Suc (length later)) []"
  using assms
proof (induction before' arbitrary: m)
  case Nil
  define m1 where "m1 = fst (MetricsCollector_Collect m now w)"
  have "MetricsCollector_Collect m now w = (m1, []) \<and> \<not> mtc_available m1"
    using Nil by (simp add: m1_def MetricsCollector_Collect_def)
  then show ?case by (simp add: unavailable_collections)
next
  case (Cons c cs)
  obtain m1 sigs where m1: "MetricsCollector_Collect m (fst c) (snd c) = (m1, sigs)" by (rule prod.exhaust)
  then have "mtc_serverGroups m1 = mtc_serverGroups m" using Collect_frame [of m "fst c" "snd c"] by simp
  then have "\<not> probeAvailability m1 w" using Cons.prems by (simp only: probe_cong [of m1 m] not_False_eq_True)
  then have "drop (length cs) (collections m1 (cs @ (now, w) # later)) = replicate (Suc (length later)) []"
    by (rule Cons.IH)
  moreover have "collections m ((c # cs) @ (now, w) # later) = sigs # collections m1 (cs @ (now, w) # later)"
    using m1 collections.simps(2) [of m "fst c" "snd c" "cs @ (now, w) # later"]
    by (simp only: append_Cons prod.collapse prod.case)
  ultimately show ?case by (simp only: list.size(4) add_Suc_right add_0_right drop_Suc_Cons)
qed

end
