(* ===== verification/PlannerProps.thy ===== *)
theory PlannerProps
  imports ClaudePlanner AIProps
begin

text \<open>
  What the planner asks the network for and what it makes of the answer: one request, sent at most
  twice, a plan that is the decoded input of the forced tool, the two encodings of a patch that mean
  the same, and the error text that, unlike those of the enhancing clients, is not redacted.
\<close>

subsection \<open>The request and the reply\<close>

definition plannerURL :: "'h ClaudePlanner \<Rightarrow> string" where
  "plannerURL c = (if cpn_baseURL c = [] then claudeAPIURL else cpn_baseURL c)"

definition plannerRequest :: "'h ClaudePlanner \<Rightarrow> RemediationContext \<Rightarrow> HttpRequest" where
  "plannerRequest c rc =
     \<lparr>hq_url = plannerURL c,
      hq_headers = [(''Content-Type'', ''application/json''), (''x-api-key'', cpn_apiKey c),
                    (''anthropic-version'', anthropicVersion)],
      hq_body = planRequest c rc\<rparr>"

definition planSend :: "'h ClaudePlanner \<Rightarrow> RemediationContext \<Rightarrow> 'h \<Rightarrow> 'h \<times> (goerr + HttpResponse)" where
  "planSend c rc h = ht_do (cpn_client c) h (plannerRequest c rc)"

text \<open>The plan of a response: the input of the first block that uses the plan tool, decoded.\<close>

definition tool_plan :: "'h Transport \<Rightarrow> HttpResponse \<Rightarrow> RemediationPlan \<Rightarrow> bool" where
  "tool_plan t resp plan \<longleftrightarrow>
     hp_status resp = 200 \<and>
     (\<exists>body v content block input. hp_body resp = Inr body \<and> ht_parse t body = Some v \<and>
        claudeResponse v = Some content \<and>
        List.find (\<lambda>b. ctn_type b = ''tool_use'' \<and> ctn_name b = planToolName) content = Some block \<and>
        ctn_input block = RawJson input \<and> rawPlan (ht_parse t) input = Some plan)"

lemma unmarshal_Inr:
  "unmarshal err target dec r = Inr x \<longleftrightarrow> (\<exists>v. r = RawJson v \<and> dec v = Some x)"
  by (auto simp: unmarshal_def split: option.splits raw.splits)

lemma rawOf_RawJson: "rawOf parse body = RawJson v \<longleftrightarrow> parse body = Some v"
  by (auto simp: rawOf_def split: option.splits)

lemma extractPlan_Inr:
  "extractPlan t content = Inr plan \<longleftrightarrow>
     (\<exists>block input. List.find (\<lambda>b. ctn_type b = ''tool_use'' \<and> ctn_name b = planToolName) content = Some block \<and>
        ctn_input block = RawJson input \<and> rawPlan (ht_parse t) input = Some plan)"
proof -
  have keep: "(case r of Inl e \<Rightarrow> Inl (f e) | Inr x \<Rightarrow> Inr x) = Inr plan \<longleftrightarrow> r = Inr plan"
    for r :: "goerr + RemediationPlan" and f :: "goerr \<Rightarrow> goerr"
    by (cases r) simp_all
  show ?thesis unfolding extractPlan_def by (simp add: keep unmarshal_Inr split: option.split)
qed

text \<open>One call: the request is sent at most once, and a plan is the plan of the response.\<close>

lemma callOnce_sends:
  "callOnce c h (planRequest c rc) = (h1, res) \<Longrightarrow>
     (h1 = h \<and> (\<exists>e. res = CallErr e)) \<or> h1 = fst (ht_do (cpn_client c) h (plannerRequest c rc))"
  by (auto simp: callOnce_def plannerRequest_def plannerURL_def Let_def simp del: err_text.simps
      split: option.splits prod.splits sum.splits if_splits)

lemma callOnce_planned:
  "callOnce c h (planRequest c rc) = (h1, Planned plan) \<Longrightarrow>
     \<exists>resp. ht_do (cpn_client c) h (plannerRequest c rc) = (h1, Inr resp) \<and> tool_plan (cpn_client c) resp plan"
  by (auto simp: callOnce_def plannerRequest_def plannerURL_def tool_plan_def Let_def unmarshal_Inr rawOf_RawJson
      extractPlan_Inr simp del: err_text.simps split: option.splits prod.splits sum.splits if_splits)

text \<open>A first reply that does not parse is asked for again, with the same request.\<close>

lemma PlanRemediation_once:
  "callOnce c h (planRequest c rc) = (h1, Planned plan) \<Longrightarrow> PlanRemediation c h rc = (h1, Inr plan)"
  "callOnce c h (planRequest c rc) = (h1, CallErr e) \<Longrightarrow> PlanRemediation c h rc = (h1, Inl e)"
  by (simp_all add: PlanRemediation_def)

lemma PlanRemediation_retry:
  assumes "callOnce c h (planRequest c rc) = (h1, ParseErr e)" "callOnce c h1 (planRequest c rc) = (h2, r2)"
  shows "fst (PlanRemediation c h rc) = h2" "snd (PlanRemediation c h rc) = Inr plan \<longleftrightarrow> r2 = Planned plan"
  using assms by (cases r2, simp_all add: PlanRemediation_def)+

text \<open>
  C20. A plan is the model's own, after at most two equal requests. A call of the planner changes the
  network as sending its one request not, once or twice does. If it returns a plan, the last of these
  sends was answered with status 200 and a body whose first block for the plan tool has an input that
  decodes to exactly this plan; the second send happens only after a reply that did not decode.
\<close>

theorem plan_is_model_reply:
  "(\<exists>n \<le> 2. fst (PlanRemediation c h rc) = ((\<lambda>h. fst (planSend c rc h)) ^^ n) h) \<and>
    (\<forall>plan. snd (PlanRemediation c h rc) = Inr plan \<longrightarrow>
       (\<exists>resp. tool_plan (cpn_client c) resp plan \<and>
          (planSend c rc h = (fst (PlanRemediation c h rc), Inr resp) \<or>
           ((\<exists>e. snd (callOnce c h (planRequest c rc)) = ParseErr e) \<and>
            planSend c rc (fst (planSend c rc h)) = (fst (PlanRemediation c h rc), Inr resp)))))"
proof -
  obtain h1 r1 where one: "callOnce c h (planRequest c rc) = (h1, r1)" by (rule prod.exhaust)
  obtain h2 r2 where two: "callOnce c h1 (planRequest c rc) = (h2, r2)" by (rule prod.exhaust)
  have first: "(h1 = h \<and> (\<exists>e. r1 = CallErr e)) \<or> h1 = fst (planSend c rc h)"
    using callOnce_sends [OF one] unfolding planSend_def .
  have second: "(h2 = h1 \<and> (\<exists>e. r2 = CallErr e)) \<or> h2 = fst (planSend c rc h1)"
    using callOnce_sends [OF two] unfolding planSend_def .
  have pow: "((\<lambda>h. fst (planSend c rc h)) ^^ 0) h = h" "((\<lambda>h. fst (planSend c rc h)) ^^ 1) h = fst (planSend c rc h)"
    "((\<lambda>h. fst (planSend c rc h)) ^^ 2) h = fst (planSend c rc (fst (planSend c rc h)))" by (simp_all add: numeral_2_eq_2)
  show ?thesis
  proof (cases r1)
    case (Planned plan)
    have res: "PlanRemediation c h rc = (h1, Inr plan)" using PlanRemediation_once(1) [OF one [unfolded Planned]] .
    obtain resp where "planSend c rc h = (h1, Inr resp)" "tool_plan (cpn_client c) resp plan"
      using callOnce_planned [OF one [unfolded Planned]] unfolding planSend_def by blast
    then show ?thesis using pow unfolding res by (intro conjI exI [of _ "1 :: nat"]) auto
  next
    case (CallErr e)
    have res: "PlanRemediation c h rc = (h1, Inl e)" using PlanRemediation_once(2) [OF one [unfolded CallErr]] .
    have "\<exists>n \<le> 2. h1 = ((\<lambda>h. fst (planSend c rc h)) ^^ n) h"
      using first pow by (metis one_le_numeral zero_le_numeral)
    then show ?thesis unfolding res by simp
  next
    case (ParseErr e)
    then have h1: "h1 = fst (planSend c rc h)" using first by auto
    have sends: "\<exists>n \<le> 2. h2 = ((\<lambda>h. fst (planSend c rc h)) ^^ n) h"
      using second pow unfolding h1 by (metis one_le_numeral order_refl)
    note retry = PlanRemediation_retry [OF one [unfolded ParseErr] two]
    have retried: "snd (callOnce c h (planRequest c rc)) = ParseErr e" using one ParseErr by simp
    show ?thesis
    proof (intro conjI allI impI)
      show "\<exists>n \<le> 2. fst (PlanRemediation c h rc) = ((\<lambda>h. fst (planSend c rc h)) ^^ n) h" unfolding retry(1) by (rule sends)
      fix plan
      assume "snd (PlanRemediation c h rc) = Inr plan"
      then have "r2 = Planned plan" using retry(2) by blast
      from callOnce_planned [OF two [unfolded this]] obtain resp where
        "planSend c rc (fst (planSend c rc h)) = (h2, Inr resp)" "tool_plan (cpn_client c) resp plan"
        using h1 unfolding planSend_def by auto
      then show "\<exists>resp. tool_plan (cpn_client c) resp plan \<and>
          (planSend c rc h = (fst (PlanRemediation c h rc), Inr resp) \<or>
           ((\<exists>e. snd (callOnce c h (planRequest c rc)) = ParseErr e) \<and>
            planSend c rc (fst (planSend c rc h)) = (fst (PlanRemediation c h rc), Inr resp)))"
        using retried unfolding retry(1) by (intro exI [of _ resp] conjI disjI2) (assumption | rule exI)+
    qed
  qed
qed

subsection \<open>Patches\<close>

definition patch_field :: "string \<times> json \<Rightarrow> bool" where
  "patch_field kv \<longleftrightarrow> toLower (fst kv) = ''patch''"

text \<open>Two steps of a reply that differ only in the values given for the patch.\<close>

definition same_but_patch :: "jmap \<Rightarrow> jmap \<Rightarrow> bool" where
  "same_but_patch m m' \<longleftrightarrow> list_all2 (\<lambda>a b. fst a = fst b \<and> (snd a = snd b \<or> patch_field a)) m m'"

lemma fieldValues_same:
  "same_but_patch m m' \<Longrightarrow> toLower name \<noteq> ''patch'' \<Longrightarrow> fieldValues m' name = fieldValues m name"
  unfolding same_but_patch_def
  by (induction m m' rule: list_all2_induct) (auto simp: fieldValues_def patch_field_def)

lemma decodeField_same:
  "same_but_patch m m' \<Longrightarrow> toLower name \<noteq> ''patch'' \<Longrightarrow> decodeField dec d m' name = decodeField dec d m name"
  by (simp add: decodeField_def fieldValues_same)

lemma patchAt_same:
  "list_all2 (\<lambda>a b. fst a = fst b \<and> (snd a = snd b \<or> planPatch parse (snd a) = planPatch parse (snd b))) m m' \<Longrightarrow>
     patchAt parse m' name = patchAt parse m name"
proof -
  have "fold (\<lambda>v acc. case planPatch parse v of None \<Rightarrow> acc | Some p \<Rightarrow> RawJson p) (fieldValues m' name) r =
      fold (\<lambda>v acc. case planPatch parse v of None \<Rightarrow> acc | Some p \<Rightarrow> RawJson p) (fieldValues m name) r"
    if "list_all2 (\<lambda>a b. fst a = fst b \<and> (snd a = snd b \<or> planPatch parse (snd a) = planPatch parse (snd b))) m m'" for r
    using that by (induction m m' arbitrary: r rule: list_all2_induct) (auto simp: fieldValues_def)
  then show "list_all2 (\<lambda>a b. fst a = fst b \<and> (snd a = snd b \<or> planPatch parse (snd a) = planPatch parse (snd b))) m m' \<Longrightarrow>
     patchAt parse m' name = patchAt parse m name" by (simp add: patchAt_def)
qed

text \<open>
  C33. No patch spoils a plan. Whatever the model gives as the patch of a step, an object, its text, a
  value of another kind or nothing that parses, the step decodes if and only if it does with any other
  patch, and to the same step but for the patch; a patch given as an object and the same patch given as
  its text decode alike.
\<close>

theorem patch_never_spoils_step:
  assumes "same_but_patch m m'"
  shows "rawStep parse (JObj m') =
      map_option (\<lambda>s. s\<lparr>ps_patch := patchAt parse m' ''patch''\<rparr>) (rawStep parse (JObj m)) \<and>
    (parse encoded = Some (JObj patch') \<longrightarrow> encoded \<noteq> [] \<longrightarrow>
       rawStep parse (JObj (m @ [(''patch'', JStr encoded)])) = rawStep parse (JObj (m @ [(''patch'', JObj patch')])))"
proof
  have names: "toLower ''order'' \<noteq> ''patch''" "toLower ''type'' \<noteq> ''patch''" "toLower ''description'' \<noteq> ''patch''"
    "toLower ''rationale'' \<noteq> ''patch''" "toLower ''risk'' \<noteq> ''patch''" "toLower ''command'' \<noteq> ''patch''"
    by code_simp+
  have step: "rawStep parse (JObj b) = map_option (\<lambda>s. s\<lparr>ps_patch := patchAt parse b ''patch''\<rparr>) (rawStep parse (JObj a))"
    if "same_but_patch a b" for a b
    unfolding rawStep_def stringAt_def decodeObject_def json.case bind.bind_lunit
      decodeField_same [OF that names(1)] decodeField_same [OF that names(2)] decodeField_same [OF that names(3)]
      decodeField_same [OF that names(4)] decodeField_same [OF that names(5)] decodeField_same [OF that names(6)]
    by (simp split: bind_split)
  show "rawStep parse (JObj m') = map_option (\<lambda>s. s\<lparr>ps_patch := patchAt parse m' ''patch''\<rparr>) (rawStep parse (JObj m))"
    by (rule step [OF assms])
  show "parse encoded = Some (JObj patch') \<longrightarrow> encoded \<noteq> [] \<longrightarrow>
      rawStep parse (JObj (m @ [(''patch'', JStr encoded)])) = rawStep parse (JObj (m @ [(''patch'', JObj patch')]))"
  proof (intro impI)
    assume h: "parse encoded = Some (JObj patch')" "encoded \<noteq> []"
    let ?a = "m @ [(''patch'', JStr encoded)]" and ?b = "m @ [(''patch'', JObj patch')]"
    have patchKey: "toLower ''patch'' = ''patch''" by code_simp
    have "same_but_patch ?b ?a" "same_but_patch ?b ?b"
      by (auto simp: same_but_patch_def patch_field_def patchKey intro!: list_all2_appendI list.rel_refl_strong)
    note step [OF this(1)] step [OF this(2)]
    moreover have "patchAt parse ?a ''patch'' = patchAt parse ?b ''patch''"
      by (rule patchAt_same) (use h in \<open>auto simp: planPatch_def intro!: list_all2_appendI list.rel_refl_strong\<close>)
    ultimately show "rawStep parse (JObj ?a) = rawStep parse (JObj ?b)" by simp
  qed
qed

subsection \<open>The text of a failed call\<close>

text \<open>
  A rejected call of the planner is reported with the body as it came. If the server answers with
  another status than 200, the error of the planner ends in the whole body, so a body that repeats the
  key of the request puts the key into the error; the clients that enhance diagnoses replace the key
  in the same message.
\<close>

theorem planner_error_repeats_body:
  assumes "ht_checkURL (cpn_client c) (plannerURL c) = None"
    and "planSend c rc h = (h1, Inr resp)" "hp_status resp \<noteq> 200" "hp_body resp = Inr body"
  shows "PlanRemediation c h rc =
      (h1, Inl (Err (''planner: API returned status '' @ showInt (hp_status resp) @ '': '' @ body))) \<and>
    (containsStr body (cpn_apiKey c) \<longrightarrow>
       (\<exists>e. snd (PlanRemediation c h rc) = Inl e \<and> containsStr (err_text e) (cpn_apiKey c)))"
proof -
  have eq: "PlanRemediation c h rc =
      (h1, Inl (Err (''planner: API returned status '' @ showInt (hp_status resp) @ '': '' @ body)))"
    using assms by (simp add: PlanRemediation_def callOnce_def planSend_def plannerRequest_def plannerURL_def Let_def)
  have ends: "containsStr (a @ body) k" if "containsStr body k" for a k
    using that unfolding containsStr_iff by (metis append.assoc)
  show ?thesis
  proof (intro conjI impI exI)
    assume "containsStr body (cpn_apiKey c)"
    from ends [OF this, of "''planner: API returned status '' @ showInt (hp_status resp) @ '': ''"]
    show "containsStr (err_text (Err (''planner: API returned status '' @ showInt (hp_status resp) @ '': '' @ body)))
        (cpn_apiKey c)" by (simp only: err_text.simps append.assoc)
  qed (simp_all only: eq snd_conv)
qed

end
