(* ===== verification/ModelExamples.thy ===== *)
theory ModelExamples
  imports UsageProps PlannerProps Examples
begin

text \<open>
  The properties of the usage collector, the clients of the language models and the planner applied
  to concrete objects: a pod at 95 per cent of its memory limit, a server that echoes the key it was
  sent, and an answer that mentions restarts.
\<close>

subsection \<open>Usage\<close>

definition ex_busy :: Pod where
  "ex_busy = (ex_pod ''True'' (ex_status True None))
     \<lparr>po_containers := [\<lparr>ct_name = ''app'', ct_image = ''web:1'', ct_limits = [(''memory'', ex_bytes ''512Mi'' 536870912)],
        ct_requests = [], ct_livenessProbe = None, ct_readinessProbe = None, ct_securityContext = None\<rparr>]\<rparr>"

definition ex_usage :: PodMetrics where
  "ex_usage = \<lparr>pmx_name = ''web-7d9-x'', pmx_namespace = ''shop'',
     pmx_containers = [\<lparr>cmx_name = ''app'', cmx_usage = [(''memory'', ex_bytes ''510027366'' 510027366)]\<rparr>]\<rparr>"

text \<open>The world is whether metrics-server answers.\<close>

definition ex_metrics :: "bool MetricsCollector" where
  "ex_metrics = NewMetricsCollector (\<lambda>up. if up then Inr [''metrics.k8s.io''] else Inl (Err ''unavailable''))
     (\<lambda>_. Inr [ex_usage]) (\<lambda>_. Inr [ex_busy]) True"

lemma ex_metrics_up:
  "mtc_usageThreshold ex_metrics = defaultUsageThreshold" "mtc_available ex_metrics"
  "probeAvailability ex_metrics up = up" "mtc_listPodMetrics ex_metrics up = Inr [ex_usage]"
  "mtc_listPods ex_metrics up = Inr [ex_busy]"
  by (simp_all add: ex_metrics_def NewMetricsCollector_def Let_def probeAvailability_def)

theorem usage_signals_exact_witness:
  "\<exists>s \<in> set (snd (MetricsCollector_Collect ex_metrics 7 True)).
     sg_type s = SignalMemoryUsageHigh \<and> rr_namespace (sg_resource s) = ''shop'' \<and>
     rr_name (sg_resource s) = ''web-7d9-x'' \<and> getStr (sg_metadata s) ''container'' = ''app''"
proof -
  have "distinct (map (\<lambda>p. (po_namespace p, po_name p)) [ex_busy])"
    "\<And>p. p \<in> set [ex_busy] \<Longrightarrow> distinct (map ct_name (po_containers p))"
    "\<And>p c pm cm. p \<in> set [ex_busy] \<Longrightarrow> c \<in> set (po_containers p) \<Longrightarrow> pm \<in> set [ex_usage] \<Longrightarrow>
       cm \<in> set (pmx_containers pm) \<Longrightarrow> sane_amounts cm (ct_limits c)"
    by (simp_all add: ex_busy_def ex_usage_def sane_amounts_def amountOf_def resourceOf_def ex_bytes_def zeroQuantity_def)
  note exact = usage_signals_exact [where key = "''memory''" and w = True and now = 7 and ns = "''shop''"
      and name = "''web-7d9-x''" and container = "''app''", OF ex_metrics_up(1,2) _ ex_metrics_up(4,5) this]
  have "usageType ''memory'' = SignalMemoryUsageHigh" by (simp add: usageType_def)
  with exact show ?thesis
    by (simp add: ex_metrics_up ex_busy_def ex_pod_def ex_usage_def near_limit_def amountOf_def resourceOf_def ex_bytes_def)
qed

theorem metrics_collector_never_recovers_witness:
  "drop (length [(7, True)]) (collections ex_metrics ([(7, True)] @ (8, False) # [(9, True)])) = replicate 2 []"
  using metrics_collector_never_recovers [of ex_metrics False "[(7, True)]" 8 "[(9, True)]"]
  by (simp add: ex_metrics_up numeral_2_eq_2)

subsection \<open>Clients\<close>

abbreviation ex_apiKey :: string where
  "ex_apiKey \<equiv> ''sk-ant-0123456789abcdef''"

text \<open>A server that answers every request with one status and body and counts the requests.\<close>

definition ex_server :: "int \<Rightarrow> string \<Rightarrow> (string \<Rightarrow> json option) \<Rightarrow> nat Transport" where
  "ex_server status body parse =
     \<lparr>ht_checkURL = (\<lambda>_. None), ht_do = (\<lambda>n _. (Suc n, Inr \<lparr>hp_status = status, hp_body = Inr body\<rparr>)),
      ht_parse = parse, ht_jsonError = (\<lambda>_ _. Err ''unexpected end of JSON input'')\<rparr>"

definition ex_rejecting :: "nat Transport" where
  "ex_rejecting = ex_server 401 (''invalid x-api-key: '' @ ex_apiKey) (\<lambda>_. None)"

definition ex_request :: DiagnosisRequest where
  "ex_request = buildLLMRequest ex_diagnosis"

definition ex_client :: "nat LlmClient" where
  "ex_client = Claude \<lparr>ccl_apiKey = ex_apiKey, ccl_model = defaultClaudeModel, ccl_baseURL = [], ccl_client = ex_rejecting\<rparr>"

lemma ex_rejected: "EnhanceDiagnosis ex_client 0 ex_request =
    (1, Inl (Err (''API returned status 401: '' @ redactKey (''invalid x-api-key: '' @ ex_apiKey) ex_apiKey)))"
proof -
  have "showInt 401 = ''401''" by code_simp
  then show ?thesis
    by (simp add: ex_client_def Claude_EnhanceDiagnosis_def askModel_def ex_rejecting_def ex_server_def)
qed


subsection \<open>Enhancement\<close>

text \<open>A model that answers every request with one sentence, and one that says whatever it is asked.\<close>

definition ex_restarts :: string where
  "ex_restarts = ''The container restarts because its memory limit is too low.''"

definition ex_openGate :: "nat AIProvider" where
  "ex_openGate = \<lparr>aip_enhance = (\<lambda>n _. (Suc n, Inr (parseEnhancedResponse ex_restarts))), aip_gate = Some (\<lambda>ns. ns = ''payments'')\<rparr>"

definition ex_shopGate :: "(DiagnosisRequest \<Rightarrow> string) \<Rightarrow> nat AIProvider" where
  "ex_shopGate answer = \<lparr>aip_enhance = (\<lambda>n req. (Suc n, Inr (parseEnhancedResponse (answer req)))),
     aip_gate = Some (\<lambda>ns. ns = ''shop'')\<rparr>"

text \<open>The one diagnosis of an OOM-killed container.\<close>

definition ex_oom :: Diagnosis where
  "ex_oom = (mkDiagnosis ''Container OOM-killed. Memory limit may be insufficient.'' (lit 70) CategoryResource SeverityCritical
     [ex_signal] (buildContributing [ex_signal] ''Container was OOM-killed'') actionResourceAdjustment)
     \<lparr>dg_provider := ''rule-based'', dg_diagnosedAt := 7\<rparr>"

lemma ex_one_diagnosis: "RuleBased_Diagnose 7 [ex_signal] = Inr [ex_oom]"
proof -
  have ty: "sg_type ex_signal = SignalOOMKilled" by (simp add: ex_signal_def)
  have oom: "diagnoseOOM [ex_signal] = Some (mkDiagnosis ''Container OOM-killed. Memory limit may be insufficient.'' (lit 70)
      CategoryResource SeverityCritical [ex_signal] (buildContributing [ex_signal] ''Container was OOM-killed'')
      actionResourceAdjustment)"
    by (simp add: diagnoseOOM_def signalsOfType_def signalsForResource_def ty Let_def)
  have others: "\<forall>r \<in> set (tl builtinRules). \<not> ru_match r [ex_signal]"
    by (simp add: builtinRules_def matchCrashLoop_def matchNodePressure_def matchNodeDown_def matchResourceSaturation_def
        matchControlPlane_def matchImagePull_def matchPendingPod_def hasSignalType_def hasAnyType_def ty
        nodePressureTypes_def saturationCriticalTypes_def controlPlaneTypes_def)
  have rules: "builtinRules = \<lparr>ru_name = ''oom-root-cause'', ru_match = matchOOM, ru_diagnose = diagnoseOOM\<rparr> # tl builtinRules"
    by (simp add: builtinRules_def)
  have "ruleLoop 7 [ex_signal] [] builtinRules = [ex_oom]"
    by (subst rules) (simp add: matchOOM_def hasSignalType_def ty oom Let_def ex_oom_def ruleLoop_none [OF others])
  then show ?thesis by (simp add: RuleBased_Diagnose_def sortByConfidence_def)
qed

lemma ex_oom_facts:
  "dg_suggestedAction ex_oom = ''resource-adjustment''"
  "diagnosisNamespaces ex_oom = [''shop'', ''shop'']"
  by (simp_all add: ex_oom_def mkDiagnosis_def diagnosisNamespaces_def buildContributing_def
      collectAffectedResources_def firstPersonaRef.simps ex_signal_def clusterScopedKinds_def)

lemma ex_gates:
  "\<not> snd (ProtectedNamespace (aip_gate ex_openGate) ex_oom)"
  "snd (ProtectedNamespace (Some (\<lambda>ns. ns = ''shop'')) ex_oom)"
  by (simp_all add: ex_openGate_def ProtectedNamespace_def ex_oom_facts)

theorem model_asked_only_on_cleared_witness:
  "AI_Diagnose (ex_shopGate (\<lambda>_. [])) 7 0 [ex_signal] = AI_Diagnose (ex_shopGate dr_summary) 7 0 [ex_signal]"
proof (rule model_asked_only_on_cleared)
  show "aip_gate (ex_shopGate (\<lambda>_. [])) = Some (\<lambda>ns. ns = ''shop'')" "aip_gate (ex_shopGate dr_summary) = Some (\<lambda>ns. ns = ''shop'')"
    by (simp_all add: ex_shopGate_def)
qed (use ex_one_diagnosis ex_gates(2) in auto)


subsection \<open>Planner\<close>

definition ex_plan_json :: json where
  "ex_plan_json = JObj [(''rootCause'', JStr ''limit too low''), (''steps'', JArr [JObj [(''order'', JNum 1), (''type'', JStr ''manual''), (''description'', JStr ''look'')]])]"

definition ex_reply :: json where
  "ex_reply = JObj [(''content'', JArr [JObj [(''type'', JStr ''tool_use''), (''name'', JStr planToolName),
     (''input'', ex_plan_json)]])]"

definition ex_planner :: "nat Transport \<Rightarrow> nat ClaudePlanner" where
  "ex_planner t = \<lparr>cpn_apiKey = ex_apiKey, cpn_model = defaultClaudeModel, cpn_baseURL = [], cpn_client = t\<rparr>"

definition ex_answering :: "nat Transport" where
  "ex_answering = ex_server 200 ''reply'' (\<lambda>_. Some ex_reply)"

definition ex_plan :: RemediationPlan where
  "ex_plan = \<lparr>pl_rootCause = ''limit too low'', pl_confidence = 0,
     pl_steps = [\<lparr>ps_order = 1, ps_type = ''manual'', ps_description = ''look'', ps_rationale = [], ps_risk = [],
                  ps_patch = RawEmpty, ps_command = []\<rparr>]\<rparr>"

lemma ex_decoded:
  "map_option (extractPlan t) (claudeResponse ex_reply) = Some (Inr ex_plan)"
  by code_simp

lemma ex_planned_once: "PlanRemediation (ex_planner ex_answering) 0 rc = (1, Inr ex_plan)"
proof -
  obtain content where "claudeResponse ex_reply = Some content" "extractPlan ex_answering content = Inr ex_plan"
    using ex_decoded [of ex_answering] by (cases "claudeResponse ex_reply") auto
  then show ?thesis
    by (simp add: PlanRemediation_def callOnce_def ex_planner_def ex_answering_def ex_server_def unmarshal_def rawOf_def Let_def)
qed

theorem plan_is_model_reply_witness:
  "\<forall>rc :: RemediationContext. \<exists>resp :: HttpResponse.
     snd (PlanRemediation (ex_planner ex_answering) 0 rc) = Inr ex_plan \<and> tool_plan ex_answering resp ex_plan"
proof
  fix rc :: RemediationContext
  have "snd (PlanRemediation (ex_planner ex_answering) 0 rc) = Inr ex_plan" by (simp add: ex_planned_once)
  with plan_is_model_reply [of "ex_planner ex_answering" 0 rc]
  show "\<exists>resp. snd (PlanRemediation (ex_planner ex_answering) 0 rc) = Inr ex_plan \<and> tool_plan ex_answering resp ex_plan"
    unfolding ex_planner_def by fastforce
qed

definition ex_patch :: jmap where
  "ex_patch = [(''spec'', JObj [(''replicas'', JNum 2)])]"

theorem patch_never_spoils_step_witness:
  "rawStep (\<lambda>_. None) (JObj [(''type'', JStr ''restart''), (''patch'', JArr [])]) =
     map_option (\<lambda>s. s\<lparr>ps_patch := RawEmpty\<rparr>)
       (rawStep (\<lambda>_. None) (JObj [(''type'', JStr ''restart''), (''patch'', JObj ex_patch)])) \<and>
   rawStep (\<lambda>_. Some (JObj ex_patch)) (JObj [(''type'', JStr ''restart''), (''patch'', JStr ''{..}'')]) =
     rawStep (\<lambda>_. Some (JObj ex_patch)) (JObj [(''type'', JStr ''restart''), (''patch'', JObj ex_patch)])"
proof -
  have "same_but_patch [(''type'', JStr ''restart''), (''patch'', JObj ex_patch)] [(''type'', JStr ''restart''), (''patch'', JArr [])]"
    "same_but_patch [(''type'', JStr ''restart'')] [(''type'', JStr ''restart'')]"
    "patchAt (\<lambda>_. None) [(''type'', JStr ''restart''), (''patch'', JArr [])] ''patch'' = RawEmpty"
    by code_simp+
  with patch_never_spoils_step [OF this(1), of "\<lambda>_. None" "[]" "[]"]
    patch_never_spoils_step [OF this(2), of "\<lambda>_. Some (JObj ex_patch)" "''{..}''" ex_patch]
  show ?thesis by simp
qed

theorem planner_error_repeats_body_witness:
  "\<forall>rc :: RemediationContext. \<exists>e.
     snd (PlanRemediation (ex_planner ex_rejecting) 0 rc) = Inl e \<and> containsStr (err_text e) ex_apiKey"
proof
  fix rc :: RemediationContext
  define resp where "resp = \<lparr>hp_status = 401, hp_body = Inr (''invalid x-api-key: '' @ ex_apiKey) :: goerr + string\<rparr>"
  have url: "ht_checkURL (cpn_client (ex_planner ex_rejecting)) (plannerURL (ex_planner ex_rejecting)) = None"
    and sent: "planSend (ex_planner ex_rejecting) rc 0 = (1, Inr resp)"
    and key: "cpn_apiKey (ex_planner ex_rejecting) = ex_apiKey"
    by (simp_all add: ex_planner_def ex_rejecting_def ex_server_def planSend_def resp_def)
  have resp: "hp_status resp \<noteq> 200" "hp_body resp = Inr (''invalid x-api-key: '' @ ex_apiKey)"
    by (simp_all add: resp_def)
  have "containsStr (''invalid x-api-key: '' @ ex_apiKey) ex_apiKey" by code_simp
  with planner_error_repeats_body [OF url sent resp]
  show "\<exists>e. snd (PlanRemediation (ex_planner ex_rejecting) 0 rc) = Inl e \<and> containsStr (err_text e) ex_apiKey"
    unfolding key by (elim conjE) (drule mp)
qed

end
