(* ===== verification/ServiceExamples.thy ===== *)
theory ServiceExamples
  imports WsProps EntryPoint ModelExamples
begin

text \<open>
  The properties of the WebSocket server, the entry point and the Prometheus client applied to
  concrete objects: one client that subscribes to incidents and is sent an event, a command line with
  two namespaces, and a server whose peak is below its average.
\<close>

subsection \<open>WebSocket\<close>

definition ex_backend :: "unit WsBackend" where
  "ex_backend = \<lparr>wb_personas = (\<lambda>_ _. Inr []), wb_clusters = (\<lambda>_. Inr []), wb_incidents = (\<lambda>_ _. Inr []),
     wb_remediations = (\<lambda>_ _. Inr []), wb_jsonError = (\<lambda>_ _. Err ''json'')\<rparr>"

definition ex_subscribe :: WsMessage where
  "ex_subscribe = \<lparr>ms_type = MessageTypeSubscribe, ms_topic = TopicHealth, ms_requestID = ''r1'',
     ms_payload = RawEmpty, ms_timestamp = 7\<rparr>"

abbreviation ex_event :: WsMessage where
  "ex_event \<equiv> eventMessage 8 (WsHealth 2 1)"

definition ex_answer :: WsMessage where
  "ex_answer = snd (handleMessage ex_backend 7 () {} ex_subscribe)"

text \<open>The client after its subscription was answered, and once the event is in its channel and written.\<close>

definition ex_wsClient :: "WsMessage list \<Rightarrow> WsMessage list \<Rightarrow> WsClient" where
  "ex_wsClient queued written = newClient\<lparr>cl_subscriptions := {TopicHealth}, cl_received := [ex_subscribe],
     cl_send := queued, cl_delivered := written\<rparr>"

definition ex_wsServer :: "WsClient \<Rightarrow> WsMessage list \<Rightarrow> (WsMessage \<times> nat list) option \<Rightarrow> WsMessage list \<Rightarrow> WsServer" where
  "ex_wsServer c channel walk accepted = NewServer\<lparr>sv_clients := [0 \<mapsto> c], sv_registered := {0},
     sv_broadcast := channel, sv_walk := walk, sv_accepted := accepted\<rparr>"

lemma ex_handled: "handleMessage ex_backend 7 () {} ex_subscribe = ({TopicHealth}, ex_answer)"
  by (simp add: ex_answer_def handleMessage_def handleSubscribe_def ex_subscribe_def)

lemma ex_steps:
  "ws_step ex_backend NewServer (Connect 0) (ex_wsServer newClient [] None [])"
  "ws_step ex_backend (ex_wsServer newClient [] None []) (Receive 0 7 () ex_subscribe)
     (ex_wsServer ((ex_wsClient [] [])\<lparr>cl_reply := Some ex_answer\<rparr>) [] None [])"
  "ws_step ex_backend (ex_wsServer ((ex_wsClient [] [])\<lparr>cl_reply := Some ex_answer\<rparr>) [] None []) (Reply 0)
     (ex_wsServer (ex_wsClient [ex_answer] []) [] None [])"
  "ws_step ex_backend (ex_wsServer (ex_wsClient [ex_answer] []) [] None []) (WriteOK 0)
     (ex_wsServer (ex_wsClient [] [ex_answer]) [] None [])"
  "ws_step ex_backend (ex_wsServer (ex_wsClient [] [ex_answer]) [] None []) (Publish 8 (WsHealth 2 1))
     (ex_wsServer (ex_wsClient [] [ex_answer]) [ex_event] None [ex_event])"
  "ws_step ex_backend (ex_wsServer (ex_wsClient [] [ex_answer]) [ex_event] None [ex_event]) (Take [0])
     (ex_wsServer (ex_wsClient [] [ex_answer]) [] (Some (ex_event, [0])) [ex_event])"
  "ws_step ex_backend (ex_wsServer (ex_wsClient [] [ex_answer]) [] (Some (ex_event, [0])) [ex_event]) (Offer 0)
     (ex_wsServer (ex_wsClient [ex_event] [ex_answer]) [] (Some (ex_event, [])) [ex_event])"
  "ws_step ex_backend (ex_wsServer (ex_wsClient [ex_event] [ex_answer]) [] (Some (ex_event, [])) [ex_event]) (WriteOK 0)
     (ex_wsServer (ex_wsClient [] [ex_answer, ex_event]) [] (Some (ex_event, [])) [ex_event])"
proof -
  note d = ex_wsServer_def NewServer_def ex_wsClient_def newClient_def
  show "ws_step ex_backend NewServer (Connect 0) (ex_wsServer newClient [] None [])"
    using ws_step.connect [of NewServer 0 ex_backend] by (simp add: d)
  show "ws_step ex_backend (ex_wsServer newClient [] None []) (Receive 0 7 () ex_subscribe)
     (ex_wsServer ((ex_wsClient [] [])\<lparr>cl_reply := Some ex_answer\<rparr>) [] None [])"
    using ws_step.receive [of "ex_wsServer newClient [] None []" 0 newClient ex_backend 7 "()" ex_subscribe
        "{TopicHealth}" ex_answer] ex_handled by (simp add: d)
  show "ws_step ex_backend (ex_wsServer ((ex_wsClient [] [])\<lparr>cl_reply := Some ex_answer\<rparr>) [] None []) (Reply 0)
     (ex_wsServer (ex_wsClient [ex_answer] []) [] None [])"
    using ws_step.reply [of "ex_wsServer ((ex_wsClient [] [])\<lparr>cl_reply := Some ex_answer\<rparr>) [] None []" 0
        "(ex_wsClient [] [])\<lparr>cl_reply := Some ex_answer\<rparr>" ex_answer ex_backend] by (simp add: d)
  show "ws_step ex_backend (ex_wsServer (ex_wsClient [ex_answer] []) [] None []) (WriteOK 0)
     (ex_wsServer (ex_wsClient [] [ex_answer]) [] None [])"
    using ws_step.write_ok [of "ex_wsServer (ex_wsClient [ex_answer] []) [] None []" 0 "ex_wsClient [ex_answer] []"
        ex_answer "[]" ex_backend] by (simp add: d)
  show "ws_step ex_backend (ex_wsServer (ex_wsClient [] [ex_answer]) [] None []) (Publish 8 (WsHealth 2 1))
     (ex_wsServer (ex_wsClient [] [ex_answer]) [ex_event] None [ex_event])"
    using ws_step.publish [of ex_backend "ex_wsServer (ex_wsClient [] [ex_answer]) [] None []" 8 "WsHealth 2 1"]
    by (simp add: d Broadcast_def)
  show "ws_step ex_backend (ex_wsServer (ex_wsClient [] [ex_answer]) [ex_event] None [ex_event]) (Take [0])
     (ex_wsServer (ex_wsClient [] [ex_answer]) [] (Some (ex_event, [0])) [ex_event])"
    using ws_step.take_msg [of "ex_wsServer (ex_wsClient [] [ex_answer]) [ex_event] None [ex_event]" ex_event "[]" "[0]" ex_backend]
    by (simp add: d)
  show "ws_step ex_backend (ex_wsServer (ex_wsClient [] [ex_answer]) [] (Some (ex_event, [0])) [ex_event]) (Offer 0)
     (ex_wsServer (ex_wsClient [ex_event] [ex_answer]) [] (Some (ex_event, [])) [ex_event])"
    using ws_step.offer [of "ex_wsServer (ex_wsClient [] [ex_answer]) [] (Some (ex_event, [0])) [ex_event]" ex_event 0 "[]"
        "ex_wsClient [] [ex_answer]" ex_backend] by (simp add: d offerTo_def NewEventMessage_def NewMessage_def)
  show "ws_step ex_backend (ex_wsServer (ex_wsClient [ex_event] [ex_answer]) [] (Some (ex_event, [])) [ex_event]) (WriteOK 0)
     (ex_wsServer (ex_wsClient [] [ex_answer, ex_event]) [] (Some (ex_event, [])) [ex_event])"
    using ws_step.write_ok [of "ex_wsServer (ex_wsClient [ex_event] [ex_answer]) [] (Some (ex_event, [])) [ex_event]" 0
        "ex_wsClient [ex_event] [ex_answer]" ex_event "[]" ex_backend] by (simp add: d)
qed

abbreviation ex_walking :: WsServer where
  "ex_walking \<equiv> ex_wsServer (ex_wsClient [] [ex_answer]) [] (Some (ex_event, [0])) [ex_event]"

abbreviation ex_written :: WsServer where
  "ex_written \<equiv> ex_wsServer (ex_wsClient [] [ex_answer, ex_event]) [] (Some (ex_event, [])) [ex_event]"

lemma ex_walk_run: "\<exists>ls. ws_run ex_backend NewServer ls ex_walking"
  using ws_run_Cons [OF ex_steps(1) ws_run_Cons [OF ex_steps(2) ws_run_Cons [OF ex_steps(3) ws_run_Cons [OF ex_steps(4)
    ws_run_Cons [OF ex_steps(5) ws_run_single [OF ex_steps(6)]]]]]] by blast

lemma ex_written_run: "\<exists>ls. ws_run ex_backend NewServer ls ex_written"
  using ex_walk_run ws_run_append ws_run_Cons [OF ex_steps(7) ws_run_single [OF ex_steps(8)]] by blast

theorem ws_buffers_bounded_witness:
  "\<exists>ls s. ws_run ex_backend NewServer ls s \<and> sv_registered s = {0} \<and> length (sv_broadcast s) \<le> 256"
proof -
  obtain ls where "ws_run ex_backend NewServer ls ex_walking" using ex_walk_run by blast
  moreover from ws_buffers_bounded [OF this] have "length (sv_broadcast ex_walking) \<le> 256" by blast
  moreover have "sv_registered ex_walking = {0}" by (simp add: ex_wsServer_def)
  ultimately show ?thesis by blast
qed

theorem ws_delivery_in_order_witness:
  "\<exists>ls s c. ws_run ex_backend NewServer ls s \<and> sv_clients s 0 = Some c \<and> cl_delivered c = [ex_answer, ex_event] \<and>
     subseq (filter is_event (cl_delivered c)) (sv_accepted s)"
proof -
  obtain ls where r: "ws_run ex_backend NewServer ls ex_written" using ex_written_run by blast
  have c: "sv_clients ex_written 0 = Some (ex_wsClient [] [ex_answer, ex_event])" by (simp add: ex_wsServer_def)
  have "cl_delivered (ex_wsClient [] [ex_answer, ex_event]) = [ex_answer, ex_event]" by (simp add: ex_wsClient_def)
  with ws_delivery_in_order [OF r c] r c show ?thesis by blast
qed

theorem ws_walk_never_blocks_witness:
  "\<exists>s'. ws_run ex_backend ex_walking [Offer 0, WalkEnd] s' \<and> sv_walk s' = None \<and>
     sv_clients s' 0 = Some (ex_wsClient [ex_event] [ex_answer])"
proof -
  obtain ls where "ws_run ex_backend NewServer ls ex_walking" using ex_walk_run by blast
  moreover have "sv_walk ex_walking = Some (ex_event, [0])" by (simp add: ex_wsServer_def)
  ultimately obtain s' where s': "ws_run ex_backend ex_walking (map Offer [0] @ [WalkEnd]) s'" "sv_walk s' = None"
    "sv_clients s' = offered ex_event [0] (sv_clients ex_walking)" using ws_walk_never_blocks by blast
  have "offered ex_event [0] (sv_clients ex_walking) 0 = Some (ex_wsClient [ex_event] [ex_answer])"
    by (simp add: offered_def ex_wsServer_def ex_wsClient_def newClient_def offerTo_def NewEventMessage_def NewMessage_def)
  with s' show ?thesis by (intro exI [of _ s']) simp
qed

theorem message_roundtrip_witness:
  "decodeMessage (\<lambda>_. Some 7) (messageJSON (\<lambda>_. ''1970-01-01T00:00:07Z'') ex_subscribe) = Some ex_subscribe"
  by (rule message_roundtrip) (simp_all add: ex_subscribe_def)

subsection \<open>Entry point\<close>

definition ex_environment :: environment where
  "ex_environment = \<lparr>env_var = (\<lambda>v. if v = ''POD_NAMESPACE'' then ''dorgu-system'' else []), env_namespaceFile = None\<rparr>"

theorem flag_namespaces_protected_witness:
  "NamespaceProtected (Some (mainSafetyChecker ex_environment (withExcludedNamespaces ''payments, dev '' defaultConfig)
      (\<lambda>_. Inr []) (\<lambda>_ _ _. Inr []) ex_parse)) () ''dev''"
proof -
  have "joinWith '','' [''payments'', '' dev ''] = ''payments, dev ''" "trimSpace '' dev '' = ''dev''" by code_simp+
  then show ?thesis
    using flag_namespaces_protected [of "[''payments'', '' dev '']" "''dev''" ex_environment _ defaultConfig _
        "\<lambda>_. Inr []" "\<lambda>_ _ _. Inr []" ex_parse "()" "[]", OF _ _ refl refl] by simp
qed

subsection \<open>Prometheus\<close>

text \<open>
  A server that knows one application with two pods, one using 100 and one 500 millicores: the query
  for the average has one series, the one for the peak has one for each pod, of which only the first
  is read. The baseline has a peak below its average.
\<close>

definition ex_series :: "string \<Rightarrow> json" where
  "ex_series v = JObj [(''value'', JArr [JNum 7, JStr v])]"

text \<open>The world counts the requests.\<close>

definition ex_prometheus :: "nat PrometheusClient" where
  "ex_prometheus = NewPrometheusClient
     \<lparr>ht_checkURL = (\<lambda>_. None),
      ht_do = (\<lambda>n _. (Suc n, Inr \<lparr>hp_status = 200, hp_body = Inr (if 2 \<le> n then ''peak'' else ''avg'')\<rparr>)),
      ht_parse = (\<lambda>body. Some (JObj [(''status'', JStr ''success''),
        (''data'', JObj [(''result'', JArr (if body = ''peak'' then [ex_series ''100'', ex_series ''500''] else [ex_series ''300'']))])])),
      ht_jsonError = (\<lambda>_ _. Err ''json'')\<rparr> ''http://prometheus:9090''"

lemma ex_query: "query ex_prometheus n promQL = (Suc n, Inr (Finite (if 2 \<le> n then 100 else 300)))"
proof -
  have "parseDecimal ''100'' = Some 100" "parseDecimal ''300'' = Some 300" by code_simp+
  moreover have "fl64 100 = 100" "fl64 300 = 300" using fl64_of_int [of 100] fl64_of_int [of 300] by simp_all
  moreover have "toLower ''100'' = ''100''" "toLower ''300'' = ''300''" by code_simp+
  ultimately have "ParseFloat ''100'' = Some (Finite 100)" "ParseFloat ''300'' = Some (Finite 300)"
    by (simp_all add: ParseFloat_def hasPrefix_def Let_def)
  moreover have
    "promResponse (JObj [(''status'', JStr ''success''), (''data'', JObj [(''result'', JArr [ex_series ''300''])])]) =
       Some (''success'', [[JNum 7, JStr ''300'']])"
    "promResponse (JObj [(''status'', JStr ''success''),
         (''data'', JObj [(''result'', JArr [ex_series ''100'', ex_series ''500''])])]) =
       Some (''success'', [[JNum 7, JStr ''100''], [JNum 7, JStr ''500'']])" by code_simp+
  ultimately show ?thesis
    by (simp add: query_def ex_prometheus_def NewPrometheusClient_def unmarshal_def rawOf_def firstValue_def)
qed

lemma ex_peak_below_average:
  "map_sum id (\<lambda>b. (bl_avgCPU b, bl_peakCPU b)) (snd (GetResourceBaseline ex_prometheus 0 ''shop'' ''web'')) =
     Inr (''300m'', ''100m'')"
proof -
  have "fmtFixed 0 100 = ''100''" "fmtFixed 0 300 = ''300''" by code_simp+
  moreover have "prm_baseURL ex_prometheus \<noteq> []" by (simp add: ex_prometheus_def NewPrometheusClient_def)
  ultimately show ?thesis
    by (simp add: GetResourceBaseline_def queryAvgCPU_def queryAvgMemory_def queryPeakCPU_def queryPeakMemory_def ex_query
        valueOrEmpty_def)
qed

end
