(* ===== verification/Spec2Isabelle.thy ===== *)
theory Spec2Isabelle
  imports ProposalExamples ClusterExamples ServiceExamples
begin

text \<open>
  Verification of the Dorgu operator, a Kubernetes operator that watches workloads, diagnoses
  their failures, proposes remediations and, after a human approved one, applies, verifies and if
  need be rolls it back.

  \<^bold>\<open>The program.\<close> Collectors (\<^verbatim>\<open>internal/detection\<close>) read pods, nodes and resource usage and emit
  signals; the persona correlator attributes each signal to the ApplicationPersona that describes
  its workload, and the signals are grouped by owner. The diagnosis engine (\<^verbatim>\<open>internal/diagnosis\<close>)
  turns a group into root-cause diagnoses; a namespace gate decides which of them may reach a
  language model. The health check reconciler (\<^verbatim>\<open>internal/controller/healthcheck_reconciler.go\<close>) runs
  these in a cycle: it records diagnoses as IncidentMemory objects with retried writes, asks the
  proposal builder for a remediation and closes incidents only on evidence
  (\<^verbatim>\<open>incident_recovery.go\<close>); incidents are summarised on their persona
  (\<^verbatim>\<open>incident_controller.go\<close>), and Kubernetes events are classified, deduplicated, stored and
  cleaned up (\<^verbatim>\<open>internal/events\<close>). A proposal is a RemediationAction, built by rules or from the
  plan of a model (\<^verbatim>\<open>internal/remediation/proposer*.go\<close>); it passes the safety checker
  (\<^verbatim>\<open>safety.go\<close>) and, approved by a person, is driven through its life cycle by
  \<^verbatim>\<open>remediation_controller.go\<close>, which calls the executor, the verifier and the rollback.
  \<^verbatim>\<open>internal/workload\<close> finds the Deployment behind a persona and who owns it. Beside this loop run the
  controllers that keep the descriptions current: the ApplicationPersona controller checks a persona
  against its Deployment and writes health and validation (\<^verbatim>\<open>applicationpersona_*.go\<close>), the ArgoCD
  watcher adds the sync status of its Application (\<^verbatim>\<open>argocd_watcher.go\<close>), and the ClusterPersona
  controller discovers nodes, capacity, add-ons and platform, after a bootstrap has created the first
  ClusterPersona (\<^verbatim>\<open>clusterpersona_*.go\<close>). The safety checker and the proposer read the policies
  of the ClusterPersona, the planner the images on record in the persona. Two more collectors watch
  actual usage and the control plane (\<^verbatim>\<open>metrics.go\<close>, \<^verbatim>\<open>controlplane.go\<close>). Language models are asked at
  two places, to explain a diagnosis (\<^verbatim>\<open>internal/diagnosis/ai.go\<close>, \<^verbatim>\<open>internal/llm\<close>) and to plan a
  remediation (\<^verbatim>\<open>internal/remediation/planner\<close>), and Prometheus for the usage baseline of an
  application (\<^verbatim>\<open>internal/metrics\<close>). The events of incidents and remediations go to the CLI through a
  WebSocket server (\<^verbatim>\<open>internal/websocket\<close>). \<^verbatim>\<open>cmd\<close> parses the flags and wires all of it.

  \<^bold>\<open>The theories.\<close>
  \<^item> \<^verbatim>\<open>Prelude\<close>: Go strings, times, durations and maps; the interface \<open>namespace_gate\<close> between the
    deny list and its clients. \<^verbatim>\<open>Float64\<close>: double precision as rationals with rounding to nearest
    even (no overflow, no subnormals: the quotients and scores of the program stay far from both)
    and the error bound of a division. \<^verbatim>\<open>Json\<close>: JSON documents, the merge of \<^verbatim>\<open>executor.go\<close> and the
    mirror of existing paths, with the law that mirroring before a merge restores the leaves.
  \<^item> \<^verbatim>\<open>Api\<close>: RemediationAction and IncidentMemory of \<^verbatim>\<open>api/v1\<close> and the plan methods of
    \<^verbatim>\<open>remediationaction_steps.go\<close>; plans that pass validation auto-execute persona updates only.
    \<^verbatim>\<open>Personas\<close>: ApplicationPersona and ClusterPersona; the spec of a persona is its JSON image, which
    the executor patches, with a typed view \<open>p_typed\<close> of it. \<^verbatim>\<open>PersonaCodec\<close>: the view loses nothing.
  \<^item> \<^verbatim>\<open>Detection\<close>: \<^verbatim>\<open>signals.go\<close>, \<^verbatim>\<open>engine.go\<close>, \<^verbatim>\<open>persona_correlator.go\<close>, \<^verbatim>\<open>grouping.go\<close>; grouping is a
    partition, attribution is unique. \<^verbatim>\<open>Collectors\<close>: \<^verbatim>\<open>pod.go\<close>, \<^verbatim>\<open>node.go\<close>, \<^verbatim>\<open>resource.go\<close>.
  \<^item> \<^verbatim>\<open>Execution\<close>: \<^verbatim>\<open>executor.go\<close>, \<^verbatim>\<open>rollback.go\<close>, \<^verbatim>\<open>verifier.go\<close> over a record \<open>api\<close> of the client calls.
    \<^verbatim>\<open>Divergence\<close>: \<^verbatim>\<open>rollback_divergence.go\<close> and the wording of its report.
  \<^item> \<^verbatim>\<open>Lifecycle\<close>: the remediation controller, with the life cycle as the inductive relation
    \<open>operator_step\<close>. \<^verbatim>\<open>Server\<close>: the locale \<open>api_server\<close>, what the controllers rely on of the
    Kubernetes API server, with writes that may be refused or whose reply may be lost, and the
    controller's guarantees proved in it. \<^verbatim>\<open>Store\<close>: an object store under any fault script, and the
    interpretation of the locale on it. \<^verbatim>\<open>System\<close>: reconciles interleaved with the writes of humans
    and other clients, as the inductive relation \<open>system_step\<close>; refinement of the life cycle, the
    invariant of every run, completion of approved actions, rollback.
  \<^item> \<^verbatim>\<open>Safety\<close>: the safety checker; each guard decided exactly, the blast radius bounded in floating
    point, the deny list an interpretation of \<open>namespace_gate\<close>.
  \<^item> \<^verbatim>\<open>Workload\<close>: \<^verbatim>\<open>match.go\<close>, \<^verbatim>\<open>ownership.go\<close>, \<^verbatim>\<open>ownership_fields.go\<close>, \<^verbatim>\<open>observe.go\<close>.
  \<^item> \<^verbatim>\<open>Diagnosis\<close>: \<^verbatim>\<open>confidence.go\<close>, \<^verbatim>\<open>rules.go\<close>, \<^verbatim>\<open>engine.go\<close>, \<^verbatim>\<open>namespace_gate.go\<close>.
  \<^item> \<^verbatim>\<open>Incident\<close>: \<^verbatim>\<open>incident_recovery.go\<close>, \<^verbatim>\<open>rejection_cooldown.go\<close>, \<^verbatim>\<open>incident_controller.go\<close>.
  \<^item> \<^verbatim>\<open>Sha256\<close> and \<^verbatim>\<open>Names\<close>: the digest and the generated object names. \<^verbatim>\<open>Events\<close>: classifier, correlator,
    deduplicating store, emitter, watcher and cleaner of \<^verbatim>\<open>internal/events\<close>; pruning the
    deduplication map is invisible, cleaning drains.
  \<^item> \<^verbatim>\<open>HealthCheck\<close>: \<^verbatim>\<open>incident_write.go\<close> and \<^verbatim>\<open>healthcheck_reconciler.go\<close>, the whole cycle.
    \<^verbatim>\<open>HealthLaws\<close>: the locales \<open>incident_writer\<close> and \<open>health_server\<close>, what the cycle relies on of the
    API server and of the event sinks, and the effect of every write in them; \<^verbatim>\<open>HealthProps\<close>: what a
    cycle may do to an incident. \<^verbatim>\<open>Cluster\<close>: a cluster over \<^verbatim>\<open>Store\<close>, and the interpretations.
  \<^item> The proposal builder. \<^verbatim>\<open>Prose\<close>: \<^verbatim>\<open>kubectl_verb.go\<close> and the sentences of \<^verbatim>\<open>fabricated_clamp.go\<close>,
    \<^verbatim>\<open>blast_radius_notice.go\<close>. \<^verbatim>\<open>Grounding\<close>: \<^verbatim>\<open>proposer_grounding.go\<close> and the disclosure at the cap.
    \<^verbatim>\<open>Refused\<close>: \<^verbatim>\<open>refused_values.go\<close>, \<^verbatim>\<open>proposer_ownership.go\<close>. \<^verbatim>\<open>PlanContext\<close>: \<^verbatim>\<open>planner/context.go\<close>.
    \<^verbatim>\<open>Proposer\<close>: \<^verbatim>\<open>proposer.go\<close>, \<^verbatim>\<open>proposer_mode.go\<close>. \<^verbatim>\<open>AIPlan\<close>: \<^verbatim>\<open>proposer_ai.go\<close>,
    \<^verbatim>\<open>proposer_ai_appliable.go\<close>. \<^verbatim>\<open>Proposal\<close>: the two entry points. \<^verbatim>\<open>ProposalLaws\<close>: what shaping
    may change (\<open>frame\<close>, \<open>tamer\<close>) and the grammar of kubectl flags; \<^verbatim>\<open>ProposalProps\<close>: the builder's
    properties; \<^verbatim>\<open>ProposalStore\<close>: the locale \<open>proposal_writer\<close>, its interpretation on the cluster, and
    the health check reconciler with the real builder as a second instance of \<open>health_server\<close>.
  \<^item> The persona controllers. \<^verbatim>\<open>PersonaChecks\<close>: \<^verbatim>\<open>applicationpersona_validation.go\<close> and
    \<^verbatim>\<open>applicationpersona_status.go\<close>; a check of the limits returns or panics. \<^verbatim>\<open>PersonaController\<close>:
    \<^verbatim>\<open>applicationpersona_controller.go\<close>. \<^verbatim>\<open>PersonaProps\<close>: the verdict of a reconcile, its panics, and
    that every status sent has the type the CRD schema admits. \<^verbatim>\<open>ArgoWatcher\<close>: \<^verbatim>\<open>argocd_watcher.go\<close>.
    \<^verbatim>\<open>ClusterDiscovery\<close>, \<^verbatim>\<open>ClusterAddons\<close>: \<^verbatim>\<open>clusterpersona_discovery.go\<close> and \<^verbatim>\<open>_addons.go\<close>.
    \<^verbatim>\<open>ClusterController\<close>: \<^verbatim>\<open>clusterpersona_controller.go\<close> and \<^verbatim>\<open>_bootstrap.go\<close>. \<^verbatim>\<open>ClusterProps\<close>: verdict,
    defaults, utilization. \<^verbatim>\<open>Bootstrap\<close>: the locale \<open>persona_registry\<close> of the calls and the backoff the
    bootstrap relies on, and its interpretation on a registry that may refuse calls or lose replies.
  \<^item> Usage and control plane. \<^verbatim>\<open>UsageCollectors\<close>: \<^verbatim>\<open>metrics.go\<close>, whose flag of availability is state, so a
    collection returns the collector it leaves, \<^verbatim>\<open>controlplane.go\<close> and \<^verbatim>\<open>index.go\<close>. \<^verbatim>\<open>UsageProps\<close>: the
    threshold is exact in double precision; one failed probe is final. \<^verbatim>\<open>Prometheus\<close>:
    \<^verbatim>\<open>prometheus_client.go\<close>.
  \<^item> Language models. \<^verbatim>\<open>JsonDecode\<close>: how \<^verbatim>\<open>encoding/json\<close> fills a struct. \<^verbatim>\<open>LLM\<close>: the network as a record
    of a state of its own, prompt, both clients and the redaction of the key. \<^verbatim>\<open>AIDiagnosis\<close>:
    \<^verbatim>\<open>diagnosis/ai.go\<close>. \<^verbatim>\<open>AIProps\<close>: what is sent, what an answer changes, when it replaces a diagnosis,
    and that no error shows the key. \<^verbatim>\<open>PlanPrompt\<close>, \<^verbatim>\<open>ClaudePlanner\<close>: \<^verbatim>\<open>planner/prompt.go\<close> and
    \<^verbatim>\<open>planner/claude.go\<close>; \<^verbatim>\<open>PlannerProps\<close>: where a plan comes from and how its patches are read.
  \<^item> WebSocket. \<^verbatim>\<open>WsProtocol\<close>: \<^verbatim>\<open>protocol.go\<close>, \<^verbatim>\<open>handlers.go\<close>. \<^verbatim>\<open>WsServer\<close>: \<^verbatim>\<open>server.go\<close> as the inductive
    relation \<open>ws_step\<close>, one label for every step of the broadcaster, a reader, a writer or the network.
    \<^verbatim>\<open>WsProps\<close>: the invariant of every interleaving, order of delivery, a walk over the clients that
    always ends, and the client that is never removed.
  \<^item> \<^verbatim>\<open>EntryPoint\<close>: \<^verbatim>\<open>cmd/config.go\<close>, \<^verbatim>\<open>operator_namespace.go\<close> and the decisions of \<^verbatim>\<open>cmd/main.go\<close>.
  \<^item> \<^verbatim>\<open>Instances\<close>, \<^verbatim>\<open>Examples\<close>, \<^verbatim>\<open>HealthExamples\<close>, \<^verbatim>\<open>ProposalExamples\<close>, \<^verbatim>\<open>PersonaExamples\<close>,
    \<^verbatim>\<open>ClusterExamples\<close>, \<^verbatim>\<open>ModelExamples\<close> and \<^verbatim>\<open>ServiceExamples\<close>: concrete objects on which the
    hypotheses of the properties hold.

  \<^bold>\<open>Conventions.\<close> A struct is a record, an error is a value of \<open>goerr\<close> on the left of a sum or in
  an option, a map is an association list, times and durations are integers of nanoseconds with
  the saturation of \<^verbatim>\<open>Time.Sub\<close>. The state of the cluster is a type variable; reads and writes are
  functions of it collected in records (\<open>api\<close>, \<open>ClusterReader\<close>, \<open>IncidentClient\<close>,
  \<open>SafetyCheckerImpl\<close>). Loops are structural recursions over the slices they range over; where Go
  ranges over a map and the order shows in the result the source sorts first, and so does the
  model; sorts by a key are stable, as \<^verbatim>\<open>sort.SliceStable\<close>. All functions are total, no fuel is
  used; conflict retries are bounded by the attempts of \<^verbatim>\<open>retry.DefaultRetry\<close> in \<^verbatim>\<open>Store\<close>, incident
  writes by the six attempts of \<^verbatim>\<open>incidentWriteBackoff\<close>. A call reads the clock once. Log lines and
  metrics other than the transition counter are left out. \<^verbatim>\<open>resource.Quantity\<close> is known through its
  accessors, its parser, equality and rendering are parameters, as are time formatting and,
  for the proposal builder, the planner. Prose is ASCII. \<^verbatim>\<open>int64\<close> and \<^verbatim>\<open>int32\<close> counters are unbounded integers where the program
  bounds them by list lengths, and the conversion of a scaled quantity is proved to stay in range.
  The bodies of HTTP replies and WebSocket messages are texts; a parser that is a parameter gives
  their JSON value, which the model decodes. The WebSocket buffers are lists with the bound of the
  channels, 256; the planner's attempts are counted down from two.

  \<^bold>\<open>Not modelled.\<close> What only calls libraries: the scheme and watch registrations
  (\<^verbatim>\<open>SetupWithManager\<close>), the parsing of the command line, the manager, TLS and start of
  \<^verbatim>\<open>cmd/main.go\<close>, the HTTP upgrade and the deadlines of the WebSocket server, the registration of the
  Prometheus counters. Generated code (\<^verbatim>\<open>zz_generated.deepcopy.go\<close>): values are immutable in the
  model, so a copy is the value. Go maps are ranged over in an order that is a parameter where it
  shows in a result.
\<close>

section \<open>Properties that span components\<close>

text \<open>
  One deny list on both paths. Let the safety checker be built with any protected namespaces
  and let it also be the gate in front of the language model. Then, in every state of the cluster,
  a diagnosis whose persona, affected resource or contributing signal lies in kube-system or in a
  protected namespace is withheld from the model, and a plan for a persona in such a namespace is
  refused with a deny-list violation, whatever else the check finds.
\<close>

theorem deny_list_on_both_paths:
  assumes "ns = ''kube-system'' \<or> (\<exists>nss \<in> set nsss. ns \<in> set nss)"
    and "checker = NewSafetyChecker lcp lra pq (map WithProtectedNamespaces nsss)"
  shows "(ns \<in> set (diagnosisNamespaces d) \<longrightarrow>
      snd (ProtectedNamespace (Some (NamespaceProtected (Some checker) w)) d)) \<and>
    (pr_namespace (sp_personaRef (ra_spec a)) = ns \<and> ns \<noteq> [] \<and> Check checker now w a = Inr res \<longrightarrow>
      \<not> sr_allowed res \<and> (\<exists>v \<in> set (sr_violations res). sv_rule v = RuleDenyList))"
proof (intro conjI impI)
  show "snd (ProtectedNamespace (Some (NamespaceProtected (Some checker) w)) d)"
    if "ns \<in> set (diagnosisNamespaces d)"
    using assms(1) that namespace_gate.cleared_diagnosis [OF dl.namespace_gate_axioms, of lcp lra pq nsss w d]
    unfolding assms(2) by blast
next
  assume h: "pr_namespace (sp_personaRef (ra_spec a)) = ns \<and> ns \<noteq> [] \<and> Check checker now w a = Inr res"
  have "NamespaceProtected (Some checker) w ns" unfolding assms(2) by (rule options_refuse [OF assms(1)])
  with h obtain v where v: "checkDenyList checker w a = Some v" "sv_rule v = RuleDenyList"
    by (auto simp: checkDenyList_def NamespaceProtected_def dest: NamespaceDenied_rule)
  from h have "Check checker now w a = Inr res" by simp
  from Check_denied [OF this v(1)] have d: "\<not> sr_allowed res \<and> v \<in> set (sr_violations res)" .
  from d show "\<not> sr_allowed res" by simp
  from d v(2) show "\<exists>v \<in> set (sr_violations res). sv_rule v = RuleDenyList" by blast
qed

theorem deny_list_on_both_paths_witness:
  "snd (ProtectedNamespace (Some (NamespaceProtected (Some (ex_checker [])) ()))
     (ex_diagnosis\<lparr>dg_personaRef := Some \<lparr>pr_kind = [], pr_name = [], pr_namespace = ''payments''\<rparr>\<rparr>))"
proof -
  let ?d = "ex_diagnosis\<lparr>dg_personaRef := Some \<lparr>pr_kind = [], pr_name = [], pr_namespace = ''payments''\<rparr>\<rparr>"
  have "''payments'' \<in> set (diagnosisNamespaces ?d)" by (simp add: diagnosisNamespaces_def)
  then show ?thesis
    using deny_list_on_both_paths [of "''payments''" "[[''payments'']]" "ex_checker []" "\<lambda>_. Inr []"
        "\<lambda>_ _ _. Inr []" ex_parse ?d "()"]
    by (simp add: ex_checker_def)
qed

text \<open>
  C11. What flag and environment name is protected on both paths. Take any list of namespaces given to
  \<^verbatim>\<open>--safety-excluded-namespaces\<close>, with blanks around them or empty ones among them, any environment
  and any cluster. For kube-system, the namespace of the operator and each listed namespace, no
  diagnosis that mentions it is cleared for a model by the checker the process builds, and a plan for
  a persona in it is refused with a deny-list violation.
\<close>

theorem configured_namespaces_protected:
  assumes "list_all (\<lambda>part. CHR '','' \<notin> set part) parts"
    and "ns \<in> {''kube-system'', OperatorNamespace env} \<union> trimSpace ` set parts"
    and "cfg = withExcludedNamespaces (joinWith '','' parts) cfg0"
    and "checker = mainSafetyChecker env cfg lcp lra pq"
  shows "(\<forall>d \<in> set (clearedBy (Some (NamespaceProtected (Some checker) w)) ds). ns \<notin> set (diagnosisNamespaces d)) \<and>
    (pr_namespace (sp_personaRef (ra_spec a)) = ns \<and> ns \<noteq> [] \<and> Check checker now w a = Inr res \<longrightarrow>
      \<not> sr_allowed res \<and> (\<exists>v \<in> set (sr_violations res). sv_rule v = RuleDenyList))"
proof (intro conjI impI)
  note protected = flag_namespaces_protected [OF assms, of w ds]
  show "\<forall>d \<in> set (clearedBy (Some (NamespaceProtected (Some checker) w)) ds). ns \<notin> set (diagnosisNamespaces d)"
    using protected by blast
  assume h: "pr_namespace (sp_personaRef (ra_spec a)) = ns \<and> ns \<noteq> [] \<and> Check checker now w a = Inr res"
  with protected obtain v where v: "checkDenyList checker w a = Some v" "sv_rule v = RuleDenyList"
    by (auto simp: checkDenyList_def NamespaceProtected_def dest: NamespaceDenied_rule)
  from h have "Check checker now w a = Inr res" by simp
  from Check_denied [OF this v(1)] have d: "\<not> sr_allowed res \<and> v \<in> set (sr_violations res)" .
  from d show "\<not> sr_allowed res" by simp
  from d v(2) show "\<exists>v \<in> set (sr_violations res). sv_rule v = RuleDenyList" by blast
qed

theorem configured_namespaces_protected_witness:
  "clearedBy (Some (NamespaceProtected (Some (mainSafetyChecker ex_environment
     (withExcludedNamespaces ''payments, shop '' defaultConfig) (\<lambda>_. Inr []) (\<lambda>_ _ _. Inr []) ex_parse)) ())) [ex_oom] = []"
proof -
  let ?gate = "Some (NamespaceProtected (Some (mainSafetyChecker ex_environment
     (withExcludedNamespaces ''payments, shop '' defaultConfig) (\<lambda>_. Inr []) (\<lambda>_ _ _. Inr []) ex_parse)) ())"
  have "joinWith '','' [''payments'', '' shop ''] = ''payments, shop ''" "trimSpace '' shop '' = ''shop''" by code_simp+
  then have "\<forall>d \<in> set (clearedBy ?gate [ex_oom]). ''shop'' \<notin> set (diagnosisNamespaces d)"
    using configured_namespaces_protected [of "[''payments'', '' shop '']" "''shop''" ex_environment _ defaultConfig _
        "\<lambda>_. Inr []" "\<lambda>_ _ _. Inr []" ex_parse "()" "[ex_oom]", OF _ _ refl refl] by simp
  moreover have "''shop'' \<in> set (diagnosisNamespaces ex_oom)" by (simp add: ex_oom_facts)
  ultimately show ?thesis by (auto simp: clearedBy_def split: if_splits)
qed

end
